(* ===== verification/Prelude.thy ===== *)
theory Prelude
  imports Main "HOL-Library.Word" "HOL-Library.Sublist" "HOL-Library.AList"
begin

text \<open>
  Shared vocabulary of the development: machine words for bytes and UTF-16 code units, string
  literals as JavaScript strings, the result type of code that throws, and the collections of
  rewrite rules the component theories fill.

  A JavaScript function that throws \<open>ContractViolation(code, message)\<close> (or the codec's
  \<open>ProtocolError\<close>) is a function into \<open>'e + 'a\<close>: \<open>Inl\<close> the error, \<open>Inr\<close> the value. The human
  readable \<open>message\<close> (and the \<open>label\<close> arguments that only build it) is not modelled.
\<close>

named_theorems res_simps \<open>inversion of the results of throwing functions\<close>
named_theorems no_throw \<open>validators raise contract violations only\<close>

section \<open>Words, bytes and JavaScript strings\<close>

type_synonym u8 = "8 word"
type_synonym u16 = "16 word"
type_synonym u64 = "64 word"
type_synonym bytes = "u8 list"

lemma unat_u8_less [simp]: "unat (b :: u8) < 256"
proof -
  have "(unat b :: nat) < 2 ^ LENGTH(8)" by (rule unsigned_less)
  then show ?thesis by simp
qed

lemma unat_u16_less [simp]: "unat (u :: u16) < 65536"
proof -
  have "(unat u :: nat) < 2 ^ LENGTH(16)" by (rule unsigned_less)
  then show ?thesis by simp
qed

lemma unat_of_nat_u8 [simp]: "n < 256 \<Longrightarrow> unat (of_nat n :: u8) = n"
  by (simp add: unat_of_nat take_bit_nat_eq_self)

lemma unat_of_nat_u16 [simp]: "n < 65536 \<Longrightarrow> unat (of_nat n :: u16) = n"
  by (simp add: unat_of_nat take_bit_nat_eq_self)

text \<open>A JavaScript string is its sequence of UTF-16 code units.\<close>

type_synonym jstr = "u16 list"

definition js :: "string \<Rightarrow> jstr" where
  "js s = map of_char s"

lemma of_char_u16_inj: "(of_char c :: u16) = of_char d \<longleftrightarrow> c = d"
proof -
  have small: "take_bit 16 (of_char e :: nat) = of_char e" for e :: char
    by (rule take_bit_nat_eq_self) (rule less_trans [OF String.nat_of_char_less_256], simp)
  have via_nat: "(of_char e :: u16) = of_nat (of_char e)" for e :: char
    by (rule of_nat_of_char [symmetric])
  have "(of_char c :: u16) = of_char d \<longleftrightarrow> (of_nat (of_char c) :: u16) = of_nat (of_char d)"
    by (simp only: via_nat)
  also have "\<dots> \<longleftrightarrow> (of_char c :: nat) = of_char d"
    by (simp add: word_of_nat_eq_iff small)
  finally show ?thesis by simp
qed

lemma js_eq_iff [simp]: "js s = js t \<longleftrightarrow> s = t"
  unfolding js_def by (rule inj_map_eq_map) (auto intro: injI simp: of_char_u16_inj)

lemma length_js [simp]: "length (js s) = length s"
  by (simp add: js_def)

lemma js_Nil_iff [simp]: "js s = [] \<longleftrightarrow> s = []" "[] = js s \<longleftrightarrow> s = []"
  by (auto simp: js_def)

section \<open>Results of throwing code\<close>

definition bind_r :: "'e + 'a \<Rightarrow> ('a \<Rightarrow> 'e + 'b) \<Rightarrow> 'e + 'b" where
  "bind_r m f = (case m of Inl e \<Rightarrow> Inl e | Inr x \<Rightarrow> f x)"

lemma bind_r_simps [simp]:
  "bind_r (Inl e) f = Inl e"
  "bind_r (Inr x) f = f x"
  by (simp_all add: bind_r_def)

definition map_r_result :: "('a \<Rightarrow> 'b) \<Rightarrow> 'e + 'a \<Rightarrow> 'e + 'b" where
  "map_r_result f m = bind_r m (\<lambda>x. Inr (f x))"

lemma bind_r_Inr_iff [res_simps]: "bind_r m f = Inr y \<longleftrightarrow> (\<exists>x. m = Inr x \<and> f x = Inr y)"
  by (cases m) auto

lemma bind_r_InrE:
  assumes "bind_r m f = Inr y" obtains x where "m = Inr x" "f x = Inr y"
  using assms by (cases m) auto

lemma bind_r_Inl_iff: "bind_r m f = Inl e \<longleftrightarrow> m = Inl e \<or> (\<exists>x. m = Inr x \<and> f x = Inl e)"
  by (cases m) auto

lemma bind_r_assoc: "bind_r (bind_r m f) g = bind_r m (\<lambda>x. bind_r (f x) g)"
  by (cases m) auto

lemma bind_r_cong [fundef_cong]:
  "m = m' \<Longrightarrow> (\<And>x. m' = Inr x \<Longrightarrow> f x = f' x) \<Longrightarrow> bind_r m f = bind_r m' f'"
  by (cases m') auto

text \<open>\<open>if (bad) fail(code)\<close>: the guard of a throwing function, as an \<open>if\<close> whose then-branch fails.\<close>

lemma if_Inl_eq_Inr [res_simps]: "(if b then Inl e else m) = Inr y \<longleftrightarrow> \<not> b \<and> m = Inr y"
  by auto

text \<open>A loop that calls a throwing function on each element and collects the results.\<close>

fun map_r :: "('a \<Rightarrow> 'e + 'b) \<Rightarrow> 'a list \<Rightarrow> 'e + 'b list" where
  "map_r f [] = Inr []"
| "map_r f (x # xs) = bind_r (f x) (\<lambda>y. bind_r (map_r f xs) (\<lambda>ys. Inr (y # ys)))"

text \<open>The same loop with a mutable variable threaded through it.\<close>

fun fold_r :: "('s \<Rightarrow> 'a \<Rightarrow> 'e + 's) \<Rightarrow> 's \<Rightarrow> 'a list \<Rightarrow> 'e + 's" where
  "fold_r f s [] = Inr s"
| "fold_r f s (x # xs) = bind_r (f s x) (\<lambda>s'. fold_r f s' xs)"

text \<open>\<open>forEach\<close> of a check that yields nothing.\<close>

fun each_r :: "('a \<Rightarrow> 'e + unit) \<Rightarrow> 'a list \<Rightarrow> 'e + unit" where
  "each_r f [] = Inr ()"
| "each_r f (x # xs) = bind_r (f x) (\<lambda>_. each_r f xs)"

lemma map_r_Inr_iff: "map_r f xs = Inr ys \<longleftrightarrow> list_all2 (\<lambda>x y. f x = Inr y) xs ys"
  by (induction xs arbitrary: ys) (auto simp: res_simps list_all2_Cons1)

lemma map_r_Inr_length: "map_r f xs = Inr ys \<Longrightarrow> length ys = length xs"
  by (auto simp: map_r_Inr_iff dest: list_all2_lengthD)

lemma map_r_cong [fundef_cong]:
  "xs = xs' \<Longrightarrow> (\<And>x. x \<in> set xs' \<Longrightarrow> f x = g x) \<Longrightarrow> map_r f xs = map_r g xs'"
  by (induction xs arbitrary: xs') auto

lemma map_r_total: "(\<And>x. x \<in> set xs \<Longrightarrow> f x = Inr (g x)) \<Longrightarrow> map_r f xs = Inr (map g xs)"
  by (induction xs) auto

lemma each_r_Inr_iff [res_simps]: "each_r f xs = Inr u \<longleftrightarrow> (\<forall>x\<in>set xs. f x = Inr ())"
  by (induction xs) (auto simp: res_simps)

lemma fold_r_invariant:
  assumes "fold_r f s xs = Inr t" and "P s"
    and "\<And>s x s'. x \<in> set xs \<Longrightarrow> P s \<Longrightarrow> f s x = Inr s' \<Longrightarrow> P s'"
  shows "P t"
  using assms by (induction xs arbitrary: s) (auto simp: res_simps)

lemma fold_r_append: "fold_r f s (xs @ ys) = bind_r (fold_r f s xs) (\<lambda>t. fold_r f t ys)"
  by (induction xs arbitrary: s) (auto simp: bind_r_assoc)

lemma fold_r_snoc_Inr [res_simps]:
  "fold_r f s (xs @ [x]) = Inr t \<longleftrightarrow> (\<exists>u. fold_r f s xs = Inr u \<and> f u x = Inr t)"
  by (auto simp: fold_r_append bind_r_Inr_iff)

lemma fold_r_error:
  assumes "fold_r f s xs = Inl e" obtains t x where "f t x = Inl e"
  using assms by (induction xs arbitrary: s) (auto simp: bind_r_Inl_iff)

lemma map_r_error:
  assumes "map_r f xs = Inl e" obtains x where "x \<in> set xs" "f x = Inl e"
  using assms by (induction xs) (auto simp: bind_r_Inl_iff)

text \<open>
  \<open>seen\<close>-set duplicate checks: a loop that rejects an element it has met before succeeds exactly on
  lists without duplicates.
\<close>

fun unique_from :: "'e \<Rightarrow> 'a set \<Rightarrow> 'a list \<Rightarrow> 'e + 'a set" where
  "unique_from e seen [] = Inr seen"
| "unique_from e seen (x # xs) =
     (if x \<in> seen then Inl e else unique_from e (insert x seen) xs)"

lemma unique_from_Inr_iff:
  "unique_from e seen xs = Inr t \<longleftrightarrow> distinct xs \<and> set xs \<inter> seen = {} \<and> t = seen \<union> set xs"
  by (induction xs arbitrary: seen) auto

section \<open>Lists and association lists\<close>

lemma map_of_Some_in_keys: "map_of fs k = Some v \<Longrightarrow> k \<in> set (map fst fs)"
  by (force dest: map_of_SomeD)

lemma list_update_keys: "map fst (AList.update k v al) = (if k \<in> fst ` set al then map fst al else map fst al @ [k])"
  by (induction al) auto

lemma length_AList_delete: "length (AList.delete k al) \<le> length al"
  by (induction al) auto

lemma length_AList_update:
  "length (AList.update k v al) = (if k \<in> fst ` set al then length al else Suc (length al))"
  by (induction al) auto

section \<open>State machines\<close>

text \<open>
  A component that reacts to events with a step function: an invariant of the start state that every
  step keeps holds after any sequence of events, and so does a preorder that every step respects.
\<close>

locale event_machine =
  fixes step :: "'e \<Rightarrow> 's \<Rightarrow> 's" and ok :: "'s \<Rightarrow> bool" and start :: 's
  assumes start_ok: "ok start"
    and step_ok: "ok s \<Longrightarrow> ok (step e s)"
begin

lemma run_from_ok: "ok s \<Longrightarrow> ok (fold step es s)"
  by (induction es arbitrary: s) (auto simp: step_ok)

lemma run_ok: "ok (fold step es start)"
  by (rule run_from_ok [OF start_ok])

lemma run_respects:
  assumes "ok s" and "\<And>s. R s s" and "\<And>s t u. R s t \<Longrightarrow> R t u \<Longrightarrow> R s u"
    and "\<And>s e. ok s \<Longrightarrow> R s (step e s)"
  shows "R s (fold step es s)"
  using assms(1)
proof (induction es arbitrary: s)
  case Nil
  then show ?case by (simp add: assms(2))
next
  case (Cons e es)
  then have "R s (step e s)" "R (step e s) (fold step es (step e s))"
    by (auto simp: assms(4) step_ok)
  then show ?case using assms(3) by simp
qed

end

end
