(* ===== verification/Js_Value.thy ===== *)
theory Js_Value
  imports Prelude
begin

text \<open>
  The JavaScript values the validators read: numbers, strings, arrays, plain records, byte arrays,
  and the library operations on them (\<open>Object.keys\<close>, \<open>Object.hasOwn\<close>, \<open>Number.isSafeInteger\<close>,
  \<open>===\<close>, \<open>TextEncoder\<close>, \<open>String.prototype\<close> searches).

  Every object carries an identity, so that a value that is shared or cyclic shows as two
  occurrences of one identity: the \<open>WeakSet\<close> checks of the validators compare identities. A cycle is
  cut at its second occurrence, which is where every traversal of the code stops.
\<close>

section \<open>Numbers\<close>

text \<open>
  A JavaScript number: a double with an integral value (other than minus zero) is \<open>NInt\<close>, minus zero
  is \<open>NNegZero\<close>, a finite double with a fractional part is \<open>NFrac\<close> with its IEEE-754 bit pattern,
  \<open>NInf True\<close> is minus infinity.
\<close>

datatype jnum = NInt int | NNegZero | NFrac u64 | NInf bool | NNaN

definition max_safe_integer :: int where
  "max_safe_integer = 9007199254740991"

fun num_is_finite :: "jnum \<Rightarrow> bool" where
  "num_is_finite (NInf _) = False"
| "num_is_finite NNaN = False"
| "num_is_finite _ = True"

fun num_is_integer :: "jnum \<Rightarrow> bool" where
  "num_is_integer (NInt _) = True"
| "num_is_integer NNegZero = True"
| "num_is_integer _ = False"

fun num_is_safe_integer :: "jnum \<Rightarrow> bool" where
  "num_is_safe_integer (NInt i) = (- max_safe_integer \<le> i \<and> i \<le> max_safe_integer)"
| "num_is_safe_integer NNegZero = True"
| "num_is_safe_integer _ = False"

text \<open>The mathematical value of an integral number.\<close>

fun num_int :: "jnum \<Rightarrow> int" where
  "num_int (NInt i) = i"
| "num_int _ = 0"

text \<open>\<open>===\<close> on numbers: both zeros are equal, \<open>NaN\<close> equals nothing.\<close>

fun num_eq :: "jnum \<Rightarrow> jnum \<Rightarrow> bool" where
  "num_eq NNaN _ = False"
| "num_eq _ NNaN = False"
| "num_eq NNegZero n = (n = NNegZero \<or> n = NInt 0)"
| "num_eq n NNegZero = (n = NInt 0)"
| "num_eq m n = (m = n)"

text \<open>Comparisons of a double with 0 and 1, from its sign bit and its magnitude.\<close>

definition frac_negative :: "u64 \<Rightarrow> bool" where
  "frac_negative b \<longleftrightarrow> 0x8000000000000000 \<le> b"

fun num_less_0 :: "jnum \<Rightarrow> bool" where
  "num_less_0 (NInt i) = (i < 0)"
| "num_less_0 (NFrac b) = frac_negative b"
| "num_less_0 (NInf neg) = neg"
| "num_less_0 _ = False"

fun num_greater_1 :: "jnum \<Rightarrow> bool" where
  "num_greater_1 (NInt i) = (i > 1)"
| "num_greater_1 (NFrac b) = (\<not> frac_negative b \<and> b > 0x3FF0000000000000)"
| "num_greater_1 (NInf neg) = (\<not> neg)"
| "num_greater_1 _ = False"

section \<open>Values\<close>

text \<open>
  \<open>JArr oid items extra\<close> is an array with its holes (\<open>None\<close>) and its named own properties;
  \<open>JRec oid fields\<close> is a plain record (prototype \<open>Object.prototype\<close> or \<open>null\<close>) with its own
  enumerable properties in order; \<open>JBytes\<close> is a \<open>Uint8Array\<close>, \<open>JBuffer\<close> an \<open>ArrayBuffer\<close>; \<open>JOther\<close> is
  anything else (functions, symbols, bigints, instances of classes).
\<close>

datatype jsval =
    JUndef
  | JNull
  | JBool bool
  | JNum jnum
  | JStr jstr
  | JBytes bytes
  | JBuffer bytes
  | JArr nat "jsval option list" "(jstr \<times> jsval) list"
  | JRec nat "(jstr \<times> jsval) list"
  | JOther

text \<open>\<open>if (typeof v !== 'string') fail(e)\<close> and its relatives, inverted.\<close>

lemma case_type_Inr [res_simps]:
  "(case v of JStr s \<Rightarrow> f s | _ \<Rightarrow> Inl e) = Inr y \<longleftrightarrow> (\<exists>s. v = JStr s \<and> f s = Inr y)"
  "(case v of JBool b \<Rightarrow> g b | _ \<Rightarrow> Inl e) = Inr y \<longleftrightarrow> (\<exists>b. v = JBool b \<and> g b = Inr y)"
  "(case v of JNum n \<Rightarrow> h n | _ \<Rightarrow> Inl e) = Inr y \<longleftrightarrow> (\<exists>n. v = JNum n \<and> h n = Inr y)"
  "(case v of JRec oid fs \<Rightarrow> k oid fs | _ \<Rightarrow> Inl e) = Inr y \<longleftrightarrow> (\<exists>oid fs. v = JRec oid fs \<and> k oid fs = Inr y)"
  "(case v of JBuffer bs \<Rightarrow> m bs | _ \<Rightarrow> Inl e) = Inr y \<longleftrightarrow> (\<exists>bs. v = JBuffer bs \<and> m bs = Inr y)"
  by (auto split: jsval.splits)

type_synonym fields = "(jstr \<times> jsval) list"

fun is_plain_record :: "jsval \<Rightarrow> bool" where
  "is_plain_record (JRec _ _) = True"
| "is_plain_record _ = False"

definition has_own :: "fields \<Rightarrow> jstr \<Rightarrow> bool" where
  "has_own fs k \<longleftrightarrow> k \<in> set (map fst fs)"

text \<open>\<open>record.name\<close> of an own property, \<open>undefined\<close> when there is none.\<close>

definition get :: "fields \<Rightarrow> string \<Rightarrow> jsval" where
  "get fs k = (case map_of fs (js k) of None \<Rightarrow> JUndef | Some v \<Rightarrow> v)"

lemma get_Nil [simp]: "get [] k = JUndef"
  by (simp add: get_def)

lemma get_Cons [simp]: "get ((js a, v) # fs) k = (if a = k then v else get fs k)"
  by (simp add: get_def)

lemma has_own_Nil [simp]: "\<not> has_own [] k"
  by (simp add: has_own_def)

lemma has_own_Cons [simp]: "has_own ((a, v) # fs) k \<longleftrightarrow> a = k \<or> has_own fs k"
  by (auto simp: has_own_def)

lemma get_not_undef_has_own: "get fs k \<noteq> JUndef \<Longrightarrow> has_own fs (js k)"
  by (auto simp: get_def has_own_def split: option.splits dest: map_of_SomeD)
     (force dest: map_of_SomeD)

definition strict_eq_str :: "jsval \<Rightarrow> jstr \<Rightarrow> bool" where
  "strict_eq_str v s \<longleftrightarrow> v = JStr s"

definition strict_eq_int :: "jsval \<Rightarrow> int \<Rightarrow> bool" where
  "strict_eq_int v i = (case v of JNum n \<Rightarrow> num_eq n (NInt i) | _ \<Rightarrow> False)"

text \<open>\<open>Object.keys\<close> of an array: the indices present, in order, then its named properties.\<close>

datatype pkey = Index nat | Named jstr

definition array_keys :: "jsval option list \<Rightarrow> fields \<Rightarrow> pkey list" where
  "array_keys items extra =
     map (\<lambda>i. Index i) (filter (\<lambda>i. items ! i \<noteq> None) [0..<length items]) @ map (Named \<circ> fst) extra"

section \<open>Strings\<close>

definition starts_with :: "jstr \<Rightarrow> jstr \<Rightarrow> bool" where
  "starts_with s p \<longleftrightarrow> prefix p s"

definition ends_with :: "jstr \<Rightarrow> jstr \<Rightarrow> bool" where
  "ends_with s p \<longleftrightarrow> suffix p s"

definition jincludes :: "jstr \<Rightarrow> jstr \<Rightarrow> bool" where
  "jincludes s p \<longleftrightarrow> sublist p s"

text \<open>\<open>s.slice(0, -n)\<close>.\<close>

definition drop_end :: "nat \<Rightarrow> jstr \<Rightarrow> jstr" where
  "drop_end n s = take (length s - n) s"

text \<open>\<open>/\p{Cc}/u\<close>: the control characters, all of them single code units.\<close>

definition is_control :: "u16 \<Rightarrow> bool" where
  "is_control u \<longleftrightarrow> u \<le> 0x1F \<or> (0x7F \<le> u \<and> u \<le> 0x9F)"

definition has_control :: "jstr \<Rightarrow> bool" where
  "has_control s \<longleftrightarrow> (\<exists>u\<in>set s. is_control u)"

definition is_digit :: "u16 \<Rightarrow> bool" where
  "is_digit u \<longleftrightarrow> 0x30 \<le> u \<and> u \<le> 0x39"

definition is_upper :: "u16 \<Rightarrow> bool" where
  "is_upper u \<longleftrightarrow> 0x41 \<le> u \<and> u \<le> 0x5A"

definition is_lower :: "u16 \<Rightarrow> bool" where
  "is_lower u \<longleftrightarrow> 0x61 \<le> u \<and> u \<le> 0x7A"

definition is_letter :: "u16 \<Rightarrow> bool" where
  "is_letter u \<longleftrightarrow> is_upper u \<or> is_lower u"

section \<open>UTF-8\<close>

definition is_high_surrogate :: "u16 \<Rightarrow> bool" where
  "is_high_surrogate u \<longleftrightarrow> 0xD800 \<le> u \<and> u \<le> 0xDBFF"

definition is_low_surrogate :: "u16 \<Rightarrow> bool" where
  "is_low_surrogate u \<longleftrightarrow> 0xDC00 \<le> u \<and> u \<le> 0xDFFF"

definition surrogate_pair :: "u16 \<Rightarrow> u16 \<Rightarrow> nat" where
  "surrogate_pair hi lo = 0x10000 + (unat hi - 0xD800) * 0x400 + (unat lo - 0xDC00)"

text \<open>
  The code points of a string as \<open>TextEncoder\<close> reads them: an unpaired surrogate becomes U+FFFD.
\<close>

fun code_points :: "jstr \<Rightarrow> nat list" where
  "code_points [] = []"
| "code_points [u] =
     [if is_high_surrogate u \<or> is_low_surrogate u then 0xFFFD else unat u]"
| "code_points (u # v # s) =
     (if is_high_surrogate u then
        (if is_low_surrogate v then surrogate_pair u v # code_points s
         else 0xFFFD # code_points (v # s))
      else if is_low_surrogate u then 0xFFFD # code_points (v # s)
      else unat u # code_points (v # s))"

text \<open>The UTF-8 encoding of one code point.\<close>

definition utf8_char :: "nat \<Rightarrow> bytes" where
  "utf8_char c =
     (if c < 0x80 then [of_nat c]
      else if c < 0x800 then [of_nat (0xC0 + c div 64), of_nat (0x80 + c mod 64)]
      else if c < 0x10000 then
        [of_nat (0xE0 + c div 4096), of_nat (0x80 + c div 64 mod 64), of_nat (0x80 + c mod 64)]
      else
        [of_nat (0xF0 + c div 262144), of_nat (0x80 + c div 4096 mod 64),
         of_nat (0x80 + c div 64 mod 64), of_nat (0x80 + c mod 64)])"

definition utf8_encode :: "jstr \<Rightarrow> bytes" where
  "utf8_encode s = concat (map utf8_char (code_points s))"

definition utf8_bytes :: "jstr \<Rightarrow> nat" where
  "utf8_bytes s = length (utf8_encode s)"

lemma utf8_char_length: "Suc 0 \<le> length (utf8_char c)" "length (utf8_char c) \<le> 4"
  by (auto simp: utf8_char_def)

lemma utf8_bytes_Nil [simp]: "utf8_bytes [] = 0"
  by (simp add: utf8_bytes_def utf8_encode_def)

lemma utf8_char_pair_length: "4 \<le> length (utf8_char (surrogate_pair u v))"
  by (simp add: utf8_char_def surrogate_pair_def)

text \<open>A string never has more code units than UTF-8 bytes.\<close>

lemma length_le_utf8_bytes: "length s \<le> utf8_bytes s"
proof (induction s rule: code_points.induct)
  case 1
  then show ?case by simp
next
  case (2 u)
  then show ?case by (simp add: utf8_bytes_def utf8_encode_def utf8_char_length)
next
  case (3 u v s)
  have step: "Suc 0 \<le> length (utf8_char c)" for c by (rule utf8_char_length)
  have pair: "4 \<le> length (utf8_char (surrogate_pair u v))" by (rule utf8_char_pair_length)
  show ?case
    using 3 step [of "0xFFFD"] step [of "unat u"] pair
    by (cases "is_high_surrogate u") (auto simp: utf8_bytes_def utf8_encode_def)
qed

text \<open>ASCII strings have one byte per code unit.\<close>

lemma code_points_ascii: "\<forall>u\<in>set s. u < 0x80 \<Longrightarrow> code_points s = map unat s"
proof (induction s rule: code_points.induct)
  case (2 u)
  then show ?case
    by (auto simp: is_high_surrogate_def is_low_surrogate_def word_less_nat_alt word_le_nat_alt)
next
  case (3 u v s)
  have "\<not> is_high_surrogate u" "\<not> is_low_surrogate u"
    using "3.prems" by (auto simp: is_high_surrogate_def is_low_surrogate_def word_less_nat_alt word_le_nat_alt)
  with 3 show ?case by auto
qed simp

lemma utf8_encode_ascii: "\<forall>u\<in>set s. u < 0x80 \<Longrightarrow> utf8_encode s = map (\<lambda>u. of_nat (unat u)) s"
proof -
  assume ascii: "\<forall>u\<in>set s. u < 0x80"
  then have "concat (map utf8_char (map unat s)) = map (\<lambda>u. of_nat (unat u)) s"
    by (induction s) (auto simp: utf8_char_def word_less_nat_alt)
  with ascii show ?thesis by (simp add: utf8_encode_def code_points_ascii)
qed

lemma utf8_bytes_ascii: "\<forall>u\<in>set s. u < 0x80 \<Longrightarrow> utf8_bytes s = length s"
  by (simp add: utf8_bytes_def utf8_encode_ascii)

section \<open>\<open>String(value)\<close>\<close>

text \<open>
  Converting an object to a string calls its \<open>toString\<close>. Data that was decoded or cloned has no
  functions, so an own \<open>toString\<close> hides the inherited one without replacing it and the conversion
  throws a \<open>TypeError\<close>; an array converts its elements, unless an own \<open>join\<close> hides the inherited one.
\<close>

fun string_throws :: "jsval \<Rightarrow> bool" where
  "string_throws (JRec _ fs) = has_own fs (js ''toString'')"
| "string_throws (JArr _ items extra) =
     (has_own extra (js ''toString'')
      \<or> (\<not> has_own extra (js ''join'')
          \<and> list_ex (\<lambda>item. case item of None \<Rightarrow> False | Some v \<Rightarrow> string_throws v) items))"
| "string_throws _ = False"

text \<open>
  \<open>String(value) === word\<close> for a word of letters that is no literal of the language: only the word
  itself, or an array whose single element spells it.
\<close>

fun spells :: "jsval \<Rightarrow> jstr \<Rightarrow> bool" where
  "spells (JStr s) word = (s = word)"
| "spells (JArr _ [Some v] extra) word =
     (\<not> has_own extra (js ''toString'') \<and> \<not> has_own extra (js ''join'') \<and> spells v word)"
| "spells _ word = False"

end
