(* ===== verification/Capability.thy ===== *)
theory Capability
  imports Contract
begin

text \<open>
  What the checks of \<open>contract.ts\<close> mean: arrays are dense exactly when every item is present and no
  named property exists, a resource name is a list of non-empty dotted segments, and a capability
  pattern grants a name by segments. The locale \<open>name_grants\<close> is the contract every component that
  checks capabilities relies on.
\<close>

section \<open>Dense arrays\<close>

lemma array_keys_dense:
  assumes "length (array_keys items extra) = length items"
    and "\<forall>i < length (array_keys items extra). array_keys items extra ! i = Index i"
  shows "extra = [] \<and> (\<forall>x\<in>set items. x \<noteq> None)"
proof -
  let ?present = "filter (\<lambda>i. items ! i \<noteq> None) [0..<length items]"
  have keys: "array_keys items extra = map Index ?present @ map (Named \<circ> fst) extra"
    by (simp add: array_keys_def)
  have no_extra: "extra = []"
  proof (rule ccontr)
    assume "extra \<noteq> []"
    then obtain e es where "extra = e # es" by (cases extra) auto
    then have "Named (fst e) \<in> set (array_keys items extra)"
      by (simp add: array_keys_def)
    then obtain i where "i < length (array_keys items extra)"
      and "array_keys items extra ! i = Named (fst e)"
      by (auto simp: in_set_conv_nth)
    with assms(2) show False by simp
  qed
  with keys assms(1) have "length ?present = length [0..<length items]" by simp
  then have "\<forall>i\<in>set [0..<length items]. items ! i \<noteq> None"
    using length_filter_less [of _ "[0..<length items]" "\<lambda>i. items ! i \<noteq> None"]
    by (metis less_irrefl)
  with no_extra show ?thesis by (auto simp: in_set_conv_nth)
qed

lemma dense_array_Inr_iff [res_simps]:
  "dense_array value m code = Inr xs \<longleftrightarrow>
     length xs \<le> m \<and> (\<exists>oid. value = JArr oid (map Some xs) [])"
proof -
  have keys: "array_keys (map Some ys) [] = map Index [0..<length ys]" for ys :: "jsval list"
    by (auto simp: array_keys_def intro!: arg_cong [where f = "map Index"] filter_True)
  have recover: "items = map Some (map (case_option JUndef id) items)"
    if "\<forall>x\<in>set items. x \<noteq> None" for items :: "jsval option list"
    using that by (induction items) auto
  have restore: "map (case_option JUndef id) (map Some ys) = ys" for ys :: "jsval list"
    by (induction ys) auto
  show ?thesis
  proof
    assume l: "dense_array value m code = Inr xs"
    then obtain oid items extra where v: "value = JArr oid items extra"
      by (auto simp: dense_array_def split: jsval.splits)
    with l have len: "length items \<le> m"
      and k: "length (array_keys items extra) = length items"
      and idx: "\<forall>i < length (array_keys items extra). array_keys items extra ! i = Index i"
      and xs: "xs = map (case_option JUndef id) items"
      by (auto simp: dense_array_def Let_def split: if_splits)
    from array_keys_dense [OF k idx] recover [of items] xs v len
    show "length xs \<le> m \<and> (\<exists>oid. value = JArr oid (map Some xs) [])" by auto
  next
    assume "length xs \<le> m \<and> (\<exists>oid. value = JArr oid (map Some xs) [])"
    then show "dense_array value m code = Inr xs"
      using restore [of xs] by (auto simp: dense_array_def keys)
  qed
qed

section \<open>Inversion of the field validators\<close>

lemma exact_object_Inr_iff:
  "exact_object value req opt = Inr fs \<longleftrightarrow>
     (\<exists>oid. value = JRec oid fs)
     \<and> (\<forall>k\<in>fst ` set fs. \<not> forbidden_key k \<and> k \<in> js ` set (req @ opt))
     \<and> (\<forall>k\<in>set req. has_own fs (js k))"
  by (cases "value") (auto simp: exact_object_def own_keys_def res_simps has_own_def)

lemma bounded_string_Inr_iff [res_simps]:
  "bounded_string value m = Inr s \<longleftrightarrow>
     value = JStr s \<and> s \<noteq> [] \<and> \<not> has_control s \<and> utf8_bytes s \<le> m"
  by (cases "value") (auto simp: bounded_string_def)

lemma optional_string_Inr_iff [res_simps]:
  "optional_string value m = Inr r \<longleftrightarrow>
     (value = JUndef \<and> r = None) \<or> (\<exists>s. r = Some s \<and> bounded_string value m = Inr s)"
  by (auto simp: optional_string_def res_simps)

lemma safe_positive_integer_Inr_iff [res_simps]:
  "safe_positive_integer value = Inr i \<longleftrightarrow>
     value = JNum (NInt i) \<and> 0 < i \<and> i \<le> max_safe_integer"
proof (cases "value")
  case (JNum n)
  then show ?thesis
    by (cases n) (auto simp: safe_positive_integer_def max_safe_integer_def)
qed (auto simp: safe_positive_integer_def)

text \<open>The validators raise contract violations only, never an exception of another class.\<close>

lemma field_validators_no_throw [no_throw, simp]:
  "exact_object v req opt \<noteq> Inl ThrownTypeError"
  "code \<noteq> ThrownTypeError \<Longrightarrow> dense_array v m code \<noteq> Inl ThrownTypeError"
  "bounded_string v m \<noteq> Inl ThrownTypeError"
  "optional_string v m \<noteq> Inl ThrownTypeError"
  "safe_positive_integer v \<noteq> Inl ThrownTypeError"
  "finite_number v \<noteq> Inl ThrownTypeError"
  by (auto simp: exact_object_def own_keys_def dense_array_def bounded_string_def optional_string_def
      safe_positive_integer_def finite_number_def bind_r_Inl_iff Let_def
      split: jsval.splits if_splits)

lemma resource_validators_no_throw [no_throw, simp]:
  "validate_resource_name v \<noteq> Inl ThrownTypeError"
  "validate_capability_pattern v \<noteq> Inl ThrownTypeError"
  by (auto simp: validate_resource_name_def validate_capability_pattern_def bind_r_Inl_iff split: if_splits)

lemma requirement_validators_no_throw [no_throw, simp]:
  "validate_requirement_list v \<noteq> Inl ThrownTypeError"
  "validate_requirements v \<noteq> Inl ThrownTypeError"
proof -
  show list: "validate_requirement_list w \<noteq> Inl ThrownTypeError" for w
    by (auto simp: validate_requirement_list_def bind_r_Inl_iff elim!: fold_r_error split: if_splits)
  show "validate_requirements v \<noteq> Inl ThrownTypeError"
    by (auto simp: validate_requirements_def bind_r_Inl_iff list split: if_splits)
qed

section \<open>Dotted segments\<close>

fun split_on :: "'a \<Rightarrow> 'a list \<Rightarrow> 'a list list" where
  "split_on sep [] = [[]]"
| "split_on sep (x # xs) =
     (if x = sep then [] # split_on sep xs
      else (x # hd (split_on sep xs)) # tl (split_on sep xs))"

definition dot :: u16 where
  "dot = 0x2E"

definition segments :: "jstr \<Rightarrow> jstr list" where
  "segments s = split_on dot s"

lemma split_on_not_Nil [simp]: "split_on sep xs \<noteq> []"
  by (cases xs) auto

lemma split_on_append_sep: "split_on sep (xs @ sep # ys) = split_on sep xs @ split_on sep ys"
  by (induction xs) auto

lemma length_split_on_pos [simp]: "0 < length (split_on sep xs)"
  by simp

lemma length_split_on: "length (split_on sep xs) = Suc (count_list xs sep)"
  by (induction xs) auto

text \<open>A cut of the segment list is a cut of the string at a separator.\<close>

lemma split_on_prefixE:
  assumes "split_on sep xs = as @ bs" and "as \<noteq> []" and "bs \<noteq> []"
  obtains us vs where "xs = us @ sep # vs" and "split_on sep us = as" and "split_on sep vs = bs"
  using assms
proof (induction xs arbitrary: as thesis)
  case Nil
  then show ?case by (cases as) auto
next
  case (Cons x xs)
  show ?case
  proof (cases "x = sep")
    case True
    with Cons.prems obtain as' where as: "as = [] # as'" and rest: "split_on sep xs = as' @ bs"
      by (cases as) auto
    show ?thesis
    proof (cases "as' = []")
      case True
      with as rest \<open>x = sep\<close> show ?thesis by (intro Cons.prems(1) [of "[]" xs]) auto
    next
      case False
      from Cons.IH [OF _ rest False Cons.prems(4)] obtain us vs
        where "xs = us @ sep # vs" "split_on sep us = as'" "split_on sep vs = bs" by blast
      with as \<open>x = sep\<close> show ?thesis by (intro Cons.prems(1) [of "x # us" vs]) auto
    qed
  next
    case False
    with Cons.prems obtain a as' where as: "as = (x # a) # as'"
      and rest: "split_on sep xs = (a # as') @ bs"
      by (cases as) (auto, metis list.collapse split_on_not_Nil)
    from Cons.IH [OF _ rest _ Cons.prems(4)] obtain us vs
      where "xs = us @ sep # vs" "split_on sep us = a # as'" "split_on sep vs = bs" by blast
    with as False show ?thesis by (intro Cons.prems(1) [of "x # us" vs]) auto
  qed
qed

fun join_on :: "'a \<Rightarrow> 'a list list \<Rightarrow> 'a list" where
  "join_on sep [] = []"
| "join_on sep [a] = a"
| "join_on sep (a # b # as) = a @ sep # join_on sep (b # as)"

lemma join_on_Cons_item: "join_on sep ((x # a) # as) = x # join_on sep (a # as)"
  by (cases as) auto

lemma join_split [simp]: "join_on sep (split_on sep xs) = xs"
proof (induction xs)
  case (Cons x xs)
  obtain a as where split: "split_on sep xs = a # as" by (cases "split_on sep xs") auto
  with Cons show ?case by (simp add: join_on_Cons_item)
qed simp

lemma split_on_inj: "split_on sep xs = split_on sep ys \<Longrightarrow> xs = ys"
  by (metis join_split)

lemma strict_prefix_split_iff:
  "strict_prefix (split_on sep base) (split_on sep xs) \<longleftrightarrow> prefix (base @ [sep]) xs"
proof
  assume "strict_prefix (split_on sep base) (split_on sep xs)"
  then obtain bs where "split_on sep xs = split_on sep base @ bs" "bs \<noteq> []"
    by (auto simp: strict_prefix_def prefix_def)
  then obtain us vs where "xs = us @ sep # vs" "split_on sep us = split_on sep base"
    by (auto elim: split_on_prefixE)
  then have "xs = (base @ [sep]) @ vs" using split_on_inj by auto
  then show "prefix (base @ [sep]) xs" by (metis prefixI)
next
  assume "prefix (base @ [sep]) xs"
  then obtain vs where "xs = base @ sep # vs" by (auto simp: prefix_def)
  then show "strict_prefix (split_on sep base) (split_on sep xs)"
    by (simp add: split_on_append_sep strict_prefix_def)
qed

lemma hd_split_on_empty:
  "hd (split_on sep xs) = [] \<longleftrightarrow> xs = [] \<or> prefix [sep] xs"
  "[] = hd (split_on sep xs) \<longleftrightarrow> xs = [] \<or> prefix [sep] xs"
  by (cases xs; auto)+

lemma empty_later_segment:
  "[] \<in> set (tl (split_on sep xs)) \<longleftrightarrow> suffix [sep] xs \<or> sublist [sep, sep] xs"
proof (induction xs)
  case (Cons x xs)
  have split_set: "set (split_on sep xs) = insert (hd (split_on sep xs)) (set (tl (split_on sep xs)))"
    by (metis list.collapse list.set(2) split_on_not_Nil)
  show ?case
    using Cons by (auto simp: split_set hd_split_on_empty suffix_Cons sublist_Cons_right)
qed simp

lemma segments_nonempty_iff:
  "(\<forall>seg\<in>set (split_on sep xs). seg \<noteq> []) \<longleftrightarrow>
     xs \<noteq> [] \<and> \<not> prefix [sep] xs \<and> \<not> suffix [sep] xs \<and> \<not> sublist [sep, sep] xs"
proof -
  have "set (split_on sep xs) = insert (hd (split_on sep xs)) (set (tl (split_on sep xs)))"
    by (metis list.collapse list.set(2) split_on_not_Nil)
  then show ?thesis
    using empty_later_segment [of sep xs] hd_split_on_empty [of sep xs] by auto
qed

section \<open>Resource names\<close>

definition resource_name_ok :: "jstr \<Rightarrow> bool" where
  "resource_name_ok s \<longleftrightarrow>
     (\<forall>seg\<in>set (segments s). seg \<noteq> []) \<and> 0x2A \<notin> set s \<and> \<not> has_control s \<and> utf8_bytes s \<le> 256"

lemma js_chars [simp]:
  "js ''*'' = [0x2A]" "js ''.'' = [dot]" "js ''..'' = [dot, dot]"
  by (simp_all add: js_def dot_def)

lemma js_wildcard: "js ''.*'' = [dot, 0x2A]"
  by (simp add: js_def dot_def)

lemma sublist_singleton: "sublist [x] xs \<longleftrightarrow> x \<in> set xs"
  by (induction xs) (auto simp: sublist_Cons_right)

lemma validate_resource_name_Inr_iff [res_simps]:
  "validate_resource_name value = Inr s \<longleftrightarrow> value = JStr s \<and> resource_name_ok s"
  by (auto simp: validate_resource_name_def res_simps resource_name_ok_def segments_def
      segments_nonempty_iff starts_with_def ends_with_def jincludes_def sublist_singleton)

section \<open>Capability patterns\<close>

lemma ends_with_wildcard_iff: "ends_with p (js ''.*'') \<longleftrightarrow> (\<exists>base. p = base @ js ''.*'')"
  by (auto simp: ends_with_def suffix_def)

lemma ends_with_append [simp]: "ends_with (base @ s) s"
  by (simp add: ends_with_def suffix_def)

lemma drop_end_append [simp]: "drop_end 2 (base @ js ''.*'') = base"
  by (simp add: drop_end_def)

text \<open>The meaning of a pattern: the exact name, or the names whose segments extend its base.\<close>

definition pattern_denotes :: "jstr \<Rightarrow> jstr \<Rightarrow> bool" where
  "pattern_denotes p r \<longleftrightarrow>
     p = r \<or> (\<exists>base. p = base @ js ''.*'' \<and> strict_prefix (segments base) (segments r))"

lemma pattern_matches_iff: "pattern_matches p r \<longleftrightarrow> pattern_denotes p r"
  unfolding pattern_matches_def pattern_denotes_def segments_def strict_prefix_split_iff
    ends_with_wildcard_iff starts_with_def
  by auto

lemma is_capability_granted_Inr_iff [res_simps]:
  "is_capability_granted ps r = Inr b \<longleftrightarrow>
     resource_name_ok r \<and> b = (\<exists>p\<in>set ps. pattern_denotes p r)"
  by (auto simp: is_capability_granted_def res_simps pattern_matches_iff)

lemma is_capability_granted_True_iff:
  "is_capability_granted ps r = Inr True \<longleftrightarrow>
     resource_name_ok r \<and> (\<exists>p\<in>set ps. pattern_denotes p r)"
  by (auto simp: res_simps)

lemma is_pattern_covered_True:
  "is_pattern_covered qs p = Inr True \<Longrightarrow>
     p \<in> set qs \<or> (\<exists>q\<in>set qs. pattern_denotes q p)
     \<or> (\<exists>base. p = base @ js ''.*'' \<and> (\<exists>q\<in>set qs. \<exists>base'. q = base' @ js ''.*''
            \<and> strict_prefix (segments base') (segments base)))"
proof (cases "ends_with p (js ''.*'')")
  case True
  assume cov: "is_pattern_covered qs p = Inr True"
  from True obtain base where p: "p = base @ js ''.*''"
    unfolding ends_with_wildcard_iff by blast
  from cov True p obtain q where q: "q \<in> set qs"
    and m: "q = p \<or> (ends_with q (js ''.*'') \<and> starts_with base (drop_end 2 q @ js ''.''))"
    by (auto simp: is_pattern_covered_def res_simps)
  show ?thesis
  proof (cases "q = p")
    case True
    with q show ?thesis by simp
  next
    case False
    with m obtain base' where "q = base' @ js ''.*''" "starts_with base (base' @ js ''.'')"
      by (auto simp: ends_with_wildcard_iff)
    then have "strict_prefix (segments base') (segments base)"
      by (simp add: segments_def strict_prefix_split_iff starts_with_def)
    with q p \<open>q = base' @ js ''.*''\<close> show ?thesis by blast
  qed
next
  case False
  assume "is_pattern_covered qs p = Inr True"
  with False show ?thesis by (auto simp: is_pattern_covered_def res_simps)
qed

lemma pattern_denotes_trans:
  assumes "pattern_denotes p r" and "p = base @ js ''.*''"
    and "strict_prefix (segments base') (segments base)" and "resource_name_ok r"
  shows "pattern_denotes (base' @ js ''.*'') r"
proof -
  have "strict_prefix (segments base) (segments r)"
  proof (cases "p = r")
    case True
    with assms(2,4) have "0x2A \<notin> set (base @ [dot, 0x2A])"
      by (simp add: resource_name_ok_def js_wildcard)
    then show ?thesis by simp
  next
    case False
    with assms(1,2) show ?thesis by (auto simp: pattern_denotes_def)
  qed
  with assms(3) have "strict_prefix (segments base') (segments r)"
    by (auto simp: strict_prefix_def)
  then show ?thesis by (auto simp: pattern_denotes_def)
qed

section \<open>The contract of a grant check\<close>

text \<open>
  What the brokers and hosts rely on: a check that answers for every well-formed name and rejects
  every other, that only looks for one admitting pattern, and a coverage test under which a
  narrower list never admits more than the list that covers it.
\<close>

locale name_grants =
  fixes grants :: "jstr list \<Rightarrow> jstr \<Rightarrow> bool res"
    and covers :: "jstr list \<Rightarrow> jstr \<Rightarrow> bool res"
    and well_named :: "jstr \<Rightarrow> bool"
  assumes grants_answers: "well_named r \<Longrightarrow> \<exists>b. grants ps r = Inr b"
    and grants_well_named: "grants ps r = Inr b \<Longrightarrow> well_named r"
    and grants_any: "grants ps r = Inr True \<longleftrightarrow> (\<exists>p\<in>set ps. grants [p] r = Inr True)"
    and covers_sound: "covers qs p = Inr True \<Longrightarrow> grants [p] r = Inr True \<Longrightarrow> grants qs r = Inr True"
begin

lemma nothing_granted: "grants [] r \<noteq> Inr True"
  using grants_any [of "[]" r] by simp

lemma granted_mono: "set ps \<subseteq> set qs \<Longrightarrow> grants ps r = Inr True \<Longrightarrow> grants qs r = Inr True"
  using grants_any [of ps r] grants_any [of qs r] by auto

lemma covered_list:
  assumes "\<forall>p\<in>set ps. covers qs p = Inr True" and "grants ps r = Inr True"
  shows "grants qs r = Inr True"
  using assms grants_any [of ps r] covers_sound by blast

lemma malformed_never_granted: "\<not> well_named r \<Longrightarrow> \<exists>e. grants ps r = Inl e"
  using grants_well_named by (cases "grants ps r") auto

end

interpretation caps: name_grants is_capability_granted is_pattern_covered resource_name_ok
proof unfold_locales
  fix qs p r
  assume cov: "is_pattern_covered qs p = Inr True" and "is_capability_granted [p] r = Inr True"
  then have ok: "resource_name_ok r" and den: "pattern_denotes p r"
    by (auto simp: is_capability_granted_True_iff)
  have "\<exists>q\<in>set qs. pattern_denotes q r"
    using is_pattern_covered_True [OF cov]
  proof (elim disjE exE bexE conjE)
    assume "p \<in> set qs"
    with den show ?thesis by blast
  next
    fix q assume q: "q \<in> set qs" "pattern_denotes q p"
    show ?thesis
    proof (cases "p = r")
      case True
      with q show ?thesis by blast
    next
      case False
      with den obtain base where base: "p = base @ js ''.*''" by (auto simp: pattern_denotes_def)
      from q(2) show ?thesis
      proof (cases "q = p")
        case True
        with q den show ?thesis by blast
      next
        case False
        with q(2) obtain base' where q': "q = base' @ js ''.*''"
          "strict_prefix (segments base') (segments p)" by (auto simp: pattern_denotes_def)
        have "segments p = segments base @ [[0x2A]]"
          unfolding segments_def base js_wildcard
          using split_on_append_sep [of dot base "[0x2A]"] by (simp add: dot_def)
        with q'(2) have "prefix (segments base') (segments base)"
          by (auto simp: strict_prefix_def)
        then consider "segments base' = segments base"
          | "strict_prefix (segments base') (segments base)" by (auto simp: strict_prefix_def)
        then have "pattern_denotes q r"
        proof cases
          case 1
          then have "base' = base" unfolding segments_def by (rule split_on_inj)
          with q' base den show ?thesis by simp
        next
          case 2
          from pattern_denotes_trans [OF den base 2 ok] q'(1) show ?thesis by simp
        qed
        with q show ?thesis by blast
      qed
    qed
  next
    fix base q base'
    assume "p = base @ js ''.*''" "q \<in> set qs" "q = base' @ js ''.*''"
      "strict_prefix (segments base') (segments base)"
    with pattern_denotes_trans [OF den _ _ ok] show ?thesis by blast
  qed
  with ok show "is_capability_granted qs r = Inr True"
    by (simp add: is_capability_granted_True_iff)
qed (auto simp: is_capability_granted_True_iff is_capability_granted_Inr_iff)

section \<open>Requirement lists\<close>

definition pattern_ok :: "jstr \<Rightarrow> bool" where
  "pattern_ok p \<longleftrightarrow>
     resource_name_ok p \<or> (\<exists>base. p = base @ js ''.*'' \<and> resource_name_ok base
                            \<and> utf8_bytes p \<le> 258)"

lemma resource_name_ok_no_wildcard: "resource_name_ok s \<Longrightarrow> \<not> ends_with s (js ''.*'')"
  unfolding ends_with_wildcard_iff by (auto simp: resource_name_ok_def js_wildcard)

lemma has_control_append [simp]: "has_control (s @ t) \<longleftrightarrow> has_control s \<or> has_control t"
  by (auto simp: has_control_def)

lemma resource_name_ok_bounds: "resource_name_ok s \<Longrightarrow> s \<noteq> [] \<and> \<not> has_control s \<and> utf8_bytes s \<le> 256"
  by (auto simp: resource_name_ok_def segments_def)

lemma validate_capability_pattern_Inr_iff [res_simps]:
  "validate_capability_pattern value = Inr p \<longleftrightarrow> value = JStr p \<and> pattern_ok p"
proof -
  have wild: "validate_capability_pattern (JStr (base @ js ''.*'')) = Inr p \<longleftrightarrow>
      p = base @ js ''.*'' \<and> resource_name_ok base \<and> utf8_bytes p \<le> 258" for base
    using resource_name_ok_bounds [of base]
    by (auto simp: validate_capability_pattern_def res_simps)
       (auto simp: js_wildcard has_control_def is_control_def dot_def)
  have plain: "validate_capability_pattern (JStr s) = Inr p \<longleftrightarrow> p = s \<and> resource_name_ok s"
    if "\<not> ends_with s (js ''.*'')" for s
    using that resource_name_ok_bounds [of s]
    by (auto simp: validate_capability_pattern_def res_simps)
  show ?thesis
  proof (cases "\<exists>s. value = JStr s")
    case True
    then obtain s where v: "value = JStr s" by blast
    show ?thesis
    proof (cases "ends_with s (js ''.*'')")
      case True
      then obtain base where s: "s = base @ js ''.*''" unfolding ends_with_wildcard_iff by blast
      then have "\<not> resource_name_ok s" using True resource_name_ok_no_wildcard by blast
      with wild [of base] s v show ?thesis unfolding pattern_ok_def by auto
    next
      case False
      then have "\<nexists>base. s = base @ js ''.*''" unfolding ends_with_wildcard_iff by blast
      with plain [OF False] v show ?thesis unfolding pattern_ok_def by auto
    qed
  next
    case False
    then show ?thesis by (auto simp: validate_capability_pattern_def res_simps)
  qed
qed

lemma requirement_loop:
  "fold_r (\<lambda>(seen, out) entry.
      bind_r (validate_capability_pattern entry) (\<lambda>normalized.
        if normalized \<in> seen then fail InvalidRequirements
        else Inr (insert normalized seen, out @ [normalized]))) (seen, out) entries = Inr (seen', out')
   \<longleftrightarrow> (\<exists>ps. entries = map JStr ps \<and> (\<forall>p\<in>set ps. pattern_ok p) \<and> distinct ps
          \<and> set ps \<inter> seen = {} \<and> seen' = seen \<union> set ps \<and> out' = out @ ps)"
proof (induction entries arbitrary: seen out)
  case (Cons e es)
  show ?case
    by (auto simp: res_simps Cons.IH Cons_eq_map_conv)
       (metis (no_types, opaque_lifting) Un_insert_left insert_commute Un_commute)?
qed auto

lemma validate_requirement_list_Inr_iff [res_simps]:
  "validate_requirement_list value = Inr ps \<longleftrightarrow>
     (\<exists>oid. value = JArr oid (map (Some \<circ> JStr) ps) []) \<and> length ps \<le> 256
     \<and> (\<forall>p\<in>set ps. pattern_ok p) \<and> distinct ps"
  by (fastforce simp: validate_requirement_list_def res_simps requirement_loop split_beta)

section \<open>The platform ceiling\<close>

definition platform_grant_ceiling :: "capability_requirements \<Rightarrow> capability_requirements" where
  "platform_grant_ceiling requires =
     \<lparr>state_read = state_read requires, event_subscribe = [], event_publish = [],
      req_call = filter (\<lambda>name. name \<noteq> js ''miakapp.*'' \<and> \<not> starts_with name (js ''miakapp.''))
                   (req_call requires),
      presentation = []\<rparr>"

end
