(* ===== verification/Pointer.thy ===== *)
theory Pointer
  imports Capability
begin

text \<open>
  \<open>component-runtime/src/contract.ts\<close>: the digest encoding and the release pointer
  (\<open>validatePointer\<close>), with \<open>encodeBase64Url\<close> of \<open>artifact.ts\<close>. The WHATWG URL parser is a parameter
  of the model: a function from a string to the parts of the parsed URL, \<open>None\<close> where \<open>new URL\<close>
  throws.
\<close>

section \<open>Base64url\<close>

text \<open>The six bits a base64 character stands for.\<close>

definition sextet :: "u16 \<Rightarrow> nat option" where
  "sextet u =
     (if is_upper u then Some (unat u - 0x41)
      else if is_lower u then Some (unat u - 0x61 + 26)
      else if is_digit u then Some (unat u - 0x30 + 52)
      else if u = 0x2B then Some 62
      else if u = 0x2F then Some 63
      else None)"

definition sextet_char :: "nat \<Rightarrow> u16" where
  "sextet_char n =
     (if n < 26 then of_nat (n + 0x41)
      else if n < 52 then of_nat (n - 26 + 0x61)
      else if n < 62 then of_nat (n - 52 + 0x30)
      else if n = 62 then 0x2B else 0x2F)"

text \<open>Groups of four sextets give three bytes; the bits left over at the end are dropped.\<close>

fun sextets_to_bytes :: "nat list \<Rightarrow> nat list" where
  "sextets_to_bytes (a # b # c # d # rest) =
     (a * 4 + b div 16) # (b mod 16 * 16 + c div 4) # (c mod 4 * 64 + d) # sextets_to_bytes rest"
| "sextets_to_bytes [a, b, c] = [a * 4 + b div 16, b mod 16 * 16 + c div 4]"
| "sextets_to_bytes [a, b] = [a * 4 + b div 16]"
| "sextets_to_bytes _ = []"

fun bytes_to_sextets :: "nat list \<Rightarrow> nat list" where
  "bytes_to_sextets (x # y # z # rest) =
     x div 4 # (x mod 4 * 16 + y div 16) # (y mod 16 * 4 + z div 64) # z mod 64 # bytes_to_sextets rest"
| "bytes_to_sextets [x, y] = [x div 4, x mod 4 * 16 + y div 16, y mod 16 * 4]"
| "bytes_to_sextets [x] = [x div 4, x mod 4 * 16]"
| "bytes_to_sextets [] = []"

definition ascii_whitespace :: "u16 \<Rightarrow> bool" where
  "ascii_whitespace u \<longleftrightarrow> u \<in> {0x09, 0x0A, 0x0C, 0x0D, 0x20}"

definition strip_padding :: "jstr \<Rightarrow> jstr" where
  "strip_padding s =
     (if length s mod 4 \<noteq> 0 then s
      else if ends_with s (js ''=='') then drop_end 2 s
      else if ends_with s (js ''='') then drop_end 1 s
      else s)"

text \<open>\<open>atob\<close>: the forgiving base64 decoder of the platform, \<open>None\<close> where it throws.\<close>

definition atob :: "jstr \<Rightarrow> bytes option" where
  "atob s =
     (let data = strip_padding (filter (\<lambda>u. \<not> ascii_whitespace u) s) in
      if length data mod 4 = 1 \<or> (\<exists>u\<in>set data. sextet u = None) then None
      else Some (map of_nat (sextets_to_bytes (map (the \<circ> sextet) data))))"

definition btoa :: "bytes \<Rightarrow> jstr" where
  "btoa bs =
     map sextet_char (bytes_to_sextets (map unat bs)) @
     replicate ((3 - length bs mod 3) mod 3) 0x3D"

text \<open>\<open>/^[A-Za-z0-9_-]{43}$/\<close>\<close>

definition is_base64url_char :: "u16 \<Rightarrow> bool" where
  "is_base64url_char u \<longleftrightarrow> is_letter u \<or> is_digit u \<or> u = 0x5F \<or> u = 0x2D"

definition sha256_base64url :: "jstr \<Rightarrow> bool" where
  "sha256_base64url s \<longleftrightarrow> length s = 43 \<and> (\<forall>u\<in>set s. is_base64url_char u)"

definition replace_unit :: "u16 \<Rightarrow> u16 \<Rightarrow> jstr \<Rightarrow> jstr" where
  "replace_unit a b s = map (\<lambda>u. if u = a then b else u) s"

definition decode_base64url :: "jstr \<Rightarrow> bytes res" where
  "decode_base64url value =
     (if \<not> sha256_base64url value then fail PointerInvalid
      else
        (let base64 = replace_unit 0x5F 0x2F (replace_unit 0x2D 0x2B value) @ js ''='' in
         case atob base64 of
           None \<Rightarrow> fail PointerInvalid
         | Some bs \<Rightarrow> if length bs \<noteq> 32 then fail PointerInvalid else Inr bs))"

definition encode_base64url :: "bytes \<Rightarrow> jstr" where
  "encode_base64url bs =
     (let s = replace_unit 0x2F 0x5F (replace_unit 0x2B 0x2D (btoa bs)) in
      rev (dropWhile (\<lambda>u. u = 0x3D) (rev s)))"

section \<open>Pointers\<close>

record url_parts =
  url_protocol :: jstr
  url_username :: jstr
  url_password :: jstr
  url_search :: jstr
  url_hash :: jstr
  url_origin :: jstr
  url_pathname :: jstr
  url_href :: jstr

type_synonym url_parser = "jstr \<Rightarrow> url_parts option"

record pointer_context =
  expected_home_id :: jstr
  minimum_generation :: "int option"
  allowed_artifact_origins :: "jstr list"
  allowed_path_prefixes :: "jstr list option"

record component_pointer =
  ptr_schema :: jstr
  ptr_home_id :: jstr
  ptr_generation :: int
  ptr_release :: jstr
  ptr_abi :: jstr
  ptr_url :: jstr
  ptr_sha256 :: jstr
  ptr_size :: int
  ptr_requires :: capability_requirements

definition POINTER_SCHEMA :: jstr where
  "POINTER_SCHEMA = js ''miakapp.component-pointer/1''"

definition COMPONENT_ABI :: jstr where
  "COMPONENT_ABI = js ''miakapp.component/1''"

definition APP_ABI :: jstr where
  "APP_ABI = js ''miakapp.app/1''"

definition path_allowed :: "jstr list option \<Rightarrow> jstr \<Rightarrow> bool" where
  "path_allowed allowed path =
     (case allowed of
        None \<Rightarrow> True
      | Some ps \<Rightarrow> ps = [] \<or> (\<exists>p\<in>set ps. starts_with path p))"

definition validate_artifact_url :: "url_parser \<Rightarrow> jsval \<Rightarrow> pointer_context \<Rightarrow> jstr res" where
  "validate_artifact_url parse_url raw context =
     bind_r (bounded_string raw 2048) (\<lambda>value.
       case parse_url value of
         None \<Rightarrow> fail PointerInvalid
       | Some url \<Rightarrow>
           if url_protocol url \<noteq> js ''https:'' \<or> url_username url \<noteq> [] \<or> url_password url \<noteq> []
              \<or> url_search url \<noteq> [] \<or> url_hash url \<noteq> []
           then fail PointerInvalid
           else if url_origin url \<notin> set (allowed_artifact_origins context) then fail PointerInvalid
           else if \<not> path_allowed (allowed_path_prefixes context) (url_pathname url)
           then fail PointerInvalid
           else Inr (url_href url))"

definition validate_pointer_value ::
  "url_parser \<Rightarrow> jsval \<Rightarrow> pointer_context \<Rightarrow> component_pointer res" where
  "validate_pointer_value parse_url value context =
     bind_r (exact_object value
       [''schema'', ''home_id'', ''generation'', ''release'', ''abi'', ''url'', ''sha256'', ''size'',
        ''requires''] []) (\<lambda>record.
     if \<not> strict_eq_str (get record ''schema'') POINTER_SCHEMA then fail PointerInvalid
     else if \<not> strict_eq_str (get record ''abi'') COMPONENT_ABI
           \<and> \<not> strict_eq_str (get record ''abi'') APP_ABI then fail PointerInvalid
     else
       (let abi = (if strict_eq_str (get record ''abi'') COMPONENT_ABI then COMPONENT_ABI else APP_ABI) in
     bind_r (bounded_string (get record ''home_id'') 128) (\<lambda>home_id.
     if home_id \<noteq> expected_home_id context then fail PointerInvalid else
     bind_r (safe_positive_integer (get record ''generation'')) (\<lambda>generation.
     if generation < (case minimum_generation context of None \<Rightarrow> 0 | Some m \<Rightarrow> m)
     then fail PointerInvalid else
     bind_r (bounded_string (get record ''release'') 64) (\<lambda>release.
     bind_r (validate_artifact_url parse_url (get record ''url'') context) (\<lambda>url.
     bind_r (bounded_string (get record ''sha256'') 64) (\<lambda>sha256.
     bind_r (decode_base64url sha256) (\<lambda>_.
     bind_r (safe_positive_integer (get record ''size'')) (\<lambda>size.
     if size > int (artifact_bytes LIMITS) then fail ArtifactTooLarge else
     bind_r (validate_requirements (get record ''requires'')) (\<lambda>requires.
     Inr \<lparr>ptr_schema = POINTER_SCHEMA, ptr_home_id = home_id, ptr_generation = generation,
          ptr_release = release, ptr_abi = abi, ptr_url = url, ptr_sha256 = sha256,
          ptr_size = size, ptr_requires = requires\<rparr>))))))))))"

text \<open>The \<open>catch\<close> of \<open>validatePointer\<close> folds every other violation into \<open>pointer_invalid\<close>.\<close>

definition validate_pointer ::
  "url_parser \<Rightarrow> jsval \<Rightarrow> pointer_context \<Rightarrow> component_pointer res" where
  "validate_pointer parse_url value context =
     (case validate_pointer_value parse_url value context of
        Inr p \<Rightarrow> Inr p
      | Inl error \<Rightarrow>
          if error = PointerInvalid \<or> error = ArtifactTooLarge \<or> error = ThrownTypeError
          then fail error else fail PointerInvalid)"

section \<open>The digest encoding is lossless\<close>

definition url_char :: "nat \<Rightarrow> u16" where
  "url_char n =
     (let u = sextet_char n in
      if u = 0x2B then 0x2D else if u = 0x2F then 0x5F else u)"

lemma sextet_char_table:
  "\<forall>n\<in>set [0..<64]. sextet (sextet_char n) = Some n \<and> sextet_char n \<noteq> 0x2D \<and> sextet_char n \<noteq> 0x3D
     \<and> sextet_char n \<noteq> 0x5F \<and> \<not> ascii_whitespace (sextet_char n)
     \<and> is_base64url_char (url_char n) \<and> url_char n \<noteq> 0x3D"
  by code_simp

lemma sextet_char:
  assumes "n < 64"
  shows "sextet (sextet_char n) = Some n" "sextet_char n \<noteq> 0x3D" "sextet_char n \<noteq> 0x2D"
    "sextet_char n \<noteq> 0x5F" "\<not> ascii_whitespace (sextet_char n)" "is_base64url_char (url_char n)"
    "url_char n \<noteq> 0x3D"
  using sextet_char_table assms by (auto simp del: upt_rec_numeral)

lemma replace_to_url:
  assumes "\<forall>n\<in>set ns. n < 64"
  shows "replace_unit 0x2F 0x5F (replace_unit 0x2B 0x2D (map sextet_char ns)) = map url_char ns"
  using assms by (auto simp: replace_unit_def url_char_def Let_def)

lemma replace_from_url:
  assumes "\<forall>n\<in>set ns. n < 64"
  shows "replace_unit 0x5F 0x2F (replace_unit 0x2D 0x2B (map url_char ns)) = map sextet_char ns"
  using assms by (auto simp: replace_unit_def url_char_def Let_def sextet_char)

lemma bytes_to_sextets_bound:
  "\<forall>x\<in>set xs. x < 256 \<Longrightarrow> \<forall>n\<in>set (bytes_to_sextets xs). n < 64"
  by (induction xs rule: bytes_to_sextets.induct) auto

lemma sextets_bytes_inverse:
  "\<forall>x\<in>set xs. x < 256 \<Longrightarrow> sextets_to_bytes (bytes_to_sextets xs) = xs"
proof (induction xs rule: bytes_to_sextets.induct)
  case (1 x y z rest)
  have "x div 4 * 4 + (x mod 4 * 16 + y div 16) div 16 = x"
    and "(x mod 4 * 16 + y div 16) mod 16 * 16 + (y mod 16 * 4 + z div 64) div 4 = y"
    and "(y mod 16 * 4 + z div 64) mod 4 * 64 + z mod 64 = z"
    using "1.prems" by auto
  with 1 show ?case by simp
qed auto

lemma length_bytes_to_sextets: "length (bytes_to_sextets xs) = (4 * length xs + 2) div 3"
  by (induction xs rule: bytes_to_sextets.induct) auto

lemma length_sextets_to_bytes: "length (sextets_to_bytes ns) = length ns * 3 div 4"
  by (induction ns rule: sextets_to_bytes.induct) auto

lemma sextet_of_base64url:
  assumes "is_base64url_char u"
  shows "sextet (if (if u = 0x2D then 0x2B else u) = 0x5F then 0x2F else if u = 0x2D then 0x2B else u) \<noteq> None"
proof -
  consider "u = 0x2D" | "u = 0x5F" | "is_letter u \<or> is_digit u" "u \<noteq> 0x2D" "u \<noteq> 0x5F"
    using assms by (auto simp: is_base64url_char_def)
  then show ?thesis
    by cases (auto simp: sextet_def is_letter_def is_upper_def is_lower_def is_digit_def)
qed

lemma ascii_whitespace_not_base64:
  assumes "sextet u \<noteq> None" shows "\<not> ascii_whitespace u" "u \<noteq> 0x3D"
  using assms
  by (auto simp: ascii_whitespace_def sextet_def is_upper_def is_lower_def is_digit_def split: if_splits)

lemma atob_unpadded:
  assumes "length data = 43" and "\<forall>u\<in>set data. sextet u \<noteq> None"
  shows "atob (data @ js ''='') = Some (map of_nat (sextets_to_bytes (map (the \<circ> sextet) data)))"
proof -
  have keep: "filter (\<lambda>u. \<not> ascii_whitespace u) (data @ js ''='') = data @ js ''=''"
    using assms(2) ascii_whitespace_not_base64
    by (auto simp: filter_id_conv js_def ascii_whitespace_def)
  have "last data \<noteq> 0x3D"
    using assms ascii_whitespace_not_base64(2) [of "last data"] last_in_set [of data] by fastforce
  then have "\<not> ends_with (data @ js ''='') (js ''=='')"
    using assms(1)
    by (auto simp: ends_with_def suffix_def js_def append_eq_append_conv2 append_eq_Cons_conv)
  then have "strip_padding (data @ js ''='') = data"
    using assms(1) by (simp add: strip_padding_def drop_end_def)
  with keep assms show ?thesis by (auto simp: atob_def)
qed

lemma decode_base64url_total:
  assumes "sha256_base64url s"
  obtains bs where "decode_base64url s = Inr bs" and "length bs = 32"
proof -
  let ?data = "replace_unit 0x5F 0x2F (replace_unit 0x2D 0x2B s)"
  have "length ?data = 43" using assms by (simp add: sha256_base64url_def replace_unit_def)
  moreover have "\<forall>u\<in>set ?data. sextet u \<noteq> None"
  proof
    fix w assume "w \<in> set ?data"
    then obtain u where "u \<in> set s"
      and w: "w = (if (if u = 0x2D then 0x2B else u) = 0x5F then 0x2F else if u = 0x2D then 0x2B else u)"
      by (auto simp only: replace_unit_def set_map image_image)
    with assms have "is_base64url_char u" by (simp only: sha256_base64url_def)
    then show "sextet w \<noteq> None" unfolding w by (rule sextet_of_base64url)
  qed
  ultimately have "atob (?data @ js ''='') =
      Some (map of_nat (sextets_to_bytes (map (the \<circ> sextet) ?data)))"
    by (rule atob_unpadded)
  with assms that \<open>length ?data = 43\<close> show ?thesis
    by (simp add: decode_base64url_def length_sextets_to_bytes)
qed

lemma encode_base64url_32:
  assumes "length bs = 32"
  shows "encode_base64url bs = map url_char (bytes_to_sextets (map unat bs))"
proof -
  let ?ns = "bytes_to_sextets (map unat bs)"
  have bound: "\<forall>n\<in>set ?ns. n < 64"
    by (rule bytes_to_sextets_bound) auto
  have pad: "btoa bs = map sextet_char ?ns @ [0x3D]"
    using assms by (simp add: btoa_def)
  have "replace_unit 0x2F 0x5F (replace_unit 0x2B 0x2D (btoa bs)) = map url_char ?ns @ [0x3D]"
    using replace_to_url [OF bound] by (simp add: pad replace_unit_def)
  moreover have "dropWhile (\<lambda>u. u = 0x3D) (rev (map url_char ?ns)) = rev (map url_char ?ns)"
    using bound sextet_char(7) by (cases ?ns rule: rev_cases) auto
  ultimately show ?thesis by (simp add: encode_base64url_def)
qed

lemma decode_encode_base64url:
  assumes "length bs = 32"
  shows "decode_base64url (encode_base64url bs) = Inr bs"
proof -
  let ?ns = "bytes_to_sextets (map unat bs)"
  have bound: "\<forall>n\<in>set ?ns. n < 64" by (rule bytes_to_sextets_bound) auto
  have len: "length ?ns = 43" using assms by (simp add: length_bytes_to_sextets)
  have ok: "sha256_base64url (map url_char ?ns)"
    using bound len sextet_char(6) by (auto simp: sha256_base64url_def)
  have "map (the \<circ> sextet) (map sextet_char ?ns) = ?ns"
    using bound sextet_char(1) by (auto intro: map_idI)
  then have "atob (map sextet_char ?ns @ js ''='') = Some (map of_nat (map unat bs))"
    using bound len sextet_char(1)
    by (subst atob_unpadded) (auto simp: sextets_bytes_inverse)
  then have "atob (map sextet_char ?ns @ js ''='') = Some bs"
    by (simp add: comp_def)
  then show ?thesis
    using ok assms
    by (simp add: decode_base64url_def encode_base64url_32 [OF assms] replace_from_url [OF bound])
qed

lemma encode_base64url_format: "length bs = 32 \<Longrightarrow> sha256_base64url (encode_base64url bs)"
  using decode_encode_base64url [of bs] by (auto simp: decode_base64url_def split: if_splits)

section \<open>What an accepted pointer satisfies\<close>

definition requirements_ok :: "capability_requirements \<Rightarrow> bool" where
  "requirements_ok r \<longleftrightarrow>
     (\<forall>ps\<in>{state_read r, event_subscribe r, event_publish r, req_call r, presentation r}.
        length ps \<le> 256 \<and> (\<forall>p\<in>set ps. pattern_ok p) \<and> distinct ps)
     \<and> (\<forall>p\<in>set (presentation r). starts_with p (js ''media.'') \<and> \<not> ends_with p (js ''.*''))
     \<and> length (state_read r) + length (event_subscribe r) + length (event_publish r)
        + length (req_call r) + length (presentation r) \<le> 512"

lemma validate_requirements_ok: "validate_requirements value = Inr r \<Longrightarrow> requirements_ok r"
  by (auto simp: validate_requirements_def res_simps requirements_ok_def)

definition artifact_url_ok :: "pointer_context \<Rightarrow> url_parts \<Rightarrow> bool" where
  "artifact_url_ok context url \<longleftrightarrow>
     url_protocol url = js ''https:'' \<and> url_username url = [] \<and> url_password url = []
     \<and> url_search url = [] \<and> url_hash url = []
     \<and> url_origin url \<in> set (allowed_artifact_origins context)
     \<and> path_allowed (allowed_path_prefixes context) (url_pathname url)"

lemma validate_artifact_url_Inr_iff [res_simps]:
  "validate_artifact_url parse_url raw context = Inr href \<longleftrightarrow>
     (\<exists>s url. bounded_string raw 2048 = Inr s \<and> parse_url s = Some url
        \<and> artifact_url_ok context url \<and> href = url_href url)"
  by (auto simp: validate_artifact_url_def bind_r_Inr_iff if_Inl_eq_Inr artifact_url_ok_def
      split: option.splits)

definition floor_of :: "pointer_context \<Rightarrow> int" where
  "floor_of context = (case minimum_generation context of None \<Rightarrow> 0 | Some m \<Rightarrow> m)"

definition pointer_ok :: "url_parser \<Rightarrow> pointer_context \<Rightarrow> component_pointer \<Rightarrow> bool" where
  "pointer_ok parse_url context p \<longleftrightarrow>
     ptr_schema p = POINTER_SCHEMA
     \<and> (ptr_abi p = COMPONENT_ABI \<or> ptr_abi p = APP_ABI)
     \<and> bounded_string (JStr (ptr_home_id p)) 128 = Inr (expected_home_id context)
     \<and> 0 < ptr_generation p \<and> ptr_generation p \<le> max_safe_integer
     \<and> floor_of context \<le> ptr_generation p
     \<and> bounded_string (JStr (ptr_release p)) 64 = Inr (ptr_release p)
     \<and> (\<exists>s url. parse_url s = Some url \<and> artifact_url_ok context url \<and> ptr_url p = url_href url)
     \<and> sha256_base64url (ptr_sha256 p)
     \<and> 0 < ptr_size p \<and> ptr_size p \<le> 2097152
     \<and> requirements_ok (ptr_requires p)"

lemma decode_base64url_Inr_format: "decode_base64url s = Inr bs \<Longrightarrow> sha256_base64url s"
  by (simp add: decode_base64url_def split: if_splits)

lemma validate_pointer_value_ok:
  assumes "validate_pointer_value parse_url value context = Inr p"
  shows "pointer_ok parse_url context p"
  using assms
  by (auto simp: validate_pointer_value_def Let_def pointer_ok_def floor_of_def res_simps
      dest: validate_requirements_ok decode_base64url_Inr_format) blast+

lemma validate_pointer_errors:
  "validate_pointer parse_url value context = Inl e \<Longrightarrow> e = PointerInvalid \<or> e = ArtifactTooLarge"
proof -
  have "decode_base64url s \<noteq> Inl ThrownTypeError" for s
    by (auto simp: decode_base64url_def Let_def split: option.splits)
  moreover have "validate_artifact_url parse_url raw context \<noteq> Inl ThrownTypeError" for raw
    by (auto simp: validate_artifact_url_def bind_r_Inl_iff split: option.splits if_splits)
  ultimately have "validate_pointer_value parse_url value context \<noteq> Inl ThrownTypeError"
    by (auto simp: validate_pointer_value_def Let_def bind_r_Inl_iff split: if_splits)
  then show "validate_pointer parse_url value context = Inl e \<Longrightarrow> e = PointerInvalid \<or> e = ArtifactTooLarge"
    by (auto simp: validate_pointer_def split: sum.splits if_splits)
qed

lemma validate_pointer_ok:
  "validate_pointer parse_url value context = Inr p \<Longrightarrow> pointer_ok parse_url context p"
  by (auto simp: validate_pointer_def dest: validate_pointer_value_ok split: sum.splits if_splits)

lemma base64url_ascii:
  assumes "is_base64url_char u" shows "u < 0x80" "\<not> is_control u"
  using assms
  by (auto simp: is_base64url_char_def is_letter_def is_upper_def is_lower_def is_digit_def
      is_control_def word_less_nat_alt word_le_nat_alt)

lemma sha256_bounded: "sha256_base64url s \<Longrightarrow> bounded_string (JStr s) 64 = Inr s"
  using base64url_ascii utf8_bytes_ascii [of s]
  by (auto simp: sha256_base64url_def bounded_string_Inr_iff has_control_def)

section \<open>The stored form of a pointer\<close>

text \<open>The record a pointer is when it is stored or sent: the value \<open>validatePointer\<close> reads back.\<close>

definition strings_value :: "jstr list \<Rightarrow> jsval" where
  "strings_value ss = JArr 0 (map (Some \<circ> JStr) ss) []"

definition requirements_value :: "capability_requirements \<Rightarrow> jsval" where
  "requirements_value r = JRec 0
     [(js ''state_read'', strings_value (state_read r)),
      (js ''event_subscribe'', strings_value (event_subscribe r)),
      (js ''event_publish'', strings_value (event_publish r)),
      (js ''call'', strings_value (req_call r)),
      (js ''presentation'', strings_value (presentation r))]"

definition pointer_value :: "component_pointer \<Rightarrow> jsval" where
  "pointer_value p = JRec 0
     [(js ''schema'', JStr (ptr_schema p)),
      (js ''home_id'', JStr (ptr_home_id p)),
      (js ''generation'', JNum (NInt (ptr_generation p))),
      (js ''release'', JStr (ptr_release p)),
      (js ''abi'', JStr (ptr_abi p)),
      (js ''url'', JStr (ptr_url p)),
      (js ''sha256'', JStr (ptr_sha256 p)),
      (js ''size'', JNum (NInt (ptr_size p))),
      (js ''requires'', requirements_value (ptr_requires p))]"

lemma strings_value_eq_iff [simp]:
  "strings_value ss = JArr oid (map (Some \<circ> JStr) ts) [] \<longleftrightarrow> oid = 0 \<and> ss = ts"
  by (auto simp: strings_value_def inj_map_eq_map inj_def)

lemma validate_requirement_list_strings [simp]:
  "validate_requirement_list (strings_value ss) = Inr ps \<longleftrightarrow>
     ps = ss \<and> length ps \<le> 256 \<and> (\<forall>p\<in>set ps. pattern_ok p) \<and> distinct ps"
  by (auto simp: validate_requirement_list_Inr_iff)

lemma requirements_record:
  "exact_object (requirements_value r)
     [''state_read'', ''event_subscribe'', ''event_publish'', ''call'', ''presentation''] [] =
   (case requirements_value r of JRec _ fs \<Rightarrow> Inr fs | _ \<Rightarrow> fail InvalidType)"
  by (simp add: requirements_value_def exact_object_def own_keys_def)

lemma validate_requirements_value:
  "validate_requirements (requirements_value r) = Inr r' \<longleftrightarrow> r' = r \<and> requirements_ok r"
  unfolding validate_requirements_def requirements_record
  by (cases r, cases r') (auto simp: requirements_value_def res_simps requirements_ok_def)

definition url_idempotent :: "url_parser \<Rightarrow> bool" where
  "url_idempotent parse_url \<longleftrightarrow> (\<forall>s url. parse_url s = Some url \<longrightarrow> parse_url (url_href url) = Some url)"

lemma pointer_record:
  "exact_object (pointer_value p)
     [''schema'', ''home_id'', ''generation'', ''release'', ''abi'', ''url'', ''sha256'', ''size'',
      ''requires''] [] =
   (case pointer_value p of JRec _ fs \<Rightarrow> Inr fs | _ \<Rightarrow> fail InvalidType)"
  by (simp add: pointer_value_def exact_object_def own_keys_def)

lemma validate_pointer_Inr_iff:
  "validate_pointer parse_url value context = Inr p \<longleftrightarrow>
     validate_pointer_value parse_url value context = Inr p"
  by (auto simp: validate_pointer_def split: sum.splits if_splits)

text \<open>Reading a stored pointer back: everything but the URL is taken as it is.\<close>

lemma revalidate_fields:
  assumes "validate_pointer parse_url (pointer_value p) context = Inr q"
  shows "\<exists>url. parse_url (ptr_url p) = Some url \<and> artifact_url_ok context url
           \<and> q = p\<lparr>ptr_url := url_href url\<rparr>"
  using assms
  unfolding validate_pointer_Inr_iff validate_pointer_value_def pointer_record
  by (cases p)
    (auto simp: pointer_value_def res_simps Let_def validate_requirements_value strict_eq_str_def
      split: if_splits)

lemma revalidate_eq:
  assumes "validate_pointer parse_url (pointer_value p) context = Inr q"
    and "url_idempotent parse_url" and "pointer_ok parse_url context' p"
  shows "q = p"
proof -
  from revalidate_fields [OF assms(1)] obtain url where
    url: "parse_url (ptr_url p) = Some url" "q = p\<lparr>ptr_url := url_href url\<rparr>" by blast
  from assms(3) obtain s url' where "parse_url s = Some url'" "ptr_url p = url_href url'"
    by (auto simp: pointer_ok_def)
  with assms(2) url(1) have "url = url'" by (auto simp: url_idempotent_def)
  with url(2) \<open>ptr_url p = url_href url'\<close> show ?thesis by (cases p) simp
qed

text \<open>A stored pointer is read back unchanged when its URL still fits the bound on raw URLs.\<close>

lemma revalidate_total:
  assumes "pointer_ok parse_url context p" and "url_idempotent parse_url"
    and "bounded_string (JStr (ptr_url p)) 2048 = Inr (ptr_url p)"
  shows "validate_pointer parse_url (pointer_value p) context = Inr p"
proof -
  from assms(1) obtain s url where "parse_url s = Some url" and ok: "artifact_url_ok context url"
    and href: "ptr_url p = url_href url" by (auto simp: pointer_ok_def)
  with assms(2) have parsed: "parse_url (ptr_url p) = Some url" by (auto simp: url_idempotent_def)
  have bounds: "bounded_string (JStr (ptr_sha256 p)) 64 = Inr (ptr_sha256 p)"
    using assms(1) by (auto simp: pointer_ok_def intro: sha256_bounded)
  obtain bs where "decode_base64url (ptr_sha256 p) = Inr bs"
    using assms(1) by (auto simp: pointer_ok_def elim: decode_base64url_total)
  with assms(1,3) parsed ok href bounds show ?thesis
    unfolding validate_pointer_Inr_iff validate_pointer_value_def pointer_record
    by (cases p)
      (auto simp: pointer_value_def pointer_ok_def floor_of_def res_simps Let_def
        validate_requirements_value strict_eq_str_def max_safe_integer_def)
qed

end
