(* ===== verification/Release_State.thy ===== *)
theory Release_State
  imports Pointer
begin

text \<open>
  \<open>component-runtime/src/release-state.ts\<close>: the anti-rollback ledger of accepted releases. The pure
  transitions (\<open>acceptReleaseCandidate\<close>, \<open>markReleaseActive\<close>, \<open>selectAutomaticFallback\<close>), the store
  interface \<open>ReleaseMetadataStore\<close> as the locale \<open>release_store\<close>, its IndexedDB implementation, and
  the ledger \<open>ComponentReleaseLedger\<close>, which is a client of that interface only.

  A database is the association list from home identifiers to stored records. \<open>Object.freeze\<close> and
  the defensive copies are identities on values.
\<close>

section \<open>Release state\<close>

record release_state =
  rs_schema :: jstr
  rs_home_id :: jstr
  highest_accepted :: component_pointer
  last_known_good :: "component_pointer option"

definition RELEASE_STATE_SCHEMA :: jstr where
  "RELEASE_STATE_SCHEMA = js ''miakapp.component-release-state/1''"

datatype candidate_effect_phase = Staging | Effects_may_have_started

definition own_exact_keys :: "jsval \<Rightarrow> string list \<Rightarrow> string list \<Rightarrow> fields res" where
  "own_exact_keys value required optional =
     (case value of
        JRec _ fs \<Rightarrow>
          (if \<exists>k\<in>set required. \<not> has_own fs (js k) then fail ReleaseMetadataInvalid
           else if \<exists>k\<in>set (map fst fs). k \<notin> js ` set (required @ optional)
           then fail ReleaseMetadataInvalid
           else Inr fs)
      | _ \<Rightarrow> fail ReleaseMetadataInvalid)"

definition frozen_state :: "component_pointer \<Rightarrow> component_pointer option \<Rightarrow> release_state" where
  "frozen_state highest lkg =
     \<lparr>rs_schema = RELEASE_STATE_SCHEMA, rs_home_id = ptr_home_id highest,
      highest_accepted = highest, last_known_good = lkg\<rparr>"

definition same_requirements :: "capability_requirements \<Rightarrow> capability_requirements \<Rightarrow> bool" where
  "same_requirements left right \<longleftrightarrow>
     (\<forall>(l, r)\<in>set [(state_read left, state_read right),
                   (event_subscribe left, event_subscribe right),
                   (event_publish left, event_publish right),
                   (req_call left, req_call right),
                   (presentation left, presentation right)].
        length l = length r \<and> (\<forall>i < length l. l ! i = r ! i))"

definition same_pointer :: "component_pointer \<Rightarrow> component_pointer \<Rightarrow> bool" where
  "same_pointer left right \<longleftrightarrow>
     ptr_schema left = ptr_schema right
     \<and> ptr_home_id left = ptr_home_id right
     \<and> ptr_generation left = ptr_generation right
     \<and> ptr_release left = ptr_release right
     \<and> ptr_abi left = ptr_abi right
     \<and> ptr_url left = ptr_url right
     \<and> ptr_sha256 left = ptr_sha256 right
     \<and> ptr_size left = ptr_size right
     \<and> same_requirements (ptr_requires left) (ptr_requires right)"

definition with_minimum :: "pointer_context \<Rightarrow> int option \<Rightarrow> pointer_context" where
  "with_minimum context m = context\<lparr>minimum_generation := m\<rparr>"

definition validate_release_state ::
  "url_parser \<Rightarrow> jsval \<Rightarrow> pointer_context \<Rightarrow> release_state res" where
  "validate_release_state parse_url value context =
     (case
        bind_r (own_exact_keys value [''schema'', ''home_id'', ''highest_accepted''] [''last_known_good''])
          (\<lambda>record.
        if \<not> strict_eq_str (get record ''schema'') RELEASE_STATE_SCHEMA
        then fail ReleaseMetadataInvalid
        else if \<not> strict_eq_str (get record ''home_id'') (expected_home_id context)
        then fail ReleaseMetadataInvalid
        else
        bind_r (validate_pointer parse_url (get record ''highest_accepted'') (with_minimum context None))
          (\<lambda>highest.
        bind_r (if get record ''last_known_good'' = JUndef then Inr None
                else bind_r (validate_pointer parse_url (get record ''last_known_good'')
                               (with_minimum context None)) (\<lambda>p. Inr (Some p)))
          (\<lambda>lkg.
        case lkg of
          None \<Rightarrow> Inr (frozen_state highest None)
        | Some good \<Rightarrow>
            if ptr_generation good > ptr_generation highest then fail ReleaseMetadataInvalid
            else if ptr_generation good = ptr_generation highest \<and> \<not> same_pointer good highest
            then fail ReleaseMetadataInvalid
            else Inr (frozen_state highest (Some good)))))
      of
        Inr state \<Rightarrow> Inr state
      | Inl error \<Rightarrow> if error = ThrownTypeError then fail error else fail ReleaseMetadataInvalid)"

definition accept_release_candidate ::
  "url_parser \<Rightarrow> release_state option \<Rightarrow> jsval \<Rightarrow> pointer_context \<Rightarrow> jstr list \<Rightarrow> release_state res" where
  "accept_release_candidate parse_url current value context quarantined =
     bind_r (validate_pointer parse_url value
              (with_minimum context (map_option (\<lambda>s. ptr_generation (highest_accepted s)) current)))
       (\<lambda>candidate.
     if ptr_sha256 candidate \<in> set quarantined then fail ReleaseQuarantined
     else
       (case current of
          None \<Rightarrow> Inr (frozen_state candidate None)
        | Some cur \<Rightarrow>
            if ptr_generation candidate = ptr_generation (highest_accepted cur) then
              if \<not> same_pointer candidate (highest_accepted cur) then fail PointerInvalid
              else Inr (frozen_state (highest_accepted cur) (last_known_good cur))
            else Inr (frozen_state candidate (last_known_good cur))))"

definition mark_release_active ::
  "url_parser \<Rightarrow> release_state \<Rightarrow> jsval \<Rightarrow> pointer_context \<Rightarrow> jstr list \<Rightarrow> release_state res" where
  "mark_release_active parse_url current value context quarantined =
     bind_r (validate_pointer parse_url value
              (with_minimum context (Some (ptr_generation (highest_accepted current)))))
       (\<lambda>candidate.
     if ptr_sha256 candidate \<in> set quarantined then fail ReleaseQuarantined
     else if \<not> same_pointer candidate (highest_accepted current) then fail PointerInvalid
     else Inr (frozen_state (highest_accepted current) (Some candidate)))"

definition select_automatic_fallback ::
  "url_parser \<Rightarrow> release_state \<Rightarrow> jsval \<Rightarrow> pointer_context \<Rightarrow> candidate_effect_phase \<Rightarrow> jstr list
     \<Rightarrow> component_pointer option res" where
  "select_automatic_fallback parse_url current failed_candidate context phase quarantined =
     bind_r (validate_pointer parse_url failed_candidate
              (with_minimum context (Some (ptr_generation (highest_accepted current)))))
       (\<lambda>candidate.
     if \<not> same_pointer candidate (highest_accepted current) then fail PointerInvalid
     else if phase \<noteq> Staging then Inr None
     else
       (case last_known_good current of
          None \<Rightarrow> Inr None
        | Some fallback \<Rightarrow>
            if same_pointer fallback candidate then Inr None
            else if ptr_sha256 fallback \<in> set quarantined then Inr None
            else Inr (Some fallback)))"

section \<open>The IndexedDB store\<close>

type_synonym release_db = "(jstr \<times> jsval) list"

text \<open>The record \<open>store.put\<close> writes.\<close>

definition state_value :: "release_state \<Rightarrow> jsval" where
  "state_value s = JRec 0
     ([(js ''schema'', JStr (rs_schema s)),
       (js ''home_id'', JStr (rs_home_id s)),
       (js ''highest_accepted'', pointer_value (highest_accepted s))] @
      (case last_known_good s of
         None \<Rightarrow> []
       | Some p \<Rightarrow> [(js ''last_known_good'', pointer_value p)]))"

definition idb_release_read :: "release_db \<Rightarrow> jstr \<Rightarrow> jsval option" where
  "idb_release_read db home = map_of db home"

text \<open>
  A readwrite transaction: the mutation sees the stored record, a failing mutation aborts, and a
  record for another home is refused before it is put. A transaction that IndexedDB itself aborts rejects
  and leaves the store as it was, so that for the ledger the operation has not taken place; sequences of
  operations range over those that do.
\<close>

definition idb_release_transact ::
  "release_db \<Rightarrow> jstr \<Rightarrow> (jsval option \<Rightarrow> (release_state \<times> 'v) res) \<Rightarrow> release_db \<times> 'v res" where
  "idb_release_transact db home mutation =
     (case mutation (map_of db home) of
        Inl error \<Rightarrow> (db, fail error)
      | Inr (record, v) \<Rightarrow>
          if rs_home_id record \<noteq> home then (db, fail ReleaseMetadataInvalid)
          else (AList.update (rs_home_id record) (state_value record) db, Inr v))"

section \<open>The ledger\<close>

type_synonym 'db release_read = "'db \<Rightarrow> jstr \<Rightarrow> jsval option"
type_synonym 'db release_transact =
  "'db \<Rightarrow> jstr \<Rightarrow> (jsval option \<Rightarrow> (release_state \<times> release_state) res) \<Rightarrow> 'db \<times> release_state res"

definition ledger_read ::
  "'db release_read \<Rightarrow> url_parser \<Rightarrow> pointer_context \<Rightarrow> 'db \<Rightarrow> release_state option res" where
  "ledger_read read parse_url context db =
     (case read db (expected_home_id context) of
        None \<Rightarrow> Inr None
      | Some current \<Rightarrow>
          bind_r (validate_release_state parse_url current (with_minimum context None))
            (\<lambda>s. Inr (Some s)))"

definition ledger_accept ::
  "'db release_transact \<Rightarrow> url_parser \<Rightarrow> pointer_context \<Rightarrow> jsval \<Rightarrow> jstr list \<Rightarrow> 'db
     \<Rightarrow> 'db \<times> release_state res" where
  "ledger_accept transact parse_url context value quarantined db =
     transact db (expected_home_id context) (\<lambda>stored.
       bind_r (case stored of
                 None \<Rightarrow> Inr None
               | Some v \<Rightarrow> bind_r (validate_release_state parse_url v (with_minimum context None))
                            (\<lambda>s. Inr (Some s)))
         (\<lambda>current.
       bind_r (accept_release_candidate parse_url current value (with_minimum context None) quarantined)
         (\<lambda>nxt. Inr (nxt, nxt))))"

definition ledger_mark_active ::
  "'db release_transact \<Rightarrow> url_parser \<Rightarrow> pointer_context \<Rightarrow> jsval \<Rightarrow> jstr list \<Rightarrow> 'db
     \<Rightarrow> 'db \<times> release_state res" where
  "ledger_mark_active transact parse_url context value quarantined db =
     transact db (expected_home_id context) (\<lambda>stored.
       case stored of
         None \<Rightarrow> fail ReleaseMetadataInvalid
       | Some v \<Rightarrow>
           bind_r (validate_release_state parse_url v (with_minimum context None)) (\<lambda>current.
           bind_r (mark_release_active parse_url current value (with_minimum context None) quarantined)
             (\<lambda>nxt. Inr (nxt, nxt))))"

definition ledger_automatic_fallback ::
  "'db release_read \<Rightarrow> url_parser \<Rightarrow> pointer_context \<Rightarrow> jsval \<Rightarrow> candidate_effect_phase \<Rightarrow> jstr list
     \<Rightarrow> 'db \<Rightarrow> component_pointer option res" where
  "ledger_automatic_fallback read parse_url context failed_candidate phase quarantined db =
     bind_r (ledger_read read parse_url context db) (\<lambda>current.
       case current of
         None \<Rightarrow> Inr None
       | Some s \<Rightarrow> select_automatic_fallback parse_url s failed_candidate (with_minimum context None)
                     phase quarantined)"

end
