(* ===== verification/Release_Ledger.thy ===== *)
theory Release_Ledger
  imports Release_State
begin

text \<open>
  Properties of the release ledger: the transitions keep the state well-formed, the floor never
  moves back and one generation never stands for two pointers, whatever store implements the
  interface; the IndexedDB store implements it.
\<close>

section \<open>Well-formed release states\<close>

lemma list_eq_by_index: "(length l = length r \<and> (\<forall>i < length l. l ! i = r ! i)) \<longleftrightarrow> l = r"
  by (auto intro: nth_equalityI)

lemma same_pointer_iff [simp]: "same_pointer l r \<longleftrightarrow> l = r"
proof -
  have "same_requirements a b \<longleftrightarrow> a = b" for a b
    by (cases a, cases b) (simp add: same_requirements_def list_eq_by_index)
  then show ?thesis by (cases l, cases r) (auto simp: same_pointer_def)
qed

definition state_ok :: "url_parser \<Rightarrow> pointer_context \<Rightarrow> release_state \<Rightarrow> bool" where
  "state_ok parse_url context s \<longleftrightarrow>
     s = frozen_state (highest_accepted s) (last_known_good s)
     \<and> pointer_ok parse_url (with_minimum context None) (highest_accepted s)
     \<and> (\<forall>p. last_known_good s = Some p \<longrightarrow>
          pointer_ok parse_url (with_minimum context None) p
          \<and> ptr_generation p \<le> ptr_generation (highest_accepted s)
          \<and> (ptr_generation p = ptr_generation (highest_accepted s) \<longrightarrow> p = highest_accepted s))"

lemma with_minimum_simps [simp]:
  "expected_home_id (with_minimum c m) = expected_home_id c"
  "minimum_generation (with_minimum c m) = m"
  "with_minimum (with_minimum c m) n = with_minimum c n"
  "artifact_url_ok (with_minimum c m) url = artifact_url_ok c url"
  by (simp_all add: with_minimum_def artifact_url_ok_def)

lemma pointer_ok_weaken:
  "pointer_ok parse_url (with_minimum c m) p \<Longrightarrow> pointer_ok parse_url (with_minimum c None) p"
  by (auto simp: pointer_ok_def floor_of_def)

lemma pointer_ok_floor:
  "pointer_ok parse_url (with_minimum c (Some m)) p \<Longrightarrow> m \<le> ptr_generation p"
  by (simp add: pointer_ok_def floor_of_def)

lemma pointer_ok_home: "pointer_ok parse_url c p \<Longrightarrow> ptr_home_id p = expected_home_id c"
  by (auto simp: pointer_ok_def bounded_string_Inr_iff)

lemma frozen_state_simps [simp]:
  "highest_accepted (frozen_state h g) = h" "last_known_good (frozen_state h g) = g"
  "rs_home_id (frozen_state h g) = ptr_home_id h" "rs_schema (frozen_state h g) = RELEASE_STATE_SCHEMA"
  by (simp_all add: frozen_state_def)

lemma frozen_state_eq_iff [simp]: "frozen_state h g = frozen_state h' g' \<longleftrightarrow> h = h' \<and> g = g'"
  by (metis frozen_state_simps(1,2))

lemma validate_release_state_Inr:
  assumes "validate_release_state parse_url value context = Inr s"
  shows "\<exists>fs. own_exact_keys value [''schema'', ''home_id'', ''highest_accepted''] [''last_known_good''] = Inr fs
     \<and> strict_eq_str (get fs ''schema'') RELEASE_STATE_SCHEMA
     \<and> strict_eq_str (get fs ''home_id'') (expected_home_id context)
     \<and> validate_pointer parse_url (get fs ''highest_accepted'') (with_minimum context None)
         = Inr (highest_accepted s)
     \<and> (case last_known_good s of
          None \<Rightarrow> get fs ''last_known_good'' = JUndef
        | Some p \<Rightarrow> validate_pointer parse_url (get fs ''last_known_good'') (with_minimum context None) = Inr p
            \<and> ptr_generation p \<le> ptr_generation (highest_accepted s)
            \<and> (ptr_generation p = ptr_generation (highest_accepted s) \<longrightarrow> p = highest_accepted s))
     \<and> s = frozen_state (highest_accepted s) (last_known_good s)"
  using assms
  by (auto simp: validate_release_state_def res_simps split: sum.splits if_splits option.splits)

lemma validate_release_state_errors:
  "validate_release_state parse_url value context = Inl e \<Longrightarrow> e = ReleaseMetadataInvalid"
  by (auto simp: validate_release_state_def own_exact_keys_def bind_r_Inl_iff
      dest: validate_pointer_errors split: sum.splits if_splits option.splits jsval.splits)

lemma validate_release_state_ok:
  "validate_release_state parse_url value context = Inr s \<Longrightarrow> state_ok parse_url context s"
  by (drule validate_release_state_Inr) (auto simp: state_ok_def dest: validate_pointer_ok split: option.splits)

lemma accept_first_Inr_iff:
  "accept_release_candidate parse_url None value context quarantined = Inr s \<longleftrightarrow>
     (\<exists>c. validate_pointer parse_url value (with_minimum context None) = Inr c
        \<and> ptr_sha256 c \<notin> set quarantined \<and> s = frozen_state c None)"
  by (auto simp: accept_release_candidate_def res_simps)

lemma accept_next_Inr_iff:
  "accept_release_candidate parse_url (Some cur) value context quarantined = Inr s \<longleftrightarrow>
     (\<exists>c. validate_pointer parse_url value
            (with_minimum context (Some (ptr_generation (highest_accepted cur)))) = Inr c
        \<and> ptr_sha256 c \<notin> set quarantined
        \<and> (ptr_generation c = ptr_generation (highest_accepted cur) \<longrightarrow> c = highest_accepted cur)
        \<and> s = frozen_state c (last_known_good cur))"
  by (auto simp: accept_release_candidate_def res_simps)

text \<open>What an accepted candidate may do to a current state: keep it, or raise the floor.\<close>

definition advances :: "release_state \<Rightarrow> release_state \<Rightarrow> bool" where
  "advances s t \<longleftrightarrow>
     ptr_generation (highest_accepted s) \<le> ptr_generation (highest_accepted t)
     \<and> (ptr_generation (highest_accepted s) = ptr_generation (highest_accepted t)
          \<longrightarrow> highest_accepted t = highest_accepted s)"

lemma advances_refl [simp]: "advances s s"
  by (simp add: advances_def)

lemma advances_trans: "advances s t \<Longrightarrow> advances t u \<Longrightarrow> advances s u"
  unfolding advances_def by (metis order_antisym order_trans)

lemma accept_release_candidate_ok:
  assumes "accept_release_candidate parse_url current value context quarantined = Inr s"
    and "\<And>cur. current = Some cur \<Longrightarrow> state_ok parse_url context cur"
  shows "state_ok parse_url context s \<and> ptr_sha256 (highest_accepted s) \<notin> set quarantined
     \<and> (\<forall>cur. current = Some cur \<longrightarrow> advances cur s \<and> last_known_good s = last_known_good cur)"
proof (cases current)
  case None
  with assms(1) show ?thesis
    by (auto simp: accept_first_Inr_iff state_ok_def dest: validate_pointer_ok)
next
  case (Some cur)
  with assms(1) obtain c where
    c: "pointer_ok parse_url (with_minimum context (Some (ptr_generation (highest_accepted cur)))) c"
      "ptr_sha256 c \<notin> set quarantined"
      "ptr_generation c = ptr_generation (highest_accepted cur) \<longrightarrow> c = highest_accepted cur"
    and s: "s = frozen_state c (last_known_good cur)"
    by (auto simp: accept_next_Inr_iff dest: validate_pointer_ok)
  from c(1) have "ptr_generation (highest_accepted cur) \<le> ptr_generation c" by (rule pointer_ok_floor)
  with c s Some assms(2) [OF Some] show ?thesis
    by (fastforce simp: state_ok_def advances_def dest: pointer_ok_weaken)
qed

lemma mark_release_active_ok:
  assumes "mark_release_active parse_url current value context quarantined = Inr s"
    and "state_ok parse_url context current"
  shows "state_ok parse_url context s"
    and "highest_accepted s = highest_accepted current"
    and "last_known_good s = Some (highest_accepted current)"
    and "ptr_sha256 (highest_accepted s) \<notin> set quarantined"
  using assms
  by (auto simp: mark_release_active_def res_simps state_ok_def)

section \<open>Reading a stored state back\<close>

lemma own_exact_keys_state_value:
  assumes "state_value s = JRec oid fs"
  shows "own_exact_keys (JRec oid fs) [''schema'', ''home_id'', ''highest_accepted''] [''last_known_good''] = Inr fs"
  unfolding assms [symmetric]
  by (cases "last_known_good s") (use assms in \<open>auto simp: state_value_def own_exact_keys_def\<close>)

lemma state_value_fields:
  assumes "state_value s = JRec oid fs"
  shows "get fs ''schema'' = JStr (rs_schema s)" "get fs ''home_id'' = JStr (rs_home_id s)"
    "get fs ''highest_accepted'' = pointer_value (highest_accepted s)"
    "get fs ''last_known_good'' = (case last_known_good s of None \<Rightarrow> JUndef | Some p \<Rightarrow> pointer_value p)"
  using assms by (auto simp: state_value_def split: option.splits)

lemma state_value_record: "\<exists>fs. state_value s = JRec 0 fs"
  by (simp add: state_value_def)

lemma pointer_value_not_undef [simp]: "pointer_value p \<noteq> JUndef"
  by (simp add: pointer_value_def)

lemma validate_pointer_undefined [simp]: "validate_pointer parse_url JUndef context = Inl PointerInvalid"
  by (simp add: validate_pointer_def validate_pointer_value_def exact_object_def)

lemma reread_state_eq:
  assumes "validate_release_state parse_url (state_value s) context = Inr t"
    and "url_idempotent parse_url" and "state_ok parse_url context s"
  shows "t = s"
proof -
  obtain fs where fs: "state_value s = JRec 0 fs" using state_value_record by blast
  note fields = state_value_fields [OF fs]
  have keys: "own_exact_keys (state_value s)
      [''schema'', ''home_id'', ''highest_accepted''] [''last_known_good''] = Inr fs"
    unfolding fs using fs by (rule own_exact_keys_state_value)
  from validate_release_state_Inr [OF assms(1)] have
    h: "validate_pointer parse_url (pointer_value (highest_accepted s)) (with_minimum context None)
          = Inr (highest_accepted t)"
    and g: "case last_known_good t of
          None \<Rightarrow> last_known_good s = None
        | Some p \<Rightarrow> \<exists>q. last_known_good s = Some q \<and>
            validate_pointer parse_url (pointer_value q) (with_minimum context None) = Inr p"
    and t: "t = frozen_state (highest_accepted t) (last_known_good t)"
    by (auto simp: keys fields split: option.splits)
  from assms(3) have ok: "pointer_ok parse_url (with_minimum context None) (highest_accepted s)"
    and okg: "\<And>p. last_known_good s = Some p \<Longrightarrow> pointer_ok parse_url (with_minimum context None) p"
    and s: "s = frozen_state (highest_accepted s) (last_known_good s)"
    by (auto simp: state_ok_def)
  have "highest_accepted t = highest_accepted s" using revalidate_eq [OF h assms(2) ok] .
  moreover have "last_known_good t = last_known_good s"
    using g okg revalidate_eq [OF _ assms(2)] by (auto split: option.splits)
  ultimately show ?thesis using s t by simp
qed

definition stored_url_ok :: "component_pointer \<Rightarrow> bool" where
  "stored_url_ok p \<longleftrightarrow> bounded_string (JStr (ptr_url p)) 2048 = Inr (ptr_url p)"

lemma reread_state_total:
  assumes "state_ok parse_url context s" and "url_idempotent parse_url"
    and "stored_url_ok (highest_accepted s)"
    and "\<forall>p. last_known_good s = Some p \<longrightarrow> stored_url_ok p"
  shows "validate_release_state parse_url (state_value s) context = Inr s"
proof -
  obtain fs where fs: "state_value s = JRec 0 fs" using state_value_record by blast
  note fields = state_value_fields [OF fs]
  have s: "s = frozen_state (highest_accepted s) (last_known_good s)"
    and home: "rs_home_id s = expected_home_id context"
    and schema: "rs_schema s = RELEASE_STATE_SCHEMA"
    using assms(1) pointer_ok_home [of parse_url "with_minimum context None" "highest_accepted s"]
    by (auto simp: state_ok_def) (metis frozen_state_simps)+
  have h: "validate_pointer parse_url (pointer_value (highest_accepted s)) (with_minimum context None)
      = Inr (highest_accepted s)"
    using assms(1-3) by (intro revalidate_total) (auto simp: state_ok_def stored_url_ok_def)
  have g: "validate_pointer parse_url (pointer_value p) (with_minimum context None) = Inr p"
    if "last_known_good s = Some p" for p
    using assms that by (intro revalidate_total) (auto simp: state_ok_def stored_url_ok_def)
  show ?thesis
  proof (cases "last_known_good s")
    case None
    with s [symmetric] h fields home schema show ?thesis
      by (simp add: validate_release_state_def own_exact_keys_state_value [OF fs] fs strict_eq_str_def)
  next
    case (Some p)
    with assms(1) have "\<not> ptr_generation p > ptr_generation (highest_accepted s)"
      and "\<not> (ptr_generation p = ptr_generation (highest_accepted s) \<and> p \<noteq> highest_accepted s)"
      by (auto simp: state_ok_def)
    with Some s [symmetric] h g [OF Some] fields home schema show ?thesis
      by (simp add: validate_release_state_def own_exact_keys_state_value [OF fs] fs strict_eq_str_def)
  qed
qed

section \<open>The store interface\<close>

locale release_store =
  fixes read :: "'db \<Rightarrow> jstr \<Rightarrow> jsval option"
    and transact ::
      "'db \<Rightarrow> jstr \<Rightarrow> (jsval option \<Rightarrow> (release_state \<times> release_state) res) \<Rightarrow> 'db \<times> release_state res"
  assumes transact_fail:
      "mutation (read db home) = Inl e \<Longrightarrow> transact db home mutation = (db, Inl e)"
    and transact_other_home:
      "mutation (read db home) = Inr (r, v) \<Longrightarrow> rs_home_id r \<noteq> home \<Longrightarrow>
         transact db home mutation = (db, Inl ReleaseMetadataInvalid)"
    and transact_commit:
      "mutation (read db home) = Inr (r, v) \<Longrightarrow> rs_home_id r = home \<Longrightarrow>
         \<exists>db'. transact db home mutation = (db', Inr v) \<and> read db' = (read db)(home \<mapsto> state_value r)"
begin

lemma transact_Inr:
  assumes "transact db home mutation = (db', Inr v)"
  obtains r where "mutation (read db home) = Inr (r, v)" and "rs_home_id r = home"
    and "read db' = (read db)(home \<mapsto> state_value r)"
proof (cases "mutation (read db home)")
  case (Inl e)
  with transact_fail [of mutation db home e] assms show ?thesis by simp
next
  case (Inr rv)
  obtain r w where rv: "rv = (r, w)" by (cases rv)
  with Inr assms that transact_other_home [of mutation db home r w]
    transact_commit [of mutation db home r w]
  show ?thesis by (cases "rs_home_id r = home") auto
qed

lemma transact_Inl:
  assumes "transact db home mutation = (db', Inl e)"
  shows "db' = db"
proof (cases "mutation (read db home)")
  case (Inl d)
  with transact_fail [of mutation db home d] assms show ?thesis by simp
next
  case (Inr rv)
  obtain r w where rv: "rv = (r, w)" by (cases rv)
  with Inr assms transact_other_home [of mutation db home r w]
    transact_commit [of mutation db home r w]
  show ?thesis by (cases "rs_home_id r = home") auto
qed

text \<open>A ledger operation that fails leaves the store as it was.\<close>

lemma ledger_failure_is_clean:
  "ledger_accept transact parse_url context value quarantined db = (db', Inl e) \<Longrightarrow> db' = db"
  "ledger_mark_active transact parse_url context value quarantined db = (db', Inl e) \<Longrightarrow> db' = db"
  by (auto simp: ledger_accept_def ledger_mark_active_def dest: transact_Inl)

lemma ledger_accept_Inr:
  assumes "ledger_accept transact parse_url context value quarantined db = (db', Inr s)"
  shows "read db' = (read db)(expected_home_id context \<mapsto> state_value s)"
    and "\<exists>current. ledger_read read parse_url context db = Inr current
           \<and> accept_release_candidate parse_url current value (with_minimum context None) quarantined = Inr s"
  using assms
  by (auto simp: ledger_accept_def ledger_read_def res_simps elim!: transact_Inr split: option.splits)

lemma ledger_mark_active_Inr:
  assumes "ledger_mark_active transact parse_url context value quarantined db = (db', Inr s)"
  shows "read db' = (read db)(expected_home_id context \<mapsto> state_value s)"
    and "\<exists>current. ledger_read read parse_url context db = Inr (Some current)
           \<and> mark_release_active parse_url current value (with_minimum context None) quarantined = Inr s"
  using assms
  by (auto simp: ledger_mark_active_def ledger_read_def res_simps elim!: transact_Inr split: option.splits)

lemma ledger_read_ok:
  "ledger_read read parse_url context db = Inr (Some s) \<Longrightarrow> state_ok parse_url (with_minimum context None) s"
  by (auto simp: ledger_read_def res_simps dest: validate_release_state_ok split: option.splits)

lemma ledger_accept_advances:
  assumes "ledger_accept transact parse_url context value quarantined db = (db', Inr s)"
  shows "state_ok parse_url (with_minimum context None) s"
    and "ptr_sha256 (highest_accepted s) \<notin> set quarantined"
    and "ledger_read read parse_url context db = Inr (Some cur) \<Longrightarrow> advances cur s"
proof -
  from ledger_accept_Inr(2) [OF assms] obtain current where
    c: "ledger_read read parse_url context db = Inr current"
       "accept_release_candidate parse_url current value (with_minimum context None) quarantined = Inr s"
    by blast
  then have "\<And>cur. current = Some cur \<Longrightarrow> state_ok parse_url (with_minimum context None) cur"
    using ledger_read_ok by blast
  from accept_release_candidate_ok [OF c(2) this] c(1)
  show "state_ok parse_url (with_minimum context None) s"
    "ptr_sha256 (highest_accepted s) \<notin> set quarantined"
    "ledger_read read parse_url context db = Inr (Some cur) \<Longrightarrow> advances cur s"
    by auto
qed

lemma ledger_mark_active_advances:
  assumes "ledger_mark_active transact parse_url context value quarantined db = (db', Inr s)"
  shows "state_ok parse_url (with_minimum context None) s"
    and "last_known_good s = Some (highest_accepted s)"
    and "ledger_read read parse_url context db = Inr (Some cur) \<Longrightarrow> advances cur s"
proof -
  from ledger_mark_active_Inr(2) [OF assms] obtain current where
    c: "ledger_read read parse_url context db = Inr (Some current)"
       "mark_release_active parse_url current value (with_minimum context None) quarantined = Inr s"
    by blast
  note m = mark_release_active_ok [OF c(2) ledger_read_ok [OF c(1)]]
  then show "state_ok parse_url (with_minimum context None) s"
    "last_known_good s = Some (highest_accepted s)"
    "ledger_read read parse_url context db = Inr (Some cur) \<Longrightarrow> advances cur s"
    using c(1) by (auto simp: advances_def)
qed

text \<open>Reading back what a committed operation returned.\<close>

lemma ledger_read_back:
  assumes "read db' = (read db)(expected_home_id context \<mapsto> state_value s)"
    and "ledger_read read parse_url context db' = Inr (Some t)"
    and "url_idempotent parse_url" and "state_ok parse_url (with_minimum context None) s"
  shows "t = s"
  using assms reread_state_eq [of parse_url s "with_minimum context None" t]
  by (auto simp: ledger_read_def res_simps)

text \<open>A store whose record cannot be read back is stuck: no operation changes it.\<close>

lemma unreadable_is_stuck:
  assumes "ledger_read read parse_url context db = Inl e"
  shows "\<exists>d. ledger_accept transact parse_url context value quarantined db = (db, Inl d)"
    and "\<exists>d. ledger_mark_active transact parse_url context value quarantined db = (db, Inl d)"
proof -
  let ?op = "ledger_accept transact parse_url context value quarantined db"
  show "\<exists>d. ?op = (db, Inl d)"
  proof (cases "snd ?op")
    case (Inl d)
    then show ?thesis using ledger_failure_is_clean(1) by (metis prod.collapse)
  next
    case (Inr s)
    then show ?thesis using ledger_accept_Inr(2) assms by (metis prod.collapse sum.distinct(1))
  qed
  let ?op = "ledger_mark_active transact parse_url context value quarantined db"
  show "\<exists>d. ?op = (db, Inl d)"
  proof (cases "snd ?op")
    case (Inl d)
    then show ?thesis using ledger_failure_is_clean(2) by (metis prod.collapse)
  next
    case (Inr s)
    then show ?thesis using ledger_mark_active_Inr(2) assms by (metis prod.collapse sum.distinct(1))
  qed
qed

end

interpretation idb_releases: release_store idb_release_read idb_release_transact
  by unfold_locales
    (auto simp: idb_release_read_def idb_release_transact_def fun_eq_iff update_conv')

section \<open>Runs of the ledger\<close>

datatype ledger_op = Accept_op jsval "jstr list" | Mark_active_op jsval "jstr list"

fun ledger_step :: "url_parser \<Rightarrow> pointer_context \<Rightarrow> release_db \<Rightarrow> ledger_op \<Rightarrow> release_db" where
  "ledger_step parse_url context db (Accept_op value quarantined) =
     fst (ledger_accept idb_release_transact parse_url context value quarantined db)"
| "ledger_step parse_url context db (Mark_active_op value quarantined) =
     fst (ledger_mark_active idb_release_transact parse_url context value quarantined db)"

abbreviation idb_ledger_read ::
  "url_parser \<Rightarrow> pointer_context \<Rightarrow> release_db \<Rightarrow> release_state option res" where
  "idb_ledger_read \<equiv> ledger_read idb_release_read"

definition ledger_run :: "url_parser \<Rightarrow> pointer_context \<Rightarrow> release_db \<Rightarrow> ledger_op list \<Rightarrow> release_db" where
  "ledger_run parse_url context = foldl (ledger_step parse_url context)"

text \<open>One operation either leaves the store alone or stores a well-formed state that advances.\<close>

lemma ledger_step_cases:
  obtains "ledger_step parse_url context db op = db"
  | s where "idb_release_read (ledger_step parse_url context db op)
               = (idb_release_read db)(expected_home_id context \<mapsto> state_value s)"
      and "state_ok parse_url (with_minimum context None) s"
      and "\<And>cur. idb_ledger_read parse_url context db = Inr (Some cur) \<Longrightarrow> advances cur s"
proof (cases op)
  case (Accept_op v q)
  obtain db' r where op: "ledger_accept idb_release_transact parse_url context v q db = (db', r)"
    by (cases "ledger_accept idb_release_transact parse_url context v q db")
  show ?thesis
  proof (cases r)
    case (Inl e)
    with op Accept_op idb_releases.ledger_failure_is_clean(1) that(1) show ?thesis by fastforce
  next
    case (Inr s)
    from idb_releases.ledger_accept_Inr(1) [OF op [unfolded Inr]]
      idb_releases.ledger_accept_advances [OF op [unfolded Inr]] op Accept_op that(2)
    show ?thesis by simp
  qed
next
  case (Mark_active_op v q)
  obtain db' r where op: "ledger_mark_active idb_release_transact parse_url context v q db = (db', r)"
    by (cases "ledger_mark_active idb_release_transact parse_url context v q db")
  show ?thesis
  proof (cases r)
    case (Inl e)
    with op Mark_active_op idb_releases.ledger_failure_is_clean(2) that(1) show ?thesis by fastforce
  next
    case (Inr s)
    from idb_releases.ledger_mark_active_Inr(1) [OF op [unfolded Inr]]
      idb_releases.ledger_mark_active_advances [OF op [unfolded Inr]] op Mark_active_op that(2)
    show ?thesis by simp
  qed
qed

lemma ledger_step_stuck:
  assumes "idb_ledger_read parse_url context db = Inl e"
  shows "ledger_step parse_url context db op = db"
  using idb_releases.unreadable_is_stuck [OF assms] by (cases op) (metis fst_conv ledger_step.simps)+

lemma ledger_run_stuck:
  assumes "idb_ledger_read parse_url context db = Inl e"
  shows "ledger_run parse_url context db ops = db"
  using assms by (induction ops) (auto simp: ledger_run_def ledger_step_stuck)

lemma ledger_read_stored:
  assumes "idb_release_read db = m(expected_home_id context \<mapsto> state_value s)"
  shows "idb_ledger_read parse_url context db \<noteq> Inr None"
  using assms by (auto simp: ledger_read_def res_simps)

text \<open>
Property C28: anti-rollback. Over any sequence of ledger operations the highest accepted generation
never decreases, and while it stays the same the accepted pointer is never rewritten, provided
parsing the serialised form of a URL gives the URL back.
\<close>

theorem ledger_never_rolls_back:
  assumes "url_idempotent parse_url"
    and "idb_ledger_read parse_url context db = Inr (Some s)"
    and "idb_ledger_read parse_url context (ledger_run parse_url context db ops) = Inr (Some t)"
  shows "advances s t"
  using assms(2,3)
proof (induction ops arbitrary: db s)
  case Nil
  then show ?case by (simp add: ledger_run_def)
next
  case (Cons op ops)
  let ?db = "ledger_step parse_url context db op"
  have run: "ledger_run parse_url context db (op # ops) = ledger_run parse_url context ?db ops"
    by (simp add: ledger_run_def)
  show ?case
  proof (rule ledger_step_cases [of parse_url "context" db op])
    assume "?db = db"
    with Cons run show ?thesis by simp
  next
    fix u
    assume stored: "idb_release_read ?db = (idb_release_read db)(expected_home_id context \<mapsto> state_value u)"
      and ok: "state_ok parse_url (with_minimum context None) u"
      and adv: "\<And>cur. idb_ledger_read parse_url context db = Inr (Some cur) \<Longrightarrow> advances cur u"
    show ?thesis
    proof (cases "idb_ledger_read parse_url context ?db")
      case (Inl e)
      with Cons.prems(2) run ledger_run_stuck [OF Inl] show ?thesis by simp
    next
      case (Inr r)
      with ledger_read_stored [OF stored] obtain w where r: "r = Some w" by (cases r) auto
      with Inr idb_releases.ledger_read_back [OF stored _ assms(1) ok] have "w = u" by simp
      with Inr r Cons.IH [of ?db u] Cons.prems(2) run have "advances u t" by simp
      with adv [OF Cons.prems(1)] show ?thesis by (rule advances_trans)
    qed
  qed
qed

text \<open>
  Durability. What \<open>accept\<close> returns is what the next \<open>read\<close> of the ledger returns, when
  the serialised URLs it stored are within the bound the validator puts on URLs.
\<close>

theorem accepted_state_is_read_back:
  assumes "ledger_accept idb_release_transact parse_url context value quarantined db = (db', Inr s)"
    and "url_idempotent parse_url"
    and "stored_url_ok (highest_accepted s)"
    and "\<forall>p. last_known_good s = Some p \<longrightarrow> stored_url_ok p"
  shows "idb_ledger_read parse_url context db' = Inr (Some s)"
  using idb_releases.ledger_accept_Inr(1) [OF assms(1)]
    reread_state_total [OF idb_releases.ledger_accept_advances(1) [OF assms(1)] assms(2-4)]
  by (simp add: ledger_read_def)

text \<open>
Property C32: the bound is on the raw URL, not on the serialised URL that is stored. A candidate
whose serialised URL is longer than 2048 bytes is accepted, and from then on every read of the
ledger fails and no operation can change it.
\<close>

theorem long_serialised_url_locks_ledger:
  assumes "ledger_accept idb_release_transact parse_url context value quarantined db = (db', Inr s)"
    and "utf8_bytes (ptr_url (highest_accepted s)) > 2048"
  shows "idb_ledger_read parse_url context db' = Inl ReleaseMetadataInvalid
    \<and> ledger_run parse_url context db' ops = db'"
proof -
  have url: "validate_pointer parse_url (pointer_value (highest_accepted s)) c \<noteq> Inr q" for c q
    using assms(2)
    unfolding validate_pointer_Inr_iff validate_pointer_value_def pointer_record
    by (auto simp: pointer_value_def res_simps Let_def)
  have stored: "idb_release_read db' = (idb_release_read db)(expected_home_id context \<mapsto> state_value s)"
    by (rule idb_releases.ledger_accept_Inr(1) [OF assms(1)])
  obtain fs where fs: "state_value s = JRec 0 fs" using state_value_record by blast
  have no_read: "validate_release_state parse_url (state_value s) c \<noteq> Inr t" for c t
  proof
    assume "validate_release_state parse_url (state_value s) c = Inr t"
    from validate_release_state_Inr [OF this] url show False
      by (auto simp: fs own_exact_keys_state_value [OF fs] state_value_fields [OF fs])
  qed
  then have "validate_release_state parse_url (state_value s) (with_minimum context None)
      = Inl ReleaseMetadataInvalid"
    using validate_release_state_errors
    by (cases "validate_release_state parse_url (state_value s) (with_minimum context None)") blast+
  with stored have "idb_ledger_read parse_url context db' = Inl ReleaseMetadataInvalid"
    by (simp add: ledger_read_def)
  with ledger_run_stuck [OF this] show ?thesis by simp
qed

text \<open>
Property C33: automatic fallback is only offered while the candidate is still staged, and then it is
the last known good pointer: an older generation than the failed candidate, and not quarantined.
\<close>

theorem fallback_is_older_and_clean:
  assumes "idb_ledger_read parse_url context db = Inr (Some s)"
    and "ledger_automatic_fallback idb_release_read parse_url context failed phase quarantined db
           = Inr (Some p)"
  shows "phase = Staging \<and> last_known_good s = Some p \<and> ptr_sha256 p \<notin> set quarantined
    \<and> ptr_generation p < ptr_generation (highest_accepted s)"
proof -
  from assms have "phase = Staging" "last_known_good s = Some p" "ptr_sha256 p \<notin> set quarantined"
    "p \<noteq> highest_accepted s"
    by (auto simp: ledger_automatic_fallback_def select_automatic_fallback_def res_simps
        split: option.splits if_splits)
  moreover have "state_ok parse_url (with_minimum context None) s"
    by (rule idb_releases.ledger_read_ok [OF assms(1)])
  ultimately show ?thesis by (auto simp: state_ok_def order_less_le)
qed

end
