(* ===== verification/Structured.thy ===== *)
theory Structured
  imports Capability "HOL-Library.Multiset"
begin

text \<open>
  \<open>component-runtime/src/contract.ts\<close>: \<open>measureStructuredValue\<close>, the bounded work-list traversal every
  bridge payload goes through, and \<open>validateEnvelope\<close>. The traversal is proved equivalent to a
  recursive specification: it accepts exactly the tree-shaped values within the limits and returns
  their size.
\<close>

section \<open>The traversal\<close>

record measure_options =
  max_bytes :: "nat option"
  max_depth :: "nat option"
  allow_binary :: bool

definition default_measure :: measure_options where
  "default_measure = \<lparr>max_bytes = None, max_depth = None, allow_binary = False\<rparr>"

definition binary_measure :: measure_options where
  "binary_measure = \<lparr>max_bytes = None, max_depth = None, allow_binary = True\<rparr>"

text \<open>
  One iteration's item: the bytes it adds, the entries it pushes (first element on top of the stack)
  and the objects seen so far.
\<close>

definition measure_item ::
  "bool \<Rightarrow> jsval \<Rightarrow> nat \<Rightarrow> nat set \<Rightarrow> (nat \<times> (jsval \<times> nat) list \<times> nat set) res" where
  "measure_item binary item depth seen =
     (case item of
        JNull \<Rightarrow> Inr (4, [], seen)
      | JBool _ \<Rightarrow> Inr (1, [], seen)
      | JNum n \<Rightarrow> (if \<not> num_is_finite n then fail BridgeProtocolViolation else Inr (8, [], seen))
      | JStr s \<Rightarrow>
          (if has_control s \<and> 0 \<in> set s then fail BridgeProtocolViolation
           else Inr (utf8_bytes s + 4, [], seen))
      | JBytes bs \<Rightarrow>
          (if \<not> binary then fail BridgeProtocolViolation else Inr (length bs + 4, [], seen))
      | JBuffer bs \<Rightarrow>
          (if \<not> binary then fail BridgeProtocolViolation else Inr (length bs + 4, [], seen))
      | JArr oid items extra \<Rightarrow>
          (if oid \<in> seen then fail BridgeProtocolViolation
           else bind_r (dense_array item (structured_array_items LIMITS) BridgeProtocolViolation)
             (\<lambda>xs. Inr (4, map (\<lambda>x. (x, depth + 1)) xs, insert oid seen)))
      | JRec oid fs \<Rightarrow>
          (if oid \<in> seen then fail BridgeProtocolViolation
           else bind_r (own_keys fs) (\<lambda>keys.
             Inr (4 + sum_list (map (\<lambda>key. utf8_bytes key + 4) keys),
                  rev (map (\<lambda>(_, x). (x, depth + 1)) fs), insert oid seen)))
      | _ \<Rightarrow> fail BridgeProtocolViolation)"

function measure_loop ::
  "bool \<Rightarrow> nat \<Rightarrow> nat \<Rightarrow> (jsval \<times> nat) list \<Rightarrow> nat set \<Rightarrow> nat \<Rightarrow> nat \<Rightarrow> nat res" where
  "measure_loop binary max_b max_d [] seen bytes seen_values = Inr bytes"
| "measure_loop binary max_b max_d ((item, depth) # stack) seen bytes seen_values =
     (if seen_values + 1 > structured_values LIMITS then fail BridgeProtocolViolation
      else if depth > max_d then fail BridgeProtocolViolation
      else bind_r (measure_item binary item depth seen) (\<lambda>(added, pushed, seen').
        if bytes + added > max_b then fail BridgeProtocolViolation
        else measure_loop binary max_b max_d (pushed @ stack) seen' (bytes + added) (seen_values + 1)))"
  by pat_completeness auto
termination
  by (relation "measure (\<lambda>(_, _, _, _, _, _, seen_values). 16384 - seen_values)") auto

declare measure_loop.simps(2) [simp del]

definition measure_structured_value :: "jsval \<Rightarrow> measure_options \<Rightarrow> nat res" where
  "measure_structured_value v options =
     measure_loop (allow_binary options)
       (case max_bytes options of None \<Rightarrow> envelope_bytes LIMITS | Some n \<Rightarrow> n)
       (case max_depth options of None \<Rightarrow> 32 | Some n \<Rightarrow> n)
       [(v, 0)] {} 0 0"

section \<open>The recursive specification\<close>

fun children :: "jsval \<Rightarrow> jsval list" where
  "children (JArr _ items _) = List.map_filter id items"
| "children (JRec _ fs) = map snd fs"
| "children _ = []"

lemma size_child: "c \<in> set (children v) \<Longrightarrow> size c < size v"
proof (cases v)
  case (JArr oid items extra)
  assume "c \<in> set (children v)"
  then have "Some c \<in> set items" using JArr by (auto simp: map_filter_def)
  then have "size_option size (Some c) \<le> size_list (size_option size) items"
    by (rule size_list_estimation') simp
  then show ?thesis using JArr by simp
next
  case (JRec oid fs)
  assume "c \<in> set (children v)"
  then obtain k where "(k, c) \<in> set fs" using JRec by auto
  then have "size_prod (\<lambda>_. 0) size (k, c) \<le> size_list (size_prod (\<lambda>_. 0) size) fs"
    by (rule size_list_estimation') simp
  then show ?thesis using JRec by simp
qed auto

fun own_bytes :: "jsval \<Rightarrow> nat" where
  "own_bytes JNull = 4"
| "own_bytes (JBool _) = 1"
| "own_bytes (JNum _) = 8"
| "own_bytes (JStr s) = utf8_bytes s + 4"
| "own_bytes (JBytes bs) = length bs + 4"
| "own_bytes (JBuffer bs) = length bs + 4"
| "own_bytes (JArr _ _ _) = 4"
| "own_bytes (JRec _ fs) = 4 + sum_list (map (\<lambda>(k, _). utf8_bytes k + 4) fs)"
| "own_bytes _ = 0"

fun own_ids :: "jsval \<Rightarrow> nat list" where
  "own_ids (JArr oid _ _) = [oid]"
| "own_ids (JRec oid _) = [oid]"
| "own_ids _ = []"

text \<open>What the code checks of one value, apart from sharing and the aggregate limits.\<close>

fun item_ok :: "bool \<Rightarrow> jsval \<Rightarrow> bool" where
  "item_ok binary (JNum n) = num_is_finite n"
| "item_ok binary (JStr s) = (0 \<notin> set s)"
| "item_ok binary (JBytes _) = binary"
| "item_ok binary (JBuffer _) = binary"
| "item_ok binary (JArr _ items extra) =
     (length items \<le> 4096 \<and> extra = [] \<and> (\<forall>x\<in>set items. x \<noteq> None))"
| "item_ok binary (JRec _ fs) = (\<forall>k\<in>set (map fst fs). \<not> forbidden_key k)"
| "item_ok binary JNull = True"
| "item_ok binary (JBool _) = True"
| "item_ok binary _ = False"

function total_bytes :: "jsval \<Rightarrow> nat" where
  "total_bytes v = own_bytes v + sum_list (map total_bytes (children v))"
  by pat_completeness auto
termination by (relation "measure size") (auto dest: size_child)

function members :: "jsval \<Rightarrow> nat" where
  "members v = Suc (sum_list (map members (children v)))"
  by pat_completeness auto
termination by (relation "measure size") (auto dest: size_child)

function all_ids :: "jsval \<Rightarrow> nat list" where
  "all_ids v = own_ids v @ concat (map all_ids (children v))"
  by pat_completeness auto
termination by (relation "measure size") (auto dest: size_child)

function tree_ok :: "bool \<Rightarrow> nat \<Rightarrow> nat \<Rightarrow> jsval \<Rightarrow> bool" where
  "tree_ok binary max_d depth v \<longleftrightarrow>
     depth \<le> max_d \<and> item_ok binary v \<and> list_all (tree_ok binary max_d (depth + 1)) (children v)"
  by pat_completeness auto
termination by (relation "measure (\<lambda>(_, _, _, v). size v)") (auto dest: size_child)

declare total_bytes.simps [simp del] members.simps [simp del] all_ids.simps [simp del]
  tree_ok.simps [simp del]

text \<open>An acceptable value: every item is fine, no object occurs twice, and the aggregates fit.\<close>

definition structured_ok :: "bool \<Rightarrow> nat \<Rightarrow> nat \<Rightarrow> jsval \<Rightarrow> bool" where
  "structured_ok binary max_b max_d v \<longleftrightarrow>
     tree_ok binary max_d 0 v \<and> distinct (all_ids v) \<and> members v \<le> 16384 \<and> total_bytes v \<le> max_b"

section \<open>The traversal computes the specification\<close>

lemma children_of_dense [simp]: "List.map_filter id (map Some xs) = xs"
  by (simp add: map_filter_def comp_def)

lemma some_items: "\<forall>x\<in>set items. x \<noteq> None \<Longrightarrow> items = map Some (List.map_filter id items)"
  by (induction items) (auto simp: map_filter_def)

lemma dense_array_item:
  "dense_array (JArr oid items extra) 4096 e = Inr xs \<longleftrightarrow>
     length items \<le> 4096 \<and> extra = [] \<and> (\<forall>x\<in>set items. x \<noteq> None) \<and> xs = List.map_filter id items"
  (is "?l \<longleftrightarrow> ?r")
proof
  assume ?l
  then show ?r by (auto simp: dense_array_Inr_iff)
next
  assume r: ?r
  then have "items = map Some xs" using some_items by blast
  with r show ?l by (auto simp: dense_array_Inr_iff)
qed

lemma measure_item_Inr_iff:
  "measure_item binary item depth seen = Inr (added, pushed, seen') \<longleftrightarrow>
     item_ok binary item \<and> set (own_ids item) \<inter> seen = {} \<and> added = own_bytes item
     \<and> seen' = seen \<union> set (own_ids item)
     \<and> pushed = (if is_plain_record item then rev else id) (map (\<lambda>c. (c, depth + 1)) (children item))"
proof (cases item)
  case (JArr oid items extra)
  have inv: "dense_array item 4096 BridgeProtocolViolation = Inr xs \<longleftrightarrow>
      item_ok binary item \<and> xs = children item" for xs
    by (simp add: JArr dense_array_item)
  show ?thesis
    using inv by (auto simp: JArr measure_item_def bind_r_Inr_iff if_Inl_eq_Inr)
next
  case (JRec oid fs)
  then show ?thesis
    by (auto simp: measure_item_def own_keys_def res_simps comp_def case_prod_unfold)
qed (auto simp: measure_item_def has_control_def is_control_def)

definition stack_ids :: "(jsval \<times> nat) list \<Rightarrow> nat list" where
  "stack_ids st = concat (map (\<lambda>e. all_ids (fst e)) st)"

definition stack_sum :: "(jsval \<Rightarrow> nat) \<Rightarrow> (jsval \<times> nat) list \<Rightarrow> nat" where
  "stack_sum f st = sum_list (map (\<lambda>e. f (fst e)) st)"

definition stack_trees :: "bool \<Rightarrow> nat \<Rightarrow> (jsval \<times> nat) list \<Rightarrow> bool" where
  "stack_trees binary max_d st \<longleftrightarrow> (\<forall>e\<in>set st. tree_ok binary max_d (snd e) (fst e))"

lemma stack_simps [simp]:
  "stack_ids [] = []" "stack_ids (e # st) = all_ids (fst e) @ stack_ids st"
  "stack_ids (st @ st') = stack_ids st @ stack_ids st'"
  "stack_sum f [] = 0" "stack_sum f (e # st) = f (fst e) + stack_sum f st"
  "stack_sum f (st @ st') = stack_sum f st + stack_sum f st'"
  "stack_trees b d []" "stack_trees b d (e # st) \<longleftrightarrow> tree_ok b d (snd e) (fst e) \<and> stack_trees b d st"
  "stack_trees b d (st @ st') \<longleftrightarrow> stack_trees b d st \<and> stack_trees b d st'"
  by (auto simp: stack_ids_def stack_sum_def stack_trees_def)

lemma mset_concat_rev: "mset (concat (rev xss)) = mset (concat xss)"
  by (induction xss) auto

text \<open>The order in which children are pushed does not matter to the aggregates.\<close>

lemma stack_pushed:
  fixes cs :: "jsval list"
  assumes "pushed = (if r then rev else id) (map (\<lambda>c. (c, d)) cs)"
  shows "stack_sum f pushed = sum_list (map f cs)"
    and "stack_trees b m pushed \<longleftrightarrow> list_all (tree_ok b m d) cs"
    and "mset (stack_ids pushed) = mset (concat (map all_ids cs))"
proof -
  show "stack_sum f pushed = sum_list (map f cs)"
    by (simp add: assms stack_sum_def rev_map [symmetric] comp_def)
  show "stack_trees b m pushed \<longleftrightarrow> list_all (tree_ok b m d) cs"
    by (auto simp: assms stack_trees_def list_all_iff)
  show "mset (stack_ids pushed) = mset (concat (map all_ids cs))"
    by (simp add: assms stack_ids_def rev_map [symmetric] comp_def mset_concat_rev)
qed

lemma distinct_pushed:
  assumes "mset pushed = mset below"
  shows "distinct (pushed @ rest) \<and> set (pushed @ rest) \<inter> (seen \<union> set own) = {} \<and> distinct own
           \<and> set own \<inter> seen = {} \<longleftrightarrow>
         distinct ((own @ below) @ rest) \<and> set ((own @ below) @ rest) \<inter> seen = {}"
proof -
  have "set pushed = set below" "distinct pushed = distinct below"
    by (rule mset_eq_setD [OF assms], rule mset_eq_imp_distinct_iff [OF assms])
  moreover
  have "d \<and> r \<and> A \<inter> R = {} \<and> (A \<union> R) \<inter> (S \<union> W) = {} \<and> w \<and> W \<inter> S = {} \<longleftrightarrow>
      w \<and> d \<and> W \<inter> A = {} \<and> r \<and> (W \<union> A) \<inter> R = {} \<and> (W \<union> A \<union> R) \<inter> S = {}"
    for d r w and A R S W :: "'a set"
    by (simp add: disjoint_iff) blast
  note this [of "distinct below" "distinct rest" "set below" "set rest" seen "set own" "distinct own"]
  ultimately show ?thesis by (simp only: distinct_append set_append conj_assoc)
qed

lemma distinct_own_ids [simp]: "distinct (own_ids v)"
  by (cases v) auto

lemma members_pos [simp]: "0 < members v"
  by (subst members.simps) simp

lemma measure_loop_iff:
  assumes "seen_values \<le> 16384"
  shows "measure_loop binary max_b max_d stack seen bytes seen_values = Inr r \<longleftrightarrow>
     r = bytes + stack_sum total_bytes stack \<and> (stack \<noteq> [] \<longrightarrow> r \<le> max_b)
     \<and> seen_values + stack_sum members stack \<le> 16384 \<and> stack_trees binary max_d stack
     \<and> distinct (stack_ids stack) \<and> set (stack_ids stack) \<inter> seen = {}"
  using assms
proof (induction binary max_b max_d stack seen bytes seen_values arbitrary: r rule: measure_loop.induct)
  case (1 binary max_b max_d seen bytes seen_values)
  then show ?case by auto
next
  case (2 binary max_b max_d item depth stack seen bytes seen_values)
  let ?pushed = "(if is_plain_record item then rev else id) (map (\<lambda>c. (c, depth + 1)) (children item))"
  let ?seen = "seen \<union> set (own_ids item)"
  note pushed = stack_pushed [OF refl [of ?pushed]]
  have ids: "distinct (stack_ids (?pushed @ stack)) \<and> set (stack_ids (?pushed @ stack)) \<inter> ?seen = {}
        \<and> set (own_ids item) \<inter> seen = {} \<longleftrightarrow>
      distinct (stack_ids ((item, depth) # stack)) \<and> set (stack_ids ((item, depth) # stack)) \<inter> seen = {}"
    using distinct_pushed [OF pushed(3), of "stack_ids stack" seen "own_ids item"]
    by (simp add: all_ids.simps [of item] del: append_assoc)
  have trees: "stack_trees binary max_d ((item, depth) # stack) \<longleftrightarrow>
      depth \<le> max_d \<and> item_ok binary item \<and> stack_trees binary max_d (?pushed @ stack)"
    using pushed(2) [of binary max_d] by (auto simp: tree_ok.simps [of _ _ _ item])
  have sums: "stack_sum total_bytes ((item, depth) # stack)
        = own_bytes item + stack_sum total_bytes (?pushed @ stack)"
    "stack_sum members ((item, depth) # stack) = Suc (stack_sum members (?pushed @ stack))"
    using pushed(1) [of total_bytes] pushed(1) [of members]
    by (simp_all add: total_bytes.simps [of item] members.simps [of item])
  show ?case
  proof (cases "seen_values + 1 > 16384 \<or> depth > max_d")
    case True
    with trees sums(2) show ?thesis by (auto simp: measure_loop.simps)
  next
    case False
    then have go: "measure_loop binary max_b max_d ((item, depth) # stack) seen bytes seen_values = Inr r \<longleftrightarrow>
      item_ok binary item \<and> set (own_ids item) \<inter> seen = {} \<and> bytes + own_bytes item \<le> max_b
      \<and> measure_loop binary max_b max_d (?pushed @ stack) ?seen (bytes + own_bytes item) (seen_values + 1) = Inr r"
      by (auto simp: measure_loop.simps bind_r_Inr_iff measure_item_Inr_iff if_Inl_eq_Inr)
    show ?thesis
    proof (cases "item_ok binary item \<and> set (own_ids item) \<inter> seen = {} \<and> bytes + own_bytes item \<le> max_b")
      case True
      then have item: "measure_item binary item depth seen = Inr (own_bytes item, ?pushed, ?seen)"
        by (simp add: measure_item_Inr_iff)
      have "measure_loop binary max_b max_d (?pushed @ stack) ?seen (bytes + own_bytes item) (seen_values + 1) = Inr r \<longleftrightarrow>
        r = bytes + own_bytes item + stack_sum total_bytes (?pushed @ stack)
        \<and> (?pushed @ stack \<noteq> [] \<longrightarrow> r \<le> max_b)
        \<and> seen_values + 1 + stack_sum members (?pushed @ stack) \<le> 16384
        \<and> stack_trees binary max_d (?pushed @ stack)
        \<and> distinct (stack_ids (?pushed @ stack)) \<and> set (stack_ids (?pushed @ stack)) \<inter> ?seen = {}"
        using False True item by (intro "2.IH") auto
      then show ?thesis
        unfolding go trees sums using True ids False by (auto simp del: stack_simps)
    next
      case bad: False
      have "\<not> (item_ok binary item \<and> set (own_ids item) \<inter> seen = {}
               \<and> bytes + (own_bytes item + stack_sum total_bytes (?pushed @ stack)) \<le> max_b)"
        using bad by auto
      then show ?thesis
        unfolding go trees sums using bad ids by (auto simp del: stack_simps)
    qed
  qed
qed

lemma measure_value_iff:
  "measure_structured_value v opts = Inr n \<longleftrightarrow>
     structured_ok (allow_binary opts)
       (case max_bytes opts of None \<Rightarrow> 524288 | Some b \<Rightarrow> b)
       (case max_depth opts of None \<Rightarrow> 32 | Some d \<Rightarrow> d) v
     \<and> n = total_bytes v"
  by (auto simp: measure_structured_value_def structured_ok_def measure_loop_iff
      split: option.splits)

text \<open>
Property C40: \<open>measureStructuredValue\<close>, whose loop keeps an explicit stack, a set of seen objects and running
totals, accepts a value exactly when it is a tree (no object occurs twice) within the depth, member and
byte limits, made of finite numbers, NUL-free strings, dense arrays and records without forbidden keys
(binary only where allowed); the number it returns is the recursive size of the value.
\<close>

theorem measure_structured_value_spec:
  "measure_structured_value v opts = Inr n \<longleftrightarrow>
     structured_ok (allow_binary opts)
       (case max_bytes opts of None \<Rightarrow> 524288 | Some b \<Rightarrow> b)
       (case max_depth opts of None \<Rightarrow> 32 | Some d \<Rightarrow> d) v
     \<and> n = total_bytes v"
  by (rule measure_value_iff)

lemma measure_item_Inl: "measure_item binary item depth seen = Inl e \<Longrightarrow> e \<in> {BridgeProtocolViolation, ForbiddenKey}"
  by (auto simp: measure_item_def dense_array_def Let_def own_keys_def bind_r_Inl_iff
      split: jsval.splits if_splits)

lemma measure_loop_Inl:
  "measure_loop binary max_b max_d stack seen bytes seen_values = Inl e
     \<Longrightarrow> e \<in> {BridgeProtocolViolation, ForbiddenKey}"
proof (induction binary max_b max_d stack seen bytes seen_values rule: measure_loop.induct)
  case (2 binary max_b max_d item depth stack seen bytes seen_values)
  then show ?case
    by (auto simp: measure_loop.simps bind_r_Inl_iff dest: measure_item_Inl split: if_splits)
qed simp

section \<open>Envelopes\<close>

definition BROKER_PROTOCOL :: int where
  "BROKER_PROTOCOL = 1"

text \<open>\<open>INSTANCE_ID\<close>: \<open>/^[A-Za-z0-9_-]{16,128}$/\<close>.\<close>

definition instance_char :: "u16 \<Rightarrow> bool" where
  "instance_char u \<longleftrightarrow> is_letter u \<or> is_digit u \<or> u = 0x5F \<or> u = 0x2D"

definition is_instance_id :: "jstr \<Rightarrow> bool" where
  "is_instance_id s \<longleftrightarrow> 16 \<le> length s \<and> length s \<le> 128 \<and> list_all instance_char s"

record envelope_context =
  ctx_instance :: jstr
  ctx_epoch :: int
  ctx_expected_seq :: int
  ctx_allowed_kinds :: "string list"
  ctx_allow_binary :: "bool option"
  ctx_max_bytes :: "nat option"

record envelope =
  env_instance :: jstr
  env_epoch :: int
  env_seq :: int
  env_kind :: jstr
  env_payload :: jsval

definition validate_envelope :: "jsval \<Rightarrow> envelope_context \<Rightarrow> envelope res" where
  "validate_envelope value ctx =
     bind_r (exact_object value [''v'', ''instance'', ''epoch'', ''seq'', ''kind'', ''payload''] [])
       (\<lambda>record.
         if \<not> strict_eq_int (get record ''v'') BROKER_PROTOCOL then fail BridgeProtocolViolation
         else if \<not> strict_eq_str (get record ''instance'') (ctx_instance ctx)
           \<or> \<not> is_instance_id (ctx_instance ctx) then fail BridgeProtocolViolation
         else if \<not> strict_eq_int (get record ''epoch'') (ctx_epoch ctx) then fail BridgeProtocolViolation
         else if \<not> strict_eq_int (get record ''seq'') (ctx_expected_seq ctx) then fail BridgeProtocolViolation
         else (case get record ''kind'' of
             JStr kind \<Rightarrow>
               (if kind \<notin> js ` set (ctx_allowed_kinds ctx) then fail BridgeProtocolViolation
                else bind_r (measure_structured_value (get record ''payload'')
                         \<lparr>max_bytes = ctx_max_bytes ctx, max_depth = None,
                          allow_binary = (ctx_allow_binary ctx = Some True)\<rparr>)
                       (\<lambda>_. Inr \<lparr>env_instance = ctx_instance ctx, env_epoch = ctx_epoch ctx,
                              env_seq = ctx_expected_seq ctx, env_kind = kind,
                              env_payload = get record ''payload''\<rparr>))
           | kind \<Rightarrow>
               (if string_throws kind then fail ThrownTypeError else fail BridgeProtocolViolation)))"

definition assert_instance_id :: "jsval \<Rightarrow> jstr res" where
  "assert_instance_id value =
     (case value of
        JStr s \<Rightarrow> (if \<not> is_instance_id s then fail BridgeProtocolViolation else Inr s)
      | _ \<Rightarrow> fail BridgeProtocolViolation)"

text \<open>The error of an unsuitable kind has \<open>String(record.kind)\<close> in its message, which may throw itself.\<close>

lemma kind_case_Inr [res_simps]:
  "(case v of JStr s \<Rightarrow> f s | w \<Rightarrow> if string_throws w then Inl e else Inl e') = Inr y \<longleftrightarrow>
     (\<exists>s. v = JStr s \<and> f s = Inr y)"
  by (cases v) auto

text \<open>An accepted envelope carries the numbers the context expects and a measured payload.\<close>

lemma validate_envelope_ok:
  assumes "validate_envelope value ctx = Inr env"
  shows "env_seq env = ctx_expected_seq ctx \<and> env_epoch env = ctx_epoch ctx
    \<and> env_instance env = ctx_instance ctx \<and> is_instance_id (env_instance env)
    \<and> env_kind env \<in> js ` set (ctx_allowed_kinds ctx)
    \<and> structured_ok (ctx_allow_binary ctx = Some True)
        (case ctx_max_bytes ctx of None \<Rightarrow> 524288 | Some b \<Rightarrow> b) 32 (env_payload env)"
  using assms
  unfolding validate_envelope_def
  by (cases rule: bind_r_InrE)
     (auto simp: res_simps measure_value_iff split: jsval.split_asm)

end
