(* ===== verification/Ui_Tree.thy ===== *)
theory Ui_Tree
  imports Structured
begin

text \<open>
  \<open>component-runtime/src/contract.ts\<close>: \<open>validateUiTree\<close> and its property validators, and
  \<open>collectInteractionTargets\<close> of \<open>runtime-broker.ts\<close>. The JavaScript loop keeps an explicit stack; the
  model recurses over the nodes in the same order and the two are proved equal, errors included.
  The lemmas show what an accepted tree guarantees: unique ids, the size limits, granted media.
\<close>

section \<open>Nodes\<close>

datatype ui_type =
    Screen | Stack | Grid | Section | TextNode | Status | Button | Toggle | InputNode | Select
  | Progress | Media

definition NODE_TYPES :: "(string \<times> ui_type) list" where
  "NODE_TYPES =
     [(''screen'', Screen), (''stack'', Stack), (''grid'', Grid), (''section'', Section),
      (''text'', TextNode), (''status'', Status), (''button'', Button), (''toggle'', Toggle),
      (''input'', InputNode), (''select'', Select), (''progress'', Progress), (''media'', Media)]"

definition node_type_of :: "jsval \<Rightarrow> ui_type option" where
  "node_type_of v = (case v of JStr s \<Rightarrow> map_of (map (\<lambda>(k, t). (js k, t)) NODE_TYPES) s | _ \<Rightarrow> None)"

definition container_type :: "ui_type \<Rightarrow> bool" where
  "container_type t \<longleftrightarrow> t \<in> {Screen, Stack, Grid, Section}"

text \<open>The normalised \<open>props\<close> record of each node type, its fields in the order of the object literal.\<close>

datatype ui_props =
    PScreen (*title*) jstr
  | PStack (*direction gap align*) jstr jstr jstr
  | PGrid (*columns gap*) int jstr
  | PSection (*heading description*) jstr "jstr option"
  | PText (*text tone emphasis*) jstr jstr jstr
  | PStatus (*label state detail*) jstr jstr "jstr option"
  | PButton (*label handler variant disabled pending*) jstr jstr jstr bool bool
  | PToggle (*label value handler disabled pending*) jstr bool jstr bool bool
  | PInput (*label value handler input_type max_length disabled pending*)
      jstr jstr jstr jstr int bool bool
  | PSelect (*label value options handler disabled pending*)
      jstr jstr "(jstr \<times> jstr) list" jstr bool bool
  | PProgress (*label value*) jstr jnum
  | PMedia (*label handle*) jstr jstr

fun type_of :: "ui_props \<Rightarrow> ui_type" where
  "type_of (PScreen _) = Screen"
| "type_of (PStack _ _ _) = Stack"
| "type_of (PGrid _ _) = Grid"
| "type_of (PSection _ _) = Section"
| "type_of (PText _ _ _) = TextNode"
| "type_of (PStatus _ _ _) = Status"
| "type_of (PButton _ _ _ _ _) = Button"
| "type_of (PToggle _ _ _ _ _) = Toggle"
| "type_of (PInput _ _ _ _ _ _ _) = InputNode"
| "type_of (PSelect _ _ _ _ _ _) = Select"
| "type_of (PProgress _ _) = Progress"
| "type_of (PMedia _ _) = Media"

text \<open>\<open>children\<close> is absent (\<open>None\<close>) on a node that is not a container.\<close>

datatype ui_node = UiNode (node_id: jstr) (props: ui_props) (kids: "ui_node list option")

section \<open>Field validators\<close>

definition enum_value :: "jsval \<Rightarrow> string list \<Rightarrow> jstr res" where
  "enum_value value allowed =
     (case value of
        JStr s \<Rightarrow> (if s \<notin> js ` set allowed then fail RenderInvalid else Inr s)
      | _ \<Rightarrow> fail RenderInvalid)"

text \<open>\<open>value === undefined ? dflt : enumValue(value, allowed)\<close>.\<close>

definition enum_or :: "string \<Rightarrow> jsval \<Rightarrow> string list \<Rightarrow> jstr res" where
  "enum_or dflt value allowed =
     (if value = JUndef then Inr (js dflt) else enum_value value allowed)"

definition optional_boolean :: "jsval \<Rightarrow> bool option res" where
  "optional_boolean value =
     (case value of JUndef \<Rightarrow> Inr None | JBool b \<Rightarrow> Inr (Some b) | _ \<Rightarrow> fail RenderInvalid)"

definition pending_prop :: "jsval \<Rightarrow> bool res" where
  "pending_prop value = map_r_result (\<lambda>b. b = Some True) (optional_boolean value)"

definition disabled_prop :: "jsval \<Rightarrow> bool res" where
  "disabled_prop value = map_r_result (\<lambda>b. b = Some True) (optional_boolean value)"

text \<open>\<open>budget.bytes\<close> is the number threaded through the text validators.\<close>

definition spend :: "nat \<Rightarrow> nat \<Rightarrow> nat res" where
  "spend n budget = (if budget + n > ui_text_bytes LIMITS then fail RenderInvalid else Inr (budget + n))"

definition ui_text :: "jsval \<Rightarrow> nat \<Rightarrow> nat \<Rightarrow> (jstr \<times> nat) res" where
  "ui_text value max_b budget =
     bind_r (bounded_string value max_b) (\<lambda>txt.
     bind_r (spend (utf8_bytes txt) budget) (\<lambda>budget'. Inr (txt, budget')))"

text \<open>\<open>NODE_ID\<close>: \<open>/^[A-Za-z][A-Za-z0-9._:-]{0,63}$/\<close>.\<close>

definition node_id_char :: "u16 \<Rightarrow> bool" where
  "node_id_char u \<longleftrightarrow> is_letter u \<or> is_digit u \<or> u \<in> {0x2E, 0x5F, 0x3A, 0x2D}"

definition is_node_id :: "jstr \<Rightarrow> bool" where
  "is_node_id s \<longleftrightarrow> s \<noteq> [] \<and> is_letter (hd s) \<and> list_all node_id_char (tl s) \<and> length s \<le> 64"

definition handler_id :: "jsval \<Rightarrow> jstr res" where
  "handler_id value =
     bind_r (bounded_string value 64) (\<lambda>s. if \<not> is_node_id s then fail RenderInvalid else Inr s)"

definition validate_option :: "jsval \<Rightarrow> jstr set \<times> (jstr \<times> jstr) list \<times> nat
    \<Rightarrow> (jstr set \<times> (jstr \<times> jstr) list \<times> nat) res" where
  "validate_option option_input = (\<lambda>(seen_values, out, budget).
     bind_r (exact_object option_input [''value'', ''label''] []) (\<lambda>record.
     bind_r (bounded_string (get record ''value'') 256) (\<lambda>value.
       if value \<in> seen_values then fail RenderInvalid
       else bind_r (ui_text (get record ''label'') (text_bytes LIMITS) budget) (\<lambda>(lab, budget').
         Inr (insert value seen_values, out @ [(value, lab)], budget')))))"

text \<open>\<open>if (description !== undefined) budget.bytes += ...\<close>: an optional text, measured before the others.\<close>

definition optional_text :: "jsval \<Rightarrow> nat \<Rightarrow> (jstr option \<times> nat) res" where
  "optional_text value budget =
     bind_r (optional_string value (text_bytes LIMITS)) (\<lambda>txt.
       case txt of
         None \<Rightarrow> Inr (None, budget)
       | Some d \<Rightarrow> bind_r (spend (utf8_bytes d) budget) (\<lambda>budget'. Inr (Some d, budget')))"

section \<open>Properties of each node type\<close>

definition screen_props :: "jsval \<Rightarrow> nat \<Rightarrow> (ui_props \<times> nat) res" where
  "screen_props raw budget =
     bind_r (exact_object raw [''title''] []) (\<lambda>props.
     bind_r (ui_text (get props ''title'') (text_bytes LIMITS) budget) (\<lambda>(ttl, b).
       Inr (PScreen ttl, b)))"

definition stack_props :: "jsval \<Rightarrow> nat \<Rightarrow> (ui_props \<times> nat) res" where
  "stack_props raw budget =
     bind_r (exact_object raw [] [''direction'', ''gap'', ''align'']) (\<lambda>props.
     bind_r (enum_or ''vertical'' (get props ''direction'') [''vertical'', ''horizontal'']) (\<lambda>dir.
     bind_r (enum_or ''medium'' (get props ''gap'') [''none'', ''small'', ''medium'', ''large'']) (\<lambda>gp.
     bind_r (enum_or ''stretch'' (get props ''align'') [''start'', ''center'', ''end'', ''stretch'']) (\<lambda>al.
       Inr (PStack dir gp al, budget)))))"

definition grid_props :: "jsval \<Rightarrow> nat \<Rightarrow> (ui_props \<times> nat) res" where
  "grid_props raw budget =
     bind_r (exact_object raw [''columns''] [''gap'']) (\<lambda>props.
     bind_r (safe_positive_integer (get props ''columns'')) (\<lambda>cols.
       if cols > 6 then fail RenderInvalid
       else bind_r (enum_or ''medium'' (get props ''gap'') [''none'', ''small'', ''medium'', ''large''])
         (\<lambda>gp. Inr (PGrid cols gp, budget))))"

definition section_props :: "jsval \<Rightarrow> nat \<Rightarrow> (ui_props \<times> nat) res" where
  "section_props raw budget =
     bind_r (exact_object raw [''heading''] [''description'']) (\<lambda>props.
     bind_r (optional_text (get props ''description'') budget) (\<lambda>(desc, b).
     bind_r (ui_text (get props ''heading'') (text_bytes LIMITS) b) (\<lambda>(hdg, b').
       Inr (PSection hdg desc, b'))))"

definition text_props :: "jsval \<Rightarrow> nat \<Rightarrow> (ui_props \<times> nat) res" where
  "text_props raw budget =
     bind_r (exact_object raw [''text''] [''tone'', ''emphasis'']) (\<lambda>props.
     bind_r (ui_text (get props ''text'') (text_bytes LIMITS) budget) (\<lambda>(txt, b).
     bind_r (enum_or ''default'' (get props ''tone'')
              [''default'', ''muted'', ''positive'', ''warning'', ''critical'']) (\<lambda>tn.
     bind_r (enum_or ''normal'' (get props ''emphasis'') [''normal'', ''strong'']) (\<lambda>em.
       Inr (PText txt tn em, b)))))"

definition STATUS_STATES :: "string list" where
  "STATUS_STATES = [''idle'', ''pending'', ''accepted'', ''applied'', ''failed'', ''stale'', ''outcome_unknown'']"

definition status_props :: "jsval \<Rightarrow> nat \<Rightarrow> (ui_props \<times> nat) res" where
  "status_props raw budget =
     bind_r (exact_object raw [''label'', ''state''] [''detail'']) (\<lambda>props.
     bind_r (optional_text (get props ''detail'') budget) (\<lambda>(det, b).
     bind_r (ui_text (get props ''label'') (text_bytes LIMITS) b) (\<lambda>(lab, b').
     bind_r (enum_value (get props ''state'') STATUS_STATES) (\<lambda>st.
       Inr (PStatus lab st det, b')))))"

definition button_props :: "jsval \<Rightarrow> nat \<Rightarrow> (ui_props \<times> nat) res" where
  "button_props raw budget =
     bind_r (exact_object raw [''label'', ''handler''] [''variant'', ''disabled'', ''pending'']) (\<lambda>props.
     bind_r (ui_text (get props ''label'') (text_bytes LIMITS) budget) (\<lambda>(lab, b).
     bind_r (handler_id (get props ''handler'')) (\<lambda>hd_id.
     bind_r (enum_or ''primary'' (get props ''variant'') [''primary'', ''secondary'', ''danger'']) (\<lambda>var.
     bind_r (disabled_prop (get props ''disabled'')) (\<lambda>dis.
     bind_r (pending_prop (get props ''pending'')) (\<lambda>pen.
       Inr (PButton lab hd_id var dis pen, b)))))))"

definition toggle_props :: "jsval \<Rightarrow> nat \<Rightarrow> (ui_props \<times> nat) res" where
  "toggle_props raw budget =
     bind_r (exact_object raw [''label'', ''value'', ''handler''] [''disabled'', ''pending'']) (\<lambda>props.
       case get props ''value'' of
         JBool on \<Rightarrow>
           bind_r (ui_text (get props ''label'') (text_bytes LIMITS) budget) (\<lambda>(lab, b).
           bind_r (handler_id (get props ''handler'')) (\<lambda>hd_id.
           bind_r (disabled_prop (get props ''disabled'')) (\<lambda>dis.
           bind_r (pending_prop (get props ''pending'')) (\<lambda>pen.
             Inr (PToggle lab on hd_id dis pen, b)))))
       | _ \<Rightarrow> fail RenderInvalid)"

definition input_props :: "jsval \<Rightarrow> nat \<Rightarrow> (ui_props \<times> nat) res" where
  "input_props raw budget =
     bind_r (exact_object raw [''label'', ''value'', ''handler'']
              [''input_type'', ''max_length'', ''disabled'', ''pending'']) (\<lambda>props.
       case get props ''value'' of
         JStr val \<Rightarrow>
           (if utf8_bytes val > input_bytes LIMITS then fail RenderInvalid
            else bind_r (if get props ''max_length'' = JUndef then Inr 1024
                         else safe_positive_integer (get props ''max_length'')) (\<lambda>max_len.
              if max_len > 16384 then fail RenderInvalid
              else
                bind_r (ui_text (get props ''label'') (text_bytes LIMITS) budget) (\<lambda>(lab, b).
                bind_r (handler_id (get props ''handler'')) (\<lambda>hd_id.
                bind_r (enum_or ''text'' (get props ''input_type'')
                         [''text'', ''number'', ''email'', ''search'']) (\<lambda>ty.
                bind_r (disabled_prop (get props ''disabled'')) (\<lambda>dis.
                bind_r (pending_prop (get props ''pending'')) (\<lambda>pen.
                  Inr (PInput lab val hd_id ty max_len dis pen, b))))))))
       | _ \<Rightarrow> fail RenderInvalid)"

definition select_props :: "jsval \<Rightarrow> nat \<Rightarrow> (ui_props \<times> nat) res" where
  "select_props raw budget =
     bind_r (exact_object raw [''label'', ''value'', ''options'', ''handler''] [''disabled'', ''pending'']) (\<lambda>props.
     bind_r (dense_array (get props ''options'') (select_options LIMITS) RenderInvalid) (\<lambda>inputs.
     bind_r (fold_r (\<lambda>st inp. validate_option inp st) ({}, [], budget) inputs) (\<lambda>(seen_values, opts, b).
     bind_r (bounded_string (get props ''value'') 256) (\<lambda>val.
       if val \<notin> seen_values then fail RenderInvalid
       else
         bind_r (ui_text (get props ''label'') (text_bytes LIMITS) b) (\<lambda>(lab, b').
         bind_r (handler_id (get props ''handler'')) (\<lambda>hd_id.
         bind_r (disabled_prop (get props ''disabled'')) (\<lambda>dis.
         bind_r (pending_prop (get props ''pending'')) (\<lambda>pen.
           Inr (PSelect lab val opts hd_id dis pen, b')))))))))"

definition progress_props :: "jsval \<Rightarrow> nat \<Rightarrow> (ui_props \<times> nat) res" where
  "progress_props raw budget =
     bind_r (exact_object raw [''label'', ''value''] []) (\<lambda>props.
     bind_r (finite_number (get props ''value'')) (\<lambda>val.
       if num_less_0 val \<or> num_greater_1 val then fail RenderInvalid
       else bind_r (ui_text (get props ''label'') (text_bytes LIMITS) budget) (\<lambda>(lab, b).
         Inr (PProgress lab val, b))))"

definition media_props :: "jsval \<Rightarrow> nat \<Rightarrow> jstr list option \<Rightarrow> (ui_props \<times> nat) res" where
  "media_props raw budget media_handles =
     bind_r (exact_object raw [''label'', ''handle''] []) (\<lambda>props.
     bind_r (validate_resource_name (get props ''handle'')) (\<lambda>hdl.
       if \<not> (case media_handles of None \<Rightarrow> False | Some hs \<Rightarrow> hdl \<in> set hs) then fail CapabilityDenied
       else bind_r (ui_text (get props ''label'') (text_bytes LIMITS) budget) (\<lambda>(lab, b).
         Inr (PMedia lab hdl, b))))"

definition validate_props :: "ui_type \<Rightarrow> jsval \<Rightarrow> nat \<Rightarrow> jstr list option \<Rightarrow> (ui_props \<times> nat) res" where
  "validate_props ty raw budget media_handles =
     (case ty of
        Screen \<Rightarrow> screen_props raw budget
      | Stack \<Rightarrow> stack_props raw budget
      | Grid \<Rightarrow> grid_props raw budget
      | Section \<Rightarrow> section_props raw budget
      | TextNode \<Rightarrow> text_props raw budget
      | Status \<Rightarrow> status_props raw budget
      | Button \<Rightarrow> button_props raw budget
      | Toggle \<Rightarrow> toggle_props raw budget
      | InputNode \<Rightarrow> input_props raw budget
      | Select \<Rightarrow> select_props raw budget
      | Progress \<Rightarrow> progress_props raw budget
      | Media \<Rightarrow> media_props raw budget media_handles)"

section \<open>The traversal\<close>

record ui_state =
  seen_objects :: "nat set"
  seen_ids :: "jstr set"
  text_used :: nat
  node_count :: nat

definition ui_start :: ui_state where
  "ui_start = \<lparr>seen_objects = {}, seen_ids = {}, text_used = 0, node_count = 0\<rparr>"

fun object_id :: "jsval \<Rightarrow> nat" where
  "object_id (JArr oid _ _) = oid"
| "object_id (JRec oid _) = oid"
| "object_id _ = 0"

text \<open>
  \<open>record.children ?? []\<close>, checked as the children array of a container: the array literal of the
  default is a fresh object, which no later node can be.
\<close>

definition container_children :: "jsval \<Rightarrow> nat set \<Rightarrow> (jsval list \<times> nat set) res" where
  "container_children kid_input seen =
     (case kid_input of
        JUndef \<Rightarrow> Inr ([], seen)
      | JNull \<Rightarrow> Inr ([], seen)
      | _ \<Rightarrow>
          bind_r (dense_array kid_input (ui_nodes LIMITS) RenderInvalid) (\<lambda>items.
            if object_id kid_input \<in> seen then fail RenderInvalid
            else Inr (items, insert (object_id kid_input) seen)))"

text \<open>
  The body of the loop for one pending node: its id and properties, its children (\<open>None\<close> when it is
  not a container) and the new state.
\<close>

definition visit_node ::
  "jstr list option \<Rightarrow> jsval \<Rightarrow> nat \<Rightarrow> ui_state \<Rightarrow> ((jstr \<times> ui_props \<times> jsval list option) \<times> ui_state) res" where
  "visit_node media_handles input depth st =
     (if depth > ui_depth LIMITS then fail RenderInvalid
      else bind_r (exact_object input [''id'', ''type'', ''props''] [''children'']) (\<lambda>record.
        if object_id input \<in> seen_objects st then fail RenderInvalid
        else if node_count st + 1 > ui_nodes LIMITS then fail RenderInvalid
        else bind_r (handler_id (get record ''id'')) (\<lambda>nid.
          if nid \<in> seen_ids st then fail RenderInvalid
          else (case node_type_of (get record ''type'') of
              None \<Rightarrow>
                (if string_throws (get record ''type'') then fail ThrownTypeError else fail RenderInvalid)
            | Some ty \<Rightarrow>
                bind_r (validate_props ty (get record ''props'') (text_used st) media_handles) (\<lambda>(ps, used).
                  let objs = insert (object_id input) (seen_objects st);
                      st' = st\<lparr>seen_objects := objs, seen_ids := insert nid (seen_ids st),
                               text_used := used, node_count := node_count st + 1\<rparr>
                  in if container_type ty then
                       bind_r (container_children (get record ''children'') objs) (\<lambda>(items, objs').
                         Inr ((nid, ps, Some items), st'\<lparr>seen_objects := objs'\<rparr>))
                     else if has_own record (js ''children'') then fail RenderInvalid
                     else Inr ((nid, ps, None), st'))))))"

lemma visit_node_depth: "visit_node media input depth st = Inr r \<Longrightarrow> depth \<le> 32"
  by (simp add: visit_node_def split: if_splits)

text \<open>
  The tree below a list of siblings. Children are pushed last to first, so the code visits a node's
  subtree before its next sibling, as here.
\<close>

function validate_nodes ::
  "jstr list option \<Rightarrow> nat \<Rightarrow> jsval list \<Rightarrow> ui_state \<Rightarrow> (ui_node list \<times> ui_state) res" where
  "validate_nodes media depth [] st = Inr ([], st)"
| "validate_nodes media depth (input # inputs) st =
     bind_r (visit_node media input depth st) (\<lambda>((nid, ps, cs), st1).
     bind_r (validate_nodes media (depth + 1) (case cs of None \<Rightarrow> [] | Some items \<Rightarrow> items) st1)
       (\<lambda>(below, st2).
     bind_r (validate_nodes media depth inputs st2) (\<lambda>(siblings, st3).
       Inr (UiNode nid ps (if cs = None then None else Some below) # siblings, st3))))"
  by pat_completeness auto
termination
  by (relation "measures [\<lambda>(_, depth, _, _). 33 - depth, \<lambda>(_, _, inputs, _). length inputs]")
     (auto dest: visit_node_depth)

declare validate_nodes.simps(2) [simp del]

definition validate_ui_tree_value :: "jsval \<Rightarrow> jstr list option \<Rightarrow> ui_node res" where
  "validate_ui_tree_value value media_handles =
     bind_r (validate_nodes media_handles 1 [value] ui_start) (\<lambda>(nodes, _).
       case nodes of
         [root] \<Rightarrow> (if type_of (props root) \<noteq> Screen then fail RenderInvalid else Inr root)
       | _ \<Rightarrow> fail RenderInvalid)"

definition validate_ui_tree :: "jsval \<Rightarrow> jstr list option \<Rightarrow> ui_node res" where
  "validate_ui_tree value media_handles =
     (case validate_ui_tree_value value media_handles of
        Inl e \<Rightarrow>
          (if e = RenderInvalid \<or> e = CapabilityDenied \<or> e = ThrownTypeError then Inl e
           else fail RenderInvalid)
      | Inr root \<Rightarrow> Inr root)"

section \<open>The explicit stack\<close>

text \<open>
  The loop as written, with its stack of \<open>{ input, depth }\<close> entries. It emits the visited nodes in
  order, each with the number of its children: each \<open>assign\<close> call puts one of them at its place in
  the \<open>children\<close> array of its parent.
\<close>

type_synonym head = "jstr \<times> ui_props \<times> nat option"

lemma visit_node_count:
  "visit_node media input depth st = Inr r \<Longrightarrow>
     node_count (snd r) = Suc (node_count st) \<and> node_count st < 1024"
  by (auto simp: visit_node_def Let_def res_simps split: if_splits option.splits)

function visit_stack ::
  "jstr list option \<Rightarrow> (jsval \<times> nat) list \<Rightarrow> ui_state \<Rightarrow> head list \<Rightarrow> (head list \<times> ui_state) res" where
  "visit_stack media [] st out = Inr (out, st)"
| "visit_stack media ((input, depth) # stack) st out =
     bind_r (visit_node media input depth st) (\<lambda>(h, st1). case h of (nid, ps, cs) \<Rightarrow>
       visit_stack media
         (map (\<lambda>c. (c, depth + 1)) (case cs of None \<Rightarrow> [] | Some items \<Rightarrow> items) @ stack)
         st1 (out @ [(nid, ps, map_option length cs)]))"
  by pat_completeness auto
termination
  by (relation "measure (\<lambda>(_, _, st, _). 1024 - node_count st)") (auto dest!: visit_node_count)

declare visit_stack.simps(2) [simp del]

text \<open>The nodes of a tree in document order.\<close>

fun preorder :: "ui_node \<Rightarrow> ui_node list" where
  "preorder (UiNode nid ps cs) = UiNode nid ps cs # concat (map preorder (case cs of None \<Rightarrow> [] | Some ns \<Rightarrow> ns))"

definition head_of :: "ui_node \<Rightarrow> head" where
  "head_of n = (node_id n, props n, map_option length (kids n))"

lemma head_of_simp [simp]: "head_of (UiNode nid ps cs) = (nid, ps, map_option length cs)"
  by (simp add: head_of_def)

lemma validate_nodes_length:
  "validate_nodes media depth inputs st = Inr (ns, st') \<Longrightarrow> length ns = length inputs"
  by (induction media depth inputs st arbitrary: ns st' rule: validate_nodes.induct)
     (auto simp: validate_nodes.simps res_simps)

lemma visit_stack_recursion:
  "visit_stack media (map (\<lambda>c. (c, depth)) inputs @ stack) st out =
     bind_r (validate_nodes media depth inputs st) (\<lambda>(ns, st').
       visit_stack media stack st' (out @ map head_of (concat (map preorder ns))))"
proof (induction media depth inputs st arbitrary: stack out rule: validate_nodes.induct)
  case (2 media depth input inputs st)
  show ?case
  proof (cases "visit_node media input depth st")
    case (Inl e)
    then show ?thesis by (simp add: visit_stack.simps validate_nodes.simps)
  next
    case (Inr r)
    then obtain nid ps cs st1 where r: "visit_node media input depth st = Inr ((nid, ps, cs), st1)"
      by (metis prod.exhaust)
    let ?items = "case cs of None \<Rightarrow> [] | Some items \<Rightarrow> items"
    let ?rest = "map (\<lambda>c. (c, depth)) inputs @ stack"
    let ?out = "out @ [(nid, ps, map_option length cs)]"
    have below: "visit_stack media (map (\<lambda>c. (c, depth + 1)) ?items @ ?rest) st1 ?out =
        bind_r (validate_nodes media (depth + 1) ?items st1) (\<lambda>(ns, st').
          visit_stack media ?rest st' (?out @ map head_of (concat (map preorder ns))))"
      using r by (intro "2.IH"(1)) auto
    have rest: "visit_stack media ?rest st2 out2 =
        bind_r (validate_nodes media depth inputs st2) (\<lambda>(ns, st').
          visit_stack media stack st' (out2 @ map head_of (concat (map preorder ns))))"
      if "validate_nodes media (depth + 1) ?items st1 = Inr (below, st2)" for below st2 out2
      using r that by (intro "2.IH"(2)) auto
    show ?thesis
      using r below
      by (auto simp: visit_stack.simps validate_nodes.simps bind_r_assoc rest validate_nodes_length
          split: option.splits prod.splits intro!: bind_r_cong)
  qed
qed simp

text \<open>
Property C30: the loop of \<open>validateUiTree\<close> with its explicit stack of pending nodes and the recursive
validator visit the same nodes in the same order and fail on the same inputs with the same error;
the nodes the loop assigns are the validated tree in document order.
\<close>

theorem ui_tree_loop_is_recursion:
  "visit_stack media [(value, 1)] ui_start [] =
     map_r_result (\<lambda>(ns, st). (map head_of (concat (map preorder ns)), st))
       (validate_nodes media 1 [value] ui_start)"
  using visit_stack_recursion [of media 1 "[value]" "[]" ui_start "[]"]
  by (simp add: map_r_result_def case_prod_unfold)

section \<open>What an accepted tree guarantees\<close>

fun text_cost :: "ui_props \<Rightarrow> nat" where
  "text_cost (PScreen ttl) = utf8_bytes ttl"
| "text_cost (PSection hdg desc) = utf8_bytes hdg + (case desc of None \<Rightarrow> 0 | Some d \<Rightarrow> utf8_bytes d)"
| "text_cost (PText txt _ _) = utf8_bytes txt"
| "text_cost (PStatus lab _ det) = utf8_bytes lab + (case det of None \<Rightarrow> 0 | Some d \<Rightarrow> utf8_bytes d)"
| "text_cost (PButton lab _ _ _ _) = utf8_bytes lab"
| "text_cost (PToggle lab _ _ _ _) = utf8_bytes lab"
| "text_cost (PInput lab _ _ _ _ _ _) = utf8_bytes lab"
| "text_cost (PSelect lab _ opts _ _ _) = utf8_bytes lab + sum_list (map (\<lambda>(_, l). utf8_bytes l) opts)"
| "text_cost (PProgress lab _) = utf8_bytes lab"
| "text_cost (PMedia lab _) = utf8_bytes lab"
| "text_cost _ = 0"

fun props_ok :: "jstr list option \<Rightarrow> ui_props \<Rightarrow> bool" where
  "props_ok media (PGrid cols _) = (1 \<le> cols \<and> cols \<le> 6)"
| "props_ok media (PStatus _ st _) = (st \<in> js ` set STATUS_STATES)"
| "props_ok media (PButton _ h _ _ _) = is_node_id h"
| "props_ok media (PToggle _ _ h _ _) = is_node_id h"
| "props_ok media (PInput _ val h _ max_len _ _) =
     (is_node_id h \<and> utf8_bytes val \<le> 16384 \<and> 1 \<le> max_len \<and> max_len \<le> 16384)"
| "props_ok media (PSelect _ val opts h _ _) =
     (is_node_id h \<and> val \<in> set (map fst opts) \<and> distinct (map fst opts) \<and> length opts \<le> 100)"
| "props_ok media (PProgress _ val) = (num_is_finite val \<and> \<not> num_less_0 val \<and> \<not> num_greater_1 val)"
| "props_ok media (PMedia _ hdl) = (\<exists>hs. media = Some hs \<and> hdl \<in> set hs)"
| "props_ok media _ = True"

lemma spend_Inr_iff [res_simps]: "spend n b = Inr b' \<longleftrightarrow> b' = b + n \<and> b' \<le> 262144"
  by (auto simp: spend_def)

lemma ui_text_InrD: "ui_text v m b = Inr (txt, b') \<Longrightarrow> b' = b + utf8_bytes txt \<and> b' \<le> 262144"
  by (auto simp: ui_text_def res_simps)

lemma optional_text_InrD:
  "optional_text v b = Inr (txt, b') \<Longrightarrow>
     b' = b + (case txt of None \<Rightarrow> 0 | Some d \<Rightarrow> utf8_bytes d) \<and> (b \<le> 262144 \<longrightarrow> b' \<le> 262144)"
  by (auto simp: optional_text_def res_simps split: option.splits)

lemma handler_id_InrD: "handler_id v = Inr s \<Longrightarrow> is_node_id s"
  by (auto simp: handler_id_def res_simps)

lemma safe_positive_InrD: "safe_positive_integer v = Inr n \<Longrightarrow> 1 \<le> n"
  by (auto simp: safe_positive_integer_def split: jsval.splits if_splits)

lemma finite_number_InrD: "finite_number v = Inr n \<Longrightarrow> num_is_finite n"
  by (auto simp: finite_number_def split: jsval.splits if_splits)

lemma enum_value_InrD: "enum_value v allowed = Inr s \<Longrightarrow> s \<in> js ` set allowed"
  by (auto simp: enum_value_def split: jsval.splits if_splits)

lemmas field_InrD =
  ui_text_InrD optional_text_InrD handler_id_InrD safe_positive_InrD finite_number_InrD enum_value_InrD

lemma validate_option_step:
  assumes "validate_option inp (seen, out, b) = Inr (seen', out', b')"
  obtains val lab where "out' = out @ [(val, lab)]" "val \<notin> seen" "seen' = insert val seen"
    "b' = b + utf8_bytes lab" "b' \<le> 262144"
  using assms by (auto simp: validate_option_def res_simps dest!: ui_text_InrD)

lemma validate_options_ok:
  assumes "fold_r (\<lambda>st inp. validate_option inp st) ({}, [], b) inputs = Inr (seen, opts, b')"
    and "b \<le> 262144"
  shows "seen = set (map fst opts) \<and> distinct (map fst opts) \<and> length opts = length inputs
    \<and> b' = b + sum_list (map (\<lambda>(_, l). utf8_bytes l) opts) \<and> b' \<le> 262144"
proof -
  have "fold_r (\<lambda>st inp. validate_option inp st) (set (map fst out), out, b) inputs = Inr (seen, opts, b')
      \<Longrightarrow> distinct (map fst out) \<Longrightarrow> b \<le> 262144 \<Longrightarrow>
      seen = set (map fst opts) \<and> distinct (map fst opts) \<and> length opts = length out + length inputs
      \<and> b' + sum_list (map (\<lambda>(_, l). utf8_bytes l) out) = b + sum_list (map (\<lambda>(_, l). utf8_bytes l) opts)
      \<and> b' \<le> 262144" for out
  proof (induction inputs arbitrary: out b)
    case (Cons inp inputs)
    then obtain st where step: "validate_option inp (set (map fst out), out, b) = Inr st"
      and rest: "fold_r (\<lambda>st inp. validate_option inp st) st inputs = Inr (seen, opts, b')"
      by (auto simp: res_simps)
    obtain seen1 out1 b1 where st: "st = (seen1, out1, b1)" by (metis prod.exhaust)
    from step obtain val lab where "out1 = out @ [(val, lab)]" "val \<notin> set (map fst out)"
      "seen1 = insert val (set (map fst out))" "b1 = b + utf8_bytes lab" "b1 \<le> 262144"
      unfolding st by (rule validate_option_step)
    with Cons.IH [of out1 b1] rest st Cons.prems show ?case by simp
  qed simp
  from this [of "[]"] assms show ?thesis by simp
qed

lemma select_props_ok:
  assumes "select_props raw b = Inr (ps, b')" "b \<le> 262144"
  shows "type_of ps = Select \<and> props_ok media ps \<and> b' = b + text_cost ps \<and> b' \<le> 262144"
  using assms
  by (auto simp: select_props_def res_simps map_r_result_def
      dest!: ui_text_InrD handler_id_InrD validate_options_ok)

lemma validate_props_ok:
  assumes "validate_props ty raw b media = Inr (ps, b')" "b \<le> 262144"
  shows "type_of ps = ty \<and> props_ok media ps \<and> b' = b + text_cost ps \<and> b' \<le> 262144"
proof (cases ty)
  case Select
  with assms show ?thesis using select_props_ok by (simp add: validate_props_def)
next
  case Toggle
  with assms show ?thesis
    by (auto simp: validate_props_def toggle_props_def res_simps dest!: field_InrD)
next
  case InputNode
  with assms show ?thesis
    by (auto simp: validate_props_def input_props_def res_simps dest!: field_InrD
        split: if_split_asm)
qed (use assms in \<open>force simp: validate_props_def screen_props_def stack_props_def grid_props_def
       section_props_def text_props_def status_props_def button_props_def progress_props_def
       media_props_def res_simps dest!: field_InrD split: option.split_asm\<close>)+

fun height :: "ui_node \<Rightarrow> nat" where
  "height (UiNode nid ps cs) =
     Suc (foldr max (map height (case cs of None \<Rightarrow> [] | Some ns \<Rightarrow> ns)) 0)"

definition node_ok :: "jstr list option \<Rightarrow> ui_node \<Rightarrow> bool" where
  "node_ok media n \<longleftrightarrow> is_node_id (node_id n) \<and> props_ok media (props n)
     \<and> (kids n = None \<longleftrightarrow> \<not> container_type (type_of (props n)))"

definition ui_tree_ok :: "jstr list option \<Rightarrow> ui_node \<Rightarrow> bool" where
  "ui_tree_ok media root \<longleftrightarrow>
     type_of (props root) = Screen \<and> height root \<le> 32 \<and> length (preorder root) \<le> 1024
     \<and> distinct (map node_id (preorder root))
     \<and> sum_list (map (\<lambda>n. text_cost (props n)) (preorder root)) \<le> 262144
     \<and> list_all (node_ok media) (preorder root)"

lemma foldr_max_le: "foldr max ns 0 \<le> (m :: nat) \<longleftrightarrow> (\<forall>n\<in>set ns. n \<le> m)"
  by (induction ns) auto

lemma visit_node_ok:
  assumes "visit_node media input depth st = Inr ((nid, ps, cs), st')" "text_used st \<le> 262144"
  shows "depth \<le> 32" "nid \<notin> seen_ids st" "seen_ids st' = insert nid (seen_ids st)"
    "node_count st' = Suc (node_count st)" "node_count st' \<le> 1024"
    "text_used st' = text_used st + text_cost ps" "text_used st' \<le> 262144"
    "is_node_id nid" "props_ok media ps" "cs = None \<longleftrightarrow> \<not> container_type (type_of ps)"
proof -
  from assms(1) obtain fs ty used where
    visited: "depth \<le> 32" "nid \<notin> seen_ids st" "node_count st + 1 \<le> 1024"
      "handler_id (get fs ''id'') = Inr nid"
      "validate_props ty (get fs ''props'') (text_used st) media = Inr (ps, used)"
      "seen_ids st' = insert nid (seen_ids st)" "text_used st' = used"
      "node_count st' = node_count st + 1" "cs = None \<longleftrightarrow> \<not> container_type ty"
    by (force simp: visit_node_def Let_def res_simps split: if_split_asm option.split_asm)
  have "type_of ps = ty \<and> props_ok media ps \<and> used = text_used st + text_cost ps \<and> used \<le> 262144"
    using visited(5) assms(2) by (rule validate_props_ok)
  with visited handler_id_InrD [OF visited(4)]
  show "depth \<le> 32" "nid \<notin> seen_ids st" "seen_ids st' = insert nid (seen_ids st)"
    "node_count st' = Suc (node_count st)" "node_count st' \<le> 1024"
    "text_used st' = text_used st + text_cost ps" "text_used st' \<le> 262144"
    "is_node_id nid" "props_ok media ps" "cs = None \<longleftrightarrow> \<not> container_type (type_of ps)"
    by auto
qed

definition nodes_ok ::
  "jstr list option \<Rightarrow> nat \<Rightarrow> ui_state \<Rightarrow> ui_node list \<Rightarrow> ui_state \<Rightarrow> bool" where
  "nodes_ok media depth st ns st' \<longleftrightarrow>
     (let visited = concat (map preorder ns) in
      distinct (map node_id visited) \<and> seen_ids st \<inter> set (map node_id visited) = {}
      \<and> seen_ids st' = seen_ids st \<union> set (map node_id visited)
      \<and> node_count st' = node_count st + length visited
      \<and> (node_count st \<le> 1024 \<longrightarrow> node_count st' \<le> 1024)
      \<and> text_used st' = text_used st + sum_list (map (\<lambda>n. text_cost (props n)) visited)
      \<and> text_used st' \<le> 262144
      \<and> list_all (node_ok media) visited
      \<and> (\<forall>n\<in>set ns. depth + height n \<le> 33))"

lemma validate_nodes_ok:
  assumes "validate_nodes media depth inputs st = Inr (ns, st')" "text_used st \<le> 262144"
  shows "nodes_ok media depth st ns st'"
  using assms
proof (induction media depth inputs st arbitrary: ns st' rule: validate_nodes.induct)
  case (1 media depth st)
  then show ?case by (simp add: nodes_ok_def)
next
  case (2 media depth input inputs st)
  from "2.prems"(1) obtain nid ps cs st1 below st2 siblings where
    visit: "visit_node media input depth st = Inr ((nid, ps, cs), st1)" and
    below: "validate_nodes media (depth + 1) (case cs of None \<Rightarrow> [] | Some items \<Rightarrow> items) st1 = Inr (below, st2)" and
    sibs: "validate_nodes media depth inputs st2 = Inr (siblings, st')" and
    ns: "ns = UiNode nid ps (if cs = None then None else Some below) # siblings"
    by (auto simp: validate_nodes.simps res_simps)
  note here = visit_node_ok [OF visit "2.prems"(2)]
  have deeper: "nodes_ok media (depth + 1) st1 below st2"
    using "2.IH"(1) [OF visit refl refl refl] below here(7) by simp
  then have "text_used st2 \<le> 262144" by (simp add: nodes_ok_def Let_def)
  with "2.IH"(2) [OF visit refl refl refl below refl] sibs
  have beside: "nodes_ok media depth st2 siblings st'" by simp
  have none: "cs = None \<Longrightarrow> below = []" using below by auto
  have node: "node_ok media (UiNode nid ps (if cs = None then None else Some below))"
    using here by (simp add: node_ok_def)
  have high: "depth + height (UiNode nid ps (if cs = None then None else Some below)) \<le> 33"
  proof -
    have "foldr max (map height below) 0 \<le> 32 - depth"
      using deeper by (auto simp: foldr_max_le nodes_ok_def Let_def)
    then show ?thesis using here(1) none by auto
  qed
  have pre: "preorder (UiNode nid ps (if cs = None then None else Some below)) =
      UiNode nid ps (if cs = None then None else Some below) # concat (map preorder below)"
    using none by auto
  show ?case
    using deeper beside here node high
    unfolding nodes_ok_def Let_def ns list.map concat.simps pre
    by (elim conjE, intro conjI) (simp_all add: Int_Un_distrib Int_Un_distrib2, auto)
qed

lemma validate_ui_tree_ok_lemma:
  assumes "validate_ui_tree value media = Inr root"
  shows "ui_tree_ok media root"
proof -
  from assms have inner: "validate_ui_tree_value value media = Inr root"
    by (auto simp: validate_ui_tree_def split: sum.splits if_splits)
  then obtain st where nodes: "validate_nodes media 1 [value] ui_start = Inr ([root], st)"
    and screen: "type_of (props root) = Screen"
    by (force simp: validate_ui_tree_value_def elim!: bind_r_InrE split: list.split_asm if_split_asm)
  have "nodes_ok media 1 ui_start [root] st"
    using nodes by (rule validate_nodes_ok) (simp add: ui_start_def)
  with screen show ?thesis by (simp add: ui_tree_ok_def nodes_ok_def Let_def ui_start_def)
qed

text \<open>
Property C27: every tree \<open>validateUiTree\<close> returns is a screen of at most 1024 nodes and 32 levels, its node
ids are well formed and pairwise distinct, the texts of all nodes together take at most 262144 bytes,
every control's fields are within their limits, a media node names a granted handle, and exactly the
container nodes have children.
\<close>

theorem validated_ui_tree_ok:
  assumes "validate_ui_tree value media = Inr root"
  shows "ui_tree_ok media root"
  by (rule validate_ui_tree_ok_lemma [OF assms])

text \<open>No validator of the tree raises anything but a contract violation.\<close>

lemma prop_validators_no_throw [simp]:
  "enum_value v allowed \<noteq> Inl ThrownTypeError"
  "enum_or d v allowed \<noteq> Inl ThrownTypeError"
  "disabled_prop v \<noteq> Inl ThrownTypeError"
  "pending_prop v \<noteq> Inl ThrownTypeError"
  "ui_text v m b \<noteq> Inl ThrownTypeError"
  "optional_text v b \<noteq> Inl ThrownTypeError"
  "handler_id v \<noteq> Inl ThrownTypeError"
  "validate_option inp st \<noteq> Inl ThrownTypeError"
  by (auto simp: enum_value_def enum_or_def disabled_prop_def pending_prop_def optional_boolean_def
      map_r_result_def ui_text_def spend_def optional_text_def handler_id_def validate_option_def
      bind_r_Inl_iff split: jsval.splits if_splits option.splits prod.splits)

lemma validate_props_no_throw [simp]: "validate_props ty raw b media \<noteq> Inl ThrownTypeError"
proof -
  have opts: "fold_r (\<lambda>st inp. validate_option inp st) st inputs \<noteq> Inl ThrownTypeError" for st inputs
    by (auto elim: fold_r_error)
  show ?thesis
    by (cases ty)
       (auto simp: validate_props_def screen_props_def stack_props_def grid_props_def
         section_props_def text_props_def status_props_def button_props_def toggle_props_def
         input_props_def select_props_def progress_props_def media_props_def bind_r_Inl_iff opts
         split: jsval.splits if_splits option.splits prod.splits)
qed

text \<open>
  One thing can throw besides: the message of an unknown node type is built with \<open>String(type)\<close>.
\<close>

inductive occurs_in :: "jsval \<Rightarrow> jsval \<Rightarrow> bool" where
  here: "occurs_in v v"
| inside: "c \<in> set (children v) \<Longrightarrow> occurs_in c w \<Longrightarrow> occurs_in v w"

lemma get_child: "get fs k \<noteq> JUndef \<Longrightarrow> get fs k \<in> set (children (JRec oid fs))"
  by (auto simp: get_def split: option.splits) (force dest: map_of_SomeD)

lemma container_children_inside:
  assumes "container_children kid_input seen = Inr (items, seen')" "item \<in> set items"
  shows "item \<in> set (children kid_input) \<and> kid_input \<noteq> JUndef"
  using assms by (cases kid_input) (auto simp: container_children_def res_simps map_filter_def)

lemma visit_node_throws:
  assumes "visit_node media input depth st = Inl ThrownTypeError"
  shows "\<exists>w. occurs_in input w \<and> string_throws w"
proof -
  from assms obtain fs where fs: "exact_object input [''id'', ''type'', ''props''] [''children''] = Inr fs"
    and throws: "string_throws (get fs ''type'')"
    by (auto simp: visit_node_def container_children_def Let_def bind_r_Inl_iff
        split: jsval.splits if_splits option.splits prod.splits)
  then obtain oid where "input = JRec oid fs"
    by (auto simp: exact_object_Inr_iff)
  moreover have "get fs ''type'' \<noteq> JUndef" using throws by auto
  ultimately have "occurs_in input (get fs ''type'')"
    using get_child occurs_in.inside occurs_in.here by metis
  with throws show ?thesis by blast
qed

lemma visit_node_children_inside:
  assumes "visit_node media input depth st = Inr ((nid, ps, Some items), st')" "item \<in> set items" "occurs_in item w"
  shows "occurs_in input w"
proof -
  from assms(1) obtain fs seen seen' where
    "exact_object input [''id'', ''type'', ''props''] [''children''] = Inr fs"
    and kids: "container_children (get fs ''children'') seen = Inr (items, seen')"
    by (force simp: visit_node_def Let_def res_simps split: if_split_asm option.split_asm)
  then obtain oid where "input = JRec oid fs" by (auto simp: exact_object_Inr_iff)
  with container_children_inside [OF kids assms(2)] get_child assms(3) occurs_in.inside show ?thesis by metis
qed

lemma validate_nodes_throws:
  assumes "validate_nodes media depth inputs st = Inl ThrownTypeError"
  shows "\<exists>input\<in>set inputs. \<exists>w. occurs_in input w \<and> string_throws w"
  using assms
proof (induction media depth inputs st rule: validate_nodes.induct)
  case (2 media depth input inputs st)
  from "2.prems" consider "visit_node media input depth st = Inl ThrownTypeError"
    | nid ps cs st1 where "visit_node media input depth st = Inr ((nid, ps, cs), st1)"
        "validate_nodes media (depth + 1) (case cs of None \<Rightarrow> [] | Some items \<Rightarrow> items) st1 = Inl ThrownTypeError"
    | nid ps cs st1 below st2 where "visit_node media input depth st = Inr ((nid, ps, cs), st1)"
        "validate_nodes media (depth + 1) (case cs of None \<Rightarrow> [] | Some items \<Rightarrow> items) st1 = Inr (below, st2)"
        "validate_nodes media depth inputs st2 = Inl ThrownTypeError"
    by (auto simp: validate_nodes.simps bind_r_Inl_iff)
  then show ?case
  proof cases
    case 1
    then show ?thesis using visit_node_throws by fastforce
  next
    case 2
    from "2.IH"(1) [OF 2(1) refl refl refl 2(2)] visit_node_children_inside 2(1)
    show ?thesis by (cases cs) fastforce+
  next
    case 3
    from "2.IH"(2) [OF 3(1) refl refl refl 3(2) refl 3(3)] show ?thesis by auto
  qed
qed simp

text \<open>
  Whatever value a component passes to \<open>ui.render\<close>, \<open>validateUiTree\<close> fails with \<open>render_invalid\<close>,
  with \<open>capability_denied\<close>, or with a \<open>TypeError\<close>, and the last only if some value in the tree cannot be
  converted to a string.
\<close>

theorem ui_tree_error_codes:
  assumes "validate_ui_tree value media = Inl e"
  shows "e = RenderInvalid \<or> e = CapabilityDenied
    \<or> (e = ThrownTypeError \<and> (\<exists>w. occurs_in value w \<and> string_throws w))"
proof (cases "validate_ui_tree_value value media = Inl ThrownTypeError")
  case True
  then have "validate_nodes media 1 [value] ui_start = Inl ThrownTypeError"
    by (cases "validate_nodes media 1 [value] ui_start")
       (auto simp: validate_ui_tree_value_def split: prod.split_asm list.split_asm if_split_asm)
  from validate_nodes_throws [OF this] True assms show ?thesis
    by (auto simp: validate_ui_tree_def)
next
  case False
  with assms show ?thesis by (auto simp: validate_ui_tree_def split: sum.splits if_splits)
qed

section \<open>Interaction targets\<close>

record interaction_target =
  target_handler :: jstr
  target_event :: jstr
  target_disabled :: bool
  target_type :: ui_type
  target_options :: "jstr list option"
  target_max_length :: "int option"

definition simple_target :: "jstr \<Rightarrow> string \<Rightarrow> bool \<Rightarrow> ui_type \<Rightarrow> interaction_target" where
  "simple_target h ev off ty =
     \<lparr>target_handler = h, target_event = js ev, target_disabled = off, target_type = ty,
      target_options = None, target_max_length = None\<rparr>"

fun target_of :: "ui_props \<Rightarrow> interaction_target option" where
  "target_of (PButton _ h _ dis pen) = Some (simple_target h ''press'' (dis \<or> pen) Button)"
| "target_of (PToggle _ _ h dis pen) = Some (simple_target h ''change'' (dis \<or> pen) Toggle)"
| "target_of (PInput _ _ h _ max_len dis pen) =
     Some ((simple_target h ''change'' (dis \<or> pen) InputNode)\<lparr>target_max_length := Some max_len\<rparr>)"
| "target_of (PSelect _ _ opts h dis pen) =
     Some ((simple_target h ''change'' (dis \<or> pen) Select)\<lparr>target_options := Some (map fst opts)\<rparr>)"
| "target_of _ = None"

text \<open>The loop pushes the children in order and pops the last one first.\<close>

lemma size_kids: "sum_list (map size ns) \<le> size_list size (ns :: ui_node list)"
  by (induction ns) auto

function collect_loop ::
  "ui_node list \<Rightarrow> (jstr \<rightharpoonup> interaction_target) \<Rightarrow> (jstr \<rightharpoonup> interaction_target)" where
  "collect_loop [] targets = targets"
| "collect_loop (UiNode nid ps cs # stack) targets =
     collect_loop (rev (case cs of None \<Rightarrow> [] | Some ns \<Rightarrow> ns) @ stack)
       (case target_of ps of None \<Rightarrow> targets | Some t \<Rightarrow> targets(nid \<mapsto> t))"
  by pat_completeness auto
termination
proof (relation "measure (\<lambda>(stack, _). sum_list (map size stack))", simp, goal_cases)
  case (1 nid ps cs stack targets)
  show ?case
  proof (cases cs)
    case (Some ns)
    then show ?thesis using size_kids [of ns] by (simp add: rev_map [symmetric])
  qed simp
qed

definition collect_interaction_targets :: "ui_node \<Rightarrow> (jstr \<rightharpoonup> interaction_target)" where
  "collect_interaction_targets root = collect_loop [root] Map.empty"

lemma preorder_unfold:
  "preorder n = n # concat (map preorder (case kids n of None \<Rightarrow> [] | Some ns \<Rightarrow> ns))"
  by (cases n) simp

lemma preorder_rev:
  "mset (map node_id (concat (map preorder (rev ns @ stack))))
     = mset (map node_id (concat (map preorder ns) @ concat (map preorder stack)))"
  "set (concat (map preorder (rev ns @ stack))) = set (concat (map preorder ns) @ concat (map preorder stack))"
  by (auto simp: rev_map [symmetric] mset_concat_rev)

lemma collect_loop_distinct:
  assumes "distinct (map node_id (concat (map preorder stack)))"
  shows "collect_loop stack targets nid = Some t \<longleftrightarrow>
     (\<exists>n\<in>set (concat (map preorder stack)). node_id n = nid \<and> target_of (props n) = Some t)
     \<or> (targets nid = Some t
         \<and> (\<forall>n\<in>set (concat (map preorder stack)). node_id n = nid \<longrightarrow> target_of (props n) = None))"
  using assms
proof (induction stack targets rule: collect_loop.induct)
  case (2 nid' ps cs stack targets)
  let ?below = "case cs of None \<Rightarrow> [] | Some ns \<Rightarrow> ns"
  let ?node = "UiNode nid' ps cs"
  let ?rest = "concat (map preorder ?below) @ concat (map preorder stack)"
  let ?targets = "case target_of ps of None \<Rightarrow> targets | Some t \<Rightarrow> targets(nid' \<mapsto> t)"
  have all: "concat (map preorder (?node # stack)) = ?node # ?rest" by simp
  have fresh: "nid' \<notin> node_id ` set ?rest" and rest: "distinct (map node_id ?rest)"
    using "2.prems" unfolding all by auto
  have "distinct (map node_id (concat (map preorder (rev ?below @ stack))))"
    using rest mset_eq_imp_distinct_iff [OF preorder_rev(1)] by blast
  note IH = "2.IH" [OF this, unfolded preorder_rev(2)]
  show ?case
  proof (cases "nid' = nid")
    case True
    have no: "node_id n \<noteq> nid" if "n \<in> set ?rest" for n using that fresh True by auto
    have "collect_loop (?node # stack) targets nid = Some t \<longleftrightarrow> ?targets nid = Some t"
      unfolding collect_loop.simps using IH no by blast
    then show ?thesis
      unfolding all using no True by (auto split: option.splits)
  next
    case False
    then have "?targets nid = targets nid" by (simp split: option.splits)
    with False show ?thesis
      unfolding all collect_loop.simps using IH by simp
  qed
qed simp

lemma collected_targets:
  assumes "validate_ui_tree value media = Inr root"
  shows "collect_interaction_targets root nid = Some t \<longleftrightarrow>
    (\<exists>n\<in>set (preorder root). node_id n = nid \<and> target_of (props n) = Some t)"
proof -
  have "ui_tree_ok media root"
    using validate_ui_tree_ok_lemma assms .
  then have "distinct (map node_id (concat (map preorder [root])))"
    by (simp add: ui_tree_ok_def)
  from collect_loop_distinct [OF this, of Map.empty] show ?thesis
    by (simp add: collect_interaction_targets_def)
qed

text \<open>
  The interaction map of a validated tree holds exactly the controls of the tree: a node id
  maps to a target iff the node is a button, toggle, input or select, and the target is closed
  (\<open>disabled\<close>) exactly when the node is disabled or pending.
\<close>

theorem interaction_targets_exact:
  assumes "validate_ui_tree value media = Inr root"
  shows "collect_interaction_targets root nid = Some t \<longleftrightarrow>
    (\<exists>n\<in>set (preorder root). node_id n = nid \<and> target_of (props n) = Some t)"
  by (rule collected_targets [OF assms])

end
