(* ===== verification/Utf8.thy ===== *)
theory Utf8
  imports Js_Value
begin

text \<open>
  \<open>new TextDecoder('utf-8', { fatal: true })\<close>, which the wire codec and the guest program check use,
  and its round trip with \<open>TextEncoder\<close>: a string without unpaired surrogates is read back, except
  that a leading byte order mark is dropped.
\<close>

section \<open>Decoding\<close>

definition is_continuation :: "nat \<Rightarrow> bool" where
  "is_continuation b \<longleftrightarrow> 0x80 \<le> b \<and> b < 0xC0"

text \<open>Code points from bytes; overlong forms, surrogates and values above U+10FFFF are rejected.\<close>

fun decode_points :: "nat list \<Rightarrow> nat list option" where
  "decode_points [] = Some []"
| "decode_points (a # bs) =
     (if a < 0x80 then map_option ((#) a) (decode_points bs)
      else if a < 0xE0 then
        (case bs of
           b # rest \<Rightarrow>
             (let c = (a - 0xC0) * 64 + (b - 0x80) in
              if 0xC0 \<le> a \<and> is_continuation b \<and> 0x80 \<le> c
              then map_option ((#) c) (decode_points rest) else None)
         | _ \<Rightarrow> None)
      else if a < 0xF0 then
        (case bs of
           b # b' # rest \<Rightarrow>
             (let c = (a - 0xE0) * 4096 + (b - 0x80) * 64 + (b' - 0x80) in
              if is_continuation b \<and> is_continuation b' \<and> 0x800 \<le> c \<and> \<not> (0xD800 \<le> c \<and> c < 0xE000)
              then map_option ((#) c) (decode_points rest) else None)
         | _ \<Rightarrow> None)
      else
        (case bs of
           b # b' # b'' # rest \<Rightarrow>
             (let c = (a - 0xF0) * 262144 + (b - 0x80) * 4096 + (b' - 0x80) * 64 + (b'' - 0x80) in
              if is_continuation b \<and> is_continuation b' \<and> is_continuation b'' \<and> 0x10000 \<le> c \<and> c < 0x110000
              then map_option ((#) c) (decode_points rest) else None)
         | _ \<Rightarrow> None))"

text \<open>The code units of a code point.\<close>

definition utf16_char :: "nat \<Rightarrow> jstr" where
  "utf16_char c =
     (if c < 0x10000 then [of_nat c]
      else [of_nat (0xD800 + (c - 0x10000) div 0x400), of_nat (0xDC00 + (c - 0x10000) mod 0x400)])"

text \<open>The decoder skips one leading byte order mark.\<close>

definition strip_bom :: "bytes \<Rightarrow> bytes" where
  "strip_bom bs = (if take 3 bs = [0xEF, 0xBB, 0xBF] then drop 3 bs else bs)"

definition text_decode :: "bytes \<Rightarrow> jstr option" where
  "text_decode bs =
     map_option (\<lambda>cs. concat (map utf16_char cs)) (decode_points (map unat (strip_bom bs)))"

section \<open>Well-formed strings\<close>

text \<open>\<open>hasUnpairedSurrogate\<close> of the codec.\<close>

fun has_unpaired_surrogate :: "jstr \<Rightarrow> bool" where
  "has_unpaired_surrogate [] = False"
| "has_unpaired_surrogate [u] = (is_high_surrogate u \<or> is_low_surrogate u)"
| "has_unpaired_surrogate (u # v # s) =
     (if is_high_surrogate u then (if is_low_surrogate v then has_unpaired_surrogate s else True)
      else is_low_surrogate u \<or> has_unpaired_surrogate (v # s))"

section \<open>Round trip\<close>

definition scalar :: "nat \<Rightarrow> bool" where
  "scalar c \<longleftrightarrow> c < 0x110000 \<and> \<not> (0xD800 \<le> c \<and> c < 0xE000)"

lemma digits_64:
  fixes c :: nat
  shows "c div 4096 * 4096 + c div 64 mod 64 * 64 + c mod 64 = c"
    and "c div 262144 * 262144 + c div 4096 mod 64 * 4096 + c div 64 mod 64 * 64 + c mod 64 = c"
proof -
  have q: "c div 4096 = c div 64 div 64" "c div 262144 = c div 4096 div 64"
    by (simp_all add: div_mult2_eq [symmetric])
  note steps = div_mult_mod_eq [of c 64] div_mult_mod_eq [of "c div 64" 64] div_mult_mod_eq [of "c div 4096" 64]
  show "c div 4096 * 4096 + c div 64 mod 64 * 64 + c mod 64 = c"
    using steps q by linarith
  show "c div 262144 * 262144 + c div 4096 mod 64 * 4096 + c div 64 mod 64 * 64 + c mod 64 = c"
    using steps q by linarith
qed

lemma decode_utf8_char:
  assumes "scalar c"
  shows "decode_points (map unat (utf8_char c) @ rest) = map_option ((#) c) (decode_points rest)"
proof -
  consider "c < 0x80" | "0x80 \<le> c" "c < 0x800" | "0x800 \<le> c" "c < 0x10000" | "0x10000 \<le> c"
    by linarith
  then show ?thesis
  proof cases
    case 1
    then show ?thesis by (simp add: utf8_char_def)
  next
    case 2
    define d e where "d = c div 64" and "e = c mod 64"
    have b1: "2 \<le> d" using div_le_mono [of 128 c 64] 2 by (simp add: d_def)
    have b2: "d < 32" using 2 by (simp add: d_def less_mult_imp_div_less)
    have b3: "e < 64" by (simp add: e_def)
    have c: "d * 64 + e = c" by (simp add: d_def e_def)
    note b = b1 b2 b3
    have enc: "utf8_char c = [of_nat (0xC0 + d), of_nat (0x80 + e)]"
      using 2 by (simp add: utf8_char_def d_def e_def del: of_nat_add)
    have "decode_points ((0xC0 + d) # (0x80 + e) # rest) = map_option ((#) c) (decode_points rest)"
      using b 2 by (simp add: is_continuation_def Let_def c)
    then show ?thesis using b by (simp add: enc del: of_nat_add decode_points.simps)
  next
    case 3
    have d: "c div 4096 * 4096 + c div 64 mod 64 * 64 + c mod 64 = c" by (rule digits_64)
    have "c div 4096 < 16" using 3 by auto
    then show ?thesis using 3 d assms
      by (simp add: utf8_char_def is_continuation_def Let_def scalar_def del: of_nat_add)
  next
    case 4
    have d: "c div 262144 * 262144 + c div 4096 mod 64 * 4096 + c div 64 mod 64 * 64 + c mod 64 = c"
      by (rule digits_64)
    have "c div 262144 < 8" using assms by (auto simp: scalar_def)
    then show ?thesis using 4 d assms
      by (simp add: utf8_char_def is_continuation_def Let_def scalar_def del: of_nat_add)
  qed
qed

lemma decode_utf8_chars:
  "\<forall>c\<in>set cs. scalar c \<Longrightarrow> decode_points (map unat (concat (map utf8_char cs))) = Some cs"
  by (induction cs) (simp_all add: decode_utf8_char)

lemma code_points_scalar: "\<forall>c\<in>set (code_points s). scalar c"
proof (induction s rule: code_points.induct)
  case (2 u)
  have "unat u < 65536" by simp
  then have "unat u < 0x110000" by linarith
  then show ?case
    by (auto simp: scalar_def is_high_surrogate_def is_low_surrogate_def word_le_nat_alt)
next
  case (3 u v s)
  have "unat u < 65536" by simp
  then have "unat u < 0x110000" by linarith
  with 3 show ?case
    by (auto simp: scalar_def surrogate_pair_def is_high_surrogate_def is_low_surrogate_def word_le_nat_alt)
qed simp

lemma utf16_surrogate_pair:
  assumes "is_high_surrogate u" "is_low_surrogate v"
  shows "utf16_char (surrogate_pair u v) = [u, v]"
proof -
  have b: "0xD800 \<le> unat u" "unat u \<le> 0xDBFF" "0xDC00 \<le> unat v" "unat v \<le> 0xDFFF"
    using assms by (auto simp: is_high_surrogate_def is_low_surrogate_def word_le_nat_alt)
  have "surrogate_pair u v - 0x10000 = (unat u - 0xD800) * 0x400 + (unat v - 0xDC00)"
    by (simp only: surrogate_pair_def)
  moreover have "unat v - 0xDC00 < 0x400" using b by simp
  ultimately have "(surrogate_pair u v - 0x10000) div 0x400 = unat u - 0xD800"
    "(surrogate_pair u v - 0x10000) mod 0x400 = unat v - 0xDC00"
    by simp_all
  moreover have "\<not> surrogate_pair u v < 0x10000" by (simp add: surrogate_pair_def)
  ultimately show ?thesis using b by (simp add: utf16_char_def del: of_nat_add)
qed

lemma code_points_utf16:
  "\<not> has_unpaired_surrogate s \<Longrightarrow> concat (map utf16_char (code_points s)) = s"
proof (induction s rule: has_unpaired_surrogate.induct)
  case (2 u)
  then show ?case by (simp add: utf16_char_def)
next
  case (3 u v s)
  have "utf16_char (unat u) = [u]" by (simp add: utf16_char_def)
  with 3 show ?case
    by (auto simp: utf16_surrogate_pair split: if_splits)
qed simp

lemma decode_points_utf8_encode: "decode_points (map unat (utf8_encode s)) = Some (code_points s)"
  by (simp add: utf8_encode_def decode_utf8_chars code_points_scalar)

lemma strip_bom_utf8_encode: "utf8_encode s = [0xEF, 0xBB, 0xBF] @ bs \<Longrightarrow> strip_bom (utf8_encode s) = bs"
  by (simp add: strip_bom_def)

end
