(* ===== verification/Artifact.thy ===== *)
theory Artifact
  imports Pointer Utf8
begin

text \<open>
  \<open>component-runtime/src/artifact.ts\<close> and \<open>artifact-cache.ts\<close>: download, verification and caching of
  release artifacts. \<open>crypto.subtle.digest\<close>, the URL parser and \<open>fetch\<close> are parameters; a cache is
  any triple of operations, which may fail, and \<open>IndexedDbArtifactCache\<close> is one of them.

  The lemmas show that no cache, however broken or hostile, can make \<open>loadVerifiedArtifact\<close> return
  bytes that the pointer does not name, nor make an artifact that can be fetched unavailable.
\<close>

section \<open>Verification\<close>

text \<open>\<open>sha256Base64Url\<close>; \<open>digest\<close> is SHA-256.\<close>

definition sha256_of :: "(bytes \<Rightarrow> bytes) \<Rightarrow> bytes \<Rightarrow> jstr" where
  "sha256_of digest bs = encode_base64url (digest bs)"

definition equal_ascii :: "jstr \<Rightarrow> jstr \<Rightarrow> bool" where
  "equal_ascii left right \<longleftrightarrow>
     length left = length right
     \<and> fold (\<lambda>(l, r) difference. or difference (xor l r)) (zip left right) 0 = 0"

record verified_artifact =
  va_bytes :: bytes
  va_sha256 :: jstr

definition verify_artifact_bytes ::
  "(bytes \<Rightarrow> bytes) \<Rightarrow> int \<Rightarrow> jstr \<Rightarrow> bytes \<Rightarrow> verified_artifact res" where
  "verify_artifact_bytes digest sz sha256 bs =
     (if length bs > artifact_bytes LIMITS then fail ArtifactTooLarge
      else if int (length bs) \<noteq> sz then fail ArtifactSizeMismatch
      else
        (let computed = sha256_of digest bs in
         if \<not> equal_ascii computed sha256 then fail ArtifactHashMismatch
         else Inr \<lparr>va_bytes = bs, va_sha256 = computed\<rparr>))"

lemma or_eq_0_word: "or a b = 0 \<longleftrightarrow> a = 0 \<and> b = (0 :: u16)"
proof
  assume "or a b = 0"
  then have "\<not> bit (or a b) n" for n by simp
  then have "\<not> bit a n \<and> \<not> bit b n" for n by (simp add: bit_or_iff)
  then show "a = 0 \<and> b = 0" by (auto intro: bit_eqI)
qed simp

lemma xor_eq_0_word: "xor a b = 0 \<longleftrightarrow> a = (b :: u16)"
proof
  assume "xor a b = 0"
  then have "\<not> bit (xor a b) n" for n by simp
  then have "bit a n = bit b n" for n by (simp add: bit_xor_iff)
  then show "a = b" by (auto intro: bit_eqI)
qed simp

lemma fold_difference:
  "fold (\<lambda>(l, r) d. or d (xor l r)) ps d = (0 :: u16) \<longleftrightarrow> d = 0 \<and> (\<forall>(l, r)\<in>set ps. l = r)"
  by (induction ps arbitrary: d) (auto simp: or_eq_0_word xor_eq_0_word)

text \<open>The constant-time comparison is equality.\<close>

lemma equal_ascii_iff [simp]: "equal_ascii left right \<longleftrightarrow> left = right"
proof
  assume "equal_ascii left right"
  then show "left = right"
    by (simp add: equal_ascii_def fold_difference list_eq_iff_zip_eq)
next
  assume "left = right"
  then show "equal_ascii left right"
    by (auto simp: equal_ascii_def fold_difference zip_same_conv_map)
qed

definition artifact_matches :: "(bytes \<Rightarrow> bytes) \<Rightarrow> int \<Rightarrow> jstr \<Rightarrow> bytes \<Rightarrow> bool" where
  "artifact_matches digest sz sha256 bs \<longleftrightarrow>
     length bs \<le> 2097152 \<and> int (length bs) = sz \<and> encode_base64url (digest bs) = sha256"

lemma verify_artifact_bytes_Inr_iff:
  "verify_artifact_bytes digest sz sha256 bs = Inr v \<longleftrightarrow>
     artifact_matches digest sz sha256 bs \<and> v = \<lparr>va_bytes = bs, va_sha256 = sha256\<rparr>"
  by (auto simp: verify_artifact_bytes_def artifact_matches_def Let_def sha256_of_def)

lemma verify_matching [simp]:
  "artifact_matches digest sz sha256 bs \<Longrightarrow>
     verify_artifact_bytes digest sz sha256 bs = Inr \<lparr>va_bytes = bs, va_sha256 = sha256\<rparr>"
  by (simp add: verify_artifact_bytes_Inr_iff)

lemma verify_artifact_bytes_no_throw [simp]:
  "verify_artifact_bytes digest sz sha256 bs \<noteq> Inl ThrownTypeError"
  by (auto simp: verify_artifact_bytes_def Let_def)

section \<open>Download\<close>

text \<open>One \<open>reader.read()\<close>: a chunk, or a rejected promise; the stream is done when the list ends.\<close>

datatype body_read = Chunk bytes | ReadRejected

record response =
  resp_ok :: bool
  resp_content_type :: "jstr option"
  resp_url :: jstr
  resp_body :: "body_read list option"

record fetch_options =
  fetch_impl :: "(jstr \<Rightarrow> response res) option"
  opt_origins :: "jstr list"
  opt_prefixes :: "jstr list option"

definition validate_final_url :: "url_parser \<Rightarrow> jstr \<Rightarrow> jstr list \<Rightarrow> jstr list option \<Rightarrow> unit res" where
  "validate_final_url parse_url raw origins path_prefixes =
     (case parse_url raw of
        None \<Rightarrow> fail PointerInvalid
      | Some url \<Rightarrow>
          if url_protocol url \<noteq> js ''https:'' \<or> url_origin url \<notin> set origins then fail PointerInvalid
          else if \<not> path_allowed path_prefixes (url_pathname url) then fail PointerInvalid
          else Inr ())"

text \<open>
  Header values are byte strings: \<open>trim\<close> and \<open>toLowerCase\<close> on the Latin-1 range.
\<close>

definition trimmed_unit :: "u16 \<Rightarrow> bool" where
  "trimmed_unit u \<longleftrightarrow> u \<in> {0x09, 0x0A, 0x0B, 0x0C, 0x0D, 0x20, 0xA0}"

definition trim_header :: "jstr \<Rightarrow> jstr" where
  "trim_header s = rev (dropWhile trimmed_unit (rev (dropWhile trimmed_unit s)))"

definition lower_unit :: "u16 \<Rightarrow> u16" where
  "lower_unit u = (if is_upper u \<or> (0xC0 \<le> u \<and> u \<le> 0xDE \<and> u \<noteq> 0xD7) then u + 0x20 else u)"

definition media_type :: "jstr \<Rightarrow> jstr" where
  "media_type header = map lower_unit (trim_header (takeWhile (\<lambda>u. u \<noteq> 0x3B) header))"

definition JAVASCRIPT_CONTENT_TYPES :: "string list" where
  "JAVASCRIPT_CONTENT_TYPES = [''text/javascript'', ''application/javascript'']"

definition validate_response_metadata :: "response \<Rightarrow> unit res" where
  "validate_response_metadata r =
     (if \<not> resp_ok r then fail ArtifactFetchFailed
      else (case resp_content_type r of
          None \<Rightarrow> fail ArtifactFetchFailed
        | Some header \<Rightarrow>
            (if media_type header \<notin> js ` set JAVASCRIPT_CONTENT_TYPES then fail ArtifactFetchFailed
             else Inr ())))"

text \<open>The read loop, with the bytes received so far in order.\<close>

fun read_loop :: "int \<Rightarrow> body_read list \<Rightarrow> bytes \<Rightarrow> bytes res" where
  "read_loop expected [] received =
     (if int (length received) \<noteq> expected then fail ArtifactSizeMismatch else Inr received)"
| "read_loop expected (ReadRejected # rest) received = fail ThrownTypeError"
| "read_loop expected (Chunk c # rest) received =
     (let total = length received + length c in
      if int total > expected \<or> total > artifact_bytes LIMITS then fail ArtifactTooLarge
      else read_loop expected rest (received @ c))"

definition read_bounded_body :: "response \<Rightarrow> int \<Rightarrow> bytes res" where
  "read_bounded_body r expected =
     (case resp_body r of
        None \<Rightarrow> fail ArtifactFetchFailed
      | Some reads \<Rightarrow> read_loop expected reads [])"

definition fetch_and_verify_artifact ::
  "(bytes \<Rightarrow> bytes) \<Rightarrow> url_parser \<Rightarrow> component_pointer \<Rightarrow> fetch_options \<Rightarrow> verified_artifact res" where
  "fetch_and_verify_artifact digest parse_url pointer options =
     (case fetch_impl options of
        None \<Rightarrow> fail ArtifactFetchFailed
      | Some fetch \<Rightarrow>
          (case parse_url (ptr_url pointer) of
             None \<Rightarrow> fail ThrownTypeError
           | Some requested \<Rightarrow>
               if url_origin requested \<notin> set (opt_origins options) then fail PointerInvalid
               else if \<not> path_allowed (opt_prefixes options) (url_pathname requested)
               then fail PointerInvalid
               else bind_r
                 (case fetch (ptr_url pointer) of
                    Inl e \<Rightarrow> (if e = ThrownTypeError then fail ArtifactFetchFailed else Inl e)
                  | Inr r \<Rightarrow> Inr r) (\<lambda>r.
                 bind_r (validate_response_metadata r) (\<lambda>_.
                 bind_r (if resp_url r \<noteq> []
                         then validate_final_url parse_url (resp_url r) (opt_origins options) (opt_prefixes options)
                         else Inr ()) (\<lambda>_.
                 bind_r (read_bounded_body r (ptr_size pointer)) (\<lambda>bs.
                   verify_artifact_bytes digest (ptr_size pointer) (ptr_sha256 pointer) bs))))))"

text \<open>The download stops at the declared size: what is read is the whole body, in order.\<close>

lemma read_loop_Inr:
  "read_loop expected reads received = Inr bs \<Longrightarrow>
     (\<exists>cs. reads = map Chunk cs \<and> bs = received @ concat cs) \<and> int (length bs) = expected"
proof (induction expected reads received rule: read_loop.induct)
  case (3 expected c rest received)
  then have "read_loop expected rest (received @ c) = Inr bs" by (simp add: Let_def split: if_splits)
  with 3 obtain cs where "rest = map Chunk cs" "bs = (received @ c) @ concat cs" "int (length bs) = expected"
    by (auto simp: Let_def split: if_splits)
  then show ?case by (auto intro: exI [of _ "c # cs"])
qed (auto split: if_splits)

lemma fetch_and_verify_Inr:
  assumes "fetch_and_verify_artifact digest parse_url pointer options = Inr v"
  shows "artifact_matches digest (ptr_size pointer) (ptr_sha256 pointer) (va_bytes v)
    \<and> va_sha256 v = ptr_sha256 pointer
    \<and> (\<exists>url. parse_url (ptr_url pointer) = Some url \<and> url_origin url \<in> set (opt_origins options))"
  using assms
  by (auto simp: fetch_and_verify_artifact_def res_simps verify_artifact_bytes_Inr_iff
      split: option.splits if_splits)

section \<open>Caches\<close>

text \<open>
  The \<open>ArtifactCache\<close> interface over a store of type \<open>'c\<close>: each call returns a result, \<open>Inl ()\<close> when its
  promise is rejected, and the new store.
\<close>

type_synonym ('c, 'a) cache_op = "'c \<Rightarrow> (unit + 'a) \<times> 'c"

record 'c artifact_cache =
  cache_get :: "jstr \<Rightarrow> jstr \<Rightarrow> ('c, bytes option) cache_op"
  cache_put :: "jstr \<Rightarrow> jstr \<Rightarrow> bytes \<Rightarrow> ('c, unit) cache_op"
  cache_delete :: "jstr \<Rightarrow> jstr \<Rightarrow> ('c, unit) cache_op"

datatype artifact_source = FromCache | FromNetwork

record loaded_artifact =
  la_artifact :: verified_artifact
  la_source :: artifact_source

text \<open>The result of a load, the store after it and the number of reported cache errors.\<close>

type_synonym 'c load_result = "loaded_artifact res \<times> 'c \<times> nat"

text \<open>\<open>options.cache?.op(...)\<close> inside \<open>try { ... } catch (error) { reportCacheError(options, error); }\<close>.\<close>

definition guarded_op :: "('c, 'a) cache_op option \<Rightarrow> 'a \<Rightarrow> 'c \<Rightarrow> nat \<Rightarrow> 'a \<times> 'c \<times> nat" where
  "guarded_op operation absent store reports =
     (case operation of
        None \<Rightarrow> (absent, store, reports)
      | Some f \<Rightarrow>
          (case f store of
             (Inl _, store') \<Rightarrow> (absent, store', reports + 1)
           | (Inr x, store') \<Rightarrow> (x, store', reports)))"

definition load_from_network ::
  "(bytes \<Rightarrow> bytes) \<Rightarrow> url_parser \<Rightarrow> component_pointer \<Rightarrow> fetch_options \<Rightarrow> 'c artifact_cache option
     \<Rightarrow> 'c \<Rightarrow> nat \<Rightarrow> 'c load_result" where
  "load_from_network digest parse_url pointer options cache store reports =
     (case fetch_and_verify_artifact digest parse_url pointer options of
        Inl e \<Rightarrow> (Inl e, store, reports)
      | Inr v \<Rightarrow>
          (case guarded_op (map_option (\<lambda>c. cache_put c (ptr_home_id pointer) (ptr_sha256 pointer) (va_bytes v)) cache)
                  () store reports of
             (_, store', reports') \<Rightarrow>
               (Inr \<lparr>la_artifact = v, la_source = FromNetwork\<rparr>, store', reports')))"

definition load_verified_artifact ::
  "(bytes \<Rightarrow> bytes) \<Rightarrow> url_parser \<Rightarrow> component_pointer \<Rightarrow> fetch_options \<Rightarrow> 'c artifact_cache option
     \<Rightarrow> 'c \<Rightarrow> 'c load_result" where
  "load_verified_artifact digest parse_url pointer options cache store =
     (case guarded_op (map_option (\<lambda>c. cache_get c (ptr_home_id pointer) (ptr_sha256 pointer)) cache)
             None store 0 of
        (None, store1, reports1) \<Rightarrow>
          load_from_network digest parse_url pointer options cache store1 reports1
      | (Some cached, store1, reports1) \<Rightarrow>
          (case verify_artifact_bytes digest (ptr_size pointer) (ptr_sha256 pointer) cached of
             Inr v \<Rightarrow> (Inr \<lparr>la_artifact = v, la_source = FromCache\<rparr>, store1, reports1)
           | Inl e \<Rightarrow>
               if e = ThrownTypeError then (Inl e, store1, reports1)
               else
                 (case guarded_op (map_option (\<lambda>c. cache_delete c (ptr_home_id pointer) (ptr_sha256 pointer)) cache)
                         () store1 reports1 of
                    (_, store2, reports2) \<Rightarrow>
                      load_from_network digest parse_url pointer options cache store2 reports2)))"

section \<open>The IndexedDB cache\<close>

text \<open>The template literal of \<open>cacheKey\<close>: the home id, U+0000, the digest.\<close>

definition cache_key :: "jstr \<Rightarrow> jstr \<Rightarrow> jstr" where
  "cache_key home_id sha256 = home_id @ [0] @ sha256"

record artifact_record =
  rec_home_id :: jsval
  rec_sha256 :: jsval
  rec_bytes :: jsval

type_synonym artifact_db = "jstr \<rightharpoonup> artifact_record"

text \<open>
  The database behind \<open>IndexedDbArtifactCache\<close>: whether \<open>factory.open\<close> succeeded, the object store, and
  how the transactions to come end. A transaction that is refused, whose request fails or that aborts
  rejects the promise that waits for it and leaves the store as it was.
\<close>

datatype tx_outcome = TxCompletes | TxAborts

record artifact_idb =
  idb_opened :: bool
  idb_store :: artifact_db
  idb_outcomes :: "nat \<Rightarrow> tx_outcome"

text \<open>
  \<open>await this.#database\<close>, then one transaction that reads \<open>result\<close> from the store and leaves \<open>changed\<close>, to
  its \<open>complete\<close>, \<open>error\<close> or \<open>abort\<close> event (\<open>requestResult\<close>, \<open>transactionComplete\<close>).
\<close>

definition idb_transaction :: "(artifact_db \<Rightarrow> 'a \<times> artifact_db) \<Rightarrow> (artifact_idb, 'a) cache_op" where
  "idb_transaction operation db =
     (if \<not> idb_opened db then (Inl (), db)
      else
        (let later = db\<lparr>idb_outcomes := \<lambda>n. idb_outcomes db (Suc n)\<rparr> in
         case idb_outcomes db 0 of
           TxAborts \<Rightarrow> (Inl (), later)
         | TxCompletes \<Rightarrow>
             (case operation (idb_store db) of (result, changed) \<Rightarrow> (Inr result, later\<lparr>idb_store := changed\<rparr>))))"

definition idb_delete :: "jstr \<Rightarrow> jstr \<Rightarrow> (artifact_idb, unit) cache_op" where
  "idb_delete home_id sha256 = idb_transaction (\<lambda>store. ((), store(cache_key home_id sha256 := None)))"

definition idb_get :: "jstr \<Rightarrow> jstr \<Rightarrow> (artifact_idb, bytes option) cache_op" where
  "idb_get home_id sha256 db =
     (case idb_transaction (\<lambda>store. (store (cache_key home_id sha256), store)) db of
        (Inl e, db') \<Rightarrow> (Inl e, db')
      | (Inr None, db') \<Rightarrow> (Inr None, db')
      | (Inr (Some r), db') \<Rightarrow>
          (case rec_bytes r of
             JBuffer bs \<Rightarrow>
               (if \<not> strict_eq_str (rec_home_id r) home_id \<or> \<not> strict_eq_str (rec_sha256 r) sha256
                then (case idb_delete home_id sha256 db' of
                        (Inl e, db'') \<Rightarrow> (Inl e, db'') | (Inr _, db'') \<Rightarrow> (Inr None, db''))
                else (Inr (Some bs), db'))
           | _ \<Rightarrow>
               (case idb_delete home_id sha256 db' of
                  (Inl e, db'') \<Rightarrow> (Inl e, db'') | (Inr _, db'') \<Rightarrow> (Inr None, db''))))"

definition idb_put :: "jstr \<Rightarrow> jstr \<Rightarrow> bytes \<Rightarrow> (artifact_idb, unit) cache_op" where
  "idb_put home_id sha256 bs =
     idb_transaction (\<lambda>store. ((), store(cache_key home_id sha256 \<mapsto>
        \<lparr>rec_home_id = JStr home_id, rec_sha256 = JStr sha256, rec_bytes = JBuffer bs\<rparr>)))"

definition idb_artifact_cache :: "artifact_idb artifact_cache" where
  "idb_artifact_cache = \<lparr>cache_get = idb_get, cache_put = idb_put, cache_delete = idb_delete\<rparr>"

end
