(* ===== verification/Artifact_Safety.thy ===== *)
theory Artifact_Safety
  imports Artifact
begin

text \<open>
  What \<open>loadVerifiedArtifact\<close> promises: the bytes it returns are the ones the pointer names whatever
  the cache does, a cache cannot make an artifact unavailable, and with a cache that keeps what it
  accepted (the locale \<open>artifact_store\<close>, interpreted on the IndexedDB cache, whose transactions may abort)
  an artifact that was loaded without a reported cache error is loaded again without the network, and
  homes do not see each other's entries.
\<close>

section \<open>Any cache\<close>

lemma load_from_network_result:
  "fst (load_from_network digest parse_url pointer options cache store reports) =
     map_r_result (\<lambda>v. \<lparr>la_artifact = v, la_source = FromNetwork\<rparr>)
       (fetch_and_verify_artifact digest parse_url pointer options)"
  by (auto simp: load_from_network_def map_r_result_def split: sum.splits prod.splits)

lemma load_verified_artifact_cases:
  obtains (network) "fst (load_verified_artifact digest parse_url pointer options cache store) =
      map_r_result (\<lambda>v. \<lparr>la_artifact = v, la_source = FromNetwork\<rparr>)
        (fetch_and_verify_artifact digest parse_url pointer options)"
  | (cached) v where
      "fst (load_verified_artifact digest parse_url pointer options cache store) =
         Inr \<lparr>la_artifact = v, la_source = FromCache\<rparr>"
      "artifact_matches digest (ptr_size pointer) (ptr_sha256 pointer) (va_bytes v)"
      "va_sha256 v = ptr_sha256 pointer"
proof -
  obtain found store1 reports1 where get:
    "guarded_op (map_option (\<lambda>c. cache_get c (ptr_home_id pointer) (ptr_sha256 pointer)) cache) None store 0
       = (found, store1, reports1)"
    by (metis prod.exhaust)
  show thesis
  proof (cases found)
    case None
    with get show thesis
      by (intro network) (simp add: load_verified_artifact_def load_from_network_result)
  next
    case (Some bs)
    show thesis
    proof (cases "verify_artifact_bytes digest (ptr_size pointer) (ptr_sha256 pointer) bs")
      case (Inl e)
      then have "e \<noteq> ThrownTypeError" by auto
      with Inl Some get show thesis
        by (intro network)
           (simp add: load_verified_artifact_def load_from_network_result split: prod.split)
    next
      case (Inr v)
      with Some get show thesis
        by (intro cached [of v]) (auto simp: load_verified_artifact_def verify_artifact_bytes_Inr_iff)
    qed
  qed
qed

lemma loaded_bytes_are_the_pointers_lemma:
  assumes "fst (load_verified_artifact digest parse_url pointer options cache store) = Inr a"
  shows "artifact_matches digest (ptr_size pointer) (ptr_sha256 pointer) (va_bytes (la_artifact a))
    \<and> va_sha256 (la_artifact a) = ptr_sha256 pointer"
proof (cases rule: load_verified_artifact_cases [of digest parse_url pointer options cache store])
  case network
  with assms show ?thesis
    by (auto simp: map_r_result_def res_simps dest: fetch_and_verify_Inr)
next
  case (cached v)
  with assms show ?thesis by auto
qed

text \<open>
Property C29: whatever the cache returns, throws or stores, the bytes \<open>loadVerifiedArtifact\<close> returns have
the size the pointer declares (at most 2 MiB) and their SHA-256 digest is the pointer's.
\<close>

theorem loaded_bytes_are_the_pointers:
  assumes "fst (load_verified_artifact digest parse_url pointer options cache store) = Inr a"
  shows "artifact_matches digest (ptr_size pointer) (ptr_sha256 pointer) (va_bytes (la_artifact a))
    \<and> va_sha256 (la_artifact a) = ptr_sha256 pointer"
  using assms by (rule loaded_bytes_are_the_pointers_lemma)

text \<open>
Property C34: a broken or hostile cache cannot make an artifact unavailable: \<open>loadVerifiedArtifact\<close> fails
only where the download itself fails, and with the same error.
\<close>

theorem cache_cannot_deny_an_artifact:
  assumes "fst (load_verified_artifact digest parse_url pointer options cache store) = Inl e"
  shows "fetch_and_verify_artifact digest parse_url pointer options = Inl e"
proof (cases rule: load_verified_artifact_cases [of digest parse_url pointer options cache store])
  case network
  with assms show ?thesis by (auto simp: map_r_result_def bind_r_Inl_iff)
next
  case (cached v)
  with assms show ?thesis by simp
qed

section \<open>A cache that keeps what it accepted\<close>

text \<open>
  Every call may be rejected. An answer of \<open>get\<close> is the entry the store holds, a resolved \<open>put\<close> has stored
  the bytes, and no call touches the entries of another home or digest.
\<close>

locale artifact_store =
  fixes cache :: "'c artifact_cache" and entry :: "'c \<Rightarrow> jstr \<Rightarrow> jstr \<Rightarrow> bytes option"
    and home_ok :: "jstr \<Rightarrow> bool"
  assumes get_answer: "fst (cache_get cache h k s) = Inr found \<Longrightarrow> found = entry s h k"
    and get_keeps: "entry (snd (cache_get cache h k s)) h k = entry s h k"
    and put_stores: "fst (cache_put cache h k b s) = Inr () \<Longrightarrow> entry (snd (cache_put cache h k b s)) h k = Some b"
    and others_kept: "home_ok h \<Longrightarrow> home_ok h' \<Longrightarrow> (h, k) \<noteq> (h', k') \<Longrightarrow>
        s' \<in> {snd (cache_put cache h k b s), snd (cache_delete cache h k s), snd (cache_get cache h k s)} \<Longrightarrow>
        entry s' h' k' = entry s h' k'"
begin

lemma load_network_put:
  assumes "load_from_network digest parse_url pointer options (Some cache) store reports = (Inr a, store', 0)"
  shows "entry store' (ptr_home_id pointer) (ptr_sha256 pointer) = Some (va_bytes (la_artifact a))"
proof -
  obtain v where v: "fetch_and_verify_artifact digest parse_url pointer options = Inr v"
    using assms by (auto simp: load_from_network_def split: sum.splits)
  let ?put = "cache_put cache (ptr_home_id pointer) (ptr_sha256 pointer) (va_bytes v) store"
  have "fst ?put = Inr ()" "store' = snd ?put" "la_artifact a = v"
    using assms by (auto simp: load_from_network_def v guarded_op_def split: sum.splits prod.splits)
  then show ?thesis by (simp add: put_stores)
qed

lemma load_keeps_artifact:
  assumes "load_verified_artifact digest parse_url pointer options (Some cache) store = (Inr a, store', 0)"
  shows "entry store' (ptr_home_id pointer) (ptr_sha256 pointer) = Some (va_bytes (la_artifact a))"
proof -
  let ?get = "cache_get cache (ptr_home_id pointer) (ptr_sha256 pointer) store"
  show ?thesis
  proof (cases "\<exists>b v. fst ?get = Inr (Some b)
      \<and> verify_artifact_bytes digest (ptr_size pointer) (ptr_sha256 pointer) b = Inr v")
    case True
    then obtain b v where b: "fst ?get = Inr (Some b)"
      "verify_artifact_bytes digest (ptr_size pointer) (ptr_sha256 pointer) b = Inr v" by blast
    then have "store' = snd ?get" "va_bytes (la_artifact a) = b"
      using assms
      by (auto simp: load_verified_artifact_def guarded_op_def verify_artifact_bytes_Inr_iff
          split: prod.splits)
    with get_answer [OF b(1)] show ?thesis by (simp add: get_keeps)
  next
    case False
    then obtain s2 n2 where
      "load_from_network digest parse_url pointer options (Some cache) s2 n2 = (Inr a, store', 0)"
      using assms
      by (auto simp: load_verified_artifact_def guarded_op_def split: option.splits sum.splits if_splits prod.splits)
    then show ?thesis by (rule load_network_put)
  qed
qed

lemma load_again:
  assumes "load_verified_artifact digest parse_url pointer options (Some cache) store = (Inr a, store', 0)"
    and "cache_get cache (ptr_home_id pointer) (ptr_sha256 pointer) store' = (Inr found, store'')"
  shows "load_verified_artifact digest parse_url' pointer options' (Some cache) store' =
           (Inr (a\<lparr>la_source := FromCache\<rparr>), store'', 0)"
proof -
  have "artifact_matches digest (ptr_size pointer) (ptr_sha256 pointer) (va_bytes (la_artifact a))
      \<and> va_sha256 (la_artifact a) = ptr_sha256 pointer"
    using loaded_bytes_are_the_pointers_lemma
      [of digest parse_url pointer options "Some cache" store a] assms(1) by simp
  moreover have "found = Some (va_bytes (la_artifact a))"
    using get_answer [of "ptr_home_id pointer" "ptr_sha256 pointer" store' found] assms(2)
      load_keeps_artifact [OF assms(1)] by simp
  ultimately show ?thesis
    using assms(2) by (simp add: load_verified_artifact_def guarded_op_def verify_artifact_bytes_Inr_iff)
qed

lemma other_entries:
  assumes "home_ok h" "home_ok h'" "(h, k) \<noteq> (h', k')"
  shows "entry (snd (cache_put cache h k b s)) h' k' = entry s h' k'"
    "entry (snd (cache_delete cache h k s)) h' k' = entry s h' k'"
    "entry (snd (cache_get cache h k s)) h' k' = entry s h' k'"
  using others_kept [OF assms] by blast+

lemma guarded_op_store: "guarded_op (Some f) x s r = (y, s', r') \<Longrightarrow> s' = snd (f s)"
  by (auto simp: guarded_op_def split: prod.splits sum.splits)

lemma load_network_isolated:
  assumes "home_ok (ptr_home_id pointer)" "home_ok h'" "(ptr_home_id pointer, ptr_sha256 pointer) \<noteq> (h', k')"
  shows "entry (fst (snd (load_from_network digest parse_url pointer options (Some cache) store n))) h' k'
    = entry store h' k'"
  using other_entries [OF assms]
  by (auto simp: load_from_network_def split: sum.split prod.split dest!: guarded_op_store)

lemma load_isolated:
  assumes "home_ok (ptr_home_id pointer)" "home_ok h'" "(ptr_home_id pointer, ptr_sha256 pointer) \<noteq> (h', k')"
  shows "entry (fst (snd (load_verified_artifact digest parse_url pointer options (Some cache) store))) h' k'
    = entry store h' k'"
  using other_entries [OF assms] load_network_isolated [OF assms]
  by (auto simp: load_verified_artifact_def split: sum.split prod.split option.split dest!: guarded_op_store)

end

section \<open>The IndexedDB cache is such a store\<close>

text \<open>A validated home id has no control character, so a key determines its home and digest.\<close>

definition no_nul :: "jstr \<Rightarrow> bool" where
  "no_nul s \<longleftrightarrow> 0 \<notin> set s"

lemma cache_key_inj:
  assumes "no_nul h" "no_nul h'" "cache_key h k = cache_key h' k'"
  shows "h = h' \<and> k = k'"
proof -
  have "takeWhile (\<lambda>u. u \<noteq> 0) (cache_key h k) = h" if "no_nul h" for h k
    using that by (auto simp: cache_key_def no_nul_def takeWhile_append)
  with assms have "h = h'" by metis
  with assms(3) show ?thesis by (simp add: cache_key_def)
qed

text \<open>What the object store holds for a home and a digest: the bytes of a record that names both.\<close>

definition record_entry :: "jstr \<Rightarrow> jstr \<Rightarrow> artifact_record \<Rightarrow> bytes option" where
  "record_entry home_id sha256 r =
     (case rec_bytes r of
        JBuffer bs \<Rightarrow> (if rec_home_id r = JStr home_id \<and> rec_sha256 r = JStr sha256 then Some bs else None)
      | _ \<Rightarrow> None)"

definition idb_entry :: "artifact_idb \<Rightarrow> jstr \<Rightarrow> jstr \<Rightarrow> bytes option" where
  "idb_entry db home_id sha256 =
     Option.bind (idb_store db (cache_key home_id sha256)) (record_entry home_id sha256)"

lemma idb_cache_simps [simp]:
  "cache_get idb_artifact_cache = idb_get" "cache_put idb_artifact_cache = idb_put"
  "cache_delete idb_artifact_cache = idb_delete"
  by (simp_all add: idb_artifact_cache_def)

lemma idb_transaction_cases:
  obtains (aborted) "fst (idb_transaction f db) = Inl ()" "idb_store (snd (idb_transaction f db)) = idb_store db"
  | (completed) "fst (idb_transaction f db) = Inr (fst (f (idb_store db)))"
      "idb_store (snd (idb_transaction f db)) = snd (f (idb_store db))"
  by (cases "idb_opened db"; cases "idb_outcomes db 0"; cases "f (idb_store db)")
     (auto simp: idb_transaction_def Let_def)

lemma idb_delete_store:
  "idb_store (snd (idb_delete h k db)) = idb_store db
    \<or> idb_store (snd (idb_delete h k db)) = (idb_store db)(cache_key h k := None)"
  unfolding idb_delete_def by (rule idb_transaction_cases) auto

text \<open>\<open>get\<close> removes a record only where it is not an entry, and answers with the entry.\<close>

lemma idb_get_spec:
  "idb_store (snd (idb_get h k db)) = idb_store db
    \<or> idb_entry db h k = None \<and> idb_store (snd (idb_get h k db)) = (idb_store db)(cache_key h k := None)"
  "fst (idb_get h k db) = Inr found \<Longrightarrow> found = idb_entry db h k"
proof -
  let ?read = "\<lambda>store. (store (cache_key h k), store :: artifact_db)"
  obtain read db1 where tx: "idb_transaction ?read db = (read, db1)" by (rule prod.exhaust)
  have kept: "idb_store db1 = idb_store db"
    and answer: "read = Inl () \<or> read = Inr (idb_store db (cache_key h k))"
    by (rule idb_transaction_cases [of ?read db]; simp add: tx)+
  have "(idb_store (snd (idb_get h k db)) = idb_store db
      \<or> idb_entry db h k = None \<and> idb_store (snd (idb_get h k db)) = (idb_store db)(cache_key h k := None))
    \<and> (fst (idb_get h k db) = Inr found \<longrightarrow> found = idb_entry db h k)"
  proof (cases "read = Inl ()")
    case True
    then show ?thesis by (simp add: idb_get_def tx kept)
  next
    case False
    with answer have read: "read = Inr (idb_store db (cache_key h k))" by simp
    show ?thesis
    proof (cases "idb_store db (cache_key h k)")
      case None
      then show ?thesis by (simp add: idb_get_def tx read kept idb_entry_def)
    next
      case (Some r)
      have removed: "idb_store (snd (idb_delete h k db1)) = idb_store db
          \<or> idb_store (snd (idb_delete h k db1)) = (idb_store db)(cache_key h k := None)"
        using idb_delete_store [of h k db1] kept by simp
      show ?thesis
        using removed
        by (cases "rec_bytes r")
          (auto simp: idb_get_def tx read kept Some idb_entry_def record_entry_def strict_eq_str_def
            split: prod.splits sum.splits)
    qed
  qed
  then show "idb_store (snd (idb_get h k db)) = idb_store db
    \<or> idb_entry db h k = None \<and> idb_store (snd (idb_get h k db)) = (idb_store db)(cache_key h k := None)"
    "fst (idb_get h k db) = Inr found \<Longrightarrow> found = idb_entry db h k" by blast+
qed

lemma idb_put_spec:
  "idb_store (snd (idb_put h k b db)) = idb_store db \<and> fst (idb_put h k b db) = Inl ()
    \<or> idb_store (snd (idb_put h k b db)) = (idb_store db)(cache_key h k \<mapsto>
        \<lparr>rec_home_id = JStr h, rec_sha256 = JStr k, rec_bytes = JBuffer b\<rparr>)"
  unfolding idb_put_def by (rule idb_transaction_cases) auto

interpretation idb: artifact_store idb_artifact_cache idb_entry no_nul
proof unfold_locales
  fix h k h' k' :: jstr and b :: bytes and found :: "bytes option" and s s' :: artifact_idb
  show "found = idb_entry s h k" if "fst (cache_get idb_artifact_cache h k s) = Inr found"
    using idb_get_spec(2) that by simp
  show "idb_entry (snd (cache_get idb_artifact_cache h k s)) h k = idb_entry s h k"
    using idb_get_spec(1) [of h k s] by (auto simp: idb_entry_def)
  show "idb_entry (snd (cache_put idb_artifact_cache h k b s)) h k = Some b"
    if "fst (cache_put idb_artifact_cache h k b s) = Inr ()"
    using idb_put_spec [of h k b s] that by (auto simp: idb_entry_def record_entry_def)
  show "idb_entry s' h' k' = idb_entry s h' k'"
    if "no_nul h" "no_nul h'" "(h, k) \<noteq> (h', k')"
      "s' \<in> {snd (cache_put idb_artifact_cache h k b s), snd (cache_delete idb_artifact_cache h k s),
             snd (cache_get idb_artifact_cache h k s)}"
  proof -
    have "cache_key h k \<noteq> cache_key h' k'" using cache_key_inj that(1-3) by blast
    then have "idb_store s' (cache_key h' k') = idb_store s (cache_key h' k')"
      using that(4) idb_get_spec(1) [of h k s] idb_put_spec [of h k b s] idb_delete_store [of h k s] by auto
    then show ?thesis by (simp add: idb_entry_def)
  qed
qed

text \<open>A load that reports no error has found the database open and left it so.\<close>

lemma idb_opened_transaction [simp]: "idb_opened (snd (idb_transaction f db)) = idb_opened db"
  by (auto simp: idb_transaction_def Let_def split: tx_outcome.split prod.split)

lemma idb_opened_ops [simp]:
  "idb_opened (snd (idb_get h k db)) = idb_opened db" "idb_opened (snd (idb_put h k b db)) = idb_opened db"
  "idb_opened (snd (idb_delete h k db)) = idb_opened db"
proof -
  show delete: "idb_opened (snd (idb_delete h k db)) = idb_opened db" for db by (simp add: idb_delete_def)
  show "idb_opened (snd (idb_put h k b db)) = idb_opened db" by (simp add: idb_put_def)
  let ?tx = "idb_transaction (\<lambda>store. (store (cache_key h k), store)) db"
  have "snd (idb_get h k db) = snd ?tx \<or> snd (idb_get h k db) = snd (idb_delete h k (snd ?tx))"
    by (auto simp: idb_get_def split: prod.split sum.split option.split jsval.split)
  then show "idb_opened (snd (idb_get h k db)) = idb_opened db" using delete by force
qed

lemma guarded_opened:
  assumes "guarded_op (Some f) x db n = (y, db', n')" "\<And>db. idb_opened (snd (f db)) = idb_opened db"
  shows "idb_opened db' = idb_opened db"
  using assms(2) idb.guarded_op_store [OF assms(1)] by simp

lemma load_opened:
  "idb_opened (fst (snd (load_verified_artifact digest parse_url pointer options (Some idb_artifact_cache) db)))
    = idb_opened db"
  by (auto simp: load_verified_artifact_def load_from_network_def split: option.split sum.split prod.split
      dest!: guarded_opened)

lemma clean_load_opened:
  assumes "load_verified_artifact digest parse_url pointer options (Some idb_artifact_cache) db = (Inr a, db', 0)"
  shows "idb_opened db'"
proof (rule ccontr)
  assume "\<not> idb_opened db'"
  then have "\<not> idb_opened db" using load_opened [of digest parse_url pointer options db] assms by simp
  with assms show False
    by (auto simp: load_verified_artifact_def load_from_network_def guarded_op_def idb_get_def idb_put_def
        idb_transaction_def split: sum.splits prod.splits)
qed

lemma idb_get_completes:
  assumes "idb_opened db" "idb_outcomes db 0 = TxCompletes" "idb_entry db h k = Some b"
  shows "idb_get h k db = (Inr (Some b), db\<lparr>idb_outcomes := \<lambda>n. idb_outcomes db (Suc n)\<rparr>)"
proof -
  obtain r where r: "idb_store db (cache_key h k) = Some r" "record_entry h k r = Some b"
    using assms(3) by (auto simp: idb_entry_def bind_eq_Some_conv)
  then show ?thesis
    using assms(1,2)
    by (auto simp: idb_get_def idb_transaction_def record_entry_def strict_eq_str_def
        split: jsval.splits if_splits)
qed

text \<open>
Property C35: an artifact loaded through the IndexedDB cache without a reported cache error is loaded again
from the cache with the same bytes and without the network, whatever the URL parser and the fetch
options are then, even with no \<open>fetch\<close> at all, as soon as the one read transaction of the second load
completes.
\<close>

theorem loaded_artifact_stays_available:
  assumes "load_verified_artifact digest parse_url pointer options (Some idb_artifact_cache) db = (Inr a, db', 0)"
    and "idb_outcomes db' 0 = TxCompletes"
  shows "load_verified_artifact digest parse_url' pointer options' (Some idb_artifact_cache) db' =
    (Inr (a\<lparr>la_source := FromCache\<rparr>), db'\<lparr>idb_outcomes := \<lambda>n. idb_outcomes db' (Suc n)\<rparr>, 0)"
  using idb_get_completes [OF clean_load_opened [OF assms(1)] assms(2) idb.load_keeps_artifact [OF assms(1)]]
  by (intro idb.load_again [OF assms(1)]) simp

text \<open>
  Loading an artifact for one home never changes what the cache holds for another home or
  another digest, although all share one object store under concatenated keys.
\<close>

theorem artifact_loads_are_isolated:
  assumes "no_nul (ptr_home_id pointer)" "no_nul h'" "(ptr_home_id pointer, ptr_sha256 pointer) \<noteq> (h', k')"
  shows "idb_entry (fst (snd (load_verified_artifact digest parse_url pointer options
           (Some idb_artifact_cache) db))) h' k' = idb_entry db h' k'"
  by (rule idb.load_isolated [OF assms])

end
