(* ===== verification/Program.thy ===== *)
theory Program
  imports Structured Artifact
begin

text \<open>
  \<open>component-runtime/src/program.ts\<close>: \<open>validateGuestProgram\<close>. The parser (acorn) is a parameter: from
  the source text to the comments and tokens it reports to its callbacks and the syntax tree, \<open>None\<close>
  where it throws. Objects of the tree appear as records of their own enumerable properties.

  The lemmas show that the walk over the syntax tree finds every dynamic import.
\<close>

section \<open>The check\<close>

record parse_outcome =
  parsed_comments :: "jstr list"
  parsed_tokens :: nat
  parsed_tree :: "jsval option"

type_synonym script_parser = "jstr \<Rightarrow> parse_outcome"

definition MAX_PROGRAM_TOKENS :: nat where
  "MAX_PROGRAM_TOKENS = 100000"

definition MAX_AST_MEMBERS :: nat where
  "MAX_AST_MEMBERS = 250000"

text \<open>\<open>/[#@]\s*sourceMappingURL\s*=/u\<close>: white space and line terminators of the \<open>\s\<close> class.\<close>

definition regex_space :: "u16 \<Rightarrow> bool" where
  "regex_space u \<longleftrightarrow> (0x09 \<le> u \<and> u \<le> 0x0D) \<or> u \<in> {0x20, 0xA0, 0x1680, 0x2028, 0x2029, 0x202F, 0x205F, 0x3000, 0xFEFF}
     \<or> (0x2000 \<le> u \<and> u \<le> 0x200A)"

definition directive_here :: "jstr \<Rightarrow> bool" where
  "directive_here s =
     (case s of
        [] \<Rightarrow> False
      | u # rest \<Rightarrow>
          (u = 0x23 \<or> u = 0x40) \<and>
          (let after = dropWhile regex_space rest in
           starts_with after (js ''sourceMappingURL'') \<and>
           (case dropWhile regex_space (drop 16 after) of [] \<Rightarrow> False | v # _ \<Rightarrow> v = 0x3D)))"

definition source_map_directive :: "jstr \<Rightarrow> bool" where
  "source_map_directive s \<longleftrightarrow> list_ex directive_here (suffixes s)"

text \<open>\<open>Object.values(record)\<close>.\<close>

fun object_values :: "jsval \<Rightarrow> jsval list" where
  "object_values (JRec _ fs) = map snd fs"
| "object_values (JArr _ items extra) = List.map_filter id items @ map snd extra"
| "object_values _ = []"

text \<open>What one child adds to the stack, its last pushed value first.\<close>

fun pushed_by :: "jsval \<Rightarrow> jsval list" where
  "pushed_by (JArr _ items _) = map (case_option JUndef id) items"
| "pushed_by (JRec oid fs) = [JRec oid fs]"
| "pushed_by _ = []"

fun is_import :: "jsval \<Rightarrow> bool" where
  "is_import (JRec _ fs) = strict_eq_str (get fs ''type'') (js ''ImportExpression'')"
| "is_import (JArr _ _ extra) = strict_eq_str (get extra ''type'') (js ''ImportExpression'')"
| "is_import _ = False"

fun is_object :: "jsval \<Rightarrow> bool" where
  "is_object (JRec _ _) = True"
| "is_object (JArr _ _ _) = True"
| "is_object _ = False"

fun identity :: "jsval \<Rightarrow> nat" where
  "identity (JRec oid _) = oid"
| "identity (JArr oid _ _) = oid"
| "identity _ = 0"

definition pushes :: "jsval \<Rightarrow> jsval list" where
  "pushes v = concat (rev (map pushed_by (object_values v)))"

lemma size_pushed_by: "sum_list (map size (pushed_by c)) \<le> size c"
proof (cases c)
  case (JArr oid items extra)
  have "sum_list (map size (map (case_option JUndef id) items)) \<le> size_list (size_option size) items"
    by (induction items) (auto split: option.split)
  then show ?thesis using JArr by simp
qed auto

lemma size_pushes: "is_object v \<Longrightarrow> sum_list (map size (pushes v)) < size v"
proof -
  have cs: "sum_list (map size (concat (rev (map pushed_by cs)))) \<le> sum_list (map size cs)" for cs
  proof (induction cs)
    case (Cons c cs)
    with size_pushed_by [of c] show ?case by simp
  qed simp
  assume "is_object v"
  then show ?thesis
  proof (cases v)
    case (JRec oid fs)
    have "sum_list (map size (map snd fs)) \<le> size_list (size_prod (\<lambda>_. 0) size) fs"
      by (induction fs) auto
    with cs [of "map snd fs"] JRec show ?thesis by (simp add: pushes_def)
  next
    case (JArr oid items extra)
    have "sum_list (map size (List.map_filter id items)) \<le> size_list (size_option size) items"
      by (induction items) (auto simp: map_filter_def)
    moreover have "sum_list (map size (map snd extra)) \<le> size_list (size_prod (\<lambda>_. 0) size) extra"
      by (induction extra) auto
    ultimately show ?thesis using cs [of "List.map_filter id items @ map snd extra"] JArr
      by (simp add: pushes_def)
  qed auto
qed

function walk_tree :: "jsval list \<Rightarrow> nat set \<Rightarrow> nat \<Rightarrow> unit res" where
  "walk_tree [] seen visited = Inr ()"
| "walk_tree (v # stack) seen visited =
     (if \<not> is_object v then walk_tree stack seen visited
      else if identity v \<in> seen then walk_tree stack seen visited
      else if visited + 1 > MAX_AST_MEMBERS then fail ArtifactProgramInvalid
      else if is_import v then fail ArtifactProgramInvalid
      else walk_tree (pushes v @ stack) (insert (identity v) seen) (visited + 1))"
  by pat_completeness auto
termination
proof (relation "measures [\<lambda>(stack, _). sum_list (map size stack), \<lambda>(stack, _). length stack]", simp, goal_cases)
  case (3 v stack seen visited)
  then show ?case using size_pushes [of v] by simp
qed auto

declare walk_tree.simps(2) [simp del]

definition validate_guest_program :: "script_parser \<Rightarrow> bytes \<Rightarrow> unit res" where
  "validate_guest_program parse bs =
     (if bs = [] \<or> length bs > artifact_bytes LIMITS then fail ArtifactProgramInvalid
      else (case text_decode bs of
          None \<Rightarrow> fail ArtifactProgramInvalid
        | Some src \<Rightarrow>
            (let outcome = parse src in
             if parsed_tokens outcome > MAX_PROGRAM_TOKENS then fail ArtifactProgramInvalid
             else (case parsed_tree outcome of
                 None \<Rightarrow> fail ArtifactProgramInvalid
               | Some tree \<Rightarrow>
                   if list_ex source_map_directive (parsed_comments outcome) then fail ArtifactProgramInvalid
                   else walk_tree [tree] {} 0))))"

section \<open>The walk finds every dynamic import\<close>

text \<open>
  The values of a syntax tree, by its own constructors: the tree, the values of the properties of its
  objects and the elements of its arrays, wherever they stand.
\<close>

inductive ast_value :: "jsval \<Rightarrow> jsval \<Rightarrow> bool" for tree where
  whole: "ast_value tree tree"
| property: "ast_value tree (JRec oid fs) \<Longrightarrow> (key, v) \<in> set fs \<Longrightarrow> ast_value tree v"
| element: "ast_value tree (JArr oid items extra) \<Longrightarrow> Some v \<in> set items \<Longrightarrow> ast_value tree v"

text \<open>
  What the parser guarantees of its tree: two occurrences of one identity are the same object, and an
  array has no property beside its elements.
\<close>

definition parser_tree :: "jsval \<Rightarrow> bool" where
  "parser_tree tree \<longleftrightarrow>
     (\<forall>v w. ast_value tree v \<longrightarrow> ast_value tree w \<longrightarrow> is_object v \<longrightarrow> is_object w \<longrightarrow>
        identity v = identity w \<longrightarrow> v = w)
     \<and> (\<forall>oid items extra. ast_value tree (JArr oid items extra) \<longrightarrow> extra = [])"

lemma pushes_record:
  "c \<in> set (pushes (JRec oid fs)) \<longleftrightarrow> (\<exists>key v. (key, v) \<in> set fs \<and> c \<in> set (pushed_by v))"
  by (force simp: pushes_def)

lemma pushes_array:
  "c \<in> set (pushes (JArr oid items [])) \<longleftrightarrow> (\<exists>v. Some v \<in> set items \<and> c \<in> set (pushed_by v))"
  by (force simp: pushes_def List.map_filter_def)

lemma pushed_by_item: "Some v \<in> set items \<Longrightarrow> v \<in> set (pushed_by (JArr oid items extra))"
  by (force intro: image_eqI [of _ _ "Some v"])

lemma pushed_ast_value:
  assumes "ast_value tree v" "c \<in> set (pushed_by v)" "is_object c"
  shows "ast_value tree c"
  using assms by (cases v) (auto intro: ast_value.element split: option.splits)

lemma pushes_ast_value:
  assumes "parser_tree tree" "ast_value tree v" "is_object v" "c \<in> set (pushes v)" "is_object c"
  shows "ast_value tree c"
proof (cases v)
  case (JRec oid fs)
  with assms(2,4,5) show ?thesis
    by (auto simp: pushes_record intro: pushed_ast_value ast_value.property)
next
  case (JArr oid items extra)
  with assms(1,2) have "extra = []" unfolding parser_tree_def by blast
  with JArr assms(2,4,5) show ?thesis
    by (auto simp: pushes_array intro: pushed_ast_value ast_value.element)
qed (use assms(3) in auto)

definition walked :: "jsval set \<Rightarrow> jsval set \<Rightarrow> bool" where
  "walked fin todo \<longleftrightarrow>
     (\<forall>p\<in>fin. is_object p \<and> \<not> is_import p \<and> (\<forall>c\<in>set (pushes p). is_object c \<longrightarrow> c \<in> fin \<union> todo))"

lemma walk_tree_closed:
  assumes "walk_tree stack seen visited = Inr ()" "seen = identity ` fin" "walked fin (set stack)"
    and "\<forall>v\<in>fin \<union> set stack. is_object v \<longrightarrow> ast_value tree v" "parser_tree tree"
  shows "\<exists>all. fin \<union> {v\<in>set stack. is_object v} \<subseteq> all \<and> walked all {}"
  using assms
proof (induction stack seen visited arbitrary: fin rule: walk_tree.induct)
  case (1 seen visited)
  then show ?case by auto
next
  case (2 v stack seen visited)
  show ?case
  proof (cases "is_object v \<and> identity v \<notin> seen")
    case False
    have known: "v \<in> fin" if "is_object v"
    proof -
      from False that "2.prems"(2) obtain p where p: "p \<in> fin" "identity v = identity p" by blast
      moreover have "is_object p" using "2.prems"(3) p(1) by (simp add: walked_def)
      moreover have "ast_value tree p" "ast_value tree v" using "2.prems"(4) p(1) that calculation(3) by simp_all
      ultimately have "v = p" using "2.prems"(5) that unfolding parser_tree_def by blast
      with p(1) show ?thesis by simp
    qed
    have "walk_tree stack seen visited = Inr ()"
      using False "2.prems"(1) by (simp add: walk_tree.simps split: if_split_asm)
    moreover have "walked fin (set stack)"
      using "2.prems"(3) known unfolding walked_def by (metis Un_iff set_ConsD)
    ultimately obtain all where "fin \<union> {v\<in>set stack. is_object v} \<subseteq> all" "walked all {}"
      using "2.IH"(1,2) [of "fin"] False "2.prems" by (cases "is_object v") auto
    then show ?thesis using known by (intro exI [of _ all]) auto
  next
    case True
    then have step: "walk_tree (pushes v @ stack) (insert (identity v) seen) (visited + 1) = Inr ()"
      "\<not> is_import v" "\<not> visited + 1 > MAX_AST_MEMBERS"
      using "2.prems"(1) by (auto simp: walk_tree.simps split: if_splits)
    have "walked (insert v fin) (set (pushes v @ stack))"
      using "2.prems"(3) True step(2) by (auto simp: walked_def)
    moreover have "\<forall>w\<in>insert v fin \<union> set (pushes v @ stack). is_object w \<longrightarrow> ast_value tree w"
      using "2.prems"(4) True pushes_ast_value [OF "2.prems"(5), of v] by auto
    moreover have "insert (identity v) seen = identity ` insert v fin" using "2.prems"(2) by simp
    ultimately obtain all where "insert v fin \<union> {w\<in>set (pushes v @ stack). is_object w} \<subseteq> all" "walked all {}"
      using "2.IH"(3) [of "insert v fin"] True step "2.prems"(5) by (metis not_less)
    then show ?thesis by (intro exI [of _ all]) auto
  qed
qed

text \<open>An array is not always walked itself, but its elements are.\<close>

definition reached :: "jsval set \<Rightarrow> jsval \<Rightarrow> bool" where
  "reached all v \<longleftrightarrow>
     (is_object v \<longrightarrow> v \<in> all)
     \<or> (\<exists>oid items extra. v = JArr oid items extra \<and> (\<forall>c. Some c \<in> set items \<longrightarrow> is_object c \<longrightarrow> c \<in> all))"

lemma reached_pushed:
  assumes "\<And>c. c \<in> set (pushed_by v) \<Longrightarrow> is_object c \<Longrightarrow> c \<in> all"
  shows "reached all v"
  using assms pushed_by_item by (cases v) (auto simp: reached_def)

lemma walked_pushes: "walked all {} \<Longrightarrow> p \<in> all \<Longrightarrow> c \<in> set (pushes p) \<Longrightarrow> is_object c \<Longrightarrow> c \<in> all"
  unfolding walked_def by blast

lemma walked_reached:
  assumes "walked all {}" "is_object tree \<Longrightarrow> tree \<in> all" "parser_tree tree" "ast_value tree v"
  shows "reached all v"
  using assms(4)
proof (induction)
  case whole
  with assms(2) show ?case unfolding reached_def by blast
next
  case (property oid fs key v)
  then have "JRec oid fs \<in> all" by (simp add: reached_def)
  note below = walked_pushes [OF assms(1) this]
  show ?case
  proof (rule reached_pushed)
    fix c assume "c \<in> set (pushed_by v)" "is_object c"
    with property.hyps(2) have "c \<in> set (pushes (JRec oid fs))" unfolding pushes_record by blast
    then show "c \<in> all" using below \<open>is_object c\<close> by blast
  qed
next
  case (element oid items extra v)
  then consider "JArr oid items extra \<in> all" | "is_object v \<longrightarrow> v \<in> all" by (auto simp: reached_def)
  then show ?case
  proof cases
    case 1
    have "extra = []" using element.hyps(1) assms(3) unfolding parser_tree_def by blast
    then have items: "c \<in> set (pushes (JArr oid items extra))" if "c \<in> set (pushed_by v)" for c
      using that element.hyps(2) pushes_array [of c oid items] by blast
    show ?thesis by (rule reached_pushed) (use walked_pushes [OF assms(1) 1] items in blast)
  qed (simp add: reached_def)
qed

text \<open>
Property C31: a program \<open>validateGuestProgram\<close> accepts is non-empty, within 2 MiB, valid UTF-8 that parses within
the token limit, has no source map directive in a comment, and no object anywhere in its syntax tree,
under whatever properties and arrays, has the type \<open>ImportExpression\<close> (in a tree as the parser makes it,
where an object is one object however often it occurs).
\<close>

theorem guest_program_has_no_dynamic_import:
  assumes "validate_guest_program parse bs = Inr ()"
  shows "\<exists>src tree. text_decode bs = Some src \<and> bs \<noteq> [] \<and> length bs \<le> 2097152
    \<and> parsed_tree (parse src) = Some tree \<and> parsed_tokens (parse src) \<le> 100000
    \<and> \<not> list_ex source_map_directive (parsed_comments (parse src))
    \<and> (parser_tree tree \<longrightarrow>
        (\<forall>oid fs. ast_value tree (JRec oid fs) \<longrightarrow> get fs ''type'' \<noteq> JStr (js ''ImportExpression'')))"
proof -
  from assms obtain src tree where src: "text_decode bs = Some src" "bs \<noteq> []" "length bs \<le> 2097152"
    "parsed_tree (parse src) = Some tree" "parsed_tokens (parse src) \<le> 100000"
    "\<not> list_ex source_map_directive (parsed_comments (parse src))"
    and walk: "walk_tree [tree] {} 0 = Inr ()"
    by (auto simp: validate_guest_program_def Let_def MAX_PROGRAM_TOKENS_def split: if_splits option.splits)
  have "get fs ''type'' \<noteq> JStr (js ''ImportExpression'')"
    if tree: "parser_tree tree" and part: "ast_value tree (JRec oid fs)" for oid fs
  proof -
    have "walked {} (set [tree])" "\<forall>v\<in>{} \<union> set [tree]. is_object v \<longrightarrow> ast_value tree v"
      by (simp_all add: walked_def ast_value.whole)
    from walk_tree_closed [OF walk _ this tree]
    obtain all where all: "{v\<in>set [tree]. is_object v} \<subseteq> all" "walked all {}" by auto
    then have "reached all (JRec oid fs)" using walked_reached [OF all(2) _ tree part] by auto
    then have "JRec oid fs \<in> all" by (simp add: reached_def)
    with all(2) have "\<not> is_import (JRec oid fs)" unfolding walked_def by blast
    then show ?thesis by (auto simp: strict_eq_str_def)
  qed
  with src show ?thesis by blast
qed

end
