(* ===== verification/Witnesses.thy ===== *)
theory Witnesses
  imports Release_Ledger Ui_Tree Artifact_Safety Program
begin

text \<open>
  Concrete inputs at which the properties of the other theories hold: a release pointer, its URL
  parser and context, stores, trees and programs. Each witness applies its property to them.
\<close>

section \<open>A release pointer\<close>

definition demo_href :: jstr where
  "demo_href = js ''https://o/a''"

definition demo_url :: "jstr \<Rightarrow> url_parts" where
  "demo_url href = \<lparr>url_protocol = js ''https:'', url_username = [], url_password = [], url_search = [],
     url_hash = [], url_origin = js ''https://o'', url_pathname = drop 9 href, url_href = href\<rparr>"

definition demo_parse :: url_parser where
  "demo_parse s = (if s = demo_href then Some (demo_url demo_href) else None)"

definition demo_context :: pointer_context where
  "demo_context = \<lparr>expected_home_id = js ''h1'', minimum_generation = None,
     allowed_artifact_origins = [js ''https://o''], allowed_path_prefixes = None\<rparr>"

definition demo_requires :: capability_requirements where
  "demo_requires = \<lparr>state_read = [js ''room.*''], event_subscribe = [], event_publish = [],
     req_call = [js ''lamp.set''], presentation = [js ''media.cam'']\<rparr>"

definition demo_sha :: jstr where
  "demo_sha = encode_base64url (replicate 32 0)"

definition demo_pointer :: "int \<Rightarrow> component_pointer" where
  "demo_pointer g = \<lparr>ptr_schema = POINTER_SCHEMA, ptr_home_id = js ''h1'', ptr_generation = g,
     ptr_release = js ''r1'', ptr_abi = COMPONENT_ABI, ptr_url = demo_href, ptr_sha256 = demo_sha,
     ptr_size = 3, ptr_requires = demo_requires\<rparr>"

lemma demo_url_ok: "artifact_url_ok demo_context (demo_url href)"
  by (simp add: artifact_url_ok_def demo_context_def demo_url_def path_allowed_def)

lemma demo_patterns:
  "validate_capability_pattern (JStr (js ''room.*'')) = Inr (js ''room.*'')"
  "validate_capability_pattern (JStr (js ''lamp.set'')) = Inr (js ''lamp.set'')"
  "validate_capability_pattern (JStr (js ''media.cam'')) = Inr (js ''media.cam'')"
  by code_simp+

lemma demo_media: "starts_with (js ''media.cam'') (js ''media.'')" "\<not> ends_with (js ''media.cam'') (js ''.*'')"
  by code_simp+

lemma demo_requires_ok: "validate_requirements (requirements_value demo_requires) = Inr demo_requires"
  using demo_patterns demo_media
  by (simp add: validate_requirements_value requirements_ok_def demo_requires_def
      validate_capability_pattern_Inr_iff)

lemma demo_sha_decodes: "decode_base64url demo_sha = Inr (replicate 32 0)"
  unfolding demo_sha_def by (rule decode_encode_base64url) simp

lemma demo_strings:
  "bounded_string (JStr (js ''h1'')) 128 = Inr (js ''h1'')"
  "bounded_string (JStr (js ''r1'')) 64 = Inr (js ''r1'')"
  "bounded_string (JStr demo_href) 2048 = Inr demo_href"
  by code_simp+

lemma demo_sha_bounded: "bounded_string (JStr demo_sha) 64 = Inr demo_sha"
  unfolding demo_sha_def by (intro sha256_bounded encode_base64url_format) simp

lemma validate_demo_pointer:
  assumes "bounded_string (JStr raw) 2048 = Inr raw" "parse_url raw = Some (demo_url href)"
    and "floor_of context \<le> g" "0 < g" "g \<le> max_safe_integer" "context\<lparr>minimum_generation := None\<rparr> = demo_context"
  shows "validate_pointer parse_url (pointer_value (demo_pointer g\<lparr>ptr_url := raw\<rparr>)) context
    = Inr (demo_pointer g\<lparr>ptr_url := href\<rparr>)"
  using assms demo_strings demo_sha_bounded demo_sha_decodes demo_requires_ok demo_url_ok [of href]
  unfolding validate_pointer_Inr_iff validate_pointer_value_def pointer_record
  by (cases "context")
     (auto simp: demo_pointer_def pointer_value_def floor_of_def res_simps Let_def strict_eq_str_def
       max_safe_integer_def demo_context_def demo_url_def artifact_url_ok_def safe_positive_integer_def)

section \<open>The ledger\<close>

lemma demo_idempotent: "url_idempotent demo_parse"
  by (simp add: url_idempotent_def demo_parse_def demo_url_def)

lemma demo_pointer_fields [simp]:
  "ptr_generation (demo_pointer g) = g" "ptr_home_id (demo_pointer g) = js ''h1''"
  "ptr_url (demo_pointer g) = demo_href" "demo_pointer g = demo_pointer g' \<longleftrightarrow> g = g'"
  "demo_pointer g\<lparr>ptr_url := demo_href\<rparr> = demo_pointer g" "ptr_sha256 (demo_pointer g) = demo_sha"
  "ptr_size (demo_pointer g) = 3"
  by (auto simp: demo_pointer_def)

lemma demo_home [simp]: "expected_home_id demo_context = js ''h1''"
  by (simp add: demo_context_def)

lemma demo_validates:
  assumes "floor_of (with_minimum demo_context m) \<le> g" "0 < g" "g \<le> 9"
  shows "validate_pointer demo_parse (pointer_value (demo_pointer g)) (with_minimum demo_context m) = Inr (demo_pointer g)"
  using validate_demo_pointer [of demo_href demo_parse demo_href "with_minimum demo_context m" g] assms demo_strings(3)
  by (simp add: demo_parse_def with_minimum_def demo_context_def max_safe_integer_def)

lemma demo_stored [simp]: "stored_url_ok (demo_pointer g)"
  by (simp add: stored_url_ok_def demo_strings(3))

definition demo_state :: "int \<Rightarrow> int option \<Rightarrow> release_state" where
  "demo_state g k = frozen_state (demo_pointer g) (map_option demo_pointer k)"

definition demo_db :: "int \<Rightarrow> int option \<Rightarrow> release_db" where
  "demo_db g k = [(js ''h1'', state_value (demo_state g k))]"

lemma demo_reread:
  assumes "0 < g" "g \<le> 9" "\<forall>j. k = Some j \<longrightarrow> 0 < j \<and> j \<le> g"
  shows "validate_release_state demo_parse (state_value (demo_state g k)) (with_minimum demo_context None)
    = Inr (demo_state g k)"
proof (rule reread_state_total)
  have ok: "pointer_ok demo_parse (with_minimum demo_context None) (demo_pointer i)" if "0 < i" "i \<le> 9" for i
    using that by (intro validate_pointer_ok [OF demo_validates]) (simp_all add: floor_of_def)
  show "state_ok demo_parse (with_minimum demo_context None) (demo_state g k)"
    using assms ok by (auto simp: state_ok_def demo_state_def)
qed (auto simp: demo_idempotent demo_state_def)

lemma demo_read:
  assumes "0 < g" "g \<le> 9" "\<forall>j. k = Some j \<longrightarrow> 0 < j \<and> j \<le> g"
  shows "ledger_read idb_release_read demo_parse demo_context (demo_db g k) = Inr (Some (demo_state g k))"
  using demo_reread [OF assms] by (simp add: ledger_read_def idb_release_read_def demo_db_def)

lemma demo_accept_first:
  "ledger_accept idb_release_transact demo_parse demo_context (pointer_value (demo_pointer 1)) [] []
     = (demo_db 1 None, Inr (demo_state 1 None))"
  using demo_validates [of None 1]
  by (simp add: ledger_accept_def idb_release_transact_def accept_release_candidate_def floor_of_def
      demo_db_def demo_state_def)

lemma demo_accept_next:
  "ledger_accept idb_release_transact demo_parse demo_context (pointer_value (demo_pointer 2)) [] (demo_db 1 (Some 1))
     = (demo_db 2 (Some 1), Inr (demo_state 2 (Some 1)))"
  using demo_validates [of "Some 1" 2] demo_reread [of 1 "Some 1"]
  by (simp add: ledger_accept_def idb_release_transact_def accept_release_candidate_def floor_of_def
      demo_db_def demo_state_def)

lemma ledger_never_rolls_back_witness: "advances (demo_state 1 (Some 1)) (demo_state 2 (Some 1))"
  by (rule ledger_never_rolls_back
       [of demo_parse demo_context "demo_db 1 (Some 1)" _ "[Accept_op (pointer_value (demo_pointer 2)) []]"])
     (simp_all add: demo_idempotent demo_read ledger_run_def demo_accept_next)

lemma accepted_state_is_read_back_witness:
  "ledger_read idb_release_read demo_parse demo_context (demo_db 1 None) = Inr (Some (demo_state 1 None))"
  by (rule accepted_state_is_read_back [OF demo_accept_first demo_idempotent])
     (simp_all add: demo_state_def)

lemma fallback_is_older_and_clean_witness:
  "Staging = Staging \<and> last_known_good (demo_state 2 (Some 1)) = Some (demo_pointer 1)
    \<and> ptr_sha256 (demo_pointer 1) \<notin> set []
    \<and> ptr_generation (demo_pointer 1) < ptr_generation (highest_accepted (demo_state 2 (Some 1)))"
proof (rule fallback_is_older_and_clean)
  show "ledger_read idb_release_read demo_parse demo_context (demo_db 2 (Some 1)) = Inr (Some (demo_state 2 (Some 1)))"
    by (rule demo_read) simp_all
  then show "ledger_automatic_fallback idb_release_read demo_parse demo_context (pointer_value (demo_pointer 2))
      Staging [] (demo_db 2 (Some 1)) = Inr (Some (demo_pointer 1))"
    using demo_validates [of "Some 2" 2]
    by (simp add: ledger_automatic_fallback_def select_automatic_fallback_def floor_of_def demo_state_def)
qed

text \<open>A raw URL of 711 characters whose spaces the URL parser percent-encodes: 2111 bytes serialised.\<close>

definition long_raw :: jstr where
  "long_raw = js ''https://o/'' @ replicate 700 0x20 @ js ''a''"

definition long_href :: jstr where
  "long_href = js ''https://o/'' @ concat (replicate 700 (js ''%20'')) @ js ''a''"

definition long_parse :: url_parser where
  "long_parse s = (if s = long_raw \<or> s = long_href then Some (demo_url long_href) else None)"

lemma long_pieces:
  "list_all (\<lambda>u. u < 0x80 \<and> \<not> is_control u) (js ''https://o/'')"
  "list_all (\<lambda>u. u < 0x80 \<and> \<not> is_control u) (js ''%20'')"
  "list_all (\<lambda>u. u < 0x80 \<and> \<not> is_control u) (js ''a'')"
  "(0x20 :: u16) < 0x80 \<and> \<not> is_control 0x20"
  by code_simp+

lemma long_chars: "\<forall>u\<in>set long_raw \<union> set long_href. u < 0x80 \<and> \<not> is_control u"
  using long_pieces unfolding list_all_iff long_raw_def long_href_def by (auto simp del: js_def)

lemma long_href_bytes: "utf8_bytes long_href = 2111"
proof -
  have "utf8_bytes long_href = length long_href" using long_chars by (intro utf8_bytes_ascii) auto
  also have "\<dots> = 2111" by (simp add: long_href_def length_concat sum_list_replicate)
  finally show ?thesis .
qed

lemma long_raw_bounded: "bounded_string (JStr long_raw) 2048 = Inr long_raw"
proof -
  have "utf8_bytes long_raw = length long_raw" using long_chars by (intro utf8_bytes_ascii) auto
  also have "\<dots> = 711" by (simp add: long_raw_def)
  moreover have "long_raw \<noteq> []" by (simp add: long_raw_def)
  moreover have "\<not> has_control long_raw" using long_chars by (auto simp: has_control_def)
  ultimately show ?thesis by (simp add: bounded_string_def)
qed

definition long_pointer :: component_pointer where
  "long_pointer = demo_pointer 1\<lparr>ptr_url := long_href\<rparr>"

lemma long_accepted:
  "ledger_accept idb_release_transact long_parse demo_context
       (pointer_value (demo_pointer 1\<lparr>ptr_url := long_raw\<rparr>)) [] []
     = ([(js ''h1'', state_value (frozen_state long_pointer None))], Inr (frozen_state long_pointer None))"
  using validate_demo_pointer [of long_raw long_parse long_href "with_minimum demo_context None" 1] long_raw_bounded
  by (simp add: ledger_accept_def idb_release_transact_def accept_release_candidate_def floor_of_def
      long_parse_def long_pointer_def with_minimum_def demo_context_def max_safe_integer_def)

lemma long_serialised_url_locks_ledger_witness:
  "ledger_read idb_release_read long_parse demo_context [(js ''h1'', state_value (frozen_state long_pointer None))]
     = Inl ReleaseMetadataInvalid
   \<and> ledger_run long_parse demo_context [(js ''h1'', state_value (frozen_state long_pointer None))]
       [Accept_op (pointer_value (demo_pointer 2)) []]
     = [(js ''h1'', state_value (frozen_state long_pointer None))]"
  by (rule long_serialised_url_locks_ledger [OF long_accepted]) (simp add: long_pointer_def long_href_bytes)

section \<open>A UI tree\<close>

definition demo_button :: jsval where
  "demo_button = JRec 4 [(js ''id'', JStr (js ''b'')), (js ''type'', JStr (js ''button'')),
     (js ''props'', JRec 5 [(js ''label'', JStr (js ''On'')), (js ''handler'', JStr (js ''h'')), (js ''pending'', JBool True)])]"
definition demo_tree :: jsval where
  "demo_tree = JRec 1 [(js ''id'', JStr (js ''s'')), (js ''type'', JStr (js ''screen'')),
     (js ''props'', JRec 2 [(js ''title'', JStr (js ''T''))]), (js ''children'', JArr 3 [Some demo_button] [])]"
definition demo_root :: ui_node where
  "demo_root = UiNode (js ''s'') (PScreen (js ''T''))
     (Some [UiNode (js ''b'') (PButton (js ''On'') (js ''h'') (js ''primary'') False True) None])"
lemma demo_node_ids:
  "handler_id (JStr (js ''s'')) = Inr (js ''s'')" "handler_id (JStr (js ''b'')) = Inr (js ''b'')"
  "handler_id (JStr (js ''h'')) = Inr (js ''h'')"
  by code_simp+

lemma demo_texts:
  "bounded_string (JStr (js ''T'')) 8192 = Inr (js ''T'')" "bounded_string (JStr (js ''On'')) 8192 = Inr (js ''On'')"
  "utf8_bytes (js ''T'') = 1" "utf8_bytes (js ''On'') = 2"
  by code_simp+

lemma node_type_of_js [simp]: "node_type_of (JStr (js t)) = map_of NODE_TYPES t"
  by (simp add: node_type_of_def NODE_TYPES_def)

lemma dense_array_somes [simp]:
  "length xs \<le> m \<Longrightarrow> dense_array (JArr oid (map Some xs) []) m e = Inr xs"
  by (simp add: dense_array_Inr_iff)

lemma demo_button_visit:
  "visit_node None demo_button 2 \<lparr>seen_objects = {3, 1}, seen_ids = {js ''s''}, text_used = 1, node_count = 1\<rparr>
     = Inr ((js ''b'', PButton (js ''On'') (js ''h'') (js ''primary'') False True, None),
            \<lparr>seen_objects = {4, 3, 1}, seen_ids = {js ''b'', js ''s''}, text_used = 3, node_count = 2\<rparr>)"
  by (simp add: visit_node_def demo_button_def exact_object_def own_keys_def demo_node_ids demo_texts NODE_TYPES_def
      validate_props_def button_props_def ui_text_def spend_def enum_or_def disabled_prop_def pending_prop_def
      optional_boolean_def map_r_result_def container_type_def Let_def)

lemma demo_root_visit:
  "visit_node None demo_tree 1 ui_start
     = Inr ((js ''s'', PScreen (js ''T''), Some [demo_button]),
            \<lparr>seen_objects = {3, 1}, seen_ids = {js ''s''}, text_used = 1, node_count = 1\<rparr>)"
  using dense_array_somes [of "[demo_button]" 1024 3 RenderInvalid]
  by (simp add: visit_node_def demo_tree_def exact_object_def own_keys_def demo_node_ids demo_texts NODE_TYPES_def
      validate_props_def screen_props_def ui_text_def spend_def container_type_def container_children_def
      ui_start_def Let_def)

lemma demo_ui: "validate_ui_tree demo_tree None = Inr demo_root"
  by (simp add: validate_ui_tree_def validate_ui_tree_value_def validate_nodes.simps demo_root_visit demo_button_visit
      demo_root_def del: One_nat_def)

lemma validated_ui_tree_ok_witness: "ui_tree_ok None demo_root"
  by (rule validated_ui_tree_ok [OF demo_ui])

lemma interaction_targets_exact_witness:
  "collect_interaction_targets demo_root (js ''b'') = Some (simple_target (js ''h'') ''press'' True Button)"
  unfolding interaction_targets_exact [OF demo_ui] by (simp add: demo_root_def)

text \<open>A node type that cannot be converted to a string makes the validator throw a \<open>TypeError\<close>.\<close>

definition demo_throwing :: jsval where
  "demo_throwing = JRec 1 [(js ''id'', JStr (js ''s'')),
     (js ''type'', JRec 2 [(js ''toString'', JNum (NInt 1))]), (js ''props'', JNull)]"

lemma demo_throws: "validate_ui_tree demo_throwing None = Inl ThrownTypeError"
  by (simp add: validate_ui_tree_def validate_ui_tree_value_def validate_nodes.simps visit_node_def demo_throwing_def
      exact_object_def own_keys_def demo_node_ids node_type_of_def ui_start_def)

lemma ui_tree_error_codes_witness: "\<exists>w. occurs_in demo_throwing w \<and> string_throws w"
  using ui_tree_error_codes [OF demo_throws] by simp

section \<open>Artifacts\<close>

definition demo_digest :: "bytes \<Rightarrow> bytes" where
  "demo_digest bs = replicate 32 0"

definition demo_fetch :: fetch_options where
  "demo_fetch = \<lparr>fetch_impl = Some (\<lambda>_. Inr \<lparr>resp_ok = True, resp_content_type = Some (js ''text/javascript''),
     resp_url = [], resp_body = Some [Chunk [1, 2], Chunk [3]]\<rparr>), opt_origins = [js ''https://o''],
     opt_prefixes = None\<rparr>"

definition demo_artifact :: verified_artifact where
  "demo_artifact = \<lparr>va_bytes = [1, 2, 3], va_sha256 = demo_sha\<rparr>"

lemma demo_media_type: "media_type (js ''text/javascript'') = js ''text/javascript''"
  by code_simp

lemma demo_fetched: "fetch_and_verify_artifact demo_digest demo_parse (demo_pointer 1) demo_fetch = Inr demo_artifact"
  by (simp add: fetch_and_verify_artifact_def demo_fetch_def demo_parse_def demo_url_def path_allowed_def
      validate_response_metadata_def demo_media_type JAVASCRIPT_CONTENT_TYPES_def read_bounded_body_def Let_def
      verify_artifact_bytes_def sha256_of_def demo_digest_def demo_sha_def demo_artifact_def)

text \<open>A database whose transactions complete, before and after the artifact was stored.\<close>

definition demo_idb :: artifact_idb where
  "demo_idb = \<lparr>idb_opened = True, idb_store = Map.empty, idb_outcomes = \<lambda>_. TxCompletes\<rparr>"

definition demo_cached :: artifact_idb where
  "demo_cached = snd (idb_put (js ''h1'') demo_sha [1, 2, 3] demo_idb)"

lemmas demo_idb_defs = idb_get_def idb_put_def idb_delete_def idb_transaction_def demo_idb_def

lemma demo_load:
  "load_verified_artifact demo_digest demo_parse (demo_pointer 1) demo_fetch (Some idb_artifact_cache) demo_idb
     = (Inr \<lparr>la_artifact = demo_artifact, la_source = FromNetwork\<rparr>, demo_cached, 0)"
  by (simp add: load_verified_artifact_def guarded_op_def load_from_network_def demo_fetched
      demo_cached_def demo_artifact_def demo_idb_defs)

lemma demo_cached_eq:
  "demo_cached\<lparr>idb_outcomes := \<lambda>n. idb_outcomes demo_cached (Suc n)\<rparr> = demo_cached"
  "idb_outcomes demo_cached 0 = TxCompletes"
  by (simp_all add: demo_cached_def demo_idb_defs)

lemma loaded_bytes_are_the_pointers_witness:
  "artifact_matches demo_digest (ptr_size (demo_pointer 1)) (ptr_sha256 (demo_pointer 1)) [1, 2, 3]
    \<and> va_sha256 demo_artifact = ptr_sha256 (demo_pointer 1)"
  using loaded_bytes_are_the_pointers [of demo_digest demo_parse "demo_pointer 1" demo_fetch
      "Some idb_artifact_cache" demo_idb "\<lparr>la_artifact = demo_artifact, la_source = FromNetwork\<rparr>"]
  by (simp add: demo_load) (simp add: demo_artifact_def)

text \<open>With no \<open>fetch\<close> and a database that cannot be opened the load fails, and so does the download.\<close>

lemma cache_cannot_deny_an_artifact_witness:
  "fetch_and_verify_artifact demo_digest demo_parse (demo_pointer 1) (demo_fetch\<lparr>fetch_impl := None\<rparr>)
     = Inl ArtifactFetchFailed"
  by (rule cache_cannot_deny_an_artifact [of _ _ _ _ "Some idb_artifact_cache" "demo_idb\<lparr>idb_opened := False\<rparr>"])
     (simp add: load_verified_artifact_def guarded_op_def load_from_network_def
       fetch_and_verify_artifact_def demo_idb_defs)

lemma loaded_artifact_stays_available_witness:
  "load_verified_artifact demo_digest (\<lambda>_. None) (demo_pointer 1) (demo_fetch\<lparr>fetch_impl := None\<rparr>)
      (Some idb_artifact_cache) demo_cached
     = (Inr \<lparr>la_artifact = demo_artifact, la_source = FromCache\<rparr>, demo_cached, 0)"
  using loaded_artifact_stays_available [OF demo_load demo_cached_eq(2), of "\<lambda>_. None" "demo_fetch\<lparr>fetch_impl := None\<rparr>"]
  by (simp add: demo_cached_eq(1))

text \<open>
  When the transaction of the \<open>put\<close> aborts, the load still succeeds and reports the error, but the artifact
  is not cached.
\<close>

definition demo_full :: artifact_idb where
  "demo_full = demo_idb\<lparr>idb_outcomes := \<lambda>n. if n = 1 then TxAborts else TxCompletes\<rparr>"

lemma aborted_put_is_reported:
  "fst (load_verified_artifact demo_digest demo_parse (demo_pointer 1) demo_fetch (Some idb_artifact_cache) demo_full)
     = Inr \<lparr>la_artifact = demo_artifact, la_source = FromNetwork\<rparr>"
  "snd (snd (load_verified_artifact demo_digest demo_parse (demo_pointer 1) demo_fetch (Some idb_artifact_cache) demo_full))
     = 1"
  "idb_store (fst (snd (load_verified_artifact demo_digest demo_parse (demo_pointer 1) demo_fetch (Some idb_artifact_cache) demo_full)))
     = Map.empty"
  by (simp_all add: load_verified_artifact_def guarded_op_def load_from_network_def demo_fetched demo_full_def
      demo_idb_defs)

lemma artifact_loads_are_isolated_witness:
  "idb_entry demo_cached (js ''h2'') demo_sha = idb_entry demo_idb (js ''h2'') demo_sha"
proof -
  have "no_nul (js ''h1'')" "no_nul (js ''h2'')" by (simp_all add: no_nul_def js_def)
  with artifact_loads_are_isolated [of "demo_pointer 1" "js ''h2''" demo_sha demo_digest demo_parse demo_fetch demo_idb]
  show ?thesis by (simp add: demo_load)
qed

section \<open>Guest programs\<close>

definition demo_program :: bytes where
  "demo_program = [0x31, 0x3B]"

definition demo_syntax :: jsval where
  "demo_syntax = JRec 0 [(js ''type'', JStr (js ''Program'')),
     (js ''body'', JArr 1 [Some (JRec 2 [(js ''type'', JStr (js ''ExpressionStatement''))])] [])]"

definition demo_script :: script_parser where
  "demo_script src = \<lparr>parsed_comments = [js '' note''], parsed_tokens = 2, parsed_tree = Some demo_syntax\<rparr>"

lemma demo_comment: "\<not> source_map_directive (js '' note'')"
  by code_simp

lemma demo_decoded: "text_decode demo_program = Some (js ''1;'')"
  by (simp add: text_decode_def strip_bom_def demo_program_def utf16_char_def js_def)

lemma demo_program_valid: "validate_guest_program demo_script demo_program = Inr ()"
proof -
  have "demo_program \<noteq> []" "length demo_program \<le> 2097152" by (simp_all add: demo_program_def)
  then show ?thesis
    by (simp add: validate_guest_program_def demo_decoded demo_script_def demo_syntax_def MAX_PROGRAM_TOKENS_def demo_comment
        walk_tree.simps pushes_def MAX_AST_MEMBERS_def strict_eq_str_def)
qed

lemma demo_syntax_values:
  assumes "ast_value demo_syntax v" "is_object v"
  shows "v = demo_syntax \<or> v = JArr 1 [Some (JRec 2 [(js ''type'', JStr (js ''ExpressionStatement''))])] []
    \<or> v = JRec 2 [(js ''type'', JStr (js ''ExpressionStatement''))]"
proof -
  have "v \<in> {demo_syntax, JArr 1 [Some (JRec 2 [(js ''type'', JStr (js ''ExpressionStatement''))])] [],
      JRec 2 [(js ''type'', JStr (js ''ExpressionStatement''))]} \<or> \<not> is_object v"
    using assms(1) by (induction) (auto simp: demo_syntax_def)
  with assms(2) show ?thesis by simp
qed

lemma demo_syntax_parser_tree: "parser_tree demo_syntax"
  unfolding parser_tree_def
proof (intro conjI allI impI)
  show "v = w" if "ast_value demo_syntax v" "ast_value demo_syntax w" "is_object v" "is_object w"
    "identity v = identity w" for v w
    using demo_syntax_values [OF that(1,3)] demo_syntax_values [OF that(2,4)] that(5)
    by (auto simp: demo_syntax_def)
  show "extra = []" if "ast_value demo_syntax (JArr oid items extra)" for oid items extra
    using demo_syntax_values [OF that] by (simp add: demo_syntax_def)
qed

lemma demo_statement: "ast_value demo_syntax (JRec 2 [(js ''type'', JStr (js ''ExpressionStatement''))])"
proof -
  have "ast_value demo_syntax (JArr 1 [Some (JRec 2 [(js ''type'', JStr (js ''ExpressionStatement''))])] [])"
    by (rule ast_value.property [of _ 0 _ "js ''body''"])
       (use ast_value.whole [of demo_syntax] in \<open>auto simp: demo_syntax_def\<close>)
  then show ?thesis by (rule ast_value.element) simp
qed

text \<open>The statement of the demo program, an element of the array under \<open>body\<close>, is checked.\<close>

lemma guest_program_has_no_dynamic_import_witness:
  "parser_tree demo_syntax
    \<and> get [(js ''type'', JStr (js ''ExpressionStatement''))] ''type'' \<noteq> JStr (js ''ImportExpression'')"
  using guest_program_has_no_dynamic_import [OF demo_program_valid] demo_syntax_parser_tree demo_statement
  by (auto simp: demo_script_def)

end
