(* ===== verification/Contract_Properties.thy ===== *)
theory Contract_Properties
  imports Witnesses
begin

text \<open>
  The properties of the contract validators: resource names, grants, coverage, the platform ceiling,
  digests and pointers, each from the lemmas of \<open>Capability\<close> and \<open>Pointer\<close>.
\<close>

section \<open>Names and grants\<close>

text \<open>
\<open>validateResourceName\<close> accepts exactly the strings of at most 256 UTF-8 bytes without
control characters or \<open>*\<close> whose dot-separated segments are all non-empty, and returns them unchanged.
\<close>

theorem resource_names_are_dotted_segments:
  "validate_resource_name value = Inr s \<longleftrightarrow>
     value = JStr s \<and> [] \<notin> set (segments s) \<and> 0x2A \<notin> set s
     \<and> \<not> has_control s \<and> utf8_bytes s \<le> 256"
  by (auto simp: validate_resource_name_Inr_iff resource_name_ok_def)

text \<open>
  A list of granted patterns admits a well-formed resource name exactly when one of them is
  the name itself, or is \<open>base.*\<close> with the segments of \<open>base\<close> a proper initial part of the segments of
  the name; on a malformed name the check throws.
\<close>

theorem grants_are_decided_by_segments:
  "is_capability_granted patterns name = Inr granted \<longleftrightarrow>
     [] \<notin> set (segments name) \<and> 0x2A \<notin> set name \<and> \<not> has_control name \<and> utf8_bytes name \<le> 256
     \<and> granted = (\<exists>p\<in>set patterns. p = name
           \<or> (\<exists>base. p = base @ js ''.*'' \<and> strict_prefix (segments base) (segments name)))"
  by (auto simp: is_capability_granted_Inr_iff resource_name_ok_def pattern_denotes_def)

text \<open>
\<open>isPatternCovered\<close> is sound: when every pattern of a narrower list is covered by the allowed
list, whatever name the narrower list grants the allowed list grants too.
\<close>

theorem covered_requirements_grant_no_more:
  assumes "\<forall>p\<in>set narrower. is_pattern_covered allowed p = Inr True"
    and "is_capability_granted narrower name = Inr True"
  shows "is_capability_granted allowed name = Inr True"
  by (rule caps.covered_list [OF assms])

lemma covered_requirements_grant_no_more_witness:
  "is_capability_granted [js ''room.*''] (js ''room.a.b'') = Inr True"
proof (rule covered_requirements_grant_no_more [of "[js ''room.a.*'']"])
  show "\<forall>p\<in>set [js ''room.a.*'']. is_pattern_covered [js ''room.*''] p = Inr True"
    by (simp only: list.set ball_simps) code_simp
  show "is_capability_granted [js ''room.a.*''] (js ''room.a.b'') = Inr True" by code_simp
qed

lemma reserved_prefix:
  assumes "pattern_denotes p r" "starts_with r (js ''miakapp.'')"
  shows "p = js ''miakapp.*'' \<or> starts_with p (js ''miakapp.'')"
proof (cases "p = r")
  case True
  with assms show ?thesis by simp
next
  case False
  let ?m = "js ''miakapp''"
  have m: "js ''miakapp.'' = ?m @ [dot]" "js ''miakapp.*'' = ?m @ js ''.*''" by (simp_all add: js_def dot_def)
  have no_dot: "dot \<notin> set ?m" by code_simp
  from False assms(1) obtain base where p: "p = base @ js ''.*''" and "strict_prefix (segments base) (segments r)"
    by (auto simp: pattern_denotes_def)
  then have "prefix (base @ [dot]) r" by (simp add: segments_def strict_prefix_split_iff)
  moreover have "prefix (?m @ [dot]) r" using assms(2) by (simp add: starts_with_def m)
  ultimately consider "prefix (base @ [dot]) (?m @ [dot])" | "prefix (?m @ [dot]) (base @ [dot])"
    using prefix_same_cases by blast
  then show ?thesis
  proof cases
    case 1
    then have "base @ [dot] = ?m @ [dot] \<or> prefix (base @ [dot]) ?m" by simp
    with no_dot have "base = ?m" by (auto simp: prefix_def)
    with p m(2) show ?thesis by simp
  next
    case 2
    have "p = (base @ [dot]) @ [0x2A]" by (simp add: p js_wildcard)
    then have "prefix (?m @ [dot]) p" using prefix_prefix [OF 2, of "[0x2A]"] by simp
    then show ?thesis by (simp add: starts_with_def m)
  qed
qed

text \<open>
  Under \<open>platformGrantCeiling\<close> no call in the reserved \<open>miakapp\<close> namespace is ever granted,
  whatever a release requires, and nothing is granted that the release did not require; events and
  presentation are empty.
\<close>

theorem platform_ceiling_reserves_miakapp:
  "(starts_with name (js ''miakapp.'') \<longrightarrow>
      is_capability_granted (req_call (platform_grant_ceiling requires)) name \<noteq> Inr True)
   \<and> (is_capability_granted (req_call (platform_grant_ceiling requires)) name = Inr True \<longrightarrow>
      is_capability_granted (req_call requires) name = Inr True)
   \<and> state_read (platform_grant_ceiling requires) = state_read requires
   \<and> event_subscribe (platform_grant_ceiling requires) = []
   \<and> event_publish (platform_grant_ceiling requires) = []
   \<and> presentation (platform_grant_ceiling requires) = []"
  using reserved_prefix caps.granted_mono [of "req_call (platform_grant_ceiling requires)" "req_call requires" name]
  by (auto simp: platform_grant_ceiling_def is_capability_granted_True_iff)

lemma platform_ceiling_reserves_miakapp_witness:
  "is_capability_granted (req_call (platform_grant_ceiling
      (demo_requires\<lparr>req_call := [js ''miakapp.*'', js ''lamp.*'']\<rparr>))) (js ''miakapp.run'') \<noteq> Inr True"
proof -
  have "starts_with (js ''miakapp.run'') (js ''miakapp.'')" by code_simp
  with platform_ceiling_reserves_miakapp [of "js ''miakapp.run''" "demo_requires\<lparr>req_call := [js ''miakapp.*'', js ''lamp.*'']\<rparr>"]
  show ?thesis by simp
qed

section \<open>Digests and pointers\<close>

text \<open>
\<open>decodeBase64Url\<close> inverts \<open>encodeBase64Url\<close> on every 32-byte digest, and the encoded digest
has the 43-character form the pointer validator requires.
\<close>

theorem digest_encoding_round_trip:
  assumes "length digest = 32"
  shows "decode_base64url (encode_base64url digest) = Inr digest
    \<and> sha256_base64url (encode_base64url digest)"
  using decode_encode_base64url [OF assms] encode_base64url_format [OF assms] by simp

lemma digest_encoding_round_trip_witness:
  "decode_base64url (encode_base64url (replicate 32 7)) = Inr (replicate 32 7)
    \<and> sha256_base64url (encode_base64url (replicate 32 7))"
  by (rule digest_encoding_round_trip) simp

text \<open>
Property C36: a pointer \<open>validatePointer\<close> returns has the supported schema and ABI, the expected home, a
generation at or above the floor, an https URL of an allowed origin and path without credentials,
query or fragment, a well-formed digest, a size of at most 2 MiB, and requirement lists that are
bounded, well formed and free of duplicates.
\<close>

theorem validated_pointer_is_admissible:
  assumes "validate_pointer parse_url value context = Inr p"
  shows "pointer_ok parse_url context p"
  by (rule validate_pointer_ok [OF assms])

lemma validated_pointer_is_admissible_witness:
  "pointer_ok demo_parse (with_minimum demo_context (Some 1)) (demo_pointer 2)"
  by (rule validated_pointer_is_admissible [OF demo_validates]) (simp_all add: floor_of_def)

text \<open>
Whatever value is offered as a pointer, \<open>validatePointer\<close> fails with \<open>pointer_invalid\<close> or
\<open>artifact_too_large\<close> and with no other error.
\<close>

theorem pointer_error_codes:
  assumes "validate_pointer parse_url value context = Inl e"
  shows "e = PointerInvalid \<or> e = ArtifactTooLarge"
  by (rule validate_pointer_errors [OF assms])

lemma pointer_error_codes_witness: "PointerInvalid = PointerInvalid \<or> PointerInvalid = ArtifactTooLarge"
  by (rule pointer_error_codes [of demo_parse JNull demo_context])
     (simp add: validate_pointer_def validate_pointer_value_def exact_object_def)

end
