(* ===== verification/Broker_Messages.thy ===== *)
theory Broker_Messages
  imports Ui_Tree Program
begin

text \<open>
  \<open>component-runtime/src/runtime-broker.ts\<close>, first part: the message kinds, the field validators of the
  broker, the payload of \<open>runtime.load\<close>, guest messages, and the messages the broker itself sends.
\<close>

section \<open>Message kinds\<close>

definition HOST_MESSAGE_KINDS :: "string list" where
  "HOST_MESSAGE_KINDS =
     [''runtime.load'', ''runtime.activate'', ''runtime.dispose'', ''runtime.ping'', ''ui.interaction'',
      ''state.snapshot'', ''state.patch'', ''state.stale'', ''event.message'', ''call.accepted'',
      ''call.chunk'', ''call.result'', ''call.error'', ''call.outcome_unknown'', ''lifecycle.suspend'',
      ''lifecycle.resume'']"

definition GUEST_MESSAGE_KINDS :: "string list" where
  "GUEST_MESSAGE_KINDS =
     [''runtime.pong'', ''guest.ready'', ''ui.render'', ''event.subscribe'', ''event.unsubscribe'',
      ''event.publish'', ''call.start'', ''call.credit'', ''call.cancel'', ''log.write'']"

section \<open>Field validators\<close>

definition exact_record :: "jsval \<Rightarrow> string list \<Rightarrow> string list \<Rightarrow> fields res" where
  "exact_record value required optional =
     (case value of
        JRec _ fs \<Rightarrow>
          (if \<exists>k\<in>set required. \<not> has_own fs (js k) then fail BridgeProtocolViolation
           else if \<exists>k\<in>set (map fst fs). k \<notin> js ` set (required @ optional) \<or> forbidden_key k
           then fail BridgeProtocolViolation
           else Inr fs)
      | _ \<Rightarrow> fail BridgeProtocolViolation)"

definition positive_integer :: "jsval \<Rightarrow> int res" where
  "positive_integer value =
     (case value of
        JNum n \<Rightarrow> (if \<not> num_is_safe_integer n \<or> num_int n \<le> 0 then fail BridgeProtocolViolation
                   else Inr (num_int n))
      | _ \<Rightarrow> fail BridgeProtocolViolation)"

definition bridge_string :: "jsval \<Rightarrow> nat \<Rightarrow> jstr res" where
  "bridge_string value maximum =
     (case value of
        JStr s \<Rightarrow> (if s = [] \<or> utf8_bytes s > maximum then fail BridgeProtocolViolation else Inr s)
      | _ \<Rightarrow> fail BridgeProtocolViolation)"

definition bridge_resource_name :: "jsval \<Rightarrow> jstr res" where
  "bridge_resource_name value =
     (case validate_resource_name value of
        Inl e \<Rightarrow> (if e = ThrownTypeError then Inl e else fail BridgeProtocolViolation)
      | Inr name \<Rightarrow> Inr name)"

section \<open>The payload of runtime.load\<close>

record release_identity =
  rel_home_id :: jstr
  rel_generation :: int
  rel_release :: jstr
  rel_sha256 :: jstr
  rel_size :: int

datatype theme = Light | Dark | System

record load_payload =
  lp_release :: release_identity
  lp_grant :: capability_requirements
  lp_initial_state :: fields
  lp_state_revision :: int
  lp_staging :: bool
  lp_locale :: jstr
  lp_theme :: theme
  lp_artifact :: bytes

definition validate_release :: "jsval \<Rightarrow> release_identity res" where
  "validate_release value =
     bind_r (exact_record value [''home_id'', ''generation'', ''release'', ''abi'', ''sha256'', ''size''] [])
       (\<lambda>record.
     if \<not> strict_eq_str (get record ''abi'') COMPONENT_ABI then fail WorkerBootFailed
     else bind_r (bridge_string (get record ''sha256'') 64) (\<lambda>sha256.
     if \<not> sha256_base64url sha256 then fail WorkerBootFailed
     else bind_r (positive_integer (get record ''size'')) (\<lambda>sz.
     if sz > int (artifact_bytes LIMITS) then fail ArtifactTooLarge
     else bind_r (bridge_string (get record ''home_id'') 128) (\<lambda>home.
     bind_r (positive_integer (get record ''generation'')) (\<lambda>generation.
     bind_r (bridge_string (get record ''release'') 64) (\<lambda>rel.
       Inr \<lparr>rel_home_id = home, rel_generation = generation, rel_release = rel,
            rel_sha256 = sha256, rel_size = sz\<rparr>))))))"

text \<open>
  \<open>Object.create(null)\<close>: a new object, whose identity is none of those below it.
\<close>

definition fresh_record :: "fields \<Rightarrow> jsval" where
  "fresh_record fs = JRec (Suc (foldr max (concat (map (\<lambda>(_, v). all_ids v) fs)) 0)) fs"

definition bridge_measure :: measure_options where
  "bridge_measure = \<lparr>max_bytes = Some (envelope_bytes LIMITS), max_depth = None, allow_binary = True\<rparr>"

definition validate_state :: "jsval \<Rightarrow> capability_requirements \<Rightarrow> fields res" where
  "validate_state value grant =
     (case value of
        JRec _ entries \<Rightarrow>
          bind_r (each_r (\<lambda>(name, state_value).
              bind_r (bridge_resource_name (JStr name)) (\<lambda>_.
              bind_r (is_capability_granted (state_read grant) name) (\<lambda>granted.
                if \<not> granted then fail CapabilityDenied
                else bind_r (measure_structured_value state_value bridge_measure) (\<lambda>_. Inr ()))))
            entries) (\<lambda>_.
          bind_r (measure_structured_value (fresh_record entries) bridge_measure) (\<lambda>_.
            Inr entries))
      | _ \<Rightarrow> fail BridgeProtocolViolation)"

definition theme_of :: "jsval \<Rightarrow> theme option" where
  "theme_of v =
     (if strict_eq_str v (js ''light'') then Some Light
      else if strict_eq_str v (js ''dark'') then Some Dark
      else if strict_eq_str v (js ''system'') then Some System
      else None)"

definition bridge_requirements :: "jsval \<Rightarrow> capability_requirements res" where
  "bridge_requirements value =
     (case validate_requirements value of
        Inl e \<Rightarrow> (if e = ThrownTypeError then Inl e else fail BridgeProtocolViolation)
      | Inr grant \<Rightarrow> Inr grant)"

definition validate_load_payload :: "jsval \<Rightarrow> load_payload res" where
  "validate_load_payload value =
     bind_r (exact_record value
       [''release'', ''grant'', ''initial_state'', ''state_revision'', ''staging'', ''locale'', ''theme'',
        ''artifact''] []) (\<lambda>record.
     bind_r (bridge_requirements (get record ''grant'')) (\<lambda>grant.
     case get record ''artifact'' of
       JBuffer artifact \<Rightarrow>
         (case get record ''staging'' of
            JBool staging \<Rightarrow>
              (case theme_of (get record ''theme'') of
                 None \<Rightarrow> fail BridgeProtocolViolation
               | Some theme \<Rightarrow>
                   bind_r (validate_release (get record ''release'')) (\<lambda>rel.
                   bind_r (validate_state (get record ''initial_state'') grant) (\<lambda>initial.
                   bind_r (positive_integer (get record ''state_revision'')) (\<lambda>revision.
                   bind_r (bridge_string (get record ''locale'') 64) (\<lambda>locale.
                     Inr \<lparr>lp_release = rel, lp_grant = grant, lp_initial_state = initial,
                          lp_state_revision = revision, lp_staging = staging, lp_locale = locale,
                          lp_theme = theme, lp_artifact = artifact\<rparr>)))))
          | _ \<Rightarrow> fail BridgeProtocolViolation)
     | _ \<Rightarrow> fail BridgeProtocolViolation))"

section \<open>Guest messages\<close>

definition validate_guest_message :: "jsval \<Rightarrow> (jstr \<times> jsval) res" where
  "validate_guest_message value =
     bind_r (exact_record value [''v'', ''kind'', ''payload''] []) (\<lambda>record.
     if \<not> strict_eq_int (get record ''v'') BROKER_PROTOCOL then fail BridgeProtocolViolation
     else (case get record ''kind'' of
         JStr kind \<Rightarrow>
           (if kind \<notin> js ` set GUEST_MESSAGE_KINDS then fail BridgeProtocolViolation
            else bind_r (measure_structured_value (get record ''payload'') binary_measure) (\<lambda>_.
              Inr (kind, get record ''payload'')))
       | kind \<Rightarrow>
           (if string_throws kind then fail ThrownTypeError else fail BridgeProtocolViolation)))"

section \<open>What the broker sends\<close>

text \<open>\<open>errorPayload(error).code\<close>.\<close>

definition error_code :: "violation \<Rightarrow> violation" where
  "error_code e = (if e = ThrownTypeError then RuntimeUnresponsive else e)"

text \<open>The kind and payload of an envelope to the host.\<close>

datatype host_message =
    RuntimeBound
  | RuntimeWorkerReady
  | RuntimeActive int
  | RuntimePong jsval
  | UiRender int ui_node
  | EventSubscribe jstr
  | EventUnsubscribe jstr
  | EventPublish jstr jsval
  | CallStart (call_id: int) jstr jsval "int option"
  | CallCredit int int
  | CallCancel int
  | LogWrite jsval jstr
  | RuntimeError violation
  | RuntimeTerminated "violation option"

record host_envelope =
  out_instance :: jstr
  out_epoch :: int
  out_seq :: int
  out_message :: host_message

datatype mutation = SetPath jstr jsval | DeletePath jstr

record interaction =
  int_render_revision :: int
  int_node_id :: jstr
  int_handler :: jstr
  int_event :: jstr
  int_value :: "jsval option"

text \<open>The kind and payload of a message to the guest Worker.\<close>

datatype guest_message =
    GuestBoot release_identity capability_requirements bool jstr theme
  | GuestSnapshot int fields
  | GuestPatch int int "mutation list"
  | GuestStale int jstr
  | GuestProbe int
  | GuestInteraction interaction
  | GuestEvent jstr jsval
  | GuestCallAccepted int
  | GuestCallChunk int jsval
  | GuestCallResult int jsval
  | GuestCallError int jstr jstr "bool option" "jsval option"
  | GuestCallOutcomeUnknown int "jstr option"
  | GuestSuspend
  | GuestResume int
  | GuestDispose

end
