(* ===== verification/Broker.thy ===== *)
theory Broker
  imports Broker_Messages Complex_Main
begin

text \<open>
  \<open>component-runtime/src/runtime-broker.ts\<close>, second part: the state of \<open>startRuntimeBroker\<close> and its
  handlers. The closure's variables are the fields of \<open>broker\<close>; a timer is the flag that it is armed;
  the envelopes posted to the host port and the messages posted to the Worker are kept in two logs.
  A handler returns its result and the state in which it returned or threw; the callers pass an
  error to \<open>terminate\<close>, as the \<open>catch\<close> blocks do.
\<close>

section \<open>State\<close>

record outstanding_call =
  call_accepted :: bool
  call_credit :: int

record broker =
  b_nonce :: jstr
  host_port :: bool
  worker :: bool
  worker_url :: bool
  b_instance :: jstr
  b_epoch :: int
  expected_host_seq :: int
  outgoing_host_seq :: int
  b_release :: "release_identity option"
  b_grant :: "capability_requirements option"
  initial_state :: fields
  b_locale :: jstr
  b_theme :: theme
  state_revision :: int
  state_stale :: bool
  staging :: bool
  active :: bool
  suspended :: bool
  closed :: bool
  load_started :: bool
  launch_generation :: nat
  launching :: "(load_payload \<times> nat) option"
  guest_ready :: bool
  render_revision :: int
  interaction_targets :: "jstr \<rightharpoonup> interaction_target"
  boot_timer :: bool
  render_timer :: bool
  worker_heartbeat :: bool
  pending_probe :: "int option"
  missed_worker_heartbeats :: nat
  next_probe :: int
  guest_message_times :: "real list"
  render_times :: "real list"
  subscriptions :: "jstr set"
  outstanding_calls :: "(int \<times> outstanding_call) list"
  seen_operation_ids :: "int set"
  bind_listener :: bool
  host_log :: "host_envelope list"
  guest_log :: "guest_message list"

definition initial_broker :: "jstr \<Rightarrow> broker" where
  "initial_broker nonce = \<lparr>
     b_nonce = nonce, host_port = False, worker = False, worker_url = False, b_instance = [], b_epoch = 0,
     expected_host_seq = 1, outgoing_host_seq = 1, b_release = None, b_grant = None,
     initial_state = [], b_locale = [], b_theme = System, state_revision = 0, state_stale = False,
     staging = True, active = False, suspended = False, closed = False, load_started = False,
     launch_generation = 0, launching = None, guest_ready = False, render_revision = 0,
     interaction_targets = Map.empty, boot_timer = False, render_timer = False,
     worker_heartbeat = False, pending_probe = None, missed_worker_heartbeats = 0, next_probe = 1,
     guest_message_times = [], render_times = [], subscriptions = {}, outstanding_calls = [],
     seen_operation_ids = {}, bind_listener = True, host_log = [], guest_log = []\<rparr>"

text \<open>\<open>readNonce\<close>: the nonce of the location fragment must be an instance id.\<close>

definition start_runtime_broker :: "jsval \<Rightarrow> broker res" where
  "start_runtime_broker nonce = bind_r (assert_instance_id nonce) (\<lambda>n. Inr (initial_broker n))"

section \<open>Handlers that throw\<close>

type_synonym outcome = "unit res \<times> broker"

abbreviation returns :: "broker \<Rightarrow> outcome" where
  "returns s \<equiv> (Inr (), s)"

abbreviation throws :: "violation \<Rightarrow> broker \<Rightarrow> outcome" where
  "throws e s \<equiv> (Inl e, s)"

text \<open>A call of a validator inside a handler: its exception leaves the handler in the current state.\<close>

definition attempt :: "broker \<Rightarrow> 'a res \<Rightarrow> ('a \<Rightarrow> outcome) \<Rightarrow> outcome" where
  "attempt s r f = (case r of Inl e \<Rightarrow> throws e s | Inr x \<Rightarrow> f x)"

section \<open>Sending and terminating\<close>

definition send_host :: "host_message \<Rightarrow> broker \<Rightarrow> broker" where
  "send_host m s =
     (if \<not> host_port s \<or> closed s then s
      else s\<lparr>host_log := host_log s @ [\<lparr>out_instance = b_instance s, out_epoch = b_epoch s,
                out_seq = outgoing_host_seq s, out_message = m\<rparr>],
             outgoing_host_seq := outgoing_host_seq s + 1\<rparr>)"

definition send_guest :: "guest_message \<Rightarrow> broker \<Rightarrow> broker" where
  "send_guest m s = (if \<not> worker s \<or> closed s then s else s\<lparr>guest_log := guest_log s @ [m]\<rparr>)"

definition cleanup :: "broker \<Rightarrow> broker" where
  "cleanup s = s\<lparr>boot_timer := False, render_timer := False, worker_heartbeat := False,
     pending_probe := None, worker := False, worker_url := False, host_port := False,
     interaction_targets := Map.empty, subscriptions := {}, outstanding_calls := [],
     seen_operation_ids := {}, bind_listener := False\<rparr>"

definition terminate :: "violation option \<Rightarrow> broker \<Rightarrow> broker" where
  "terminate error s =
     (if closed s then s
      else
        (let s1 = (case error of None \<Rightarrow> s | Some e \<Rightarrow> send_host (RuntimeError (error_code e)) s);
             s2 = send_host (RuntimeTerminated (map_option error_code error)) s1
         in cleanup (s2\<lparr>closed := True, launch_generation := launch_generation s2 + 1\<rparr>)))"

text \<open>\<open>try { ... } catch (error) { terminate(error); }\<close>\<close>

definition or_terminate :: "outcome \<Rightarrow> broker" where
  "or_terminate out = (case out of (Inl e, s) \<Rightarrow> terminate (Some e) s | (Inr _, s) \<Rightarrow> s)"

text \<open>\<open>enforceRate\<close>: the new window, and whether it is over the limit.\<close>

definition rate_window :: "real list \<Rightarrow> real \<Rightarrow> real list" where
  "rate_window stamps current = dropWhile (\<lambda>t. t \<le> current - 1000) stamps @ [current]"

section \<open>The Worker watchdog\<close>

definition stop_worker_watchdog :: "broker \<Rightarrow> broker" where
  "stop_worker_watchdog s =
     s\<lparr>worker_heartbeat := False, pending_probe := None, missed_worker_heartbeats := 0\<rparr>"

definition send_worker_probe :: "broker \<Rightarrow> broker" where
  "send_worker_probe s =
     (if \<not> worker s \<or> closed s \<or> suspended s then s
      else send_guest (GuestProbe (next_probe s))
             (s\<lparr>pending_probe := Some (next_probe s), next_probe := next_probe s + 1\<rparr>))"

definition start_worker_watchdog :: "broker \<Rightarrow> broker" where
  "start_worker_watchdog s =
     (if worker_heartbeat s \<or> closed s \<or> suspended s then s
      else (send_worker_probe s)\<lparr>worker_heartbeat := True\<rparr>)"

text \<open>The callback of the heartbeat interval.\<close>

definition heartbeat_tick :: "broker \<Rightarrow> broker" where
  "heartbeat_tick s =
     (if pending_probe s \<noteq> None then
        (let s1 = s\<lparr>missed_worker_heartbeats := missed_worker_heartbeats s + 1\<rparr> in
         if missed_worker_heartbeats s1 \<ge> worker_missed_heartbeats LIMITS
         then terminate (Some RuntimeUnresponsive) s1 else s1)
      else send_worker_probe s)"

section \<open>Messages of the guest\<close>

definition media_handles :: "broker \<Rightarrow> jstr list" where
  "media_handles s =
     filter (\<lambda>p. starts_with p (js ''media.'') \<and> \<not> ends_with p (js ''.*''))
       (case b_grant s of None \<Rightarrow> [] | Some g \<Rightarrow> presentation g)"

definition handle_render :: "jsval \<Rightarrow> real \<Rightarrow> broker \<Rightarrow> outcome" where
  "handle_render payload now s0 =
     (let s = s0\<lparr>render_times := rate_window (render_times s0) now\<rparr> in
      if length (render_times s) > renders_per_second LIMITS then throws BridgeProtocolViolation s
      else attempt s (exact_record payload [''revision'', ''tree''] []) (\<lambda>record.
           attempt s (positive_integer (get record ''revision'')) (\<lambda>revision.
           if revision \<noteq> render_revision s + 1 then throws RenderInvalid s
           else (case validate_ui_tree (get record ''tree'') (Some (media_handles s)) of
               Inl e \<Rightarrow> throws (if e = CapabilityDenied then e else RenderInvalid) s
             | Inr tree \<Rightarrow>
                 returns (send_host (UiRender revision tree)
                   (s\<lparr>render_revision := revision,
                      interaction_targets := collect_interaction_targets tree,
                      render_timer := False\<rparr>))))))"

definition granted_name ::
  "broker \<Rightarrow> fields \<Rightarrow> (capability_requirements \<Rightarrow> jstr list) \<Rightarrow> jstr res" where
  "granted_name s record kind =
     bind_r (bridge_resource_name (get record ''name'')) (\<lambda>name.
       case b_grant s of
         None \<Rightarrow> fail CapabilityDenied
       | Some g \<Rightarrow>
           bind_r (is_capability_granted (kind g) name) (\<lambda>granted.
             if \<not> granted then fail CapabilityDenied else Inr name))"

text \<open>\<open>!active || staging || suspended\<close>\<close>

definition inactive :: "broker \<Rightarrow> bool" where
  "inactive s \<longleftrightarrow> \<not> active s \<or> staging s \<or> suspended s"

definition guest_pong :: "jsval \<Rightarrow> broker \<Rightarrow> outcome" where
  "guest_pong payload s =
     (case pending_probe s of
        None \<Rightarrow> throws BridgeProtocolViolation s
      | Some probe \<Rightarrow>
          if \<not> guest_ready s then throws BridgeProtocolViolation s
          else attempt s (exact_record payload [''challenge''] []) (\<lambda>pong.
               attempt s (positive_integer (get pong ''challenge'')) (\<lambda>challenge.
               if challenge \<noteq> probe then throws BridgeProtocolViolation s
               else returns (s\<lparr>pending_probe := None, missed_worker_heartbeats := 0\<rparr>))))"

definition guest_ready_message :: "jstr \<Rightarrow> jsval \<Rightarrow> broker \<Rightarrow> outcome" where
  "guest_ready_message kind payload s =
     (if kind \<noteq> js ''guest.ready'' then throws WorkerBootFailed s
      else attempt s (exact_record payload [''abi''] []) (\<lambda>ready.
        if \<not> strict_eq_str (get ready ''abi'') COMPONENT_ABI then throws WorkerBootFailed s
        else
          (let s1 = s\<lparr>guest_ready := True, boot_timer := False\<rparr> in
           case (b_release s1, b_grant s1) of
             (Some rel, Some grant) \<Rightarrow>
               (let s2 = send_guest (GuestBoot rel grant (staging s1) (b_locale s1) (b_theme s1)) s1;
                    s3 = send_guest (GuestSnapshot (state_revision s2) (initial_state s2)) s2;
                    s4 = start_worker_watchdog (s3\<lparr>render_timer := True\<rparr>)
                in returns (send_host RuntimeWorkerReady s4))
           | _ \<Rightarrow> throws ThrownTypeError s1)))"

definition guest_subscribe :: "bool \<Rightarrow> jsval \<Rightarrow> broker \<Rightarrow> outcome" where
  "guest_subscribe subscribe payload s =
     attempt s (exact_record payload [''name''] []) (\<lambda>record.
     attempt s (granted_name s record event_subscribe) (\<lambda>name.
       returns (if subscribe
         then send_host (EventSubscribe name) (s\<lparr>subscriptions := insert name (subscriptions s)\<rparr>)
         else send_host (EventUnsubscribe name) (s\<lparr>subscriptions := subscriptions s - {name}\<rparr>))))"

definition guest_publish :: "jsval \<Rightarrow> broker \<Rightarrow> outcome" where
  "guest_publish payload s =
     (if inactive s then throws CapabilityDenied s
      else attempt s (exact_record payload [''name'', ''data''] []) (\<lambda>record.
           attempt s (granted_name s record event_publish) (\<lambda>name.
           attempt s (measure_structured_value (get record ''data'') binary_measure) (\<lambda>_.
             returns (send_host (EventPublish name (get record ''data'')) s)))))"

definition call_deadline :: "fields \<Rightarrow> int option res" where
  "call_deadline record =
     (if get record ''deadline_ms'' = JUndef then Inr None
      else bind_r (positive_integer (get record ''deadline_ms'')) (\<lambda>deadline.
        if deadline > int (call_deadline_ms LIMITS) then fail BridgeProtocolViolation
        else Inr (Some deadline)))"

definition guest_call_start :: "jsval \<Rightarrow> broker \<Rightarrow> outcome" where
  "guest_call_start payload s =
     (if inactive s then throws CapabilityDenied s
      else attempt s (exact_record payload [''operation_id'', ''name'', ''args''] [''deadline_ms'']) (\<lambda>record.
           attempt s (granted_name s record req_call) (\<lambda>name.
           attempt s (positive_integer (get record ''operation_id'')) (\<lambda>operation.
           if operation \<in> seen_operation_ids s then throws BridgeProtocolViolation s
           else if length (outstanding_calls s) \<ge> outstanding_calls_limit LIMITS
           then throws BridgeProtocolViolation s
           else attempt s (call_deadline record) (\<lambda>deadline.
                attempt s (measure_structured_value (get record ''args'') binary_measure) (\<lambda>_.
                  returns (send_host (CallStart operation name (get record ''args'') deadline)
                    (s\<lparr>seen_operation_ids := insert operation (seen_operation_ids s),
                       outstanding_calls := AList.update operation
                         \<lparr>call_accepted = False, call_credit = 0\<rparr> (outstanding_calls s)\<rparr>))))))))"

definition guest_call_credit :: "jsval \<Rightarrow> broker \<Rightarrow> outcome" where
  "guest_call_credit payload s =
     (if inactive s then throws CapabilityDenied s
      else attempt s (exact_record payload [''operation_id''] [''credit'']) (\<lambda>record.
           attempt s (positive_integer (get record ''operation_id'')) (\<lambda>operation.
           case map_of (outstanding_calls s) operation of
             None \<Rightarrow> throws BridgeProtocolViolation s
           | Some call \<Rightarrow>
               attempt s (positive_integer (get record ''credit'')) (\<lambda>credit.
               if credit > int (call_credit_limit LIMITS)
                 \<or> call_credit call + credit > int (call_credit_limit LIMITS)
               then throws BridgeProtocolViolation s
               else returns (send_host (CallCredit operation credit)
                 (s\<lparr>outstanding_calls := AList.update operation
                      (call\<lparr>call_credit := call_credit call + credit\<rparr>) (outstanding_calls s)\<rparr>))))))"

definition guest_call_cancel :: "jsval \<Rightarrow> broker \<Rightarrow> outcome" where
  "guest_call_cancel payload s =
     (if inactive s then throws CapabilityDenied s
      else attempt s (exact_record payload [''operation_id''] []) (\<lambda>record.
           attempt s (positive_integer (get record ''operation_id'')) (\<lambda>operation.
           case map_of (outstanding_calls s) operation of
             None \<Rightarrow> throws BridgeProtocolViolation s
           | Some _ \<Rightarrow> returns (send_host (CallCancel operation) s))))"

definition LOG_LEVELS :: "string list" where
  "LOG_LEVELS = [''debug'', ''info'', ''warn'', ''error'']"

definition guest_log_write :: "jsval \<Rightarrow> broker \<Rightarrow> outcome" where
  "guest_log_write payload s =
     attempt s (exact_record payload [''level'', ''message''] []) (\<lambda>record.
       let level = get record ''level'' in
       if string_throws level then throws ThrownTypeError s
       else if \<not> (\<exists>word\<in>set LOG_LEVELS. spells level (js word)) then throws BridgeProtocolViolation s
       else attempt s (bridge_string (get record ''message'') 2048) (\<lambda>message.
         returns (send_host (LogWrite level message) s)))"

definition guest_switch :: "jstr \<Rightarrow> jsval \<Rightarrow> real \<Rightarrow> broker \<Rightarrow> outcome" where
  "guest_switch kind payload now s =
     (if kind = js ''ui.render'' then handle_render payload now s
      else if kind = js ''event.subscribe'' then guest_subscribe True payload s
      else if kind = js ''event.unsubscribe'' then guest_subscribe False payload s
      else if kind = js ''event.publish'' then guest_publish payload s
      else if kind = js ''call.start'' then guest_call_start payload s
      else if kind = js ''call.credit'' then guest_call_credit payload s
      else if kind = js ''call.cancel'' then guest_call_cancel payload s
      else if kind = js ''log.write'' then guest_log_write payload s
      else throws BridgeProtocolViolation s)"

definition guest_message_body :: "jsval \<Rightarrow> nat \<Rightarrow> real \<Rightarrow> broker \<Rightarrow> outcome" where
  "guest_message_body data ports now s0 =
     (if ports > 0 then throws BridgeProtocolViolation s0
      else
        (let s = s0\<lparr>guest_message_times := rate_window (guest_message_times s0) now\<rparr> in
         if length (guest_message_times s) > guest_messages_per_second LIMITS
         then throws BridgeProtocolViolation s
         else attempt s (validate_guest_message data) (\<lambda>(kind, payload).
           if kind = js ''runtime.pong'' then guest_pong payload s
           else if \<not> guest_ready s then guest_ready_message kind payload s
           else guest_switch kind payload now s)))"

definition handle_guest_message :: "jsval \<Rightarrow> nat \<Rightarrow> real \<Rightarrow> broker \<Rightarrow> broker" where
  "handle_guest_message data ports now s = or_terminate (guest_message_body data ports now s)"

section \<open>Launching the Worker\<close>

text \<open>
  The continuation of \<open>launchWorker\<close> after the digest promise: \<open>worker_ok\<close> is False when creating the
  object URL or the Worker throws. \<open>void launchWorker(...).catch(terminate)\<close> is the caller.
\<close>

definition launch_body ::
  "(bytes \<Rightarrow> bytes) \<Rightarrow> script_parser \<Rightarrow> bool \<Rightarrow> load_payload \<Rightarrow> nat \<Rightarrow> broker \<Rightarrow> outcome" where
  "launch_body digest parse worker_ok payload generation s =
     attempt s (verify_artifact_bytes digest (rel_size (lp_release payload)) (rel_sha256 (lp_release payload))
                 (lp_artifact payload)) (\<lambda>_.
     if closed s \<or> generation \<noteq> launch_generation s then returns s
     else attempt s (validate_guest_program parse (lp_artifact payload)) (\<lambda>_.
       let s1 = s\<lparr>b_release := Some (lp_release payload), b_grant := Some (lp_grant payload),
                  initial_state := lp_initial_state payload, b_locale := lp_locale payload,
                  b_theme := lp_theme payload, state_revision := lp_state_revision payload,
                  state_stale := False, staging := lp_staging payload, worker_url := True\<rparr>
       in if \<not> worker_ok then throws ThrownTypeError s1
          else returns (s1\<lparr>worker := True, boot_timer := True\<rparr>)))"

definition launch_continue :: "(bytes \<Rightarrow> bytes) \<Rightarrow> script_parser \<Rightarrow> bool \<Rightarrow> broker \<Rightarrow> broker" where
  "launch_continue digest parse worker_ok s =
     (case launching s of
        None \<Rightarrow> s
      | Some (payload, generation) \<Rightarrow>
          or_terminate (launch_body digest parse worker_ok payload generation (s\<lparr>launching := None\<rparr>)))"

section \<open>Messages of the host\<close>

definition interaction_value :: "interaction_target \<Rightarrow> fields \<Rightarrow> jsval option res" where
  "interaction_value target record =
     (case target_type target of
        Button \<Rightarrow> (if has_own record (js ''value'') then fail RenderInvalid else Inr None)
      | Toggle \<Rightarrow>
          (case get record ''value'' of
             JBool b \<Rightarrow> Inr (Some (JBool b))
           | _ \<Rightarrow> fail RenderInvalid)
      | InputNode \<Rightarrow>
          (case get record ''value'' of
             JStr v \<Rightarrow>
               (if int (length v) > (case target_max_length target of None \<Rightarrow> 0 | Some m \<Rightarrow> m)
                  \<or> utf8_bytes v > input_bytes LIMITS
                then fail RenderInvalid else Inr (Some (JStr v)))
           | _ \<Rightarrow> fail RenderInvalid)
      | Select \<Rightarrow>
          (case get record ''value'' of
             JStr v \<Rightarrow>
               (if (case target_options target of None \<Rightarrow> True | Some opts \<Rightarrow> v \<notin> set opts)
                then fail RenderInvalid else Inr (Some (JStr v)))
           | _ \<Rightarrow> fail RenderInvalid)
      | _ \<Rightarrow> Inr None)"

definition validate_interaction :: "jsval \<Rightarrow> broker \<Rightarrow> interaction res" where
  "validate_interaction value s =
     bind_r (exact_record value [''render_revision'', ''node_id'', ''event''] [''value'']) (\<lambda>record.
     if \<not> strict_eq_int (get record ''render_revision'') (render_revision s) then fail RenderInvalid
     else bind_r (bridge_string (get record ''node_id'') 64) (\<lambda>nid.
       case interaction_targets s nid of
         None \<Rightarrow> fail RenderInvalid
       | Some target \<Rightarrow>
           if target_disabled target \<or> \<not> strict_eq_str (get record ''event'') (target_event target)
           then fail RenderInvalid
           else bind_r (interaction_value target record) (\<lambda>v.
             Inr \<lparr>int_render_revision = render_revision s, int_node_id = nid,
                  int_handler = target_handler target, int_event = target_event target,
                  int_value = v\<rparr>)))"

definition host_load :: "jsval \<Rightarrow> broker \<Rightarrow> outcome" where
  "host_load payload s =
     (if load_started s then throws BridgeProtocolViolation s
      else attempt s (validate_load_payload payload) (\<lambda>load.
        returns (s\<lparr>load_started := True, launch_generation := launch_generation s + 1,
                   launching := Some (load, launch_generation s + 1)\<rparr>)))"

definition host_activate :: "broker \<Rightarrow> outcome" where
  "host_activate s =
     (if render_revision s = 0 then throws BridgeProtocolViolation s
      else returns (send_host (RuntimeActive (render_revision s))
             (send_guest (GuestResume (b_epoch s))
               (s\<lparr>staging := False, active := True, suspended := False\<rparr>))))"

definition host_interaction :: "jsval \<Rightarrow> broker \<Rightarrow> outcome" where
  "host_interaction payload s =
     (if inactive s then throws CapabilityDenied s
      else attempt s (validate_interaction payload s) (\<lambda>i. returns (send_guest (GuestInteraction i) s)))"

text \<open>\<open>grant!\<close> in a handler that only runs with a Worker: without a grant the property access throws.\<close>

definition state_for_grant :: "broker \<Rightarrow> jsval \<Rightarrow> fields res" where
  "state_for_grant s value =
     (case b_grant s of
        Some grant \<Rightarrow> validate_state value grant
      | None \<Rightarrow> fail ThrownTypeError)"

definition host_snapshot :: "jsval \<Rightarrow> broker \<Rightarrow> outcome" where
  "host_snapshot payload s =
     attempt s (exact_record payload [''revision'', ''values''] []) (\<lambda>record.
     attempt s (positive_integer (get record ''revision'')) (\<lambda>revision.
       if revision < state_revision s then throws BridgeProtocolViolation s
       else attempt s (state_for_grant s (get record ''values'')) (\<lambda>vals.
         returns (send_guest (GuestSnapshot revision vals)
           (s\<lparr>state_revision := revision, state_stale := False\<rparr>)))))"

definition patch_mutation :: "broker \<Rightarrow> jsval \<Rightarrow> mutation res" where
  "patch_mutation s value =
     bind_r (exact_record value [''path'', ''op''] [''value'']) (\<lambda>item.
     bind_r (bridge_resource_name (get item ''path'')) (\<lambda>path.
     bind_r (case b_grant s of
               None \<Rightarrow> Inr False
             | Some g \<Rightarrow> is_capability_granted (state_read g) path) (\<lambda>granted.
       if \<not> granted then fail CapabilityDenied
       else if strict_eq_str (get item ''op'') (js ''set'') then
         (if \<not> has_own item (js ''value'') then fail BridgeProtocolViolation
          else bind_r (measure_structured_value (get item ''value'') binary_measure) (\<lambda>_.
            Inr (SetPath path (get item ''value''))))
       else if strict_eq_str (get item ''op'') (js ''delete'') then
         (if has_own item (js ''value'') then fail BridgeProtocolViolation else Inr (DeletePath path))
       else fail BridgeProtocolViolation)))"

definition host_patch :: "jsval \<Rightarrow> broker \<Rightarrow> outcome" where
  "host_patch payload s =
     attempt s (exact_record payload [''base_revision'', ''revision'', ''mutations''] []) (\<lambda>record.
     attempt s (positive_integer (get record ''base_revision'')) (\<lambda>base.
     attempt s (positive_integer (get record ''revision'')) (\<lambda>revision.
       if base \<noteq> state_revision s \<or> revision \<noteq> base + 1 then
         returns (send_guest (GuestStale (state_revision s) (js ''revision_gap'')) (s\<lparr>state_stale := True\<rparr>))
       else (case get record ''mutations'' of
           JArr _ items _ \<Rightarrow>
             attempt s (map_r (patch_mutation s) (List.map_filter id items)) (\<lambda>muts.
               if state_stale s then returns s
               else returns (send_guest (GuestPatch base revision muts) (s\<lparr>state_revision := revision\<rparr>)))
         | _ \<Rightarrow> throws BridgeProtocolViolation s))))"

definition host_stale :: "jsval \<Rightarrow> broker \<Rightarrow> outcome" where
  "host_stale payload s0 =
     attempt s0 (exact_record payload [''revision'', ''reason''] []) (\<lambda>record.
       let s = s0\<lparr>state_stale := True\<rparr> in
       attempt s (positive_integer (get record ''revision'')) (\<lambda>revision.
       attempt s (bridge_string (get record ''reason'') 256) (\<lambda>reason.
         returns (send_guest (GuestStale revision reason) s))))"

definition host_event :: "jsval \<Rightarrow> broker \<Rightarrow> outcome" where
  "host_event payload s =
     attempt s (exact_record payload [''name'', ''data''] []) (\<lambda>record.
     attempt s (granted_name s record event_subscribe) (\<lambda>name.
       if name \<notin> subscriptions s then throws CapabilityDenied s
       else attempt s (measure_structured_value (get record ''data'') binary_measure) (\<lambda>_.
         returns (send_guest (GuestEvent name (get record ''data'')) s))))"

definition host_call_accepted :: "jsval \<Rightarrow> broker \<Rightarrow> outcome" where
  "host_call_accepted payload s =
     attempt s (exact_record payload [''operation_id''] []) (\<lambda>record.
     attempt s (positive_integer (get record ''operation_id'')) (\<lambda>operation.
       case map_of (outstanding_calls s) operation of
         None \<Rightarrow> throws BridgeProtocolViolation s
       | Some call \<Rightarrow>
           if call_accepted call then throws BridgeProtocolViolation s
           else returns (send_guest (GuestCallAccepted operation)
             (s\<lparr>outstanding_calls := AList.update operation (call\<lparr>call_accepted := True\<rparr>)
                  (outstanding_calls s)\<rparr>))))"

definition host_call_chunk :: "jsval \<Rightarrow> broker \<Rightarrow> outcome" where
  "host_call_chunk payload s =
     attempt s (exact_record payload [''operation_id'', ''value''] []) (\<lambda>record.
     attempt s (positive_integer (get record ''operation_id'')) (\<lambda>operation.
       case map_of (outstanding_calls s) operation of
         None \<Rightarrow> throws BridgeProtocolViolation s
       | Some call \<Rightarrow>
           if \<not> call_accepted call \<or> call_credit call \<le> 0 then throws BridgeProtocolViolation s
           else attempt s (measure_structured_value (get record ''value'') binary_measure) (\<lambda>_.
             returns (send_guest (GuestCallChunk operation (get record ''value''))
               (s\<lparr>outstanding_calls := AList.update operation
                    (call\<lparr>call_credit := call_credit call - 1\<rparr>) (outstanding_calls s)\<rparr>)))))"

definition outstanding :: "broker \<Rightarrow> int \<Rightarrow> bool" where
  "outstanding s operation \<longleftrightarrow> map_of (outstanding_calls s) operation \<noteq> None"

definition settle :: "int \<Rightarrow> broker \<Rightarrow> broker" where
  "settle operation s = s\<lparr>outstanding_calls := AList.delete operation (outstanding_calls s)\<rparr>"

definition host_call_result :: "jsval \<Rightarrow> broker \<Rightarrow> outcome" where
  "host_call_result payload s =
     attempt s (exact_record payload [''operation_id'', ''value''] []) (\<lambda>record.
     attempt s (positive_integer (get record ''operation_id'')) (\<lambda>operation.
       if \<not> outstanding s operation then throws BridgeProtocolViolation s
       else attempt s (measure_structured_value (get record ''value'') binary_measure) (\<lambda>_.
         returns (send_guest (GuestCallResult operation (get record ''value'')) (settle operation s)))))"

definition optional_flag :: "jsval \<Rightarrow> bool option res" where
  "optional_flag v =
     (case v of JUndef \<Rightarrow> Inr None | JBool b \<Rightarrow> Inr (Some b) | _ \<Rightarrow> fail BridgeProtocolViolation)"

definition optional_details :: "jsval \<Rightarrow> jsval option res" where
  "optional_details v =
     (if v = JUndef then Inr None
      else bind_r (measure_structured_value v binary_measure) (\<lambda>_. Inr (Some v)))"

definition host_call_error :: "jsval \<Rightarrow> broker \<Rightarrow> outcome" where
  "host_call_error payload s =
     attempt s (exact_record payload [''operation_id'', ''code'', ''message''] [''retryable'', ''details'']) (\<lambda>record.
     attempt s (positive_integer (get record ''operation_id'')) (\<lambda>operation.
       if \<not> outstanding s operation then throws BridgeProtocolViolation s
       else
         attempt s (optional_flag (get record ''retryable'')) (\<lambda>retryable.
         attempt s (optional_details (get record ''details'')) (\<lambda>details.
           let s1 = settle operation s in
           attempt s1 (bridge_string (get record ''code'') 128) (\<lambda>code.
           attempt s1 (bridge_string (get record ''message'') 2048) (\<lambda>message.
             returns (send_guest (GuestCallError operation code message retryable details) s1)))))))"

definition host_call_outcome_unknown :: "jsval \<Rightarrow> broker \<Rightarrow> outcome" where
  "host_call_outcome_unknown payload s =
     attempt s (exact_record payload [''operation_id''] [''message'']) (\<lambda>record.
     attempt s (positive_integer (get record ''operation_id'')) (\<lambda>operation.
       if \<not> outstanding s operation then throws BridgeProtocolViolation s
       else
         (let s1 = settle operation s in
          if get record ''message'' = JUndef then
            returns (send_guest (GuestCallOutcomeUnknown operation None) s1)
          else attempt s1 (bridge_string (get record ''message'') 2048) (\<lambda>message.
            returns (send_guest (GuestCallOutcomeUnknown operation (Some message)) s1)))))"

definition host_suspend :: "broker \<Rightarrow> outcome" where
  "host_suspend s =
     (if \<not> active s \<or> suspended s then throws BridgeProtocolViolation s
      else returns (send_guest GuestSuspend (stop_worker_watchdog (s\<lparr>suspended := True\<rparr>))))"

definition host_resume :: "broker \<Rightarrow> outcome" where
  "host_resume s =
     (if \<not> active s \<or> \<not> suspended s then throws BridgeProtocolViolation s
      else returns (start_worker_watchdog (send_guest (GuestResume (b_epoch s)) (s\<lparr>suspended := False\<rparr>))))"

definition host_switch :: "jstr \<Rightarrow> jsval \<Rightarrow> broker \<Rightarrow> outcome" where
  "host_switch kind payload s =
     (if kind = js ''runtime.activate'' then host_activate s
      else if kind = js ''runtime.ping'' then returns (send_host (RuntimePong payload) s)
      else if kind = js ''ui.interaction'' then host_interaction payload s
      else if kind = js ''state.snapshot'' then host_snapshot payload s
      else if kind = js ''state.patch'' then host_patch payload s
      else if kind = js ''state.stale'' then host_stale payload s
      else if kind = js ''event.message'' then host_event payload s
      else if kind = js ''call.accepted'' then host_call_accepted payload s
      else if kind = js ''call.chunk'' then host_call_chunk payload s
      else if kind = js ''call.result'' then host_call_result payload s
      else if kind = js ''call.error'' then host_call_error payload s
      else if kind = js ''call.outcome_unknown'' then host_call_outcome_unknown payload s
      else if kind = js ''lifecycle.suspend'' then host_suspend s
      else if kind = js ''lifecycle.resume'' then host_resume s
      else throws BridgeProtocolViolation s)"

text \<open>\<open>event.data?.kind === 'runtime.load'\<close> decides the byte limit of the envelope.\<close>

definition host_envelope_context :: "jsval \<Rightarrow> broker \<Rightarrow> envelope_context" where
  "host_envelope_context data s =
     \<lparr>ctx_instance = b_instance s, ctx_epoch = b_epoch s, ctx_expected_seq = expected_host_seq s,
      ctx_allowed_kinds = HOST_MESSAGE_KINDS, ctx_allow_binary = Some True,
      ctx_max_bytes = Some
        (if (case data of JRec _ fs \<Rightarrow> strict_eq_str (get fs ''kind'') (js ''runtime.load'') | _ \<Rightarrow> False)
         then artifact_bytes LIMITS + envelope_bytes LIMITS
         else envelope_bytes LIMITS)\<rparr>"

definition host_message_body :: "jsval \<Rightarrow> nat \<Rightarrow> broker \<Rightarrow> outcome" where
  "host_message_body data ports s0 =
     (if ports > 0 then throws BridgeProtocolViolation s0
      else attempt s0 (validate_envelope data (host_envelope_context data s0)) (\<lambda>env.
        let s = s0\<lparr>expected_host_seq := expected_host_seq s0 + 1\<rparr> in
        if env_kind env = js ''runtime.load'' then host_load (env_payload env) s
        else if env_kind env = js ''runtime.dispose'' then
          returns (terminate None (send_guest GuestDispose s))
        else if \<not> worker s \<or> \<not> guest_ready s then throws BridgeProtocolViolation s
        else host_switch (env_kind env) (env_payload env) s))"

definition handle_host_message :: "jsval \<Rightarrow> nat \<Rightarrow> broker \<Rightarrow> broker" where
  "handle_host_message data ports s = or_terminate (host_message_body data ports s)"

section \<open>Binding\<close>

definition bind_body :: "jsval \<Rightarrow> nat \<Rightarrow> broker \<Rightarrow> outcome" where
  "bind_body data ports s =
     attempt s (exact_record data [''type'', ''runtime'', ''nonce'', ''instance'', ''epoch''] []) (\<lambda>message.
       if \<not> strict_eq_str (get message ''type'') (js ''miakapp.runtime.bind'')
         \<or> \<not> strict_eq_str (get message ''runtime'') (js ''1'')
         \<or> \<not> strict_eq_str (get message ''nonce'') (b_nonce s)
       then returns s
       else if host_port s \<or> ports \<noteq> 1 then throws RuntimeHandshakeFailed s
       else attempt s (assert_instance_id (get message ''instance'')) (\<lambda>inst.
         let s1 = s\<lparr>b_instance := inst\<rparr> in
         attempt s1 (positive_integer (get message ''epoch'')) (\<lambda>epoch.
           returns (send_host RuntimeBound
             (s1\<lparr>b_epoch := epoch, host_port := True, bind_listener := False\<rparr>)))))"

definition bind_message :: "bool \<Rightarrow> jsval \<Rightarrow> nat \<Rightarrow> broker \<Rightarrow> broker" where
  "bind_message from_parent data ports s =
     (if closed s then s
      else if \<not> from_parent then s
      else or_terminate (bind_body data ports s))"

section \<open>Events\<close>

text \<open>
  What can call into the broker, each at any time it is registered: a timer only while it is armed,
  the bind listener until it is removed, the host port from its binding, the Worker's listeners from
  its launch (messages that were queued before the port or the Worker was closed included).
\<close>

datatype broker_event =
    WindowMessage bool jsval nat
  | HostMessage jsval nat
  | HostMessageError
  | GuestMessage jsval nat real
  | GuestMessageError
  | GuestError
  | LaunchContinues bool
  | BootTimeout
  | RenderTimeout
  | HeartbeatTick
  | Disposed

fun broker_step :: "(bytes \<Rightarrow> bytes) \<Rightarrow> script_parser \<Rightarrow> broker_event \<Rightarrow> broker \<Rightarrow> broker" where
  "broker_step digest parse (WindowMessage from_parent data ports) s =
     (if bind_listener s then bind_message from_parent data ports s else s)"
| "broker_step digest parse (HostMessage data ports) s =
     (if b_epoch s \<noteq> 0 then handle_host_message data ports s else s)"
| "broker_step digest parse HostMessageError s =
     (if b_epoch s \<noteq> 0 then terminate (Some BridgeProtocolViolation) s else s)"
| "broker_step digest parse (GuestMessage data ports now) s =
     (if b_release s \<noteq> None then handle_guest_message data ports now s else s)"
| "broker_step digest parse GuestMessageError s =
     (if b_release s \<noteq> None then terminate (Some BridgeProtocolViolation) s else s)"
| "broker_step digest parse GuestError s =
     (if b_release s \<noteq> None then terminate (Some WorkerBootFailed) s else s)"
| "broker_step digest parse (LaunchContinues worker_ok) s = launch_continue digest parse worker_ok s"
| "broker_step digest parse BootTimeout s =
     (if boot_timer s then terminate (Some WorkerBootFailed) (s\<lparr>boot_timer := False\<rparr>) else s)"
| "broker_step digest parse RenderTimeout s =
     (if render_timer s then terminate (Some WorkerBootFailed) (s\<lparr>render_timer := False\<rparr>) else s)"
| "broker_step digest parse HeartbeatTick s = (if worker_heartbeat s then heartbeat_tick s else s)"
| "broker_step digest parse Disposed s = terminate None s"

definition broker_run ::
  "(bytes \<Rightarrow> bytes) \<Rightarrow> script_parser \<Rightarrow> broker_event list \<Rightarrow> broker \<Rightarrow> broker" where
  "broker_run digest parse events s = fold (broker_step digest parse) events s"

end
