(* ===== verification/Broker_Invariant.thy ===== *)
theory Broker_Invariant
  imports Broker
begin

text \<open>
  The invariant of the runtime broker: what its variables and its two logs satisfy in every state its
  handlers can reach, whatever the host, the guest Worker and the timers do and in whatever order.
\<close>

section \<open>Reading the logs\<close>

fun started_id :: "host_message \<Rightarrow> int option" where
  "started_id (CallStart i _ _ _) = Some i"
| "started_id _ = None"

fun rendered_revision :: "host_message \<Rightarrow> int option" where
  "rendered_revision (UiRender r _) = Some r"
| "rendered_revision _ = None"

fun credit_for :: "int \<Rightarrow> host_message \<Rightarrow> int" where
  "credit_for i (CallCredit j c) = (if i = j then c else 0)"
| "credit_for i _ = 0"

fun chunk_for :: "int \<Rightarrow> guest_message \<Rightarrow> int" where
  "chunk_for i (GuestCallChunk j _) = (if i = j then 1 else 0)"
| "chunk_for i _ = 0"

fun is_terminated :: "host_message \<Rightarrow> bool" where
  "is_terminated (RuntimeTerminated _) = True"
| "is_terminated _ = False"

definition messages :: "broker \<Rightarrow> host_message list" where
  "messages s = map out_message (host_log s)"

definition started :: "broker \<Rightarrow> int list" where
  "started s = List.map_filter started_id (messages s)"

definition rendered :: "broker \<Rightarrow> int list" where
  "rendered s = List.map_filter rendered_revision (messages s)"

definition credits :: "broker \<Rightarrow> int \<Rightarrow> int" where
  "credits s i = sum_list (map (credit_for i) (messages s))"

definition chunks :: "broker \<Rightarrow> int \<Rightarrow> int" where
  "chunks s i = sum_list (map (chunk_for i) (guest_log s))"

definition granted_by ::
  "capability_requirements option \<Rightarrow> (capability_requirements \<Rightarrow> jstr list) \<Rightarrow> jstr \<Rightarrow> bool" where
  "granted_by grant kind name \<longleftrightarrow>
     (case grant of None \<Rightarrow> False | Some g \<Rightarrow> is_capability_granted (kind g) name = Inr True)"

fun effect_granted :: "capability_requirements option \<Rightarrow> host_message \<Rightarrow> bool" where
  "effect_granted grant (EventSubscribe name) = granted_by grant event_subscribe name"
| "effect_granted grant (EventUnsubscribe name) = granted_by grant event_subscribe name"
| "effect_granted grant (EventPublish name _) = granted_by grant event_publish name"
| "effect_granted grant (CallStart _ name _ _) = granted_by grant req_call name"
| "effect_granted grant _ = True"

text \<open>
  What the guest may be given: only state its grant reads, only events its grant covers, and only
  interactions with an enabled control of the tree it rendered under the revision they name.
\<close>

definition readable :: "capability_requirements option \<Rightarrow> fields \<Rightarrow> bool" where
  "readable grant fs \<longleftrightarrow> list_all (\<lambda>(name, _). granted_by grant state_read name) fs"

fun mutated_path :: "mutation \<Rightarrow> jstr" where
  "mutated_path (SetPath path _) = path"
| "mutated_path (DeletePath path) = path"

definition presented :: "host_message list \<Rightarrow> interaction \<Rightarrow> bool" where
  "presented sent i \<longleftrightarrow>
     (\<exists>tree n t. UiRender (int_render_revision i) tree \<in> set sent \<and> n \<in> set (preorder tree)
        \<and> node_id n = int_node_id i \<and> target_of (props n) = Some t \<and> \<not> target_disabled t
        \<and> target_handler t = int_handler i \<and> target_event t = int_event i)"

fun delivery_ok :: "capability_requirements option \<Rightarrow> host_message list \<Rightarrow> guest_message \<Rightarrow> bool" where
  "delivery_ok grant sent (GuestSnapshot _ fs) = readable grant fs"
| "delivery_ok grant sent (GuestPatch _ _ muts) =
     list_all (\<lambda>m. granted_by grant state_read (mutated_path m)) muts"
| "delivery_ok grant sent (GuestEvent name _) = granted_by grant event_subscribe name"
| "delivery_ok grant sent (GuestInteraction i) = presented sent i"
| "delivery_ok grant sent _ = True"

definition counting :: "nat \<Rightarrow> int list" where
  "counting n = map (\<lambda>i. int i + 1) [0..<n]"

lemma counting_simps [simp]: "counting 0 = []" "counting (Suc n) = counting n @ [int n + 1]"
  "length (counting n) = n"
  by (simp_all add: counting_def)

section \<open>The invariant\<close>

text \<open>What the logs always satisfy.\<close>

definition logs_ok :: "broker \<Rightarrow> bool" where
  "logs_ok s \<longleftrightarrow>
     map out_seq (host_log s) = counting (length (host_log s))
     \<and> list_all (effect_granted (b_grant s)) (messages s)
     \<and> distinct (started s)
     \<and> rendered s = counting (length (rendered s))
     \<and> (\<forall>i. chunks s i \<le> credits s i)
     \<and> list_all (delivery_ok (b_grant s) (messages s)) (guest_log s)
     \<and> (case launching s of None \<Rightarrow> True
          | Some (load, _) \<Rightarrow> readable (Some (lp_grant load)) (lp_initial_state load))
     \<and> (b_grant s \<noteq> None \<longrightarrow> readable (b_grant s) (initial_state s))
     \<and> (b_grant s \<noteq> None \<longrightarrow> launching s = None)
     \<and> (b_grant s \<noteq> None \<or> launching s \<noteq> None \<longrightarrow> load_started s)"

text \<open>What holds in a state in which a handler may throw, and is enough to terminate.\<close>

definition stoppable :: "broker \<Rightarrow> bool" where
  "stoppable s \<longleftrightarrow>
     outgoing_host_seq s = int (length (host_log s)) + 1
     \<and> (\<not> host_port s \<longrightarrow> host_log s = [])
     \<and> list_all (\<lambda>m. \<not> is_terminated m) (messages s)"

text \<open>The credit of a call is what the guest granted less the chunks it was given.\<close>

definition credit_ok :: "(int \<rightharpoonup> outstanding_call) \<Rightarrow> (int \<Rightarrow> int) \<Rightarrow> (int \<Rightarrow> int) \<Rightarrow> bool" where
  "credit_ok calls granted given \<longleftrightarrow>
     (\<forall>i call. calls i = Some call \<longrightarrow>
        0 \<le> call_credit call \<and> call_credit call \<le> 32 \<and> call_credit call = granted i - given i)"

definition calls_ok :: "broker \<Rightarrow> bool" where
  "calls_ok s \<longleftrightarrow>
     distinct (map fst (outstanding_calls s))
     \<and> fst ` set (outstanding_calls s) \<subseteq> seen_operation_ids s
     \<and> length (outstanding_calls s) \<le> 32
     \<and> credit_ok (map_of (outstanding_calls s)) (credits s) (chunks s)
     \<and> set (started s) \<subseteq> seen_operation_ids s
     \<and> (\<forall>i. i \<notin> seen_operation_ids s \<longrightarrow> credits s i = 0 \<and> chunks s i = 0)"

definition wiring_ok :: "broker \<Rightarrow> bool" where
  "wiring_ok s \<longleftrightarrow>
     (host_port s \<longleftrightarrow> b_epoch s \<noteq> 0) \<and> (bind_listener s \<longleftrightarrow> \<not> host_port s)
     \<and> (load_started s \<longrightarrow> host_port s)
     \<and> (worker s \<longleftrightarrow> b_release s \<noteq> None) \<and> (b_release s \<noteq> None \<longleftrightarrow> b_grant s \<noteq> None)
     \<and> (guest_ready s \<longrightarrow> worker s) \<and> (active s \<longrightarrow> worker s) \<and> (worker_heartbeat s \<longrightarrow> worker s)"

text \<open>A control that can be operated is a node of the last tree that was sent.\<close>

definition shown :: "broker \<Rightarrow> jstr \<Rightarrow> interaction_target \<Rightarrow> bool" where
  "shown s nid t \<longleftrightarrow>
     (\<exists>tree n. UiRender (render_revision s) tree \<in> set (messages s) \<and> n \<in> set (preorder tree)
        \<and> node_id n = nid \<and> target_of (props n) = Some t)"

definition screen_ok :: "broker \<Rightarrow> bool" where
  "screen_ok s \<longleftrightarrow>
     render_revision s = int (length (rendered s))
     \<and> (\<forall>nid t. interaction_targets s nid = Some t \<longrightarrow> shown s nid t)"

definition live_ok :: "broker \<Rightarrow> bool" where
  "live_ok s \<longleftrightarrow> stoppable s \<and> calls_ok s \<and> wiring_ok s \<and> screen_ok s
     \<and> (\<forall>name\<in>subscriptions s. granted_by (b_grant s) event_subscribe name)"

text \<open>After closing, the termination notice is the last message, if a host was bound at all.\<close>

definition closed_ok :: "broker \<Rightarrow> bool" where
  "closed_ok s \<longleftrightarrow>
     (messages s = [] \<or> (\<exists>ms r. messages s = ms @ [RuntimeTerminated r]
        \<and> list_all (\<lambda>m. \<not> is_terminated m) ms))"

definition broker_ok :: "broker \<Rightarrow> bool" where
  "broker_ok s \<longleftrightarrow> logs_ok s \<and> (if closed s then closed_ok s else live_ok s)"

text \<open>The outcome of a handler: a good state, or one that is good enough to terminate.\<close>

definition outcome_ok :: "outcome \<Rightarrow> bool" where
  "outcome_ok out \<longleftrightarrow>
     (case out of
        (Inr _, s) \<Rightarrow> broker_ok s
      | (Inl _, s) \<Rightarrow> logs_ok s \<and> (if closed s then closed_ok s else stoppable s))"

lemma outcome_ok_simps [simp]:
  "outcome_ok (returns s) \<longleftrightarrow> broker_ok s"
  "outcome_ok (throws e s) \<longleftrightarrow> logs_ok s \<and> (if closed s then closed_ok s else stoppable s)"
  by (simp_all add: outcome_ok_def)

lemma broker_ok_throws: "broker_ok s \<Longrightarrow> outcome_ok (throws e s)"
  by (auto simp: broker_ok_def live_ok_def)

lemma attempt_ok:
  assumes "broker_ok s" "\<And>x. r = Inr x \<Longrightarrow> outcome_ok (f x)"
  shows "outcome_ok (attempt s r f)"
  using assms broker_ok_throws by (auto simp: attempt_def split: sum.split)

lemma broker_start: "broker_ok (initial_broker nonce)"
  by (simp add: broker_ok_def logs_ok_def live_ok_def stoppable_def calls_ok_def credit_ok_def wiring_ok_def screen_ok_def
      initial_broker_def started_def rendered_def messages_def credits_def chunks_def)

section \<open>Termination\<close>

lemma terminate_open:
  assumes "\<not> closed s"
  shows "host_log (terminate e s) = (if host_port s then host_log s @
      map (\<lambda>(q, m). \<lparr>out_instance = b_instance s, out_epoch = b_epoch s, out_seq = q, out_message = m\<rparr>)
        (case e of None \<Rightarrow> [(outgoing_host_seq s, RuntimeTerminated None)]
         | Some v \<Rightarrow> [(outgoing_host_seq s, RuntimeError (error_code v)),
                      (outgoing_host_seq s + 1, RuntimeTerminated (Some (error_code v)))])
      else host_log s)"
    and "closed (terminate e s)" "guest_log (terminate e s) = guest_log s" "b_grant (terminate e s) = b_grant s"
    "launching (terminate e s) = launching s" "load_started (terminate e s) = load_started s"
    "initial_state (terminate e s) = initial_state s"
  using assms by (auto simp: terminate_def Let_def cleanup_def send_host_def split: option.split)

end
