(* ===== verification/Broker_Steps.thy ===== *)
theory Broker_Steps
  imports Broker_Invariant
begin

text \<open>
  Every handler of the runtime broker keeps the invariant of \<open>Broker_Invariant\<close>: first the updates the
  handlers are made of, then the handlers of the guest, of the host, of the timers and of the binding,
  and the interpretation of the state-machine interface on the broker itself.
\<close>

section \<open>Reading the invariant\<close>

named_theorems log_defs
named_theorems ok_defs

lemmas [log_defs] = messages_def started_def rendered_def credits_def chunks_def

lemmas [ok_defs] = logs_ok_def closed_ok_def live_ok_def stoppable_def calls_ok_def wiring_ok_def
  screen_ok_def

lemma broker_ok_closed: "closed s \<Longrightarrow> broker_ok s \<longleftrightarrow> logs_ok s \<and> closed_ok s"
  by (simp add: broker_ok_def)

lemma broker_ok_open: "\<not> closed s \<Longrightarrow> broker_ok s \<longleftrightarrow> logs_ok s \<and> live_ok s"
  by (simp add: broker_ok_def)

lemma map_filter_append [simp]:
  "List.map_filter f (xs @ ys) = List.map_filter f xs @ List.map_filter f ys"
  by (simp add: List.map_filter_def)

lemma map_filter_single [simp]:
  "List.map_filter f [] = []" "List.map_filter f [x] = (case f x of None \<Rightarrow> [] | Some y \<Rightarrow> [y])"
  by (simp_all add: List.map_filter_simps split: option.split)

text \<open>The invariant of the logs depends on the logs, the grant and the load only.\<close>

lemma logs_ok_cong:
  assumes "host_log s = host_log t" "guest_log s = guest_log t" "b_grant s = b_grant t"
    "launching s = launching t" "load_started s = load_started t" "initial_state s = initial_state t"
  shows "logs_ok s = logs_ok t"
  using assms by (simp add: logs_ok_def log_defs)

lemma closed_ok_cong: "host_log s = host_log t \<Longrightarrow> closed_ok s = closed_ok t"
  by (simp add: closed_ok_def messages_def)

text \<open>
  Once closed, a handler that leaves the logs, the grant and the load alone keeps the invariant.
\<close>

lemma broker_ok_still:
  assumes "broker_ok s" "closed s" "closed t" "host_log s = host_log t" "guest_log s = guest_log t"
    "b_grant s = b_grant t" "launching s = launching t" "load_started s = load_started t"
    "initial_state s = initial_state t"
  shows "broker_ok t"
  using assms logs_ok_cong [of s t] closed_ok_cong [of s t] by (simp add: broker_ok_closed)

section \<open>Updates\<close>

text \<open>Each derived list and each part of the invariant, under an update of a field it does not read.\<close>

lemma messages_updates [simp]:
  "messages (s\<lparr>guest_log := gs\<rparr>) = messages s"
  "messages (s\<lparr>outgoing_host_seq := n\<rparr>) = messages s"
  "messages (s\<lparr>subscriptions := names\<rparr>) = messages s"
  "messages (s\<lparr>outstanding_calls := calls\<rparr>) = messages s"
  "messages (s\<lparr>seen_operation_ids := ids\<rparr>) = messages s"
  "messages (s\<lparr>render_revision := n\<rparr>) = messages s"
  "messages (s\<lparr>interaction_targets := ts\<rparr>) = messages s"
  "messages (s\<lparr>guest_ready := b\<rparr>) = messages s"
  "messages (s\<lparr>active := b\<rparr>) = messages s"
  "messages (s\<lparr>worker_heartbeat := b\<rparr>) = messages s"
  "messages (s\<lparr>state_revision := n\<rparr>) = messages s"
  "messages (s\<lparr>worker := b\<rparr>) = messages s"
  "messages (s\<lparr>worker_url := b\<rparr>) = messages s"
  "messages (s\<lparr>b_release := rel\<rparr>) = messages s"
  "messages (s\<lparr>b_grant := g\<rparr>) = messages s"
  "messages (s\<lparr>host_port := b\<rparr>) = messages s"
  "messages (s\<lparr>b_epoch := n\<rparr>) = messages s"
  "messages (s\<lparr>bind_listener := b\<rparr>) = messages s"
  "messages (s\<lparr>load_started := b\<rparr>) = messages s"
  "messages (s\<lparr>launching := l\<rparr>) = messages s"
  "messages (s\<lparr>initial_state := fs\<rparr>) = messages s"
  "messages (s\<lparr>b_locale := loc\<rparr>) = messages s"
  "messages (s\<lparr>b_theme := th\<rparr>) = messages s"
  "messages (s\<lparr>guest_message_times := xs\<rparr>) = messages s"
  "messages (s\<lparr>render_times := xs\<rparr>) = messages s"
  "messages (s\<lparr>expected_host_seq := n\<rparr>) = messages s"
  "messages (s\<lparr>state_stale := b\<rparr>) = messages s"
  "messages (s\<lparr>suspended := b\<rparr>) = messages s"
  "messages (s\<lparr>staging := b\<rparr>) = messages s"
  "messages (s\<lparr>boot_timer := b\<rparr>) = messages s"
  "messages (s\<lparr>render_timer := b\<rparr>) = messages s"
  "messages (s\<lparr>pending_probe := p\<rparr>) = messages s"
  "messages (s\<lparr>next_probe := n\<rparr>) = messages s"
  "messages (s\<lparr>missed_worker_heartbeats := m\<rparr>) = messages s"
  "messages (s\<lparr>b_instance := i\<rparr>) = messages s"
  "messages (s\<lparr>launch_generation := m\<rparr>) = messages s"
  by (simp_all add: messages_def)

lemma started_updates [simp]:
  "started (s\<lparr>guest_log := gs\<rparr>) = started s"
  "started (s\<lparr>outgoing_host_seq := n\<rparr>) = started s"
  "started (s\<lparr>subscriptions := names\<rparr>) = started s"
  "started (s\<lparr>outstanding_calls := calls\<rparr>) = started s"
  "started (s\<lparr>seen_operation_ids := ids\<rparr>) = started s"
  "started (s\<lparr>render_revision := n\<rparr>) = started s"
  "started (s\<lparr>interaction_targets := ts\<rparr>) = started s"
  "started (s\<lparr>guest_ready := b\<rparr>) = started s"
  "started (s\<lparr>active := b\<rparr>) = started s"
  "started (s\<lparr>worker_heartbeat := b\<rparr>) = started s"
  "started (s\<lparr>state_revision := n\<rparr>) = started s"
  "started (s\<lparr>worker := b\<rparr>) = started s"
  "started (s\<lparr>worker_url := b\<rparr>) = started s"
  "started (s\<lparr>b_release := rel\<rparr>) = started s"
  "started (s\<lparr>b_grant := g\<rparr>) = started s"
  "started (s\<lparr>host_port := b\<rparr>) = started s"
  "started (s\<lparr>b_epoch := n\<rparr>) = started s"
  "started (s\<lparr>bind_listener := b\<rparr>) = started s"
  "started (s\<lparr>load_started := b\<rparr>) = started s"
  "started (s\<lparr>launching := l\<rparr>) = started s"
  "started (s\<lparr>initial_state := fs\<rparr>) = started s"
  "started (s\<lparr>b_locale := loc\<rparr>) = started s"
  "started (s\<lparr>b_theme := th\<rparr>) = started s"
  "started (s\<lparr>guest_message_times := xs\<rparr>) = started s"
  "started (s\<lparr>render_times := xs\<rparr>) = started s"
  "started (s\<lparr>expected_host_seq := n\<rparr>) = started s"
  "started (s\<lparr>state_stale := b\<rparr>) = started s"
  "started (s\<lparr>suspended := b\<rparr>) = started s"
  "started (s\<lparr>staging := b\<rparr>) = started s"
  "started (s\<lparr>boot_timer := b\<rparr>) = started s"
  "started (s\<lparr>render_timer := b\<rparr>) = started s"
  "started (s\<lparr>pending_probe := p\<rparr>) = started s"
  "started (s\<lparr>next_probe := n\<rparr>) = started s"
  "started (s\<lparr>missed_worker_heartbeats := m\<rparr>) = started s"
  "started (s\<lparr>b_instance := i\<rparr>) = started s"
  "started (s\<lparr>launch_generation := m\<rparr>) = started s"
  by (simp_all add: started_def messages_def)

lemma rendered_updates [simp]:
  "rendered (s\<lparr>guest_log := gs\<rparr>) = rendered s"
  "rendered (s\<lparr>outgoing_host_seq := n\<rparr>) = rendered s"
  "rendered (s\<lparr>subscriptions := names\<rparr>) = rendered s"
  "rendered (s\<lparr>outstanding_calls := calls\<rparr>) = rendered s"
  "rendered (s\<lparr>seen_operation_ids := ids\<rparr>) = rendered s"
  "rendered (s\<lparr>render_revision := n\<rparr>) = rendered s"
  "rendered (s\<lparr>interaction_targets := ts\<rparr>) = rendered s"
  "rendered (s\<lparr>guest_ready := b\<rparr>) = rendered s"
  "rendered (s\<lparr>active := b\<rparr>) = rendered s"
  "rendered (s\<lparr>worker_heartbeat := b\<rparr>) = rendered s"
  "rendered (s\<lparr>state_revision := n\<rparr>) = rendered s"
  "rendered (s\<lparr>worker := b\<rparr>) = rendered s"
  "rendered (s\<lparr>worker_url := b\<rparr>) = rendered s"
  "rendered (s\<lparr>b_release := rel\<rparr>) = rendered s"
  "rendered (s\<lparr>b_grant := g\<rparr>) = rendered s"
  "rendered (s\<lparr>host_port := b\<rparr>) = rendered s"
  "rendered (s\<lparr>b_epoch := n\<rparr>) = rendered s"
  "rendered (s\<lparr>bind_listener := b\<rparr>) = rendered s"
  "rendered (s\<lparr>load_started := b\<rparr>) = rendered s"
  "rendered (s\<lparr>launching := l\<rparr>) = rendered s"
  "rendered (s\<lparr>initial_state := fs\<rparr>) = rendered s"
  "rendered (s\<lparr>b_locale := loc\<rparr>) = rendered s"
  "rendered (s\<lparr>b_theme := th\<rparr>) = rendered s"
  "rendered (s\<lparr>guest_message_times := xs\<rparr>) = rendered s"
  "rendered (s\<lparr>render_times := xs\<rparr>) = rendered s"
  "rendered (s\<lparr>expected_host_seq := n\<rparr>) = rendered s"
  "rendered (s\<lparr>state_stale := b\<rparr>) = rendered s"
  "rendered (s\<lparr>suspended := b\<rparr>) = rendered s"
  "rendered (s\<lparr>staging := b\<rparr>) = rendered s"
  "rendered (s\<lparr>boot_timer := b\<rparr>) = rendered s"
  "rendered (s\<lparr>render_timer := b\<rparr>) = rendered s"
  "rendered (s\<lparr>pending_probe := p\<rparr>) = rendered s"
  "rendered (s\<lparr>next_probe := n\<rparr>) = rendered s"
  "rendered (s\<lparr>missed_worker_heartbeats := m\<rparr>) = rendered s"
  "rendered (s\<lparr>b_instance := i\<rparr>) = rendered s"
  "rendered (s\<lparr>launch_generation := m\<rparr>) = rendered s"
  by (simp_all add: rendered_def messages_def)

lemma credits_updates [simp]:
  "credits (s\<lparr>guest_log := gs\<rparr>) = credits s"
  "credits (s\<lparr>outgoing_host_seq := n\<rparr>) = credits s"
  "credits (s\<lparr>subscriptions := names\<rparr>) = credits s"
  "credits (s\<lparr>outstanding_calls := calls\<rparr>) = credits s"
  "credits (s\<lparr>seen_operation_ids := ids\<rparr>) = credits s"
  "credits (s\<lparr>render_revision := n\<rparr>) = credits s"
  "credits (s\<lparr>interaction_targets := ts\<rparr>) = credits s"
  "credits (s\<lparr>guest_ready := b\<rparr>) = credits s"
  "credits (s\<lparr>active := b\<rparr>) = credits s"
  "credits (s\<lparr>worker_heartbeat := b\<rparr>) = credits s"
  "credits (s\<lparr>state_revision := n\<rparr>) = credits s"
  "credits (s\<lparr>worker := b\<rparr>) = credits s"
  "credits (s\<lparr>worker_url := b\<rparr>) = credits s"
  "credits (s\<lparr>b_release := rel\<rparr>) = credits s"
  "credits (s\<lparr>b_grant := g\<rparr>) = credits s"
  "credits (s\<lparr>host_port := b\<rparr>) = credits s"
  "credits (s\<lparr>b_epoch := n\<rparr>) = credits s"
  "credits (s\<lparr>bind_listener := b\<rparr>) = credits s"
  "credits (s\<lparr>load_started := b\<rparr>) = credits s"
  "credits (s\<lparr>launching := l\<rparr>) = credits s"
  "credits (s\<lparr>initial_state := fs\<rparr>) = credits s"
  "credits (s\<lparr>b_locale := loc\<rparr>) = credits s"
  "credits (s\<lparr>b_theme := th\<rparr>) = credits s"
  "credits (s\<lparr>guest_message_times := xs\<rparr>) = credits s"
  "credits (s\<lparr>render_times := xs\<rparr>) = credits s"
  "credits (s\<lparr>expected_host_seq := n\<rparr>) = credits s"
  "credits (s\<lparr>state_stale := b\<rparr>) = credits s"
  "credits (s\<lparr>suspended := b\<rparr>) = credits s"
  "credits (s\<lparr>staging := b\<rparr>) = credits s"
  "credits (s\<lparr>boot_timer := b\<rparr>) = credits s"
  "credits (s\<lparr>render_timer := b\<rparr>) = credits s"
  "credits (s\<lparr>pending_probe := p\<rparr>) = credits s"
  "credits (s\<lparr>next_probe := n\<rparr>) = credits s"
  "credits (s\<lparr>missed_worker_heartbeats := m\<rparr>) = credits s"
  "credits (s\<lparr>b_instance := i\<rparr>) = credits s"
  "credits (s\<lparr>launch_generation := m\<rparr>) = credits s"
  by (intro ext | simp add: credits_def messages_def)+

lemma chunks_updates [simp]:
  "chunks (s\<lparr>host_log := hs\<rparr>) = chunks s"
  "chunks (s\<lparr>outgoing_host_seq := n\<rparr>) = chunks s"
  "chunks (s\<lparr>subscriptions := names\<rparr>) = chunks s"
  "chunks (s\<lparr>outstanding_calls := calls\<rparr>) = chunks s"
  "chunks (s\<lparr>seen_operation_ids := ids\<rparr>) = chunks s"
  "chunks (s\<lparr>render_revision := n\<rparr>) = chunks s"
  "chunks (s\<lparr>interaction_targets := ts\<rparr>) = chunks s"
  "chunks (s\<lparr>guest_ready := b\<rparr>) = chunks s"
  "chunks (s\<lparr>active := b\<rparr>) = chunks s"
  "chunks (s\<lparr>worker_heartbeat := b\<rparr>) = chunks s"
  "chunks (s\<lparr>state_revision := n\<rparr>) = chunks s"
  "chunks (s\<lparr>worker := b\<rparr>) = chunks s"
  "chunks (s\<lparr>worker_url := b\<rparr>) = chunks s"
  "chunks (s\<lparr>b_release := rel\<rparr>) = chunks s"
  "chunks (s\<lparr>b_grant := g\<rparr>) = chunks s"
  "chunks (s\<lparr>host_port := b\<rparr>) = chunks s"
  "chunks (s\<lparr>b_epoch := n\<rparr>) = chunks s"
  "chunks (s\<lparr>bind_listener := b\<rparr>) = chunks s"
  "chunks (s\<lparr>load_started := b\<rparr>) = chunks s"
  "chunks (s\<lparr>launching := l\<rparr>) = chunks s"
  "chunks (s\<lparr>initial_state := fs\<rparr>) = chunks s"
  "chunks (s\<lparr>b_locale := loc\<rparr>) = chunks s"
  "chunks (s\<lparr>b_theme := th\<rparr>) = chunks s"
  "chunks (s\<lparr>guest_message_times := xs\<rparr>) = chunks s"
  "chunks (s\<lparr>render_times := xs\<rparr>) = chunks s"
  "chunks (s\<lparr>expected_host_seq := n\<rparr>) = chunks s"
  "chunks (s\<lparr>state_stale := b\<rparr>) = chunks s"
  "chunks (s\<lparr>suspended := b\<rparr>) = chunks s"
  "chunks (s\<lparr>staging := b\<rparr>) = chunks s"
  "chunks (s\<lparr>boot_timer := b\<rparr>) = chunks s"
  "chunks (s\<lparr>render_timer := b\<rparr>) = chunks s"
  "chunks (s\<lparr>pending_probe := p\<rparr>) = chunks s"
  "chunks (s\<lparr>next_probe := n\<rparr>) = chunks s"
  "chunks (s\<lparr>missed_worker_heartbeats := m\<rparr>) = chunks s"
  "chunks (s\<lparr>b_instance := i\<rparr>) = chunks s"
  "chunks (s\<lparr>launch_generation := m\<rparr>) = chunks s"
  by (intro ext | simp add: chunks_def)+

lemma logs_ok_updates [simp]:
  "logs_ok (s\<lparr>outgoing_host_seq := n\<rparr>) = logs_ok s"
  "logs_ok (s\<lparr>subscriptions := names\<rparr>) = logs_ok s"
  "logs_ok (s\<lparr>outstanding_calls := calls\<rparr>) = logs_ok s"
  "logs_ok (s\<lparr>seen_operation_ids := ids\<rparr>) = logs_ok s"
  "logs_ok (s\<lparr>render_revision := n\<rparr>) = logs_ok s"
  "logs_ok (s\<lparr>interaction_targets := ts\<rparr>) = logs_ok s"
  "logs_ok (s\<lparr>guest_ready := b\<rparr>) = logs_ok s"
  "logs_ok (s\<lparr>active := b\<rparr>) = logs_ok s"
  "logs_ok (s\<lparr>worker_heartbeat := b\<rparr>) = logs_ok s"
  "logs_ok (s\<lparr>state_revision := n\<rparr>) = logs_ok s"
  "logs_ok (s\<lparr>worker := b\<rparr>) = logs_ok s"
  "logs_ok (s\<lparr>worker_url := b\<rparr>) = logs_ok s"
  "logs_ok (s\<lparr>b_release := rel\<rparr>) = logs_ok s"
  "logs_ok (s\<lparr>host_port := b\<rparr>) = logs_ok s"
  "logs_ok (s\<lparr>b_epoch := n\<rparr>) = logs_ok s"
  "logs_ok (s\<lparr>bind_listener := b\<rparr>) = logs_ok s"
  "logs_ok (s\<lparr>b_locale := loc\<rparr>) = logs_ok s"
  "logs_ok (s\<lparr>b_theme := th\<rparr>) = logs_ok s"
  "logs_ok (s\<lparr>guest_message_times := xs\<rparr>) = logs_ok s"
  "logs_ok (s\<lparr>render_times := xs\<rparr>) = logs_ok s"
  "logs_ok (s\<lparr>expected_host_seq := n\<rparr>) = logs_ok s"
  "logs_ok (s\<lparr>state_stale := b\<rparr>) = logs_ok s"
  "logs_ok (s\<lparr>suspended := b\<rparr>) = logs_ok s"
  "logs_ok (s\<lparr>staging := b\<rparr>) = logs_ok s"
  "logs_ok (s\<lparr>boot_timer := b\<rparr>) = logs_ok s"
  "logs_ok (s\<lparr>render_timer := b\<rparr>) = logs_ok s"
  "logs_ok (s\<lparr>pending_probe := p\<rparr>) = logs_ok s"
  "logs_ok (s\<lparr>next_probe := n\<rparr>) = logs_ok s"
  "logs_ok (s\<lparr>missed_worker_heartbeats := m\<rparr>) = logs_ok s"
  "logs_ok (s\<lparr>b_instance := i\<rparr>) = logs_ok s"
  "logs_ok (s\<lparr>launch_generation := m\<rparr>) = logs_ok s"
  by (simp_all add: logs_ok_def)

lemma stoppable_updates [simp]:
  "stoppable (s\<lparr>guest_log := gs\<rparr>) = stoppable s"
  "stoppable (s\<lparr>subscriptions := names\<rparr>) = stoppable s"
  "stoppable (s\<lparr>outstanding_calls := calls\<rparr>) = stoppable s"
  "stoppable (s\<lparr>seen_operation_ids := ids\<rparr>) = stoppable s"
  "stoppable (s\<lparr>render_revision := n\<rparr>) = stoppable s"
  "stoppable (s\<lparr>interaction_targets := ts\<rparr>) = stoppable s"
  "stoppable (s\<lparr>guest_ready := b\<rparr>) = stoppable s"
  "stoppable (s\<lparr>active := b\<rparr>) = stoppable s"
  "stoppable (s\<lparr>worker_heartbeat := b\<rparr>) = stoppable s"
  "stoppable (s\<lparr>state_revision := n\<rparr>) = stoppable s"
  "stoppable (s\<lparr>worker := b\<rparr>) = stoppable s"
  "stoppable (s\<lparr>worker_url := b\<rparr>) = stoppable s"
  "stoppable (s\<lparr>b_release := rel\<rparr>) = stoppable s"
  "stoppable (s\<lparr>b_grant := g\<rparr>) = stoppable s"
  "stoppable (s\<lparr>b_epoch := n\<rparr>) = stoppable s"
  "stoppable (s\<lparr>bind_listener := b\<rparr>) = stoppable s"
  "stoppable (s\<lparr>load_started := b\<rparr>) = stoppable s"
  "stoppable (s\<lparr>launching := l\<rparr>) = stoppable s"
  "stoppable (s\<lparr>initial_state := fs\<rparr>) = stoppable s"
  "stoppable (s\<lparr>b_locale := loc\<rparr>) = stoppable s"
  "stoppable (s\<lparr>b_theme := th\<rparr>) = stoppable s"
  "stoppable (s\<lparr>guest_message_times := xs\<rparr>) = stoppable s"
  "stoppable (s\<lparr>render_times := xs\<rparr>) = stoppable s"
  "stoppable (s\<lparr>expected_host_seq := n\<rparr>) = stoppable s"
  "stoppable (s\<lparr>state_stale := b\<rparr>) = stoppable s"
  "stoppable (s\<lparr>suspended := b\<rparr>) = stoppable s"
  "stoppable (s\<lparr>staging := b\<rparr>) = stoppable s"
  "stoppable (s\<lparr>boot_timer := b\<rparr>) = stoppable s"
  "stoppable (s\<lparr>render_timer := b\<rparr>) = stoppable s"
  "stoppable (s\<lparr>pending_probe := p\<rparr>) = stoppable s"
  "stoppable (s\<lparr>next_probe := n\<rparr>) = stoppable s"
  "stoppable (s\<lparr>missed_worker_heartbeats := m\<rparr>) = stoppable s"
  "stoppable (s\<lparr>b_instance := i\<rparr>) = stoppable s"
  "stoppable (s\<lparr>launch_generation := m\<rparr>) = stoppable s"
  by (simp_all add: stoppable_def)

lemma calls_ok_updates [simp]:
  "calls_ok (s\<lparr>outgoing_host_seq := n\<rparr>) = calls_ok s"
  "calls_ok (s\<lparr>subscriptions := names\<rparr>) = calls_ok s"
  "calls_ok (s\<lparr>render_revision := n\<rparr>) = calls_ok s"
  "calls_ok (s\<lparr>interaction_targets := ts\<rparr>) = calls_ok s"
  "calls_ok (s\<lparr>guest_ready := b\<rparr>) = calls_ok s"
  "calls_ok (s\<lparr>active := b\<rparr>) = calls_ok s"
  "calls_ok (s\<lparr>worker_heartbeat := b\<rparr>) = calls_ok s"
  "calls_ok (s\<lparr>state_revision := n\<rparr>) = calls_ok s"
  "calls_ok (s\<lparr>worker := b\<rparr>) = calls_ok s"
  "calls_ok (s\<lparr>worker_url := b\<rparr>) = calls_ok s"
  "calls_ok (s\<lparr>b_release := rel\<rparr>) = calls_ok s"
  "calls_ok (s\<lparr>b_grant := g\<rparr>) = calls_ok s"
  "calls_ok (s\<lparr>host_port := b\<rparr>) = calls_ok s"
  "calls_ok (s\<lparr>b_epoch := n\<rparr>) = calls_ok s"
  "calls_ok (s\<lparr>bind_listener := b\<rparr>) = calls_ok s"
  "calls_ok (s\<lparr>load_started := b\<rparr>) = calls_ok s"
  "calls_ok (s\<lparr>launching := l\<rparr>) = calls_ok s"
  "calls_ok (s\<lparr>initial_state := fs\<rparr>) = calls_ok s"
  "calls_ok (s\<lparr>b_locale := loc\<rparr>) = calls_ok s"
  "calls_ok (s\<lparr>b_theme := th\<rparr>) = calls_ok s"
  "calls_ok (s\<lparr>guest_message_times := xs\<rparr>) = calls_ok s"
  "calls_ok (s\<lparr>render_times := xs\<rparr>) = calls_ok s"
  "calls_ok (s\<lparr>expected_host_seq := n\<rparr>) = calls_ok s"
  "calls_ok (s\<lparr>state_stale := b\<rparr>) = calls_ok s"
  "calls_ok (s\<lparr>suspended := b\<rparr>) = calls_ok s"
  "calls_ok (s\<lparr>staging := b\<rparr>) = calls_ok s"
  "calls_ok (s\<lparr>boot_timer := b\<rparr>) = calls_ok s"
  "calls_ok (s\<lparr>render_timer := b\<rparr>) = calls_ok s"
  "calls_ok (s\<lparr>pending_probe := p\<rparr>) = calls_ok s"
  "calls_ok (s\<lparr>next_probe := n\<rparr>) = calls_ok s"
  "calls_ok (s\<lparr>missed_worker_heartbeats := m\<rparr>) = calls_ok s"
  "calls_ok (s\<lparr>b_instance := i\<rparr>) = calls_ok s"
  "calls_ok (s\<lparr>launch_generation := m\<rparr>) = calls_ok s"
  by (simp_all add: calls_ok_def)

lemma wiring_ok_updates [simp]:
  "wiring_ok (s\<lparr>guest_log := gs\<rparr>) = wiring_ok s"
  "wiring_ok (s\<lparr>host_log := hs\<rparr>) = wiring_ok s"
  "wiring_ok (s\<lparr>outgoing_host_seq := n\<rparr>) = wiring_ok s"
  "wiring_ok (s\<lparr>subscriptions := names\<rparr>) = wiring_ok s"
  "wiring_ok (s\<lparr>outstanding_calls := calls\<rparr>) = wiring_ok s"
  "wiring_ok (s\<lparr>seen_operation_ids := ids\<rparr>) = wiring_ok s"
  "wiring_ok (s\<lparr>render_revision := n\<rparr>) = wiring_ok s"
  "wiring_ok (s\<lparr>interaction_targets := ts\<rparr>) = wiring_ok s"
  "wiring_ok (s\<lparr>worker_url := b\<rparr>) = wiring_ok s"
  "wiring_ok (s\<lparr>launching := l\<rparr>) = wiring_ok s"
  "wiring_ok (s\<lparr>initial_state := fs\<rparr>) = wiring_ok s"
  "wiring_ok (s\<lparr>state_revision := n\<rparr>) = wiring_ok s"
  "wiring_ok (s\<lparr>b_locale := loc\<rparr>) = wiring_ok s"
  "wiring_ok (s\<lparr>b_theme := th\<rparr>) = wiring_ok s"
  "wiring_ok (s\<lparr>guest_message_times := xs\<rparr>) = wiring_ok s"
  "wiring_ok (s\<lparr>render_times := xs\<rparr>) = wiring_ok s"
  "wiring_ok (s\<lparr>expected_host_seq := n\<rparr>) = wiring_ok s"
  "wiring_ok (s\<lparr>state_stale := b\<rparr>) = wiring_ok s"
  "wiring_ok (s\<lparr>suspended := b\<rparr>) = wiring_ok s"
  "wiring_ok (s\<lparr>staging := b\<rparr>) = wiring_ok s"
  "wiring_ok (s\<lparr>boot_timer := b\<rparr>) = wiring_ok s"
  "wiring_ok (s\<lparr>render_timer := b\<rparr>) = wiring_ok s"
  "wiring_ok (s\<lparr>pending_probe := p\<rparr>) = wiring_ok s"
  "wiring_ok (s\<lparr>next_probe := n\<rparr>) = wiring_ok s"
  "wiring_ok (s\<lparr>missed_worker_heartbeats := m\<rparr>) = wiring_ok s"
  "wiring_ok (s\<lparr>b_instance := i\<rparr>) = wiring_ok s"
  "wiring_ok (s\<lparr>launch_generation := m\<rparr>) = wiring_ok s"
  by (simp_all add: wiring_ok_def)

lemma shown_updates [simp]:
  "shown (s\<lparr>guest_log := gs\<rparr>) = shown s"
  "shown (s\<lparr>outgoing_host_seq := n\<rparr>) = shown s"
  "shown (s\<lparr>subscriptions := names\<rparr>) = shown s"
  "shown (s\<lparr>outstanding_calls := calls\<rparr>) = shown s"
  "shown (s\<lparr>seen_operation_ids := ids\<rparr>) = shown s"
  "shown (s\<lparr>guest_ready := b\<rparr>) = shown s"
  "shown (s\<lparr>active := b\<rparr>) = shown s"
  "shown (s\<lparr>worker_heartbeat := b\<rparr>) = shown s"
  "shown (s\<lparr>state_revision := n\<rparr>) = shown s"
  "shown (s\<lparr>worker := b\<rparr>) = shown s"
  "shown (s\<lparr>worker_url := b\<rparr>) = shown s"
  "shown (s\<lparr>b_release := rel\<rparr>) = shown s"
  "shown (s\<lparr>b_grant := g\<rparr>) = shown s"
  "shown (s\<lparr>host_port := b\<rparr>) = shown s"
  "shown (s\<lparr>b_epoch := n\<rparr>) = shown s"
  "shown (s\<lparr>bind_listener := b\<rparr>) = shown s"
  "shown (s\<lparr>load_started := b\<rparr>) = shown s"
  "shown (s\<lparr>launching := l\<rparr>) = shown s"
  "shown (s\<lparr>initial_state := fs\<rparr>) = shown s"
  "shown (s\<lparr>b_locale := loc\<rparr>) = shown s"
  "shown (s\<lparr>b_theme := th\<rparr>) = shown s"
  "shown (s\<lparr>guest_message_times := xs\<rparr>) = shown s"
  "shown (s\<lparr>render_times := xs\<rparr>) = shown s"
  "shown (s\<lparr>expected_host_seq := n\<rparr>) = shown s"
  "shown (s\<lparr>state_stale := b\<rparr>) = shown s"
  "shown (s\<lparr>suspended := b\<rparr>) = shown s"
  "shown (s\<lparr>staging := b\<rparr>) = shown s"
  "shown (s\<lparr>boot_timer := b\<rparr>) = shown s"
  "shown (s\<lparr>render_timer := b\<rparr>) = shown s"
  "shown (s\<lparr>pending_probe := p\<rparr>) = shown s"
  "shown (s\<lparr>next_probe := n\<rparr>) = shown s"
  "shown (s\<lparr>missed_worker_heartbeats := m\<rparr>) = shown s"
  "shown (s\<lparr>b_instance := i\<rparr>) = shown s"
  "shown (s\<lparr>launch_generation := m\<rparr>) = shown s"
  "shown (s\<lparr>interaction_targets := ts\<rparr>) = shown s"
  by (intro ext | simp add: shown_def)+

lemma screen_ok_updates [simp]:
  "screen_ok (s\<lparr>guest_log := gs\<rparr>) = screen_ok s"
  "screen_ok (s\<lparr>outgoing_host_seq := n\<rparr>) = screen_ok s"
  "screen_ok (s\<lparr>subscriptions := names\<rparr>) = screen_ok s"
  "screen_ok (s\<lparr>outstanding_calls := calls\<rparr>) = screen_ok s"
  "screen_ok (s\<lparr>seen_operation_ids := ids\<rparr>) = screen_ok s"
  "screen_ok (s\<lparr>guest_ready := b\<rparr>) = screen_ok s"
  "screen_ok (s\<lparr>active := b\<rparr>) = screen_ok s"
  "screen_ok (s\<lparr>worker_heartbeat := b\<rparr>) = screen_ok s"
  "screen_ok (s\<lparr>state_revision := n\<rparr>) = screen_ok s"
  "screen_ok (s\<lparr>worker := b\<rparr>) = screen_ok s"
  "screen_ok (s\<lparr>worker_url := b\<rparr>) = screen_ok s"
  "screen_ok (s\<lparr>b_release := rel\<rparr>) = screen_ok s"
  "screen_ok (s\<lparr>b_grant := g\<rparr>) = screen_ok s"
  "screen_ok (s\<lparr>host_port := b\<rparr>) = screen_ok s"
  "screen_ok (s\<lparr>b_epoch := n\<rparr>) = screen_ok s"
  "screen_ok (s\<lparr>bind_listener := b\<rparr>) = screen_ok s"
  "screen_ok (s\<lparr>load_started := b\<rparr>) = screen_ok s"
  "screen_ok (s\<lparr>launching := l\<rparr>) = screen_ok s"
  "screen_ok (s\<lparr>initial_state := fs\<rparr>) = screen_ok s"
  "screen_ok (s\<lparr>b_locale := loc\<rparr>) = screen_ok s"
  "screen_ok (s\<lparr>b_theme := th\<rparr>) = screen_ok s"
  "screen_ok (s\<lparr>guest_message_times := xs\<rparr>) = screen_ok s"
  "screen_ok (s\<lparr>render_times := xs\<rparr>) = screen_ok s"
  "screen_ok (s\<lparr>expected_host_seq := n\<rparr>) = screen_ok s"
  "screen_ok (s\<lparr>state_stale := b\<rparr>) = screen_ok s"
  "screen_ok (s\<lparr>suspended := b\<rparr>) = screen_ok s"
  "screen_ok (s\<lparr>staging := b\<rparr>) = screen_ok s"
  "screen_ok (s\<lparr>boot_timer := b\<rparr>) = screen_ok s"
  "screen_ok (s\<lparr>render_timer := b\<rparr>) = screen_ok s"
  "screen_ok (s\<lparr>pending_probe := p\<rparr>) = screen_ok s"
  "screen_ok (s\<lparr>next_probe := n\<rparr>) = screen_ok s"
  "screen_ok (s\<lparr>missed_worker_heartbeats := m\<rparr>) = screen_ok s"
  "screen_ok (s\<lparr>b_instance := i\<rparr>) = screen_ok s"
  "screen_ok (s\<lparr>launch_generation := m\<rparr>) = screen_ok s"
  by (simp_all add: screen_ok_def)

lemma broker_ok_openI:
  assumes "\<not> closed s" "logs_ok s" "stoppable s" "calls_ok s" "wiring_ok s" "screen_ok s"
    "\<forall>name\<in>subscriptions s. granted_by (b_grant s) event_subscribe name"
  shows "broker_ok s"
  using assms by (simp add: broker_ok_def live_ok_def)

lemma broker_ok_openD:
  assumes "broker_ok s" "\<not> closed s"
  shows "logs_ok s" "stoppable s" "calls_ok s" "wiring_ok s" "screen_ok s"
    "\<forall>name\<in>subscriptions s. granted_by (b_grant s) event_subscribe name"
  using assms by (simp_all add: broker_ok_def live_ok_def)

text \<open>The fields the invariant does not read at all.\<close>

lemma broker_ok_update_free [simp]:
  "broker_ok (s\<lparr>guest_message_times := xs\<rparr>) = broker_ok s"
  "broker_ok (s\<lparr>render_times := xs\<rparr>) = broker_ok s"
  "broker_ok (s\<lparr>expected_host_seq := n\<rparr>) = broker_ok s"
  "broker_ok (s\<lparr>state_stale := b\<rparr>) = broker_ok s"
  "broker_ok (s\<lparr>suspended := b\<rparr>) = broker_ok s"
  "broker_ok (s\<lparr>staging := b\<rparr>) = broker_ok s"
  "broker_ok (s\<lparr>boot_timer := b\<rparr>) = broker_ok s"
  "broker_ok (s\<lparr>render_timer := b\<rparr>) = broker_ok s"
  "broker_ok (s\<lparr>pending_probe := p\<rparr>) = broker_ok s"
  "broker_ok (s\<lparr>next_probe := n\<rparr>) = broker_ok s"
  "broker_ok (s\<lparr>missed_worker_heartbeats := m\<rparr>) = broker_ok s"
  "broker_ok (s\<lparr>b_instance := i\<rparr>) = broker_ok s"
  "broker_ok (s\<lparr>launch_generation := m\<rparr>) = broker_ok s"
  "broker_ok (s\<lparr>state_revision := n\<rparr>) = broker_ok s"
  "broker_ok (s\<lparr>b_locale := loc\<rparr>) = broker_ok s"
  "broker_ok (s\<lparr>b_theme := th\<rparr>) = broker_ok s"
  "broker_ok (s\<lparr>worker_url := b\<rparr>) = broker_ok s"
  by (simp_all add: broker_ok_def live_ok_def closed_ok_def)

section \<open>Sending\<close>

text \<open>
  A message is plain when the invariant counts nothing in it: it starts no call, gives no credit,
  renders nothing and ends nothing.
\<close>

fun plain :: "host_message \<Rightarrow> bool" where
  "plain (CallStart _ _ _ _) = False"
| "plain (CallCredit _ _) = False"
| "plain (UiRender _ _) = False"
| "plain (RuntimeTerminated _) = False"
| "plain _ = True"

lemma plain_counts:
  assumes "plain m"
  shows "started_id m = None" "rendered_revision m = None" "credit_for i m = 0" "\<not> is_terminated m"
  using assms by (cases m; simp)+

lemma send_host_simps [simp]:
  "guest_log (send_host m s) = guest_log s" "b_grant (send_host m s) = b_grant s"
  "closed (send_host m s) = closed s" "worker (send_host m s) = worker s"
  "host_port (send_host m s) = host_port s" "launching (send_host m s) = launching s"
  "load_started (send_host m s) = load_started s" "initial_state (send_host m s) = initial_state s"
  "b_release (send_host m s) = b_release s"
  by (simp_all add: send_host_def)

lemma send_guest_simps [simp]:
  "host_log (send_guest m s) = host_log s" "b_grant (send_guest m s) = b_grant s"
  "closed (send_guest m s) = closed s" "worker (send_guest m s) = worker s"
  "host_port (send_guest m s) = host_port s" "launching (send_guest m s) = launching s"
  "load_started (send_guest m s) = load_started s" "initial_state (send_guest m s) = initial_state s"
  "b_release (send_guest m s) = b_release s"
  by (simp_all add: send_guest_def)

lemma send_closed [simp]: "closed s \<Longrightarrow> send_host m s = s" "closed s \<Longrightarrow> send_guest g s = s"
  by (simp_all add: send_host_def send_guest_def)

lemma sent_to_guest:
  "chunks (s\<lparr>guest_log := guest_log r @ [m]\<rparr>) = (\<lambda>i. chunks r i + chunk_for i m)"
  by (intro ext) (simp add: chunks_def)

lemma sent_to_host:
  "messages (s\<lparr>host_log := host_log r @ [e]\<rparr>) = messages r @ [out_message e]"
  "started (s\<lparr>host_log := host_log r @ [e]\<rparr>)
     = started r @ (case started_id (out_message e) of None \<Rightarrow> [] | Some i \<Rightarrow> [i])"
  "rendered (s\<lparr>host_log := host_log r @ [e]\<rparr>)
     = rendered r @ (case rendered_revision (out_message e) of None \<Rightarrow> [] | Some i \<Rightarrow> [i])"
  "credits (s\<lparr>host_log := host_log r @ [e]\<rparr>) = (\<lambda>i. credits r i + credit_for i (out_message e))"
  by (auto simp: log_defs List.map_filter_simps split: option.split)

lemma presented_sent: "presented sent i \<Longrightarrow> presented (sent @ later) i"
  by (force simp: presented_def)

lemma delivery_ok_sent: "delivery_ok g sent m \<Longrightarrow> delivery_ok g (sent @ later) m"
  by (cases m) (simp_all add: presented_sent)

lemma deliveries_sent:
  "list_all (delivery_ok g sent) ms \<Longrightarrow> list_all (delivery_ok g (sent @ later)) ms"
  by (auto simp: list_all_iff delivery_ok_sent)

lemma shown_sent:
  assumes "host_log s = host_log r" "shown s nid t"
  shows "shown (s\<lparr>host_log := host_log r @ [e]\<rparr>) nid t"
  using assms unfolding shown_def messages_def by fastforce

lemma broker_ok_send_guest:
  assumes ok: "broker_ok s" and m: "\<And>i. chunk_for i m = 0"
    and delivery: "delivery_ok (b_grant s) (messages s) m"
  shows "broker_ok (send_guest m s)"
proof (cases "closed s \<or> \<not> worker s")
  case True
  then show ?thesis using ok by (auto simp: send_guest_def)
next
  case False
  note parts = broker_ok_openD [OF ok] sent_to_guest m delivery
  have "logs_ok (s\<lparr>guest_log := guest_log s @ [m]\<rparr>)" "calls_ok (s\<lparr>guest_log := guest_log s @ [m]\<rparr>)"
    using parts False by (simp_all add: logs_ok_def calls_ok_def)
  then show ?thesis
    using False parts by (simp add: send_guest_def broker_ok_openI)
qed

lemma broker_ok_send_host:
  assumes ok: "broker_ok s" and m: "plain m" "effect_granted (b_grant s) m"
  shows "broker_ok (send_host m s)"
proof (cases "closed s \<or> \<not> host_port s")
  case True
  then show ?thesis using ok by (auto simp: send_host_def)
next
  case False
  note parts = broker_ok_openD [OF ok] and sent = sent_to_host plain_counts [OF m(1)] m(2) deliveries_sent
  have "logs_ok (send_host m s)"
    using parts(1,2) False by (simp add: send_host_def sent logs_ok_def stoppable_def)
  moreover have "stoppable (send_host m s)"
    using parts(2) False by (simp add: send_host_def sent stoppable_def)
  moreover have "calls_ok (send_host m s)"
    using parts(3) False by (simp add: send_host_def sent calls_ok_def)
  moreover have "screen_ok (send_host m s)"
    using parts(5) False by (simp add: send_host_def sent screen_ok_def shown_sent)
  ultimately show ?thesis
    using False parts by (intro broker_ok_openI) (simp_all add: send_host_def)
qed

section \<open>Termination\<close>

lemma terminate_ok:
  assumes "logs_ok s" "if closed s then closed_ok s else stoppable s"
  shows "broker_ok (terminate e s)"
proof (cases "closed s")
  case True
  then show ?thesis using assms by (simp add: terminate_def broker_ok_def)
next
  case False
  note open_facts = terminate_open [OF False, of e]
  have "stoppable s" using False assms(2) by simp
  have "logs_ok (terminate e s)"
    using assms(1) \<open>stoppable s\<close> open_facts
    by (cases "host_port s"; cases e) (auto simp: ok_defs log_defs deliveries_sent)
  moreover have "closed_ok (terminate e s)"
    using \<open>stoppable s\<close> open_facts
    by (cases "host_port s"; cases e) (auto simp: ok_defs log_defs)
  ultimately show ?thesis using open_facts(2) by (simp add: broker_ok_def)
qed

lemma or_terminate_ok: "outcome_ok out \<Longrightarrow> broker_ok (or_terminate out)"
  by (auto simp: or_terminate_def outcome_ok_def terminate_ok split: sum.splits prod.splits)

lemma broker_ok_terminate: "broker_ok s \<Longrightarrow> broker_ok (terminate e s)"
  by (rule terminate_ok) (auto simp: broker_ok_def live_ok_def)

section \<open>The updates of the guest's handlers\<close>

text \<open>A Worker runs only under a bound host, until the broker is closed.\<close>

lemma released_host_port: "broker_ok s \<Longrightarrow> \<not> closed s \<Longrightarrow> b_release s \<noteq> None \<Longrightarrow> host_port s"
  unfolding broker_ok_def live_ok_def wiring_ok_def logs_ok_def by metis

lemma worker_host_port: "broker_ok s \<Longrightarrow> \<not> closed s \<Longrightarrow> worker s \<Longrightarrow> host_port s"
  unfolding broker_ok_def live_ok_def wiring_ok_def logs_ok_def by metis

lemma broker_ok_render:
  assumes ok: "broker_ok s" and tree: "validate_ui_tree value media = Inr tree"
    and released: "b_release s \<noteq> None"
  shows "broker_ok (send_host (UiRender (render_revision s + 1) tree)
    (s\<lparr>render_revision := render_revision s + 1, interaction_targets := collect_interaction_targets tree,
       render_timer := False\<rparr>))" (is "broker_ok ?t")
proof (cases "closed s")
  case True
  then show ?thesis by (intro broker_ok_still [OF ok]) simp_all
next
  case False
  note parts = broker_ok_openD [OF ok False] and port = released_host_port [OF ok False released]
  have "logs_ok ?t"
    using parts(1,2,5) port False
    by (simp add: send_host_def sent_to_host deliveries_sent logs_ok_def stoppable_def screen_ok_def)
  moreover have "stoppable ?t"
    using parts(2) port False by (simp add: send_host_def sent_to_host stoppable_def)
  moreover have "calls_ok ?t"
    using parts(3) port False by (simp add: send_host_def sent_to_host calls_ok_def)
  moreover have "screen_ok ?t"
    using parts(5) port False collected_targets [OF tree]
    by (auto simp: send_host_def sent_to_host screen_ok_def shown_def)
  ultimately show ?thesis
    using parts False port by (intro broker_ok_openI) (simp_all add: send_host_def)
qed

lemma broker_ok_subscribe:
  assumes "broker_ok s" "granted_by (b_grant s) event_subscribe name"
  shows "broker_ok (s\<lparr>subscriptions := insert name (subscriptions s)\<rparr>)"
  using assms by (cases "closed s") (auto simp: broker_ok_closed broker_ok_open live_ok_def closed_ok_def)

lemma broker_ok_unsubscribe:
  assumes "broker_ok s"
  shows "broker_ok (s\<lparr>subscriptions := subscriptions s - {name}\<rparr>)"
  using assms by (cases "closed s") (auto simp: broker_ok_closed broker_ok_open live_ok_def closed_ok_def)

text \<open>The calls after one of them is started, changed or settled.\<close>

lemma map_of_AList_update [simp]: "map_of (AList.update k v al) = (map_of al)(k \<mapsto> v)"
  by (rule update_conv')

lemma map_of_AList_delete [simp]: "map_of (AList.delete k al) = (map_of al)(k := None)"
  by (rule delete_conv')

lemma credit_ok_update:
  assumes "credit_ok calls granted given" "0 \<le> call_credit call" "call_credit call \<le> 32"
    "call_credit call = granted' i - given' i" "\<And>j. j \<noteq> i \<Longrightarrow> granted' j = granted j \<and> given' j = given j"
  shows "credit_ok (calls(i \<mapsto> call)) granted' given'"
  using assms unfolding credit_ok_def by (metis fun_upd_apply option.inject)

lemma credit_ok_delete: "credit_ok calls granted given \<Longrightarrow> credit_ok (calls(i := None)) granted given"
  unfolding credit_ok_def by (metis fun_upd_apply option.distinct(1))

lemma broker_ok_call_start:
  assumes ok: "broker_ok s" and new: "i \<notin> seen_operation_ids s"
    and room: "length (outstanding_calls s) < 32" and granted: "granted_by (b_grant s) req_call name"
  shows "broker_ok (send_host (CallStart i name args deadline)
    (s\<lparr>seen_operation_ids := insert i (seen_operation_ids s),
       outstanding_calls := AList.update i \<lparr>call_accepted = False, call_credit = 0\<rparr>
         (outstanding_calls s)\<rparr>))" (is "broker_ok ?t")
proof (cases "closed s")
  case True
  then show ?thesis by (intro broker_ok_still [OF ok]) simp_all
next
  case False
  note parts = broker_ok_openD [OF ok False]
  have "logs_ok ?t"
    using parts(1,2,3) new False granted
    by (auto simp: send_host_def sent_to_host deliveries_sent logs_ok_def stoppable_def calls_ok_def)
  moreover have "stoppable ?t"
    using parts(2) False by (simp add: send_host_def sent_to_host stoppable_def)
  moreover have "calls_ok ?t"
    using parts(3) False new room
    by (auto simp: send_host_def sent_to_host calls_ok_def distinct_update dom_update length_AList_update
        intro!: credit_ok_update)
  moreover have "screen_ok ?t"
    using parts(5) False by (simp add: send_host_def sent_to_host screen_ok_def shown_sent)
  ultimately show ?thesis
    using parts False by (intro broker_ok_openI) (simp_all add: send_host_def)
qed

lemma known_call:
  assumes "calls_ok s" "map_of (outstanding_calls s) i = Some call"
  shows "i \<in> fst ` set (outstanding_calls s)" "i \<in> seen_operation_ids s"
    "0 \<le> call_credit call" "call_credit call \<le> 32" "call_credit call = credits s i - chunks s i"
proof -
  show mem: "i \<in> fst ` set (outstanding_calls s)"
    using map_of_SomeD [OF assms(2)] by force
  then show "i \<in> seen_operation_ids s"
    using assms(1) by (auto simp: calls_ok_def)
  have "credit_ok (map_of (outstanding_calls s)) (credits s) (chunks s)"
    using assms(1) by (simp add: calls_ok_def)
  then show "0 \<le> call_credit call" "call_credit call \<le> 32" "call_credit call = credits s i - chunks s i"
    using assms(2) unfolding credit_ok_def by blast+
qed

lemma broker_ok_call_credit:
  assumes ok: "broker_ok s" and call: "map_of (outstanding_calls s) i = Some call"
    and credit: "0 < c" "call_credit call + c \<le> 32" and released: "b_release s \<noteq> None"
  shows "broker_ok (send_host (CallCredit i c)
    (s\<lparr>outstanding_calls := AList.update i (call\<lparr>call_credit := call_credit call + c\<rparr>)
         (outstanding_calls s)\<rparr>))" (is "broker_ok ?t")
proof (cases "closed s")
  case True
  then show ?thesis by (intro broker_ok_still [OF ok]) simp_all
next
  case False
  note parts = broker_ok_openD [OF ok False] and port = released_host_port [OF ok False released]
  note known = known_call [OF parts(3) call]
  have "logs_ok ?t"
    using parts(1,2) port False credit
    by (auto simp: send_host_def sent_to_host deliveries_sent logs_ok_def stoppable_def intro: add_increasing2)
  moreover have "stoppable ?t"
    using parts(2) port False by (simp add: send_host_def sent_to_host stoppable_def)
  moreover have "calls_ok ?t"
    using parts(3) port False known credit
    by (auto simp: send_host_def sent_to_host calls_ok_def distinct_update dom_update length_AList_update
        intro!: credit_ok_update)
  moreover have "screen_ok ?t"
    using parts(5) False port by (simp add: send_host_def sent_to_host screen_ok_def shown_sent)
  ultimately show ?thesis
    using parts False by (intro broker_ok_openI) (simp_all add: send_host_def)
qed

lemma broker_ok_call_chunk:
  assumes ok: "broker_ok s" and call: "map_of (outstanding_calls s) i = Some call"
    and credit: "0 < call_credit call" and released: "worker s"
  shows "broker_ok (send_guest (GuestCallChunk i v)
    (s\<lparr>outstanding_calls := AList.update i (call\<lparr>call_credit := call_credit call - 1\<rparr>)
         (outstanding_calls s)\<rparr>))" (is "broker_ok ?t")
proof (cases "closed s")
  case True
  then show ?thesis by (intro broker_ok_still [OF ok]) simp_all
next
  case False
  note parts = broker_ok_openD [OF ok False]
  note known = known_call [OF parts(3) call]
  have "logs_ok ?t"
    using parts(1,2) False credit released known
    by (auto simp: send_guest_def sent_to_guest logs_ok_def stoppable_def)
  moreover have "calls_ok ?t"
    using parts(3) False known credit released
    by (auto simp: send_guest_def sent_to_guest calls_ok_def distinct_update dom_update length_AList_update
        intro!: credit_ok_update)
  ultimately show ?thesis
    using parts False released by (intro broker_ok_openI) (simp_all add: send_guest_def)
qed

lemma broker_ok_call_accepted:
  assumes ok: "broker_ok s" and call: "map_of (outstanding_calls s) i = Some call"
  shows "broker_ok (s\<lparr>outstanding_calls := AList.update i (call\<lparr>call_accepted := b\<rparr>)
         (outstanding_calls s)\<rparr>)" (is "broker_ok ?t")
proof (cases "closed s")
  case True
  then show ?thesis by (intro broker_ok_still [OF ok]) simp_all
next
  case False
  note parts = broker_ok_openD [OF ok False]
  note known = known_call [OF parts(3) call]
  have "calls_ok ?t"
    using parts(3) known
    by (auto simp: calls_ok_def distinct_update dom_update length_AList_update intro!: credit_ok_update)
  then show ?thesis using parts False by (intro broker_ok_openI) simp_all
qed

lemma broker_ok_settle [simp]:
  assumes ok: "broker_ok s"
  shows "broker_ok (settle i s)"
proof (cases "closed s")
  case True
  then show ?thesis by (intro broker_ok_still [OF ok]) (simp_all add: settle_def)
next
  case False
  note parts = broker_ok_openD [OF ok False]
  have "fst ` set (AList.delete i (outstanding_calls s)) \<subseteq> fst ` set (outstanding_calls s)"
    by (auto simp: AList.delete_eq)
  then have "calls_ok (settle i s)"
    using parts(3) length_AList_delete [of i "outstanding_calls s"]
    by (simp add: settle_def calls_ok_def distinct_delete credit_ok_delete) blast
  then show ?thesis
    using parts False by (intro broker_ok_openI) (simp_all add: settle_def)
qed

section \<open>The updates of the host's handlers\<close>

lemma wiring_ok_flags:
  assumes "wiring_ok s" "worker s"
  shows "wiring_ok (s\<lparr>active := a\<rparr>)" "wiring_ok (s\<lparr>guest_ready := b\<rparr>)"
    "wiring_ok (s\<lparr>worker_heartbeat := c\<rparr>)"
  using assms unfolding wiring_ok_def by auto

lemma wiring_ok_heartbeat_off: "wiring_ok s \<Longrightarrow> wiring_ok (s\<lparr>worker_heartbeat := False\<rparr>)"
  unfolding wiring_ok_def by auto

lemma broker_ok_worker_flags:
  assumes ok: "broker_ok s" and "worker s"
  shows "broker_ok (s\<lparr>active := a\<rparr>)" "broker_ok (s\<lparr>guest_ready := b\<rparr>)"
    "broker_ok (s\<lparr>worker_heartbeat := c\<rparr>)"
  using assms
  by (cases "closed s";
      simp add: broker_ok_closed broker_ok_open live_ok_def closed_ok_def wiring_ok_flags)+

lemma broker_ok_heartbeat_off [simp]: "broker_ok s \<Longrightarrow> broker_ok (s\<lparr>worker_heartbeat := False\<rparr>)"
  by (cases "closed s";
      simp add: broker_ok_closed broker_ok_open live_ok_def closed_ok_def wiring_ok_heartbeat_off)

section \<open>The guest's handlers\<close>

lemma granted_name_granted: "granted_name s record kind = Inr name \<Longrightarrow> granted_by (b_grant s) kind name"
  by (auto simp: granted_name_def granted_by_def bind_r_Inr_iff split: option.splits if_splits)

lemma positive_integer_pos: "positive_integer v = Inr n \<Longrightarrow> 0 < n"
  by (auto simp: positive_integer_def split: jsval.splits if_splits)

lemma validate_state_readable: "validate_state v g = Inr fs \<Longrightarrow> readable (Some g) fs"
  by (auto simp: validate_state_def readable_def granted_by_def list_all_iff bind_r_Inr_iff
      each_r_Inr_iff split: jsval.splits if_splits)

lemma state_for_grant_readable: "state_for_grant s v = Inr fs \<Longrightarrow> readable (b_grant s) fs"
  by (auto simp: state_for_grant_def validate_state_readable split: option.splits)

lemma load_readable:
  "validate_load_payload v = Inr load \<Longrightarrow> readable (Some (lp_grant load)) (lp_initial_state load)"
  by (auto simp: validate_load_payload_def res_simps validate_state_readable split: option.splits)

lemma patch_mutation_granted:
  "patch_mutation s v = Inr m \<Longrightarrow> granted_by (b_grant s) state_read (mutated_path m)"
  by (auto simp: patch_mutation_def granted_by_def bind_r_Inr_iff split: option.splits if_splits)

lemma patch_mutations_granted:
  assumes "map_r (patch_mutation s) vs = Inr ms"
  shows "list_all (\<lambda>m. granted_by (b_grant s) state_read (mutated_path m)) ms"
  using assms patch_mutation_granted
  by (fastforce simp: map_r_Inr_iff list_all_iff list_all2_iff in_set_conv_nth)

lemma shown_interaction:
  assumes "shown s nid t" "\<not> target_disabled t"
  shows "presented (messages s) \<lparr>int_render_revision = render_revision s, int_node_id = nid,
    int_handler = target_handler t, int_event = target_event t, int_value = v\<rparr>"
  using assms by (auto simp: shown_def presented_def)

lemma interaction_presented:
  assumes "broker_ok s" "\<not> closed s" "validate_interaction v s = Inr i"
  shows "presented (messages s) i"
proof -
  obtain t nid val where t: "interaction_targets s nid = Some t" "\<not> target_disabled t"
    and i: "i = \<lparr>int_render_revision = render_revision s, int_node_id = nid,
      int_handler = target_handler t, int_event = target_event t, int_value = val\<rparr>"
    using assms(3)
    by (auto simp: validate_interaction_def bind_r_Inr_iff split: option.splits if_splits)
  have "shown s nid t"
    using broker_ok_openD(5) [OF assms(1,2)] t(1) by (simp add: screen_ok_def)
  then show ?thesis
    unfolding i by (rule shown_interaction [OF _ t(2)])
qed

lemma initial_state_readable: "broker_ok s \<Longrightarrow> b_grant s \<noteq> None \<Longrightarrow> readable (b_grant s) (initial_state s)"
  by (simp add: broker_ok_def logs_ok_def)

declare outcome_ok_simps(2) [simp del]
declare broker_ok_throws [simp]

lemma handle_render_ok:
  assumes "broker_ok s" "b_release s \<noteq> None"
  shows "outcome_ok (handle_render payload now s)"
proof -
  let ?s = "s\<lparr>render_times := rate_window (render_times s) now\<rparr>"
  have ok: "broker_ok ?s" "b_release ?s \<noteq> None" using assms by simp_all
  show ?thesis
    unfolding handle_render_def Let_def
    using ok(1) broker_ok_render [OF ok(1) _ ok(2)]
    by (auto intro!: attempt_ok split: sum.split)
qed

lemma guest_pong_ok: "broker_ok s \<Longrightarrow> outcome_ok (guest_pong payload s)"
  unfolding guest_pong_def Let_def by (auto intro!: attempt_ok split: option.split)

lemma send_worker_probe_ok: "broker_ok s \<Longrightarrow> broker_ok (send_worker_probe s)"
  by (simp add: send_worker_probe_def broker_ok_send_guest)

lemma start_worker_watchdog_ok:
  assumes "broker_ok s" "worker s"
  shows "broker_ok (start_worker_watchdog s)"
  using assms
  by (auto simp: start_worker_watchdog_def intro!: broker_ok_worker_flags send_worker_probe_ok)
    (simp add: send_worker_probe_def)

lemma guest_ready_message_ok:
  assumes "broker_ok s" "worker s"
  shows "outcome_ok (guest_ready_message kind payload s)"
  unfolding guest_ready_message_def Let_def
  using assms
  by (auto intro!: attempt_ok broker_ok_send_host start_worker_watchdog_ok broker_ok_send_guest
      broker_ok_worker_flags broker_ok_throws split: option.split)
    (use initial_state_readable [OF assms(1)] in simp)

lemma guest_subscribe_ok: "broker_ok s \<Longrightarrow> outcome_ok (guest_subscribe b payload s)"
  unfolding guest_subscribe_def
  by (auto intro!: attempt_ok broker_ok_send_host broker_ok_subscribe broker_ok_unsubscribe)
    (erule granted_name_granted)+

lemma guest_publish_ok: "broker_ok s \<Longrightarrow> outcome_ok (guest_publish payload s)"
  unfolding guest_publish_def
  by (auto intro!: attempt_ok broker_ok_send_host) (erule granted_name_granted)

lemma guest_call_start_ok: "broker_ok s \<Longrightarrow> outcome_ok (guest_call_start payload s)"
  unfolding guest_call_start_def
  by (auto intro!: attempt_ok broker_ok_call_start) (erule granted_name_granted)

lemma guest_call_credit_ok:
  "broker_ok s \<Longrightarrow> b_release s \<noteq> None \<Longrightarrow> outcome_ok (guest_call_credit payload s)"
  unfolding guest_call_credit_def
  by (auto intro!: attempt_ok broker_ok_call_credit split: option.split)
    (erule positive_integer_pos)

lemma guest_call_cancel_ok: "broker_ok s \<Longrightarrow> outcome_ok (guest_call_cancel payload s)"
  unfolding guest_call_cancel_def
  by (auto intro!: attempt_ok broker_ok_send_host split: option.split)

lemma guest_log_write_ok: "broker_ok s \<Longrightarrow> outcome_ok (guest_log_write payload s)"
  unfolding guest_log_write_def Let_def
  by (auto intro!: attempt_ok broker_ok_send_host)

lemma guest_switch_ok:
  assumes "broker_ok s" "b_release s \<noteq> None"
  shows "outcome_ok (guest_switch kind payload now s)"
  using assms
  by (simp add: guest_switch_def handle_render_ok guest_subscribe_ok guest_publish_ok guest_call_start_ok
      guest_call_credit_ok guest_call_cancel_ok guest_log_write_ok)

text \<open>A release without a Worker is a closed broker: the launch failed.\<close>

lemma released_worker: "broker_ok s \<Longrightarrow> \<not> closed s \<Longrightarrow> b_release s \<noteq> None \<Longrightarrow> worker s"
  by (simp add: broker_ok_open live_ok_def wiring_ok_def)

lemma guest_ready_message_closed:
  assumes ok: "broker_ok s" and c: "closed s"
  shows "outcome_ok (guest_ready_message kind payload s)"
proof -
  have good: "broker_ok (f s)" if "closed (f s)" "host_log (f s) = host_log s" "guest_log (f s) = guest_log s"
    "b_grant (f s) = b_grant s" "launching (f s) = launching s" "load_started (f s) = load_started s"
    "initial_state (f s) = initial_state s" for f
    using broker_ok_still [OF ok c that(1)] that by simp
  have "start_worker_watchdog t = t" if "closed t" for t
    using that by (simp add: start_worker_watchdog_def)
  then show ?thesis
    unfolding guest_ready_message_def Let_def
    using ok c
    by (auto intro!: attempt_ok broker_ok_throws split: option.split) (rule good; simp)+
qed

lemma guest_message_body_ok:
  assumes ok: "broker_ok s" and rel: "b_release s \<noteq> None"
  shows "outcome_ok (guest_message_body data ports now s)"
proof -
  let ?s = "s\<lparr>guest_message_times := rate_window (guest_message_times s) now\<rparr>"
  have ok': "broker_ok ?s" "b_release ?s \<noteq> None" using assms by simp_all
  have ready: "outcome_ok (guest_ready_message kind payload ?s)" for kind payload
    using guest_ready_message_ok [OF ok'(1)] guest_ready_message_closed [OF ok'(1)]
      released_worker [OF ok'(1) _ ok'(2)] by blast
  show ?thesis
    unfolding guest_message_body_def Let_def
    using ok ok'(1) ready guest_switch_ok [OF ok'] guest_pong_ok [OF ok'(1)]
    by (auto intro!: attempt_ok)
qed

section \<open>The host's handlers\<close>

lemma host_activate_ok: "broker_ok s \<Longrightarrow> worker s \<Longrightarrow> outcome_ok (host_activate s)"
  unfolding host_activate_def
  by (auto intro!: broker_ok_send_host broker_ok_send_guest broker_ok_worker_flags)

lemma host_interaction_ok: "broker_ok s \<Longrightarrow> outcome_ok (host_interaction payload s)"
  unfolding host_interaction_def
  by (cases "closed s") (auto intro!: attempt_ok broker_ok_send_guest interaction_presented)

lemma host_snapshot_ok: "broker_ok s \<Longrightarrow> outcome_ok (host_snapshot payload s)"
  unfolding host_snapshot_def
  by (auto intro!: attempt_ok broker_ok_send_guest simp: state_for_grant_readable)

lemma host_patch_ok: "broker_ok s \<Longrightarrow> outcome_ok (host_patch payload s)"
  unfolding host_patch_def
  by (auto intro!: attempt_ok broker_ok_send_guest simp: patch_mutations_granted split: jsval.split)

lemma host_stale_ok: "broker_ok s \<Longrightarrow> outcome_ok (host_stale payload s)"
  unfolding host_stale_def Let_def by (auto intro!: attempt_ok broker_ok_send_guest)

lemma host_event_ok: "broker_ok s \<Longrightarrow> outcome_ok (host_event payload s)"
  unfolding host_event_def
  by (auto intro!: attempt_ok broker_ok_send_guest) (erule granted_name_granted)

lemma host_call_accepted_ok: "broker_ok s \<Longrightarrow> outcome_ok (host_call_accepted payload s)"
  unfolding host_call_accepted_def
  by (auto intro!: attempt_ok broker_ok_send_guest broker_ok_call_accepted split: option.split)

lemma host_call_chunk_ok: "broker_ok s \<Longrightarrow> worker s \<Longrightarrow> outcome_ok (host_call_chunk payload s)"
  unfolding host_call_chunk_def by (auto intro!: attempt_ok broker_ok_call_chunk split: option.split)

lemma host_call_result_ok: "broker_ok s \<Longrightarrow> outcome_ok (host_call_result payload s)"
  unfolding host_call_result_def by (auto intro!: attempt_ok broker_ok_send_guest)

lemma host_call_error_ok: "broker_ok s \<Longrightarrow> outcome_ok (host_call_error payload s)"
  unfolding host_call_error_def Let_def by (auto intro!: attempt_ok broker_ok_send_guest)

lemma host_call_outcome_unknown_ok: "broker_ok s \<Longrightarrow> outcome_ok (host_call_outcome_unknown payload s)"
  unfolding host_call_outcome_unknown_def Let_def by (auto intro!: attempt_ok broker_ok_send_guest)

lemma host_suspend_ok: "broker_ok s \<Longrightarrow> outcome_ok (host_suspend s)"
  unfolding host_suspend_def stop_worker_watchdog_def by (auto intro!: broker_ok_send_guest)

lemma host_resume_ok: "broker_ok s \<Longrightarrow> worker s \<Longrightarrow> outcome_ok (host_resume s)"
  unfolding host_resume_def by (auto intro!: start_worker_watchdog_ok broker_ok_send_guest)

lemmas host_handlers_ok = host_activate_ok host_interaction_ok host_snapshot_ok host_patch_ok host_stale_ok
  host_event_ok host_call_accepted_ok host_call_chunk_ok host_call_result_ok host_call_error_ok
  host_call_outcome_unknown_ok host_suspend_ok host_resume_ok

lemma host_switch_ok:
  assumes "broker_ok s" "worker s"
  shows "outcome_ok (host_switch kind payload s)"
  using assms by (simp add: host_switch_def host_handlers_ok broker_ok_send_host)

lemma broker_ok_loading:
  assumes ok: "broker_ok s" and fresh: "\<not> load_started s" and bound: "b_epoch s \<noteq> 0"
    and load: "readable (Some (lp_grant load)) (lp_initial_state load)"
  shows "broker_ok (s\<lparr>load_started := True, launch_generation := g, launching := Some (load, n)\<rparr>)"
proof (cases "closed s")
  case True
  then show ?thesis
    using ok fresh load by (auto simp: broker_ok_closed closed_ok_def logs_ok_def)
next
  case False
  have "wiring_ok (s\<lparr>load_started := True, launch_generation := g, launching := Some (load, n)\<rparr>)"
    using broker_ok_openD(4) [OF ok False] bound unfolding wiring_ok_def by auto
  moreover have "logs_ok (s\<lparr>load_started := True, launch_generation := g, launching := Some (load, n)\<rparr>)"
    using broker_ok_openD(1) [OF ok False] fresh load by (auto simp: logs_ok_def)
  ultimately show ?thesis
    using broker_ok_openD [OF ok False] False by (intro broker_ok_openI) simp_all
qed

lemma host_load_ok: "broker_ok s \<Longrightarrow> b_epoch s \<noteq> 0 \<Longrightarrow> outcome_ok (host_load payload s)"
  unfolding host_load_def by (auto intro!: attempt_ok broker_ok_loading load_readable)

lemma host_message_body_ok:
  assumes ok: "broker_ok s" and bound: "b_epoch s \<noteq> 0"
  shows "outcome_ok (host_message_body data ports s)"
proof -
  let ?s = "s\<lparr>expected_host_seq := expected_host_seq s + 1\<rparr>"
  have ok': "broker_ok ?s" "b_epoch ?s \<noteq> 0" using assms by simp_all
  have "broker_ok (terminate None (send_guest GuestDispose ?s))"
    using ok' by (auto intro!: broker_ok_terminate broker_ok_send_guest)
  then show ?thesis
    unfolding host_message_body_def Let_def
    using ok ok' host_load_ok [OF ok'] host_switch_ok [OF ok'(1)]
    by (auto intro!: attempt_ok)
qed

section \<open>Launching and binding\<close>

text \<open>What was sent before a grant was known stays granted under any grant.\<close>

lemma effect_granted_None: "effect_granted None m \<Longrightarrow> effect_granted g m"
  by (cases m) (simp_all add: granted_by_def)

lemma delivery_ok_None: "delivery_ok None ms m \<Longrightarrow> delivery_ok g ms m"
  by (cases m) (auto simp: granted_by_def readable_def list_all_iff)

lemma launched_logs_ok:
  assumes "logs_ok s" "launching s = None" "load_started s" "b_grant s = None" "readable (Some g) fs"
  shows "logs_ok (s\<lparr>b_grant := Some g, initial_state := fs\<rparr>)"
  using assms by (auto simp: logs_ok_def list_all_iff intro: effect_granted_None delivery_ok_None)

lemma launching_none_ok: "broker_ok s \<Longrightarrow> broker_ok (s\<lparr>launching := None\<rparr>)"
  by (cases "closed s")
    (auto simp: broker_ok_closed broker_ok_open live_ok_def closed_ok_def logs_ok_def)

lemma launched_state_ok:
  assumes ok: "broker_ok s" and idle: "launching s = None" "load_started s" "b_grant s = None"
    and readable: "readable (Some g) fs" and opened: "\<not> closed s"
  shows "broker_ok (s\<lparr>b_release := Some rel, b_grant := Some g, initial_state := fs, b_locale := loc,
    b_theme := th, state_revision := n, state_stale := b, staging := st, worker_url := u,
    worker := True, boot_timer := c\<rparr>)" (is "broker_ok ?t")
proof (rule broker_ok_openI)
  note parts = broker_ok_openD [OF ok opened]
  show "logs_ok ?t"
    using launched_logs_ok [OF parts(1) idle readable] idle by (simp add: logs_ok_def)
  show "wiring_ok ?t"
    using parts(4) idle unfolding wiring_ok_def by auto
  show "\<forall>name\<in>subscriptions ?t. granted_by (b_grant ?t) event_subscribe name"
    using parts(6) idle by (simp add: granted_by_def)
qed (use broker_ok_openD [OF ok opened] opened in simp_all)

lemma launch_body_ok:
  assumes ok: "broker_ok s" and idle: "launching s = None" "load_started s" "b_grant s = None"
    and readable: "readable (Some (lp_grant payload)) (lp_initial_state payload)"
  shows "outcome_ok (launch_body digest parse worker_ok payload generation s)"
proof (cases "closed s \<or> generation \<noteq> launch_generation s")
  case True
  then show ?thesis
    using ok unfolding launch_body_def by (auto intro!: attempt_ok)
next
  case False
  let ?s1 = "s\<lparr>b_release := Some (lp_release payload), b_grant := Some (lp_grant payload),
                  initial_state := lp_initial_state payload, b_locale := lp_locale payload,
                  b_theme := lp_theme payload, state_revision := lp_state_revision payload,
                  state_stale := False, staging := lp_staging payload, worker_url := True\<rparr>"
  have opened: "\<not> closed s" using False by simp
  have "logs_ok ?s1" "stoppable ?s1"
    using launched_logs_ok [OF broker_ok_openD(1) [OF ok opened] idle readable] broker_ok_openD(2) [OF ok opened] idle
    by (simp_all add: logs_ok_def)
  then have "outcome_ok (throws ThrownTypeError ?s1)"
    using opened by (simp add: outcome_ok_simps(2))
  moreover have "broker_ok (?s1\<lparr>worker := True, boot_timer := True\<rparr>)"
    by (rule launched_state_ok [OF ok idle readable opened])
  ultimately show ?thesis
    unfolding launch_body_def Let_def
    using ok False by (auto intro!: attempt_ok)
qed

lemma launch_continue_ok:
  assumes ok: "broker_ok s"
  shows "broker_ok (launch_continue digest parse worker_ok s)"
proof (cases "launching s")
  case None
  then show ?thesis using ok by (simp add: launch_continue_def)
next
  case (Some l)
  then have "load_started s" "b_grant s = None" "readable (Some (lp_grant (fst l))) (lp_initial_state (fst l))"
    using ok unfolding broker_ok_def logs_ok_def by (auto split: prod.splits)
  then show ?thesis
    using launch_body_ok [OF launching_none_ok [OF ok]] Some
    by (auto simp: launch_continue_def intro!: or_terminate_ok split: prod.split)
qed

lemma bind_state_ok:
  assumes ok: "broker_ok s" and free: "\<not> host_port s" and listening: "bind_listener s" and epoch: "0 < n"
  shows "broker_ok (s\<lparr>b_instance := i, b_epoch := n, host_port := True, bind_listener := False\<rparr>)"
proof (cases "closed s")
  case True
  then show ?thesis by (intro broker_ok_still [OF ok]) simp_all
next
  case False
  note parts = broker_ok_openD [OF ok False]
  have "wiring_ok (s\<lparr>b_instance := i, b_epoch := n, host_port := True, bind_listener := False\<rparr>)"
    using parts(4) epoch free unfolding wiring_ok_def by auto
  moreover have "stoppable (s\<lparr>b_instance := i, b_epoch := n, host_port := True, bind_listener := False\<rparr>)"
    using parts(2) by (simp add: stoppable_def)
  ultimately show ?thesis using parts False by (intro broker_ok_openI) simp_all
qed

lemma bind_body_ok:
  assumes "broker_ok s" "bind_listener s"
  shows "outcome_ok (bind_body data ports s)"
  unfolding bind_body_def Let_def
  using assms
  by (auto intro!: attempt_ok broker_ok_send_host bind_state_ok)
    (erule positive_integer_pos)

section \<open>The broker as a state machine\<close>

lemma heartbeat_tick_ok: "broker_ok s \<Longrightarrow> broker_ok (heartbeat_tick s)"
  by (simp add: heartbeat_tick_def Let_def broker_ok_terminate send_worker_probe_ok)

lemma broker_step_ok:
  assumes "broker_ok s"
  shows "broker_ok (broker_step digest parse e s)"
  using assms
  by (cases e)
    (simp_all add: bind_message_def handle_host_message_def handle_guest_message_def or_terminate_ok
      bind_body_ok host_message_body_ok guest_message_body_ok broker_ok_terminate launch_continue_ok
      heartbeat_tick_ok)

interpretation broker: event_machine "broker_step digest parse" broker_ok "initial_broker nonce"
  for digest parse nonce
  by unfold_locales (auto simp: broker_start broker_step_ok)

end
