(* ===== verification/Broker_Properties.thy ===== *)
theory Broker_Properties
  imports Broker_Steps Witnesses
begin

text \<open>
  The properties of the runtime broker. They hold after any sequence of events from the start of the
  frame, whatever the host page, the guest program, the digest and the timers do.
\<close>

section \<open>Rejected messages and closed brokers\<close>

text \<open>
  A handler that throws has sent nothing, and a handler that runs in a closed broker sends nothing
  and leaves it closed.
\<close>

definition same_logs :: "broker \<Rightarrow> broker \<Rightarrow> bool" where
  "same_logs s t \<longleftrightarrow> host_log t = host_log s \<and> guest_log t = guest_log s \<and> closed t = closed s
     \<and> host_port t = host_port s"

definition quiet :: "broker \<Rightarrow> outcome \<Rightarrow> bool" where
  "quiet s out \<longleftrightarrow> (case out of (Inl _, t) \<Rightarrow> same_logs s t | (Inr _, t) \<Rightarrow> closed s \<longrightarrow> same_logs s t)"

lemma quiet_simps [simp]:
  "quiet s (throws e t) \<longleftrightarrow> same_logs s t"
  "quiet s (returns t) \<longleftrightarrow> (closed s \<longrightarrow> same_logs s t)"
  by (simp_all add: quiet_def)

lemma quiet_attempt: "same_logs s t \<Longrightarrow> (\<And>x. r = Inr x \<Longrightarrow> quiet s (f x)) \<Longrightarrow> quiet s (attempt t r f)"
  by (auto simp: attempt_def split: sum.split)

lemma watchdog_closed [simp]: "closed s \<Longrightarrow> start_worker_watchdog s = s"
  by (simp add: start_worker_watchdog_def)

named_theorems handler_defs

lemmas [handler_defs] = handle_render_def guest_pong_def guest_ready_message_def guest_subscribe_def
  guest_publish_def guest_call_start_def guest_call_credit_def guest_call_cancel_def guest_log_write_def
  host_activate_def host_interaction_def host_snapshot_def host_patch_def host_stale_def host_event_def
  host_call_accepted_def host_call_chunk_def host_call_result_def host_call_error_def
  host_call_outcome_unknown_def host_suspend_def host_resume_def host_load_def Let_def

lemma handlers_quiet:
  "quiet s (handle_render payload now s)" "quiet s (guest_pong payload s)"
  "quiet s (guest_ready_message kind payload s)" "quiet s (guest_subscribe b payload s)"
  "quiet s (guest_publish payload s)" "quiet s (guest_call_start payload s)"
  "quiet s (guest_call_credit payload s)" "quiet s (guest_call_cancel payload s)"
  "quiet s (guest_log_write payload s)"
  "quiet s (host_activate s)" "quiet s (host_interaction payload s)" "quiet s (host_snapshot payload s)"
  "quiet s (host_patch payload s)" "quiet s (host_stale payload s)" "quiet s (host_event payload s)"
  "quiet s (host_call_accepted payload s)" "quiet s (host_call_chunk payload s)"
  "quiet s (host_call_result payload s)" "quiet s (host_call_error payload s)"
  "quiet s (host_call_outcome_unknown payload s)" "quiet s (host_suspend s)" "quiet s (host_resume s)"
  "quiet s (host_load payload s)"
  unfolding handler_defs
  by (auto intro!: quiet_attempt simp: same_logs_def settle_def stop_worker_watchdog_def
      split: sum.split option.split jsval.split)

lemma quiet_from: "quiet t out \<Longrightarrow> same_logs s t \<Longrightarrow> quiet s out"
  by (auto simp: quiet_def same_logs_def split: sum.splits prod.splits)

lemma guest_message_body_quiet: "quiet s (guest_message_body data ports now s)"
  unfolding guest_message_body_def guest_switch_def Let_def
  by (auto intro!: quiet_attempt handlers_quiet [THEN quiet_from] simp: same_logs_def)

lemma terminate_closed [simp]: "closed s \<Longrightarrow> terminate e s = s"
  by (simp add: terminate_def)

lemma host_message_body_quiet: "quiet s (host_message_body data ports s)"
  unfolding host_message_body_def host_switch_def Let_def
  by (auto intro!: quiet_attempt handlers_quiet [THEN quiet_from] simp: same_logs_def)

lemma launch_body_quiet: "quiet s (launch_body digest parse ok payload generation s)"
  unfolding launch_body_def Let_def by (auto intro!: quiet_attempt simp: same_logs_def)

lemma or_terminate_closed: "quiet s out \<Longrightarrow> closed s \<Longrightarrow> same_logs s (or_terminate out)"
  by (auto simp: quiet_def or_terminate_def same_logs_def split: sum.splits prod.splits)

lemma broker_step_closed:
  assumes "closed s"
  shows "same_logs s (broker_step digest parse e s)"
proof (cases e)
  case (LaunchContinues worker_ok)
  have "same_logs s (or_terminate (launch_body digest parse worker_ok payload generation (s\<lparr>launching := None\<rparr>)))"
    for payload generation
    using or_terminate_closed [OF launch_body_quiet, of "s\<lparr>launching := None\<rparr>"] assms
    by (simp add: same_logs_def)
  then show ?thesis
    by (auto simp: LaunchContinues launch_continue_def same_logs_def split: option.split)
qed (use assms in \<open>auto simp: same_logs_def bind_message_def handle_host_message_def
    handle_guest_message_def heartbeat_tick_def Let_def send_worker_probe_def
    or_terminate_closed [OF guest_message_body_quiet, unfolded same_logs_def]
    or_terminate_closed [OF host_message_body_quiet, unfolded same_logs_def]\<close>)

lemma broker_run_closed: "closed s \<Longrightarrow> same_logs s (broker_run digest parse es s)"
proof (induction es arbitrary: s)
  case Nil
  then show ?case by (simp add: broker_run_def same_logs_def)
next
  case (Cons e es)
  have step: "same_logs s (broker_step digest parse e s)" by (rule broker_step_closed [OF Cons.prems])
  then have "same_logs (broker_step digest parse e s) (broker_run digest parse es (broker_step digest parse e s))"
    using Cons by (simp add: same_logs_def)
  then show ?case using step by (simp add: broker_run_def same_logs_def)
qed

lemma broker_run_ok: "broker_ok (broker_run digest parse es (initial_broker nonce))"
  unfolding broker_run_def by (rule broker.run_ok)

lemma broker_run_logs: "logs_ok (broker_run digest parse es (initial_broker nonce))"
  using broker_run_ok broker_ok_def by blast

lemma listed_calls_ok:
  assumes "broker_ok s" "\<not> closed s"
  shows "length (outstanding_calls s) \<le> 32"
    "list_all (\<lambda>(i, call). 0 \<le> call_credit call \<and> call_credit call \<le> 32
       \<and> call_credit call = credits s i - chunks s i) (outstanding_calls s)"
proof -
  have calls: "calls_ok s" using broker_ok_openD(3) [OF assms] .
  then show "length (outstanding_calls s) \<le> 32" by (simp add: calls_ok_def)
  have "map_of (outstanding_calls s) i = Some call" if "(i, call) \<in> set (outstanding_calls s)" for i call
    using that calls by (simp add: calls_ok_def)
  then show "list_all (\<lambda>(i, call). 0 \<le> call_credit call \<and> call_credit call \<le> 32
       \<and> call_credit call = credits s i - chunks s i) (outstanding_calls s)"
    using known_call(3-5) [OF calls] unfolding list_all_iff by fast
qed

text \<open>The ticks of the heartbeat interval.\<close>

definition unanswered :: "nat \<Rightarrow> broker \<Rightarrow> bool" where
  "unanswered m s \<longleftrightarrow> worker_heartbeat s \<and> host_port s \<and> \<not> closed s
     \<and> pending_probe s \<noteq> None \<and> m \<le> missed_worker_heartbeats s"

definition given_up :: "broker \<Rightarrow> broker \<Rightarrow> bool" where
  "given_up s t \<longleftrightarrow> \<not> worker_heartbeat t \<and> closed t
     \<and> messages t = messages s @ [RuntimeError RuntimeUnresponsive, RuntimeTerminated (Some RuntimeUnresponsive)]"

lemma tick_unanswered:
  assumes "unanswered m s"
  shows "(m < 2 \<and> unanswered (Suc m) (broker_step digest parse HeartbeatTick s)
      \<and> messages (broker_step digest parse HeartbeatTick s) = messages s)
    \<or> given_up s (broker_step digest parse HeartbeatTick s)"
  using assms
  by (auto simp: unanswered_def given_up_def heartbeat_tick_def Let_def terminate_def cleanup_def send_host_def
      error_code_def messages_def)

definition ticks :: "(bytes \<Rightarrow> bytes) \<Rightarrow> script_parser \<Rightarrow> nat \<Rightarrow> broker \<Rightarrow> broker" where
  "ticks digest parse n s = broker_run digest parse (replicate n HeartbeatTick) s"

lemma ticks_simps [simp]:
  "ticks digest parse 0 s = s"
  "ticks digest parse (Suc n) s = ticks digest parse n (broker_step digest parse HeartbeatTick s)"
  by (simp_all add: ticks_def broker_run_def)

lemma ticks_stopped: "\<not> worker_heartbeat s \<Longrightarrow> ticks digest parse n s = s"
  by (induction n) simp_all

lemma ticks_unanswered:
  assumes "unanswered m s" "3 \<le> m + n" "0 < n"
  shows "given_up s (ticks digest parse n s)"
  using assms
proof (induction n arbitrary: m s)
  case 0
  then show ?case by simp
next
  case (Suc n)
  let ?t = "broker_step digest parse HeartbeatTick s"
  consider "m < 2" "unanswered (Suc m) ?t" "messages ?t = messages s" | "given_up s ?t"
    using tick_unanswered [OF Suc.prems(1), of digest parse] by blast
  then show ?case
  proof cases
    case 1
    with Suc.prems(2) have "given_up ?t (ticks digest parse n ?t)"
      by (intro Suc.IH [of "Suc m"]) simp_all
    with 1 show ?thesis by (simp add: given_up_def)
  next
    case 2
    then show ?thesis by (simp add: given_up_def ticks_stopped)
  qed
qed

section \<open>Properties\<close>

text \<open>
Property C1: A guest program reaches the host only through its grant. Whatever happened since the frame
  started, every event it subscribed to, every event it published and every call it started was of a name the
  capability grant of its release covers, at the time it was sent and now: the grant is set once and the
  broker checks every name against it.
\<close>

theorem only_granted_effects_leave_the_sandbox:
  "list_all (effect_granted (b_grant (broker_run digest parse es (initial_broker nonce))))
     (messages (broker_run digest parse es (initial_broker nonce)))"
  using broker_run_logs [of digest parse es nonce] by (simp add: logs_ok_def)

text \<open>
Property C4: The messages to the host are numbered 1, 2, 3 without a gap or a repetition, the trees the
  guest renders carry the revisions 1, 2, 3 in that order, and the termination notice, when there is one, is
  the last message.
\<close>

theorem host_messages_are_sequenced:
  "map out_seq (host_log (broker_run digest parse es (initial_broker nonce)))
     = map (\<lambda>k. int k + 1) [0..<length (host_log (broker_run digest parse es (initial_broker nonce)))]
   \<and> rendered (broker_run digest parse es (initial_broker nonce))
     = map (\<lambda>k. int k + 1) [0..<length (rendered (broker_run digest parse es (initial_broker nonce)))]
   \<and> list_all (\<lambda>m. \<not> is_terminated m) (butlast (messages (broker_run digest parse es (initial_broker nonce))))"
  (is "_ \<and> _ \<and> list_all _ (butlast (messages ?s))")
proof -
  have "list_all (\<lambda>m. \<not> is_terminated m) (butlast (messages ?s))"
    using broker_run_ok [of digest parse es nonce]
    by (cases "closed ?s")
      (auto simp: broker_ok_closed broker_ok_open live_ok_def closed_ok_def stoppable_def list_all_iff
        dest: in_set_butlastD)
  then show ?thesis
    using broker_run_logs [of digest parse es nonce] by (simp add: logs_ok_def counting_def)
qed

text \<open>
Property C2: The guest is only given what it may see. In every message posted to the Worker, a state
  snapshot and a patch name only state the grant reads, an event is of a name the grant subscribes to, and an
  interaction names a render revision the host was sent, an enabled control of that very tree, and that
  control's own handler and event.
\<close>

theorem guest_receives_only_what_it_may_see:
  "list_all (delivery_ok (b_grant (broker_run digest parse es (initial_broker nonce)))
       (messages (broker_run digest parse es (initial_broker nonce))))
     (guest_log (broker_run digest parse es (initial_broker nonce)))"
  using broker_run_logs [of digest parse es nonce] by (simp add: logs_ok_def)

text \<open>
Property C3: Calls are bounded and flow-controlled. Over the whole run no operation id is started twice
  and no call is given more chunks than the credit it was granted; while the broker is open at most 32 calls
  are outstanding, each started, and the credit recorded for each is what was granted less what was delivered, between
  0 and 32.
\<close>

theorem calls_are_flow_controlled:
  "distinct (started (broker_run digest parse es (initial_broker nonce)))
   \<and> (\<forall>i. chunks (broker_run digest parse es (initial_broker nonce)) i
          \<le> credits (broker_run digest parse es (initial_broker nonce)) i)
   \<and> (closed (broker_run digest parse es (initial_broker nonce)) \<or>
      length (outstanding_calls (broker_run digest parse es (initial_broker nonce))) \<le> 32
      \<and> list_all (\<lambda>(i, call). 0 \<le> call_credit call \<and> call_credit call \<le> 32
           \<and> call_credit call = credits (broker_run digest parse es (initial_broker nonce)) i
               - chunks (broker_run digest parse es (initial_broker nonce)) i)
         (outstanding_calls (broker_run digest parse es (initial_broker nonce))))"
  using broker_run_logs [of digest parse es nonce] listed_calls_ok [OF broker_run_ok [of digest parse es nonce]]
  by (auto simp: logs_ok_def)

text \<open>
Property C8: A terminated runtime is silent: once the broker is closed, no event whatsoever makes it post
  another message to the host or to the Worker, or opens it again.
\<close>

theorem closed_broker_is_silent:
  assumes "closed s"
  shows "host_log (broker_run digest parse es s) = host_log s
    \<and> guest_log (broker_run digest parse es s) = guest_log s
    \<and> closed (broker_run digest parse es s)"
  using broker_run_closed [OF assms, of digest parse es] assms by (simp add: same_logs_def)

theorem closed_broker_is_silent_witness:
  "host_log (broker_run (\<lambda>b. b) (\<lambda>_. undefined) [Disposed, HeartbeatTick] (terminate None (initial_broker [])))
     = host_log (terminate None (initial_broker []))"
  using closed_broker_is_silent [of "terminate None (initial_broker [])"]
  by (simp add: terminate_def Let_def cleanup_def initial_broker_def)

text \<open>
Property C7: A message the broker rejects has no effect but its error: when handling a message of the
  guest throws, what the host receives is exactly the error code and the termination notice with the same
  code, the Worker receives nothing, and the broker is closed.
\<close>

theorem rejected_guest_message_terminates:
  assumes "guest_message_body data ports now s = (Inl e, t)" "\<not> closed s" "host_port s"
  shows "messages (handle_guest_message data ports now s)
      = messages s @ [RuntimeError (error_code e), RuntimeTerminated (Some (error_code e))]
    \<and> guest_log (handle_guest_message data ports now s) = guest_log s
    \<and> closed (handle_guest_message data ports now s)"
proof -
  have same: "same_logs s t"
    using guest_message_body_quiet [of s data ports now] assms(1) by (simp add: quiet_def)
  then have "\<not> closed t" "host_port t" using assms by (auto simp: same_logs_def)
  then show ?thesis
    using same terminate_open [of t "Some e"]
    by (simp add: handle_guest_message_def assms(1) or_terminate_def same_logs_def messages_def)
qed

text \<open>
Property C5: The watchdog stops a Worker that no longer answers. Whatever probe is pending and however many
  were missed, four ticks of the heartbeat interval without a pong close the broker, and the host is told
  that the runtime is unresponsive.
\<close>

theorem watchdog_terminates_a_silent_worker:
  assumes "worker_heartbeat s" "worker s" "host_port s" "\<not> suspended s" "\<not> closed s"
  shows "closed (broker_run digest parse (replicate 4 HeartbeatTick) s)
    \<and> messages (broker_run digest parse (replicate 4 HeartbeatTick) s)
        = messages s @ [RuntimeError RuntimeUnresponsive, RuntimeTerminated (Some RuntimeUnresponsive)]"
proof (cases "pending_probe s")
  case None
  let ?t = "broker_step digest parse HeartbeatTick s"
  have "unanswered 0 ?t" "messages ?t = messages s"
    using assms None
    by (simp_all add: unanswered_def heartbeat_tick_def send_worker_probe_def send_guest_def messages_def)
  then have "given_up s (ticks digest parse 3 ?t)"
    using ticks_unanswered [of 0 ?t 3 digest parse] by (simp add: given_up_def)
  then have "given_up s (ticks digest parse 4 s)"
    using ticks_simps(2) [of digest parse 3 s] unfolding Suc_numeral by (simp only: add_num_simps)
  then show ?thesis by (simp add: given_up_def ticks_def del: replicate_Suc)
next
  case (Some p)
  then have "given_up s (ticks digest parse 4 s)"
    using assms by (intro ticks_unanswered [of 0]) (simp_all add: unanswered_def)
  then show ?thesis by (simp add: given_up_def ticks_def)
qed

text \<open>A Worker that was launched, has been probed and stays silent.\<close>

definition silent_broker :: broker where
  "silent_broker = (initial_broker [])\<lparr>host_port := True, worker := True, worker_heartbeat := True\<rparr>"

theorem watchdog_terminates_a_silent_worker_witness:
  "closed (broker_run (\<lambda>b. b) (\<lambda>_. undefined) (replicate 4 HeartbeatTick) silent_broker)"
  using watchdog_terminates_a_silent_worker [of silent_broker "\<lambda>b. b" "\<lambda>_. undefined"]
  by (simp add: silent_broker_def initial_broker_def)

theorem rejected_guest_message_terminates_witness:
  "closed (handle_guest_message JUndef 1 0 silent_broker)"
  using rejected_guest_message_terminates [of JUndef 1 0 silent_broker BridgeProtocolViolation silent_broker]
  by (simp add: guest_message_body_def silent_broker_def initial_broker_def)

text \<open>
Property C6: Only verified code runs. When the launch of a loaded release continues in an open broker, the
  Worker is created exactly when the artifact has the declared size and SHA-256 digest and passes the guest
  program check; otherwise nothing is created and the runtime is terminated.
\<close>

theorem worker_runs_only_verified_code:
  assumes "launching s = Some (load, launch_generation s)" "\<not> closed s" "\<not> worker s"
  shows "(worker (launch_continue digest parse True s)
      \<longleftrightarrow> artifact_matches digest (rel_size (lp_release load)) (rel_sha256 (lp_release load)) (lp_artifact load)
        \<and> validate_guest_program parse (lp_artifact load) = Inr ())
    \<and> (worker (launch_continue digest parse True s) \<or> closed (launch_continue digest parse True s))"
proof -
  let ?matches = "artifact_matches digest (rel_size (lp_release load)) (rel_sha256 (lp_release load)) (lp_artifact load)"
  have failed: "\<not> worker (terminate (Some e) t) \<and> closed (terminate (Some e) t)"
    if "\<not> closed t" for e t
    using that by (simp add: terminate_def Let_def cleanup_def)
  consider e where "verify_artifact_bytes digest (rel_size (lp_release load)) (rel_sha256 (lp_release load))
      (lp_artifact load) = Inl e" "\<not> ?matches"
    | e where "?matches" "validate_guest_program parse (lp_artifact load) = Inl e"
    | "?matches" "validate_guest_program parse (lp_artifact load) = Inr ()"
    using verify_artifact_bytes_Inr_iff
    by (cases "validate_guest_program parse (lp_artifact load)";
        cases "verify_artifact_bytes digest (rel_size (lp_release load)) (rel_sha256 (lp_release load))
          (lp_artifact load)") auto
  then show ?thesis
    using assms failed
    by cases (auto simp: launch_continue_def launch_body_def attempt_def or_terminate_def Let_def)
qed

definition demo_load :: load_payload where
  "demo_load = \<lparr>lp_release = \<lparr>rel_home_id = js ''h1'', rel_generation = 1, rel_release = js ''r1'',
       rel_sha256 = demo_sha, rel_size = int (length demo_program)\<rparr>,
     lp_grant = demo_requires, lp_initial_state = [], lp_state_revision = 1, lp_staging = False,
     lp_locale = js ''fr'', lp_theme = Light, lp_artifact = demo_program\<rparr>"

theorem worker_runs_only_verified_code_witness:
  "worker (launch_continue (\<lambda>_. replicate 32 0) demo_script True
     ((initial_broker [])\<lparr>launching := Some (demo_load, 0)\<rparr>))"
proof -
  have "artifact_matches (\<lambda>_. replicate 32 0) (int (length demo_program)) demo_sha demo_program"
    by (simp add: artifact_matches_def demo_sha_def demo_program_def)
  then show ?thesis
    using worker_runs_only_verified_code
      [of "(initial_broker [])\<lparr>launching := Some (demo_load, 0)\<rparr>" demo_load "\<lambda>_. replicate 32 0" demo_script]
    by (simp add: initial_broker_def demo_load_def demo_program_valid)
qed

section \<open>A race between suspension and the heartbeat\<close>

text \<open>
  Suspending the runtime forgets the pending probe, but the pong that answers it may already be under way:
  whatever pong arrives next, the right one included, is a protocol violation that terminates the runtime.
\<close>

lemma pong_after_suspension_terminates:
  assumes "host_suspend s = returns t" "\<not> closed t"
  shows "guest_pong payload t = throws BridgeProtocolViolation t"
    and "closed (or_terminate (guest_pong payload t))"
proof -
  have "pending_probe t = None"
    using assms(1) by (auto simp: host_suspend_def send_guest_def stop_worker_watchdog_def split: if_splits)
  then show pong: "guest_pong payload t = throws BridgeProtocolViolation t"
    by (simp add: guest_pong_def)
  show "closed (or_terminate (guest_pong payload t))"
    using assms(2) by (simp add: pong or_terminate_def terminate_def Let_def cleanup_def)
qed

end
