(* ===== verification/Codec_Values.thy ===== *)
theory Codec_Values
  imports Utf8
begin

text \<open>
  \<open>protocol/typescript/src/codec.ts\<close>, first part: the limits and opcodes of the wire protocol, its
  error kinds, the reading and writing of big-endian numbers (\<open>DataView\<close>), and the byte order of map
  keys.

  A protocol value is a \<open>jsval\<close> of \<open>Js_Value\<close>, read as a finite tree; a value that an encoder or a
  validator must reject (\<open>undefined\<close>, a hole of a sparse array, an instance of a class) is one too.
\<close>

named_theorems wire \<open>the numbers of the wire format\<close>

section \<open>Limits and errors\<close>

record wire_limits =
  frame_bytes :: nat
  wire_depth :: nat
  wire_values :: nat
  string_bytes :: nat
  binary_bytes :: nat
  array_items :: nat
  map_entries :: nat
  map_key_bytes :: nat
  state_paths_per_coordinator :: nat
  state_paths_per_home :: nat
  declarations_per_coordinator :: nat
  subscriptions_limit :: nat
  inflight_calls :: nat
  stream_credit :: int
  call_timeout_ms :: int

definition WIRE :: wire_limits where
  "WIRE = \<lparr>frame_bytes = 262144, wire_depth = 16, wire_values = 16384, string_bytes = 65536,
     binary_bytes = 131072, array_items = 4096, map_entries = 4096, map_key_bytes = 256,
     state_paths_per_coordinator = 4096, state_paths_per_home = 16384,
     declarations_per_coordinator = 1024, subscriptions_limit = 256, inflight_calls = 128,
     stream_credit = 32, call_timeout_ms = 300000\<rparr>"

lemma wire_limits_values [simp]:
  "frame_bytes WIRE = 262144" "wire_depth WIRE = 16" "wire_values WIRE = 16384"
  "string_bytes WIRE = 65536" "binary_bytes WIRE = 131072" "array_items WIRE = 4096"
  "map_entries WIRE = 4096" "map_key_bytes WIRE = 256" "state_paths_per_coordinator WIRE = 4096"
  "state_paths_per_home WIRE = 16384" "declarations_per_coordinator WIRE = 1024"
  "subscriptions_limit WIRE = 256" "inflight_calls WIRE = 128" "stream_credit WIRE = 32"
  "call_timeout_ms WIRE = 300000"
  by (simp_all add: WIRE_def)

text \<open>The \<open>kind\<close> of a \<open>ProtocolError\<close>; \<open>WireTypeError\<close> is an exception of another class.\<close>

datatype protocol_error =
    Malformed | NonCanonical | InvalidValue | LimitExceeded | UnknownOpcode | InvalidFrame
  | FrameTooLarge | WireTypeError

type_synonym 'a wire = "protocol_error + 'a"

section \<open>Sparse arrays\<close>

text \<open>The elements of an array that are present: holes are skipped, as \<open>forEach\<close> and \<open>map\<close> do.\<close>

fun present :: "'a option list \<Rightarrow> 'a list" where
  "present [] = []"
| "present (None # xs) = present xs"
| "present (Some x # xs) = x # present xs"

section \<open>Opcodes\<close>

datatype opcode =
    OpHello | OpWelcome | OpError | OpFatal | OpReauth | OpReauthOk | OpHomeStatus | OpGoaway
  | OpStateSync | OpStateSyncOk | OpStateDict | OpStateSnapshot | OpStatePatch | OpStateSet
  | OpStateSetOk | OpStateAclSync | OpStateAclOk | OpStateResync
  | OpEventSync | OpEventSyncOk | OpTopicDict | OpEventAclSync | OpEventAclOk | OpSubscribe
  | OpSubscribeOk | OpUnsubscribe | OpUnsubscribeOk | OpEvent
  | OpFunctionSync | OpFunctionSyncOk | OpFunctionDict | OpCall | OpCallDispatch | OpCallAccepted
  | OpCallResult | OpCallError | OpCallCancel | OpCallCredit
  | OpPresenceSnapshot | OpPresenceChange

fun opcode_value :: "opcode \<Rightarrow> int" where
  "opcode_value OpHello = 0x00"
| "opcode_value OpWelcome = 0x01"
| "opcode_value OpError = 0x02"
| "opcode_value OpFatal = 0x03"
| "opcode_value OpReauth = 0x04"
| "opcode_value OpReauthOk = 0x05"
| "opcode_value OpHomeStatus = 0x06"
| "opcode_value OpGoaway = 0x07"
| "opcode_value OpStateSync = 0x10"
| "opcode_value OpStateSyncOk = 0x11"
| "opcode_value OpStateDict = 0x12"
| "opcode_value OpStateSnapshot = 0x13"
| "opcode_value OpStatePatch = 0x14"
| "opcode_value OpStateSet = 0x15"
| "opcode_value OpStateSetOk = 0x16"
| "opcode_value OpStateAclSync = 0x17"
| "opcode_value OpStateAclOk = 0x18"
| "opcode_value OpStateResync = 0x19"
| "opcode_value OpEventSync = 0x20"
| "opcode_value OpEventSyncOk = 0x21"
| "opcode_value OpTopicDict = 0x22"
| "opcode_value OpEventAclSync = 0x23"
| "opcode_value OpEventAclOk = 0x24"
| "opcode_value OpSubscribe = 0x25"
| "opcode_value OpSubscribeOk = 0x26"
| "opcode_value OpUnsubscribe = 0x27"
| "opcode_value OpUnsubscribeOk = 0x28"
| "opcode_value OpEvent = 0x29"
| "opcode_value OpFunctionSync = 0x30"
| "opcode_value OpFunctionSyncOk = 0x31"
| "opcode_value OpFunctionDict = 0x32"
| "opcode_value OpCall = 0x33"
| "opcode_value OpCallDispatch = 0x34"
| "opcode_value OpCallAccepted = 0x35"
| "opcode_value OpCallResult = 0x36"
| "opcode_value OpCallError = 0x37"
| "opcode_value OpCallCancel = 0x38"
| "opcode_value OpCallCredit = 0x39"
| "opcode_value OpPresenceSnapshot = 0x40"
| "opcode_value OpPresenceChange = 0x41"

text \<open>\<open>Object.values(Opcode)\<close>: the opcodes in declaration order.\<close>

definition KNOWN_CORE_OPCODES :: "opcode list" where
  "KNOWN_CORE_OPCODES =
     [OpHello, OpWelcome, OpError, OpFatal, OpReauth, OpReauthOk, OpHomeStatus, OpGoaway,
      OpStateSync, OpStateSyncOk, OpStateDict, OpStateSnapshot, OpStatePatch, OpStateSet,
      OpStateSetOk, OpStateAclSync, OpStateAclOk, OpStateResync,
      OpEventSync, OpEventSyncOk, OpTopicDict, OpEventAclSync, OpEventAclOk, OpSubscribe,
      OpSubscribeOk, OpUnsubscribe, OpUnsubscribeOk, OpEvent,
      OpFunctionSync, OpFunctionSyncOk, OpFunctionDict, OpCall, OpCallDispatch, OpCallAccepted,
      OpCallResult, OpCallError, OpCallCancel, OpCallCredit,
      OpPresenceSnapshot, OpPresenceChange]"

text \<open>The \<open>case\<close> label an opcode number selects.\<close>

definition opcode_of :: "int \<Rightarrow> opcode option" where
  "opcode_of n = find (\<lambda>c. opcode_value c = n) KNOWN_CORE_OPCODES"

definition ERROR_CORRELATION_SOURCE_OPCODES :: "opcode list" where
  "ERROR_CORRELATION_SOURCE_OPCODES =
     [OpReauth, OpStateSync, OpStateSet, OpStateAclSync, OpStateResync, OpEventSync, OpEventAclSync,
      OpSubscribe, OpUnsubscribe, OpEvent, OpFunctionSync, OpCall, OpCallResult, OpCallError,
      OpCallCancel, OpCallCredit]"

definition KNOWN_CORE_ERROR_CODES :: "int list" where
  "KNOWN_CORE_ERROR_CODES =
     [1000, 1001, 1002, 1003, 1004, 1005, 1100, 1101, 1102, 1200, 1201, 1202, 1203,
      1300, 1301, 1302, 1303, 1304, 1305, 1400, 1401, 1402, 1403, 1404, 1405, 1500]"

definition APPLICATION_ERROR_CODE_MINIMUM :: int where
  "APPLICATION_ERROR_CODE_MINIMUM = 2000"

definition APPLICATION_ERROR_CODE_MAXIMUM :: int where
  "APPLICATION_ERROR_CODE_MAXIMUM = 2999"

lemma known_opcodes: "c \<in> set KNOWN_CORE_OPCODES"
  by (cases c) (simp_all add: KNOWN_CORE_OPCODES_def)

lemma opcode_values_distinct: "distinct (map opcode_value KNOWN_CORE_OPCODES)"
  by code_simp

lemma find_key: "distinct (map f xs) \<Longrightarrow> x \<in> set xs \<Longrightarrow> find (\<lambda>y. f y = f x) xs = Some x"
  by (induction xs) (auto simp: image_iff)

lemma opcode_of_value: "opcode_of (opcode_value c) = Some c"
  unfolding opcode_of_def by (rule find_key [OF opcode_values_distinct known_opcodes])

lemma opcode_of_Some_iff: "opcode_of n = Some c \<longleftrightarrow> opcode_value c = n"
proof
  assume "opcode_of n = Some c"
  then show "opcode_value c = n" by (auto simp: opcode_of_def find_Some_iff)
next
  assume "opcode_value c = n"
  then show "opcode_of n = Some c" using opcode_of_value [of c] by simp
qed

lemma opcode_value_inj: "opcode_value c = opcode_value d \<Longrightarrow> c = d"
  by (metis opcode_of_value option.inject)

lemma opcode_value_range: "0 \<le> opcode_value c" "opcode_value c < 0x80"
proof -
  have "list_all (\<lambda>c. 0 \<le> opcode_value c \<and> opcode_value c < 0x80) KNOWN_CORE_OPCODES" by code_simp
  then show "0 \<le> opcode_value c" "opcode_value c < 0x80" using known_opcodes [of c] by (auto simp: list_all_iff)
qed

section \<open>Big-endian numbers\<close>

text \<open>\<open>DataView.setUint16\<close> and its relatives write a number modulo \<open>2 ^ (8 * length)\<close>.\<close>

fun be_bytes :: "nat \<Rightarrow> int \<Rightarrow> bytes" where
  "be_bytes 0 i = []"
| "be_bytes (Suc n) i = word_of_int (i div 256 ^ n) # be_bytes n i"

text \<open>\<open>DataView.getUint16\<close> and its relatives.\<close>

definition be_nat :: "bytes \<Rightarrow> nat" where
  "be_nat bs = foldl (\<lambda>acc b. acc * 256 + unat b) 0 bs"

definition be_int :: "bytes \<Rightarrow> int" where
  "be_int bs =
     (let n = int (be_nat bs); m = 256 ^ length bs in if 2 * n < m then n else n - m)"

lemma length_be_bytes [simp]: "length (be_bytes n i) = n"
  by (induction n) auto

lemma be_bytes_simps [simp]:
  "be_bytes (Suc 0) i = [word_of_int i]"
  by simp

lemma foldl_be: "foldl (\<lambda>acc b. acc * 256 + unat b) a bs = a * 256 ^ length bs + be_nat bs" for bs :: bytes
proof (induction bs arbitrary: a rule: rev_induct)
  case (snoc b bs)
  show ?case using snoc [unfolded be_nat_def, of a] by (simp add: be_nat_def)
qed (simp add: be_nat_def)

lemma be_nat_simps [simp]:
  "be_nat [] = 0"
  "be_nat (b # bs) = unat b * 256 ^ length bs + be_nat bs"
  using foldl_be [of "unat b" bs] by (simp_all add: be_nat_def)

lemma be_nat_less: "be_nat bs < 256 ^ length bs"
proof (induction bs)
  case (Cons b bs)
  have "unat b * 256 ^ length bs + be_nat bs < (unat b + 1) * 256 ^ length bs"
    using Cons by (simp add: algebra_simps)
  also have "\<dots> \<le> 256 * 256 ^ length bs"
    by (rule mult_right_mono) (use unat_u8_less [of b] in linarith, simp)
  finally show ?case by simp
qed simp

lemma unat_word_of_int_u8: "unat (word_of_int i :: u8) = nat (i mod 256)"
  by (simp add: unat_eq_nat_uint uint_word_of_int)

lemma be_nat_be_bytes: "int (be_nat (be_bytes n i)) = i mod 256 ^ n"
proof (induction n)
  case (Suc n)
  have "i mod 256 ^ Suc n = i mod (256 ^ n * 256)" by (simp add: mult.commute)
  also have "\<dots> = 256 ^ n * (i div 256 ^ n mod 256) + i mod 256 ^ n"
    by (rule zmod_zmult2_eq) simp
  finally show ?case
    by (simp add: Suc unat_word_of_int_u8 mult.commute)
qed simp

lemma be_nat_be_bytes_small: "0 \<le> i \<Longrightarrow> i < 256 ^ n \<Longrightarrow> be_nat (be_bytes n i) = nat i"
  using be_nat_be_bytes [of n i] by simp

text \<open>A big-endian number determines its bytes.\<close>

lemma be_bytes_be_nat: "length bs = n \<Longrightarrow> be_bytes n (int (be_nat bs) + k * 256 ^ n) = bs"
proof (induction bs arbitrary: n k)
  case (Cons b bs)
  then obtain m where n: "n = Suc m" and m: "length bs = m" by auto
  define r where "r = int (be_nat bs)"
  have r: "0 \<le> r" "r < 256 ^ m" using be_nat_less [of bs] m by (simp_all add: r_def)
  define q where "q = int (unat b) + k * 256"
  have v: "int (be_nat (b # bs)) + k * 256 ^ n = r + q * 256 ^ m"
    by (simp add: n m r_def q_def algebra_simps)
  have "(r + q * 256 ^ m) div 256 ^ m = q" using r by simp
  moreover have "(word_of_int q :: u8) = b"
  proof -
    have zero: "(256 :: u8) = 0" by simp
    have "(word_of_int (k * 256) :: u8) = word_of_int k * 256" by simp
    then have "(word_of_int (k * 256) :: u8) = 0" by (simp only: zero mult_zero_right)
    then show ?thesis by (simp add: q_def wi_hom_add [symmetric])
  qed
  moreover have "be_bytes m (r + q * 256 ^ m) = bs" unfolding r_def by (rule Cons.IH [OF m])
  ultimately show ?case using v by (simp add: n del: be_nat_simps)
qed simp

lemma be_bytes_be_nat_0: "length bs = n \<Longrightarrow> be_bytes n (int (be_nat bs)) = bs"
  using be_bytes_be_nat [of bs n 0] by simp

lemma be_bytes_be_int: "length bs = n \<Longrightarrow> be_bytes n (be_int bs) = bs"
  using be_bytes_be_nat [of bs n 0] be_bytes_be_nat [of bs n "-1"] by (simp add: be_int_def Let_def)

section \<open>Doubles\<close>

text \<open>
  The number with a given IEEE-754 binary64 representation: sign, biased exponent and fraction.
\<close>

definition double_integer :: "bool \<Rightarrow> nat \<Rightarrow> nat \<Rightarrow> int option" where
  "double_integer negative exponent fraction =
     (let significand = 2 ^ 52 + fraction;
          signed = (\<lambda>n. if negative then - int n else int n)
      in if exponent = 0 then (if fraction = 0 \<and> \<not> negative then Some 0 else None)
         else if exponent \<ge> 1075 then Some (signed (significand * 2 ^ (exponent - 1075)))
         else if significand mod 2 ^ (1075 - exponent) = 0
         then Some (signed (significand div 2 ^ (1075 - exponent)))
         else None)"

definition double_of_bits :: "u64 \<Rightarrow> jnum" where
  "double_of_bits b =
     (let n = unat b; negative = 2 ^ 63 \<le> n; exponent = n div 2 ^ 52 mod 2 ^ 11; fraction = n mod 2 ^ 52
      in if exponent = 2047 then (if fraction = 0 then NInf negative else NNaN)
         else if exponent = 0 \<and> fraction = 0 \<and> negative then NNegZero
         else (case double_integer negative exponent fraction of Some i \<Rightarrow> NInt i | None \<Rightarrow> NFrac b))"

text \<open>A number of the model is a double: its fractional bit patterns are those of fractions.\<close>

fun is_double :: "jnum \<Rightarrow> bool" where
  "is_double (NFrac b) = (double_of_bits b = NFrac b)"
| "is_double _ = True"

lemma double_of_bits_NFrac: "double_of_bits b = NFrac c \<Longrightarrow> c = b"
  by (auto simp: double_of_bits_def Let_def split: if_splits option.splits)

section \<open>Byte order of keys\<close>

fun compare_bytes :: "bytes \<Rightarrow> bytes \<Rightarrow> int" where
  "compare_bytes (a # as) (b # bs) =
     (let difference = int (unat a) - int (unat b) in
      if difference \<noteq> 0 then difference else compare_bytes as bs)"
| "compare_bytes as bs = int (length as) - int (length bs)"

lemma compare_bytes_self [simp]: "compare_bytes a a = 0"
  by (induction a) (simp_all add: Let_def)

lemma compare_bytes_0_iff [simp]: "compare_bytes a b = 0 \<longleftrightarrow> a = b"
proof
  show "compare_bytes a b = 0 \<Longrightarrow> a = b"
    by (induction a b rule: compare_bytes.induct) (auto simp: Let_def word_uint_eq_iff split: if_splits)
qed simp

lemma compare_bytes_antisym: "0 < compare_bytes a b \<longleftrightarrow> compare_bytes b a < 0"
  by (induction a b rule: compare_bytes.induct) (auto simp: Let_def)

lemma compare_bytes_trans:
  "compare_bytes a b \<le> 0 \<Longrightarrow> compare_bytes b c \<le> 0 \<Longrightarrow> compare_bytes a c \<le> 0"
proof (induction a arbitrary: b c)
  case Nil
  then show ?case by (cases c) auto
next
  case (Cons x xs)
  then show ?case by (cases b; cases c) (auto simp: Let_def split: if_splits)
qed

text \<open>
  The keys of a map in the order of their UTF-8 bytes: a linear order, so that the library's sorting
  applies to them.
\<close>

datatype key_bytes = Key_Bytes (bytes_of: bytes)

instantiation key_bytes :: linorder
begin

definition less_eq_key_bytes :: "key_bytes \<Rightarrow> key_bytes \<Rightarrow> bool" where
  "less_eq_key_bytes a b \<longleftrightarrow> compare_bytes (bytes_of a) (bytes_of b) \<le> 0"

definition less_key_bytes :: "key_bytes \<Rightarrow> key_bytes \<Rightarrow> bool" where
  "less_key_bytes a b \<longleftrightarrow> compare_bytes (bytes_of a) (bytes_of b) < 0"

instance
proof
  fix x y z :: key_bytes
  note defs = less_eq_key_bytes_def less_key_bytes_def
  note anti = compare_bytes_antisym [of "bytes_of x" "bytes_of y"]
    compare_bytes_antisym [of "bytes_of y" "bytes_of x"]
  show "x < y \<longleftrightarrow> x \<le> y \<and> \<not> y \<le> x" using anti by (auto simp: defs)
  show "x \<le> x" by (simp add: defs)
  show "x \<le> y \<Longrightarrow> y \<le> z \<Longrightarrow> x \<le> z" by (simp add: defs compare_bytes_trans)
  show "x \<le> y \<Longrightarrow> y \<le> x \<Longrightarrow> x = y"
    using anti compare_bytes_0_iff [of "bytes_of x" "bytes_of y"]
    by (cases x; cases y) (auto simp: defs)
  show "x \<le> y \<or> y \<le> x" using anti by (auto simp: defs)
qed

end

end
