(* ===== verification/Codec_Scan.thy ===== *)
theory Codec_Scan
  imports Codec_Values
begin

text \<open>
  \<open>protocol/typescript/src/codec.ts\<close>, second part: \<open>scanValue\<close>, the check of the MessagePack bytes of a
  frame before they are decoded, and \<open>preflight\<close>.

  The mutable \<open>state.nodes\<close> is threaded through. The recursion is bounded by the nesting limit: a
  scanner for \<open>levels\<close> further levels is built from the one for \<open>levels - 1\<close>, and the depth the source
  counts upwards is \<open>LIMITS.depth + 1 - levels\<close>.
\<close>

section \<open>Atoms\<close>

datatype scan_kind =
    SNull | SBoolean | SInteger | SFloat | SString bytes jstr | SBinary | SArray | SMap

record scan_result =
  scan_end :: nat
  scanned :: scan_kind

definition ensure_available :: "bytes \<Rightarrow> nat \<Rightarrow> nat \<Rightarrow> unit wire" where
  "ensure_available input offset n = (if offset + n > length input then Inl Malformed else Inr ())"

definition view :: "bytes \<Rightarrow> nat \<Rightarrow> nat \<Rightarrow> bytes wire" where
  "view input offset n = bind_r (ensure_available input offset n) (\<lambda>_. Inr (take n (drop offset input)))"

definition scan_string :: "bytes \<Rightarrow> nat \<Rightarrow> nat \<Rightarrow> nat \<Rightarrow> scan_result wire" where
  "scan_string input start n next_offset =
     (if n > string_bytes WIRE then Inl LimitExceeded
      else bind_r (view input start n) (\<lambda>bs.
        case text_decode bs of
          None \<Rightarrow> Inl InvalidValue
        | Some s \<Rightarrow> Inr \<lparr>scan_end = next_offset + n, scanned = SString bs s\<rparr>))"

definition scan_binary :: "bytes \<Rightarrow> nat \<Rightarrow> nat \<Rightarrow> nat \<Rightarrow> scan_result wire" where
  "scan_binary input start n next_offset =
     (if n > binary_bytes WIRE then Inl LimitExceeded
      else bind_r (ensure_available input start n) (\<lambda>_.
        Inr \<lparr>scan_end = next_offset + n, scanned = SBinary\<rparr>))"

text \<open>A result that leaves the node count as it is.\<close>

definition atom :: "nat \<Rightarrow> scan_result wire \<Rightarrow> (scan_result \<times> nat) wire" where
  "atom nodes r = bind_r r (\<lambda>res. Inr (res, nodes))"

section \<open>Arrays and maps\<close>

type_synonym scanner = "nat \<Rightarrow> nat \<Rightarrow> (scan_result \<times> nat) wire"

fun scan_items :: "scanner \<Rightarrow> nat \<Rightarrow> nat \<Rightarrow> nat \<Rightarrow> (nat \<times> nat) wire" where
  "scan_items scan 0 cursor nodes = Inr (cursor, nodes)"
| "scan_items scan (Suc n) cursor nodes =
     bind_r (scan cursor nodes) (\<lambda>(r, nodes1). scan_items scan n (scan_end r) nodes1)"

definition scan_array :: "scanner \<Rightarrow> nat \<Rightarrow> nat \<Rightarrow> nat \<Rightarrow> (scan_result \<times> nat) wire" where
  "scan_array scan offset n nodes =
     (if n > array_items WIRE then Inl LimitExceeded
      else bind_r (scan_items scan n offset nodes) (\<lambda>(cursor, nodes1).
        Inr (\<lparr>scan_end = cursor, scanned = SArray\<rparr>, nodes1)))"

text \<open>The checks of a map key against the previous one.\<close>

definition scan_key :: "bytes option \<Rightarrow> scan_result \<Rightarrow> bytes wire" where
  "scan_key previous key =
     (case scanned key of
        SString bs s \<Rightarrow>
          (if length bs > map_key_bytes WIRE then Inl LimitExceeded
           else if s = js ''__proto__'' then Inl InvalidValue
           else (case previous of
               None \<Rightarrow> Inr bs
             | Some p \<Rightarrow>
                 (let order = compare_bytes p bs in
                  if order = 0 then Inl InvalidValue
                  else if order > 0 then Inl NonCanonical
                  else Inr bs)))
      | _ \<Rightarrow> Inl InvalidValue)"

fun scan_entries :: "scanner \<Rightarrow> bytes option \<Rightarrow> nat \<Rightarrow> nat \<Rightarrow> nat \<Rightarrow> (nat \<times> nat) wire" where
  "scan_entries scan previous 0 cursor nodes = Inr (cursor, nodes)"
| "scan_entries scan previous (Suc n) cursor nodes =
     bind_r (scan cursor nodes) (\<lambda>(key, nodes1).
     bind_r (scan_key previous key) (\<lambda>bs.
     bind_r (scan (scan_end key) nodes1) (\<lambda>(r, nodes2).
       scan_entries scan (Some bs) n (scan_end r) nodes2)))"

definition scan_map :: "scanner \<Rightarrow> nat \<Rightarrow> nat \<Rightarrow> nat \<Rightarrow> (scan_result \<times> nat) wire" where
  "scan_map scan offset n nodes =
     (if n > map_entries WIRE then Inl LimitExceeded
      else bind_r (scan_entries scan None n offset nodes) (\<lambda>(cursor, nodes1).
        Inr (\<lparr>scan_end = cursor, scanned = SMap\<rparr>, nodes1)))"

section \<open>Values\<close>

definition scan_float :: "bytes \<Rightarrow> nat \<Rightarrow> scan_result wire" where
  "scan_float input next_offset =
     bind_r (view input next_offset 8) (\<lambda>bs.
       let number = double_of_bits (of_nat (be_nat bs)) in
       if \<not> num_is_finite number \<or> number = NNegZero then Inl InvalidValue
       else if num_is_integer number then
         (if num_is_safe_integer number then Inl NonCanonical else Inl InvalidValue)
       else Inr \<lparr>scan_end = next_offset + 8, scanned = SFloat\<rparr>)"

text \<open>
  The unsigned and signed forms of \<open>n\<close> bytes; only those of 8 bytes can exceed the safe range.
\<close>

definition scan_unsigned :: "bytes \<Rightarrow> nat \<Rightarrow> nat \<Rightarrow> nat \<Rightarrow> scan_result wire" where
  "scan_unsigned input next_offset n shorter =
     bind_r (view input next_offset n) (\<lambda>bs.
       if be_nat bs \<le> shorter then Inl NonCanonical
       else if int (be_nat bs) > max_safe_integer then Inl InvalidValue
       else Inr \<lparr>scan_end = next_offset + n, scanned = SInteger\<rparr>)"

definition scan_signed :: "bytes \<Rightarrow> nat \<Rightarrow> nat \<Rightarrow> int \<Rightarrow> scan_result wire" where
  "scan_signed input next_offset n shorter =
     bind_r (view input next_offset n) (\<lambda>bs.
       if be_int bs \<ge> shorter then Inl NonCanonical
       else if be_int bs < - max_safe_integer then Inl InvalidValue
       else Inr \<lparr>scan_end = next_offset + n, scanned = SInteger\<rparr>)"

text \<open>A length of \<open>n\<close> bytes that must not fit the next shorter form.\<close>

definition with_length ::
  "bytes \<Rightarrow> nat \<Rightarrow> nat \<Rightarrow> nat \<Rightarrow> (nat \<Rightarrow> nat \<Rightarrow> 'a wire) \<Rightarrow> 'a wire" where
  "with_length input next_offset n shorter f =
     bind_r (view input next_offset n) (\<lambda>bs.
       if be_nat bs \<le> shorter then Inl NonCanonical else f (be_nat bs) (next_offset + n))"

text \<open>
  The 32-bit lengths of arrays and maps are compared with the item limit before they are compared
  with the shorter form.
\<close>

definition limited :: "nat \<Rightarrow> bytes \<Rightarrow> nat \<Rightarrow> 'a wire \<Rightarrow> 'a wire" where
  "limited maximum input next_offset r =
     bind_r (view input next_offset 4) (\<lambda>bs. if be_nat bs > maximum then Inl LimitExceeded else r)"

definition scan_marker :: "scanner \<Rightarrow> bytes \<Rightarrow> nat \<Rightarrow> nat \<Rightarrow> nat \<Rightarrow> (scan_result \<times> nat) wire" where
  "scan_marker scan input marker next_offset nodes =
     (if marker \<le> 0x7f \<or> marker \<ge> 0xe0 then Inr (\<lparr>scan_end = next_offset, scanned = SInteger\<rparr>, nodes)
      else if 0x80 \<le> marker \<and> marker \<le> 0x8f then scan_map scan next_offset (marker mod 0x10) nodes
      else if 0x90 \<le> marker \<and> marker \<le> 0x9f then scan_array scan next_offset (marker mod 0x10) nodes
      else if 0xa0 \<le> marker \<and> marker \<le> 0xbf
      then atom nodes (scan_string input next_offset (marker mod 0x20) next_offset)
      else if marker = 0xc0 then Inr (\<lparr>scan_end = next_offset, scanned = SNull\<rparr>, nodes)
      else if marker = 0xc1 then Inl Malformed
      else if marker = 0xc2 \<or> marker = 0xc3 then Inr (\<lparr>scan_end = next_offset, scanned = SBoolean\<rparr>, nodes)
      else if marker = 0xc4 then
        atom nodes (bind_r (view input next_offset 1) (\<lambda>bs.
          scan_binary input (next_offset + 1) (be_nat bs) (next_offset + 1)))
      else if marker = 0xc5 then
        atom nodes (with_length input next_offset 2 0xff (\<lambda>n next1. scan_binary input next1 n next1))
      else if marker = 0xc6 then
        atom nodes (with_length input next_offset 4 0xffff (\<lambda>n next1. scan_binary input next1 n next1))
      else if marker = 0xca then bind_r (ensure_available input next_offset 4) (\<lambda>_. Inl NonCanonical)
      else if marker = 0xcb then atom nodes (scan_float input next_offset)
      else if marker = 0xcc then atom nodes (scan_unsigned input next_offset 1 0x7f)
      else if marker = 0xcd then atom nodes (scan_unsigned input next_offset 2 0xff)
      else if marker = 0xce then atom nodes (scan_unsigned input next_offset 4 0xffff)
      else if marker = 0xcf then atom nodes (scan_unsigned input next_offset 8 0xffffffff)
      else if marker = 0xd0 then atom nodes (scan_signed input next_offset 1 (- 32))
      else if marker = 0xd1 then atom nodes (scan_signed input next_offset 2 (- 128))
      else if marker = 0xd2 then atom nodes (scan_signed input next_offset 4 (- 32768))
      else if marker = 0xd3 then atom nodes (scan_signed input next_offset 8 (- 2147483648))
      else if marker = 0xd9 then
        atom nodes (with_length input next_offset 1 31 (\<lambda>n next1. scan_string input next1 n next1))
      else if marker = 0xda then
        atom nodes (with_length input next_offset 2 0xff (\<lambda>n next1. scan_string input next1 n next1))
      else if marker = 0xdb then
        atom nodes (with_length input next_offset 4 0xffff (\<lambda>n next1. scan_string input next1 n next1))
      else if marker = 0xdc then
        with_length input next_offset 2 15 (\<lambda>n next1. scan_array scan next1 n nodes)
      else if marker = 0xdd then
        limited (array_items WIRE) input next_offset
          (with_length input next_offset 4 0xffff (\<lambda>n next1. scan_array scan next1 n nodes))
      else if marker = 0xde then
        with_length input next_offset 2 15 (\<lambda>n next1. scan_map scan next1 n nodes)
      else if marker = 0xdf then
        limited (map_entries WIRE) input next_offset
          (with_length input next_offset 4 0xffff (\<lambda>n next1. scan_map scan next1 n nodes))
      else if (0xc7 \<le> marker \<and> marker \<le> 0xc9) \<or> (0xd4 \<le> marker \<and> marker \<le> 0xd8)
      then Inl InvalidValue
      else Inl Malformed)"

primrec scan_at :: "nat \<Rightarrow> bytes \<Rightarrow> scanner" where
  "scan_at 0 input offset nodes = Inl LimitExceeded"
| "scan_at (Suc levels) input offset nodes =
     (let nodes1 = nodes + 1 in
      if nodes1 > wire_values WIRE then Inl LimitExceeded
      else bind_r (view input offset 1) (\<lambda>bs.
        scan_marker (scan_at levels input) input (be_nat bs) (offset + 1) nodes1))"

definition scan_value :: "bytes \<Rightarrow> nat \<Rightarrow> nat \<Rightarrow> nat \<Rightarrow> (scan_result \<times> nat) wire" where
  "scan_value input offset depth nodes = scan_at (wire_depth WIRE + 1 - depth) input offset nodes"

definition preflight :: "bytes \<Rightarrow> unit wire" where
  "preflight input =
     (if length input > frame_bytes WIRE then Inl FrameTooLarge
      else if length input < 2 then Inl Malformed
      else bind_r (scan_value input 1 1 0) (\<lambda>(result, nodes).
        if scanned result \<noteq> SArray then Inl InvalidFrame
        else if scan_end result \<noteq> length input then Inl Malformed
        else Inr ()))"

section \<open>Reading inside a longer input\<close>

lemma view_append [simp]:
  "length mid = n \<Longrightarrow> offset = length pre \<Longrightarrow> view (pre @ mid @ post) offset n = Inr mid"
  by (simp add: view_def ensure_available_def)

lemma view_Inr_iff: "view input offset n = Inr bs \<longleftrightarrow> offset + n \<le> length input \<and> bs = take n (drop offset input)"
  by (auto simp: view_def ensure_available_def)

lemma view_InrE:
  assumes "view input offset n = Inr bs"
  obtains pre post where "input = pre @ bs @ post" "length pre = offset" "length bs = n"
proof
  from assms have *: "offset + n \<le> length input" "bs = take n (drop offset input)" by (simp_all add: view_Inr_iff)
  show "input = take offset input @ bs @ drop n (drop offset input)" by (simp only: *(2) append_take_drop_id)
  show "length (take offset input) = offset" "length bs = n" using * by simp_all
qed

end
