(* ===== verification/Codec_Encode.thy ===== *)
theory Codec_Encode
  imports Codec_Scan
begin

text \<open>
  \<open>protocol/typescript/src/codec.ts\<close>, third part: \<open>encodeValue\<close>, the MessagePack encoder. The mutable
  \<open>state.nodes\<close> and \<open>state.bytes\<close> are threaded through; the recursion is bounded by the nesting limit as in
  \<open>Codec_Scan\<close>.
\<close>

section \<open>Atoms\<close>

record encode_state =
  enc_nodes :: nat
  enc_bytes :: nat

definition account_encoded_bytes :: "encode_state \<Rightarrow> nat \<Rightarrow> encode_state wire" where
  "account_encoded_bytes st n =
     (let st1 = st\<lparr>enc_bytes := enc_bytes st + n\<rparr> in
      if enc_bytes st1 > frame_bytes WIRE - 1 then Inl FrameTooLarge else Inr st1)"

definition encoded_atom :: "encode_state \<Rightarrow> bytes \<Rightarrow> (bytes \<times> encode_state) wire" where
  "encoded_atom st bs = bind_r (account_encoded_bytes st (length bs)) (\<lambda>st1. Inr (bs, st1))"

definition number_bytes :: "u8 \<Rightarrow> nat \<Rightarrow> int \<Rightarrow> bytes" where
  "number_bytes marker n i = marker # be_bytes n i"

definition encode_integer :: "int \<Rightarrow> bytes" where
  "encode_integer i =
     (if 0 \<le> i then
        (if i \<le> 0x7f then [word_of_int i]
         else if i \<le> 0xff then [0xcc, word_of_int i]
         else if i \<le> 0xffff then number_bytes 0xcd 2 i
         else if i \<le> 0xffffffff then number_bytes 0xce 4 i
         else number_bytes 0xcf 8 i)
      else if i \<ge> - 32 then [word_of_int (0x100 + i)]
      else if i \<ge> - 128 then number_bytes 0xd0 1 i
      else if i \<ge> - 32768 then number_bytes 0xd1 2 i
      else if i \<ge> - 2147483648 then number_bytes 0xd2 4 i
      else number_bytes 0xd3 8 i)"

text \<open>
  The fixed form is only available up to \<open>fixed_maximum\<close>: \<open>- 1\<close> for binaries, which have none.
\<close>

definition encode_length :: "nat \<Rightarrow> nat \<Rightarrow> int \<Rightarrow> u8 option \<Rightarrow> u8 \<Rightarrow> u8 \<Rightarrow> bytes" where
  "encode_length n fixed_base fixed_maximum marker8 marker16 marker32 =
     (if int n \<le> fixed_maximum then [of_nat (fixed_base + n)]
      else (case marker8 of
          Some m \<Rightarrow>
            (if n \<le> 0xff then [m, of_nat n]
             else if n \<le> 0xffff then number_bytes marker16 2 (int n)
             else number_bytes marker32 4 (int n))
        | None \<Rightarrow>
            (if n \<le> 0xffff then number_bytes marker16 2 (int n)
             else number_bytes marker32 4 (int n))))"

definition valid_utf8_string :: "jstr \<Rightarrow> nat \<Rightarrow> bytes wire" where
  "valid_utf8_string s maximum =
     (if has_unpaired_surrogate s then Inl InvalidValue
      else if length s > maximum then Inl LimitExceeded
      else if length (utf8_encode s) > maximum then Inl LimitExceeded
      else Inr (utf8_encode s))"

section \<open>Arrays and maps\<close>

type_synonym encoder = "jsval \<Rightarrow> encode_state \<Rightarrow> (bytes \<times> encode_state) wire"

text \<open>
  \<open>value.map(item => encodeValue(item, ...))\<close> skips the holes of a sparse array and leaves them in the
  result, where spreading the result into \<open>concat\<close> reads \<open>part.length\<close> of \<open>undefined\<close>.
\<close>

fun encode_items :: "encoder \<Rightarrow> jsval option list \<Rightarrow> encode_state \<Rightarrow> (bytes option list \<times> encode_state) wire" where
  "encode_items enc [] st = Inr ([], st)"
| "encode_items enc (None # items) st =
     bind_r (encode_items enc items st) (\<lambda>(parts, st1). Inr (None # parts, st1))"
| "encode_items enc (Some v # items) st =
     bind_r (enc v st) (\<lambda>(part, st1).
     bind_r (encode_items enc items st1) (\<lambda>(parts, st2). Inr (Some part # parts, st2)))"

definition concat_parts :: "bytes option list \<Rightarrow> bytes wire" where
  "concat_parts parts =
     (if None \<in> set parts then Inl WireTypeError else Inr (concat (present parts)))"

fun encode_entries :: "encoder \<Rightarrow> fields \<Rightarrow> encode_state \<Rightarrow> (bytes list \<times> encode_state) wire" where
  "encode_entries enc [] st = Inr ([], st)"
| "encode_entries enc ((key, child) # entries) st =
     (if key = js ''__proto__'' then Inl InvalidValue
      else bind_r (enc (JStr key) st) (\<lambda>(key_part, st1).
           if child = JUndef then Inl InvalidValue
           else bind_r (enc child st1) (\<lambda>(child_part, st2).
                bind_r (encode_entries enc entries st2) (\<lambda>(parts, st3).
                  Inr (key_part # child_part # parts, st3)))))"

text \<open>The properties of a plain object, sorted by the UTF-8 bytes of their names.\<close>

definition sorted_entries :: "fields \<Rightarrow> fields" where
  "sorted_entries fs = sort_key (\<lambda>(key, _). Key_Bytes (utf8_encode key)) fs"

section \<open>Values\<close>

primrec encode_at :: "nat \<Rightarrow> encoder" where
  "encode_at 0 value st = Inl LimitExceeded"
| "encode_at (Suc levels) value st =
     (let st = st\<lparr>enc_nodes := enc_nodes st + 1\<rparr> in
      if enc_nodes st > wire_values WIRE then Inl LimitExceeded
      else (case value of
          JNull \<Rightarrow> encoded_atom st [0xc0]
        | JBool b \<Rightarrow> encoded_atom st [if b then 0xc3 else 0xc2]
        | JNum n \<Rightarrow>
            (if \<not> num_is_finite n \<or> n = NNegZero then Inl InvalidValue
             else if num_is_integer n then
               (if \<not> num_is_safe_integer n then Inl InvalidValue
                else encoded_atom st (encode_integer (num_int n)))
             else (case n of
                 NFrac b \<Rightarrow> encoded_atom st (number_bytes 0xcb 8 (uint b))
               | _ \<Rightarrow> Inl InvalidValue))
        | JStr s \<Rightarrow>
            bind_r (valid_utf8_string s (string_bytes WIRE)) (\<lambda>encoded.
              let pre = encode_length (length encoded) 0xa0 31 (Some 0xd9) 0xda 0xdb in
              bind_r (account_encoded_bytes st (length pre + length encoded)) (\<lambda>st1.
                Inr (pre @ encoded, st1)))
        | JBytes bs \<Rightarrow>
            (if length bs > binary_bytes WIRE then Inl LimitExceeded
             else let pre = encode_length (length bs) 0 (- 1) (Some 0xc4) 0xc5 0xc6 in
               bind_r (account_encoded_bytes st (length pre + length bs)) (\<lambda>st1. Inr (pre @ bs, st1)))
        | JArr _ items _ \<Rightarrow>
            (if length items > array_items WIRE then Inl LimitExceeded
             else let pre = encode_length (length items) 0x90 15 None 0xdc 0xdd in
               bind_r (account_encoded_bytes st (length pre)) (\<lambda>st1.
               bind_r (encode_items (encode_at levels) items st1) (\<lambda>(parts, st2).
               bind_r (concat_parts parts) (\<lambda>encoded. Inr (pre @ encoded, st2)))))
        | JRec _ fs \<Rightarrow>
            (if length fs > map_entries WIRE then Inl LimitExceeded
             else bind_r (each_r (\<lambda>(key, _).
                      bind_r (valid_utf8_string key (map_key_bytes WIRE)) (\<lambda>_. Inr ())) fs) (\<lambda>_.
               let pre = encode_length (length fs) 0x80 15 None 0xde 0xdf in
               bind_r (account_encoded_bytes st (length pre)) (\<lambda>st1.
               bind_r (encode_entries (encode_at levels) (sorted_entries fs) st1) (\<lambda>(parts, st2).
                 Inr (concat (pre # parts), st2)))))
        | _ \<Rightarrow> Inl InvalidValue))"

definition encode_value :: "jsval \<Rightarrow> nat \<Rightarrow> encode_state \<Rightarrow> (bytes \<times> encode_state) wire" where
  "encode_value value depth st = encode_at (wire_depth WIRE + 1 - depth) value st"

end
