(* ===== verification/Codec_Frames.thy ===== *)
theory Codec_Frames
  imports Codec_Encode
begin

text \<open>
  \<open>protocol/typescript/src/codec.ts\<close>, fourth part: the field validators, \<open>validateFrame\<close> with one
  definition per opcode, \<open>encodeFrame\<close> and \<open>decodeFrame\<close>. The \<open>label\<close> arguments, which only build messages,
  are not modelled. The MessagePack decoder of the package \<open>@msgpack/msgpack\<close> is a parameter of
  \<open>decode_frame\<close>.
\<close>

section \<open>Arrays\<close>

type_synonym items = "jsval option list"

text \<open>\<open>fields[i]\<close>: \<open>undefined\<close> at a hole and out of range.\<close>

definition field :: "items \<Rightarrow> nat \<Rightarrow> jsval" where
  "field fs i = (if i < length fs then case_option JUndef id (fs ! i) else JUndef)"

definition as_array :: "jsval \<Rightarrow> nat \<Rightarrow> items wire" where
  "as_array value maximum =
     (case value of
        JArr _ items _ \<Rightarrow> (if length items > maximum then Inl InvalidFrame else Inr items)
      | _ \<Rightarrow> Inl InvalidFrame)"

definition exact_length :: "items \<Rightarrow> nat \<Rightarrow> items wire" where
  "exact_length items n = (if length items \<noteq> n then Inl InvalidFrame else Inr items)"

definition exact_tuple :: "jsval \<Rightarrow> nat \<Rightarrow> items wire" where
  "exact_tuple value n = bind_r (as_array value (array_items WIRE)) (\<lambda>tuple. exact_length tuple n)"

text \<open>\<open>exactTuple\<close> of the payload of a frame, which is an array.\<close>

definition payload_tuple :: "items \<Rightarrow> nat \<Rightarrow> items wire" where
  "payload_tuple payload n =
     (if length payload > array_items WIRE then Inl InvalidFrame else exact_length payload n)"

text \<open>The elements \<open>forEach\<close> visits: holes are skipped.\<close>

definition entries_of :: "items \<Rightarrow> jsval list" where
  "entries_of items = present items"

section \<open>Scalars\<close>

definition integer_in :: "jsval \<Rightarrow> int \<Rightarrow> int \<Rightarrow> int wire" where
  "integer_in value minimum maximum =
     (case value of
        JNum n \<Rightarrow>
          (if \<not> num_is_safe_integer n \<or> num_int n < minimum \<or> num_int n > maximum
           then Inl InvalidFrame else Inr (num_int n))
      | _ \<Rightarrow> Inl InvalidFrame)"

definition core_error_code :: "jsval \<Rightarrow> int wire" where
  "core_error_code value =
     bind_r (integer_in value 1 0xffff) (\<lambda>code.
       if code \<notin> set KNOWN_CORE_ERROR_CODES then Inl InvalidFrame else Inr code)"

definition call_error_code :: "jsval \<Rightarrow> int wire" where
  "call_error_code value =
     bind_r (integer_in value 1 0xffff) (\<lambda>code.
       let is_application =
             APPLICATION_ERROR_CODE_MINIMUM \<le> code \<and> code \<le> APPLICATION_ERROR_CODE_MAXIMUM
       in if code \<notin> set KNOWN_CORE_ERROR_CODES \<and> \<not> is_application then Inl InvalidFrame else Inr code)"

definition positive_id :: "jsval \<Rightarrow> int wire" where
  "positive_id value = integer_in value 1 max_safe_integer"

definition correlation_id_or_zero :: "jsval \<Rightarrow> int wire" where
  "correlation_id_or_zero value = integer_in value 0 max_safe_integer"

definition error_correlation :: "jsval \<Rightarrow> jsval \<Rightarrow> unit wire" where
  "error_correlation correlation_value source_value =
     bind_r (correlation_id_or_zero correlation_value) (\<lambda>correlation.
     bind_r (integer_in source_value 0 0xff) (\<lambda>source.
       if correlation = 0 then (if source \<noteq> 0 then Inl InvalidFrame else Inr ())
       else if source \<notin> opcode_value ` set ERROR_CORRELATION_SOURCE_OPCODES then Inl InvalidFrame
       else Inr ()))"

definition boolean_value :: "jsval \<Rightarrow> bool wire" where
  "boolean_value value = (case value of JBool b \<Rightarrow> Inr b | _ \<Rightarrow> Inl InvalidFrame)"

definition string_value :: "jsval \<Rightarrow> nat \<Rightarrow> nat \<Rightarrow> jstr wire" where
  "string_value value minimum maximum =
     (case value of
        JStr s \<Rightarrow>
          (if has_unpaired_surrogate s then Inl InvalidFrame
           else if length s > maximum then Inl InvalidFrame
           else if utf8_bytes s < minimum \<or> utf8_bytes s > maximum then Inl InvalidFrame
           else Inr s)
      | _ \<Rightarrow> Inl InvalidFrame)"

definition binary_value :: "jsval \<Rightarrow> nat \<Rightarrow> bytes wire" where
  "binary_value value n =
     (case value of JBytes bs \<Rightarrow> (if length bs \<noteq> n then Inl InvalidFrame else Inr bs) | _ \<Rightarrow> Inl InvalidFrame)"

definition nullable_string :: "jsval \<Rightarrow> nat \<Rightarrow> jstr option wire" where
  "nullable_string value maximum =
     (if value = JNull then Inr None else map_r_result Some (string_value value 1 maximum))"

definition opaque_id :: "jsval \<Rightarrow> jstr wire" where
  "opaque_id value =
     bind_r (string_value value 1 128) (\<lambda>s. if has_control s then Inl InvalidFrame else Inr s)"

definition coordinator_char :: "u16 \<Rightarrow> bool" where
  "coordinator_char u \<longleftrightarrow> is_letter u \<or> is_digit u \<or> u \<in> set (js ''._-'')"

definition coordinator_name :: "jsval \<Rightarrow> jstr wire" where
  "coordinator_name value =
     bind_r (string_value value 1 64) (\<lambda>s.
       if s \<noteq> [] \<and> (is_letter (hd s) \<or> is_digit (hd s)) \<and> list_all coordinator_char (tl s)
         \<and> length (tl s) \<le> 63
       then Inr s else Inl InvalidFrame)"

definition structured_name :: "jsval \<Rightarrow> jstr wire" where
  "structured_name value =
     bind_r (string_value value 1 256) (\<lambda>s.
       if has_control s \<or> jincludes s (js ''*'') \<or> starts_with s (js ''.'') \<or> ends_with s (js ''.'')
         \<or> jincludes s (js ''..'')
       then Inl InvalidFrame else Inr s)"

definition wire_pattern :: "jsval \<Rightarrow> jstr wire" where
  "wire_pattern value =
     bind_r (string_value value 1 256) (\<lambda>s.
     bind_r (structured_name (JStr (if ends_with s (js ''.*'') then drop_end 2 s else s))) (\<lambda>_. Inr s))"

definition epoch_id :: "jsval \<Rightarrow> unit wire" where
  "epoch_id value = bind_r (binary_value value 16) (\<lambda>_. Inr ())"

section \<open>Lists of entries\<close>

text \<open>
  \<open>entries.forEach\<close> with a \<open>Set\<close> of the keys seen: an entry yields its key and what is left to check,
  a key that was seen fails, and the rest of the entry is checked after the key was added.
\<close>

fun each_unique :: "('a \<Rightarrow> ('k \<times> 'b) wire) \<Rightarrow> ('b \<Rightarrow> unit wire) \<Rightarrow> 'k set \<Rightarrow> 'a list \<Rightarrow> unit wire" where
  "each_unique key rest seen [] = Inr ()"
| "each_unique key rest seen (x # xs) =
     bind_r (key x) (\<lambda>(k, y).
       if k \<in> seen then Inl InvalidFrame
       else bind_r (rest y) (\<lambda>_. each_unique key rest (insert k seen) xs))"

abbreviation ignored :: "'a wire \<Rightarrow> unit wire" where
  "ignored r \<equiv> bind_r r (\<lambda>_. Inr ())"

definition keyed :: "'k wire \<Rightarrow> 'b \<Rightarrow> ('k \<times> 'b) wire" where
  "keyed k y = bind_r k (\<lambda>x. Inr (x, y))"

definition unique_strings :: "items \<Rightarrow> (jsval \<Rightarrow> jstr wire) \<Rightarrow> unit wire" where
  "unique_strings values validator =
     each_unique (\<lambda>v. keyed (validator v) ()) (\<lambda>_. Inr ()) {} (entries_of values)"

definition unique_ids :: "items \<Rightarrow> unit wire" where
  "unique_ids values = each_unique (\<lambda>v. keyed (positive_id v) ()) (\<lambda>_. Inr ()) {} (entries_of values)"

definition coordinators :: "jsval \<Rightarrow> unit wire" where
  "coordinators value =
     bind_r (as_array value 64) (\<lambda>entries.
       each_unique
         (\<lambda>entry. bind_r (exact_tuple entry 3) (\<lambda>fs. keyed (coordinator_name (field fs 0)) fs))
         (\<lambda>fs. bind_r (positive_id (field fs 1)) (\<lambda>_. ignored (integer_in (field fs 2) 1 2)))
         {} (entries_of entries))"

fun dictionary_entries :: "int set \<Rightarrow> jstr set \<Rightarrow> jsval list \<Rightarrow> unit wire" where
  "dictionary_entries ids names [] = Inr ()"
| "dictionary_entries ids names (entry # entries) =
     bind_r (exact_tuple entry 2) (\<lambda>fs.
     bind_r (positive_id (field fs 0)) (\<lambda>i.
     bind_r (structured_name (field fs 1)) (\<lambda>name.
       if i \<in> ids \<or> name \<in> names then Inl InvalidFrame
       else dictionary_entries (insert i ids) (insert name names) entries)))"

definition dictionary :: "jsval \<Rightarrow> nat \<Rightarrow> unit wire" where
  "dictionary value maximum =
     bind_r (as_array value maximum) (\<lambda>entries. dictionary_entries {} {} (entries_of entries))"

definition mutation_key :: "jsval \<Rightarrow> (int \<times> items) wire" where
  "mutation_key entry =
     bind_r (as_array entry (array_items WIRE)) (\<lambda>fs.
       if length fs \<noteq> 2 \<and> length fs \<noteq> 3 then Inl InvalidFrame
       else keyed (positive_id (field fs 0)) fs)"

definition mutation_rest :: "items \<Rightarrow> unit wire" where
  "mutation_rest fs =
     bind_r (integer_in (field fs 1) 0 1) (\<lambda>operation.
       if (operation = 0 \<and> length fs \<noteq> 3) \<or> (operation = 1 \<and> length fs \<noteq> 2)
       then Inl InvalidFrame else Inr ())"

definition mutations :: "jsval \<Rightarrow> unit wire" where
  "mutations value =
     bind_r (as_array value (state_paths_per_coordinator WIRE)) (\<lambda>entries.
       each_unique mutation_key mutation_rest {} (entries_of entries))"

definition acl_patterns :: "jsval \<Rightarrow> unit wire" where
  "acl_patterns value =
     bind_r (as_array value (array_items WIRE)) (\<lambda>values. unique_strings values wire_pattern)"

definition call_target :: "jsval \<Rightarrow> jsval \<Rightarrow> unit wire" where
  "call_target kind_value target_value =
     bind_r (integer_in kind_value 0 2) (\<lambda>kind.
       if kind = 0 \<and> target_value \<noteq> JNull then Inl InvalidFrame
       else if kind = 1 then ignored (positive_id target_value)
       else if kind = 2 then ignored (coordinator_name target_value)
       else Inr ())"

definition principal :: "jsval \<Rightarrow> unit wire" where
  "principal value =
     bind_r (exact_tuple value 5) (\<lambda>fs.
     bind_r (integer_in (field fs 0) 1 3) (\<lambda>kind.
     bind_r (opaque_id (field fs 1)) (\<lambda>_.
     bind_r (positive_id (field fs 2)) (\<lambda>_.
     bind_r (if kind = 2 then ignored (coordinator_name (field fs 3))
             else if field fs 3 \<noteq> JNull then Inl InvalidFrame else Inr ()) (\<lambda>_.
       ignored (nullable_string (field fs 4) 320))))))"

definition subscription_payload :: "items \<Rightarrow> unit wire" where
  "subscription_payload payload =
     bind_r (payload_tuple payload 2) (\<lambda>fs.
     bind_r (positive_id (field fs 0)) (\<lambda>_.
     bind_r (as_array (field fs 1) (subscriptions_limit WIRE)) (\<lambda>ids. unique_ids ids)))"

section \<open>Session frames\<close>

definition hello_payload :: "items \<Rightarrow> unit wire" where
  "hello_payload payload =
     bind_r (payload_tuple payload 6) (\<lambda>fs.
     bind_r (integer_in (field fs 0) 0 0xff) (\<lambda>_.
     bind_r (integer_in (field fs 1) 0 0xff) (\<lambda>minimum.
     bind_r (integer_in (field fs 2) 0 0xff) (\<lambda>maximum.
       if minimum > maximum then Inl InvalidFrame
       else
         bind_r (integer_in (field fs 3) 1 3) (\<lambda>role.
         bind_r (string_value (field fs 4) 1 16384) (\<lambda>_.
         bind_r (as_array (field fs 5) (array_items WIRE)) (\<lambda>ctx.
           if role = 1 then
             bind_r (exact_length ctx 1) (\<lambda>role_fields. ignored (opaque_id (field role_fields 0)))
           else if role = 2 then
             bind_r (exact_length ctx 1) (\<lambda>role_fields. ignored (coordinator_name (field role_fields 0)))
           else if length ctx \<noteq> 0 then Inl InvalidFrame
           else Inr ())))))))"

definition welcome_payload :: "items \<Rightarrow> unit wire" where
  "welcome_payload payload =
     bind_r (payload_tuple payload 8) (\<lambda>fs.
     bind_r (integer_in (field fs 0) 0 0xff) (\<lambda>_.
     bind_r (integer_in (field fs 1) 0 0xff) (\<lambda>_.
     bind_r (positive_id (field fs 2)) (\<lambda>_.
     bind_r (epoch_id (field fs 3)) (\<lambda>_.
     bind_r (boolean_value (field fs 4)) (\<lambda>_.
     bind_r (coordinators (field fs 5)) (\<lambda>_.
     bind_r (exact_tuple (field fs 6) 4) (\<lambda>limits.
     bind_r (integer_in (field limits 0) 1 (int (frame_bytes WIRE))) (\<lambda>_.
     bind_r (integer_in (field limits 1) 1 (int (inflight_calls WIRE))) (\<lambda>_.
     bind_r (integer_in (field limits 2) 1 (int (subscriptions_limit WIRE))) (\<lambda>_.
     bind_r (integer_in (field limits 3) 1 1048576) (\<lambda>_.
       ignored (positive_id (field fs 7))))))))))))))"

definition error_payload :: "items \<Rightarrow> unit wire" where
  "error_payload payload =
     bind_r (payload_tuple payload 5) (\<lambda>fs.
     bind_r (error_correlation (field fs 0) (field fs 1)) (\<lambda>_.
     bind_r (core_error_code (field fs 2)) (\<lambda>_.
     bind_r (boolean_value (field fs 3)) (\<lambda>_.
       ignored (string_value (field fs 4) 1 256)))))"

definition fatal_payload :: "items \<Rightarrow> unit wire" where
  "fatal_payload payload =
     bind_r (payload_tuple payload 4) (\<lambda>fs.
     bind_r (integer_in (field fs 0) 0 0xff) (\<lambda>_.
     bind_r (core_error_code (field fs 1)) (\<lambda>_.
     bind_r (boolean_value (field fs 2)) (\<lambda>_.
       ignored (string_value (field fs 3) 1 256)))))"

definition reauth_payload :: "items \<Rightarrow> unit wire" where
  "reauth_payload payload =
     bind_r (payload_tuple payload 2) (\<lambda>fs.
     bind_r (positive_id (field fs 0)) (\<lambda>_. ignored (string_value (field fs 1) 1 16384)))"

definition reauth_ok_payload :: "items \<Rightarrow> unit wire" where
  "reauth_ok_payload payload =
     bind_r (payload_tuple payload 2) (\<lambda>fs.
     bind_r (positive_id (field fs 0)) (\<lambda>_. ignored (positive_id (field fs 1))))"

definition home_status_payload :: "items \<Rightarrow> unit wire" where
  "home_status_payload payload =
     bind_r (payload_tuple payload 2) (\<lambda>fs.
     bind_r (boolean_value (field fs 0)) (\<lambda>_. coordinators (field fs 1)))"

definition goaway_payload :: "items \<Rightarrow> unit wire" where
  "goaway_payload payload =
     bind_r (payload_tuple payload 2) (\<lambda>fs.
     bind_r (integer_in (field fs 0) 0 (call_timeout_ms WIRE)) (\<lambda>_.
       ignored (integer_in (field fs 1) 0 0xffff)))"

section \<open>State frames\<close>

definition state_sync_payload :: "items \<Rightarrow> unit wire" where
  "state_sync_payload payload =
     bind_r (payload_tuple payload 2) (\<lambda>fs.
     bind_r (positive_id (field fs 0)) (\<lambda>_.
     bind_r (as_array (field fs 1) (state_paths_per_coordinator WIRE)) (\<lambda>entries.
       each_unique
         (\<lambda>entry. bind_r (exact_tuple entry 2) (\<lambda>item. keyed (structured_name (field item 0)) ()))
         (\<lambda>_. Inr ()) {} (entries_of entries))))"

definition state_sync_ok_payload :: "items \<Rightarrow> unit wire" where
  "state_sync_ok_payload payload =
     bind_r (payload_tuple payload 4) (\<lambda>fs.
     bind_r (positive_id (field fs 0)) (\<lambda>_.
     bind_r (epoch_id (field fs 1)) (\<lambda>_.
     bind_r (positive_id (field fs 2)) (\<lambda>_.
       dictionary (field fs 3) (state_paths_per_coordinator WIRE)))))"

text \<open>\<open>STATE_DICT\<close>, \<open>TOPIC_DICT\<close> and \<open>FUNCTION_DICT\<close> differ in the labels only.\<close>

definition state_dict_payload :: "items \<Rightarrow> unit wire" where
  "state_dict_payload payload =
     bind_r (payload_tuple payload 3) (\<lambda>fs.
     bind_r (epoch_id (field fs 0)) (\<lambda>_.
     bind_r (boolean_value (field fs 1)) (\<lambda>_.
       dictionary (field fs 2) (state_paths_per_home WIRE))))"

text \<open>\<open>entries.map\<close> keeps the holes, which \<open>uniqueIds\<close> then skips.\<close>

definition snapshot_id :: "jsval option \<Rightarrow> jsval option wire" where
  "snapshot_id item =
     (case item of
        None \<Rightarrow> Inr None
      | Some entry \<Rightarrow> bind_r (exact_tuple entry 2) (\<lambda>fs. Inr (Some (field fs 0))))"

definition state_snapshot_payload :: "items \<Rightarrow> unit wire" where
  "state_snapshot_payload payload =
     bind_r (payload_tuple payload 3) (\<lambda>fs.
     bind_r (epoch_id (field fs 0)) (\<lambda>_.
     bind_r (positive_id (field fs 1)) (\<lambda>_.
     bind_r (as_array (field fs 2) (state_paths_per_home WIRE)) (\<lambda>entries.
     bind_r (map_r snapshot_id entries) (\<lambda>ids. unique_ids ids)))))"

definition state_patch_payload :: "items \<Rightarrow> unit wire" where
  "state_patch_payload payload =
     bind_r (payload_tuple payload 4) (\<lambda>fs.
     bind_r (epoch_id (field fs 0)) (\<lambda>_.
     bind_r (positive_id (field fs 1)) (\<lambda>base.
     bind_r (positive_id (field fs 2)) (\<lambda>revision.
       if revision \<le> base then Inl InvalidFrame else mutations (field fs 3)))))"

definition state_set_payload :: "items \<Rightarrow> unit wire" where
  "state_set_payload payload =
     bind_r (payload_tuple payload 3) (\<lambda>fs.
     bind_r (positive_id (field fs 0)) (\<lambda>_.
     bind_r (epoch_id (field fs 1)) (\<lambda>_. mutations (field fs 2))))"

definition state_set_ok_payload :: "items \<Rightarrow> unit wire" where
  "state_set_ok_payload payload =
     bind_r (payload_tuple payload 3) (\<lambda>fs.
     bind_r (positive_id (field fs 0)) (\<lambda>_.
     bind_r (epoch_id (field fs 1)) (\<lambda>_. ignored (positive_id (field fs 2)))))"

definition state_acl_sync_payload :: "items \<Rightarrow> unit wire" where
  "state_acl_sync_payload payload =
     bind_r (payload_tuple payload 2) (\<lambda>fs.
     bind_r (positive_id (field fs 0)) (\<lambda>_.
     bind_r (as_array (field fs 1) (declarations_per_coordinator WIRE)) (\<lambda>entries.
       each_unique
         (\<lambda>entry. bind_r (exact_tuple entry 2) (\<lambda>item. keyed (opaque_id (field item 0)) item))
         (\<lambda>item. acl_patterns (field item 1)) {} (entries_of entries))))"

definition state_acl_ok_payload :: "items \<Rightarrow> unit wire" where
  "state_acl_ok_payload payload =
     bind_r (payload_tuple payload 2) (\<lambda>fs.
     bind_r (positive_id (field fs 0)) (\<lambda>_. ignored (positive_id (field fs 1))))"

definition state_resync_payload :: "items \<Rightarrow> unit wire" where
  "state_resync_payload payload =
     bind_r (payload_tuple payload 1) (\<lambda>fs. ignored (positive_id (field fs 0)))"

section \<open>Event frames\<close>

definition event_sync_payload :: "items \<Rightarrow> unit wire" where
  "event_sync_payload payload =
     bind_r (payload_tuple payload 2) (\<lambda>fs.
     bind_r (positive_id (field fs 0)) (\<lambda>_.
     bind_r (as_array (field fs 1) (declarations_per_coordinator WIRE)) (\<lambda>entries.
       each_unique
         (\<lambda>entry. bind_r (exact_tuple entry 2) (\<lambda>item. keyed (structured_name (field item 0)) item))
         (\<lambda>item. ignored (integer_in (field item 1) 1 0x0f)) {} (entries_of entries))))"

definition event_sync_ok_payload :: "items \<Rightarrow> unit wire" where
  "event_sync_ok_payload payload =
     bind_r (payload_tuple payload 2) (\<lambda>fs.
     bind_r (positive_id (field fs 0)) (\<lambda>_.
       dictionary (field fs 1) (declarations_per_coordinator WIRE)))"

definition topic_dict_payload :: "items \<Rightarrow> unit wire" where
  "topic_dict_payload payload = state_dict_payload payload"

definition event_acl_sync_payload :: "items \<Rightarrow> unit wire" where
  "event_acl_sync_payload payload =
     bind_r (payload_tuple payload 2) (\<lambda>fs.
     bind_r (positive_id (field fs 0)) (\<lambda>_.
     bind_r (as_array (field fs 1) (declarations_per_coordinator WIRE)) (\<lambda>entries.
       each_unique
         (\<lambda>entry. bind_r (exact_tuple entry 3) (\<lambda>item. keyed (opaque_id (field item 0)) item))
         (\<lambda>item. bind_r (acl_patterns (field item 1)) (\<lambda>_. acl_patterns (field item 2)))
         {} (entries_of entries))))"

definition event_acl_ok_payload :: "items \<Rightarrow> unit wire" where
  "event_acl_ok_payload payload = state_acl_ok_payload payload"

definition event_payload :: "items \<Rightarrow> unit wire" where
  "event_payload payload =
     (if length payload \<noteq> 5 \<and> length payload \<noteq> 6 then Inl InvalidFrame
      else bind_r (positive_id (field payload 0)) (\<lambda>_.
           bind_r (positive_id (field payload 1)) (\<lambda>_.
           bind_r (call_target (field payload 2) (field payload 3)) (\<lambda>_.
             if length payload = 6 then principal (field payload 4) else Inr ()))))"

section \<open>Call frames\<close>

definition function_sync_payload :: "items \<Rightarrow> unit wire" where
  "function_sync_payload payload =
     bind_r (payload_tuple payload 2) (\<lambda>fs.
     bind_r (positive_id (field fs 0)) (\<lambda>_.
     bind_r (as_array (field fs 1) (declarations_per_coordinator WIRE)) (\<lambda>names.
       unique_strings names structured_name)))"

definition function_sync_ok_payload :: "items \<Rightarrow> unit wire" where
  "function_sync_ok_payload payload = event_sync_ok_payload payload"

definition function_dict_payload :: "items \<Rightarrow> unit wire" where
  "function_dict_payload payload = state_dict_payload payload"

definition call_payload :: "items \<Rightarrow> unit wire" where
  "call_payload payload =
     bind_r (payload_tuple payload 8) (\<lambda>fs.
     bind_r (positive_id (field fs 0)) (\<lambda>_.
     bind_r (call_target (field fs 1) (field fs 2)) (\<lambda>_.
     bind_r (positive_id (field fs 3)) (\<lambda>_.
     bind_r (integer_in (field fs 4) 1 (call_timeout_ms WIRE)) (\<lambda>_.
     bind_r (nullable_string (field fs 5) 128) (\<lambda>_.
       ignored (integer_in (field fs 6) 0 (stream_credit WIRE))))))))"

definition call_dispatch_payload :: "items \<Rightarrow> unit wire" where
  "call_dispatch_payload payload =
     bind_r (payload_tuple payload 9) (\<lambda>fs.
     bind_r (positive_id (field fs 0)) (\<lambda>_.
     bind_r (principal (field fs 1)) (\<lambda>_.
     bind_r (call_target (field fs 2) (field fs 3)) (\<lambda>_.
     bind_r (positive_id (field fs 4)) (\<lambda>_.
     bind_r (integer_in (field fs 5) 1 (call_timeout_ms WIRE)) (\<lambda>_.
     bind_r (nullable_string (field fs 6) 128) (\<lambda>_.
       ignored (integer_in (field fs 7) 0 (stream_credit WIRE)))))))))"

definition call_accepted_payload :: "items \<Rightarrow> unit wire" where
  "call_accepted_payload payload =
     bind_r (payload_tuple payload 1) (\<lambda>fs. ignored (positive_id (field fs 0)))"

definition call_result_payload :: "items \<Rightarrow> unit wire" where
  "call_result_payload payload =
     bind_r (payload_tuple payload 3) (\<lambda>fs.
     bind_r (positive_id (field fs 0)) (\<lambda>_. ignored (boolean_value (field fs 1))))"

definition call_error_payload :: "items \<Rightarrow> unit wire" where
  "call_error_payload payload =
     bind_r (payload_tuple payload 5) (\<lambda>fs.
     bind_r (positive_id (field fs 0)) (\<lambda>_.
     bind_r (call_error_code (field fs 1)) (\<lambda>_.
     bind_r (boolean_value (field fs 2)) (\<lambda>_.
       ignored (string_value (field fs 3) 1 256)))))"

definition call_cancel_payload :: "items \<Rightarrow> unit wire" where
  "call_cancel_payload payload =
     bind_r (payload_tuple payload 2) (\<lambda>fs.
     bind_r (positive_id (field fs 0)) (\<lambda>_. ignored (integer_in (field fs 1) 0 0xffff)))"

definition call_credit_payload :: "items \<Rightarrow> unit wire" where
  "call_credit_payload payload =
     bind_r (payload_tuple payload 2) (\<lambda>fs.
     bind_r (positive_id (field fs 0)) (\<lambda>_. ignored (integer_in (field fs 1) 1 (stream_credit WIRE))))"

section \<open>Presence frames\<close>

definition presence_snapshot_payload :: "items \<Rightarrow> unit wire" where
  "presence_snapshot_payload payload =
     bind_r (payload_tuple payload 1) (\<lambda>fs.
     bind_r (as_array (field fs 0) (array_items WIRE)) (\<lambda>entries.
       each_unique
         (\<lambda>entry. bind_r (exact_tuple entry 2) (\<lambda>item. keyed (positive_id (field item 0)) item))
         (\<lambda>item. ignored (opaque_id (field item 1))) {} (entries_of entries)))"

definition presence_change_payload :: "items \<Rightarrow> unit wire" where
  "presence_change_payload payload =
     bind_r (payload_tuple payload 3) (\<lambda>fs.
     bind_r (positive_id (field fs 0)) (\<lambda>_.
     bind_r (opaque_id (field fs 1)) (\<lambda>_. ignored (integer_in (field fs 2) 1 2))))"

section \<open>Frames\<close>

text \<open>The opcode of a frame to encode is any number; its payload is an array.\<close>

record frame =
  frame_opcode :: jnum
  frame_payload :: items

fun core_payload :: "opcode \<Rightarrow> items \<Rightarrow> unit wire" where
  "core_payload OpHello p = hello_payload p"
| "core_payload OpWelcome p = welcome_payload p"
| "core_payload OpError p = error_payload p"
| "core_payload OpFatal p = fatal_payload p"
| "core_payload OpReauth p = reauth_payload p"
| "core_payload OpReauthOk p = reauth_ok_payload p"
| "core_payload OpHomeStatus p = home_status_payload p"
| "core_payload OpGoaway p = goaway_payload p"
| "core_payload OpStateSync p = state_sync_payload p"
| "core_payload OpStateSyncOk p = state_sync_ok_payload p"
| "core_payload OpStateDict p = state_dict_payload p"
| "core_payload OpStateSnapshot p = state_snapshot_payload p"
| "core_payload OpStatePatch p = state_patch_payload p"
| "core_payload OpStateSet p = state_set_payload p"
| "core_payload OpStateSetOk p = state_set_ok_payload p"
| "core_payload OpStateAclSync p = state_acl_sync_payload p"
| "core_payload OpStateAclOk p = state_acl_ok_payload p"
| "core_payload OpStateResync p = state_resync_payload p"
| "core_payload OpEventSync p = event_sync_payload p"
| "core_payload OpEventSyncOk p = event_sync_ok_payload p"
| "core_payload OpTopicDict p = topic_dict_payload p"
| "core_payload OpEventAclSync p = event_acl_sync_payload p"
| "core_payload OpEventAclOk p = event_acl_ok_payload p"
| "core_payload OpSubscribe p = subscription_payload p"
| "core_payload OpSubscribeOk p = subscription_payload p"
| "core_payload OpUnsubscribe p = subscription_payload p"
| "core_payload OpUnsubscribeOk p = subscription_payload p"
| "core_payload OpEvent p = event_payload p"
| "core_payload OpFunctionSync p = function_sync_payload p"
| "core_payload OpFunctionSyncOk p = function_sync_ok_payload p"
| "core_payload OpFunctionDict p = function_dict_payload p"
| "core_payload OpCall p = call_payload p"
| "core_payload OpCallDispatch p = call_dispatch_payload p"
| "core_payload OpCallAccepted p = call_accepted_payload p"
| "core_payload OpCallResult p = call_result_payload p"
| "core_payload OpCallError p = call_error_payload p"
| "core_payload OpCallCancel p = call_cancel_payload p"
| "core_payload OpCallCredit p = call_credit_payload p"
| "core_payload OpPresenceSnapshot p = presence_snapshot_payload p"
| "core_payload OpPresenceChange p = presence_change_payload p"

definition validate_frame :: "frame \<Rightarrow> unit wire" where
  "validate_frame fr =
     (let n = num_int (frame_opcode fr) in
      if n \<ge> 0x80 then Inr ()
      else (case opcode_of n of
          None \<Rightarrow> Inl UnknownOpcode
        | Some code \<Rightarrow> core_payload code (frame_payload fr)))"

definition encode_frame :: "frame \<Rightarrow> bytes wire" where
  "encode_frame fr =
     (if \<not> num_is_integer (frame_opcode fr) \<or> num_int (frame_opcode fr) < 0
        \<or> num_int (frame_opcode fr) > 0xff
      then Inl UnknownOpcode
      else bind_r (validate_frame fr) (\<lambda>_.
           bind_r (encode_value (JArr 0 (frame_payload fr) []) 1 \<lparr>enc_nodes = 0, enc_bytes = 0\<rparr>)
             (\<lambda>(payload, st).
           let output = word_of_int (num_int (frame_opcode fr)) # payload in
           bind_r (preflight output) (\<lambda>_. Inr output))))"

definition decode_frame :: "(bytes \<Rightarrow> jsval option) \<Rightarrow> bytes \<Rightarrow> frame wire" where
  "decode_frame decode input =
     bind_r (preflight input) (\<lambda>_.
       let opcode = int (unat (hd input)) in
       if opcode < 0x80 \<and> opcode_of opcode = None then Inl UnknownOpcode
       else (case decode (tl input) of
           None \<Rightarrow> Inl Malformed
         | Some payload \<Rightarrow>
             bind_r (as_array payload (array_items WIRE)) (\<lambda>items.
               let fr = \<lparr>frame_opcode = NInt opcode, frame_payload = items\<rparr> in
               bind_r (validate_frame fr) (\<lambda>_. Inr fr))))"

end
