(* ===== verification/Codec_Round_Trip.thy ===== *)
theory Codec_Round_Trip
  imports Codec_Encode "HOL-Library.Multiset"
begin

text \<open>
  What \<open>encodeValue\<close> writes is what \<open>scanValue\<close> accepts: the bytes of an encoded value are scanned to
  their end with the kind of the value and the same node count, wherever they stand in the input.
\<close>

section \<open>Values an object graph can hold\<close>

text \<open>
  The properties of an object have distinct names, and a fraction is given by its bit pattern.
\<close>

fun wellformed :: "jsval \<Rightarrow> bool" where
  "wellformed (JNum n) = is_double n"
| "wellformed (JArr _ items _) = list_all (\<lambda>item. case item of None \<Rightarrow> True | Some v \<Rightarrow> wellformed v) items"
| "wellformed (JRec _ fs) = (distinct (map fst fs) \<and> list_all (\<lambda>(_, v). wellformed v) fs)"
| "wellformed _ = True"

text \<open>\<open>TextDecoder\<close> drops a leading byte order mark, which can make a key a reserved one.\<close>

definition BOM :: u16 where
  "BOM = 0xFEFF"

fun no_hidden_key :: "jsval \<Rightarrow> bool" where
  "no_hidden_key (JArr _ items _) =
     list_all (\<lambda>item. case item of None \<Rightarrow> True | Some v \<Rightarrow> no_hidden_key v) items"
| "no_hidden_key (JRec _ fs) =
     list_all (\<lambda>(k, v). k \<noteq> BOM # js ''__proto__'' \<and> no_hidden_key v) fs"
| "no_hidden_key _ = True"

section \<open>Strings\<close>

lemma utf8_encode_inj:
  assumes "utf8_encode s = utf8_encode t" "\<not> has_unpaired_surrogate s" "\<not> has_unpaired_surrogate t"
  shows "s = t"
proof -
  have "Some (code_points s) = Some (code_points t)"
    using assms(1) decode_points_utf8_encode [of s] decode_points_utf8_encode [of t] by simp
  then have "concat (map utf16_char (code_points s)) = concat (map utf16_char (code_points t))" by simp
  then show ?thesis using assms by (simp add: code_points_utf16)
qed

lemma code_points_Cons: "\<not> is_high_surrogate u \<Longrightarrow> \<not> is_low_surrogate u \<Longrightarrow> code_points (u # s) = unat u # code_points s"
  by (cases s) auto

lemma BOM_no_surrogate: "\<not> is_high_surrogate BOM" "\<not> is_low_surrogate BOM"
  by (simp_all add: BOM_def is_high_surrogate_def is_low_surrogate_def word_le_nat_alt)

lemma utf8_encode_BOM: "utf8_encode (BOM # s) = [0xEF, 0xBB, 0xBF] @ utf8_encode s"
  by (simp add: utf8_encode_def code_points_Cons BOM_no_surrogate) (simp add: BOM_def utf8_char_def)

lemma has_unpaired_BOM [simp]: "has_unpaired_surrogate (BOM # s) = has_unpaired_surrogate s"
  using BOM_no_surrogate by (cases s) auto

lemma utf8_encode_starts_BOM:
  assumes "take 3 (utf8_encode s) = [0xEF, 0xBB, 0xBF]" "\<not> has_unpaired_surrogate s"
  obtains t where "s = BOM # t"
proof -
  define bs where "bs = drop 3 (utf8_encode s)"
  have "utf8_encode s = [0xEF, 0xBB, 0xBF] @ bs"
    using assms(1) append_take_drop_id [of 3 "utf8_encode s"] by (simp add: bs_def)
  then have "decode_points (map unat ([0xEF, 0xBB, 0xBF] @ bs)) = Some (code_points s)"
    using decode_points_utf8_encode [of s] by simp
  then obtain cs where cs: "0xFEFF # cs = code_points s"
    by (auto simp: is_continuation_def Let_def split: if_splits)
  have "concat (map utf16_char (0xFEFF # cs)) = s" using code_points_utf16 [OF assms(2)] by (simp only: cs)
  then have "s = BOM # concat (map utf16_char cs)" by (simp add: utf16_char_def BOM_def)
  then show ?thesis by (rule that)
qed

definition drop_bom :: "jstr \<Rightarrow> jstr" where
  "drop_bom s = (if s \<noteq> [] \<and> hd s = BOM then tl s else s)"

lemma text_decode_utf8_encode:
  assumes "\<not> has_unpaired_surrogate s"
  shows "text_decode (utf8_encode s) = Some (drop_bom s)"
proof (cases "take 3 (utf8_encode s) = [0xEF, 0xBB, 0xBF]")
  case True
  then obtain t where s: "s = BOM # t" using assms by (rule utf8_encode_starts_BOM)
  then have "strip_bom (utf8_encode s) = utf8_encode t" by (simp add: utf8_encode_BOM strip_bom_def)
  then show ?thesis using assms s
    by (simp add: text_decode_def decode_points_utf8_encode code_points_utf16 drop_bom_def)
next
  case False
  have "drop_bom s = s"
  proof (rule ccontr)
    assume "drop_bom s \<noteq> s"
    then obtain t where "s = BOM # t" by (cases s) (auto simp: drop_bom_def split: if_splits)
    then show False using False by (simp add: utf8_encode_BOM)
  qed
  then show ?thesis using False assms
    by (simp add: text_decode_def strip_bom_def decode_points_utf8_encode code_points_utf16)
qed

lemma drop_bom_proto:
  "drop_bom s = js ''__proto__'' \<longleftrightarrow> s = js ''__proto__'' \<or> s = BOM # js ''__proto__''"
proof -
  have "hd (js ''__proto__'') \<noteq> BOM" by (simp add: js_def BOM_def)
  then show ?thesis by (cases s) (auto simp: drop_bom_def, metis list.sel(1))
qed

section \<open>Scanning a marker\<close>

lemma view_Suc [simp]:
  "length mid = n \<Longrightarrow> view (pre @ m # mid @ post) (Suc (length pre)) n = Inr mid"
  using view_append [of mid n "Suc (length pre)" "pre @ [m]" post] by simp

lemma view_marker [simp]: "view (pre @ m # rest) (length pre) (Suc 0) = Inr [m]"
  using view_append [of "[m]" 1 "length pre" pre rest] by simp

lemma scan_at_marker:
  assumes "nodes < 16384"
  shows "scan_at (Suc levels) (pre @ m # rest) (length pre) nodes =
    scan_marker (scan_at levels (pre @ m # rest)) (pre @ m # rest) (unat m) (Suc (length pre)) (Suc nodes)"
  using assms by (simp add: Let_def)

lemma atom_Inr [simp]: "atom nodes (Inr r) = Inr (r, nodes)"
  by (simp add: atom_def)

lemma unat_small_int: "0 \<le> i \<Longrightarrow> i < 256 \<Longrightarrow> unat (word_of_int i :: u8) = nat i"
  by (simp add: unat_word_of_int_u8)

lemma be_int_be_bytes:
  assumes "- (256 ^ n) \<le> 2 * i" "2 * i < 256 ^ n"
  shows "be_int (be_bytes n i) = i"
proof (cases "0 \<le> i")
  case True
  then have "i mod 256 ^ n = i" using assms by (intro mod_pos_pos_trivial) auto
  then show ?thesis using assms be_nat_be_bytes [of n i] by (simp add: be_int_def Let_def)
next
  case False
  have "i mod 256 ^ n = (i + 256 ^ n) mod 256 ^ n" by simp
  also have "\<dots> = i + 256 ^ n" using assms False by (intro mod_pos_pos_trivial) auto
  finally show ?thesis using assms be_nat_be_bytes [of n i] False by (simp add: be_int_def Let_def)
qed

lemma scan_unsigned_be:
  assumes "int shorter < i" "i \<le> max_safe_integer" "i < 256 ^ n"
  shows "scan_unsigned (pre @ m # be_bytes n i @ post) (Suc (length pre)) n shorter =
    Inr \<lparr>scan_end = Suc (length pre) + n, scanned = SInteger\<rparr>"
proof -
  have "be_nat (be_bytes n i) = nat i" by (rule be_nat_be_bytes_small) (use assms in auto)
  then show ?thesis using assms by (simp add: scan_unsigned_def)
qed

lemma scan_signed_be:
  assumes "i < shorter" "shorter \<le> 0" "- max_safe_integer \<le> i" "- (256 ^ n) \<le> 2 * i"
  shows "scan_signed (pre @ m # be_bytes n i @ post) (Suc (length pre)) n shorter =
    Inr \<lparr>scan_end = Suc (length pre) + n, scanned = SInteger\<rparr>"
proof -
  have "be_int (be_bytes n i) = i" by (rule be_int_be_bytes) (use assms in auto)
  then show ?thesis using assms by (simp add: scan_signed_def)
qed

lemmas scan_unsigned_be1 = scan_unsigned_be [where n = "Suc 0", simplified]
lemmas scan_signed_be1 = scan_signed_be [where n = "Suc 0", simplified]

lemma encode_integer_cases:
  obtains (fixed) "0 \<le> i" "i \<le> 0x7f" "encode_integer i = [word_of_int i]"
  | (u8) "0x7f < i" "i \<le> 0xff" "encode_integer i = 0xcc # be_bytes 1 i"
  | (u16) "0xff < i" "i \<le> 0xffff" "encode_integer i = 0xcd # be_bytes 2 i"
  | (u32) "0xffff < i" "i \<le> 0xffffffff" "encode_integer i = 0xce # be_bytes 4 i"
  | (u64) "0xffffffff < i" "encode_integer i = 0xcf # be_bytes 8 i"
  | (negative) "- 32 \<le> i" "i < 0" "encode_integer i = [word_of_int (256 + i)]"
  | (i8) "- 128 \<le> i" "i < - 32" "encode_integer i = 0xd0 # be_bytes 1 i"
  | (i16) "- 32768 \<le> i" "i < - 128" "encode_integer i = 0xd1 # be_bytes 2 i"
  | (i32) "- 2147483648 \<le> i" "i < - 32768" "encode_integer i = 0xd2 # be_bytes 4 i"
  | (i64) "i < - 2147483648" "encode_integer i = 0xd3 # be_bytes 8 i"
  unfolding encode_integer_def number_bytes_def by (cases "0 \<le> i") (force split: if_splits)+

lemma scan_integer:
  assumes "encode_integer i = m # rest" "- max_safe_integer \<le> i" "i \<le> max_safe_integer"
  shows "scan_marker scan (pre @ m # rest @ post) (unat m) (Suc (length pre)) nodes =
    Inr (\<lparr>scan_end = length pre + length (encode_integer i), scanned = SInteger\<rparr>, nodes)"
proof (cases i rule: encode_integer_cases)
  case fixed
  then show ?thesis using assms by (auto simp: scan_marker_def unat_small_int)
next
  case negative
  then have "m = word_of_int (256 + i)" "rest = []" using assms by simp_all
  moreover have "unat (word_of_int (256 + i) :: u8) = nat (256 + i)"
    using negative by (intro unat_small_int) auto
  moreover have "224 \<le> nat (256 + i)" using negative by linarith
  ultimately show ?thesis using negative by (simp add: scan_marker_def)
next
  case u8
  then have "m = 0xcc" "rest = [word_of_int i]" using assms by simp_all
  with u8 assms show ?thesis by (simp add: scan_marker_def scan_unsigned_be1)
next
  case u16
  then have "m = 0xcd" "rest = be_bytes 2 i" using assms by simp_all
  with u16 assms show ?thesis by (simp add: scan_marker_def scan_unsigned_be)
next
  case u32
  then have "m = 0xce" "rest = be_bytes 4 i" using assms by simp_all
  with u32 assms show ?thesis by (simp add: scan_marker_def scan_unsigned_be)
next
  case u64
  then have "m = 0xcf" "rest = be_bytes 8 i" using assms by simp_all
  moreover have "i < 256 ^ 8" using assms by (simp add: max_safe_integer_def)
  ultimately show ?thesis using u64 assms by (simp add: scan_marker_def scan_unsigned_be)
next
  case i8
  then have "m = 0xd0" "rest = [word_of_int i]" using assms by simp_all
  with i8 assms show ?thesis by (simp add: scan_marker_def scan_signed_be1)
next
  case i16
  then have "m = 0xd1" "rest = be_bytes 2 i" using assms by simp_all
  with i16 assms show ?thesis by (simp add: scan_marker_def scan_signed_be)
next
  case i32
  then have "m = 0xd2" "rest = be_bytes 4 i" using assms by simp_all
  with i32 assms show ?thesis by (simp add: scan_marker_def scan_signed_be)
next
  case i64
  then have "m = 0xd3" "rest = be_bytes 8 i" using assms by simp_all
  moreover have "- (256 ^ 8) \<le> 2 * i" using assms by (simp add: max_safe_integer_def)
  ultimately show ?thesis using i64 assms by (simp add: scan_marker_def scan_signed_be)
qed

lemma encode_integer_nonempty: "encode_integer i \<noteq> []"
  by (cases i rule: encode_integer_cases) simp_all

lemma double_of_number:
  assumes "is_double (NFrac b)"
  shows "double_of_bits (of_nat (be_nat (be_bytes 8 (uint b)))) = NFrac b"
proof -
  have "be_nat (be_bytes 8 (uint b)) = unat b"
    using be_nat_be_bytes_small [of "uint b" 8] uint_bounded [of b] by simp
  then show ?thesis using assms by simp
qed

lemma scan_double:
  assumes "is_double (NFrac b)"
  shows "scan_marker scan (pre @ 0xcb # be_bytes 8 (uint b) @ post) 0xcb (Suc (length pre)) nodes =
    Inr (\<lparr>scan_end = length pre + 9, scanned = SFloat\<rparr>, nodes)"
  using double_of_number [OF assms] by (simp add: scan_marker_def scan_float_def Let_def)

section \<open>Scanning a length\<close>

lemma encode_length_cases:
  obtains (fixed) "int n \<le> fm" "encode_length n fb fm m8 m16 m32 = [of_nat (fb + n)]"
  | (one) m where "fm < int n" "m8 = Some m" "n \<le> 0xff"
      "encode_length n fb fm m8 m16 m32 = m # be_bytes 1 (int n)"
  | (two) "fm < int n" "n \<le> 0xffff" "m8 \<noteq> None \<Longrightarrow> 0xff < n"
      "encode_length n fb fm m8 m16 m32 = m16 # be_bytes 2 (int n)"
  | (four) "0xffff < n" "fm < int n" "encode_length n fb fm m8 m16 m32 = m32 # be_bytes 4 (int n)"
  unfolding encode_length_def number_bytes_def
  by (cases m8; cases "int n \<le> fm"; cases "n \<le> 0xff"; cases "n \<le> 0xffff") (auto intro: that)

lemma with_length_be:
  assumes "shorter < k" "k < 256 ^ n"
  shows "with_length (pre @ m # be_bytes n (int k) @ post) (Suc (length pre)) n shorter f = f k (Suc (length pre) + n)"
proof -
  have "be_nat (be_bytes n (int k)) = k" using be_nat_be_bytes_small [of "int k" n] assms by simp
  then show ?thesis using assms by (simp add: with_length_def)
qed

lemmas with_length_be1 = with_length_be [where n = "Suc 0", simplified]

lemma limited_be:
  assumes "k < 256 ^ 4" "k \<le> maximum"
  shows "limited maximum (pre @ m # be_bytes 4 (int k) @ post) (Suc (length pre)) r = r"
proof -
  have "be_nat (be_bytes 4 (int k)) = k" using be_nat_be_bytes_small [of "int k" 4] assms by simp
  then show ?thesis using assms by (simp add: limited_def)
qed

lemma view_here:
  assumes "input = front @ mid @ post" "start = length front" "n = length mid"
  shows "view input start n = Inr mid" "ensure_available input start n = Inr ()"
  using assms by (simp_all add: ensure_available_def)

lemma scan_string_here:
  assumes "input = front @ mid @ post" "start = length front" "n = length mid" "n \<le> 65536"
    and "text_decode mid = Some s"
  shows "scan_string input start n start = Inr \<lparr>scan_end = start + n, scanned = SString mid s\<rparr>"
  using view_here [OF assms(1-3)] assms(3-5) by (simp add: scan_string_def)

lemma scan_binary_here:
  assumes "input = front @ mid @ post" "start = length front" "n = length mid" "n \<le> 131072"
  shows "scan_binary input start n start = Inr \<lparr>scan_end = start + n, scanned = SBinary\<rparr>"
  using view_here [OF assms(1-3)] assms(3-4) by (simp add: scan_binary_def)

text \<open>The length prefix of an array or a map, read back with the number of its entries.\<close>

lemma unat_fixed: "fb + n < 256 \<Longrightarrow> unat (of_nat (fb + n) :: u8) = fb + n"
  by (rule unat_of_nat_u8)

lemma mod_fixed:
  fixes n :: nat
  shows "n \<le> 31 \<Longrightarrow> (160 + n) mod 32 = n" "n \<le> 15 \<Longrightarrow> (144 + n) mod 16 = n" "n \<le> 15 \<Longrightarrow> (128 + n) mod 16 = n"
  using mod_mult_self1 [of n 5 32] mod_mult_self1 [of n 9 16] mod_mult_self1 [of n 8 16]
  by (simp_all add: add.commute)

lemma scan_string_marker:
  assumes "encode_length (length mid) 0xa0 31 (Some 0xd9) 0xda 0xdb = m # rest"
    and "length mid \<le> 65536" "text_decode mid = Some s"
  shows "scan_marker scan (pre @ m # rest @ mid @ post) (unat m) (Suc (length pre)) nodes =
    Inr (\<lparr>scan_end = length pre + length (m # rest) + length mid, scanned = SString mid s\<rparr>, nodes)"
proof (cases rule: encode_length_cases [where n = "length mid" and fm = 31 and fb = "0xa0" and ?m8.0 = "Some 0xd9"
    and ?m16.0 = "0xda" and ?m32.0 = "0xdb"])
  case fixed
  have m: "unat m = 0xa0 + length mid" and rest: "rest = []"
    using fixed assms(1) unat_fixed [of "0xa0" "length mid"] by auto
  have "scan_string (pre @ m # mid @ post) (Suc (length pre)) (length mid) (Suc (length pre)) =
      Inr \<lparr>scan_end = Suc (length pre) + length mid, scanned = SString mid s\<rparr>"
    by (rule scan_string_here [where front = "pre @ [m]"]) (use assms in auto)
  moreover have "(160 + length mid) mod 32 = length mid" using fixed by (simp add: mod_fixed)
  ultimately show ?thesis using fixed by (simp add: m rest scan_marker_def)
next
  case (one m')
  then have m: "m = 0xd9" "rest = [of_nat (length mid)]" using assms(1) by simp_all
  have "scan_string (pre @ m # rest @ mid @ post) (Suc (Suc (length pre))) (length mid) (Suc (Suc (length pre))) =
      Inr \<lparr>scan_end = Suc (Suc (length pre)) + length mid, scanned = SString mid s\<rparr>"
    by (rule scan_string_here [where front = "pre @ m # rest"]) (use assms m in auto)
  then show ?thesis using one by (simp add: m scan_marker_def with_length_be1)
next
  case two
  then have m: "m = 0xda" "rest = be_bytes 2 (int (length mid))" using assms(1) by simp_all
  have "scan_string (pre @ m # rest @ mid @ post) (Suc (length pre) + 2) (length mid) (Suc (length pre) + 2) =
      Inr \<lparr>scan_end = Suc (length pre) + 2 + length mid, scanned = SString mid s\<rparr>"
    by (rule scan_string_here [where front = "pre @ m # rest"]) (use assms m in auto)
  then show ?thesis using two by (simp add: m scan_marker_def with_length_be)
next
  case four
  then have m: "m = 0xdb" "rest = be_bytes 4 (int (length mid))" using assms(1) by simp_all
  have "scan_string (pre @ m # rest @ mid @ post) (Suc (length pre) + 4) (length mid) (Suc (length pre) + 4) =
      Inr \<lparr>scan_end = Suc (length pre) + 4 + length mid, scanned = SString mid s\<rparr>"
    by (rule scan_string_here [where front = "pre @ m # rest"]) (use assms m in auto)
  then show ?thesis using four assms(2) by (simp add: m scan_marker_def with_length_be)
qed

lemma scan_binary_marker:
  assumes "encode_length (length mid) 0 (- 1) (Some 0xc4) 0xc5 0xc6 = m # rest" and "length mid \<le> 131072"
  shows "scan_marker scan (pre @ m # rest @ mid @ post) (unat m) (Suc (length pre)) nodes =
    Inr (\<lparr>scan_end = length pre + length (m # rest) + length mid, scanned = SBinary\<rparr>, nodes)"
proof (cases rule: encode_length_cases [where n = "length mid" and fm = "- 1" and fb = 0 and ?m8.0 = "Some 0xc4"
    and ?m16.0 = "0xc5" and ?m32.0 = "0xc6"])
  case fixed
  then show ?thesis by simp
next
  case (one m')
  then have m: "m = 0xc4" "rest = [of_nat (length mid)]" using assms(1) by simp_all
  have "scan_binary (pre @ m # rest @ mid @ post) (Suc (Suc (length pre))) (length mid) (Suc (Suc (length pre))) =
      Inr \<lparr>scan_end = Suc (Suc (length pre)) + length mid, scanned = SBinary\<rparr>"
    by (rule scan_binary_here [where front = "pre @ m # rest"]) (use assms m in auto)
  then show ?thesis using one view_Suc [of "[of_nat (length mid)]" 1 pre m "mid @ post"]
    by (simp add: m scan_marker_def)
next
  case two
  then have m: "m = 0xc5" "rest = be_bytes 2 (int (length mid))" using assms(1) by simp_all
  have "scan_binary (pre @ m # rest @ mid @ post) (Suc (length pre) + 2) (length mid) (Suc (length pre) + 2) =
      Inr \<lparr>scan_end = Suc (length pre) + 2 + length mid, scanned = SBinary\<rparr>"
    by (rule scan_binary_here [where front = "pre @ m # rest"]) (use assms m in auto)
  then show ?thesis using two by (simp add: m scan_marker_def with_length_be)
next
  case four
  then have m: "m = 0xc6" "rest = be_bytes 4 (int (length mid))" using assms(1) by simp_all
  have "scan_binary (pre @ m # rest @ mid @ post) (Suc (length pre) + 4) (length mid) (Suc (length pre) + 4) =
      Inr \<lparr>scan_end = Suc (length pre) + 4 + length mid, scanned = SBinary\<rparr>"
    by (rule scan_binary_here [where front = "pre @ m # rest"]) (use assms m in auto)
  then show ?thesis using four assms(2) by (simp add: m scan_marker_def with_length_be)
qed

lemma scan_array_marker:
  assumes "encode_length n 0x90 15 None 0xdc 0xdd = m # rest" and "n \<le> 4096"
  shows "scan_marker scan (pre @ m # rest @ post) (unat m) (Suc (length pre)) nodes =
    scan_array scan (length pre + length (m # rest)) n nodes"
proof (cases rule: encode_length_cases [where n = n and fm = 15 and fb = "0x90" and ?m8.0 = None and ?m16.0 = "0xdc"
    and ?m32.0 = "0xdd"])
  case fixed
  then have "unat m = 0x90 + n" "rest = []" using assms(1) unat_fixed [of "0x90" n] by auto
  moreover have "(144 + n) mod 16 = n" using fixed by (simp add: mod_fixed)
  ultimately show ?thesis using fixed by (simp add: scan_marker_def)
next
  case (one m')
  then show ?thesis by simp
next
  case two
  then have m: "m = 0xdc" "rest = be_bytes 2 (int n)" using assms(1) by simp_all
  have "length (m # rest) = 3" by (simp add: m)
  then show ?thesis using two by (simp add: m scan_marker_def with_length_be numeral_3_eq_3)
next
  case four
  then show ?thesis using assms(2) by simp
qed

lemma scan_map_marker:
  assumes "encode_length n 0x80 15 None 0xde 0xdf = m # rest" and "n \<le> 4096"
  shows "scan_marker scan (pre @ m # rest @ post) (unat m) (Suc (length pre)) nodes =
    scan_map scan (length pre + length (m # rest)) n nodes"
proof (cases rule: encode_length_cases [where n = n and fm = 15 and fb = "0x80" and ?m8.0 = None and ?m16.0 = "0xde"
    and ?m32.0 = "0xdf"])
  case fixed
  then have "unat m = 0x80 + n" "rest = []" using assms(1) unat_fixed [of "0x80" n] by auto
  moreover have "(128 + n) mod 16 = n" using fixed by (simp add: mod_fixed)
  ultimately show ?thesis using fixed by (simp add: scan_marker_def)
next
  case (one m')
  then show ?thesis by simp
next
  case two
  then have m: "m = 0xde" "rest = be_bytes 2 (int n)" using assms(1) by simp_all
  have "length (m # rest) = 3" by (simp add: m)
  then show ?thesis using two by (simp add: m scan_marker_def with_length_be numeral_3_eq_3)
next
  case four
  then show ?thesis using assms(2) by simp
qed

section \<open>Arrays and maps\<close>

text \<open>What the scan of a part must do, wherever the part stands.\<close>

definition scans_as :: "(bytes \<Rightarrow> scanner) \<Rightarrow> bytes \<Rightarrow> nat \<Rightarrow> nat \<Rightarrow> scan_kind \<Rightarrow> bool" where
  "scans_as scan part nodes nodes1 kind \<longleftrightarrow>
     (\<forall>pre post. scan (pre @ part @ post) (length pre) nodes =
        Inr (\<lparr>scan_end = length pre + length part, scanned = kind\<rparr>, nodes1))"

lemma scans_asD:
  "scans_as scan part nodes nodes1 kind \<Longrightarrow>
    scan (pre @ part @ post) (length pre) nodes = Inr (\<lparr>scan_end = length pre + length part, scanned = kind\<rparr>, nodes1)"
  by (simp add: scans_as_def)

fun kind_of :: "jsval \<Rightarrow> scan_kind" where
  "kind_of JNull = SNull"
| "kind_of (JBool _) = SBoolean"
| "kind_of (JNum n) = (if num_is_integer n then SInteger else SFloat)"
| "kind_of (JStr s) = SString (utf8_encode s) (drop_bom s)"
| "kind_of (JBytes _) = SBinary"
| "kind_of (JArr _ _ _) = SArray"
| "kind_of _ = SMap"

text \<open>An encoder whose output a scanner accepts, on values that satisfy \<open>P\<close>.\<close>

definition matches :: "(jsval \<Rightarrow> bool) \<Rightarrow> encoder \<Rightarrow> (bytes \<Rightarrow> scanner) \<Rightarrow> bool" where
  "matches P enc scan \<longleftrightarrow>
     (\<forall>v st bs st1. P v \<longrightarrow> enc v st = Inr (bs, st1) \<longrightarrow>
        scans_as scan bs (enc_nodes st) (enc_nodes st1) (kind_of v))"

lemma matchesD: "matches P enc scan \<Longrightarrow> P v \<Longrightarrow> enc v st = Inr (bs, st1) \<Longrightarrow>
    scans_as scan bs (enc_nodes st) (enc_nodes st1) (kind_of v)"
  by (auto simp: matches_def)

lemma scan_items_encoded:
  assumes "matches P enc scan" "encode_items enc items st = Inr (parts, st1)" "None \<notin> set parts"
    and "\<And>v. Some v \<in> set items \<Longrightarrow> P v"
  shows "scan_items (scan (pre @ concat (present parts) @ post)) (length items) (length pre) (enc_nodes st) =
    Inr (length pre + length (concat (present parts)), enc_nodes st1)"
  using assms(2-4)
proof (induction items arbitrary: st parts pre)
  case Nil
  then show ?case by simp
next
  case (Cons item items)
  then obtain v where item: "item = Some v" by (cases item) (auto simp: res_simps)
  then obtain part stm rest where enc: "enc v st = Inr (part, stm)" "encode_items enc items stm = Inr (rest, st1)"
      "parts = Some part # rest"
    using Cons.prems(1) by (auto simp: res_simps)
  let ?rest = "concat (present rest)"
  have "scan_items (scan ((pre @ part) @ ?rest @ post)) (length items) (length (pre @ part)) (enc_nodes stm) =
      Inr (length (pre @ part) + length ?rest, enc_nodes st1)"
    by (rule Cons.IH [OF enc(2)]) (use Cons.prems enc in auto)
  moreover have "scans_as scan part (enc_nodes st) (enc_nodes stm) (kind_of v)"
    by (rule matchesD [OF assms(1) _ enc(1)]) (use Cons.prems item in auto)
  from scans_asD [OF this, of pre "?rest @ post"]
  have "scan (pre @ part @ ?rest @ post) (length pre) (enc_nodes st) =
      Inr (\<lparr>scan_end = length pre + length part, scanned = kind_of v\<rparr>, enc_nodes stm)" .
  ultimately show ?case by (simp add: enc item add.assoc)
qed

text \<open>The entries of a map in strictly increasing order of their keys' bytes.\<close>

definition key_order :: "jstr \<times> jsval \<Rightarrow> jstr \<times> jsval \<Rightarrow> bool" where
  "key_order a b \<longleftrightarrow> compare_bytes (utf8_encode (fst a)) (utf8_encode (fst b)) < 0"

definition entry_ok :: "(jsval \<Rightarrow> bool) \<Rightarrow> jstr \<times> jsval \<Rightarrow> bool" where
  "entry_ok P e \<longleftrightarrow> P (JStr (fst e)) \<and> P (snd e) \<and> utf8_bytes (fst e) \<le> 256
     \<and> fst e \<noteq> BOM # js ''__proto__''"

definition follows :: "bytes option \<Rightarrow> jstr \<times> jsval \<Rightarrow> bool" where
  "follows previous e \<longleftrightarrow>
     (case previous of None \<Rightarrow> True | Some p \<Rightarrow> compare_bytes p (utf8_encode (fst e)) < 0)"

lemma scan_key_encoded:
  assumes "follows previous (k, v)" "utf8_bytes k \<le> 256" "k \<noteq> js ''__proto__''" "k \<noteq> BOM # js ''__proto__''"
  shows "scan_key previous \<lparr>scan_end = n, scanned = SString (utf8_encode k) (drop_bom k)\<rparr> = Inr (utf8_encode k)"
  using assms
  by (auto simp: scan_key_def follows_def utf8_bytes_def drop_bom_proto Let_def split: option.splits)

lemma scan_entries_encoded:
  assumes "matches P enc scan" "encode_entries enc es st = Inr (parts, st1)"
    and "\<And>e. e \<in> set es \<Longrightarrow> entry_ok P e \<and> follows previous e" "sorted_wrt key_order es"
  shows "scan_entries (scan (pre @ concat parts @ post)) previous (length es) (length pre) (enc_nodes st) =
    Inr (length pre + length (concat parts), enc_nodes st1)"
  using assms(2-4)
proof (induction es arbitrary: st parts pre previous)
  case Nil
  then show ?case by simp
next
  case (Cons e es)
  obtain k v where e: "e = (k, v)" by (cases e)
  with Cons.prems(1) obtain kp stk vp stv rest where enc: "k \<noteq> js ''__proto__''" "enc (JStr k) st = Inr (kp, stk)"
      "enc v stk = Inr (vp, stv)" "encode_entries enc es stv = Inr (rest, st1)" "parts = kp # vp # rest"
    by (auto simp: res_simps)
  have ok: "P (JStr k)" "P v" "utf8_bytes k \<le> 256" "k \<noteq> BOM # js ''__proto__''" "follows previous (k, v)"
    using Cons.prems(2) [of e] by (simp_all add: e entry_ok_def)
  have "scan_entries (scan ((pre @ kp @ vp) @ concat rest @ post)) (Some (utf8_encode k)) (length es)
      (length (pre @ kp @ vp)) (enc_nodes stv) = Inr (length (pre @ kp @ vp) + length (concat rest), enc_nodes st1)"
    by (rule Cons.IH [OF enc(4)]) (use Cons.prems e in \<open>auto simp: follows_def key_order_def\<close>)
  moreover from matchesD [OF assms(1) ok(1) enc(2)]
  have "scan (pre @ kp @ vp @ concat rest @ post) (length pre) (enc_nodes st) =
      Inr (\<lparr>scan_end = length pre + length kp, scanned = SString (utf8_encode k) (drop_bom k)\<rparr>, enc_nodes stk)"
    using scans_asD [of scan kp _ _ _ pre "vp @ concat rest @ post"] by simp
  moreover from matchesD [OF assms(1) ok(2) enc(3)]
  have "scan (pre @ kp @ vp @ concat rest @ post) (length pre + length kp) (enc_nodes stk) =
      Inr (\<lparr>scan_end = length pre + length kp + length vp, scanned = kind_of v\<rparr>, enc_nodes stv)"
    using scans_asD [of scan vp _ _ _ "pre @ kp" "concat rest @ post"] by simp
  ultimately show ?case
    using scan_key_encoded [OF ok(5,3) enc(1) ok(4)] by (simp add: enc e add.assoc)
qed

section \<open>Values\<close>

lemma valid_utf8_string_Inr_iff [res_simps]:
  "valid_utf8_string s maximum = Inr bs \<longleftrightarrow>
     \<not> has_unpaired_surrogate s \<and> utf8_bytes s \<le> maximum \<and> bs = utf8_encode s"
  using length_le_utf8_bytes [of s] by (auto simp: valid_utf8_string_def utf8_bytes_def)

lemma account_Inr_iff [res_simps]:
  "account_encoded_bytes st n = Inr st1 \<longleftrightarrow>
     enc_bytes st + n \<le> 262143 \<and> st1 = st\<lparr>enc_bytes := enc_bytes st + n\<rparr>"
  by (auto simp: account_encoded_bytes_def Let_def)

lemma encoded_atom_Inr_iff [res_simps]:
  "encoded_atom st bs = Inr (out, st1) \<longleftrightarrow>
     out = bs \<and> enc_bytes st + length bs \<le> 262143 \<and> st1 = st\<lparr>enc_bytes := enc_bytes st + length bs\<rparr>"
  by (auto simp: encoded_atom_def res_simps)

lemma sorted_entries_set [simp]: "set (sorted_entries fs) = set fs" "length (sorted_entries fs) = length fs"
  by (simp_all add: sorted_entries_def)

lemma sorted_entries_order:
  assumes "distinct (map fst fs)" "\<And>k v. (k, v) \<in> set fs \<Longrightarrow> \<not> has_unpaired_surrogate k"
  shows "sorted_wrt key_order (sorted_entries fs)"
proof -
  let ?f = "\<lambda>(k, _). Key_Bytes (utf8_encode k)"
  have "mset (map fst (sorted_entries fs)) = mset (map fst fs)"
    by (simp add: sorted_entries_def)
  then have "distinct (map fst (sorted_entries fs))"
    using assms(1) mset_eq_imp_distinct_iff by blast
  then have "distinct (sorted_entries fs) \<and> inj_on fst (set (sorted_entries fs))" by (simp add: distinct_map)
  moreover have "inj_on ?f (set fs)"
  proof (rule inj_onI)
    fix a b assume *: "a \<in> set fs" "b \<in> set fs" "?f a = ?f b"
    obtain k v l w where ab: "a = (k, v)" "b = (l, w)" by fastforce
    with * have "k = l" using assms(2) utf8_encode_inj by auto
    then show "a = b" using assms(1) * eq_key_imp_eq_value [of fs k v w] ab by simp
  qed
  ultimately have "distinct (map ?f (sorted_entries fs))" by (simp add: distinct_map)
  moreover have "sorted (map ?f (sorted_entries fs))" by (simp add: sorted_entries_def)
  ultimately have "sorted_wrt (<) (map ?f (sorted_entries fs))" by (simp add: strict_sorted_iff)
  then show ?thesis
    by (simp add: sorted_wrt_map less_key_bytes_def key_order_def [abs_def] split_def)
qed

definition sound_value :: "jsval \<Rightarrow> bool" where
  "sound_value v \<longleftrightarrow> wellformed v \<and> no_hidden_key v"

lemma sound_value_simps [simp]:
  "sound_value (JStr s)"
  "sound_value (JArr i items extra) \<longleftrightarrow> (\<forall>v. Some v \<in> set items \<longrightarrow> sound_value v)"
  "sound_value (JRec i fs) \<longleftrightarrow> distinct (map fst fs)
     \<and> (\<forall>(k, v)\<in>set fs. k \<noteq> BOM # js ''__proto__'' \<and> sound_value v)"
  by (auto simp: sound_value_def list_all_iff split: option.splits)

lemma marker_scan:
  assumes "enc_nodes st < 16384" "part = m # rest"
    and "\<And>pre post. scan_marker (scan_at levels (pre @ part @ post)) (pre @ m # rest @ post) (unat m)
        (Suc (length pre)) (Suc (enc_nodes st)) =
      Inr (\<lparr>scan_end = length pre + length part, scanned = kind\<rparr>, nodes1)"
  shows "scans_as (scan_at (Suc levels)) part (enc_nodes st) nodes1 kind"
  using assms scan_at_marker [OF assms(1)] by (simp add: scans_as_def del: scan_at.simps)

lemma scans_length_prefix:
  assumes "encode_length n fb fm m8 m16 m32 = m # rest"
  shows "length (encode_length n fb fm m8 m16 m32) = Suc (length rest)"
  by (simp add: assms)

lemma encode_length_nonempty: "encode_length n fb fm m8 m16 m32 \<noteq> []"
  by (rule encode_length_cases [where n = n and fm = fm and fb = fb and ?m8.0 = m8 and ?m16.0 = m16 and ?m32.0 = m32])
     simp_all

lemma keys_checked:
  "each_r (\<lambda>(key, _). bind_r (valid_utf8_string key maximum) (\<lambda>_. Inr ())) fs = Inr u \<longleftrightarrow>
     (\<forall>e\<in>set fs. \<not> has_unpaired_surrogate (fst e) \<and> utf8_bytes (fst e) \<le> maximum)"
  by (induction fs) (auto simp: res_simps)

lemma encoded_scans:
  assumes "matches sound_value (encode_at levels) (scan_at levels)" "sound_value v"
    and enc: "encode_at (Suc levels) v st = Inr (bs, st1)"
  shows "scans_as (scan_at (Suc levels)) bs (enc_nodes st) (enc_nodes st1) (kind_of v)"
proof -
  have nodes: "enc_nodes st < 16384" using enc by (simp add: Let_def split: if_splits)
  show ?thesis
  proof (cases v)
    case JNull
    then show ?thesis using enc nodes
      by (intro marker_scan [where m = "0xc0" and rest = "[]"]) (auto simp: res_simps scan_marker_def Let_def)
  next
    case (JBool b)
    then show ?thesis using enc nodes
      by (intro marker_scan [where m = "if b then 0xc3 else 0xc2" and rest = "[]"])
         (auto simp: res_simps scan_marker_def Let_def)
  next
    case (JStr s)
    with enc have bs: "bs = encode_length (utf8_bytes s) 0xa0 31 (Some 0xd9) 0xda 0xdb @ utf8_encode s"
        "\<not> has_unpaired_surrogate s" "utf8_bytes s \<le> 65536" "enc_nodes st1 = Suc (enc_nodes st)"
      by (auto simp: res_simps Let_def utf8_bytes_def)
    obtain m rest where p: "encode_length (utf8_bytes s) 0xa0 31 (Some 0xd9) 0xda 0xdb = m # rest"
      using encode_length_nonempty by (metis list.exhaust)
    show ?thesis
      using bs nodes JStr p scan_string_marker [OF p [unfolded utf8_bytes_def] _ text_decode_utf8_encode [OF bs(2)]]
      by (intro marker_scan [where m = m and rest = "rest @ utf8_encode s"]) (simp_all add: utf8_bytes_def)
  next
    case (JBytes b)
    with enc have bs: "bs = encode_length (length b) 0 (- 1) (Some 0xc4) 0xc5 0xc6 @ b"
        "length b \<le> 131072" "enc_nodes st1 = Suc (enc_nodes st)"
      by (auto simp: res_simps Let_def)
    obtain m rest where p: "encode_length (length b) 0 (- 1) (Some 0xc4) 0xc5 0xc6 = m # rest"
      using encode_length_nonempty by (metis list.exhaust)
    show ?thesis
      using bs nodes JBytes p scan_binary_marker [OF p]
      by (intro marker_scan [where m = m and rest = "rest @ b"]) simp_all
  next
    case (JNum n)
    show ?thesis
    proof (cases n)
      case (NInt i)
      with JNum enc have bs: "bs = encode_integer i" "- max_safe_integer \<le> i" "i \<le> max_safe_integer"
          "enc_nodes st1 = Suc (enc_nodes st)"
        by (auto simp: res_simps Let_def split: if_splits)
      obtain m rest where p: "encode_integer i = m # rest" using encode_integer_nonempty by (metis list.exhaust)
      show ?thesis using bs nodes JNum NInt p scan_integer [OF p]
        by (intro marker_scan [where m = m and rest = rest]) simp_all
    next
      case (NFrac b)
      then have "is_double (NFrac b)" using assms(2) JNum by (simp add: sound_value_def)
      then show ?thesis using enc nodes JNum NFrac scan_double [of b]
        by (intro marker_scan [where m = "0xcb" and rest = "be_bytes 8 (uint b)"])
           (auto simp: res_simps Let_def number_bytes_def)
    qed (use enc JNum in \<open>simp_all add: Let_def split: if_splits\<close>)
  next
    case (JArr i items extra)
    let ?pre = "encode_length (length items) 0x90 15 None 0xdc 0xdd"
    let ?sta = "st\<lparr>enc_nodes := Suc (enc_nodes st), enc_bytes := enc_bytes st + length ?pre\<rparr>"
    from JArr enc obtain parts where arr: "length items \<le> 4096" "enc_nodes ?sta = Suc (enc_nodes st)"
        "encode_items (encode_at levels) items ?sta = Inr (parts, st1)" "None \<notin> set parts"
        "bs = ?pre @ concat (present parts)"
      by (auto simp: res_simps Let_def concat_parts_def split: if_splits)
    obtain m rest where p: "?pre = m # rest" using encode_length_nonempty by (metis list.exhaust)
    have "scan_items (scan_at levels (pre @ (m # rest) @ concat (present parts) @ post)) (length items)
        (length pre + length (m # rest)) (Suc (enc_nodes st)) = Inr (length pre + length bs, enc_nodes st1)" for pre post
      using scan_items_encoded [OF assms(1) arr(3,4), of "pre @ m # rest" post] assms(2) JArr arr p by simp
    then show ?thesis using nodes JArr arr p scan_array_marker [OF p]
      by (intro marker_scan [where m = m and rest = "rest @ concat (present parts)"]) (simp_all add: scan_array_def)
  next
    case (JRec i fs)
    let ?pre = "encode_length (length fs) 0x80 15 None 0xde 0xdf"
    let ?sta = "st\<lparr>enc_nodes := Suc (enc_nodes st), enc_bytes := enc_bytes st + length ?pre\<rparr>"
    from JRec enc obtain parts where rec: "length fs \<le> 4096" "enc_nodes ?sta = Suc (enc_nodes st)"
        "encode_entries (encode_at levels) (sorted_entries fs) ?sta = Inr (parts, st1)" "bs = ?pre @ concat parts"
        "\<forall>e\<in>set fs. \<not> has_unpaired_surrogate (fst e) \<and> utf8_bytes (fst e) \<le> 256"
      by (auto simp: keys_checked bind_r_Inr_iff account_Inr_iff Let_def split: if_splits)
    obtain m rest where p: "?pre = m # rest" using encode_length_nonempty by (metis list.exhaust)
    have "sorted_wrt key_order (sorted_entries fs)"
      by (rule sorted_entries_order) (use assms(2) JRec rec(5) in auto)
    moreover have "entry_ok sound_value e \<and> follows None e" if "e \<in> set (sorted_entries fs)" for e
      using that assms(2) JRec rec(5) by (auto simp: entry_ok_def follows_def)
    ultimately have "scan_entries (scan_at levels (pre @ (m # rest) @ concat parts @ post)) None (length fs)
        (length pre + length (m # rest)) (Suc (enc_nodes st)) = Inr (length pre + length bs, enc_nodes st1)" for pre post
      using scan_entries_encoded [OF assms(1) rec(3), of None "pre @ m # rest" post] rec p by simp
    then show ?thesis using nodes JRec rec p scan_map_marker [OF p]
      by (intro marker_scan [where m = m and rest = "rest @ concat parts"]) (simp_all add: scan_map_def)
  qed (use enc in \<open>simp_all add: Let_def split: if_splits\<close>)
qed

lemma encode_at_matches: "matches sound_value (encode_at levels) (scan_at levels)"
proof (induction levels)
  case 0
  then show ?case by (simp add: matches_def)
next
  case (Suc levels)
  then show ?case using encoded_scans by (simp add: matches_def del: encode_at.simps scan_at.simps)
qed

end
