(* ===== verification/Codec_Canonical.thy ===== *)
theory Codec_Canonical
  imports Codec_Round_Trip
begin

text \<open>
  The scanner of the wire codec accepts canonical bytes only: whatever \<open>scanValue\<close> accepts is the
  encoding of a protocol value, byte for byte.
\<close>

section \<open>UTF-8, from bytes to code points and back\<close>

lemma digit_64: "y < 64 \<Longrightarrow> (x * 64 + y) div 64 = x" "y < 64 \<Longrightarrow> (x * 64 + y) mod 64 = y" for x y :: nat
  by simp_all

lemma utf8_two:
  assumes "x < 32" "y < 64" "0x80 \<le> x * 64 + y"
  shows "utf8_char (x * 64 + y) = [of_nat (0xC0 + x), of_nat (0x80 + y)]"
proof -
  have "x * 64 + y < 0x800" using assms by linarith
  then show ?thesis using assms by (simp add: utf8_char_def digit_64 del: of_nat_add)
qed

lemma utf8_three:
  assumes "x < 16" "y < 64" "z < 64" "0x800 \<le> (x * 64 + y) * 64 + z"
  shows "utf8_char ((x * 64 + y) * 64 + z) = [of_nat (0xE0 + x), of_nat (0x80 + y), of_nat (0x80 + z)]"
proof -
  define c where "c = (x * 64 + y) * 64 + z"
  have q: "c div 64 = x * 64 + y" "c mod 64 = z" unfolding c_def by (rule digit_64, rule assms)+
  have "c div 4096 = c div 64 div 64" by (simp add: div_mult2_eq [symmetric])
  then have "c div 4096 = x" "c div 64 mod 64 = y" using assms by (simp_all add: q digit_64)
  moreover have "c < 0x10000" using assms by (simp add: c_def)
  ultimately show ?thesis using assms q(2) unfolding c_def [symmetric]
    by (simp add: utf8_char_def del: of_nat_add)
qed

lemma utf8_four:
  assumes "x < 16" "y < 64" "z < 64" "w < 64" "0x10000 \<le> ((x * 64 + y) * 64 + z) * 64 + w"
  shows "utf8_char (((x * 64 + y) * 64 + z) * 64 + w) =
    [of_nat (0xF0 + x), of_nat (0x80 + y), of_nat (0x80 + z), of_nat (0x80 + w)]"
proof -
  define c where "c = ((x * 64 + y) * 64 + z) * 64 + w"
  have q: "c div 64 = (x * 64 + y) * 64 + z" "c mod 64 = w" unfolding c_def by (rule digit_64, rule assms)+
  have "c div 4096 = c div 64 div 64" by (simp add: div_mult2_eq [symmetric])
  then have r: "c div 4096 = x * 64 + y" "c div 64 mod 64 = z" unfolding q by (simp_all only: digit_64 assms)
  have "c div 262144 = c div 4096 div 64" by (simp add: div_mult2_eq [symmetric])
  then have "c div 262144 = x" "c div 4096 mod 64 = y" using assms by (simp_all add: r digit_64)
  then show ?thesis using assms q(2) r(2) unfolding c_def [symmetric]
    by (simp add: utf8_char_def del: of_nat_add)
qed

text \<open>One step of the decoder: the code point it reads, and the bytes it leaves.\<close>

lemma decode_points_Cons:
  assumes "decode_points (a # bs) = Some cs" "\<forall>n\<in>set (a # bs). n < 256"
  obtains c rest ds where "decode_points rest = Some ds" "cs = c # ds" "scalar c" "length rest \<le> length bs"
    "map of_nat (a # bs) = utf8_char c @ map of_nat rest" "set rest \<subseteq> set bs"
proof -
  consider "a < 0x80" | "0x80 \<le> a" "a < 0xE0" | "0xE0 \<le> a" "a < 0xF0" | "0xF0 \<le> a" by linarith
  then show ?thesis
  proof cases
    case 1
    then show ?thesis using assms that [of bs _ a] by (auto simp: utf8_char_def scalar_def)
  next
    case 2
    then obtain b rest where bs: "bs = b # rest" using assms(1) by (cases bs) auto
    define x y where "x = a - 0xC0" and "y = b - 0x80"
    have d: "0xC0 \<le> a" "is_continuation b" "0x80 \<le> x * 64 + y"
        "map_option ((#) (x * 64 + y)) (decode_points rest) = Some cs"
      using 2 assms(1) by (simp_all add: bs x_def y_def Let_def split: if_splits)
    have xy: "a = 0xC0 + x" "b = 0x80 + y" "x < 32" "y < 64"
      using 2 d(1,2) by (auto simp: x_def y_def is_continuation_def)
    obtain ds where ds: "decode_points rest = Some ds" "cs = (x * 64 + y) # ds" using d(4) by auto
    have "x * 64 + y < 0x800" using xy by linarith
    then show ?thesis using ds xy utf8_two [OF xy(3,4) d(3)]
      by (intro that [OF ds]) (auto simp: bs scalar_def)
  next
    case 3
    then obtain b b' rest where bs: "bs = b # b' # rest" using assms(1) by (cases bs rule: decode_points.cases) (auto split: list.splits)
    define x y z where "x = a - 0xE0" and "y = b - 0x80" and "z = b' - 0x80"
    have c: "(a - 0xE0) * 4096 + (b - 0x80) * 64 + (b' - 0x80) = (x * 64 + y) * 64 + z"
      by (simp add: x_def y_def z_def)
    have d: "is_continuation b" "is_continuation b'" "0x800 \<le> (x * 64 + y) * 64 + z"
        "\<not> (0xD800 \<le> (x * 64 + y) * 64 + z \<and> (x * 64 + y) * 64 + z < 0xE000)"
        "map_option ((#) ((x * 64 + y) * 64 + z)) (decode_points rest) = Some cs"
      using 3 assms(1) unfolding bs by (simp_all add: c Let_def split: if_splits)
    have xy: "a = 0xE0 + x" "b = 0x80 + y" "b' = 0x80 + z" "x < 16" "y < 64" "z < 64"
      using 3 d(1,2) by (auto simp: x_def y_def z_def is_continuation_def)
    obtain ds where ds: "decode_points rest = Some ds" "cs = ((x * 64 + y) * 64 + z) # ds" using d(5) by auto
    have "(x * 64 + y) * 64 + z < 0x10000" using xy(4-6) by simp
    then show ?thesis using ds xy d(4) utf8_three [OF xy(4-6) d(3)]
      by (intro that [OF ds]) (auto simp: bs scalar_def)
  next
    case 4
    then obtain b b' b'' rest where bs: "bs = b # b' # b'' # rest"
      using assms(1) by (auto split: list.splits)
    define x y z w where "x = a - 0xF0" and "y = b - 0x80" and "z = b' - 0x80" and "w = b'' - 0x80"
    have c: "(a - 0xF0) * 262144 + (b - 0x80) * 4096 + (b' - 0x80) * 64 + (b'' - 0x80) = ((x * 64 + y) * 64 + z) * 64 + w"
      by (simp add: x_def y_def z_def w_def)
    have d: "is_continuation b" "is_continuation b'" "is_continuation b''"
        "0x10000 \<le> ((x * 64 + y) * 64 + z) * 64 + w" "((x * 64 + y) * 64 + z) * 64 + w < 0x110000"
        "map_option ((#) (((x * 64 + y) * 64 + z) * 64 + w)) (decode_points rest) = Some cs"
      using 4 assms(1) unfolding bs by (simp_all add: c Let_def split: if_splits)
    have xy: "a = 0xF0 + x" "b = 0x80 + y" "b' = 0x80 + z" "b'' = 0x80 + w" "x < 16" "y < 64" "z < 64" "w < 64"
      using 4 d(1-3) assms(2) by (auto simp: x_def y_def z_def w_def is_continuation_def)
    obtain ds where ds: "decode_points rest = Some ds" "cs = (((x * 64 + y) * 64 + z) * 64 + w) # ds"
      using d(6) by auto
    show ?thesis using ds xy d(4,5) utf8_four [OF xy(5-8) d(4)]
      by (intro that [OF ds]) (auto simp: bs scalar_def)
  qed
qed

text \<open>What the decoder accepts is the encoding of the code points it returns.\<close>

lemma decode_points_sound:
  "decode_points ns = Some cs \<Longrightarrow> \<forall>n\<in>set ns. n < 256 \<Longrightarrow>
    concat (map utf8_char cs) = map of_nat ns \<and> (\<forall>c\<in>set cs. scalar c)"
proof (induction "length ns" arbitrary: ns cs rule: less_induct)
  case less
  show ?case
  proof (cases ns)
    case Nil
    then show ?thesis using less by simp
  next
    case (Cons a bs)
    obtain c rest ds where c: "decode_points rest = Some ds" "cs = c # ds" "scalar c" "length rest \<le> length bs"
        "map of_nat (a # bs) = utf8_char c @ map of_nat rest" "set rest \<subseteq> set bs"
      by (rule decode_points_Cons [of a bs cs]) (use less.prems Cons in auto)
    have "concat (map utf8_char ds) = map of_nat rest \<and> (\<forall>c\<in>set ds. scalar c)"
      by (rule less.hyps [OF _ c(1)]) (use c less.prems Cons in auto)
    then show ?thesis using c Cons by simp
  qed
qed

section \<open>Strings\<close>

lemma utf16_char_surrogates:
  assumes "0x10000 \<le> c" "c < 0x110000"
  obtains u v where "utf16_char c = [u, v]" "is_high_surrogate u" "is_low_surrogate v" "surrogate_pair u v = c"
proof
  define h l where "h = (c - 0x10000) div 0x400" and "l = (c - 0x10000) mod 0x400"
  have l: "l < 0x400" by (simp add: l_def)
  have h: "h < 0x400" using assms by (auto simp: h_def)
  have c: "c - 0x10000 = h * 0x400 + l" by (simp add: h_def l_def)
  show "utf16_char c = [of_nat (0xD800 + h), of_nat (0xDC00 + l)]" using assms by (simp add: utf16_char_def h_def l_def)
  have u: "unat (of_nat (0xD800 + h) :: u16) = 0xD800 + h" "unat (of_nat (0xDC00 + l) :: u16) = 0xDC00 + l"
    using h l by (simp_all del: of_nat_add)
  show "is_high_surrogate (of_nat (0xD800 + h))" "is_low_surrogate (of_nat (0xDC00 + l))"
    using h l u by (simp_all add: is_high_surrogate_def is_low_surrogate_def word_le_nat_alt del: of_nat_add)
  show "surrogate_pair (of_nat (0xD800 + h)) (of_nat (0xDC00 + l)) = c"
    using assms(1) c unfolding surrogate_pair_def u by linarith
qed

lemma utf16_chars:
  "\<forall>c\<in>set cs. scalar c \<Longrightarrow>
    code_points (concat (map utf16_char cs)) = cs \<and> \<not> has_unpaired_surrogate (concat (map utf16_char cs))"
proof (induction cs)
  case Nil
  then show ?case by simp
next
  case (Cons c cs)
  show ?case
  proof (cases "c < 0x10000")
    case True
    have u: "unat (of_nat c :: u16) = c" using True by simp
    then have "\<not> is_high_surrogate (of_nat c)" "\<not> is_low_surrogate (of_nat c)"
      using Cons.prems by (auto simp: scalar_def is_high_surrogate_def is_low_surrogate_def word_le_nat_alt)
    moreover have "\<not> has_unpaired_surrogate (of_nat c # s)" if "\<not> has_unpaired_surrogate s" for s
      using that calculation by (cases s) auto
    ultimately show ?thesis using Cons True u by (simp add: utf16_char_def code_points_Cons)
  next
    case False
    then obtain u v where "utf16_char c = [u, v]" "is_high_surrogate u" "is_low_surrogate v" "surrogate_pair u v = c"
      using Cons.prems by (auto simp: scalar_def intro: utf16_char_surrogates [of c])
    then show ?thesis using Cons by simp
  qed
qed

text \<open>The bytes of an accepted string are the encoding of the string, its byte order mark included.\<close>

lemma text_decode_sound:
  assumes "text_decode mid = Some s"
  obtains t where "\<not> has_unpaired_surrogate t" "utf8_encode t = mid" "drop_bom t = s"
proof -
  obtain cs where cs: "decode_points (map unat (strip_bom mid)) = Some cs" "s = concat (map utf16_char cs)"
    using assms by (auto simp: text_decode_def)
  have "concat (map utf8_char cs) = map of_nat (map unat (strip_bom mid)) \<and> (\<forall>c\<in>set cs. scalar c)"
    by (rule decode_points_sound [OF cs(1)]) auto
  then have body: "utf8_encode s = strip_bom mid" "\<not> has_unpaired_surrogate s"
    using utf16_chars [of cs] by (simp_all add: utf8_encode_def cs(2) comp_def)
  show ?thesis
  proof (cases "take 3 mid = [0xEF, 0xBB, 0xBF]")
    case True
    then have "mid = [0xEF, 0xBB, 0xBF] @ strip_bom mid"
      using append_take_drop_id [of 3 mid] by (simp add: strip_bom_def)
    then show ?thesis using body by (intro that [of "BOM # s"]) (simp_all add: utf8_encode_BOM drop_bom_def)
  next
    case False
    then have "strip_bom mid = mid" by (simp add: strip_bom_def)
    moreover have "drop_bom s = s"
      using False body calculation utf8_encode_BOM by (cases s) (auto simp: drop_bom_def)
    ultimately show ?thesis using body by (intro that [of s]) simp_all
  qed
qed

section \<open>Numbers\<close>

lemma be_int_bounds: "- (256 ^ length bs) \<le> 2 * be_int bs" "2 * be_int bs < 256 ^ length bs"
proof -
  have "int (be_nat bs) < int (256 ^ length bs)" using be_nat_less [of bs] by (simp only: of_nat_less_iff)
  then have lt: "int (be_nat bs) < (256 :: int) ^ length bs" by (simp only: of_nat_power of_nat_numeral)
  have signed: "0 \<le> n \<Longrightarrow> n < m \<Longrightarrow> - m \<le> 2 * (if 2 * n < m then n else n - m) \<and> 2 * (if 2 * n < m then n else n - m) < m"
    for n m :: int by auto
  show "- (256 ^ length bs) \<le> 2 * be_int bs" "2 * be_int bs < 256 ^ length bs"
    using signed [OF of_nat_0_le_iff lt] unfolding be_int_def Let_def by blast+
qed

lemma view_tail:
  assumes "view (pre @ m # tail) (Suc (length pre)) n = Inr bs"
  obtains post where "tail = bs @ post" "length bs = n"
proof -
  have "bs = take n tail" "n \<le> length tail" using assms by (auto simp: view_Inr_iff)
  then show ?thesis by (intro that [of "drop n tail"]) simp_all
qed

lemma scan_unsigned_tail:
  assumes "scan_unsigned (pre @ m # tail) (Suc (length pre)) n shorter = Inr r"
  obtains bs post where "tail = bs @ post" "length bs = n" "shorter < be_nat bs" "int (be_nat bs) \<le> max_safe_integer"
    "r = \<lparr>scan_end = Suc (length pre) + n, scanned = SInteger\<rparr>"
  using assms by (auto simp: scan_unsigned_def res_simps elim!: view_tail split: if_splits intro: that)

lemma scan_signed_tail:
  assumes "scan_signed (pre @ m # tail) (Suc (length pre)) n shorter = Inr r"
  obtains bs post where "tail = bs @ post" "length bs = n" "be_int bs < shorter" "- max_safe_integer \<le> be_int bs"
    "r = \<lparr>scan_end = Suc (length pre) + n, scanned = SInteger\<rparr>"
  using assms by (auto simp: scan_signed_def res_simps elim!: view_tail split: if_splits intro: that)

lemma with_length_tail:
  assumes "with_length (pre @ m # tail) (Suc (length pre)) n shorter f = Inr r"
  obtains bs post where "tail = bs @ post" "length bs = n" "shorter < be_nat bs"
    "f (be_nat bs) (Suc (length pre) + n) = Inr r"
  using assms by (auto simp: with_length_def res_simps elim!: view_tail split: if_splits intro: that)

lemma encode_unsigned:
  shows "length bs = 1 \<Longrightarrow> 0x7f < be_nat bs \<Longrightarrow> encode_integer (int (be_nat bs)) = 0xcc # bs"
    and "length bs = 2 \<Longrightarrow> 0xff < be_nat bs \<Longrightarrow> encode_integer (int (be_nat bs)) = 0xcd # bs"
    and "length bs = 4 \<Longrightarrow> 0xffff < be_nat bs \<Longrightarrow> encode_integer (int (be_nat bs)) = 0xce # bs"
    and "length bs = 8 \<Longrightarrow> 0xffffffff < be_nat bs \<Longrightarrow> encode_integer (int (be_nat bs)) = 0xcf # bs"
proof -
  have *: "length bs = n \<Longrightarrow> be_nat bs < 256 ^ n" for n using be_nat_less [of bs] by simp
  show "length bs = 1 \<Longrightarrow> 0x7f < be_nat bs \<Longrightarrow> encode_integer (int (be_nat bs)) = 0xcc # bs"
    using * [of 1] be_bytes_be_nat_0 [of bs 1] by (simp add: encode_integer_def)
  show "length bs = 2 \<Longrightarrow> 0xff < be_nat bs \<Longrightarrow> encode_integer (int (be_nat bs)) = 0xcd # bs"
    using * [of 2] be_bytes_be_nat_0 [of bs 2] by (simp add: encode_integer_def number_bytes_def)
  show "length bs = 4 \<Longrightarrow> 0xffff < be_nat bs \<Longrightarrow> encode_integer (int (be_nat bs)) = 0xce # bs"
    using * [of 4] be_bytes_be_nat_0 [of bs 4] by (simp add: encode_integer_def number_bytes_def)
  show "length bs = 8 \<Longrightarrow> 0xffffffff < be_nat bs \<Longrightarrow> encode_integer (int (be_nat bs)) = 0xcf # bs"
    using be_bytes_be_nat_0 [of bs 8] by (simp add: encode_integer_def number_bytes_def)
qed

lemma encode_signed:
  shows "length bs = 1 \<Longrightarrow> be_int bs < - 32 \<Longrightarrow> encode_integer (be_int bs) = 0xd0 # bs"
    and "length bs = 2 \<Longrightarrow> be_int bs < - 128 \<Longrightarrow> encode_integer (be_int bs) = 0xd1 # bs"
    and "length bs = 4 \<Longrightarrow> be_int bs < - 32768 \<Longrightarrow> encode_integer (be_int bs) = 0xd2 # bs"
    and "length bs = 8 \<Longrightarrow> be_int bs < - 2147483648 \<Longrightarrow> encode_integer (be_int bs) = 0xd3 # bs"
  using be_int_bounds [of bs] be_bytes_be_int [of bs 1] be_bytes_be_int [of bs 2] be_bytes_be_int [of bs 4]
    be_bytes_be_int [of bs 8]
  by (simp_all add: encode_integer_def number_bytes_def)

section \<open>Arrays and maps\<close>

text \<open>A part of the input that an encoder writes for a value, within the limit of the frame.\<close>

definition written :: "encoder \<Rightarrow> jsval \<Rightarrow> bytes \<Rightarrow> nat \<Rightarrow> nat \<Rightarrow> bool" where
  "written enc v part nodes nodes1 \<longleftrightarrow>
     sound_value v \<and> v \<noteq> JUndef \<and> (\<forall>s. v = JStr s \<longrightarrow> \<not> has_unpaired_surrogate s)
     \<and> (\<forall>b. b + length part \<le> 262143 \<longrightarrow>
          enc v \<lparr>enc_nodes = nodes, enc_bytes = b\<rparr> =
            Inr (part, \<lparr>enc_nodes = nodes1, enc_bytes = b + length part\<rparr>))"

definition reads :: "encoder \<Rightarrow> (bytes \<Rightarrow> scanner) \<Rightarrow> bool" where
  "reads enc scan \<longleftrightarrow>
     (\<forall>input offset nodes r nodes1. scan input offset nodes = Inr (r, nodes1) \<longrightarrow>
        (\<exists>pre part post v. input = pre @ part @ post \<and> length pre = offset \<and> written enc v part nodes nodes1
           \<and> r = \<lparr>scan_end = offset + length part, scanned = kind_of v\<rparr>))"

lemma readsE:
  assumes "reads enc scan" "scan (pre @ tail) (length pre) nodes = Inr (r, nodes1)"
  obtains part post v where "tail = part @ post" "written enc v part nodes nodes1"
    "r = \<lparr>scan_end = length pre + length part, scanned = kind_of v\<rparr>"
proof -
  obtain pre' part post v where *: "pre @ tail = pre' @ part @ post" "length pre' = length pre"
      "written enc v part nodes nodes1" "r = \<lparr>scan_end = length pre + length part, scanned = kind_of v\<rparr>"
    by (rule exE [OF assms(1) [unfolded reads_def, rule_format, OF assms(2)]]) blast
  have "tail = part @ post" using *(1,2) append_eq_append_conv [of pre pre' tail "part @ post"] by metis
  then show ?thesis by (rule that [OF _ *(3,4)])
qed

lemma writtenD:
  assumes "written enc v part nodes nodes1" "b + length part \<le> 262143"
  shows "enc v \<lparr>enc_nodes = nodes, enc_bytes = b\<rparr> =
    Inr (part, \<lparr>enc_nodes = nodes1, enc_bytes = b + length part\<rparr>)"
  using assms by (simp add: written_def)

lemma scan_items_written:
  assumes "reads enc scan" "scan_items (scan (pre @ tail)) n (length pre) nodes = Inr (cursor, nodes1)"
  shows "\<exists>parts post vs. tail = concat parts @ post \<and> length vs = n \<and> cursor = length pre + length (concat parts)
    \<and> (\<forall>v\<in>set vs. sound_value v)
    \<and> (\<forall>b. b + length (concat parts) \<le> 262143 \<longrightarrow>
        encode_items enc (map Some vs) \<lparr>enc_nodes = nodes, enc_bytes = b\<rparr> =
          Inr (map Some parts, \<lparr>enc_nodes = nodes1, enc_bytes = b + length (concat parts)\<rparr>))"
  using assms(2)
proof (induction n arbitrary: pre tail nodes)
  case 0
  then show ?case by (intro exI [of _ "[]"] exI [of _ tail]) auto
next
  case (Suc n)
  then obtain r nodes2 where r: "scan (pre @ tail) (length pre) nodes = Inr (r, nodes2)"
      "scan_items (scan (pre @ tail)) n (scan_end r) nodes2 = Inr (cursor, nodes1)"
    by (auto simp: res_simps)
  obtain part post v where v: "tail = part @ post" "written enc v part nodes nodes2"
      "r = \<lparr>scan_end = length pre + length part, scanned = kind_of v\<rparr>"
    using readsE [OF assms(1) r(1)] .
  obtain parts post' vs where rest: "post = concat parts @ post'" "length vs = n"
      "cursor = length (pre @ part) + length (concat parts)" "\<forall>v\<in>set vs. sound_value v"
      "\<forall>b. b + length (concat parts) \<le> 262143 \<longrightarrow>
        encode_items enc (map Some vs) \<lparr>enc_nodes = nodes2, enc_bytes = b\<rparr> =
          Inr (map Some parts, \<lparr>enc_nodes = nodes1, enc_bytes = b + length (concat parts)\<rparr>)"
    using Suc.IH [of "pre @ part" post nodes2] r(2) unfolding v by (simp only: scan_result.simps length_append append_assoc) blast
  have "encode_items enc (map Some (v # vs)) \<lparr>enc_nodes = nodes, enc_bytes = b\<rparr> =
      Inr (map Some (part # parts), \<lparr>enc_nodes = nodes1, enc_bytes = b + length (concat (part # parts))\<rparr>)"
    if "b + length (concat (part # parts)) \<le> 262143" for b
    using that rest(5) writtenD [OF v(2), of b] by (simp add: add.assoc)
  moreover have "sound_value v" using v(2) by (simp add: written_def)
  ultimately show ?case using v(1) rest
    by (intro exI [of _ "part # parts"] exI [of _ post'] exI [of _ "v # vs"]) auto
qed

lemma kind_of_string: "v \<noteq> JUndef \<Longrightarrow> kind_of v = SString bs s \<Longrightarrow> \<exists>t. v = JStr t \<and> bs = utf8_encode t \<and> s = drop_bom t"
  by (cases v) (auto split: if_splits)

lemma compare_bytes_less: "p \<noteq> q \<Longrightarrow> \<not> 0 < compare_bytes p q \<Longrightarrow> compare_bytes p q < 0"
  by (metis compare_bytes_0_iff not_less_iff_gr_or_eq)

lemma scan_key_written:
  assumes "scan_key previous \<lparr>scan_end = n, scanned = kind_of v\<rparr> = Inr bs" "v \<noteq> JUndef"
  obtains t where "v = JStr t" "bs = utf8_encode t" "utf8_bytes t \<le> 256" "t \<noteq> js ''__proto__''"
    "t \<noteq> BOM # js ''__proto__''" "follows previous (t, w)"
proof -
  obtain b s where "kind_of v = SString b s" using assms(1) by (auto simp: scan_key_def split: scan_kind.splits)
  then obtain t where t: "v = JStr t" using kind_of_string [OF assms(2)] by blast
  show ?thesis
    by (rule that [OF t])
       (use assms(1) t drop_bom_proto [of t] in
         \<open>auto simp: scan_key_def utf8_bytes_def follows_def Let_def compare_bytes_less split: if_splits option.splits\<close>)
qed

definition entry_written :: "bytes option \<Rightarrow> jstr \<times> jsval \<Rightarrow> bool" where
  "entry_written previous e \<longleftrightarrow> sound_value (snd e) \<and> \<not> has_unpaired_surrogate (fst e) \<and> utf8_bytes (fst e) \<le> 256
     \<and> fst e \<noteq> BOM # js ''__proto__'' \<and> follows previous e"

lemma follows_trans:
  assumes "follows previous (k, v)" "follows (Some (utf8_encode k)) e"
  shows "follows previous e"
proof -
  have "Key_Bytes p < Key_Bytes (utf8_encode k) \<Longrightarrow> Key_Bytes (utf8_encode k) < Key_Bytes (utf8_encode (fst e)) \<Longrightarrow>
      Key_Bytes p < Key_Bytes (utf8_encode (fst e))" for p
    by (rule less_trans)
  then show ?thesis using assms by (auto simp: follows_def less_key_bytes_def split: option.splits)
qed

lemma scan_entries_written:
  assumes "reads enc scan" "scan_entries (scan (pre @ tail)) previous n (length pre) nodes = Inr (cursor, nodes1)"
  shows "\<exists>parts post fs. tail = concat parts @ post \<and> length fs = n \<and> cursor = length pre + length (concat parts)
    \<and> (\<forall>e\<in>set fs. entry_written previous e) \<and> sorted_wrt key_order fs
    \<and> (\<forall>b. b + length (concat parts) \<le> 262143 \<longrightarrow>
        encode_entries enc fs \<lparr>enc_nodes = nodes, enc_bytes = b\<rparr> =
          Inr (parts, \<lparr>enc_nodes = nodes1, enc_bytes = b + length (concat parts)\<rparr>))"
  using assms(2)
proof (induction n arbitrary: pre tail nodes previous)
  case 0
  then show ?case by (intro exI [of _ "[]"] exI [of _ tail]) auto
next
  case (Suc n)
  then obtain key nodesk bs r nodesv where s: "scan (pre @ tail) (length pre) nodes = Inr (key, nodesk)"
      "scan_key previous key = Inr bs" "scan (pre @ tail) (scan_end key) nodesk = Inr (r, nodesv)"
      "scan_entries (scan (pre @ tail)) (Some bs) n (scan_end r) nodesv = Inr (cursor, nodes1)"
    by (auto simp: res_simps)
  obtain kp kpost kv where k: "tail = kp @ kpost" "written enc kv kp nodes nodesk"
      "key = \<lparr>scan_end = length pre + length kp, scanned = kind_of kv\<rparr>"
    using readsE [OF assms(1) s(1)] .
  obtain vp vpost v where v: "kpost = vp @ vpost" "written enc v vp nodesk nodesv"
      "r = \<lparr>scan_end = length (pre @ kp) + length vp, scanned = kind_of v\<rparr>"
    using readsE [OF assms(1), of "pre @ kp" kpost nodesk r nodesv] s(3) k by auto
  obtain t where t: "kv = JStr t" "bs = utf8_encode t" "utf8_bytes t \<le> 256" "t \<noteq> js ''__proto__''"
      "t \<noteq> BOM # js ''__proto__''" "follows previous (t, v)"
    using scan_key_written [of previous "length pre + length kp" kv bs v] s(2) k by (auto simp: written_def)
  obtain parts post fs where rest: "vpost = concat parts @ post" "length fs = n"
      "cursor = length (pre @ kp @ vp) + length (concat parts)" "\<forall>e\<in>set fs. entry_written (Some bs) e"
      "sorted_wrt key_order fs"
      "\<forall>b. b + length (concat parts) \<le> 262143 \<longrightarrow>
        encode_entries enc fs \<lparr>enc_nodes = nodesv, enc_bytes = b\<rparr> =
          Inr (parts, \<lparr>enc_nodes = nodes1, enc_bytes = b + length (concat parts)\<rparr>)"
    using Suc.IH [of "pre @ kp @ vp" vpost "Some bs" nodesv] s(4) unfolding k(1) v
    by (simp only: scan_result.simps length_append append_assoc add.assoc) blast
  have "encode_entries enc ((t, v) # fs) \<lparr>enc_nodes = nodes, enc_bytes = b\<rparr> =
      Inr (kp # vp # parts, \<lparr>enc_nodes = nodes1, enc_bytes = b + length (concat (kp # vp # parts))\<rparr>)"
    if "b + length (concat (kp # vp # parts)) \<le> 262143" for b
    using that rest(6) t(4) v(2) writtenD [OF k(2), of b] writtenD [OF v(2), of "b + length kp"]
    by (simp add: t(1) written_def add.assoc)
  moreover have "entry_written previous (t, v)" "\<forall>e\<in>set fs. entry_written previous e"
    using k(2) v(2) t rest(4) follows_trans [OF t(6)] by (auto simp: entry_written_def written_def)
  moreover have "sorted_wrt key_order ((t, v) # fs)"
    using rest(4,5) t(2) by (auto simp: entry_written_def follows_def key_order_def)
  ultimately show ?case using k(1) v(1) rest
    by (intro exI [of _ "kp # vp # parts"] exI [of _ post] exI [of _ "(t, v) # fs"]) auto
qed

section \<open>Values\<close>

lemma encode_length_back:
  shows "m8 = Some m \<Longrightarrow> length bs = 1 \<Longrightarrow> fm < int (be_nat bs) \<Longrightarrow>
      encode_length (be_nat bs) fb fm m8 m16 m32 = m # bs"
    and "length bs = 2 \<Longrightarrow> fm < int (be_nat bs) \<Longrightarrow> (m8 \<noteq> None \<Longrightarrow> 0xff < be_nat bs) \<Longrightarrow>
      encode_length (be_nat bs) fb fm m8 m16 m32 = m16 # bs"
    and "length bs = 4 \<Longrightarrow> fm < int (be_nat bs) \<Longrightarrow> 0xffff < be_nat bs \<Longrightarrow>
      encode_length (be_nat bs) fb fm m8 m16 m32 = m32 # bs"
proof -
  have *: "length bs = n \<Longrightarrow> be_nat bs < 256 ^ n" for n using be_nat_less [of bs] by simp
  show "m8 = Some m \<Longrightarrow> length bs = 1 \<Longrightarrow> fm < int (be_nat bs) \<Longrightarrow>
      encode_length (be_nat bs) fb fm m8 m16 m32 = m # bs"
    using * [of 1] be_bytes_be_nat_0 [of bs 1] by (simp add: encode_length_def)
  show "length bs = 2 \<Longrightarrow> fm < int (be_nat bs) \<Longrightarrow> (m8 \<noteq> None \<Longrightarrow> 0xff < be_nat bs) \<Longrightarrow>
      encode_length (be_nat bs) fb fm m8 m16 m32 = m16 # bs"
    using * [of 2] be_bytes_be_nat_0 [of bs 2]
    by (cases m8) (simp_all add: encode_length_def number_bytes_def)
  show "length bs = 4 \<Longrightarrow> fm < int (be_nat bs) \<Longrightarrow> 0xffff < be_nat bs \<Longrightarrow>
      encode_length (be_nat bs) fb fm m8 m16 m32 = m32 # bs"
    using be_bytes_be_nat_0 [of bs 4] by (cases m8) (simp_all add: encode_length_def number_bytes_def)
qed

lemma encode_length_fixed:
  assumes "int n \<le> fm" "unat m = fb + n"
  shows "encode_length n fb fm m8 m16 m32 = [m]"
proof -
  have "of_nat (fb + n) = m" by (simp flip: assms(2))
  then show ?thesis using assms by (simp add: encode_length_def)
qed

lemma written_integer:
  assumes "nodes < 16384" "- max_safe_integer \<le> i" "i \<le> max_safe_integer"
  shows "written (encode_at (Suc levels)) (JNum (NInt i)) (encode_integer i) nodes (Suc nodes)"
  using assms by (simp add: written_def sound_value_def encoded_atom_def account_encoded_bytes_def Let_def)

lemma written_double:
  assumes "nodes < 16384" "length bs = 8" "double_of_bits (of_nat (be_nat bs)) = NFrac b"
  shows "written (encode_at (Suc levels)) (JNum (NFrac b)) (0xcb # bs) nodes (Suc nodes)"
proof -
  have b: "b = of_nat (be_nat bs)" using assms(3) double_of_bits_NFrac by metis
  have "be_nat bs < 2 ^ 64" using be_nat_less [of bs] assms(2) by simp
  then have "uint b = int (be_nat bs)" by (simp add: b unsigned_of_nat take_bit_nat_eq_self)
  then have "be_bytes 8 (uint b) = bs" using be_bytes_be_nat_0 [OF assms(2)] by simp
  then show ?thesis using assms b
    by (simp add: written_def sound_value_def encoded_atom_def account_encoded_bytes_def Let_def number_bytes_def)
qed

lemma written_string:
  assumes "nodes < 16384" "\<not> has_unpaired_surrogate t" "utf8_bytes t \<le> 65536"
  shows "written (encode_at (Suc levels)) (JStr t)
    (encode_length (utf8_bytes t) 0xa0 31 (Some 0xd9) 0xda 0xdb @ utf8_encode t) nodes (Suc nodes)"
  using assms length_le_utf8_bytes [of t]
  by (simp add: written_def valid_utf8_string_def account_encoded_bytes_def Let_def utf8_bytes_def)

lemma written_binary:
  assumes "nodes < 16384" "length b \<le> 131072"
  shows "written (encode_at (Suc levels)) (JBytes b)
    (encode_length (length b) 0 (- 1) (Some 0xc4) 0xc5 0xc6 @ b) nodes (Suc nodes)"
  using assms by (simp add: written_def sound_value_def account_encoded_bytes_def Let_def)

lemma written_array:
  assumes "nodes < 16384" "length vs \<le> 4096" "\<forall>v\<in>set vs. sound_value v"
    and "\<forall>b. b + length (concat parts) \<le> 262143 \<longrightarrow>
        encode_items (encode_at levels) (map Some vs) \<lparr>enc_nodes = Suc nodes, enc_bytes = b\<rparr> =
          Inr (map Some parts, \<lparr>enc_nodes = nodes1, enc_bytes = b + length (concat parts)\<rparr>)"
  shows "written (encode_at (Suc levels)) (JArr 0 (map Some vs) [])
    (encode_length (length vs) 0x90 15 None 0xdc 0xdd @ concat parts) nodes nodes1"
proof -
  have "present (map Some parts) = parts" by (induction parts) auto
  then show ?thesis using assms
    by (auto simp: written_def account_encoded_bytes_def Let_def concat_parts_def add.assoc)
qed

lemma sorted_entries_id:
  assumes "sorted_wrt key_order fs"
  shows "sorted_entries fs = fs"
proof -
  have "sorted (map (\<lambda>(k, _). Key_Bytes (utf8_encode k)) fs)"
    using assms unfolding sorted_map
    by (rule sorted_wrt_mono_rel [rotated]) (auto simp: key_order_def less_eq_key_bytes_def)
  then show ?thesis unfolding sorted_entries_def by (rule sort_key_id_if_sorted)
qed

lemma key_order_distinct: "sorted_wrt key_order fs \<Longrightarrow> distinct (map fst fs)"
  by (induction fs) (auto simp: key_order_def)

lemma written_record:
  assumes "nodes < 16384" "length fs \<le> 4096" "\<forall>e\<in>set fs. entry_written None e" "sorted_wrt key_order fs"
    and "\<forall>b. b + length (concat parts) \<le> 262143 \<longrightarrow>
        encode_entries (encode_at levels) fs \<lparr>enc_nodes = Suc nodes, enc_bytes = b\<rparr> =
          Inr (parts, \<lparr>enc_nodes = nodes1, enc_bytes = b + length (concat parts)\<rparr>)"
  shows "written (encode_at (Suc levels)) (JRec 0 fs)
    (encode_length (length fs) 0x80 15 None 0xde 0xdf @ concat parts) nodes nodes1"
proof -
  have "each_r (\<lambda>(key, _). bind_r (valid_utf8_string key 256) (\<lambda>_. Inr ())) fs = Inr ()"
    unfolding keys_checked using assms(3) by (simp add: entry_written_def)
  moreover have "sound_value (JRec 0 fs)"
    using assms(3) key_order_distinct [OF assms(4)] by (auto simp: entry_written_def)
  ultimately show ?thesis using assms
    by (simp add: written_def account_encoded_bytes_def Let_def sorted_entries_id add.assoc)
qed

text \<open>An accepted value at a marker, in terms of what follows the marker.\<close>

definition value_at :: "nat \<Rightarrow> nat \<Rightarrow> u8 \<Rightarrow> bytes \<Rightarrow> nat \<Rightarrow> scan_result \<Rightarrow> nat \<Rightarrow> bool" where
  "value_at levels start m tail nodes r nodes1 \<longleftrightarrow>
     (\<exists>rest post v. tail = rest @ post \<and> written (encode_at levels) v (m # rest) nodes nodes1
        \<and> r = \<lparr>scan_end = start + length (m # rest), scanned = kind_of v\<rparr>)"

lemma value_atI:
  "tail = rest @ post \<Longrightarrow> written (encode_at levels) v (m # rest) nodes nodes1 \<Longrightarrow>
    r = \<lparr>scan_end = start + length (m # rest), scanned = kind_of v\<rparr> \<Longrightarrow> value_at levels start m tail nodes r nodes1"
  by (auto simp: value_at_def)

lemma atom_InrD: "atom nodes res = Inr (r, nodes1) \<Longrightarrow> res = Inr r \<and> nodes1 = nodes"
  by (auto simp: atom_def res_simps)

lemma value_at_unsigned:
  assumes "scan_unsigned (pre @ m # tail) (Suc (length pre)) n shorter = Inr r" "nodes < 16384"
    and "\<And>bs. length bs = n \<Longrightarrow> shorter < be_nat bs \<Longrightarrow> encode_integer (int (be_nat bs)) = m # bs"
  shows "value_at (Suc levels) (length pre) m tail nodes r (Suc nodes)"
proof -
  obtain bs post where bs: "tail = bs @ post" "length bs = n" "shorter < be_nat bs" "int (be_nat bs) \<le> max_safe_integer"
      "r = \<lparr>scan_end = Suc (length pre) + n, scanned = SInteger\<rparr>"
    using assms(1) by (rule scan_unsigned_tail)
  have "written (encode_at (Suc levels)) (JNum (NInt (int (be_nat bs)))) (m # bs) nodes (Suc nodes)"
    using written_integer [OF assms(2) _ bs(4), of levels] assms(3) [OF bs(2,3)] by (simp add: max_safe_integer_def)
  then show ?thesis by (rule value_atI [OF bs(1)]) (simp add: bs)
qed

lemma value_at_signed:
  assumes "scan_signed (pre @ m # tail) (Suc (length pre)) n shorter = Inr r" "nodes < 16384" "shorter \<le> 0"
    and "\<And>bs. length bs = n \<Longrightarrow> be_int bs < shorter \<Longrightarrow> encode_integer (be_int bs) = m # bs"
  shows "value_at (Suc levels) (length pre) m tail nodes r (Suc nodes)"
proof -
  obtain bs post where bs: "tail = bs @ post" "length bs = n" "be_int bs < shorter" "- max_safe_integer \<le> be_int bs"
      "r = \<lparr>scan_end = Suc (length pre) + n, scanned = SInteger\<rparr>"
    using assms(1) by (rule scan_signed_tail)
  have "be_int bs \<le> max_safe_integer" using bs(3) assms(3) by (simp add: max_safe_integer_def)
  then have "written (encode_at (Suc levels)) (JNum (NInt (be_int bs))) (m # bs) nodes (Suc nodes)"
    using written_integer [OF assms(2) bs(4), of levels] assms(4) [OF bs(2,3)] by simp
  then show ?thesis by (rule value_atI [OF bs(1)]) (simp add: bs)
qed

lemma value_at_float:
  assumes "scan_float (pre @ 0xcb # tail) (Suc (length pre)) = Inr r" "nodes < 16384"
  shows "value_at (Suc levels) (length pre) 0xcb tail nodes r (Suc nodes)"
proof -
  obtain bs where v: "view (pre @ 0xcb # tail) (Suc (length pre)) 8 = Inr bs"
      "num_is_finite (double_of_bits (of_nat (be_nat bs)))" "\<not> num_is_integer (double_of_bits (of_nat (be_nat bs)))"
      "r = \<lparr>scan_end = Suc (length pre) + 8, scanned = SFloat\<rparr>"
    using assms(1) by (auto simp: scan_float_def res_simps Let_def split: if_splits)
  obtain post where bs: "tail = bs @ post" "length bs = 8" using v(1) by (rule view_tail)
  obtain b where "double_of_bits (of_nat (be_nat bs)) = NFrac b"
    using v(2,3) by (cases "double_of_bits (of_nat (be_nat bs))") auto
  from written_double [OF assms(2) bs(2) this, of levels] show ?thesis
    by (rule value_atI [OF bs(1)]) (simp add: v(4) bs(2))
qed

lemma scan_string_tail:
  assumes "scan_string (front @ tail) (length front) n (length front) = Inr r"
  obtains t post where "tail = utf8_encode t @ post" "utf8_bytes t = n" "n \<le> 65536" "\<not> has_unpaired_surrogate t"
    "r = \<lparr>scan_end = length front + n, scanned = kind_of (JStr t)\<rparr>"
proof -
  obtain mid s where v: "view (front @ tail) (length front) n = Inr mid" "text_decode mid = Some s" "n \<le> 65536"
      "r = \<lparr>scan_end = length front + n, scanned = SString mid s\<rparr>"
    using assms by (auto simp: scan_string_def res_simps split: if_splits option.splits)
  obtain t where t: "\<not> has_unpaired_surrogate t" "utf8_encode t = mid" "drop_bom t = s"
    using v(2) by (rule text_decode_sound)
  have "mid = take n tail" "n \<le> length tail" using v(1) by (auto simp: view_Inr_iff)
  then show ?thesis using t v by (intro that [of t "drop n tail"]) (auto simp: utf8_bytes_def)
qed

lemma value_at_string:
  assumes "scan_string (pre @ m # bs @ tail) (Suc (length pre) + length bs) n (Suc (length pre) + length bs) = Inr r"
    and "nodes < 16384" "encode_length n 0xa0 31 (Some 0xd9) 0xda 0xdb = m # bs"
  shows "value_at (Suc levels) (length pre) m (bs @ tail) nodes r (Suc nodes)"
proof -
  obtain t post where t: "tail = utf8_encode t @ post" "utf8_bytes t = n" "n \<le> 65536" "\<not> has_unpaired_surrogate t"
      "r = \<lparr>scan_end = length (pre @ m # bs) + n, scanned = kind_of (JStr t)\<rparr>"
    using scan_string_tail [of "pre @ m # bs" tail n r] assms(1) by auto
  from written_string [OF assms(2) t(4), of levels] have
    "written (encode_at (Suc levels)) (JStr t) (m # bs @ utf8_encode t) nodes (Suc nodes)"
    using t(2,3) assms(3) by simp
  then show ?thesis by (rule value_atI [rotated]) (use t in \<open>simp_all add: utf8_bytes_def\<close>)
qed

lemma value_at_binary:
  assumes "scan_binary (pre @ m # bs @ tail) (Suc (length pre) + length bs) n (Suc (length pre) + length bs) = Inr r"
    and "nodes < 16384" "encode_length n 0 (- 1) (Some 0xc4) 0xc5 0xc6 = m # bs"
  shows "value_at (Suc levels) (length pre) m (bs @ tail) nodes r (Suc nodes)"
proof -
  have n: "n \<le> 131072" "n \<le> length tail" "r = \<lparr>scan_end = Suc (length pre) + length bs + n, scanned = SBinary\<rparr>"
    using assms(1) by (auto simp: scan_binary_def ensure_available_def split: if_splits)
  have "written (encode_at (Suc levels)) (JBytes (take n tail)) (m # bs @ take n tail) nodes (Suc nodes)"
    using written_binary [OF assms(2), of "take n tail" levels] n assms(3) by simp
  then show ?thesis by (rule value_atI [where post = "drop n tail", rotated]) (use n in simp_all)
qed

lemma value_at_array:
  assumes "reads (encode_at levels) (scan_at levels)"
    and "scan_array (scan_at levels (pre @ m # bs @ tail)) (Suc (length pre) + length bs) n (Suc nodes) = Inr (r, nodes1)"
    and "nodes < 16384" "encode_length n 0x90 15 None 0xdc 0xdd = m # bs"
  shows "value_at (Suc levels) (length pre) m (bs @ tail) nodes r nodes1"
proof -
  obtain cursor where s: "n \<le> 4096" "r = \<lparr>scan_end = cursor, scanned = SArray\<rparr>"
      "scan_items (scan_at levels ((pre @ m # bs) @ tail)) n (length (pre @ m # bs)) (Suc nodes) = Inr (cursor, nodes1)"
    using assms(2) by (auto simp: scan_array_def res_simps split: if_splits)
  obtain parts post vs where p: "tail = concat parts @ post" "length vs = n"
      "cursor = length (pre @ m # bs) + length (concat parts)" "\<forall>v\<in>set vs. sound_value v"
      "\<forall>b. b + length (concat parts) \<le> 262143 \<longrightarrow>
        encode_items (encode_at levels) (map Some vs) \<lparr>enc_nodes = Suc nodes, enc_bytes = b\<rparr> =
          Inr (map Some parts, \<lparr>enc_nodes = nodes1, enc_bytes = b + length (concat parts)\<rparr>)"
    using scan_items_written [OF assms(1) s(3)] by blast
  have "written (encode_at (Suc levels)) (JArr 0 (map Some vs) []) (m # bs @ concat parts) nodes nodes1"
    using written_array [OF assms(3) _ p(4,5)] p(2) s(1) assms(4) by simp
  then show ?thesis by (rule value_atI [rotated]) (use p s in simp_all)
qed

lemma value_at_record:
  assumes "reads (encode_at levels) (scan_at levels)"
    and "scan_map (scan_at levels (pre @ m # bs @ tail)) (Suc (length pre) + length bs) n (Suc nodes) = Inr (r, nodes1)"
    and "nodes < 16384" "encode_length n 0x80 15 None 0xde 0xdf = m # bs"
  shows "value_at (Suc levels) (length pre) m (bs @ tail) nodes r nodes1"
proof -
  obtain cursor where s: "n \<le> 4096" "r = \<lparr>scan_end = cursor, scanned = SMap\<rparr>"
      "scan_entries (scan_at levels ((pre @ m # bs) @ tail)) None n (length (pre @ m # bs)) (Suc nodes) = Inr (cursor, nodes1)"
    using assms(2) by (auto simp: scan_map_def res_simps split: if_splits)
  obtain parts post fs where p: "tail = concat parts @ post" "length fs = n"
      "cursor = length (pre @ m # bs) + length (concat parts)" "\<forall>e\<in>set fs. entry_written None e"
      "sorted_wrt key_order fs"
      "\<forall>b. b + length (concat parts) \<le> 262143 \<longrightarrow>
        encode_entries (encode_at levels) fs \<lparr>enc_nodes = Suc nodes, enc_bytes = b\<rparr> =
          Inr (parts, \<lparr>enc_nodes = nodes1, enc_bytes = b + length (concat parts)\<rparr>)"
    using scan_entries_written [OF assms(1) s(3)] by blast
  have "written (encode_at (Suc levels)) (JRec 0 fs) (m # bs @ concat parts) nodes nodes1"
    using written_record [OF assms(3) _ p(4-6)] p(2) s(1) assms(4) by simp
  then show ?thesis by (rule value_atI [rotated]) (use p s in simp_all)
qed

lemma with_length_value:
  assumes "with_length (pre @ m # tail) (Suc (length pre)) k shorter f = Inr (r, nodes1)"
    and "\<And>bs post. length bs = k \<Longrightarrow> shorter < be_nat bs \<Longrightarrow> tail = bs @ post \<Longrightarrow>
      f (be_nat bs) (Suc (length pre) + length bs) = Inr (r, nodes1) \<Longrightarrow>
      value_at levels (length pre) m (bs @ post) nodes r nodes1"
  shows "value_at levels (length pre) m tail nodes r nodes1"
proof -
  obtain bs post where bs: "tail = bs @ post" "length bs = k" "shorter < be_nat bs"
      "f (be_nat bs) (Suc (length pre) + k) = Inr (r, nodes1)"
    using assms(1) by (rule with_length_tail)
  show ?thesis unfolding bs(1) by (rule assms(2)) (use bs in simp_all)
qed

lemma with_length_atom:
  "atom nodes (with_length input start k shorter f) = with_length input start k shorter (\<lambda>n next1. atom nodes (f n next1))"
  by (cases "view input start k") (simp_all add: atom_def with_length_def)

lemma limited_InrD: "limited maximum input start res = Inr x \<Longrightarrow> res = Inr x"
  by (auto simp: limited_def res_simps)

text \<open>The markers above the fixed forms, one by one.\<close>

lemma high_marker_cases:
  fixes m :: u8
  assumes "0xc0 \<le> unat m" "unat m < 0xe0"
  obtains (bad) "unat m \<in> {0xc1, 0xc7, 0xc8, 0xc9, 0xca, 0xd4, 0xd5, 0xd6, 0xd7, 0xd8}"
  | (mc0) "m = 0xc0"
  | (mc2) "m = 0xc2"
  | (mc3) "m = 0xc3"
  | (mc4) "m = 0xc4"
  | (mc5) "m = 0xc5"
  | (mc6) "m = 0xc6"
  | (mcb) "m = 0xcb"
  | (mcc) "m = 0xcc"
  | (mcd) "m = 0xcd"
  | (mce) "m = 0xce"
  | (mcf) "m = 0xcf"
  | (md0) "m = 0xd0"
  | (md1) "m = 0xd1"
  | (md2) "m = 0xd2"
  | (md3) "m = 0xd3"
  | (md9) "m = 0xd9"
  | (mda) "m = 0xda"
  | (mdb) "m = 0xdb"
  | (mdc) "m = 0xdc"
  | (mdd) "m = 0xdd"
  | (mde) "m = 0xde"
  | (mdf) "m = 0xdf"
proof -
  have u: "[0xc0..<0xe0] = [0xc0, 0xc1, 0xc2, 0xc3, 0xc4, 0xc5, 0xc6, 0xc7, 0xc8, 0xc9, 0xca, 0xcb, 0xcc, 0xcd, 0xce, 0xcf, 0xd0, 0xd1, 0xd2, 0xd3, 0xd4, 0xd5, 0xd6, 0xd7, 0xd8, 0xd9, 0xda, 0xdb, 0xdc, 0xdd, 0xde, 0xdf :: nat]" by (simp add: upt_rec_numeral)
  have "unat m \<in> {0xc0..<0xe0}" using assms by simp
  then have "unat m \<in> set [0xc0..<0xe0]" by (simp only: set_upt)
  moreover have "m = of_nat (unat m)" by simp
  moreover have "unat m \<in> {0xc1, 0xc7, 0xc8, 0xc9, 0xca, 0xd4, 0xd5, 0xd6, 0xd7, 0xd8} \<or> unat m \<in> {0xc0, 0xc2, 0xc3, 0xc4, 0xc5, 0xc6, 0xcb, 0xcc, 0xcd, 0xce, 0xcf, 0xd0, 0xd1, 0xd2, 0xd3, 0xd9, 0xda, 0xdb, 0xdc, 0xdd, 0xde, 0xdf}"
    using calculation unfolding u by auto
  ultimately consider "unat m \<in> {0xc1, 0xc7, 0xc8, 0xc9, 0xca, 0xd4, 0xd5, 0xd6, 0xd7, 0xd8}" | "unat m \<in> {0xc0, 0xc2, 0xc3, 0xc4, 0xc5, 0xc6, 0xcb, 0xcc, 0xcd, 0xce, 0xcf, 0xd0, 0xd1, 0xd2, 0xd3, 0xd9, 0xda, 0xdb, 0xdc, 0xdd, 0xde, 0xdf}" by blast
  then show ?thesis
  proof cases
    case 1
    then show ?thesis by (rule that(1))
  next
    case 2
    then have "m \<in> of_nat ` {0xc0, 0xc2, 0xc3, 0xc4, 0xc5, 0xc6, 0xcb, 0xcc, 0xcd, 0xce, 0xcf, 0xd0, 0xd1, 0xd2, 0xd3, 0xd9, 0xda, 0xdb, 0xdc, 0xdd, 0xde, 0xdf}" by (rule image_eqI [rotated]) simp
    then have "m \<in> {0xc0, 0xc2, 0xc3, 0xc4, 0xc5, 0xc6, 0xcb, 0xcc, 0xcd, 0xce, 0xcf, 0xd0, 0xd1, 0xd2, 0xd3, 0xd9, 0xda, 0xdb, 0xdc, 0xdd, 0xde, 0xdf}" by simp
    then show ?thesis using that by blast
  qed
qed

lemma value_at_atom:
  "written (encode_at levels) v [m] nodes nodes2 \<Longrightarrow>
    Inr (\<lparr>scan_end = Suc start, scanned = kind_of v\<rparr>, nodes2) = (Inr (r, nodes1) :: (scan_result \<times> nat) wire) \<Longrightarrow>
    value_at levels start m tail nodes r nodes1"
  by (rule value_atI [where rest = "[]" and post = tail]) auto

lemma encode_fixed_integer:
  "0 \<le> i \<Longrightarrow> i \<le> 0x7f \<Longrightarrow> encode_integer i = [word_of_int i]"
  "- 32 \<le> i \<Longrightarrow> i < 0 \<Longrightarrow> encode_integer i = [word_of_int (0x100 + i)]"
  by (simp_all add: encode_integer_def)

lemma marker_value_at:
  assumes "reads (encode_at levels) (scan_at levels)" "nodes < 16384"
    and s: "scan_marker (scan_at levels (pre @ m # tail)) (pre @ m # tail) (unat m) (Suc (length pre)) (Suc nodes) =
      Inr (r, nodes1)"
  shows "value_at (Suc levels) (length pre) m tail nodes r nodes1"
proof -
  note string = value_at_string [OF _ assms(2), where pre = pre and m = m and levels = levels]
  note binary = value_at_binary [OF _ assms(2), where pre = pre and m = m and levels = levels]
  note arr = value_at_array [OF assms(1) _ assms(2), where pre = pre and m = m]
  note rcd = value_at_record [OF assms(1) _ assms(2), where pre = pre and m = m]
  consider (positive) "unat m \<le> 0x7f" | (negative) "0xe0 \<le> unat m"
    | (fixmap) "0x80 \<le> unat m" "unat m \<le> 0x8f" | (fixarray) "0x90 \<le> unat m" "unat m \<le> 0x9f"
    | (fixstr) "0xa0 \<le> unat m" "unat m \<le> 0xbf" | (high) "0xc0 \<le> unat m" "unat m < 0xe0"
    by linarith
  then show ?thesis
  proof cases
    case positive
    define i where "i = int (unat m)"
    have i: "0 \<le> i" "i \<le> 0x7f" using positive unfolding i_def by linarith+
    have "encode_integer i = [m]" using encode_fixed_integer(1) [OF i] by (simp add: i_def)
    then have "written (encode_at (Suc levels)) (JNum (NInt i)) [m] nodes (Suc nodes)"
      using written_integer [OF assms(2), of i levels] i by (simp add: max_safe_integer_def)
    then show ?thesis by (rule value_at_atom) (use s positive in \<open>simp add: scan_marker_def\<close>)
  next
    case negative
    define i where "i = int (unat m) - 0x100"
    have i: "- 32 \<le> i" "i < 0" using negative unat_u8_less [of m] unfolding i_def by linarith+
    have "encode_integer i = [m]" using encode_fixed_integer(2) [OF i] by (simp add: i_def)
    then have "written (encode_at (Suc levels)) (JNum (NInt i)) [m] nodes (Suc nodes)"
      using written_integer [OF assms(2), of i levels] i by (simp add: max_safe_integer_def)
    then show ?thesis by (rule value_at_atom) (use s negative in \<open>simp add: scan_marker_def\<close>)
  next
    case fixmap
    obtain n where n: "unat m = 0x80 + n" using fixmap(1) le_Suc_ex by blast
    then have le: "n \<le> 15" using fixmap by linarith
    have e: "encode_length n 0x80 15 None 0xde 0xdf = [m]" by (rule encode_length_fixed) (use le n in simp_all)
    have "scan_map (scan_at levels (pre @ m # [] @ tail)) (Suc (length pre) + length []) n (Suc nodes) = Inr (r, nodes1)"
      using s n le by (simp add: scan_marker_def mod_fixed)
    from rcd [OF this e] show ?thesis by simp
  next
    case fixarray
    obtain n where n: "unat m = 0x90 + n" using fixarray(1) le_Suc_ex by blast
    then have le: "n \<le> 15" using fixarray by linarith
    have e: "encode_length n 0x90 15 None 0xdc 0xdd = [m]" by (rule encode_length_fixed) (use le n in simp_all)
    have "scan_array (scan_at levels (pre @ m # [] @ tail)) (Suc (length pre) + length []) n (Suc nodes) = Inr (r, nodes1)"
      using s n le by (simp add: scan_marker_def mod_fixed)
    from arr [OF this e] show ?thesis by simp
  next
    case fixstr
    obtain n where n: "unat m = 0xa0 + n" using fixstr(1) le_Suc_ex by blast
    then have le: "n \<le> 31" using fixstr by linarith
    have e: "encode_length n 0xa0 31 (Some 0xd9) 0xda 0xdb = [m]" by (rule encode_length_fixed) (use le n in simp_all)
    have "scan_string (pre @ m # [] @ tail) (Suc (length pre) + length []) n (Suc (length pre) + length []) = Inr r"
      and nodes: "nodes1 = Suc nodes"
      using s n le by (auto simp: scan_marker_def mod_fixed dest!: atom_InrD)
    from string [OF this(1) e] show ?thesis by (simp add: nodes)
  next
    case high
    then show ?thesis
    proof (cases rule: high_marker_cases)
      case bad
      then show ?thesis using s by (auto simp: scan_marker_def res_simps)
    next
      case mc0
      have "written (encode_at (Suc levels)) JNull [m] nodes (Suc nodes)"
        using assms(2) by (simp add: mc0 written_def sound_value_def encoded_atom_def account_encoded_bytes_def Let_def)
      then show ?thesis by (rule value_at_atom) (use s mc0 in \<open>simp add: scan_marker_def\<close>)
    next
      case mc2
      have "written (encode_at (Suc levels)) (JBool False) [m] nodes (Suc nodes)"
        using assms(2) by (simp add: mc2 written_def sound_value_def encoded_atom_def account_encoded_bytes_def Let_def)
      then show ?thesis by (rule value_at_atom) (use s mc2 in \<open>simp add: scan_marker_def\<close>)
    next
      case mc3
      have "written (encode_at (Suc levels)) (JBool True) [m] nodes (Suc nodes)"
        using assms(2) by (simp add: mc3 written_def sound_value_def encoded_atom_def account_encoded_bytes_def Let_def)
      then show ?thesis by (rule value_at_atom) (use s mc3 in \<open>simp add: scan_marker_def\<close>)
    next
      case mc4
      obtain bs where v: "view (pre @ m # tail) (Suc (length pre)) 1 = Inr bs" and b:
          "scan_binary (pre @ m # tail) (Suc (length pre) + 1) (be_nat bs) (Suc (length pre) + 1) = Inr r" "nodes1 = Suc nodes"
        using s by (auto simp: mc4 scan_marker_def res_simps dest!: atom_InrD)
      obtain post where p: "tail = bs @ post" "length bs = 1" using v by (rule view_tail)
      show ?thesis using binary [of bs post "be_nat bs" r] b p encode_length_back(1) [of "Some 0xc4" "0xc4" bs "- 1"]
        by (simp add: mc4)
    next
      case mc5
      then have "with_length (pre @ m # tail) (Suc (length pre)) 2 0xff (\<lambda>n next1. atom (Suc nodes) (scan_binary (pre @ m # tail) next1 n next1)) =
          Inr (r, nodes1)"
        using s by (simp add: scan_marker_def with_length_atom)
      then show ?thesis
        by (rule with_length_value)
           (use mc5 binary encode_length_back in \<open>auto dest!: atom_InrD\<close>)
    next
      case mc6
      then have "with_length (pre @ m # tail) (Suc (length pre)) 4 0xffff (\<lambda>n next1. atom (Suc nodes) (scan_binary (pre @ m # tail) next1 n next1)) =
          Inr (r, nodes1)"
        using s by (simp add: scan_marker_def with_length_atom)
      then show ?thesis
        by (rule with_length_value)
           (use mc6 binary encode_length_back in \<open>auto dest!: atom_InrD\<close>)
    next
      case mcb
      then show ?thesis using s value_at_float [where pre = pre and tail = tail and r = r and nodes = nodes and levels = levels] assms(2)
        by (auto simp: scan_marker_def dest!: atom_InrD)
    next
      case mcc
      then show ?thesis using s value_at_unsigned [OF _ assms(2) encode_unsigned(1), where pre = pre and tail = tail and r = r and levels = levels]
        by (auto simp: scan_marker_def dest!: atom_InrD)
    next
      case mcd
      then show ?thesis using s value_at_unsigned [OF _ assms(2) encode_unsigned(2), where pre = pre and tail = tail and r = r and levels = levels]
        by (auto simp: scan_marker_def dest!: atom_InrD)
    next
      case mce
      then show ?thesis using s value_at_unsigned [OF _ assms(2) encode_unsigned(3), where pre = pre and tail = tail and r = r and levels = levels]
        by (auto simp: scan_marker_def dest!: atom_InrD)
    next
      case mcf
      then show ?thesis using s value_at_unsigned [OF _ assms(2) encode_unsigned(4), where pre = pre and tail = tail and r = r and levels = levels]
        by (auto simp: scan_marker_def dest!: atom_InrD)
    next
      case md0
      then show ?thesis using s value_at_signed [OF _ assms(2) _ encode_signed(1), where pre = pre and tail = tail and r = r and levels = levels]
        by (auto simp: scan_marker_def dest!: atom_InrD)
    next
      case md1
      then show ?thesis using s value_at_signed [OF _ assms(2) _ encode_signed(2), where pre = pre and tail = tail and r = r and levels = levels]
        by (auto simp: scan_marker_def dest!: atom_InrD)
    next
      case md2
      then show ?thesis using s value_at_signed [OF _ assms(2) _ encode_signed(3), where pre = pre and tail = tail and r = r and levels = levels]
        by (auto simp: scan_marker_def dest!: atom_InrD)
    next
      case md3
      then show ?thesis using s value_at_signed [OF _ assms(2) _ encode_signed(4), where pre = pre and tail = tail and r = r and levels = levels]
        by (auto simp: scan_marker_def dest!: atom_InrD)
    next
      case md9
      then have "with_length (pre @ m # tail) (Suc (length pre)) 1 31 (\<lambda>n next1. atom (Suc nodes) (scan_string (pre @ m # tail) next1 n next1)) =
          Inr (r, nodes1)"
        using s by (simp add: scan_marker_def with_length_atom)
      then show ?thesis
        by (rule with_length_value)
           (use md9 string encode_length_back in \<open>auto dest!: atom_InrD\<close>)
    next
      case mda
      then have "with_length (pre @ m # tail) (Suc (length pre)) 2 0xff (\<lambda>n next1. atom (Suc nodes) (scan_string (pre @ m # tail) next1 n next1)) =
          Inr (r, nodes1)"
        using s by (simp add: scan_marker_def with_length_atom)
      then show ?thesis
        by (rule with_length_value)
           (use mda string encode_length_back in \<open>auto dest!: atom_InrD\<close>)
    next
      case mdb
      then have "with_length (pre @ m # tail) (Suc (length pre)) 4 0xffff (\<lambda>n next1. atom (Suc nodes) (scan_string (pre @ m # tail) next1 n next1)) =
          Inr (r, nodes1)"
        using s by (simp add: scan_marker_def with_length_atom)
      then show ?thesis
        by (rule with_length_value)
           (use mdb string encode_length_back in \<open>auto dest!: atom_InrD\<close>)
    next
      case mdc
      then have "with_length (pre @ m # tail) (Suc (length pre)) 2 15 (\<lambda>n next1. scan_array (scan_at levels (pre @ m # tail)) next1 n (Suc nodes)) =
          Inr (r, nodes1)"
        using s by (auto simp: scan_marker_def dest!: limited_InrD)
      then show ?thesis
      proof (rule with_length_value)
        fix bs post
        assume b: "length bs = 2" "15 < be_nat bs" "tail = bs @ post"
          "scan_array (scan_at levels (pre @ m # tail)) (Suc (length pre) + length bs) (be_nat bs) (Suc nodes) = Inr (r, nodes1)"
        have "encode_length (be_nat bs) 0x90 15 None 0xdc 0xdd = m # bs"
          using encode_length_back(2) [OF b(1), of 15 None "0x90" "0xdc" "0xdd"] b(2) mdc by simp
        from arr [OF b(4) [unfolded b(3)] this] show "value_at (Suc levels) (length pre) m (bs @ post) nodes r nodes1" .
      qed
    next
      case mdd
      then have "with_length (pre @ m # tail) (Suc (length pre)) 4 0xffff (\<lambda>n next1. scan_array (scan_at levels (pre @ m # tail)) next1 n (Suc nodes)) =
          Inr (r, nodes1)"
        using s by (auto simp: scan_marker_def dest!: limited_InrD)
      then show ?thesis
      proof (rule with_length_value)
        fix bs post
        assume b: "length bs = 4" "0xffff < be_nat bs" "tail = bs @ post"
          "scan_array (scan_at levels (pre @ m # tail)) (Suc (length pre) + length bs) (be_nat bs) (Suc nodes) = Inr (r, nodes1)"
        have "encode_length (be_nat bs) 0x90 15 None 0xdc 0xdd = m # bs"
          using encode_length_back(3) [OF b(1), of 15 "0x90" None "0xdc" "0xdd"] b(2) mdd by simp
        from arr [OF b(4) [unfolded b(3)] this] show "value_at (Suc levels) (length pre) m (bs @ post) nodes r nodes1" .
      qed
    next
      case mde
      then have "with_length (pre @ m # tail) (Suc (length pre)) 2 15 (\<lambda>n next1. scan_map (scan_at levels (pre @ m # tail)) next1 n (Suc nodes)) =
          Inr (r, nodes1)"
        using s by (auto simp: scan_marker_def dest!: limited_InrD)
      then show ?thesis
      proof (rule with_length_value)
        fix bs post
        assume b: "length bs = 2" "15 < be_nat bs" "tail = bs @ post"
          "scan_map (scan_at levels (pre @ m # tail)) (Suc (length pre) + length bs) (be_nat bs) (Suc nodes) = Inr (r, nodes1)"
        have "encode_length (be_nat bs) 0x80 15 None 0xde 0xdf = m # bs"
          using encode_length_back(2) [OF b(1), of 15 None "0x80" "0xde" "0xdf"] b(2) mde by simp
        from rcd [OF b(4) [unfolded b(3)] this] show "value_at (Suc levels) (length pre) m (bs @ post) nodes r nodes1" .
      qed
    next
      case mdf
      then have "with_length (pre @ m # tail) (Suc (length pre)) 4 0xffff (\<lambda>n next1. scan_map (scan_at levels (pre @ m # tail)) next1 n (Suc nodes)) =
          Inr (r, nodes1)"
        using s by (auto simp: scan_marker_def dest!: limited_InrD)
      then show ?thesis
      proof (rule with_length_value)
        fix bs post
        assume b: "length bs = 4" "0xffff < be_nat bs" "tail = bs @ post"
          "scan_map (scan_at levels (pre @ m # tail)) (Suc (length pre) + length bs) (be_nat bs) (Suc nodes) = Inr (r, nodes1)"
        have "encode_length (be_nat bs) 0x80 15 None 0xde 0xdf = m # bs"
          using encode_length_back(3) [OF b(1), of 15 "0x80" None "0xde" "0xdf"] b(2) mdf by simp
        from rcd [OF b(4) [unfolded b(3)] this] show "value_at (Suc levels) (length pre) m (bs @ post) nodes r nodes1" .
      qed
    qed
  qed
qed

theorem encode_at_reads: "reads (encode_at levels) (scan_at levels)"
proof (induction levels)
  case 0
  then show ?case by (simp add: reads_def)
next
  case (Suc levels)
  show ?case
    unfolding reads_def
  proof (intro allI impI)
    fix input offset nodes r nodes1
    assume "scan_at (Suc levels) input offset nodes = Inr (r, nodes1)"
    then obtain bs where s: "nodes < 16384" "view input offset 1 = Inr bs"
        "scan_marker (scan_at levels input) input (be_nat bs) (offset + 1) (Suc nodes) = Inr (r, nodes1)"
      by (auto simp: Let_def res_simps split: if_splits)
    obtain pre tail where i: "input = pre @ bs @ tail" "length pre = offset" "length bs = 1"
      using s(2) by (rule view_InrE)
    then obtain m where m: "bs = [m]" by (cases bs) auto
    have "value_at (Suc levels) offset m tail nodes r nodes1"
      using marker_value_at [OF Suc s(1), of pre m tail r nodes1] s(3) i m by simp
    then show "\<exists>pre part post v. input = pre @ part @ post \<and> length pre = offset
        \<and> written (encode_at (Suc levels)) v part nodes nodes1
        \<and> r = \<lparr>scan_end = offset + length part, scanned = kind_of v\<rparr>"
      using i m unfolding value_at_def by (metis append_Cons append_Nil append_assoc)
  qed
qed

end
