(* ===== verification/Codec_Properties.thy ===== *)
theory Codec_Properties
  imports Codec_Frames Codec_Canonical
begin

text \<open>
  The properties of the wire codec: what \<open>preflight\<close> accepts, what \<open>encodeFrame\<close> returns, and what the
  frame validators promise about a frame that passed them.
\<close>

section \<open>The size of an encoding\<close>

definition accounts :: "encoder \<Rightarrow> bool" where
  "accounts enc \<longleftrightarrow>
     (\<forall>v st bs st1. enc v st = Inr (bs, st1) \<longrightarrow> enc_bytes st \<le> 262143 \<longrightarrow>
        enc_bytes st1 = enc_bytes st + length bs \<and> enc_bytes st1 \<le> 262143)"

lemma accountsD:
  "accounts enc \<Longrightarrow> enc v st = Inr (bs, st1) \<Longrightarrow> enc_bytes st \<le> 262143 \<Longrightarrow>
    enc_bytes st1 = enc_bytes st + length bs \<and> enc_bytes st1 \<le> 262143"
  unfolding accounts_def by blast

lemma encode_items_accounts:
  assumes "accounts enc" "encode_items enc items st = Inr (parts, st1)" "enc_bytes st \<le> 262143"
  shows "enc_bytes st1 = enc_bytes st + length (concat (present parts)) \<and> enc_bytes st1 \<le> 262143"
  using assms(2,3)
proof (induction items arbitrary: st parts)
  case Nil
  then show ?case by simp
next
  case (Cons item items)
  show ?case
  proof (cases item)
    case None
    then show ?thesis using Cons by (auto simp: res_simps)
  next
    case (Some v)
    then obtain part stm rest where enc: "enc v st = Inr (part, stm)" "encode_items enc items stm = Inr (rest, st1)"
        "parts = Some part # rest"
      using Cons.prems(1) by (auto simp: res_simps)
    then show ?thesis using accountsD [OF assms(1) enc(1) Cons.prems(2)] Cons.IH [OF enc(2)] by auto
  qed
qed

lemma encode_entries_accounts:
  assumes "accounts enc" "encode_entries enc es st = Inr (parts, st1)" "enc_bytes st \<le> 262143"
  shows "enc_bytes st1 = enc_bytes st + length (concat parts) \<and> enc_bytes st1 \<le> 262143"
  using assms(2,3)
proof (induction es arbitrary: st parts)
  case Nil
  then show ?case by simp
next
  case (Cons e es)
  obtain k v where e: "e = (k, v)" by (cases e)
  with Cons.prems(1) obtain kp stk vp stv rest where enc: "enc (JStr k) st = Inr (kp, stk)"
      "enc v stk = Inr (vp, stv)" "encode_entries enc es stv = Inr (rest, st1)" "parts = kp # vp # rest"
    by (auto simp: res_simps)
  have k: "enc_bytes stk = enc_bytes st + length kp \<and> enc_bytes stk \<le> 262143"
    by (rule accountsD [OF assms(1) enc(1) Cons.prems(2)])
  then have v: "enc_bytes stv = enc_bytes stk + length vp \<and> enc_bytes stv \<le> 262143"
    by (intro accountsD [OF assms(1) enc(2)]) simp
  with Cons.IH [OF enc(3)] k show ?case by (simp add: enc(4))
qed

lemma encode_at_accounts: "accounts (encode_at levels)"
proof (induction levels)
  case 0
  then show ?case by (simp add: accounts_def)
next
  case (Suc levels)
  show ?case
    unfolding accounts_def
  proof (intro allI impI)
    fix v st bs st1
    assume enc: "encode_at (Suc levels) v st = Inr (bs, st1)" and le: "enc_bytes st \<le> 262143"
    show "enc_bytes st1 = enc_bytes st + length bs \<and> enc_bytes st1 \<le> 262143"
    proof (cases v)
      case (JArr i items extra)
      let ?pre = "encode_length (length items) 0x90 15 None 0xdc 0xdd"
      let ?st = "st\<lparr>enc_nodes := Suc (enc_nodes st), enc_bytes := enc_bytes st + length ?pre\<rparr>"
      from JArr enc obtain parts where arr: "enc_bytes ?st \<le> 262143"
          "encode_items (encode_at levels) items ?st = Inr (parts, st1)" "bs = ?pre @ concat (present parts)"
        by (auto simp: res_simps Let_def concat_parts_def split: if_splits)
      then show ?thesis using encode_items_accounts [OF Suc arr(2,1)] by simp
    next
      case (JRec i fs)
      let ?pre = "encode_length (length fs) 0x80 15 None 0xde 0xdf"
      let ?st = "st\<lparr>enc_nodes := Suc (enc_nodes st), enc_bytes := enc_bytes st + length ?pre\<rparr>"
      from JRec enc obtain parts where rec: "enc_bytes ?st \<le> 262143"
          "encode_entries (encode_at levels) (sorted_entries fs) ?st = Inr (parts, st1)" "bs = ?pre @ concat parts"
        by (auto simp: res_simps Let_def split: if_splits)
      then show ?thesis using encode_entries_accounts [OF Suc rec(2,1)] by simp
    next
      case (JNum n)
      then show ?thesis using enc by (cases n) (auto simp: res_simps Let_def split: if_splits)
    qed (use enc in \<open>auto simp: res_simps Let_def split: if_splits\<close>)
  qed
qed

section \<open>The nesting and the number of values\<close>

text \<open>What the depth limit and the value limit of the codec bound; the keys of a map are values too.\<close>

fun nesting :: "jsval \<Rightarrow> nat" where
  "nesting (JArr _ items _) =
     Suc (foldr (\<lambda>item. max (case item of None \<Rightarrow> 0 | Some v \<Rightarrow> nesting v)) items 0)"
| "nesting (JRec _ fs) = Suc (foldr (\<lambda>(_, v). max (nesting v)) fs 0)"
| "nesting _ = 1"

fun value_nodes :: "jsval \<Rightarrow> nat" where
  "value_nodes (JArr _ items _) =
     Suc (sum_list (map (\<lambda>item. case item of None \<Rightarrow> 0 | Some v \<Rightarrow> value_nodes v) items))"
| "value_nodes (JRec _ fs) = Suc (sum_list (map (\<lambda>(_, v). Suc (value_nodes v)) fs))"
| "value_nodes _ = 1"

definition counts :: "nat \<Rightarrow> encoder \<Rightarrow> bool" where
  "counts levels enc \<longleftrightarrow>
     (\<forall>v st bs st1. enc v st = Inr (bs, st1) \<longrightarrow> enc_nodes st \<le> 16384 \<longrightarrow>
        nesting v \<le> levels \<and> enc_nodes st1 = enc_nodes st + value_nodes v \<and> enc_nodes st1 \<le> 16384)"

lemma countsD:
  "counts levels enc \<Longrightarrow> enc v st = Inr (bs, st1) \<Longrightarrow> enc_nodes st \<le> 16384 \<Longrightarrow>
    nesting v \<le> levels \<and> enc_nodes st1 = enc_nodes st + value_nodes v \<and> enc_nodes st1 \<le> 16384"
  unfolding counts_def by blast

lemma encode_items_counts:
  assumes "counts levels enc" "encode_items enc items st = Inr (parts, st1)" "enc_nodes st \<le> 16384"
  shows "nesting (JArr i items extra) \<le> Suc levels
    \<and> enc_nodes st1 + 1 = enc_nodes st + value_nodes (JArr i items extra) \<and> enc_nodes st1 \<le> 16384"
  using assms(2,3)
proof (induction items arbitrary: st parts)
  case Nil
  then show ?case by simp
next
  case (Cons item items)
  show ?case
  proof (cases item)
    case None
    then show ?thesis using Cons by (auto simp: res_simps)
  next
    case (Some v)
    then obtain part stm rest where enc: "enc v st = Inr (part, stm)" "encode_items enc items stm = Inr (rest, st1)"
        "parts = Some part # rest"
      using Cons.prems(1) by (auto simp: res_simps)
    have v: "nesting v \<le> levels \<and> enc_nodes stm = enc_nodes st + value_nodes v \<and> enc_nodes stm \<le> 16384"
      by (rule countsD [OF assms(1) enc(1) Cons.prems(2)])
    with Cons.IH [OF enc(2)] Some show ?thesis by auto
  qed
qed

lemma encode_entries_counts:
  assumes "counts levels enc" "encode_entries enc es st = Inr (parts, st1)" "enc_nodes st \<le> 16384"
  shows "nesting (JRec i es) \<le> Suc levels
    \<and> enc_nodes st1 + 1 = enc_nodes st + value_nodes (JRec i es) \<and> enc_nodes st1 \<le> 16384"
  using assms(2,3)
proof (induction es arbitrary: st parts)
  case Nil
  then show ?case by simp
next
  case (Cons e es)
  obtain k v where e: "e = (k, v)" by (cases e)
  with Cons.prems(1) obtain kp stk vp stv rest where enc: "enc (JStr k) st = Inr (kp, stk)"
      "enc v stk = Inr (vp, stv)" "encode_entries enc es stv = Inr (rest, st1)"
    by (auto simp: res_simps)
  have k: "nesting (JStr k) \<le> levels \<and> enc_nodes stk = enc_nodes st + value_nodes (JStr k) \<and> enc_nodes stk \<le> 16384"
    by (rule countsD [OF assms(1) enc(1) Cons.prems(2)])
  then have v: "nesting v \<le> levels \<and> enc_nodes stv = enc_nodes stk + value_nodes v \<and> enc_nodes stv \<le> 16384"
    by (intro countsD [OF assms(1) enc(2)]) simp
  with Cons.IH [OF enc(3)] k e show ?case by auto
qed

lemma nesting_record_le: "nesting (JRec i fs) \<le> Suc levels \<longleftrightarrow> (\<forall>e\<in>set fs. nesting (snd e) \<le> levels)"
  by (induction fs) auto

lemma nodes_sorted_entries: "value_nodes (JRec i (sorted_entries fs)) = value_nodes (JRec j fs)"
proof -
  have "mset (sorted_entries fs) = mset fs" by (simp add: sorted_entries_def)
  then show ?thesis by (simp add: sum_mset_sum_list [symmetric])
qed

lemma encode_at_counts: "counts levels (encode_at levels)"
proof (induction levels)
  case 0
  then show ?case by (simp add: counts_def)
next
  case (Suc levels)
  show ?case
    unfolding counts_def
  proof (intro allI impI)
    fix v st bs st1
    assume enc: "encode_at (Suc levels) v st = Inr (bs, st1)" and le: "enc_nodes st \<le> 16384"
    show "nesting v \<le> Suc levels \<and> enc_nodes st1 = enc_nodes st + value_nodes v \<and> enc_nodes st1 \<le> 16384"
    proof (cases v)
      case (JArr i items extra)
      let ?st = "st\<lparr>enc_nodes := Suc (enc_nodes st), enc_bytes := enc_bytes st
        + length (encode_length (length items) 0x90 15 None 0xdc 0xdd)\<rparr>"
      from JArr enc obtain parts where arr: "enc_nodes ?st \<le> 16384"
          "encode_items (encode_at levels) items ?st = Inr (parts, st1)"
        by (auto simp: res_simps Let_def split: if_splits)
      then show ?thesis using encode_items_counts [OF Suc arr(2,1), of i extra] JArr by simp
    next
      case (JRec i fs)
      let ?st = "st\<lparr>enc_nodes := Suc (enc_nodes st), enc_bytes := enc_bytes st
        + length (encode_length (length fs) 0x80 15 None 0xde 0xdf)\<rparr>"
      from JRec enc obtain parts where rec: "enc_nodes ?st \<le> 16384"
          "encode_entries (encode_at levels) (sorted_entries fs) ?st = Inr (parts, st1)"
        by (auto simp: res_simps Let_def split: if_splits)
      from encode_entries_counts [OF Suc rec(2,1), of i] show ?thesis
        unfolding JRec nesting_record_le nodes_sorted_entries [of i fs i] sorted_entries_set by simp
    next
      case (JNum n)
      then show ?thesis using enc by (cases n) (auto simp: res_simps Let_def split: if_splits)
    qed (use enc in \<open>auto simp: res_simps Let_def split: if_splits\<close>)
  qed
qed

section \<open>Preflight\<close>

definition encode_start :: encode_state where
  "encode_start = \<lparr>enc_nodes = 0, enc_bytes = 0\<rparr>"

lemma encode_at_array: "encode_at levels (JArr i items extra) st = encode_at levels (JArr 0 items []) st"
  by (cases levels) (simp_all add: Let_def)

lemma encoded_array_nonempty: "encode_at levels (JArr i items extra) st = Inr (bs, st1) \<Longrightarrow> bs \<noteq> []"
  using encode_length_nonempty by (cases levels) (auto simp: res_simps Let_def split: if_splits)

lemma preflight_Inr_iff:
  "preflight input = Inr () \<longleftrightarrow>
     (\<exists>op bs payload st. input = op # bs \<and> sound_value (JArr 0 payload [])
        \<and> encode_value (JArr 0 payload []) 1 encode_start = Inr (bs, st))"
proof
  assume "preflight input = Inr ()"
  then obtain r nodes where r: "length input \<le> 262144" "2 \<le> length input"
      "scan_at 16 input 1 0 = Inr (r, nodes)" "scanned r = SArray" "scan_end r = length input"
    by (auto simp: preflight_def scan_value_def res_simps simp del: scan_at.simps)
  obtain pre part post v where p: "input = pre @ part @ post" "length pre = 1"
      "written (encode_at 16) v part 0 nodes" "r = \<lparr>scan_end = 1 + length part, scanned = kind_of v\<rparr>"
    using encode_at_reads [of 16, unfolded reads_def, rule_format, OF r(3)] by blast
  then obtain op where op: "pre = [op]" by (cases pre) auto
  have "post = []" using p r(5) by simp
  obtain i items extra where v: "v = JArr i items extra"
    using p r(4) by (cases v) (auto simp: written_def split: if_splits)
  have "encode_at 16 v encode_start = Inr (part, \<lparr>enc_nodes = nodes, enc_bytes = length part\<rparr>)"
    using writtenD [OF p(3), of 0] p(1) r(1) op by (simp add: encode_start_def)
  then have "encode_value (JArr 0 items []) 1 encode_start = Inr (part, \<lparr>enc_nodes = nodes, enc_bytes = length part\<rparr>)"
    using encode_at_array [of 16 i items extra] by (simp add: encode_value_def v del: encode_at.simps)
  moreover have "sound_value (JArr 0 items [])" using p(3) v by (simp add: written_def)
  ultimately show "\<exists>op bs payload st. input = op # bs \<and> sound_value (JArr 0 payload [])
        \<and> encode_value (JArr 0 payload []) 1 encode_start = Inr (bs, st)"
    using p(1) op \<open>post = []\<close> by auto
next
  assume "\<exists>op bs payload st. input = op # bs \<and> sound_value (JArr 0 payload [])
        \<and> encode_value (JArr 0 payload []) 1 encode_start = Inr (bs, st)"
  then obtain op bs payload st where e: "input = op # bs" "sound_value (JArr 0 payload [])"
      "encode_at 16 (JArr 0 payload []) encode_start = Inr (bs, st)"
    by (auto simp: encode_value_def simp del: encode_at.simps)
  have "scans_as (scan_at 16) bs 0 (enc_nodes st) SArray"
    using matchesD [OF encode_at_matches e(2,3)] by (simp add: encode_start_def)
  from scans_asD [OF this, of "[op]" "[]"]
  have s: "scan_at 16 input 1 0 = Inr (\<lparr>scan_end = length input, scanned = SArray\<rparr>, enc_nodes st)"
    by (simp add: e(1))
  have "length bs \<le> 262143"
    using accountsD [OF encode_at_accounts e(3)] by (simp add: encode_start_def)
  moreover have "bs \<noteq> []"
    by (rule encoded_array_nonempty [OF e(3)])
  ultimately show "preflight input = Inr ()"
    using s e(1) by (cases bs) (auto simp: preflight_def scan_value_def simp del: scan_at.simps)
qed

text \<open>
Property C37: \<open>preflight\<close> accepts exactly one opcode byte followed by the canonical encoding of an array:
an input passes if and only if the bytes after the first are what \<open>encodeValue\<close> writes for some
payload whose maps have distinct keys, none of them the reserved key behind a byte order mark, and whose
fractions are doubles (\<open>sound_value\<close>). So no value has two accepted
encodings that the encoder would not write itself, and nothing that the encoder writes is refused.
\<close>

theorem preflight_accepts_exactly_the_encodings:
  "preflight input = Inr () \<longleftrightarrow>
     (\<exists>op bs payload st. input = op # bs \<and> sound_value (JArr 0 payload [])
        \<and> encode_value (JArr 0 payload []) 1 encode_start = Inr (bs, st))"
  by (rule preflight_Inr_iff)

text \<open>
  An input that \<open>preflight\<close> accepts is the encoding of a payload with at most 16384 values
  nested at most 16 deep, in at most 262144 bytes.
\<close>

theorem preflighted_frames_are_bounded:
  assumes "preflight input = Inr ()"
  shows "\<exists>payload st. encode_value (JArr 0 payload []) 1 encode_start = Inr (tl input, st)
    \<and> nesting (JArr 0 payload []) \<le> 16 \<and> value_nodes (JArr 0 payload []) \<le> 16384
    \<and> length input \<le> 262144"
proof -
  obtain op bs payload st where e: "input = op # bs" "encode_at 16 (JArr 0 payload []) encode_start = Inr (bs, st)"
    using assms by (auto simp: preflight_Inr_iff encode_value_def)
  have "nesting (JArr 0 payload []) \<le> 16 \<and> enc_nodes st = value_nodes (JArr 0 payload []) \<and> enc_nodes st \<le> 16384"
    using countsD [OF encode_at_counts e(2)] by (simp add: encode_start_def)
  moreover have "length bs \<le> 262143"
    using accountsD [OF encode_at_accounts e(2)] by (simp add: encode_start_def)
  ultimately show ?thesis using e by (auto simp: encode_value_def)
qed

section \<open>Frames\<close>

lemma encode_frame_eq:
  assumes "sound_value (JArr 0 (frame_payload fr) [])"
  shows "encode_frame fr =
    (if \<not> num_is_integer (frame_opcode fr) \<or> num_int (frame_opcode fr) < 0 \<or> num_int (frame_opcode fr) > 0xff
     then Inl UnknownOpcode
     else bind_r (validate_frame fr) (\<lambda>_.
          bind_r (encode_value (JArr 0 (frame_payload fr) []) 1 encode_start) (\<lambda>(payload, _).
            Inr (word_of_int (num_int (frame_opcode fr)) # payload))))"
proof -
  have "preflight (op # bs) = Inr ()"
    if "encode_value (JArr 0 (frame_payload fr) []) 1 encode_start = Inr (bs, st)" for op bs st
    unfolding preflight_Inr_iff using that assms by blast
  then show ?thesis
    by (auto simp: encode_frame_def encode_start_def [symmetric] Let_def bind_r_def split: sum.split)
qed

lemma encode_frame_InrD:
  assumes "encode_frame fr = Inr out"
  obtains n payload st where "n = num_int (frame_opcode fr)" "num_is_integer (frame_opcode fr)" "0 \<le> n" "n \<le> 255"
    "validate_frame fr = Inr ()" "encode_value (JArr 0 (frame_payload fr) []) 1 encode_start = Inr (payload, st)"
    "out = word_of_int n # payload" "preflight out = Inr ()"
  using assms that [of "num_int (frame_opcode fr)"]
  by (auto simp: encode_frame_def encode_start_def [symmetric] Let_def res_simps split: if_splits)

section \<open>What the frame validators promise\<close>

lemma each_unique_Inr_iff:
  "each_unique key rest seen xs = Inr () \<longleftrightarrow>
     (\<exists>kys. list_all2 (\<lambda>x ky. key x = Inr ky \<and> rest (snd ky) = Inr ()) xs kys
        \<and> distinct (map fst kys) \<and> set (map fst kys) \<inter> seen = {})"
proof (induction xs arbitrary: seen)
  case Nil
  then show ?case by simp
next
  case (Cons x xs)
  show ?case
  proof (cases "key x")
    case (Inl e)
    then show ?thesis by (auto simp: list_all2_Cons1)
  next
    case (Inr ky)
    obtain k y where ky: "ky = (k, y)" by (cases ky)
    have "each_unique key rest seen (x # xs) = Inr () \<longleftrightarrow>
        k \<notin> seen \<and> rest y = Inr () \<and> each_unique key rest (insert k seen) xs = Inr ()"
      by (auto simp: Inr ky res_simps)
    also have "\<dots> \<longleftrightarrow> (\<exists>kys. list_all2 (\<lambda>x ky. key x = Inr ky \<and> rest (snd ky) = Inr ()) (x # xs) kys
        \<and> distinct (map fst kys) \<and> set (map fst kys) \<inter> seen = {})"
    proof
      assume "k \<notin> seen \<and> rest y = Inr () \<and> each_unique key rest (insert k seen) xs = Inr ()"
      then obtain kys where "k \<notin> seen" "rest y = Inr ()"
          "list_all2 (\<lambda>x ky. key x = Inr ky \<and> rest (snd ky) = Inr ()) xs kys"
          "distinct (map fst kys)" "set (map fst kys) \<inter> insert k seen = {}"
        unfolding Cons.IH by blast
      then show "\<exists>kys. list_all2 (\<lambda>x ky. key x = Inr ky \<and> rest (snd ky) = Inr ()) (x # xs) kys
          \<and> distinct (map fst kys) \<and> set (map fst kys) \<inter> seen = {}"
        by (intro exI [of _ "(k, y) # kys"]) (auto simp: Inr ky)
    qed (unfold Cons.IH list_all2_Cons1, auto simp: Inr ky)
    finally show ?thesis .
  qed
qed

lemma as_array_Inr_iff [res_simps]:
  "as_array v maximum = Inr items \<longleftrightarrow> (\<exists>i extra. v = JArr i items extra) \<and> length items \<le> maximum"
  by (auto simp: as_array_def split: jsval.splits)

lemma exact_tuple_Inr_iff [res_simps]:
  "exact_tuple v n = Inr fs \<longleftrightarrow> (\<exists>i extra. v = JArr i fs extra) \<and> length fs = n \<and> n \<le> 4096"
  by (auto simp: exact_tuple_def exact_length_def res_simps)

lemma payload_tuple_Inr_iff [res_simps]:
  "payload_tuple p n = Inr fs \<longleftrightarrow> fs = p \<and> length p = n \<and> n \<le> 4096"
  by (auto simp: payload_tuple_def exact_length_def)

lemma positive_id_Inr_iff [res_simps]:
  "positive_id v = Inr n \<longleftrightarrow> v = JNum (NInt n) \<and> 1 \<le> n \<and> n \<le> max_safe_integer"
proof (cases v)
  case (JNum m)
  then show ?thesis by (cases m) (auto simp: positive_id_def integer_in_def max_safe_integer_def)
qed (auto simp: positive_id_def integer_in_def)

lemma epoch_id_Inr_iff [res_simps]: "epoch_id v = Inr () \<longleftrightarrow> (\<exists>bs. v = JBytes bs \<and> length bs = 16)"
  by (auto simp: epoch_id_def binary_value_def res_simps split: jsval.splits)

text \<open>An entry of a state patch that sets or deletes the path \<open>n\<close>.\<close>

definition patches :: "jsval \<Rightarrow> int \<Rightarrow> bool" where
  "patches entry n \<longleftrightarrow>
     (\<exists>i fs extra op. entry = JArr i fs extra \<and> field fs 0 = JNum (NInt n) \<and> 1 \<le> n \<and> n \<le> max_safe_integer
        \<and> field fs 1 = JNum op \<and> num_is_safe_integer op
        \<and> (num_int op = 0 \<and> length fs = 3 \<or> num_int op = 1 \<and> length fs = 2))"

lemma integer_in_Inr_iff [res_simps]:
  "integer_in v a b = Inr n \<longleftrightarrow> (\<exists>m. v = JNum m \<and> num_is_safe_integer m \<and> num_int m = n \<and> a \<le> n \<and> n \<le> b)"
  by (auto simp: integer_in_def split: jsval.splits)

lemma mutation_patches:
  "(\<exists>fs. mutation_key entry = Inr (n, fs) \<and> mutation_rest fs = Inr ()) \<longleftrightarrow> patches entry n"
  by (fastforce simp: mutation_key_def mutation_rest_def keyed_def patches_def res_simps)

lemma mutations_Inr_iff:
  "mutations v = Inr () \<longleftrightarrow>
     (\<exists>i items extra ids. v = JArr i items extra \<and> length items \<le> 4096
        \<and> list_all2 patches (present items) ids \<and> distinct ids)"
proof -
  have "(\<exists>kys. list_all2 (\<lambda>x ky. mutation_key x = Inr ky \<and> mutation_rest (snd ky) = Inr ()) xs kys \<and> distinct (map fst kys))
    \<longleftrightarrow> (\<exists>ids. list_all2 patches xs ids \<and> distinct ids)" for xs
  proof
    assume "\<exists>kys. list_all2 (\<lambda>x ky. mutation_key x = Inr ky \<and> mutation_rest (snd ky) = Inr ()) xs kys \<and> distinct (map fst kys)"
    then obtain kys where k: "list_all2 (\<lambda>x ky. mutation_key x = Inr ky \<and> mutation_rest (snd ky) = Inr ()) xs kys"
        "distinct (map fst kys)" by blast
    have "list_all2 patches xs (map fst kys)"
      unfolding list_all2_map2 using k(1)
      by (rule list_all2_mono) (metis mutation_patches prod.collapse)
    with k(2) show "\<exists>ids. list_all2 patches xs ids \<and> distinct ids" by blast
  next
    assume "\<exists>ids. list_all2 patches xs ids \<and> distinct ids"
    then obtain ids where i: "list_all2 patches xs ids" "distinct ids" by blast
    from i(1) have "\<exists>kys. list_all2 (\<lambda>x ky. mutation_key x = Inr ky \<and> mutation_rest (snd ky) = Inr ()) xs kys \<and> map fst kys = ids"
    proof (induction xs ids rule: list_all2_induct)
      case Nil
      then show ?case by simp
    next
      case (Cons x xs n ids)
      then obtain fs kys where "mutation_key x = Inr (n, fs)" "mutation_rest fs = Inr ()"
          "list_all2 (\<lambda>x ky. mutation_key x = Inr ky \<and> mutation_rest (snd ky) = Inr ()) xs kys" "map fst kys = ids"
        unfolding mutation_patches [symmetric] by blast
      then show ?case by (intro exI [of _ "(n, fs) # kys"]) simp
    qed
    then obtain kys where "list_all2 (\<lambda>x ky. mutation_key x = Inr ky \<and> mutation_rest (snd ky) = Inr ()) xs kys"
        "map fst kys = ids" by blast
    then show "\<exists>kys. list_all2 (\<lambda>x ky. mutation_key x = Inr ky \<and> mutation_rest (snd ky) = Inr ()) xs kys
        \<and> distinct (map fst kys)" using i(2) by (intro exI [of _ kys]) simp
  qed
  then show ?thesis
    unfolding mutations_def bind_r_Inr_iff as_array_Inr_iff each_unique_Inr_iff entries_of_def by auto
qed

text \<open>
A \<open>STATE_PATCH\<close> payload is valid exactly when it is an epoch of 16 bytes, a base revision, a
later revision, and at most 4096 mutations that each set or delete one path, no path twice.
\<close>

theorem state_patch_frames:
  "core_payload OpStatePatch payload = Inr () \<longleftrightarrow>
     (\<exists>epoch base revision i items extra ids.
        map (case_option JUndef id) payload =
          [JBytes epoch, JNum (NInt base), JNum (NInt revision), JArr i items extra]
        \<and> length epoch = 16 \<and> 1 \<le> base \<and> base < revision \<and> revision \<le> max_safe_integer
        \<and> length items \<le> 4096 \<and> list_all2 patches (present items) ids \<and> distinct ids)"
proof (cases "\<exists>a b c d. payload = [a, b, c, d]")
  case True
  then obtain a b c d where p: "payload = [a, b, c, d]" by blast
  have f: "field payload 0 = case_option JUndef id a" "field payload 1 = case_option JUndef id b"
      "field payload 2 = case_option JUndef id c" "field payload 3 = case_option JUndef id d"
    by (simp_all add: p field_def numeral_3_eq_3 numeral_2_eq_2)
  have tuple: "payload_tuple payload 4 = Inr payload" by (simp add: p payload_tuple_def exact_length_def)
  show ?thesis
    unfolding core_payload.simps state_patch_payload_def tuple bind_r_simps f
    by (auto simp: p bind_r_Inr_iff epoch_id_Inr_iff positive_id_Inr_iff mutations_Inr_iff if_Inl_eq_Inr)
next
  case False
  then have "length payload \<noteq> 4" by (auto simp: length_Suc_conv eval_nat_numeral)
  then show ?thesis
    by (auto simp: state_patch_payload_def payload_tuple_Inr_iff bind_r_Inr_iff dest: arg_cong [of _ _ length])
qed

end
