(* ===== verification/Codec_Hidden_Keys.thy ===== *)
theory Codec_Hidden_Keys
  imports Codec_Properties
begin

text \<open>
  The one payload \<open>encodeValue\<close> writes and \<open>preflight\<close> refuses: a map whose key is U+FEFF followed by
  \<open>__proto__\<close>, at any depth. \<open>TextDecoder\<close> drops the leading mark of the key it reads, and what is left is
  the reserved key. With the scans of the other values this determines \<open>encodeFrame\<close> completely.
\<close>

section \<open>Scans that fail\<close>

definition rejects :: "(bytes \<Rightarrow> scanner) \<Rightarrow> bytes \<Rightarrow> nat \<Rightarrow> bool" where
  "rejects scan part nodes \<longleftrightarrow> (\<forall>pre post. scan (pre @ part @ post) (length pre) nodes = Inl InvalidValue)"

lemma rejectsD: "rejects scan part nodes \<Longrightarrow> scan (pre @ part @ post) (length pre) nodes = Inl InvalidValue"
  by (simp add: rejects_def)

text \<open>A scanner that refuses what the encoder writes for a value with a hidden key.\<close>

definition misses :: "encoder \<Rightarrow> (bytes \<Rightarrow> scanner) \<Rightarrow> bool" where
  "misses enc scan \<longleftrightarrow>
     (\<forall>v st bs st1. wellformed v \<longrightarrow> \<not> no_hidden_key v \<longrightarrow> enc v st = Inr (bs, st1) \<longrightarrow>
        rejects scan bs (enc_nodes st))"

lemma missesD:
  "misses enc scan \<Longrightarrow> wellformed v \<Longrightarrow> \<not> no_hidden_key v \<Longrightarrow> enc v st = Inr (bs, st1) \<Longrightarrow>
     rejects scan bs (enc_nodes st)"
  unfolding misses_def by blast

lemma scan_items_hidden:
  assumes "matches sound_value enc scan" "misses enc scan" "encode_items enc items st = Inr (parts, st1)"
    and "None \<notin> set parts" "\<And>v. Some v \<in> set items \<Longrightarrow> wellformed v"
    and "Some w \<in> set items" "\<not> no_hidden_key w"
  shows "scan_items (scan (pre @ concat (present parts) @ post)) (length items) (length pre) (enc_nodes st) =
    Inl InvalidValue"
  using assms(3-6)
proof (induction items arbitrary: st parts pre)
  case Nil
  then show ?case by simp
next
  case (Cons item items)
  then obtain v where item: "item = Some v" by (cases item) (auto simp: res_simps)
  then obtain part stm rest where enc: "enc v st = Inr (part, stm)" "encode_items enc items stm = Inr (rest, st1)"
      "parts = Some part # rest"
    using Cons.prems(1) by (auto simp: res_simps)
  let ?rest = "concat (present rest)"
  have v: "wellformed v" using Cons.prems(3) item by simp
  show ?case
  proof (cases "no_hidden_key v")
    case False
    from rejectsD [OF missesD [OF assms(2) v False enc(1)], of pre "?rest @ post"]
    show ?thesis by (simp add: enc item)
  next
    case True
    with v have "scans_as scan part (enc_nodes st) (enc_nodes stm) (kind_of v)"
      by (intro matchesD [OF assms(1) _ enc(1)]) (simp add: sound_value_def)
    from scans_asD [OF this, of pre "?rest @ post"]
    have head: "scan (pre @ part @ ?rest @ post) (length pre) (enc_nodes st) =
        Inr (\<lparr>scan_end = length pre + length part, scanned = kind_of v\<rparr>, enc_nodes stm)" .
    have "Some w \<in> set items" using Cons.prems(4) item True assms(7) by auto
    then have "scan_items (scan ((pre @ part) @ ?rest @ post)) (length items) (length (pre @ part)) (enc_nodes stm) =
        Inl InvalidValue"
      by (intro Cons.IH [OF enc(2)]) (use Cons.prems enc in auto)
    with head show ?thesis by (simp add: enc item add.assoc)
  qed
qed

definition hides :: "jstr \<times> jsval \<Rightarrow> bool" where
  "hides e \<longleftrightarrow> fst e = BOM # js ''__proto__'' \<or> \<not> no_hidden_key (snd e)"

lemma scan_key_hidden:
  assumes "utf8_bytes k \<le> 256" "k = BOM # js ''__proto__''"
  shows "scan_key previous \<lparr>scan_end = n, scanned = SString (utf8_encode k) (drop_bom k)\<rparr> = Inl InvalidValue"
  using assms drop_bom_proto [of k] by (simp add: scan_key_def utf8_bytes_def)

lemma scan_entries_hidden:
  assumes "matches sound_value enc scan" "misses enc scan" "encode_entries enc es st = Inr (parts, st1)"
    and "\<And>e. e \<in> set es \<Longrightarrow> wellformed (snd e) \<and> utf8_bytes (fst e) \<le> 256 \<and> follows previous e"
    and "sorted_wrt key_order es" "\<exists>e\<in>set es. hides e"
  shows "scan_entries (scan (pre @ concat parts @ post)) previous (length es) (length pre) (enc_nodes st) =
    Inl InvalidValue"
  using assms(3-6)
proof (induction es arbitrary: st parts pre previous)
  case Nil
  then show ?case by simp
next
  case (Cons e es)
  obtain k v where e: "e = (k, v)" by (cases e)
  with Cons.prems(1) obtain kp stk vp stv rest where enc: "k \<noteq> js ''__proto__''" "enc (JStr k) st = Inr (kp, stk)"
      "enc v stk = Inr (vp, stv)" "encode_entries enc es stv = Inr (rest, st1)" "parts = kp # vp # rest"
    by (auto simp: res_simps)
  have ok: "wellformed v" "utf8_bytes k \<le> 256" "follows previous (k, v)"
    using Cons.prems(2) [of e] by (simp_all add: e)
  from matchesD [OF assms(1) _ enc(2)]
  have key: "scan (pre @ kp @ vp @ concat rest @ post) (length pre) (enc_nodes st) =
      Inr (\<lparr>scan_end = length pre + length kp, scanned = SString (utf8_encode k) (drop_bom k)\<rparr>, enc_nodes stk)"
    using scans_asD [of scan kp _ _ _ pre "vp @ concat rest @ post"] by simp
  consider (key) "k = BOM # js ''__proto__''" | (child) "k \<noteq> BOM # js ''__proto__''" "\<not> no_hidden_key v"
    | (later) "k \<noteq> BOM # js ''__proto__''" "no_hidden_key v" by blast
  then show ?case
  proof cases
    case key: key
    with scan_key_hidden [OF ok(2) key] \<open>scan (pre @ kp @ vp @ concat rest @ post) (length pre) (enc_nodes st) = _\<close>
    show ?thesis by (simp add: enc e)
  next
    case child
    from rejectsD [OF missesD [OF assms(2) ok(1) child(2) enc(3)], of "pre @ kp" "concat rest @ post"]
    have "scan (pre @ kp @ vp @ concat rest @ post) (length pre + length kp) (enc_nodes stk) = Inl InvalidValue" by simp
    then show ?thesis
      using scan_key_encoded [OF ok(3,2) enc(1) child(1)] \<open>scan _ (length pre) (enc_nodes st) = _\<close>
      by (simp add: enc e)
  next
    case later
    have "sound_value v" using ok(1) later(2) by (simp add: sound_value_def)
    from matchesD [OF assms(1) this enc(3)]
    have child: "scan (pre @ kp @ vp @ concat rest @ post) (length pre + length kp) (enc_nodes stk) =
        Inr (\<lparr>scan_end = length pre + length kp + length vp, scanned = kind_of v\<rparr>, enc_nodes stv)"
      using scans_asD [of scan vp _ _ _ "pre @ kp" "concat rest @ post"] by simp
    have "\<exists>e\<in>set es. hides e" using Cons.prems(4) later e by (auto simp: hides_def)
    then have "scan_entries (scan ((pre @ kp @ vp) @ concat rest @ post)) (Some (utf8_encode k)) (length es)
        (length (pre @ kp @ vp)) (enc_nodes stv) = Inl InvalidValue"
      by (intro Cons.IH [OF enc(4)]) (use Cons.prems e in \<open>auto simp: follows_def key_order_def\<close>)
    with key child show ?thesis
      using scan_key_encoded [OF ok(3,2) enc(1) later(1)] by (simp add: enc e add.assoc)
  qed
qed

section \<open>Values with a hidden key\<close>

lemma marker_rejects:
  assumes "enc_nodes st < 16384" "part = m # rest"
    and "\<And>pre post. scan_marker (scan_at levels (pre @ part @ post)) (pre @ m # rest @ post) (unat m)
        (Suc (length pre)) (Suc (enc_nodes st)) = Inl InvalidValue"
  shows "rejects (scan_at (Suc levels)) part (enc_nodes st)"
  using assms scan_at_marker [OF assms(1)] by (simp add: rejects_def del: scan_at.simps)

lemma hidden_rejected:
  assumes "misses (encode_at levels) (scan_at levels)" "wellformed v" "\<not> no_hidden_key v"
    and enc: "encode_at (Suc levels) v st = Inr (bs, st1)"
  shows "rejects (scan_at (Suc levels)) bs (enc_nodes st)"
proof -
  have nodes: "enc_nodes st < 16384" using enc by (simp add: Let_def split: if_splits)
  show ?thesis
  proof (cases v)
    case (JArr i items extra)
    let ?pre = "encode_length (length items) 0x90 15 None 0xdc 0xdd"
    let ?sta = "st\<lparr>enc_nodes := Suc (enc_nodes st), enc_bytes := enc_bytes st + length ?pre\<rparr>"
    from JArr enc obtain parts where arr: "length items \<le> 4096" "enc_nodes ?sta = Suc (enc_nodes st)"
        "encode_items (encode_at levels) items ?sta = Inr (parts, st1)" "None \<notin> set parts"
        "bs = ?pre @ concat (present parts)"
      by (auto simp: res_simps Let_def concat_parts_def split: if_splits)
    obtain m rest where p: "?pre = m # rest" using encode_length_nonempty by (metis list.exhaust)
    have sound: "wellformed w" if "Some w \<in> set items" for w
      using assms(2) that JArr by (auto simp: list_all_iff split: option.splits)
    obtain w where w: "Some w \<in> set items" "\<not> no_hidden_key w"
      using assms(3) JArr by (auto simp: list_all_iff split: option.splits)
    have "scan_items (scan_at levels (pre @ (m # rest) @ concat (present parts) @ post)) (length items)
        (length pre + length (m # rest)) (Suc (enc_nodes st)) = Inl InvalidValue" for pre post
      using scan_items_hidden [OF encode_at_matches assms(1) arr(3,4) sound w, of "pre @ m # rest" post] p by simp
    then show ?thesis using nodes JArr arr p scan_array_marker [OF p]
      by (intro marker_rejects [where m = m and rest = "rest @ concat (present parts)"]) (simp_all add: scan_array_def)
  next
    case (JRec i fs)
    let ?pre = "encode_length (length fs) 0x80 15 None 0xde 0xdf"
    let ?sta = "st\<lparr>enc_nodes := Suc (enc_nodes st), enc_bytes := enc_bytes st + length ?pre\<rparr>"
    from JRec enc obtain parts where rec: "length fs \<le> 4096" "enc_nodes ?sta = Suc (enc_nodes st)"
        "encode_entries (encode_at levels) (sorted_entries fs) ?sta = Inr (parts, st1)" "bs = ?pre @ concat parts"
        "\<forall>e\<in>set fs. \<not> has_unpaired_surrogate (fst e) \<and> utf8_bytes (fst e) \<le> 256"
      by (auto simp: keys_checked bind_r_Inr_iff account_Inr_iff Let_def split: if_splits)
    obtain m rest where p: "?pre = m # rest" using encode_length_nonempty by (metis list.exhaust)
    have order: "sorted_wrt key_order (sorted_entries fs)"
      by (rule sorted_entries_order) (use assms(2) JRec rec(5) in auto)
    have entries: "wellformed (snd e) \<and> utf8_bytes (fst e) \<le> 256 \<and> follows None e" if "e \<in> set (sorted_entries fs)" for e
      using that assms(2) JRec rec(5) by (auto simp: follows_def list_all_iff)
    have "\<exists>e\<in>set (sorted_entries fs). hides e"
      using assms(3) JRec by (fastforce simp: hides_def list_all_iff)
    from scan_entries_hidden [OF encode_at_matches assms(1) rec(3) entries order this]
    have "scan_entries (scan_at levels (pre @ (m # rest) @ concat parts @ post)) None (length fs)
        (length pre + length (m # rest)) (Suc (enc_nodes st)) = Inl InvalidValue" for pre post
      using rec(2) by (metis append.assoc length_append sorted_entries_set(2))
    then show ?thesis using nodes JRec rec p scan_map_marker [OF p]
      by (intro marker_rejects [where m = m and rest = "rest @ concat parts"]) (simp_all add: scan_map_def)
  qed (use assms(3) in simp_all)
qed

lemma encode_at_misses: "misses (encode_at levels) (scan_at levels)"
proof (induction levels)
  case 0
  then show ?case by (simp add: misses_def)
next
  case (Suc levels)
  show ?case unfolding misses_def using hidden_rejected [OF Suc] by blast
qed

section \<open>Encoding a frame\<close>

lemma hidden_preflight:
  assumes "encode_value (JArr 0 payload []) 1 encode_start = Inr (bs, st)" "wellformed (JArr 0 payload [])"
    and "\<not> no_hidden_key (JArr 0 payload [])"
  shows "preflight (op # bs) = Inl InvalidValue"
proof -
  have enc: "encode_at 16 (JArr 0 payload []) encode_start = Inr (bs, st)"
    using assms(1) by (simp add: encode_value_def del: encode_at.simps)
  have "scan_at 16 (op # bs) 1 0 = Inl InvalidValue"
    using rejectsD [OF missesD [OF encode_at_misses assms(2,3) enc], of "[op]" "[]"] by (simp add: encode_start_def)
  moreover have "length bs \<le> 262143"
    using accountsD [OF encode_at_accounts enc] by (simp add: encode_start_def)
  moreover have "bs \<noteq> []" by (rule encoded_array_nonempty [OF enc])
  ultimately show ?thesis
    by (cases bs) (auto simp: preflight_def scan_value_def simp del: scan_at.simps)
qed

text \<open>
Property C39: \<open>encodeFrame\<close> on every frame whose objects have distinct keys and whose fractions are doubles: a frame
with a valid opcode and payload is encoded to the opcode and what \<open>encodeValue\<close> writes, unless some map
of the payload, at whatever depth, has the key U+FEFF followed by \<open>__proto__\<close>. That key is not the reserved
one and \<open>encodeValue\<close> writes it, but \<open>encodeFrame\<close> then refuses its own bytes with \<open>invalid_value\<close>. No
other payload makes the final \<open>preflight\<close> fail.
\<close>

theorem encode_frame_fails_only_on_hidden_keys:
  assumes "wellformed (JArr 0 (frame_payload fr) [])"
  shows "encode_frame fr =
    (if \<not> num_is_integer (frame_opcode fr) \<or> num_int (frame_opcode fr) < 0 \<or> num_int (frame_opcode fr) > 0xff
     then Inl UnknownOpcode
     else bind_r (validate_frame fr) (\<lambda>_.
          bind_r (encode_value (JArr 0 (frame_payload fr) []) 1 encode_start) (\<lambda>(payload, _).
            if no_hidden_key (JArr 0 (frame_payload fr) [])
            then Inr (word_of_int (num_int (frame_opcode fr)) # payload) else Inl InvalidValue)))"
proof (cases "no_hidden_key (JArr 0 (frame_payload fr) [])")
  case True
  with assms have "sound_value (JArr 0 (frame_payload fr) [])" by (simp add: sound_value_def)
  from encode_frame_eq [OF this] True show ?thesis by simp
next
  case False
  from hidden_preflight [OF _ assms False] False show ?thesis
    by (auto simp: encode_frame_def encode_start_def [symmetric] Let_def bind_r_def split: sum.split)
qed

end
