(* ===== verification/Codec_Errors.thy ===== *)
theory Codec_Errors
  imports Codec_Frames
begin

text \<open>
  The errors of the wire codec: every failure of a decoder or validator is a \<open>ProtocolError\<close>; only
  encoding a sparse array raises an exception of another class.
\<close>

named_theorems protocol_errors \<open>throwing code whose exceptions are protocol errors\<close>

definition protocol_only :: "'a wire \<Rightarrow> bool" where
  "protocol_only r \<longleftrightarrow> r \<noteq> Inl WireTypeError"

lemma protocol_Inr [protocol_errors]: "protocol_only (Inr x)"
  by (simp add: protocol_only_def)

lemma protocol_Inl [protocol_errors]: "e \<noteq> WireTypeError \<Longrightarrow> protocol_only (Inl e)"
  by (simp add: protocol_only_def)

lemma protocol_bind [protocol_errors]: "protocol_only m \<Longrightarrow> (\<And>x. protocol_only (f x)) \<Longrightarrow> protocol_only (bind_r m f)"
  by (cases m) (auto simp: protocol_only_def)

lemma protocol_if [protocol_errors]: "protocol_only x \<Longrightarrow> protocol_only y \<Longrightarrow> protocol_only (if b then x else y)"
  by simp

lemma protocol_let [protocol_errors]: "(\<And>x. protocol_only (f x)) \<Longrightarrow> protocol_only (let x = v in f x)"
  by (simp add: Let_def)

lemma protocol_option [protocol_errors]:
  "protocol_only x \<Longrightarrow> (\<And>y. protocol_only (f y)) \<Longrightarrow> protocol_only (case v of None \<Rightarrow> x | Some y \<Rightarrow> f y)"
  by (cases v) simp_all

lemma protocol_pair [protocol_errors]: "(\<And>x y. protocol_only (f x y)) \<Longrightarrow> protocol_only (case p of (x, y) \<Rightarrow> f x y)"
  by (cases p) simp

lemma protocol_jsval [protocol_errors]:
  assumes "protocol_only undef" "protocol_only null" "\<And>b. protocol_only (bool b)" "\<And>n. protocol_only (num n)"
    "\<And>s. protocol_only (str s)" "\<And>bs. protocol_only (bin bs)" "\<And>bs. protocol_only (buf bs)"
    "\<And>i xs e. protocol_only (arr i xs e)" "\<And>i fs. protocol_only (rcd i fs)" "protocol_only other"
  shows "protocol_only (case v of JUndef \<Rightarrow> undef | JNull \<Rightarrow> null | JBool b \<Rightarrow> bool b | JNum n \<Rightarrow> num n
    | JStr s \<Rightarrow> str s | JBytes bs \<Rightarrow> bin bs | JBuffer bs \<Rightarrow> buf bs | JArr i xs e \<Rightarrow> arr i xs e
    | JRec i fs \<Rightarrow> rcd i fs | JOther \<Rightarrow> other)"
  using assms by (cases v) simp_all

lemma protocol_each_unique [protocol_errors]:
  "(\<And>x. protocol_only (key x)) \<Longrightarrow> (\<And>y. protocol_only (rest y)) \<Longrightarrow> protocol_only (each_unique key rest seen xs)"
  by (induction xs arbitrary: seen) (auto intro!: protocol_errors)

lemma protocol_map_r [protocol_errors]: "(\<And>x. protocol_only (f x)) \<Longrightarrow> protocol_only (map_r f xs)"
  by (induction xs) (auto intro!: protocol_errors)

lemmas scalar_defs = as_array_def exact_length_def exact_tuple_def payload_tuple_def integer_in_def
  core_error_code_def call_error_code_def positive_id_def correlation_id_or_zero_def error_correlation_def
  boolean_value_def string_value_def binary_value_def map_r_result_def nullable_string_def opaque_id_def coordinator_name_def
  structured_name_def wire_pattern_def epoch_id_def keyed_def

lemma protocol_scalars [protocol_errors]:
  "protocol_only (as_array v n)" "protocol_only (exact_tuple v n)" "protocol_only (exact_length fs n)"
  "protocol_only (payload_tuple p n)" "protocol_only (integer_in v a b)" "protocol_only (core_error_code v)"
  "protocol_only (call_error_code v)" "protocol_only (positive_id v)" "protocol_only (error_correlation v w)"
  "protocol_only (boolean_value v)" "protocol_only (string_value v n m)" "protocol_only (nullable_string v n)"
  "protocol_only (opaque_id v)" "protocol_only (coordinator_name v)" "protocol_only (structured_name v)"
  "protocol_only (wire_pattern v)" "protocol_only (epoch_id v)"
  unfolding scalar_defs by (intro protocol_errors protocol_error.distinct)+

lemma protocol_keyed [protocol_errors]: "protocol_only k \<Longrightarrow> protocol_only (keyed k y)"
  unfolding keyed_def by (intro protocol_errors)

lemma protocol_dictionary_entries [protocol_errors]: "protocol_only (dictionary_entries ids names entries)"
  by (induction entries arbitrary: ids names) (auto intro!: protocol_errors)

lemmas list_defs = unique_strings_def unique_ids_def coordinators_def dictionary_def mutation_key_def mutation_rest_def
  mutations_def acl_patterns_def call_target_def principal_def subscription_payload_def keyed_def snapshot_id_def

lemma protocol_lists [protocol_errors]:
  "protocol_only (unique_strings xs wire_pattern)" "protocol_only (unique_strings xs structured_name)"
  "protocol_only (unique_ids xs)" "protocol_only (coordinators v)" "protocol_only (dictionary v n)"
  "protocol_only (mutations v)" "protocol_only (acl_patterns v)" "protocol_only (call_target v w)"
  "protocol_only (principal v)" "protocol_only (subscription_payload p)" "protocol_only (snapshot_id item)"
  unfolding list_defs by (intro protocol_errors protocol_error.distinct)+

section \<open>Frames\<close>

lemmas payload_defs = hello_payload_def welcome_payload_def error_payload_def fatal_payload_def reauth_payload_def
  reauth_ok_payload_def home_status_payload_def goaway_payload_def state_sync_payload_def
  state_sync_ok_payload_def state_dict_payload_def state_snapshot_payload_def state_patch_payload_def
  state_set_payload_def state_set_ok_payload_def state_acl_sync_payload_def state_acl_ok_payload_def
  state_resync_payload_def event_sync_payload_def event_sync_ok_payload_def topic_dict_payload_def
  event_acl_sync_payload_def event_acl_ok_payload_def event_payload_def function_sync_payload_def
  function_sync_ok_payload_def function_dict_payload_def call_payload_def call_dispatch_payload_def
  call_accepted_payload_def call_result_payload_def call_error_payload_def call_cancel_payload_def
  call_credit_payload_def presence_snapshot_payload_def presence_change_payload_def

lemma protocol_payload [protocol_errors]: "protocol_only (core_payload code p)"
  by (cases code; simp only: core_payload.simps payload_defs; intro protocol_errors protocol_error.distinct)

lemma protocol_validate_frame [protocol_errors]: "protocol_only (validate_frame fr)"
  unfolding validate_frame_def by (intro protocol_errors protocol_error.distinct)

section \<open>The scanner\<close>

lemma protocol_scan_items [protocol_errors]:
  "(\<And>c n. protocol_only (scan c n)) \<Longrightarrow> protocol_only (scan_items scan k cursor nodes)"
  by (induction k arbitrary: cursor nodes) (auto intro!: protocol_errors)

lemma protocol_scan_key [protocol_errors]: "protocol_only (scan_key previous key)"
  by (auto simp: scan_key_def Let_def protocol_only_def split: scan_kind.split option.split)

lemma protocol_scan_entries [protocol_errors]:
  "(\<And>c n. protocol_only (scan c n)) \<Longrightarrow> protocol_only (scan_entries scan previous k cursor nodes)"
  by (induction k arbitrary: previous cursor nodes) (auto intro!: protocol_errors)

lemmas scan_defs = atom_def scan_string_def scan_binary_def scan_array_def scan_map_def scan_float_def
  scan_unsigned_def scan_signed_def view_def ensure_available_def with_length_def limited_def

lemma protocol_scan_marker [protocol_errors]:
  assumes "\<And>c n. protocol_only (scan c n)"
  shows "protocol_only (scan_marker scan input marker start nodes)"
  unfolding scan_marker_def scan_defs by (intro protocol_errors protocol_error.distinct assms)

lemma protocol_scan_at [protocol_errors]: "protocol_only (scan_at levels input offset nodes)"
  by (induction levels arbitrary: offset nodes)
     (auto simp: view_def ensure_available_def intro!: protocol_errors)

lemma protocol_preflight [protocol_errors]: "protocol_only (preflight input)"
  unfolding preflight_def scan_value_def by (intro protocol_errors protocol_error.distinct)

section \<open>The encoder\<close>

text \<open>A value none of whose arrays is sparse.\<close>

fun dense_value :: "jsval \<Rightarrow> bool" where
  "dense_value (JArr _ items _) = list_all (\<lambda>item. case item of None \<Rightarrow> False | Some v \<Rightarrow> dense_value v) items"
| "dense_value (JRec _ fs) = list_all (\<lambda>(_, v). dense_value v) fs"
| "dense_value _ = True"

lemma protocol_encode_items:
  assumes "\<And>v st. dense_value v \<Longrightarrow> protocol_only (enc v st)" "dense_value (JArr i items extra)"
  shows "protocol_only (encode_items enc items st)"
    and "encode_items enc items st = Inr (parts, st1) \<Longrightarrow> None \<notin> set parts"
proof -
  show "protocol_only (encode_items enc items st)" using assms(2)
    by (induction items arbitrary: st) (auto intro!: protocol_errors assms(1) split: option.splits)
  show "encode_items enc items st = Inr (parts, st1) \<Longrightarrow> None \<notin> set parts" using assms(2)
    by (induction items arbitrary: st parts) (auto simp: res_simps split: option.splits)
qed

lemma protocol_encode_entries:
  assumes "\<And>v st. dense_value v \<Longrightarrow> protocol_only (enc v st)" "list_all (\<lambda>(_, v). dense_value v) es"
  shows "protocol_only (encode_entries enc es st)"
  using assms(2) by (induction es arbitrary: st) (auto intro!: protocol_errors assms(1))

lemma protocol_each_r [protocol_errors]: "(\<And>x. protocol_only (f x)) \<Longrightarrow> protocol_only (each_r f xs)"
  by (induction xs) (auto intro!: protocol_errors)

lemmas encode_defs = encoded_atom_def account_encoded_bytes_def valid_utf8_string_def

lemma protocol_bind_known:
  "protocol_only m \<Longrightarrow> (\<And>x. m = Inr x \<Longrightarrow> protocol_only (f x)) \<Longrightarrow> protocol_only (bind_r m f)"
  by (cases m) (auto simp: protocol_only_def)

lemma protocol_encode_at: "dense_value v \<Longrightarrow> protocol_only (encode_at levels v st)"
proof (induction levels arbitrary: v st)
  case 0
  then show ?case by (simp add: protocol_only_def)
next
  case (Suc levels)
  have atoms: "protocol_only (encoded_atom st bs)" "protocol_only (account_encoded_bytes st n)"
    "protocol_only (valid_utf8_string s m)" for st bs n s m
    unfolding encode_defs by (intro protocol_errors protocol_error.distinct)+
  show ?case
  proof (cases v)
    case (JArr i items extra)
    have dense: "dense_value (JArr i items extra)" using Suc.prems JArr by simp
    have parts: "protocol_only (bind_r (encode_items (encode_at levels) items st) (\<lambda>(parts, st2).
        bind_r (concat_parts parts) (\<lambda>encoded. Inr (pre @ encoded, st2))))" for st pre
    proof (rule protocol_bind_known)
      show "protocol_only (encode_items (encode_at levels) items st)"
        by (rule protocol_encode_items(1) [where enc = "encode_at levels", OF _ dense]) (rule Suc.IH)
      fix x assume x: "encode_items (encode_at levels) items st = Inr x"
      obtain ps st2 where ps: "x = (ps, st2)" by (cases x)
      have "None \<notin> set ps"
        by (rule protocol_encode_items(2) [where enc = "encode_at levels", OF _ dense]) (use Suc.IH x ps in auto)
      then show "protocol_only (case x of (parts, st2) \<Rightarrow>
          bind_r (concat_parts parts) (\<lambda>encoded. Inr (pre @ encoded, st2)))"
        by (simp add: ps concat_parts_def protocol_only_def)
    qed
    show ?thesis
      unfolding JArr encode_at.simps jsval.case by (intro protocol_errors protocol_error.distinct atoms parts)
  next
    case (JRec i fs)
    have "list_all (\<lambda>(_, v). dense_value v) (sorted_entries fs)"
      using Suc.prems JRec by (simp add: list_all_iff sorted_entries_def)
    then show ?thesis
      unfolding JRec encode_at.simps jsval.case
      by (intro protocol_errors protocol_error.distinct atoms protocol_encode_entries [OF Suc.IH])
  next
    case (JNum n)
    then show ?thesis
      by (cases n) (auto simp: Let_def intro!: protocol_errors atoms)
  qed (auto simp: Let_def intro!: protocol_errors atoms)
qed

section \<open>The properties\<close>

text \<open>
Whatever bytes it is given and whatever the MessagePack decoder does with them,
\<open>decodeFrame\<close> fails with a \<open>ProtocolError\<close> only.
\<close>

theorem decode_frame_errors: "decode_frame decode input \<noteq> Inl WireTypeError"
proof -
  have "protocol_only (decode_frame decode input)"
    unfolding decode_frame_def by (intro protocol_errors protocol_error.distinct)
  then show ?thesis by (simp add: protocol_only_def)
qed

text \<open>
Property C38: \<open>encodeFrame\<close> fails with a \<open>ProtocolError\<close> only, unless the payload contains a sparse array.
\<close>

theorem encode_frame_errors:
  assumes "dense_value (JArr 0 (frame_payload fr) [])"
  shows "encode_frame fr \<noteq> Inl WireTypeError"
proof -
  have "protocol_only (encode_frame fr)"
    unfolding encode_frame_def encode_value_def
    by (intro protocol_errors protocol_error.distinct protocol_encode_at assms)
  then show ?thesis by (simp add: protocol_only_def)
qed

end
