(* ===== verification/Codec_Witnesses.thy ===== *)
theory Codec_Witnesses
  imports Codec_Hidden_Keys Codec_Errors
begin

text \<open>
  A frame at which the properties of the codec hold (\<open>CALL_ACCEPTED\<close> of call 7), and a map key that the
  encoder accepts and its own preflight rejects.
\<close>

section \<open>A frame and its bytes\<close>

definition demo_frame :: frame where
  "demo_frame = \<lparr>frame_opcode = NInt 0x35, frame_payload = [Some (JNum (NInt 7))]\<rparr>"

definition demo_bytes :: bytes where
  "demo_bytes = [0x35, 0x91, 0x07]"

lemma demo_encode_value:
  "encode_value (JArr i [Some (JNum (NInt 7))] e) 1 encode_start = Inr ([0x91, 0x07], \<lparr>enc_nodes = 2, enc_bytes = 2\<rparr>)"
proof -
  have step: "encode_at (Suc (Suc n)) (JArr i [Some (JNum (NInt 7))] e) encode_start =
      Inr ([0x91, 0x07], \<lparr>enc_nodes = 2, enc_bytes = 2\<rparr>)" for n
    by (simp add: encode_start_def Let_def encoded_atom_def account_encoded_bytes_def encode_integer_def
        encode_length_def concat_parts_def max_safe_integer_def)
  show ?thesis using step [of 14] by (simp add: encode_value_def del: encode_at.simps)
qed

lemma demo_valid: "validate_frame demo_frame = Inr ()"
proof -
  have "opcode_of 0x35 = Some OpCallAccepted" by (simp add: opcode_of_Some_iff)
  then show ?thesis
    by (simp add: demo_frame_def validate_frame_def Let_def call_accepted_payload_def payload_tuple_def
        exact_length_def field_def positive_id_def integer_in_def max_safe_integer_def)
qed

lemma demo_encodes: "encode_frame demo_frame = Inr demo_bytes"
  using encode_frame_eq [of demo_frame] demo_valid demo_encode_value [of 0 "[]"]
  by (simp add: demo_frame_def demo_bytes_def sound_value_def)

lemma demo_preflight: "preflight demo_bytes = Inr ()"
  using demo_encodes by (rule encode_frame_InrD) simp

section \<open>Witnesses\<close>

theorem preflighted_frames_are_bounded_witness:
  "\<exists>payload st. encode_value (JArr 0 payload []) 1 encode_start = Inr (tl demo_bytes, st)
    \<and> nesting (JArr 0 payload []) \<le> 16 \<and> value_nodes (JArr 0 payload []) \<le> 16384 \<and> length demo_bytes \<le> 262144"
  by (rule preflighted_frames_are_bounded [OF demo_preflight])

theorem encode_frame_errors_witness: "encode_frame demo_frame \<noteq> Inl WireTypeError"
  by (rule encode_frame_errors) (simp add: demo_frame_def)

section \<open>The hidden key\<close>

definition hidden_map :: jsval where
  "hidden_map = JRec 1 [(BOM # js ''__proto__'', JNull)]"

definition hidden_frame :: frame where
  "hidden_frame = \<lparr>frame_opcode = NInt 0x80, frame_payload = [Some hidden_map]\<rparr>"

definition hidden_bytes :: bytes where
  "hidden_bytes = [0x91, 0x81, 0xac, 0xef, 0xbb, 0xbf, 0x5f, 0x5f, 0x70, 0x72, 0x6f, 0x74, 0x6f, 0x5f, 0x5f, 0xc0]"

lemma hidden_key_bytes:
  "utf8_encode (BOM # js ''__proto__'') = [0xef, 0xbb, 0xbf, 0x5f, 0x5f, 0x70, 0x72, 0x6f, 0x74, 0x6f, 0x5f, 0x5f]"
  "\<not> has_unpaired_surrogate (BOM # js ''__proto__'')" "length (BOM # js ''__proto__'') = 10"
  "BOM # js ''__proto__'' \<noteq> js ''__proto__''"
proof -
  have ascii: "\<forall>u\<in>set (js ''__proto__''). u < 0x80" by code_simp
  have "map (\<lambda>u. of_nat (unat u)) (js ''__proto__'') = ([0x5f, 0x5f, 0x70, 0x72, 0x6f, 0x74, 0x6f, 0x5f, 0x5f] :: bytes)"
    by code_simp
  then show "utf8_encode (BOM # js ''__proto__'') =
      [0xef, 0xbb, 0xbf, 0x5f, 0x5f, 0x70, 0x72, 0x6f, 0x74, 0x6f, 0x5f, 0x5f]"
    using utf8_encode_ascii [OF ascii] by (simp add: utf8_encode_BOM)
  have "\<not> has_unpaired_surrogate (js ''__proto__'')" by code_simp
  then show "\<not> has_unpaired_surrogate (BOM # js ''__proto__'')" by simp
  show "length (BOM # js ''__proto__'') = 10" by simp
  then show "BOM # js ''__proto__'' \<noteq> js ''__proto__''" by (metis length_js length_Cons n_not_Suc_n)
qed

lemma hidden_encodes:
  "encode_value (JArr 0 [Some hidden_map] []) 1 encode_start = Inr (hidden_bytes, \<lparr>enc_nodes = 4, enc_bytes = 16\<rparr>)"
proof -
  have step: "encode_at (Suc (Suc (Suc n))) (JArr 0 [Some hidden_map] []) encode_start =
      Inr (hidden_bytes, \<lparr>enc_nodes = 4, enc_bytes = 16\<rparr>)" for n
    using hidden_key_bytes
    by (simp add: encode_start_def Let_def encoded_atom_def account_encoded_bytes_def encode_length_def
        concat_parts_def hidden_map_def hidden_bytes_def valid_utf8_string_def sorted_entries_def)
  show ?thesis using step [of 13] by (simp add: encode_value_def del: encode_at.simps)
qed

theorem encode_frame_fails_only_on_hidden_keys_witness: "encode_frame hidden_frame = Inl InvalidValue"
proof -
  have "wellformed (JArr 0 (frame_payload hidden_frame) [])"
    by (simp add: hidden_frame_def hidden_map_def)
  moreover have "validate_frame hidden_frame = Inr ()" by (simp add: validate_frame_def hidden_frame_def)
  moreover have "encode_value (JArr 0 (frame_payload hidden_frame) []) 1 encode_start =
      Inr (hidden_bytes, \<lparr>enc_nodes = 4, enc_bytes = 16\<rparr>)"
    using hidden_encodes by (simp add: hidden_frame_def)
  ultimately show ?thesis
    using encode_frame_fails_only_on_hidden_keys [of hidden_frame] by (simp add: hidden_frame_def hidden_map_def)
qed

end
