(* ===== verification/Trace_Values.thy ===== *)
theory Trace_Values
  imports Js_Value
begin

text \<open>
  \<open>coordinator-contract/src/contract.ts\<close>, first part: the data of the coordinator contract corpus. A
  scenario is a setup, a list of stimuli and the traces an implementation is expected to leave; the
  error of a check is the code of the \<open>ContractViolation\<close> it throws. The field validators of the same
  file, and the JSON validator it takes from \<open>synthetic-home/src/contract.ts\<close>, come last.
\<close>

section \<open>Errors\<close>

text \<open>
  \<open>fail(code, message)\<close> throws a violation with that code (the message is not modelled); reading a
  property of \<open>undefined\<close> throws a \<open>TypeError\<close>.
\<close>

datatype trace_error = Violation_code string | Trace_TypeError

type_synonym 'a traced = "trace_error + 'a"

abbreviation refuse :: "string \<Rightarrow> 'a traced" where
  "refuse code \<equiv> Inl (Violation_code code)"

section \<open>Limits\<close>

record contract_limits =
  corpus_values :: nat
  corpus_string_bytes :: nat
  observation_values :: nat
  observation_string_bytes :: nat
  max_scenarios :: nat
  max_stimuli :: nat
  trace_entries :: nat
  string_bytes :: nat

definition CONTRACT_LIMITS :: contract_limits where
  "CONTRACT_LIMITS = \<lparr>corpus_values = 50000, corpus_string_bytes = 1048576, observation_values = 50000,
     observation_string_bytes = 1048576, max_scenarios = 64, max_stimuli = 64, trace_entries = 256,
     string_bytes = 512\<rparr>"

lemma contract_limits_simps [simp]:
  "corpus_values CONTRACT_LIMITS = 50000" "corpus_string_bytes CONTRACT_LIMITS = 1048576"
  "observation_values CONTRACT_LIMITS = 50000" "observation_string_bytes CONTRACT_LIMITS = 1048576"
  "max_scenarios CONTRACT_LIMITS = 64" "max_stimuli CONTRACT_LIMITS = 64" "trace_entries CONTRACT_LIMITS = 256"
  "string_bytes CONTRACT_LIMITS = 512"
  by (simp_all add: CONTRACT_LIMITS_def)

section \<open>Enumerations\<close>

datatype coverage =
    InertConstruction | StartupBarrier | AtomicDeclarationActivation | DeclarationReconciliation
  | LiveDeclarationReplacement | DeclarationFailureRollback | LifecycleOwnership | OfflineRejection
  | EventErrorCorrelation | OutcomeUnknownCoverage | CallStreaming | CallCancellation | PresenceCleanup
  | ShadowState | RecordedEffects | UnclassifiedEffectCoverage

definition SDK_CONTRACT_COVERAGE :: "(string \<times> coverage) list" where
  "SDK_CONTRACT_COVERAGE =
     [(''inert_construction'', InertConstruction), (''startup_barrier'', StartupBarrier),
      (''atomic_declaration_activation'', AtomicDeclarationActivation),
      (''declaration_reconciliation'', DeclarationReconciliation),
      (''live_declaration_replacement'', LiveDeclarationReplacement),
      (''declaration_failure_rollback'', DeclarationFailureRollback),
      (''lifecycle_ownership'', LifecycleOwnership), (''offline_rejection'', OfflineRejection),
      (''event_error_correlation'', EventErrorCorrelation), (''outcome_unknown'', OutcomeUnknownCoverage),
      (''call_streaming'', CallStreaming), (''call_cancellation'', CallCancellation),
      (''presence_cleanup'', PresenceCleanup)]"

definition MIGRATION_CONTRACT_COVERAGE :: "(string \<times> coverage) list" where
  "MIGRATION_CONTRACT_COVERAGE =
     [(''shadow_state'', ShadowState), (''recorded_effects'', RecordedEffects),
      (''unclassified_effect'', UnclassifiedEffectCoverage)]"

definition CONTRACT_COVERAGE :: "(string \<times> coverage) list" where
  "CONTRACT_COVERAGE = SDK_CONTRACT_COVERAGE @ MIGRATION_CONTRACT_COVERAGE"

datatype contract_profile = ProfileSdk | ProfileMigration | ProfileAll

datatype domain = DState | DStateAccess | DEvents | DEventAccess | DFunctions

definition DECLARATION_ORDER :: "(string \<times> domain) list" where
  "DECLARATION_ORDER = [(''state'', DState), (''state_access'', DStateAccess), (''events'', DEvents),
     (''event_access'', DEventAccess), (''functions'', DFunctions)]"

definition barrier_order :: "domain list" where
  "barrier_order = map snd DECLARATION_ORDER"

datatype contract_mode = ModeSdk | ModeObserve | ModeShadowState | ModeRecordedAction

definition CONTRACT_MODES :: "(string \<times> contract_mode) list" where
  "CONTRACT_MODES = [(''sdk'', ModeSdk), (''observe'', ModeObserve), (''shadow_state'', ModeShadowState),
     (''recorded_action'', ModeRecordedAction)]"

datatype coordinator_status =
    StIdle | StConnecting | StAuthenticating | StSynchronizing | StReady | StReconnecting | StDraining
  | StStopping | StStopped

definition COORDINATOR_STATUSES :: "(string \<times> coordinator_status) list" where
  "COORDINATOR_STATUSES = [(''idle'', StIdle), (''connecting'', StConnecting),
     (''authenticating'', StAuthenticating), (''synchronizing'', StSynchronizing), (''ready'', StReady),
     (''reconnecting'', StReconnecting), (''draining'', StDraining), (''stopping'', StStopping),
     (''stopped'', StStopped)]"

datatype token_reason = ReasonInitial | ReasonReauth | ReasonReconnect

definition TOKEN_REASONS :: "(string \<times> token_reason) list" where
  "TOKEN_REASONS = [(''initial'', ReasonInitial), (''reauth'', ReasonReauth), (''reconnect'', ReasonReconnect)]"

datatype operation_kind = KStateSet | KEvent | KCall

definition OPERATION_KINDS :: "(string \<times> operation_kind) list" where
  "OPERATION_KINDS = [(''state_set'', KStateSet), (''event'', KEvent), (''call'', KCall)]"

datatype operation_phase = BeforeSend | PhaseSent | PhaseAccepted | PhaseReady

definition OPERATION_PHASES :: "(string \<times> operation_phase) list" where
  "OPERATION_PHASES = [(''before_send'', BeforeSend), (''sent'', PhaseSent), (''accepted'', PhaseAccepted)]"

definition DISCONNECT_PHASES :: "(string \<times> operation_phase) list" where
  "DISCONNECT_PHASES = OPERATION_PHASES @ [(''ready'', PhaseReady)]"

datatype operation_outcome = NotDispatched | Sent | Applied | Succeeded | Failed | OutcomeUnknown

definition OPERATION_OUTCOMES :: "(string \<times> operation_outcome) list" where
  "OPERATION_OUTCOMES = [(''not_dispatched'', NotDispatched), (''sent'', Sent), (''applied'', Applied),
     (''succeeded'', Succeeded), (''failed'', Failed), (''outcome_unknown'', OutcomeUnknown)]"

definition TERMINAL_OUTCOMES :: "(string \<times> operation_outcome) list" where
  "TERMINAL_OUTCOMES = [(''not_dispatched'', NotDispatched), (''applied'', Applied), (''failed'', Failed),
     (''outcome_unknown'', OutcomeUnknown)]"

definition CALL_ERROR_CODES :: "(string \<times> operation_outcome) list" where
  "CALL_ERROR_CODES = [(''not_dispatched'', NotDispatched), (''failed'', Failed),
     (''outcome_unknown'', OutcomeUnknown)]"

datatype effect_kind = DeviceCommand | NotificationIntent | Unclassified

definition EFFECT_KINDS :: "(string \<times> effect_kind) list" where
  "EFFECT_KINDS = [(''device_command'', DeviceCommand), (''notification_intent'', NotificationIntent),
     (''unclassified'', Unclassified)]"

datatype effect_destination = ToRecorder | ToLive | ToRejected

definition EFFECT_DESTINATIONS :: "(string \<times> effect_destination) list" where
  "EFFECT_DESTINATIONS = [(''recorder'', ToRecorder), (''live'', ToLive), (''rejected'', ToRejected)]"

datatype visibility = VisNone | VisPrevious | VisDesired

definition VISIBILITIES :: "(string \<times> visibility) list" where
  "VISIBILITIES = [(''none'', VisNone), (''previous'', VisPrevious), (''desired'', VisDesired)]"

section \<open>Declaration revisions\<close>

record declaration_revisions =
  rev_state :: int
  rev_state_access :: int
  rev_events :: int
  rev_event_access :: int
  rev_functions :: int

fun revision_of :: "declaration_revisions \<Rightarrow> domain \<Rightarrow> int" where
  "revision_of r DState = rev_state r"
| "revision_of r DStateAccess = rev_state_access r"
| "revision_of r DEvents = rev_events r"
| "revision_of r DEventAccess = rev_event_access r"
| "revision_of r DFunctions = rev_functions r"

definition INITIAL_DECLARATION_REVISIONS :: declaration_revisions where
  "INITIAL_DECLARATION_REVISIONS =
     \<lparr>rev_state = 0, rev_state_access = 0, rev_events = 0, rev_event_access = 0, rev_functions = 0\<rparr>"

definition revisions_equal :: "declaration_revisions \<Rightarrow> declaration_revisions \<Rightarrow> bool" where
  "revisions_equal l r \<longleftrightarrow> list_all (\<lambda>d. revision_of l d = revision_of r d) barrier_order"

lemma revisions_equal_iff [simp]: "revisions_equal l r \<longleftrightarrow> l = r"
  by (cases l; cases r) (auto simp: revisions_equal_def barrier_order_def DECLARATION_ORDER_def)

section \<open>Stimuli and traces\<close>

record operation_stimulus =
  op_id :: jstr
  op_kind :: operation_kind
  op_phase :: operation_phase
  op_key :: "jstr option option"

text \<open>
  The idempotency key of a call is a string or \<open>null\<close> (\<open>Some None\<close>); other operations have none.
\<close>

record presence_trace =
  pr_session :: int
  pr_user :: jstr

datatype stimulus =
    ConstructStimulus
  | StartStimulus (*promise_id*) jstr
  | WelcomeStimulus (*session_id generation*) int int
  | DeclarationUpdate (*transaction promise_ids changed revisions*) int "jstr list" "domain list" declaration_revisions
  | DeclarationHandoff int
  | DeclarationAck domain int
  | DeclarationError domain int (*code*) jstr
  | DeclarationProbe
  | DisconnectStimulus operation_phase
  | OperationStimulus operation_stimulus
  | CallProgress jstr jsval
  | CallResultStimulus jstr jsval
  | CallCancelStimulus jstr
  | OperationTerminal jstr operation_outcome
  | OperationErrorStimulus jstr (*code*) jstr
  | PresenceStimulus "presence_trace list"
  | StatePublish "jstr list"
  | EffectStimulus effect_kind
  | StopStimulus (*promise_id*) jstr

datatype lifecycle_operation = StartOperation | StopOperation

record lifecycle_promise =
  lcp_operation :: lifecycle_operation
  lcp_promise :: jstr
  lcp_invocation :: int
  lcp_settlement :: int
  lcp_resolved :: bool
  lcp_code :: "jstr option"
  lcp_session :: "int option"
  lcp_generation :: "int option"

record status_checkpoint =
  cp_index :: int
  cp_status :: coordinator_status

record declaration_trace =
  dt_domain :: domain
  dt_generation :: int
  dt_transaction :: int

record declaration_snapshot =
  ds_generation :: int
  ds_transaction :: int
  ds_index :: int
  ds_revisions :: declaration_revisions

record declaration_promise =
  dp_promise :: jstr
  dp_transaction :: int
  dp_index :: int
  dp_activated :: bool
  dp_code :: "jstr option"

record operation_trace =
  ot_id :: jstr
  ot_operation :: operation_kind
  ot_attempts :: int
  ot_outcome :: operation_outcome
  ot_key :: "jstr option option"

datatype call_terminal = TerminalResult jsval | TerminalError operation_outcome

record call_stream =
  cs_id :: jstr
  cs_resolved :: bool
  cs_progress :: "jsval list"
  cs_terminal :: call_terminal

record effect_trace =
  et_effect :: effect_kind
  et_destination :: effect_destination

text \<open>The correlation of an error: whether it is a call (or an event), and the operation id.\<close>

record error_trace =
  er_code :: jstr
  er_index :: int
  er_correlation :: "(bool \<times> jstr) option"

text \<open>A resource count that may be \<open>'not_asserted'\<close> (\<open>None\<close>).\<close>

record resource_trace =
  rs_sockets :: int
  rs_high_water :: int
  rs_timers :: "int option"
  rs_listeners :: "int option"
  rs_iterators :: "int option"

record observation =
  ob_statuses :: "coordinator_status list"
  ob_checkpoints :: "status_checkpoint list"
  ob_lifecycle :: "lifecycle_promise list"
  ob_reasons :: "token_reason list"
  ob_declarations :: "declaration_trace list"
  ob_snapshots :: "declaration_snapshot list"
  ob_promises :: "declaration_promise list"
  ob_visibility :: "visibility list"
  ob_operations :: "operation_trace list"
  ob_streams :: "call_stream list"
  ob_presence :: "presence_trace list list"
  ob_publications :: int
  ob_effects :: "effect_trace list"
  ob_errors :: "error_trace list"
  ob_resources :: resource_trace

record scenario =
  sc_id :: jstr
  sc_description :: jstr
  sc_coverage :: "coverage list"
  sc_mode :: contract_mode
  sc_desired :: "domain list"
  sc_stimuli :: "stimulus list"
  sc_expected :: observation

record corpus =
  co_required :: "coverage list"
  co_scenarios :: "scenario list"

end
