(* ===== verification/Trace_Fields.thy ===== *)
theory Trace_Fields
  imports Trace_Values
begin

text \<open>
  The field validators of \<open>coordinator-contract/src/contract.ts\<close> and the JSON validator it imports from
  \<open>synthetic-home/src/contract.ts\<close>. Both files have their own copies of the same helpers, with different
  limits and a different order of the checks: those of the second carry the prefix \<open>fixture\<close>.
\<close>

section \<open>Records, arrays and strings\<close>

definition trace_forbidden_keys :: "string list" where
  "trace_forbidden_keys = [''__proto__'', ''prototype'', ''constructor'']"

definition trace_object :: "jsval \<Rightarrow> string list \<Rightarrow> string list \<Rightarrow> fields traced" where
  "trace_object value required optional =
     (case value of
        JRec _ fs \<Rightarrow>
          bind_r (each_r (\<lambda>key.
              if key \<in> js ` set trace_forbidden_keys then refuse ''forbidden_key''
              else if key \<notin> js ` set (required @ optional) then refuse ''unknown_field''
              else Inr ()) (map fst fs)) (\<lambda>_.
          bind_r (each_r (\<lambda>key.
              if \<not> has_own fs (js key) then refuse ''missing_field'' else Inr ()) required) (\<lambda>_.
            Inr fs))
      | _ \<Rightarrow> refuse ''invalid_type'')"

definition trace_array :: "jsval \<Rightarrow> nat \<Rightarrow> jsval list traced" where
  "trace_array value maximum =
     (case value of
        JArr _ items extra \<Rightarrow>
          (if length items > maximum then refuse ''limit_exceeded''
           else if \<exists>item\<in>set items. item = None then refuse ''invalid_type''
           else if length (array_keys items extra) \<noteq> length items then refuse ''invalid_type''
           else Inr (map the items))
      | _ \<Rightarrow> refuse ''invalid_type'')"

definition trace_string :: "jsval \<Rightarrow> jstr traced" where
  "trace_string value =
     (case value of
        JStr s \<Rightarrow>
          (if s = [] then refuse ''invalid_string''
           else if has_control s then refuse ''invalid_string''
           else if utf8_bytes s > string_bytes CONTRACT_LIMITS then refuse ''limit_exceeded''
           else Inr s)
      | _ \<Rightarrow> refuse ''invalid_string'')"

definition choice :: "(string \<times> 'a) list \<Rightarrow> jstr \<Rightarrow> 'a option" where
  "choice table s = map_of (map (\<lambda>(name, c). (js name, c)) table) s"

definition trace_enum :: "jsval \<Rightarrow> (string \<times> 'a) list \<Rightarrow> 'a traced" where
  "trace_enum value table =
     (case value of
        JStr s \<Rightarrow> (case choice table s of None \<Rightarrow> refuse ''invalid_value'' | Some c \<Rightarrow> Inr c)
      | _ \<Rightarrow> refuse ''invalid_value'')"

definition non_negative_integer :: "jsval \<Rightarrow> int traced" where
  "non_negative_integer value =
     (case value of
        JNum n \<Rightarrow> (if \<not> num_is_safe_integer n \<or> num_int n < 0 then refuse ''invalid_number'' else Inr (num_int n))
      | _ \<Rightarrow> refuse ''invalid_number'')"

definition trace_positive :: "jsval \<Rightarrow> int traced" where
  "trace_positive value =
     bind_r (non_negative_integer value) (\<lambda>result.
       if result = 0 then refuse ''invalid_number'' else Inr result)"

definition resource_count :: "jsval \<Rightarrow> int option traced" where
  "resource_count value =
     (if strict_eq_str value (js ''not_asserted'') then Inr None
      else bind_r (non_negative_integer value) (\<lambda>n. Inr (Some n)))"

section \<open>Identifiers\<close>

definition identifier_unit :: "u16 \<Rightarrow> bool" where
  "identifier_unit u \<longleftrightarrow> is_lower u \<or> is_digit u \<or> u = 0x5F"

text \<open>\<open>[a-z][a-z0-9_]{0,62}\<close>.\<close>

definition identifier_format :: "jstr \<Rightarrow> bool" where
  "identifier_format s \<longleftrightarrow>
     (case s of [] \<Rightarrow> False | u # us \<Rightarrow> is_lower u \<and> length us \<le> 62 \<and> list_all identifier_unit us)"

definition contract_id :: "jsval \<Rightarrow> jstr traced" where
  "contract_id value =
     bind_r (trace_string value) (\<lambda>result.
       if \<not> (starts_with result (js ''sdk_'') \<and> identifier_format (drop 4 result))
       then refuse ''invalid_identifier'' else Inr result)"

definition error_code_of :: "jsval \<Rightarrow> jstr traced" where
  "error_code_of value =
     bind_r (trace_string value) (\<lambda>result.
       if \<not> identifier_format result then refuse ''invalid_identifier'' else Inr result)"

definition declaration_revisions_of :: "jsval \<Rightarrow> declaration_revisions traced" where
  "declaration_revisions_of value =
     bind_r (trace_object value (map fst DECLARATION_ORDER) []) (\<lambda>record.
     bind_r (non_negative_integer (get record ''state'')) (\<lambda>a.
     bind_r (non_negative_integer (get record ''state_access'')) (\<lambda>b.
     bind_r (non_negative_integer (get record ''events'')) (\<lambda>c.
     bind_r (non_negative_integer (get record ''event_access'')) (\<lambda>d.
     bind_r (non_negative_integer (get record ''functions'')) (\<lambda>e.
       Inr \<lparr>rev_state = a, rev_state_access = b, rev_events = c, rev_event_access = d,
            rev_functions = e\<rparr>))))))"

text \<open>\<open>denseArray(...).map(validate)\<close>, with the limit of trace entries.\<close>

definition trace_list :: "jsval \<Rightarrow> (jsval \<Rightarrow> 'a traced) \<Rightarrow> 'a list traced" where
  "trace_list value validate = bind_r (trace_array value (trace_entries CONTRACT_LIMITS)) (map_r validate)"

definition unique_strings :: "jsval \<Rightarrow> (string \<times> 'a) list \<Rightarrow> 'a list traced" where
  "unique_strings value table =
     bind_r (trace_list value (\<lambda>entry. trace_enum entry table)) (\<lambda>entries.
       if \<not> distinct entries then refuse ''duplicate'' else Inr entries)"

section \<open>The aggregate budget\<close>

text \<open>
  \<open>assertAggregateBudget\<close>: the stack of values still to visit, the objects met, and the totals. Objects
  that are neither arrays nor plain records have no identity here; the validators refuse them later.
\<close>

definition add_string_bytes :: "nat \<Rightarrow> jstr \<Rightarrow> nat \<Rightarrow> nat traced" where
  "add_string_bytes maximum entry used =
     (if int (length entry) > int maximum - int used then refuse ''limit_exceeded''
      else if used + utf8_bytes entry > maximum then refuse ''limit_exceeded''
      else Inr (used + utf8_bytes entry))"

definition budget_visit ::
  "nat \<Rightarrow> jsval \<Rightarrow> nat set \<Rightarrow> nat \<Rightarrow> (jsval list \<times> nat set \<times> nat) traced" where
  "budget_visit maximum_bytes current seen used =
     (case current of
        JStr s \<Rightarrow> bind_r (add_string_bytes maximum_bytes s used) (\<lambda>used'. Inr ([], seen, used'))
      | JArr oid items _ \<Rightarrow>
          (if oid \<in> seen then refuse ''invalid_value''
           else Inr (map (case_option JUndef id) items, insert oid seen, used))
      | JRec oid fs \<Rightarrow>
          (if oid \<in> seen then refuse ''invalid_value''
           else bind_r (fold_r (\<lambda>t (key, _). add_string_bytes maximum_bytes key t) used fs) (\<lambda>used'.
             Inr (map snd fs, insert oid seen, used')))
      | _ \<Rightarrow> Inr ([], seen, used))"

function budget_loop :: "nat \<Rightarrow> nat \<Rightarrow> jsval list \<Rightarrow> nat set \<Rightarrow> nat \<Rightarrow> nat \<Rightarrow> unit traced" where
  "budget_loop maximum_values maximum_bytes [] seen vals used = Inr ()"
| "budget_loop maximum_values maximum_bytes (current # stack) seen vals used =
     (if vals + 1 > maximum_values then refuse ''limit_exceeded''
      else bind_r (budget_visit maximum_bytes current seen used) (\<lambda>(pushed, seen', used').
        budget_loop maximum_values maximum_bytes (rev pushed @ stack) seen' (vals + 1) used'))"
  by pat_completeness auto
termination
  by (relation "measure (\<lambda>(maximum_values, _, _, _, vals, _). Suc maximum_values - vals)") auto

definition assert_aggregate_budget :: "jsval \<Rightarrow> nat \<Rightarrow> nat \<Rightarrow> unit traced" where
  "assert_aggregate_budget value maximum_values maximum_bytes =
     budget_loop maximum_values maximum_bytes [value] {} 0 0"

section \<open>JSON values\<close>

record fixture_limits =
  fx_actors :: nat
  fx_groups :: nat
  fx_zones :: nat
  fx_devices :: nat
  fx_state_paths :: nat
  fx_actions :: nat
  fx_events :: nat
  fx_scenarios :: nat
  fx_stimuli :: nat
  fx_effects :: nat
  record_entries :: nat
  array_items :: nat
  json_depth :: nat
  json_values :: nat
  fixture_string_bytes :: nat
  description_bytes :: nat

definition FIXTURE_LIMITS :: fixture_limits where
  "FIXTURE_LIMITS = \<lparr>fx_actors = 16, fx_groups = 16, fx_zones = 16, fx_devices = 64, fx_state_paths = 256,
     fx_actions = 64, fx_events = 64, fx_scenarios = 64, fx_stimuli = 16, fx_effects = 64,
     record_entries = 256, array_items = 256, json_depth = 16, json_values = 4096,
     fixture_string_bytes = 1024, description_bytes = 2048\<rparr>"

lemma fixture_limits_simps [simp]:
  "fx_actors FIXTURE_LIMITS = 16" "fx_groups FIXTURE_LIMITS = 16" "fx_zones FIXTURE_LIMITS = 16"
  "fx_devices FIXTURE_LIMITS = 64" "fx_state_paths FIXTURE_LIMITS = 256" "fx_actions FIXTURE_LIMITS = 64"
  "fx_events FIXTURE_LIMITS = 64" "fx_scenarios FIXTURE_LIMITS = 64" "fx_stimuli FIXTURE_LIMITS = 16"
  "fx_effects FIXTURE_LIMITS = 64" "record_entries FIXTURE_LIMITS = 256" "array_items FIXTURE_LIMITS = 256"
  "json_depth FIXTURE_LIMITS = 16" "json_values FIXTURE_LIMITS = 4096"
  "fixture_string_bytes FIXTURE_LIMITS = 1024" "description_bytes FIXTURE_LIMITS = 2048"
  by (simp_all add: FIXTURE_LIMITS_def)

definition fixture_own_keys :: "fields \<Rightarrow> jstr list traced" where
  "fixture_own_keys fs =
     (if length fs > record_entries FIXTURE_LIMITS then refuse ''limit_exceeded''
      else bind_r (each_r (\<lambda>key.
          if key \<in> js ` set trace_forbidden_keys then refuse ''forbidden_key'' else Inr ()) (map fst fs))
        (\<lambda>_. Inr (map fst fs)))"

definition fixture_array :: "jsval \<Rightarrow> nat \<Rightarrow> jsval list traced" where
  "fixture_array value maximum =
     (case value of
        JArr _ items extra \<Rightarrow>
          (if length items > maximum then refuse ''limit_exceeded''
           else if length (array_keys items extra) \<noteq> length items then refuse ''invalid_type''
           else if \<exists>i < length (array_keys items extra). array_keys items extra ! i \<noteq> Index i
           then refuse ''invalid_type''
           else Inr (map the items))
      | _ \<Rightarrow> refuse ''invalid_type'')"

definition fixture_string :: "jstr \<Rightarrow> nat \<Rightarrow> jstr traced" where
  "fixture_string s maximum =
     (if s = [] then refuse ''invalid_string''
      else if has_control s then refuse ''invalid_string''
      else if utf8_bytes s > maximum then refuse ''limit_exceeded''
      else Inr s)"

text \<open>
  One item of the stack of \<open>validateJsonValue\<close>: what it pushes, in the order of pushing, and the
  objects met.
\<close>

definition json_visit :: "jsval \<Rightarrow> nat \<Rightarrow> nat set \<Rightarrow> ((jsval \<times> nat) list \<times> nat set) traced" where
  "json_visit item depth seen =
     (case item of
        JNull \<Rightarrow> Inr ([], seen)
      | JBool _ \<Rightarrow> Inr ([], seen)
      | JNum n \<Rightarrow>
          (if \<not> num_is_finite n \<or> n = NNegZero \<or> num_is_integer n \<and> \<not> num_is_safe_integer n
           then refuse ''invalid_number'' else Inr ([], seen))
      | JStr s \<Rightarrow>
          (if has_control s then refuse ''invalid_string''
           else if utf8_bytes s > fixture_string_bytes FIXTURE_LIMITS then refuse ''limit_exceeded''
           else Inr ([], seen))
      | JArr oid items extra \<Rightarrow>
          (if oid \<in> seen then refuse ''invalid_value''
           else bind_r (fixture_array item (array_items FIXTURE_LIMITS)) (\<lambda>entries.
             Inr (map (\<lambda>entry. (entry, depth + 1)) (rev entries), insert oid seen)))
      | JRec oid fs \<Rightarrow>
          (if oid \<in> seen then refuse ''invalid_value''
           else bind_r (fixture_own_keys fs) (\<lambda>keys.
             bind_r (map_r (\<lambda>(key, v). bind_r (fixture_string key 128) (\<lambda>_. Inr (v, depth + 1))) fs) (\<lambda>pushed.
               Inr (pushed, insert oid seen))))
      | _ \<Rightarrow> refuse ''invalid_type'')"

function json_loop :: "(jsval \<times> nat) list \<Rightarrow> nat set \<Rightarrow> nat \<Rightarrow> unit traced" where
  "json_loop [] seen vals = Inr ()"
| "json_loop ((item, depth) # stack) seen vals =
     (if vals + 1 > json_values FIXTURE_LIMITS then refuse ''limit_exceeded''
      else if depth > json_depth FIXTURE_LIMITS then refuse ''limit_exceeded''
      else bind_r (json_visit item depth seen) (\<lambda>(pushed, seen').
        json_loop (rev pushed @ stack) seen' (vals + 1)))"
  by pat_completeness auto
termination
  by (relation "measure (\<lambda>(_, _, vals). 4097 - vals)") auto

definition validate_json_value :: "jsval \<Rightarrow> unit traced" where
  "validate_json_value value = json_loop [(value, 0)] {} 0"

end
