(* ===== verification/Trace_Validators.thy ===== *)
theory Trace_Validators
  imports Trace_Fields
begin

text \<open>
  \<open>validateStimulus\<close> and \<open>validateObservation\<close> of \<open>coordinator-contract/src/contract.ts\<close>: from untrusted
  JSON to the stimuli and traces of \<open>Trace_Values\<close>. Each record of a list has its own definition; the
  checks are in the order of the code, so that the code of the first violation is the same.
\<close>

section \<open>Stimuli\<close>

definition STIMULUS_KINDS :: "string list" where
  "STIMULUS_KINDS =
     [''construct'', ''start'', ''welcome'', ''declaration_update'', ''declaration_handoff'', ''declaration_ack'',
      ''declaration_error'', ''declaration_probe'', ''disconnect'', ''operation'', ''call_progress'',
      ''call_result'', ''call_cancel'', ''operation_terminal'', ''operation_error'', ''presence'',
      ''state_publish'', ''effect'', ''stop'']"

definition STIMULUS_FIELDS :: "string list" where
  "STIMULUS_FIELDS =
     [''session_id'', ''generation'', ''transaction'', ''promise_ids'', ''promise_id'', ''changed_domains'',
      ''revisions'', ''domain'', ''phase'', ''operation_id'', ''operation'', ''idempotency_key'', ''value'',
      ''entries'', ''paths'', ''effect'', ''code'', ''outcome'']"

definition validate_presence :: "jsval \<Rightarrow> presence_trace traced" where
  "validate_presence value =
     bind_r (trace_object value [''session_id'', ''user_id''] []) (\<lambda>record.
     bind_r (trace_positive (get record ''session_id'')) (\<lambda>session.
     bind_r (contract_id (get record ''user_id'')) (\<lambda>user.
       Inr \<lparr>pr_session = session, pr_user = user\<rparr>)))"

definition promise_stimulus :: "(jstr \<Rightarrow> stimulus) \<Rightarrow> jsval \<Rightarrow> fields \<Rightarrow> stimulus traced" where
  "promise_stimulus build value root =
     bind_r (trace_object value [''kind'', ''promise_id''] []) (\<lambda>_.
     bind_r (contract_id (get root ''promise_id'')) (\<lambda>promise. Inr (build promise)))"

definition welcome_stimulus :: "jsval \<Rightarrow> fields \<Rightarrow> stimulus traced" where
  "welcome_stimulus value root =
     bind_r (trace_object value [''kind'', ''session_id'', ''generation''] []) (\<lambda>_.
     bind_r (trace_positive (get root ''session_id'')) (\<lambda>session.
     bind_r (trace_positive (get root ''generation'')) (\<lambda>generation.
       Inr (WelcomeStimulus session generation))))"

definition update_stimulus :: "jsval \<Rightarrow> fields \<Rightarrow> stimulus traced" where
  "update_stimulus value root =
     bind_r (trace_object value [''kind'', ''transaction'', ''promise_ids'', ''changed_domains'', ''revisions''] []) (\<lambda>_.
     bind_r (trace_list (get root ''promise_ids'') contract_id) (\<lambda>promises.
     if promises = [] \<or> \<not> distinct promises then refuse ''duplicate''
     else bind_r (unique_strings (get root ''changed_domains'') DECLARATION_ORDER) (\<lambda>changed.
     if changed = [] then refuse ''missing_field''
     else bind_r (trace_positive (get root ''transaction'')) (\<lambda>transaction.
     bind_r (declaration_revisions_of (get root ''revisions'')) (\<lambda>revisions.
       Inr (DeclarationUpdate transaction promises changed revisions))))))"

definition handoff_stimulus :: "jsval \<Rightarrow> fields \<Rightarrow> stimulus traced" where
  "handoff_stimulus value root =
     bind_r (trace_object value [''kind'', ''transaction''] []) (\<lambda>_.
     bind_r (trace_positive (get root ''transaction'')) (\<lambda>transaction. Inr (DeclarationHandoff transaction)))"

definition ack_stimulus :: "jsval \<Rightarrow> fields \<Rightarrow> stimulus traced" where
  "ack_stimulus value root =
     bind_r (trace_object value [''kind'', ''domain'', ''transaction''] []) (\<lambda>_.
     bind_r (trace_enum (get root ''domain'') DECLARATION_ORDER) (\<lambda>d.
     bind_r (trace_positive (get root ''transaction'')) (\<lambda>transaction. Inr (DeclarationAck d transaction))))"

definition declaration_error_stimulus :: "jsval \<Rightarrow> fields \<Rightarrow> stimulus traced" where
  "declaration_error_stimulus value root =
     bind_r (trace_object value [''kind'', ''domain'', ''transaction'', ''code''] []) (\<lambda>_.
     bind_r (trace_enum (get root ''domain'') DECLARATION_ORDER) (\<lambda>d.
     bind_r (trace_positive (get root ''transaction'')) (\<lambda>transaction.
     bind_r (error_code_of (get root ''code'')) (\<lambda>code. Inr (DeclarationError d transaction code)))))"

definition disconnect_stimulus :: "jsval \<Rightarrow> fields \<Rightarrow> stimulus traced" where
  "disconnect_stimulus value root =
     bind_r (trace_object value [''kind'', ''phase''] []) (\<lambda>_.
     bind_r (trace_enum (get root ''phase'') DISCONNECT_PHASES) (\<lambda>phase. Inr (DisconnectStimulus phase)))"

text \<open>The key of a call: \<open>null\<close> or a string; the key of anything else is absent.\<close>

definition idempotency_key :: "operation_kind \<Rightarrow> fields \<Rightarrow> jstr option option traced" where
  "idempotency_key kind root =
     (if kind \<noteq> KCall then Inr None
      else if get root ''idempotency_key'' = JNull then Inr (Some None)
      else bind_r (trace_string (get root ''idempotency_key'')) (\<lambda>key. Inr (Some (Some key))))"

definition operation_stimulus_of :: "jsval \<Rightarrow> fields \<Rightarrow> stimulus traced" where
  "operation_stimulus_of value root =
     bind_r (trace_enum (get root ''operation'') OPERATION_KINDS) (\<lambda>kind.
     bind_r (trace_object value
       ([''kind'', ''operation_id'', ''operation'', ''phase''] @ (if kind = KCall then [''idempotency_key''] else [])) [])
       (\<lambda>_.
     bind_r (idempotency_key kind root) (\<lambda>key.
     bind_r (contract_id (get root ''operation_id'')) (\<lambda>operation.
     bind_r (trace_enum (get root ''phase'') OPERATION_PHASES) (\<lambda>phase.
       Inr (OperationStimulus \<lparr>op_id = operation, op_kind = kind, op_phase = phase, op_key = key\<rparr>))))))"

definition call_value_stimulus :: "(jstr \<Rightarrow> jsval \<Rightarrow> stimulus) \<Rightarrow> jsval \<Rightarrow> fields \<Rightarrow> stimulus traced" where
  "call_value_stimulus build value root =
     bind_r (trace_object value [''kind'', ''operation_id'', ''value''] []) (\<lambda>_.
     bind_r (validate_json_value (get root ''value'')) (\<lambda>_.
     bind_r (contract_id (get root ''operation_id'')) (\<lambda>operation.
       Inr (build operation (get root ''value'')))))"

definition cancel_stimulus :: "jsval \<Rightarrow> fields \<Rightarrow> stimulus traced" where
  "cancel_stimulus value root =
     bind_r (trace_object value [''kind'', ''operation_id''] []) (\<lambda>_.
     bind_r (contract_id (get root ''operation_id'')) (\<lambda>operation. Inr (CallCancelStimulus operation)))"

definition terminal_stimulus :: "jsval \<Rightarrow> fields \<Rightarrow> stimulus traced" where
  "terminal_stimulus value root =
     bind_r (trace_object value [''kind'', ''operation_id'', ''outcome''] []) (\<lambda>_.
     bind_r (contract_id (get root ''operation_id'')) (\<lambda>operation.
     bind_r (trace_enum (get root ''outcome'') TERMINAL_OUTCOMES) (\<lambda>result.
       Inr (OperationTerminal operation result))))"

definition operation_error_stimulus :: "jsval \<Rightarrow> fields \<Rightarrow> stimulus traced" where
  "operation_error_stimulus value root =
     bind_r (trace_object value [''kind'', ''operation_id'', ''code''] []) (\<lambda>_.
     bind_r (contract_id (get root ''operation_id'')) (\<lambda>operation.
     bind_r (error_code_of (get root ''code'')) (\<lambda>code. Inr (OperationErrorStimulus operation code))))"

definition presence_stimulus :: "jsval \<Rightarrow> fields \<Rightarrow> stimulus traced" where
  "presence_stimulus value root =
     bind_r (trace_object value [''kind'', ''entries''] []) (\<lambda>_.
     bind_r (trace_list (get root ''entries'') validate_presence) (\<lambda>entries. Inr (PresenceStimulus entries)))"

definition publish_stimulus :: "jsval \<Rightarrow> fields \<Rightarrow> stimulus traced" where
  "publish_stimulus value root =
     bind_r (trace_object value [''kind'', ''paths''] []) (\<lambda>_.
     bind_r (trace_list (get root ''paths'') trace_string) (\<lambda>paths.
       if \<not> distinct paths then refuse ''duplicate'' else Inr (StatePublish paths)))"

definition effect_stimulus :: "jsval \<Rightarrow> fields \<Rightarrow> stimulus traced" where
  "effect_stimulus value root =
     bind_r (trace_object value [''kind'', ''effect''] []) (\<lambda>_.
     bind_r (trace_enum (get root ''effect'') EFFECT_KINDS) (\<lambda>effect. Inr (EffectStimulus effect)))"

definition bare_stimulus :: "stimulus \<Rightarrow> jsval \<Rightarrow> fields \<Rightarrow> stimulus traced" where
  "bare_stimulus s value root = bind_r (trace_object value [''kind''] []) (\<lambda>_. Inr s)"

definition stimulus_body :: "string \<Rightarrow> jsval \<Rightarrow> fields \<Rightarrow> stimulus traced" where
  "stimulus_body kind =
     (if kind = ''construct'' then bare_stimulus ConstructStimulus
      else if kind = ''declaration_probe'' then bare_stimulus DeclarationProbe
      else if kind = ''start'' then promise_stimulus StartStimulus
      else if kind = ''stop'' then promise_stimulus StopStimulus
      else if kind = ''welcome'' then welcome_stimulus
      else if kind = ''declaration_update'' then update_stimulus
      else if kind = ''declaration_handoff'' then handoff_stimulus
      else if kind = ''declaration_ack'' then ack_stimulus
      else if kind = ''declaration_error'' then declaration_error_stimulus
      else if kind = ''disconnect'' then disconnect_stimulus
      else if kind = ''operation'' then operation_stimulus_of
      else if kind = ''call_progress'' then call_value_stimulus CallProgress
      else if kind = ''call_result'' then call_value_stimulus CallResultStimulus
      else if kind = ''call_cancel'' then cancel_stimulus
      else if kind = ''operation_terminal'' then terminal_stimulus
      else if kind = ''operation_error'' then operation_error_stimulus
      else if kind = ''presence'' then presence_stimulus
      else if kind = ''state_publish'' then publish_stimulus
      else effect_stimulus)"

definition validate_stimulus :: "jsval \<Rightarrow> stimulus traced" where
  "validate_stimulus value =
     bind_r (trace_object value [''kind''] STIMULUS_FIELDS) (\<lambda>root.
     bind_r (trace_enum (get root ''kind'') (map (\<lambda>kind. (kind, kind)) STIMULUS_KINDS)) (\<lambda>kind.
       stimulus_body kind value root))"

section \<open>Observations\<close>

definition checkpoint_entry :: "jsval \<Rightarrow> status_checkpoint traced" where
  "checkpoint_entry entry =
     bind_r (trace_object entry [''stimulus_index'', ''status''] []) (\<lambda>record.
     bind_r (non_negative_integer (get record ''stimulus_index'')) (\<lambda>i.
     bind_r (trace_enum (get record ''status'') COORDINATOR_STATUSES) (\<lambda>status.
       Inr \<lparr>cp_index = i, cp_status = status\<rparr>)))"

definition LIFECYCLE_FIELDS :: "string list" where
  "LIFECYCLE_FIELDS = [''operation'', ''promise_id'', ''invocation_stimulus_index'', ''settlement_stimulus_index'',
     ''outcome'']"

definition lifecycle_entry :: "jsval \<Rightarrow> lifecycle_promise traced" where
  "lifecycle_entry entry =
     bind_r (trace_object entry LIFECYCLE_FIELDS [''code'', ''session_id'', ''generation'']) (\<lambda>record.
     bind_r (trace_enum (get record ''operation'') [(''start'', StartOperation), (''stop'', StopOperation)]) (\<lambda>operation.
     bind_r (trace_enum (get record ''outcome'') [(''resolved'', True), (''rejected'', False)]) (\<lambda>resolved.
     bind_r (contract_id (get record ''promise_id'')) (\<lambda>promise.
     bind_r (non_negative_integer (get record ''invocation_stimulus_index'')) (\<lambda>invocation.
     bind_r (non_negative_integer (get record ''settlement_stimulus_index'')) (\<lambda>settlement.
     let common = \<lparr>lcp_operation = operation, lcp_promise = promise, lcp_invocation = invocation,
           lcp_settlement = settlement, lcp_resolved = resolved, lcp_code = None, lcp_session = None,
           lcp_generation = None\<rparr> in
     if \<not> resolved then
       (if operation \<noteq> StartOperation then refuse ''invalid_trace''
        else bind_r (trace_object entry (LIFECYCLE_FIELDS @ [''code'']) []) (\<lambda>_.
          bind_r (error_code_of (get record ''code'')) (\<lambda>code. Inr (common\<lparr>lcp_code := Some code\<rparr>))))
     else if operation = StartOperation then
       bind_r (trace_object entry (LIFECYCLE_FIELDS @ [''session_id'', ''generation'']) []) (\<lambda>_.
       bind_r (trace_positive (get record ''session_id'')) (\<lambda>session.
       bind_r (trace_positive (get record ''generation'')) (\<lambda>generation.
         Inr (common\<lparr>lcp_session := Some session, lcp_generation := Some generation\<rparr>))))
     else bind_r (trace_object entry LIFECYCLE_FIELDS []) (\<lambda>_. Inr common)))))))"

definition declaration_entry :: "jsval \<Rightarrow> declaration_trace traced" where
  "declaration_entry entry =
     bind_r (trace_object entry [''domain'', ''generation'', ''transaction''] []) (\<lambda>record.
     bind_r (trace_enum (get record ''domain'') DECLARATION_ORDER) (\<lambda>d.
     bind_r (trace_positive (get record ''generation'')) (\<lambda>generation.
     bind_r (trace_positive (get record ''transaction'')) (\<lambda>transaction.
       Inr \<lparr>dt_domain = d, dt_generation = generation, dt_transaction = transaction\<rparr>))))"

definition snapshot_entry :: "jsval \<Rightarrow> declaration_snapshot traced" where
  "snapshot_entry entry =
     bind_r (trace_object entry [''generation'', ''transaction'', ''stimulus_index'', ''revisions''] []) (\<lambda>record.
     bind_r (trace_positive (get record ''generation'')) (\<lambda>generation.
     bind_r (trace_positive (get record ''transaction'')) (\<lambda>transaction.
     bind_r (non_negative_integer (get record ''stimulus_index'')) (\<lambda>i.
     bind_r (declaration_revisions_of (get record ''revisions'')) (\<lambda>revisions.
       Inr \<lparr>ds_generation = generation, ds_transaction = transaction, ds_index = i, ds_revisions = revisions\<rparr>)))))"

definition declaration_promise_entry :: "jsval \<Rightarrow> declaration_promise traced" where
  "declaration_promise_entry entry =
     bind_r (trace_object entry [''promise_id'', ''transaction'', ''stimulus_index'', ''outcome''] [''code'']) (\<lambda>record.
     bind_r (trace_enum (get record ''outcome'') [(''activated'', True), (''rejected'', False)]) (\<lambda>activated.
     bind_r (trace_object entry
       ([''promise_id'', ''transaction'', ''stimulus_index'', ''outcome''] @ (if activated then [] else [''code''])) []) (\<lambda>_.
     bind_r (contract_id (get record ''promise_id'')) (\<lambda>promise.
     bind_r (trace_positive (get record ''transaction'')) (\<lambda>transaction.
     bind_r (non_negative_integer (get record ''stimulus_index'')) (\<lambda>i.
     bind_r (if activated then Inr None
             else bind_r (error_code_of (get record ''code'')) (\<lambda>code. Inr (Some code))) (\<lambda>code.
       Inr \<lparr>dp_promise = promise, dp_transaction = transaction, dp_index = i, dp_activated = activated,
            dp_code = code\<rparr>)))))))"

definition operation_entry :: "jsval \<Rightarrow> operation_trace traced" where
  "operation_entry entry =
     bind_r (trace_object entry [''operation_id'', ''operation'', ''attempts'', ''outcome''] [''idempotency_key'']) (\<lambda>record.
     bind_r (trace_enum (get record ''operation'') OPERATION_KINDS) (\<lambda>kind.
     bind_r (trace_object entry
       ([''operation_id'', ''operation'', ''attempts'', ''outcome''] @ (if kind = KCall then [''idempotency_key''] else [])) [])
       (\<lambda>_.
     bind_r (idempotency_key kind record) (\<lambda>key.
     bind_r (contract_id (get record ''operation_id'')) (\<lambda>operation.
     bind_r (non_negative_integer (get record ''attempts'')) (\<lambda>attempts.
     bind_r (trace_enum (get record ''outcome'') OPERATION_OUTCOMES) (\<lambda>result.
       Inr \<lparr>ot_id = operation, ot_operation = kind, ot_attempts = attempts, ot_outcome = result,
            ot_key = key\<rparr>)))))))"

definition stream_terminal :: "jsval \<Rightarrow> (jstr \<Rightarrow> call_terminal \<Rightarrow> 'a) \<Rightarrow> jsval \<Rightarrow> 'a traced" where
  "stream_terminal operation_id build value =
     bind_r (trace_object value [''kind''] [''value'', ''code'']) (\<lambda>terminal.
     bind_r (trace_enum (get terminal ''kind'') [(''result'', True), (''error'', False)]) (\<lambda>is_result.
     if is_result then
       bind_r (trace_object value [''kind'', ''value''] []) (\<lambda>_.
       bind_r (validate_json_value (get terminal ''value'')) (\<lambda>_.
       bind_r (contract_id operation_id) (\<lambda>operation.
         Inr (build operation (TerminalResult (get terminal ''value''))))))
     else
       bind_r (trace_object value [''kind'', ''code''] []) (\<lambda>_.
       bind_r (contract_id operation_id) (\<lambda>operation.
       bind_r (trace_enum (get terminal ''code'') CALL_ERROR_CODES) (\<lambda>code.
         Inr (build operation (TerminalError code)))))))"

definition stream_entry :: "jsval \<Rightarrow> call_stream traced" where
  "stream_entry entry =
     bind_r (trace_object entry [''operation_id'', ''acceptance'', ''progress'', ''terminal''] []) (\<lambda>record.
     bind_r (trace_enum (get record ''acceptance'') [(''resolved'', True), (''rejected'', False)]) (\<lambda>resolved.
     bind_r (trace_list (get record ''progress'') (\<lambda>v. bind_r (validate_json_value v) (\<lambda>_. Inr v))) (\<lambda>progress.
       stream_terminal (get record ''operation_id'') (\<lambda>operation terminal.
         \<lparr>cs_id = operation, cs_resolved = resolved, cs_progress = progress, cs_terminal = terminal\<rparr>)
         (get record ''terminal''))))"

definition effect_entry :: "jsval \<Rightarrow> effect_trace traced" where
  "effect_entry entry =
     bind_r (trace_object entry [''effect'', ''destination''] []) (\<lambda>record.
     bind_r (trace_enum (get record ''effect'') EFFECT_KINDS) (\<lambda>effect.
     bind_r (trace_enum (get record ''destination'') EFFECT_DESTINATIONS) (\<lambda>destination.
       Inr \<lparr>et_effect = effect, et_destination = destination\<rparr>)))"

definition error_entry :: "jsval \<Rightarrow> error_trace traced" where
  "error_entry entry =
     bind_r (trace_object entry [''code'', ''stimulus_index''] [''correlation'']) (\<lambda>record.
     bind_r (error_code_of (get record ''code'')) (\<lambda>code.
     bind_r (non_negative_integer (get record ''stimulus_index'')) (\<lambda>i.
     if \<not> has_own record (js ''correlation'') then
       Inr \<lparr>er_code = code, er_index = i, er_correlation = None\<rparr>
     else bind_r (trace_object (get record ''correlation'') [''kind'', ''local_id''] []) (\<lambda>correlation.
       bind_r (trace_enum (get correlation ''kind'') [(''event'', False), (''call'', True)]) (\<lambda>is_call.
       bind_r (contract_id (get correlation ''local_id'')) (\<lambda>local_id.
         Inr \<lparr>er_code = code, er_index = i, er_correlation = Some (is_call, local_id)\<rparr>))))))"

definition validate_resources :: "fields \<Rightarrow> resource_trace traced" where
  "validate_resources resources =
     bind_r (non_negative_integer (get resources ''sockets'')) (\<lambda>sockets.
     bind_r (non_negative_integer (get resources ''socket_high_water'')) (\<lambda>high_water.
     bind_r (resource_count (get resources ''timers'')) (\<lambda>timers.
     bind_r (resource_count (get resources ''listeners'')) (\<lambda>listeners.
     bind_r (resource_count (get resources ''iterators'')) (\<lambda>iterators.
       Inr \<lparr>rs_sockets = sockets, rs_high_water = high_water, rs_timers = timers,
              rs_listeners = listeners, rs_iterators = iterators\<rparr>)))))"

definition OBSERVATION_FIELDS :: "string list" where
  "OBSERVATION_FIELDS =
     [''statuses'', ''status_checkpoints'', ''lifecycle_promises'', ''access_reasons'', ''declarations'',
      ''declaration_snapshots'', ''declaration_promises'', ''declaration_visibility'', ''operations'',
      ''call_streams'', ''presence'', ''state_publications'', ''effects'', ''errors'', ''resources'']"

definition validate_observation :: "jsval \<Rightarrow> observation traced" where
  "validate_observation value =
     bind_r (trace_object value OBSERVATION_FIELDS []) (\<lambda>root.
     bind_r (trace_list (get root ''statuses'') (\<lambda>entry. trace_enum entry COORDINATOR_STATUSES)) (\<lambda>statuses.
     bind_r (trace_list (get root ''status_checkpoints'') checkpoint_entry) (\<lambda>checkpoints.
     bind_r (trace_list (get root ''lifecycle_promises'') lifecycle_entry) (\<lambda>lifecycle.
     bind_r (trace_list (get root ''access_reasons'') (\<lambda>entry. trace_enum entry TOKEN_REASONS)) (\<lambda>reasons.
     bind_r (trace_list (get root ''declarations'') declaration_entry) (\<lambda>declarations.
     bind_r (trace_list (get root ''declaration_snapshots'') snapshot_entry) (\<lambda>snapshots.
     bind_r (trace_list (get root ''declaration_promises'') declaration_promise_entry) (\<lambda>promises.
     bind_r (trace_list (get root ''declaration_visibility'') (\<lambda>entry. trace_enum entry VISIBILITIES)) (\<lambda>visibility.
     bind_r (trace_list (get root ''operations'') operation_entry) (\<lambda>operations.
     bind_r (trace_list (get root ''call_streams'') stream_entry) (\<lambda>streams.
     bind_r (trace_list (get root ''presence'') (\<lambda>snapshot. trace_list snapshot validate_presence)) (\<lambda>presence.
     bind_r (trace_list (get root ''effects'') effect_entry) (\<lambda>effects.
     bind_r (trace_list (get root ''errors'') error_entry) (\<lambda>errors.
     bind_r (trace_object (get root ''resources'')
       [''sockets'', ''socket_high_water'', ''timers'', ''listeners'', ''iterators''] []) (\<lambda>resources.
     bind_r (non_negative_integer (get root ''state_publications'')) (\<lambda>publications.
     bind_r (validate_resources resources) (\<lambda>resources.
       Inr \<lparr>ob_statuses = statuses, ob_checkpoints = checkpoints, ob_lifecycle = lifecycle,
            ob_reasons = reasons, ob_declarations = declarations, ob_snapshots = snapshots,
            ob_promises = promises, ob_visibility = visibility, ob_operations = operations,
            ob_streams = streams, ob_presence = presence, ob_publications = publications,
            ob_effects = effects, ob_errors = errors, ob_resources = resources\<rparr>)))))))))))))))))"

definition validate_contract_observation :: "jsval \<Rightarrow> observation traced" where
  "validate_contract_observation value =
     bind_r (assert_aggregate_budget value (observation_values CONTRACT_LIMITS)
       (observation_string_bytes CONTRACT_LIMITS)) (\<lambda>_. validate_observation value)"

end
