(* ===== verification/Trace_Lifecycle.thy ===== *)
theory Trace_Lifecycle
  imports Trace_Values
begin

text \<open>
  \<open>assertLifecycleCausality\<close> of \<open>coordinator-contract/src/contract.ts\<close>: the loop over the stimuli that
  derives the statuses, the status checkpoints and the lifecycle promises an implementation must show,
  as a step function on the variables of the loop, and the comparison with the traces.
\<close>

record lifecycle_state =
  ls_statuses :: "coordinator_status list"
  ls_checkpoints :: "status_checkpoint list"
  ls_promises :: "lifecycle_promise list"
  ls_started :: bool
  ls_stopped :: bool
  ls_reconnecting :: bool
  ls_activated :: bool
  ls_can_restore :: bool
  ls_session :: "(int \<times> int) option"
  ls_pending :: "(jstr \<times> int) option"
  ls_stop :: "(jstr \<times> int) option"
  ls_transaction :: "(int \<times> bool) option"
  ls_queued :: "int option"
  ls_seen :: "jstr set"

text \<open>
  A declaration transaction is its number and whether it was handed off; a pending start its promise and
  the index of its stimulus, a stop its promise and the index at which it settles.
\<close>

definition initial_lifecycle :: lifecycle_state where
  "initial_lifecycle = \<lparr>ls_statuses = [], ls_checkpoints = [], ls_promises = [], ls_started = False,
     ls_stopped = False, ls_reconnecting = False, ls_activated = False, ls_can_restore = False,
     ls_session = None, ls_pending = None, ls_stop = None, ls_transaction = None, ls_queued = None,
     ls_seen = {}\<rparr>"

definition record_status :: "int \<Rightarrow> coordinator_status list \<Rightarrow> lifecycle_state \<Rightarrow> lifecycle_state" where
  "record_status i next s =
     s\<lparr>ls_statuses := ls_statuses s @ next,
       ls_checkpoints := ls_checkpoints s @ map (\<lambda>status. \<lparr>cp_index = i, cp_status = status\<rparr>) next\<rparr>"

text \<open>
  \<open>settleStart\<close>: resolved without a code, rejected with one. Resolving reads \<open>currentSession!\<close>.
\<close>

definition settle_start :: "int \<Rightarrow> jstr option \<Rightarrow> lifecycle_state \<Rightarrow> lifecycle_state traced" where
  "settle_start i code s =
     (case ls_pending s of
        None \<Rightarrow> Inr s
      | Some (promise, invocation) \<Rightarrow>
          bind_r (case code of
              Some c \<Rightarrow> Inr (None, None)
            | None \<Rightarrow>
                (case ls_session s of
                   None \<Rightarrow> Inl Trace_TypeError
                 | Some (session, generation) \<Rightarrow> Inr (Some session, Some generation)))
            (\<lambda>(session, generation).
              Inr (s\<lparr>ls_promises := ls_promises s @
                       [\<lparr>lcp_operation = StartOperation, lcp_promise = promise, lcp_invocation = invocation,
                         lcp_settlement = i, lcp_resolved = (code = None), lcp_code = code,
                         lcp_session = session, lcp_generation = generation\<rparr>],
                     ls_pending := None\<rparr>)))"

definition start_step :: "int \<Rightarrow> jstr \<Rightarrow> lifecycle_state \<Rightarrow> lifecycle_state traced" where
  "start_step i promise s =
     (if promise \<in> ls_seen s then refuse ''duplicate''
      else
        (let s1 = s\<lparr>ls_seen := insert promise (ls_seen s)\<rparr> in
         if \<not> ls_started s \<and> \<not> ls_stopped s then
           Inr (record_status i [StConnecting] (s1\<lparr>ls_started := True, ls_pending := Some (promise, i)\<rparr>))
         else
           Inr (s1\<lparr>ls_promises := ls_promises s @
             [\<lparr>lcp_operation = StartOperation, lcp_promise = promise, lcp_invocation = i, lcp_settlement = i,
               lcp_resolved = False, lcp_code = Some (js ''invalid_lifecycle''), lcp_session = None,
               lcp_generation = None\<rparr>]\<rparr>)))"

definition welcome_step :: "int \<Rightarrow> int \<Rightarrow> int \<Rightarrow> lifecycle_state \<Rightarrow> lifecycle_state traced" where
  "welcome_step i session generation s =
     (if \<not> ls_started s \<or> ls_stopped s then refuse ''invalid_lifecycle''
      else
        (let s1 = (if ls_reconnecting s then record_status i [StConnecting] s else s) in
         Inr ((record_status i [StAuthenticating, StSynchronizing] s1)
           \<lparr>ls_reconnecting := False, ls_activated := False, ls_can_restore := False,
            ls_session := Some (session, generation), ls_transaction := Some (1, False),
            ls_queued := None\<rparr>)))"

definition update_step :: "int \<Rightarrow> int \<Rightarrow> lifecycle_state \<Rightarrow> lifecycle_state traced" where
  "update_step i transaction s =
     (if \<not> ls_started s \<or> ls_stopped s then refuse ''invalid_lifecycle''
      else
        (let s1 = s\<lparr>ls_can_restore := ls_can_restore s \<or> ls_activated s, ls_activated := False\<rparr>;
             s2 = (if ls_activated s then record_status i [StSynchronizing] s1 else s1)
         in Inr (case ls_transaction s of
               Some (_, True) \<Rightarrow> s2\<lparr>ls_queued := Some transaction\<rparr>
             | _ \<Rightarrow> s2\<lparr>ls_transaction := Some (transaction, False)\<rparr>)))"

definition handoff_step :: "int \<Rightarrow> lifecycle_state \<Rightarrow> lifecycle_state traced" where
  "handoff_step transaction s =
     (if ls_transaction s \<noteq> Some (transaction, False) then refuse ''invalid_order''
      else Inr (s\<lparr>ls_transaction := Some (transaction, True)\<rparr>))"

definition functions_ack_step :: "int \<Rightarrow> lifecycle_state \<Rightarrow> lifecycle_state traced" where
  "functions_ack_step i s =
     (case ls_queued s of
        Some transaction \<Rightarrow> Inr (s\<lparr>ls_transaction := Some (transaction, False), ls_queued := None\<rparr>)
      | None \<Rightarrow>
          settle_start i None
            (record_status i [StReady] (s\<lparr>ls_transaction := None, ls_activated := True, ls_can_restore := False\<rparr>)))"

definition declaration_error_step :: "int \<Rightarrow> lifecycle_state \<Rightarrow> lifecycle_state" where
  "declaration_error_step i s =
     (let s1 = s\<lparr>ls_transaction := None, ls_queued := None\<rparr> in
      if ls_can_restore s
      then record_status i [StReady] (s1\<lparr>ls_activated := True, ls_can_restore := False\<rparr>)
      else s1)"

definition disconnect_step :: "int \<Rightarrow> lifecycle_state \<Rightarrow> lifecycle_state" where
  "disconnect_step i s =
     (if ls_started s \<and> \<not> ls_stopped s then
        (if ls_reconnecting s then s else record_status i [StReconnecting] s)
          \<lparr>ls_reconnecting := True, ls_activated := False, ls_can_restore := False,
           ls_transaction := None, ls_queued := None\<rparr>
      else s)"

definition stop_step :: "int \<Rightarrow> jstr \<Rightarrow> lifecycle_state \<Rightarrow> lifecycle_state traced" where
  "stop_step i promise s =
     bind_r (if ls_started s \<and> \<not> ls_stopped s then
               settle_start i (Some (js ''cancelled''))
                 ((record_status i [StStopping, StStopped] s)
                    \<lparr>ls_stopped := True, ls_reconnecting := False, ls_activated := False,
                     ls_can_restore := False, ls_transaction := None, ls_queued := None\<rparr>)
             else Inr s) (\<lambda>s1.
     bind_r (case ls_stop s1 of
               None \<Rightarrow>
                 (if promise \<in> ls_seen s1 then refuse ''duplicate''
                  else Inr (s1\<lparr>ls_seen := insert promise (ls_seen s1), ls_stop := Some (promise, i)\<rparr>, i))
             | Some (shared, settlement) \<Rightarrow>
                 (if promise \<noteq> shared then refuse ''invalid_trace'' else Inr (s1, settlement)))
       (\<lambda>(s2, settlement).
         Inr (s2\<lparr>ls_promises := ls_promises s2 @
           [\<lparr>lcp_operation = StopOperation, lcp_promise = promise, lcp_invocation = i,
             lcp_settlement = settlement, lcp_resolved = True, lcp_code = None, lcp_session = None,
             lcp_generation = None\<rparr>]\<rparr>)))"

definition lifecycle_step :: "nat \<Rightarrow> lifecycle_state \<Rightarrow> int \<times> stimulus \<Rightarrow> lifecycle_state traced" where
  "lifecycle_step len s entry =
     (let i = fst entry in
      case snd entry of
        ConstructStimulus \<Rightarrow>
          (if len \<noteq> 1 then refuse ''invalid_lifecycle'' else Inr (record_status i [StIdle] s))
      | StartStimulus promise \<Rightarrow> start_step i promise s
      | WelcomeStimulus session generation \<Rightarrow> welcome_step i session generation s
      | DeclarationUpdate transaction _ _ _ \<Rightarrow> update_step i transaction s
      | DeclarationHandoff transaction \<Rightarrow> handoff_step transaction s
      | DeclarationAck d _ \<Rightarrow> (if d = DFunctions then functions_ack_step i s else Inr s)
      | DeclarationError _ _ _ \<Rightarrow> Inr (declaration_error_step i s)
      | DisconnectStimulus _ \<Rightarrow> Inr (disconnect_step i s)
      | StopStimulus promise \<Rightarrow> stop_step i promise s
      | _ \<Rightarrow> Inr s)"

text \<open>The stimuli with their indices.\<close>

definition indexed :: "'a list \<Rightarrow> (int \<times> 'a) list" where
  "indexed xs = zip (map int [0..<length xs]) xs"

definition lifecycle_run :: "stimulus list \<Rightarrow> lifecycle_state traced" where
  "lifecycle_run stimuli = fold_r (lifecycle_step (length stimuli)) initial_lifecycle (indexed stimuli)"

text \<open>The reasons for which access tokens were asked: the first start, and each welcome after a disconnection.\<close>

fun is_start :: "stimulus \<Rightarrow> bool" where
  "is_start (StartStimulus _) = True"
| "is_start _ = False"

fun reconnections :: "bool \<Rightarrow> stimulus list \<Rightarrow> token_reason list" where
  "reconnections disconnected [] = []"
| "reconnections disconnected (stimulus # rest) =
     (case stimulus of
        DisconnectStimulus _ \<Rightarrow> reconnections True rest
      | WelcomeStimulus _ _ \<Rightarrow>
          (if disconnected then ReasonReconnect # reconnections False rest else reconnections disconnected rest)
      | _ \<Rightarrow> reconnections disconnected rest)"

definition access_reasons :: "stimulus list \<Rightarrow> token_reason list" where
  "access_reasons stimuli =
     (if \<exists>s\<in>set stimuli. is_start s then [ReasonInitial] else []) @ reconnections False stimuli"

definition duplicate_start_errors :: "error_trace list \<Rightarrow> nat" where
  "duplicate_start_errors errors =
     length (filter (\<lambda>e. er_code e = js ''invalid_lifecycle'' \<and> er_correlation e = None) errors)"

definition assert_lifecycle_causality :: "scenario \<Rightarrow> unit traced" where
  "assert_lifecycle_causality sc =
     (if sc_mode sc \<noteq> ModeSdk then
        (if ob_statuses (sc_expected sc) \<noteq> [] \<or> ob_checkpoints (sc_expected sc) \<noteq> []
            \<or> ob_lifecycle (sc_expected sc) \<noteq> []
         then refuse ''invalid_trace'' else Inr ())
      else bind_r (lifecycle_run (sc_stimuli sc)) (\<lambda>s.
        if ls_pending s \<noteq> None then refuse ''missing_trace''
        else if ls_statuses s \<noteq> ob_statuses (sc_expected sc) then refuse ''invalid_trace''
        else if ls_checkpoints s \<noteq> ob_checkpoints (sc_expected sc) then refuse ''invalid_trace''
        else if sort_key lcp_invocation (ls_promises s) \<noteq> ob_lifecycle (sc_expected sc)
        then refuse ''invalid_trace''
        else if duplicate_start_errors (ob_errors (sc_expected sc))
            \<noteq> length (filter is_start (sc_stimuli sc)) - 1
        then refuse ''missing_trace''
        else if access_reasons (sc_stimuli sc) \<noteq> ob_reasons (sc_expected sc) then refuse ''invalid_trace''
        else Inr ()))"

end
