(* ===== verification/Trace_Operations.thy ===== *)
theory Trace_Operations
  imports Trace_Values "HOL-Library.List_Lexorder"
begin

text \<open>
  \<open>assertOperationCausality\<close> of \<open>coordinator-contract/src/contract.ts\<close>: what each operation of a scenario
  comes to, derived from the stimuli, and the comparison with the operation traces and the call streams.
  The map of operations and the list in the order of their stimuli are one association list here, in
  that order, since an id is never inserted twice.
\<close>

section \<open>Equality of JSON values\<close>

text \<open>
  \<open>jsonValuesEqual\<close>. Arrays of validated values have no holes; keys are compared in the order of
  \<open>Array.prototype.sort\<close>, by code units.
\<close>

lemma size_map_of_field: "map_of fs k = Some v \<Longrightarrow> size v < Suc (size_list (size_prod (\<lambda>_. 0) size) fs)"
  by (induction fs) (auto split: if_splits)

lemma size_present_item:
  "items ! i = Some v \<Longrightarrow> i < length items \<Longrightarrow> size v < Suc (size_list (size_option size) items)"
proof (induction items arbitrary: i)
  case (Cons item items)
  then show ?case by (cases i) fastforce+
qed simp

function json_values_equal :: "jsval \<Rightarrow> jsval \<Rightarrow> bool" where
  "json_values_equal left right =
     (if left = right then True
      else (case left of
        JArr _ ls _ \<Rightarrow>
          (case right of
             JArr _ rs _ \<Rightarrow>
               length ls = length rs
               \<and> (\<forall>i\<in>set [0..<length ls].
                    (case ls ! i of None \<Rightarrow> True
                     | Some l \<Rightarrow>
                         json_values_equal l (case rs ! i of None \<Rightarrow> JUndef | Some r \<Rightarrow> r)))
           | _ \<Rightarrow> False)
      | JRec _ ls \<Rightarrow>
          (case right of
             JRec _ rs \<Rightarrow>
               length ls = length rs
               \<and> (\<forall>i\<in>set [0..<length ls].
                    sort (map fst ls) ! i = sort (map fst rs) ! i
                    \<and> (case map_of ls (sort (map fst ls) ! i) of
                         None \<Rightarrow> True
                       | Some l \<Rightarrow>
                           json_values_equal l
                             (case map_of rs (sort (map fst ls) ! i) of None \<Rightarrow> JUndef | Some r \<Rightarrow> r)))
           | _ \<Rightarrow> False)
      | _ \<Rightarrow> False))"
  by pat_completeness auto
termination
  by (relation "measure (\<lambda>(left, _). size left)")
     (auto dest: size_map_of_field size_present_item)

section \<open>Derived operations and calls\<close>

record derived_operation =
  do_stimulus :: operation_stimulus
  do_attempts :: int
  do_outcome :: "operation_outcome option"

record derived_call =
  dc_resolved :: bool
  dc_progress :: "jsval list"
  dc_terminal :: "call_terminal option"
  dc_cancelled :: bool
  dc_error :: "jstr option"

record operation_state =
  os_operations :: "(jstr \<times> derived_operation) list"
  os_calls :: "(jstr \<times> derived_call) list"
  os_started :: bool
  os_ready :: bool
  os_configured :: bool
  os_can_restore :: bool
  os_transaction :: "(int \<times> bool) option"
  os_queued :: "int option"

definition initial_operations :: operation_state where
  "initial_operations = \<lparr>os_operations = [], os_calls = [], os_started = False, os_ready = False,
     os_configured = False, os_can_restore = False, os_transaction = None, os_queued = None\<rparr>"

definition finalize ::
  "jstr \<Rightarrow> operation_outcome \<Rightarrow> call_terminal option \<Rightarrow> operation_state \<Rightarrow> operation_state traced" where
  "finalize operation result terminal s =
     (case map_of (os_operations s) operation of
        None \<Rightarrow> refuse ''invalid_reference''
      | Some derived \<Rightarrow>
          if do_outcome derived \<noteq> None then refuse ''invalid_order''
          else
            (let s1 = s\<lparr>os_operations := AList.update operation (derived\<lparr>do_outcome := Some result\<rparr>)
                         (os_operations s)\<rparr> in
             if op_kind (do_stimulus derived) = KCall then
               (case terminal of
                  None \<Rightarrow> refuse ''missing_trace''
                | Some t \<Rightarrow>
                    (case map_of (os_calls s1) operation of
                       None \<Rightarrow> Inl Trace_TypeError
                     | Some call \<Rightarrow>
                         Inr (s1\<lparr>os_calls := AList.update operation (call\<lparr>dc_terminal := Some t\<rparr>)
                                (os_calls s1)\<rparr>)))
             else if terminal \<noteq> None then refuse ''invalid_reference''
             else Inr s1))"

text \<open>The session of an SDK scenario, as far as operations depend on it: what is ready when.\<close>

definition session_step :: "stimulus \<Rightarrow> operation_state \<Rightarrow> operation_state" where
  "session_step stimulus s =
     (case stimulus of
        StartStimulus _ \<Rightarrow>
          (if \<not> os_started s
           then s\<lparr>os_started := True, os_ready := False, os_can_restore := False\<rparr> else s)
      | WelcomeStimulus _ _ \<Rightarrow>
          s\<lparr>os_ready := False, os_can_restore := False, os_transaction := Some (1, False), os_queued := None\<rparr>
      | DeclarationUpdate transaction _ _ _ \<Rightarrow>
          (let s1 = s\<lparr>os_can_restore := os_can_restore s \<or> (os_ready s \<and> os_configured s), os_ready := False\<rparr> in
           case os_transaction s of
             Some (_, True) \<Rightarrow> s1\<lparr>os_queued := Some transaction\<rparr>
           | _ \<Rightarrow> s1\<lparr>os_transaction := Some (transaction, False)\<rparr>)
      | DeclarationHandoff transaction \<Rightarrow>
          (case os_transaction s of
             Some (current, _) \<Rightarrow>
               (if current = transaction then s\<lparr>os_transaction := Some (current, True)\<rparr> else s)
           | None \<Rightarrow> s)
      | DisconnectStimulus _ \<Rightarrow>
          s\<lparr>os_ready := False, os_can_restore := False, os_transaction := None, os_queued := None\<rparr>
      | StopStimulus _ \<Rightarrow>
          s\<lparr>os_ready := False, os_can_restore := False, os_transaction := None, os_queued := None\<rparr>
      | DeclarationAck d _ \<Rightarrow>
          (if d \<noteq> DFunctions then s
           else
             (case os_queued s of
                Some transaction \<Rightarrow>
                  s\<lparr>os_configured := True, os_transaction := Some (transaction, False), os_queued := None\<rparr>
              | None \<Rightarrow>
                  s\<lparr>os_configured := True, os_transaction := None, os_ready := True, os_can_restore := False\<rparr>))
      | DeclarationError _ _ _ \<Rightarrow>
          s\<lparr>os_ready := os_can_restore s, os_can_restore := False, os_transaction := None, os_queued := None\<rparr>
      | _ \<Rightarrow> s)"

definition start_operation :: "contract_mode \<Rightarrow> operation_stimulus \<Rightarrow> operation_state \<Rightarrow> operation_state traced" where
  "start_operation mode op s =
     (if map_of (os_operations s) (op_id op) \<noteq> None then refuse ''duplicate''
      else if op_phase op = PhaseAccepted \<and> op_kind op \<noteq> KCall then refuse ''invalid_outcome''
      else if mode = ModeSdk \<and> op_phase op \<noteq> BeforeSend \<and> \<not> os_ready s then refuse ''invalid_lifecycle''
      else
        (let s1 = s\<lparr>os_operations := AList.update (op_id op)
                     \<lparr>do_stimulus = op, do_attempts = (if op_phase op = BeforeSend then 0 else 1),
                      do_outcome = None\<rparr> (os_operations s)\<rparr>;
             s2 = (if op_kind op = KCall
                   then s1\<lparr>os_calls := AList.update (op_id op)
                          \<lparr>dc_resolved = (op_phase op = PhaseAccepted), dc_progress = [], dc_terminal = None,
                           dc_cancelled = False, dc_error = None\<rparr> (os_calls s1)\<rparr>
                   else s1)
         in if op_phase op = BeforeSend then
              finalize (op_id op) NotDispatched
                (if op_kind op = KCall then Some (TerminalError NotDispatched) else None) s2
            else if op_kind op = KEvent then finalize (op_id op) Sent None s2
            else Inr s2))"

text \<open>The call a stimulus names, when it is an unsettled call without a pending error.\<close>

definition open_call :: "operation_state \<Rightarrow> jstr \<Rightarrow> (derived_operation \<times> derived_call) option" where
  "open_call s operation =
     (case (map_of (os_operations s) operation, map_of (os_calls s) operation) of
        (Some derived, Some call) \<Rightarrow>
          (if op_kind (do_stimulus derived) = KCall \<and> do_outcome derived = None \<and> dc_error call = None
           then Some (derived, call) else None)
      | _ \<Rightarrow> None)"

definition call_progress_step :: "jstr \<Rightarrow> jsval \<Rightarrow> operation_state \<Rightarrow> operation_state traced" where
  "call_progress_step operation v s =
     (case open_call s operation of
        Some (derived, call) \<Rightarrow>
          (if op_phase (do_stimulus derived) \<noteq> PhaseAccepted then refuse ''invalid_reference''
           else Inr (s\<lparr>os_calls := AList.update operation (call\<lparr>dc_progress := dc_progress call @ [v]\<rparr>)
                       (os_calls s)\<rparr>))
      | None \<Rightarrow> refuse ''invalid_reference'')"

definition call_result_step :: "jstr \<Rightarrow> jsval \<Rightarrow> operation_state \<Rightarrow> operation_state traced" where
  "call_result_step operation v s =
     (case map_of (os_operations s) operation of
        Some derived \<Rightarrow>
          (if op_kind (do_stimulus derived) \<noteq> KCall \<or> op_phase (do_stimulus derived) \<noteq> PhaseAccepted
              \<or> (case map_of (os_calls s) operation of None \<Rightarrow> False | Some call \<Rightarrow> dc_error call \<noteq> None)
              \<or> do_outcome derived \<noteq> None
           then refuse ''invalid_reference''
           else finalize operation Succeeded (Some (TerminalResult v)) s)
      | None \<Rightarrow> refuse ''invalid_reference'')"

definition call_cancel_step :: "jstr \<Rightarrow> operation_state \<Rightarrow> operation_state traced" where
  "call_cancel_step operation s =
     (case open_call s operation of
        Some (derived, call) \<Rightarrow>
          (if dc_cancelled call then refuse ''invalid_reference''
           else Inr (s\<lparr>os_calls := AList.update operation (call\<lparr>dc_cancelled := True\<rparr>) (os_calls s)\<rparr>))
      | None \<Rightarrow> refuse ''invalid_reference'')"

definition operation_error_step :: "jstr \<Rightarrow> jstr \<Rightarrow> operation_state \<Rightarrow> operation_state traced" where
  "operation_error_step operation code s =
     (case map_of (os_operations s) operation of
        Some derived \<Rightarrow>
          (if op_kind (do_stimulus derived) \<noteq> KCall then Inr s
           else
             (case map_of (os_calls s) operation of
                None \<Rightarrow> Inl Trace_TypeError
              | Some call \<Rightarrow>
                  (if op_phase (do_stimulus derived) = BeforeSend \<or> do_outcome derived \<noteq> None
                      \<or> dc_error call \<noteq> None
                   then refuse ''invalid_reference''
                   else Inr (s\<lparr>os_calls := AList.update operation (call\<lparr>dc_error := Some code\<rparr>)
                               (os_calls s)\<rparr>))))
      | None \<Rightarrow> Inr s)"

text \<open>The terminal of a call that failed: the outcome its error code and its phase allow.\<close>

definition call_error_outcome :: "jstr \<Rightarrow> operation_phase \<Rightarrow> operation_outcome" where
  "call_error_outcome code phase =
     (if code = js ''outcome_unknown'' then OutcomeUnknown
      else if phase = PhaseAccepted then Failed else NotDispatched)"

definition call_terminal_step ::
  "jstr \<Rightarrow> operation_outcome \<Rightarrow> operation_phase \<Rightarrow> operation_state \<Rightarrow> operation_state traced" where
  "call_terminal_step operation result phase s =
     (case map_of (os_calls s) operation of
        None \<Rightarrow> Inl Trace_TypeError
      | Some call \<Rightarrow>
          (case dc_error call of
             None \<Rightarrow> refuse ''missing_trace''
           | Some code \<Rightarrow>
               (if dc_cancelled call
                   \<and> code \<noteq> (if phase = PhaseAccepted then js ''outcome_unknown'' else js ''cancelled'')
                then refuse ''invalid_outcome''
                else if result \<noteq> call_error_outcome code phase then refuse ''invalid_outcome''
                else Inr (s\<lparr>os_calls := AList.update operation (call\<lparr>dc_error := None\<rparr>) (os_calls s)\<rparr>))))"

definition terminal_step :: "jstr \<Rightarrow> operation_outcome \<Rightarrow> operation_state \<Rightarrow> operation_state traced" where
  "terminal_step operation result s =
     (case map_of (os_operations s) operation of
        None \<Rightarrow> refuse ''invalid_reference''
      | Some derived \<Rightarrow>
          if do_outcome derived \<noteq> None then refuse ''invalid_reference''
          else
            (let kind = op_kind (do_stimulus derived); phase = op_phase (do_stimulus derived) in
             bind_r (if kind = KCall then call_terminal_step operation result phase s
                     else if kind = KEvent
                       \<or> result = Applied \<and> kind \<noteq> KStateSet
                       \<or> result = NotDispatched \<and> phase \<noteq> PhaseSent
                       \<or> result = OutcomeUnknown \<and> phase = BeforeSend
                     then refuse ''invalid_outcome''
                     else Inr s)
               (finalize operation result (if kind = KCall then Some (TerminalError result) else None))))"

text \<open>A disconnection or a stop closes every operation that is still open.\<close>

definition close_operation :: "operation_state \<Rightarrow> jstr \<Rightarrow> operation_state traced" where
  "close_operation s operation =
     (case map_of (os_operations s) operation of
        None \<Rightarrow> Inr s
      | Some derived \<Rightarrow>
          (if do_outcome derived \<noteq> None then Inr s
           else if op_kind (do_stimulus derived) = KStateSet then finalize operation OutcomeUnknown None s
           else if op_kind (do_stimulus derived) = KCall then
             (if case map_of (os_calls s) operation of None \<Rightarrow> False | Some call \<Rightarrow> dc_error call \<noteq> None
              then refuse ''missing_trace''
              else finalize operation OutcomeUnknown (Some (TerminalError OutcomeUnknown)) s)
           else Inr s))"

definition close_operations :: "operation_state \<Rightarrow> operation_state traced" where
  "close_operations s = fold_r close_operation s (map fst (os_operations s))"

definition operation_step :: "contract_mode \<Rightarrow> operation_state \<Rightarrow> stimulus \<Rightarrow> operation_state traced" where
  "operation_step mode s0 stimulus =
     (let s = (if mode = ModeSdk then session_step stimulus s0 else s0) in
      case stimulus of
        OperationStimulus op \<Rightarrow> start_operation mode op s
      | CallProgress operation v \<Rightarrow> call_progress_step operation v s
      | CallResultStimulus operation v \<Rightarrow> call_result_step operation v s
      | CallCancelStimulus operation \<Rightarrow> call_cancel_step operation s
      | OperationErrorStimulus operation code \<Rightarrow> operation_error_step operation code s
      | OperationTerminal operation result \<Rightarrow> terminal_step operation result s
      | DisconnectStimulus _ \<Rightarrow> close_operations s
      | StopStimulus _ \<Rightarrow> close_operations s
      | _ \<Rightarrow> Inr s)"

definition operation_run :: "contract_mode \<Rightarrow> stimulus list \<Rightarrow> operation_state traced" where
  "operation_run mode stimuli = fold_r (operation_step mode) initial_operations stimuli"

section \<open>Comparison with the traces\<close>

definition operation_observed :: "operation_trace \<Rightarrow> derived_operation \<Rightarrow> unit traced" where
  "operation_observed observed derived =
     (if ot_attempts observed > 1 then refuse ''unsafe_retry''
      else if ot_id observed \<noteq> op_id (do_stimulus derived)
        \<or> ot_operation observed \<noteq> op_kind (do_stimulus derived)
        \<or> ot_attempts observed \<noteq> do_attempts derived
        \<or> Some (ot_outcome observed) \<noteq> do_outcome derived
        \<or> ot_key observed \<noteq> op_key (do_stimulus derived)
      then refuse ''invalid_outcome'' else Inr ())"

definition terminals_equal :: "call_terminal \<Rightarrow> call_terminal \<Rightarrow> bool" where
  "terminals_equal observed derived =
     (case (observed, derived) of
        (TerminalResult v, TerminalResult w) \<Rightarrow> json_values_equal v w
      | (TerminalError c, TerminalError d) \<Rightarrow> c = d
      | _ \<Rightarrow> False)"

definition stream_observed :: "call_stream \<Rightarrow> jstr \<times> derived_call \<Rightarrow> unit traced" where
  "stream_observed observed entry =
     (case snd entry of derived \<Rightarrow>
      (case dc_terminal derived of
         None \<Rightarrow> refuse ''invalid_trace''
       | Some terminal \<Rightarrow>
           if cs_id observed \<noteq> fst entry \<or> cs_resolved observed \<noteq> dc_resolved derived
             \<or> length (cs_progress observed) \<noteq> length (dc_progress derived)
             \<or> \<not> list_all2 json_values_equal (cs_progress observed) (dc_progress derived)
             \<or> \<not> terminals_equal (cs_terminal observed) terminal
           then refuse ''invalid_trace'' else Inr ()))"

definition cancelled_phases :: "operation_state \<Rightarrow> operation_phase list" where
  "cancelled_phases s =
     map (\<lambda>(_, derived). op_phase (do_stimulus derived))
       (filter (\<lambda>(operation, derived). op_kind (do_stimulus derived) = KCall
            \<and> (case map_of (os_calls s) operation of None \<Rightarrow> False | Some call \<Rightarrow> dc_cancelled call))
         (os_operations s))"

definition derived_calls :: "operation_state \<Rightarrow> (jstr \<times> derived_call) list" where
  "derived_calls s =
     List.map_filter (\<lambda>(operation, derived).
         if op_kind (do_stimulus derived) = KCall
         then map_option (\<lambda>call. (operation, call)) (map_of (os_calls s) operation) else None)
       (os_operations s)"

definition assert_operation_causality :: "scenario \<Rightarrow> unit traced" where
  "assert_operation_causality sc =
     bind_r (operation_run (sc_mode sc) (sc_stimuli sc)) (\<lambda>s.
     if \<exists>(_, derived)\<in>set (os_operations s). do_outcome derived = None then refuse ''missing_trace''
     else if OfflineRejection \<in> set (sc_coverage sc)
       \<and> (os_operations s = []
          \<or> (\<exists>(_, derived)\<in>set (os_operations s). op_phase (do_stimulus derived) \<noteq> BeforeSend))
     then refuse ''missing_coverage''
     else if CallCancellation \<in> set (sc_coverage sc)
       \<and> (PhaseSent \<notin> set (cancelled_phases s) \<or> PhaseAccepted \<notin> set (cancelled_phases s))
     then refuse ''missing_coverage''
     else if length (ob_operations (sc_expected sc)) \<noteq> length (os_operations s) then refuse ''missing_trace''
     else bind_r (each_r (\<lambda>(observed, _, derived). operation_observed observed derived)
            (zip (ob_operations (sc_expected sc)) (os_operations s))) (\<lambda>_.
       if length (ob_streams (sc_expected sc)) \<noteq> length (derived_calls s) then refuse ''missing_trace''
       else if \<not> distinct (map cs_id (ob_streams (sc_expected sc))) then refuse ''duplicate''
       else each_r (\<lambda>(observed, entry). stream_observed observed entry)
            (zip (ob_streams (sc_expected sc)) (derived_calls s))))"

end
