(* ===== verification/Trace_Declarations.thy ===== *)
theory Trace_Declarations
  imports Trace_Values
begin

text \<open>
  \<open>assertDeclarationCausality\<close> of \<open>coordinator-contract/src/contract.ts\<close>: the declaration transactions of
  a session, their acknowledgements in barrier order, the promises they settle and what a probe sees,
  derived from the stimuli; and \<open>assertDeclarationOrder\<close>, which checks the traces alone.
\<close>

section \<open>Transactions\<close>

record pending_promise =
  pp_promise :: jstr
  pp_transaction :: int

record transaction_state =
  tx_number :: int
  tx_revisions :: declaration_revisions
  tx_next :: nat
  tx_handed_off :: bool
  tx_promises :: "pending_promise list"

record declaration_state =
  dn_declarations :: "declaration_trace list"
  dn_snapshots :: "declaration_snapshot list"
  dn_settlements :: "declaration_promise list"
  dn_visibility :: "visibility list"
  dn_generation :: "int option"
  dn_last :: int
  dn_desired :: declaration_revisions
  dn_active :: "declaration_revisions option"
  dn_failures :: nat
  dn_recovered :: bool
  dn_current :: "transaction_state option"
  dn_queued :: "transaction_state option"
  dn_reconnect :: "pending_promise list"
  dn_seen :: "jstr set"

definition initial_declarations :: declaration_state where
  "initial_declarations = \<lparr>dn_declarations = [], dn_snapshots = [], dn_settlements = [], dn_visibility = [],
     dn_generation = None, dn_last = 0, dn_desired = INITIAL_DECLARATION_REVISIONS, dn_active = None,
     dn_failures = 0, dn_recovered = False, dn_current = None, dn_queued = None, dn_reconnect = [],
     dn_seen = {}\<rparr>"

text \<open>\<open>settlePromises\<close>: the outcome is activated when there is no code.\<close>

definition settle_promises :: "pending_promise list \<Rightarrow> int \<Rightarrow> jstr option \<Rightarrow> declaration_state \<Rightarrow> declaration_state" where
  "settle_promises promises i code s =
     s\<lparr>dn_settlements := dn_settlements s @
         map (\<lambda>p. \<lparr>dp_promise = pp_promise p, dp_transaction = pp_transaction p, dp_index = i,
                    dp_activated = (code = None), dp_code = code\<rparr>) promises\<rparr>"

definition start_transaction :: "transaction_state \<Rightarrow> int \<Rightarrow> declaration_state \<Rightarrow> declaration_state traced" where
  "start_transaction tx i s =
     (case dn_generation s of
        None \<Rightarrow> refuse ''invalid_lifecycle''
      | Some generation \<Rightarrow>
          Inr (s\<lparr>dn_current := Some tx,
                 dn_snapshots := dn_snapshots s @
                   [\<lparr>ds_generation = generation, ds_transaction = tx_number tx, ds_index = i,
                     ds_revisions = tx_revisions tx\<rparr>]\<rparr>))"

definition promises_for :: "int \<Rightarrow> jstr list \<Rightarrow> declaration_state \<Rightarrow> (pending_promise list \<times> jstr set) traced" where
  "promises_for transaction ids s =
     bind_r (unique_from (Violation_code ''duplicate'') (dn_seen s) ids) (\<lambda>seen.
       Inr (map (\<lambda>i. \<lparr>pp_promise = i, pp_transaction = transaction\<rparr>) ids, seen))"

definition validate_revision_update ::
  "domain list \<Rightarrow> declaration_revisions \<Rightarrow> declaration_state \<Rightarrow> declaration_revisions traced" where
  "validate_revision_update changed revisions s =
     bind_r (each_r (\<lambda>d.
         if d \<in> set changed then
           (if revision_of revisions d = revision_of (dn_desired s) d then refuse ''invalid_trace'' else Inr ())
         else if revision_of revisions d \<noteq> revision_of (dn_desired s) d then refuse ''invalid_trace''
         else Inr ()) barrier_order) (\<lambda>_. Inr revisions)"

definition welcome_declarations :: "int \<Rightarrow> int \<Rightarrow> declaration_state \<Rightarrow> declaration_state traced" where
  "welcome_declarations i generation s =
     (if (case dn_generation s of None \<Rightarrow> False | Some previous \<Rightarrow> generation \<le> previous)
      then refuse ''invalid_order''
      else bind_r (start_transaction
             \<lparr>tx_number = 1, tx_revisions = dn_desired s, tx_next = 0, tx_handed_off = False,
              tx_promises = dn_reconnect s\<rparr> i
             (s\<lparr>dn_generation := Some generation, dn_last := 1, dn_queued := None\<rparr>))
        (\<lambda>s'. Inr (s'\<lparr>dn_reconnect := []\<rparr>)))"

definition update_declarations ::
  "int \<Rightarrow> int \<Rightarrow> jstr list \<Rightarrow> domain list \<Rightarrow> declaration_revisions \<Rightarrow> declaration_state \<Rightarrow> declaration_state traced" where
  "update_declarations i transaction ids changed revisions s =
     (if dn_generation s = None \<or> transaction \<le> dn_last s then refuse ''invalid_order''
      else bind_r (validate_revision_update changed revisions s) (\<lambda>desired.
        let s1 = s\<lparr>dn_desired := desired, dn_last := transaction\<rparr> in
        bind_r (promises_for transaction ids s1) (\<lambda>(promises, seen).
          let s2 = s1\<lparr>dn_seen := seen\<rparr>;
              tx = \<lparr>tx_number = transaction, tx_revisions = desired, tx_next = 0, tx_handed_off = False,
                    tx_promises = promises\<rparr>
          in case dn_current s2 of
               Some current \<Rightarrow>
                 (if tx_handed_off current then
                    Inr ((case dn_queued s2 of
                            None \<Rightarrow> s2
                          | Some waiting \<Rightarrow> settle_promises (tx_promises waiting) i (Some (js ''superseded'')) s2)
                         \<lparr>dn_queued := Some tx\<rparr>)
                  else start_transaction tx i
                         (settle_promises (tx_promises current) i (Some (js ''superseded'')) s2))
             | None \<Rightarrow> start_transaction tx i s2)))"

definition handoff_declarations :: "int \<Rightarrow> declaration_state \<Rightarrow> declaration_state traced" where
  "handoff_declarations transaction s =
     (case dn_current s of
        None \<Rightarrow> refuse ''invalid_order''
      | Some current \<Rightarrow>
          if tx_number current \<noteq> transaction \<or> tx_next current \<noteq> length barrier_order - 1 \<or> tx_handed_off current
          then refuse ''invalid_order''
          else Inr (s\<lparr>dn_current := Some (current\<lparr>tx_handed_off := True\<rparr>)\<rparr>))"

text \<open>The transaction an acknowledgement or an error of a slice is about, when it is its turn.\<close>

definition addressed :: "domain \<Rightarrow> int \<Rightarrow> declaration_state \<Rightarrow> transaction_state traced" where
  "addressed d transaction s =
     (case dn_current s of
        None \<Rightarrow> refuse ''invalid_order''
      | Some current \<Rightarrow>
          if transaction \<noteq> tx_number current
            \<or> \<not> (tx_next current < length barrier_order \<and> d = barrier_order ! tx_next current)
            \<or> (d = DFunctions \<and> \<not> tx_handed_off current)
          then refuse ''invalid_order'' else Inr current)"

definition acknowledge :: "int \<Rightarrow> domain \<Rightarrow> int \<Rightarrow> declaration_state \<Rightarrow> declaration_state traced" where
  "acknowledge i d transaction s =
     (case dn_generation s of
        None \<Rightarrow> refuse ''invalid_order''
      | Some generation \<Rightarrow>
          bind_r (addressed d transaction s) (\<lambda>current.
            let current' = current\<lparr>tx_next := tx_next current + 1\<rparr>;
                s1 = s\<lparr>dn_declarations := dn_declarations s @
                         [\<lparr>dt_domain = d, dt_generation = generation, dt_transaction = tx_number current\<rparr>],
                       dn_current := Some current'\<rparr>
            in if tx_next current' \<noteq> length barrier_order then Inr s1
               else
                 (let s2 = settle_promises (tx_promises current') i None
                             (s1\<lparr>dn_active := Some (tx_revisions current')\<rparr>);
                      s3 = (if dn_failures s2 > 0 then s2\<lparr>dn_recovered := True\<rparr> else s2)
                  in case dn_queued s3 of
                       Some waiting \<Rightarrow> start_transaction waiting i (s3\<lparr>dn_queued := None\<rparr>)
                     | None \<Rightarrow> Inr (s3\<lparr>dn_current := None\<rparr>))))"

definition reject_declarations :: "int \<Rightarrow> domain \<Rightarrow> int \<Rightarrow> jstr \<Rightarrow> declaration_state \<Rightarrow> declaration_state traced" where
  "reject_declarations i d transaction code s =
     bind_r (addressed d transaction s) (\<lambda>current.
       let s1 = settle_promises (tx_promises current) i (Some code) (s\<lparr>dn_failures := dn_failures s + 1\<rparr>);
           s2 = (case dn_queued s1 of
                   None \<Rightarrow> s1
                 | Some waiting \<Rightarrow> settle_promises (tx_promises waiting) i (Some code) s1);
           s3 = (case dn_active s2 of None \<Rightarrow> s2 | Some revisions \<Rightarrow> s2\<lparr>dn_desired := revisions\<rparr>)
       in Inr (s3\<lparr>dn_current := None, dn_queued := None\<rparr>))"

definition probed :: "declaration_state \<Rightarrow> visibility" where
  "probed s =
     (case dn_active s of
        None \<Rightarrow> VisNone
      | Some revisions \<Rightarrow> if revisions_equal revisions (dn_desired s) then VisDesired else VisPrevious)"

text \<open>The promises that wait for a connection, a transaction or a queued transaction.\<close>

definition waiting_promises :: "declaration_state \<Rightarrow> pending_promise list" where
  "waiting_promises s =
     dn_reconnect s
     @ (case dn_current s of None \<Rightarrow> [] | Some tx \<Rightarrow> tx_promises tx)
     @ (case dn_queued s of None \<Rightarrow> [] | Some tx \<Rightarrow> tx_promises tx)"

definition declaration_step :: "declaration_state \<Rightarrow> int \<times> stimulus \<Rightarrow> declaration_state traced" where
  "declaration_step s entry =
     (let i = fst entry in
      case snd entry of
        WelcomeStimulus _ generation \<Rightarrow> welcome_declarations i generation s
      | DeclarationUpdate transaction ids changed revisions \<Rightarrow>
          update_declarations i transaction ids changed revisions s
      | DeclarationHandoff transaction \<Rightarrow> handoff_declarations transaction s
      | DeclarationAck d transaction \<Rightarrow> acknowledge i d transaction s
      | DeclarationError d transaction code \<Rightarrow> reject_declarations i d transaction code s
      | DeclarationProbe \<Rightarrow> Inr (s\<lparr>dn_visibility := dn_visibility s @ [probed s]\<rparr>)
      | DisconnectStimulus _ \<Rightarrow>
          Inr (s\<lparr>dn_reconnect := waiting_promises s, dn_current := None, dn_queued := None\<rparr>)
      | StopStimulus _ \<Rightarrow>
          Inr ((settle_promises (waiting_promises s) i (Some (js ''cancelled'')) s)
                 \<lparr>dn_reconnect := [], dn_current := None, dn_queued := None\<rparr>)
      | _ \<Rightarrow> Inr s)"

definition declaration_run :: "(int \<times> stimulus) list \<Rightarrow> declaration_state traced" where
  "declaration_run entries = fold_r declaration_step initial_declarations entries"

definition assert_declaration_causality :: "(int \<times> stimulus) list \<Rightarrow> scenario \<Rightarrow> unit traced" where
  "assert_declaration_causality entries sc =
     bind_r (declaration_run entries) (\<lambda>s.
       if dn_current s \<noteq> None \<or> dn_queued s \<noteq> None then refuse ''missing_trace''
       else if dn_reconnect s \<noteq> [] then refuse ''missing_trace''
       else if dn_declarations s \<noteq> ob_declarations (sc_expected sc) then refuse ''missing_trace''
       else if dn_snapshots s \<noteq> ob_snapshots (sc_expected sc) then refuse ''invalid_trace''
       else if dn_visibility s \<noteq> ob_visibility (sc_expected sc) then refuse ''invalid_trace''
       else if dn_settlements s \<noteq> ob_promises (sc_expected sc) then refuse ''invalid_trace''
       else if DeclarationFailureRollback \<in> set (sc_coverage sc)
         \<and> (dn_failures s = 0 \<or> VisPrevious \<notin> set (dn_visibility s) \<or> \<not> dn_recovered s)
       then refuse ''missing_coverage''
       else Inr ())"

section \<open>The order of the declaration traces\<close>

text \<open>The domains declared in each transaction, a transaction being its generation and number.\<close>

record order_state =
  or_groups :: "((int \<times> int) \<times> domain list) list"
  or_generation :: int
  or_transaction :: int

definition order_step :: "order_state \<Rightarrow> declaration_trace \<Rightarrow> order_state traced" where
  "order_step s declaration =
     (if dt_generation declaration < or_generation s
         \<or> (dt_generation declaration = or_generation s \<and> dt_transaction declaration < or_transaction s)
      then refuse ''invalid_order''
      else
        (let key = (dt_generation declaration, dt_transaction declaration);
             domains = (case map_of (or_groups s) key of None \<Rightarrow> [] | Some ds \<Rightarrow> ds)
         in Inr (s\<lparr>or_generation := dt_generation declaration, or_transaction := dt_transaction declaration,
                   or_groups := AList.update key (domains @ [dt_domain declaration]) (or_groups s)\<rparr>)))"

definition assert_declaration_order :: "scenario \<Rightarrow> unit traced" where
  "assert_declaration_order sc =
     (let desired = sc_desired sc; canonical = filter (\<lambda>d. d \<in> set desired) barrier_order in
      if \<exists>i < length desired. i \<ge> length canonical \<or> desired ! i \<noteq> canonical ! i then refuse ''invalid_order''
      else if sc_mode sc = ModeSdk \<and> length desired \<noteq> length barrier_order then refuse ''missing_trace''
      else bind_r (fold_r order_step \<lparr>or_groups = [], or_generation = 0, or_transaction = 0\<rparr>
             (ob_declarations (sc_expected sc))) (\<lambda>s.
        bind_r (each_r (\<lambda>(_, domains).
            if length domains > length desired \<or> \<not> list_all2 (=) domains (take (length domains) desired)
            then refuse ''invalid_order'' else Inr ()) (or_groups s)) (\<lambda>_.
          if desired \<noteq> [] \<and> StReady \<in> set (ob_statuses (sc_expected sc)) \<and> or_groups s = []
          then refuse ''missing_trace'' else Inr ())))"

end
