(* ===== verification/Trace_Contract.thy ===== *)
theory Trace_Contract
  imports Trace_Validators Trace_Lifecycle Trace_Operations Trace_Declarations
begin

text \<open>
  The other causality checks of \<open>coordinator-contract/src/contract.ts\<close> (errors, presence, effects and
  publications, resources), their composition in \<open>assertCausalContract\<close>, and the exported functions:
  the validation of a corpus and the selection of the scenarios of a profile.
\<close>

section \<open>Errors\<close>

text \<open>\<open>operationStimuli\<close>: the last operation stimulus of each id, with its index.\<close>

fun operation_entries :: "(int \<times> stimulus) list \<Rightarrow> (jstr \<times> (operation_stimulus \<times> int)) list" where
  "operation_entries [] = []"
| "operation_entries ((i, OperationStimulus op) # rest) = operation_entries rest @ [(op_id op, (op, i))]"
| "operation_entries (_ # rest) = operation_entries rest"

fun operation_errors :: "(int \<times> stimulus) list \<Rightarrow> (jstr \<times> jstr \<times> int) list" where
  "operation_errors [] = []"
| "operation_errors ((i, OperationErrorStimulus operation code) # rest) = (operation, code, i) # operation_errors rest"
| "operation_errors (_ # rest) = operation_errors rest"

text \<open>The first stimulus after an operation that closes it.\<close>

definition closes :: "operation_stimulus \<Rightarrow> stimulus \<Rightarrow> bool" where
  "closes op candidate =
     (case candidate of
        DisconnectStimulus _ \<Rightarrow> True
      | StopStimulus _ \<Rightarrow> True
      | OperationTerminal operation _ \<Rightarrow> op_kind op = KCall \<and> operation = op_id op
      | CallResultStimulus operation _ \<Rightarrow> op_kind op = KCall \<and> operation = op_id op
      | _ \<Rightarrow> False)"

definition closing_index :: "operation_stimulus \<Rightarrow> int \<Rightarrow> (int \<times> stimulus) list \<Rightarrow> int option" where
  "closing_index op i entries =
     map_option fst (find (\<lambda>(j, candidate). j > i \<and> closes op candidate) entries)"

text \<open>Errors with a correlation: the trace, its kind and its operation id.\<close>

definition correlated_errors :: "error_trace list \<Rightarrow> (error_trace \<times> bool \<times> jstr) list" where
  "correlated_errors errors =
     List.map_filter (\<lambda>e. map_option (\<lambda>c. (e, c)) (er_correlation e)) errors"

definition error_correlated ::
  "(int \<times> stimulus) list \<Rightarrow> (error_trace \<times> bool \<times> jstr) list \<Rightarrow> jstr \<times> jstr \<times> int \<Rightarrow> unit traced" where
  "error_correlated entries correlated entry =
     (case entry of (operation, code, i) \<Rightarrow>
      (case map_of (operation_entries entries) operation of
         None \<Rightarrow> refuse ''invalid_reference''
       | Some (op, started) \<Rightarrow>
           if op_kind op = KStateSet then refuse ''invalid_reference''
           else if op_phase op = BeforeSend then refuse ''invalid_order''
           else if i \<le> started then refuse ''invalid_order''
           else if (case closing_index op started entries of None \<Rightarrow> False | Some closing \<Rightarrow> i \<ge> closing)
           then refuse ''invalid_order''
           else (case find (\<lambda>(_, _, local_id). local_id = operation) correlated of
               None \<Rightarrow> refuse ''invalid_trace''
             | Some (e, is_call, _) \<Rightarrow>
                 if er_code e \<noteq> code \<or> er_index e \<noteq> i \<or> is_call \<noteq> (op_kind op = KCall)
                 then refuse ''invalid_trace'' else Inr ())))"

fun uncorrelated_from :: "bool \<Rightarrow> (int \<times> stimulus) list \<Rightarrow> (jstr \<times> int) list" where
  "uncorrelated_from started [] = []"
| "uncorrelated_from started ((i, stimulus) # rest) =
     (case stimulus of
        StartStimulus _ \<Rightarrow>
          (if started then (js ''invalid_lifecycle'', i) # uncorrelated_from True rest
           else uncorrelated_from True rest)
      | DeclarationError _ _ code \<Rightarrow> (code, i) # uncorrelated_from started rest
      | EffectStimulus effect \<Rightarrow>
          (if effect = Unclassified then (js ''unclassified_effect'', i) # uncorrelated_from started rest
           else uncorrelated_from started rest)
      | _ \<Rightarrow> uncorrelated_from started rest)"

definition uncorrelated_errors :: "error_trace list \<Rightarrow> (jstr \<times> int) list" where
  "uncorrelated_errors errors =
     map (\<lambda>e. (er_code e, er_index e)) (filter (\<lambda>e. er_correlation e = None) errors)"

definition error_order_step :: "nat \<Rightarrow> int \<Rightarrow> error_trace \<Rightarrow> int traced" where
  "error_order_step len previous e =
     (if er_index e < previous \<or> er_index e \<ge> int len then refuse ''invalid_order'' else Inr (er_index e))"

definition assert_error_causality :: "scenario \<Rightarrow> unit traced" where
  "assert_error_causality sc =
     (let entries = indexed (sc_stimuli sc); errors = ob_errors (sc_expected sc);
          operation_errs = operation_errors entries; correlated = correlated_errors errors in
      if length operation_errs \<noteq> length correlated then refuse ''missing_trace''
      else if \<not> distinct (map (\<lambda>(_, _, local_id). local_id) correlated) then refuse ''duplicate''
      else bind_r (each_r (error_correlated entries correlated) operation_errs) (\<lambda>_.
        if uncorrelated_errors errors \<noteq> uncorrelated_from False entries then refuse ''invalid_trace''
        else bind_r (fold_r (error_order_step (length (sc_stimuli sc))) (- 1) errors) (\<lambda>_. Inr ())))"

section \<open>Presence\<close>

definition presence_sorted :: "presence_trace list \<Rightarrow> unit traced" where
  "presence_sorted entries =
     bind_r (fold_r (\<lambda>previous entry.
         if pr_session entry \<le> previous then refuse ''invalid_order'' else Inr (pr_session entry)) 0 entries)
       (\<lambda>_. Inr ())"

definition presence_step ::
  "presence_trace list list \<times> bool \<Rightarrow> stimulus \<Rightarrow> (presence_trace list list \<times> bool) traced" where
  "presence_step s stimulus =
     (case s of (snapshots, present) \<Rightarrow>
      (case stimulus of
         PresenceStimulus entries \<Rightarrow>
           bind_r (presence_sorted entries) (\<lambda>_. Inr (snapshots @ [entries], entries \<noteq> []))
       | DisconnectStimulus _ \<Rightarrow> Inr (if present then (snapshots @ [[]], False) else s)
       | StopStimulus _ \<Rightarrow> Inr (if present then (snapshots @ [[]], False) else s)
       | _ \<Rightarrow> Inr s))"

definition assert_presence_causality :: "scenario \<Rightarrow> unit traced" where
  "assert_presence_causality sc =
     bind_r (fold_r presence_step ([], False) (sc_stimuli sc)) (\<lambda>(snapshots, _).
       if snapshots \<noteq> ob_presence (sc_expected sc) then refuse ''invalid_trace'' else Inr ())"

section \<open>Effects and publications\<close>

fun is_publication :: "stimulus \<Rightarrow> bool" where
  "is_publication (StatePublish _) = True"
| "is_publication _ = False"

fun effect_of :: "stimulus \<Rightarrow> effect_kind option" where
  "effect_of (EffectStimulus effect) = Some effect"
| "effect_of _ = None"

definition expected_destination :: "contract_mode \<Rightarrow> effect_kind \<Rightarrow> effect_destination" where
  "expected_destination mode effect =
     (if effect = Unclassified then ToRejected else if mode = ModeSdk then ToLive else ToRecorder)"

definition assert_effect_causality :: "scenario \<Rightarrow> unit traced" where
  "assert_effect_causality sc =
     (let effects = List.map_filter effect_of (sc_stimuli sc); observed = ob_effects (sc_expected sc) in
      if ob_publications (sc_expected sc) \<noteq> int (length (filter is_publication (sc_stimuli sc)))
      then refuse ''missing_trace''
      else if map et_effect observed \<noteq> effects then refuse ''missing_trace''
      else each_r (\<lambda>(effect, trace).
          if et_destination trace \<noteq> expected_destination (sc_mode sc) effect then refuse ''invalid_trace''
          else Inr ()) (zip effects observed))"

section \<open>Resources\<close>

fun is_welcome :: "stimulus \<Rightarrow> bool" where
  "is_welcome (WelcomeStimulus _ _) = True"
| "is_welcome _ = False"

definition holds_resources :: "resource_trace \<Rightarrow> bool" where
  "holds_resources r \<longleftrightarrow>
     rs_sockets r \<noteq> 0 \<or> rs_timers r \<noteq> Some 0 \<or> rs_listeners r \<noteq> Some 0 \<or> rs_iterators r \<noteq> Some 0"

definition assert_resource_causality :: "scenario \<Rightarrow> unit traced" where
  "assert_resource_causality sc =
     (let r = ob_resources (sc_expected sc) in
      if rs_sockets r > 1 \<or> rs_high_water r > 1 then refuse ''resource_limit''
      else if rs_sockets r > rs_high_water r then refuse ''invalid_trace''
      else if (\<exists>s\<in>set (sc_stimuli sc). is_welcome s) \<and> rs_high_water r \<noteq> 1 then refuse ''missing_trace''
      else if sc_mode sc = ModeSdk \<and> \<not> (\<exists>s\<in>set (sc_stimuli sc). is_start s)
        \<and> (rs_sockets r \<noteq> 0 \<or> rs_high_water r \<noteq> 0)
      then refuse ''resource_leak''
      else if InertConstruction \<in> set (sc_coverage sc)
        \<and> (holds_resources r \<or> rs_high_water r \<noteq> 0 \<or> ob_reasons (sc_expected sc) \<noteq> [])
      then refuse ''resource_leak''
      else if StStopped \<in> set (ob_statuses (sc_expected sc)) \<and> holds_resources r then refuse ''resource_leak''
      else Inr ())"

section \<open>Scenarios and corpora\<close>

definition assert_causal_contract :: "scenario \<Rightarrow> unit traced" where
  "assert_causal_contract sc =
     bind_r (assert_lifecycle_causality sc) (\<lambda>_.
     bind_r (assert_operation_causality sc) (\<lambda>_.
     bind_r (assert_error_causality sc) (\<lambda>_.
     bind_r (assert_presence_causality sc) (\<lambda>_.
     bind_r (assert_effect_causality sc) (\<lambda>_.
     bind_r (assert_declaration_causality (indexed (sc_stimuli sc)) sc) (\<lambda>_.
       assert_resource_causality sc))))))"

definition assert_shadow_safety :: "scenario \<Rightarrow> unit traced" where
  "assert_shadow_safety sc =
     (let effects = ob_effects (sc_expected sc) in
      if sc_mode sc \<noteq> ModeSdk \<and> (\<exists>e\<in>set effects. et_destination e = ToLive) then refuse ''unsafe_shadow''
      else if sc_mode sc = ModeObserve \<and> rs_sockets (ob_resources (sc_expected sc)) \<noteq> 0
      then refuse ''unsafe_shadow''
      else each_r (\<lambda>e.
          if et_effect e = Unclassified \<and> et_destination e \<noteq> ToRejected then refuse ''unsafe_shadow''
          else Inr ()) effects)"

definition read_scenario :: "jsval \<Rightarrow> scenario traced" where
  "read_scenario value =
     bind_r (trace_object value [''id'', ''description'', ''coverage'', ''setup'', ''stimuli'', ''expected''] []) (\<lambda>root.
     bind_r (trace_object (get root ''setup'') [''mode'', ''desired_declarations''] []) (\<lambda>setup.
     bind_r (contract_id (get root ''id'')) (\<lambda>ident.
     bind_r (trace_string (get root ''description'')) (\<lambda>description.
     bind_r (unique_strings (get root ''coverage'') CONTRACT_COVERAGE) (\<lambda>coverage.
     bind_r (trace_enum (get setup ''mode'') CONTRACT_MODES) (\<lambda>mode.
     bind_r (unique_strings (get setup ''desired_declarations'') DECLARATION_ORDER) (\<lambda>desired.
     bind_r (bind_r (trace_array (get root ''stimuli'') (max_stimuli CONTRACT_LIMITS)) (map_r validate_stimulus)) (\<lambda>stimuli.
     bind_r (validate_observation (get root ''expected'')) (\<lambda>expected.
       Inr \<lparr>sc_id = ident, sc_description = description, sc_coverage = coverage, sc_mode = mode,
            sc_desired = desired, sc_stimuli = stimuli, sc_expected = expected\<rparr>)))))))))"

definition validate_scenario :: "jsval \<Rightarrow> scenario traced" where
  "validate_scenario value =
     bind_r (read_scenario value) (\<lambda>sc.
     bind_r (assert_causal_contract sc) (\<lambda>_.
     bind_r (assert_shadow_safety sc) (\<lambda>_.
     bind_r (assert_declaration_order sc) (\<lambda>_. Inr sc))))"

definition covers :: "coverage list \<Rightarrow> scenario list \<Rightarrow> unit traced" where
  "covers required scenarios =
     each_r (\<lambda>c. if c \<notin> set (concat (map sc_coverage scenarios)) then refuse ''missing_coverage'' else Inr ())
       required"

definition validate_corpus :: "jsval \<Rightarrow> corpus traced" where
  "validate_corpus value =
     bind_r (assert_aggregate_budget value (corpus_values CONTRACT_LIMITS) (corpus_string_bytes CONTRACT_LIMITS)) (\<lambda>_.
     bind_r (trace_object value [''schema'', ''fixture_version'', ''required_coverage'', ''scenarios''] []) (\<lambda>root.
     if \<not> strict_eq_str (get root ''schema'') (js ''miakapp.coordinator-contract/1'') then refuse ''invalid_schema''
     else if \<not> strict_eq_int (get root ''fixture_version'') 1 then refuse ''invalid_schema''
     else bind_r (unique_strings (get root ''required_coverage'') CONTRACT_COVERAGE) (\<lambda>required.
       bind_r (bind_r (trace_array (get root ''scenarios'') (max_scenarios CONTRACT_LIMITS)) (map_r validate_scenario)) (\<lambda>scenarios.
       if \<not> distinct (map sc_id scenarios) then refuse ''duplicate''
       else bind_r (covers required scenarios) (\<lambda>_.
         Inr \<lparr>co_required = required, co_scenarios = scenarios\<rparr>)))))"

definition select_scenarios :: "corpus \<Rightarrow> contract_profile \<Rightarrow> scenario list traced" where
  "select_scenarios corpus profile =
     (let scenarios = (case profile of
            ProfileAll \<Rightarrow> co_scenarios corpus
          | ProfileSdk \<Rightarrow> filter (\<lambda>sc. sc_mode sc = ModeSdk) (co_scenarios corpus)
          | ProfileMigration \<Rightarrow> filter (\<lambda>sc. sc_mode sc \<noteq> ModeSdk) (co_scenarios corpus));
          required = (case profile of
            ProfileAll \<Rightarrow> co_required corpus
          | ProfileSdk \<Rightarrow> map snd SDK_CONTRACT_COVERAGE
          | ProfileMigration \<Rightarrow> map snd MIGRATION_CONTRACT_COVERAGE)
      in bind_r (covers required scenarios) (\<lambda>_. Inr scenarios))"

end
