(* ===== verification/Trace_Session.thy ===== *)
theory Trace_Session
  imports Trace_Contract
begin

text \<open>
  \<open>contract.ts\<close> follows the declaration transactions of a session three times, with three sets of
  variables: for the lifecycle, for the operations and for the declarations. The simulation between the
  three loops, and what it gives: operations are only dispatched under a ready session.
\<close>

section \<open>Operations leave the session alone\<close>

definition same_session :: "operation_state \<Rightarrow> operation_state \<Rightarrow> bool" where
  "same_session s t \<longleftrightarrow> os_ready t = os_ready s \<and> os_configured t = os_configured s
     \<and> os_can_restore t = os_can_restore s \<and> os_started t = os_started s \<and> os_transaction t = os_transaction s \<and> os_queued t = os_queued s"

lemma same_session_refl [simp]: "same_session s s"
  by (simp add: same_session_def)

lemma same_session_trans: "same_session s t \<Longrightarrow> same_session t u \<Longrightarrow> same_session s u"
  by (simp add: same_session_def)

lemma finalize_session: "finalize operation result terminal s = Inr t \<Longrightarrow> same_session s t"
  by (auto simp: finalize_def same_session_def Let_def split: option.splits if_splits)

lemma close_operations_session: "close_operations s = Inr t \<Longrightarrow> same_session s t"
  unfolding close_operations_def
  by (erule fold_r_invariant)
    (auto simp: close_operation_def intro: same_session_trans finalize_session split: option.splits if_splits)

lemma start_operation_session: "start_operation mode op s = Inr t \<Longrightarrow> same_session s t"
  by (auto simp: start_operation_def Let_def same_session_def dest!: finalize_session split: if_splits)

lemma call_steps_session:
  "call_progress_step operation v s = Inr t \<Longrightarrow> same_session s t"
  "call_result_step operation v s = Inr t \<Longrightarrow> same_session s t"
  "call_cancel_step operation s = Inr t \<Longrightarrow> same_session s t"
  "operation_error_step operation code s = Inr t \<Longrightarrow> same_session s t"
  by (auto simp: call_progress_step_def call_result_step_def call_cancel_step_def operation_error_step_def
      same_session_def dest!: finalize_session split: option.splits if_splits)

lemma terminal_step_session: "terminal_step operation result s = Inr t \<Longrightarrow> same_session s t"
  by (auto simp: terminal_step_def call_terminal_step_def Let_def bind_r_Inr_iff same_session_def
      dest!: finalize_session split: option.splits if_splits)

lemma operation_step_session:
  "operation_step ModeSdk s stimulus = Inr t \<Longrightarrow> same_session (session_step stimulus s) t"
  by (cases stimulus)
    (auto simp: operation_step_def Let_def intro: close_operations_session start_operation_session
      call_steps_session terminal_step_session)

section \<open>The three loops agree\<close>

text \<open>What the lifecycle knows of the transaction the declarations are in.\<close>

definition known_transaction :: "declaration_state \<Rightarrow> (int \<times> bool) option" where
  "known_transaction d = map_option (\<lambda>tx. (tx_number tx, tx_handed_off tx)) (dn_current d)"

definition live :: "lifecycle_state \<Rightarrow> bool" where
  "live l \<longleftrightarrow> ls_started l \<and> \<not> ls_stopped l"

definition agree :: "lifecycle_state \<Rightarrow> operation_state \<Rightarrow> declaration_state \<Rightarrow> bool" where
  "agree l s d \<longleftrightarrow>
     ls_transaction l = known_transaction d \<and> ls_queued l = map_option tx_number (dn_queued d)
     \<and> os_transaction s = ls_transaction l \<and> os_queued s = ls_queued l
     \<and> os_ready s = ls_activated l \<and> os_can_restore s = ls_can_restore l
     \<and> (ls_started l \<longrightarrow> os_started s) \<and> (ls_can_restore l \<longrightarrow> os_configured s)
     \<and> (ls_activated l \<longrightarrow> os_configured s \<and> dn_current d = None)
     \<and> (ls_activated l \<longrightarrow> ls_statuses l \<noteq> [] \<and> last (ls_statuses l) = StReady)
     \<and> (\<not> live l \<longrightarrow> \<not> ls_activated l \<and> \<not> ls_can_restore l \<and> dn_current d = None \<and> dn_queued d = None)
     \<and> (dn_current d = None \<longrightarrow> dn_queued d = None)
     \<and> (\<forall>tx. dn_queued d = Some tx \<longrightarrow> \<not> tx_handed_off tx)"

lemma agree_initial: "agree initial_lifecycle initial_operations initial_declarations"
  by (simp add: agree_def known_transaction_def initial_lifecycle_def initial_operations_def
      initial_declarations_def)

lemma agree_session: "same_session s t \<Longrightarrow> agree l s d \<Longrightarrow> agree l t d"
  by (simp add: agree_def same_session_def)

lemma settle_start_simps:
  assumes "settle_start i code l = Inr l'"
  shows "ls_transaction l' = ls_transaction l" "ls_queued l' = ls_queued l" "ls_activated l' = ls_activated l"
    "ls_can_restore l' = ls_can_restore l" "ls_statuses l' = ls_statuses l" "ls_started l' = ls_started l"
    "ls_stopped l' = ls_stopped l"
  using assms by (auto simp: settle_start_def bind_r_Inr_iff split: option.splits)

lemma settle_promises_simps [simp]:
  "dn_current (settle_promises ps i code d) = dn_current d" "dn_queued (settle_promises ps i code d) = dn_queued d"
  "dn_generation (settle_promises ps i code d) = dn_generation d" "dn_active (settle_promises ps i code d) = dn_active d"
  "dn_failures (settle_promises ps i code d) = dn_failures d"
  "dn_reconnect (settle_promises ps i code d) = dn_reconnect d"
  by (simp_all add: settle_promises_def)

lemma record_status_simps [simp]:
  "ls_transaction (record_status i st l) = ls_transaction l" "ls_queued (record_status i st l) = ls_queued l"
  "ls_activated (record_status i st l) = ls_activated l" "ls_can_restore (record_status i st l) = ls_can_restore l"
  "ls_statuses (record_status i st l) = ls_statuses l @ st" "ls_started (record_status i st l) = ls_started l"
  "ls_stopped (record_status i st l) = ls_stopped l" "ls_pending (record_status i st l) = ls_pending l"
  "ls_session (record_status i st l) = ls_session l" "ls_promises (record_status i st l) = ls_promises l"
  by (simp_all add: record_status_def)

lemma start_transaction_Inr:
  "start_transaction tx i d = Inr d' \<longleftrightarrow>
     (\<exists>generation. dn_generation d = Some generation
        \<and> d' = d\<lparr>dn_current := Some tx, dn_snapshots := dn_snapshots d @
             [\<lparr>ds_generation = generation, ds_transaction = tx_number tx, ds_index = i,
               ds_revisions = tx_revisions tx\<rparr>]\<rparr>)"
  by (auto simp: start_transaction_def split: option.splits)

lemma addressed_Inr: "addressed d0 transaction d = Inr tx \<Longrightarrow> dn_current d = Some tx"
  by (auto simp: addressed_def split: option.splits if_splits)

lemma agree_start:
  assumes agree: "agree l s d" and step: "start_step i p l = Inr l'"
  shows "agree l' (session_step (StartStimulus p) s) d"
proof (cases "\<not> ls_started l \<and> \<not> ls_stopped l")
  case True
  then have "\<not> live l" by (simp add: live_def)
  with True agree step show ?thesis
    by (auto simp: agree_def start_step_def session_step_def Let_def if_Inl_eq_Inr)
next
  case False
  then obtain ps seen where "l' = l\<lparr>ls_seen := seen, ls_promises := ps\<rparr>"
    using step by (auto simp: start_step_def Let_def split: if_splits)
  then show ?thesis
    using agree by (cases "os_started s") (simp_all add: agree_def live_def session_step_def)
qed

lemma agree_welcome:
  assumes "agree l s d" "welcome_step i n g l = Inr l'" "welcome_declarations i g d = Inr d'"
  shows "agree l' (session_step (WelcomeStimulus n g) s) d'"
proof -
  have "live l" using assms(2) by (simp add: live_def welcome_step_def if_Inl_eq_Inr)
  moreover obtain sts where "ls_statuses l' = sts" "ls_transaction l' = Some (1, False)" "ls_queued l' = None"
    "\<not> ls_activated l'" "\<not> ls_can_restore l'" "ls_started l'" "live l'"
    using assms(2) by (auto simp: live_def welcome_step_def Let_def if_Inl_eq_Inr record_status_def)
  moreover obtain tx where "dn_current d' = Some tx" "tx_number tx = 1" "\<not> tx_handed_off tx" "dn_queued d' = None"
    using assms(3)
    by (auto simp: welcome_declarations_def if_Inl_eq_Inr bind_r_Inr_iff start_transaction_Inr)
  ultimately show ?thesis
    using assms(1) by (simp add: agree_def session_step_def known_transaction_def live_def)
qed

lemma agree_handoff:
  assumes "agree l s d" "handoff_step n l = Inr l'" "handoff_declarations n d = Inr d'"
  shows "agree l' (session_step (DeclarationHandoff n) s) d'"
  using assms
  by (auto simp: agree_def handoff_step_def handoff_declarations_def session_step_def live_def
      known_transaction_def split: if_splits option.splits)

lemma agree_disconnect:
  assumes "agree l s d"
  shows "agree (disconnect_step i l) (session_step (DisconnectStimulus ph) s)
    (d\<lparr>dn_reconnect := ps, dn_current := None, dn_queued := None\<rparr>)"
  using assms
  by (auto simp: agree_def disconnect_step_def session_step_def known_transaction_def live_def)

lemma agree_update:
  assumes agree: "agree l s d" and step: "update_step i n l = Inr l'"
    and declared: "update_declarations i n ids changed revisions d = Inr d'"
  shows "agree l' (session_step (DeclarationUpdate n ids changed revisions) s) d'"
proof -
  have live: "live l" using step by (simp add: live_def update_step_def if_Inl_eq_Inr)
  have l': "ls_started l' = ls_started l" "ls_stopped l' = ls_stopped l" "\<not> ls_activated l'"
    "ls_can_restore l' \<longleftrightarrow> ls_can_restore l \<or> ls_activated l"
    "(ls_transaction l', ls_queued l') =
       (case ls_transaction l of Some (t, True) \<Rightarrow> (ls_transaction l, Some n) | _ \<Rightarrow> (Some (n, False), ls_queued l))"
    using step by (auto simp: update_step_def Let_def if_Inl_eq_Inr split: option.splits bool.splits if_splits)
  show ?thesis
  proof (cases "dn_current d")
    case None
    with declared obtain tx where "dn_current d' = Some tx" "tx_number tx = n" "\<not> tx_handed_off tx" "dn_queued d' = dn_queued d"
      by (auto simp: update_declarations_def if_Inl_eq_Inr Let_def bind_r_Inr_iff start_transaction_Inr)
    with None live l' agree show ?thesis
      by (auto simp: agree_def session_step_def known_transaction_def live_def Let_def)
  next
    case (Some current)
    show ?thesis
    proof (cases "tx_handed_off current")
      case True
      with Some declared obtain tx where "dn_current d' = Some current" "dn_queued d' = Some tx" "tx_number tx = n"
        "\<not> tx_handed_off tx"
        by (auto simp: update_declarations_def if_Inl_eq_Inr Let_def bind_r_Inr_iff split: option.splits)
      with Some True live l' agree show ?thesis
        by (auto simp: agree_def session_step_def known_transaction_def live_def Let_def)
    next
      case False
      with Some declared obtain tx where "dn_current d' = Some tx" "tx_number tx = n" "\<not> tx_handed_off tx"
        "dn_queued d' = dn_queued d"
        by (auto simp: update_declarations_def if_Inl_eq_Inr Let_def bind_r_Inr_iff start_transaction_Inr)
      with Some False live l' agree show ?thesis
        by (auto simp: agree_def session_step_def known_transaction_def live_def Let_def)
    qed
  qed
qed

lemma acknowledge_other:
  assumes "acknowledge i d0 n d = Inr d'" "d0 \<noteq> DFunctions"
  shows "known_transaction d' = known_transaction d" "dn_current d' = None \<longleftrightarrow> dn_current d = None"
    "dn_queued d' = dn_queued d"
proof -
  obtain current where current: "dn_current d = Some current" "tx_next current < length barrier_order"
    "d0 = barrier_order ! tx_next current"
    using assms(1) by (auto simp: acknowledge_def bind_r_Inr_iff addressed_def if_Inl_eq_Inr split: option.splits)
  then have "Suc (tx_next current) \<noteq> length barrier_order"
    using assms(2) by (auto simp: barrier_order_def DECLARATION_ORDER_def)
  then obtain ds where "d' = d\<lparr>dn_declarations := ds, dn_current := Some (current\<lparr>tx_next := tx_next current + 1\<rparr>)\<rparr>"
    using assms(1) current
    by (auto simp: acknowledge_def bind_r_Inr_iff addressed_def if_Inl_eq_Inr Let_def split: option.splits if_splits)
  with current show "known_transaction d' = known_transaction d" "dn_current d' = None \<longleftrightarrow> dn_current d = None"
    "dn_queued d' = dn_queued d"
    by (simp_all add: known_transaction_def)
qed

lemma agree_other_ack:
  assumes "agree l s d" "acknowledge i d0 n d = Inr d'" "d0 \<noteq> DFunctions"
  shows "agree l (session_step (DeclarationAck d0 n) s) d'"
  using assms(1) acknowledge_other [OF assms(2,3)] assms(3) by (simp add: agree_def session_step_def)

lemma agree_error:
  assumes "agree l s d" "reject_declarations i d0 n code d = Inr d'"
  shows "agree (declaration_error_step i l) (session_step (DeclarationError d0 n code) s) d'"
proof -
  have "dn_current d' = None" "dn_queued d' = None" "dn_current d \<noteq> None"
    using assms(2) by (auto simp: reject_declarations_def bind_r_Inr_iff Let_def addressed_def split: option.splits if_splits)
  with assms(1) show ?thesis
    by (cases "ls_can_restore l")
      (auto simp: agree_def declaration_error_step_def session_step_def known_transaction_def live_def Let_def)
qed

lemma acknowledge_last:
  assumes "acknowledge i DFunctions n d = Inr d'"
  shows "dn_current d \<noteq> None" "dn_current d' = dn_queued d" "dn_queued d' = None"
proof -
  obtain current where current: "dn_current d = Some current" "tx_next current < length barrier_order"
    "DFunctions = barrier_order ! tx_next current"
    using assms by (auto simp: acknowledge_def bind_r_Inr_iff addressed_def if_Inl_eq_Inr split: option.splits)
  then have "tx_next current = 4"
    by (auto simp: barrier_order_def DECLARATION_ORDER_def less_Suc_eq numeral_eq_Suc)
  then have last: "Suc (tx_next current) = length barrier_order"
    by (simp add: barrier_order_def DECLARATION_ORDER_def)
  show "dn_current d \<noteq> None" using current by simp
  show "dn_current d' = dn_queued d" "dn_queued d' = None"
    using assms current last
    by (auto simp: acknowledge_def bind_r_Inr_iff addressed_def if_Inl_eq_Inr Let_def start_transaction_Inr
        split: option.splits if_splits)
qed

lemma agree_acknowledge:
  assumes agree: "agree l s d" and step: "functions_ack_step i l = Inr l'" and "acknowledge i DFunctions n d = Inr d'"
  shows "agree l' (session_step (DeclarationAck DFunctions n) s) d'"
proof -
  note dn = acknowledge_last [OF assms(3)]
  have live: "live l" using agree dn(1) by (auto simp: agree_def)
  show ?thesis
  proof (cases "dn_queued d")
    case (Some tx)
    moreover have "\<not> ls_activated l" using agree dn(1) by (auto simp: agree_def)
    ultimately show ?thesis
      using agree live dn step
      by (simp add: agree_def functions_ack_step_def session_step_def known_transaction_def live_def)
        (auto simp: agree_def session_step_def known_transaction_def live_def)
  next
    case None
    then have "ls_queued l = None" using agree by (simp add: agree_def)
    then obtain l0 where "settle_start i None l0 = Inr l'" and l0: "l0 = record_status i [StReady]
        (l\<lparr>ls_transaction := None, ls_activated := True, ls_can_restore := False\<rparr>)"
      using step by (simp add: functions_ack_step_def)
    note l' = settle_start_simps [OF this(1), unfolded l0, simplified]
    show ?thesis
      using agree live None dn l' \<open>ls_queued l = None\<close>
      by (simp add: agree_def session_step_def known_transaction_def live_def)
  qed
qed

definition same_life :: "lifecycle_state \<Rightarrow> lifecycle_state \<Rightarrow> bool" where
  "same_life l l' \<longleftrightarrow> ls_started l' = ls_started l \<and> ls_stopped l' = ls_stopped l
     \<and> ls_activated l' = ls_activated l \<and> ls_can_restore l' = ls_can_restore l
     \<and> ls_transaction l' = ls_transaction l \<and> ls_queued l' = ls_queued l
     \<and> ls_statuses l' = ls_statuses l \<and> ls_checkpoints l' = ls_checkpoints l"

lemma stop_step_simps:
  assumes "stop_step i p l = Inr l'"
  obtains l1 where "same_life l1 l'"
    "if live l then settle_start i (Some (js ''cancelled''))
        ((record_status i [StStopping, StStopped] l)
           \<lparr>ls_stopped := True, ls_reconnecting := False, ls_activated := False,
            ls_can_restore := False, ls_transaction := None, ls_queued := None\<rparr>) = Inr l1 else l1 = l"
proof -
  obtain l1 l2 k where first: "(if live l then settle_start i (Some (js ''cancelled''))
        ((record_status i [StStopping, StStopped] l)
           \<lparr>ls_stopped := True, ls_reconnecting := False, ls_activated := False,
            ls_can_restore := False, ls_transaction := None, ls_queued := None\<rparr>) else Inr l) = Inr l1"
    and shared: "(case ls_stop l1 of
               None \<Rightarrow>
                 (if p \<in> ls_seen l1 then refuse ''duplicate''
                  else Inr (l1\<lparr>ls_seen := insert p (ls_seen l1), ls_stop := Some (p, i)\<rparr>, i))
             | Some (shared, settlement) \<Rightarrow>
                 (if p \<noteq> shared then refuse ''invalid_trace'' else Inr (l1, settlement))) = Inr (l2, k)"
    and last: "same_life l2 l'"
    using assms unfolding stop_step_def live_def [symmetric]
    by (auto simp: bind_r_Inr_iff same_life_def)
  have "same_life l1 l2" using shared by (auto simp: same_life_def split: option.splits if_splits)
  with last have "same_life l1 l'" by (simp add: same_life_def)
  with first show ?thesis by (intro that) (auto split: if_splits)
qed

lemma agree_stop:
  assumes agree: "agree l s d" and step: "stop_step i p l = Inr l'"
  shows "agree l' (session_step (StopStimulus p) s)
    ((settle_promises ps i code d)\<lparr>dn_reconnect := [], dn_current := None, dn_queued := None\<rparr>)"
proof -
  obtain l1 where l1: "same_life l1 l'" and settled: "if live l then settle_start i (Some (js ''cancelled''))
        ((record_status i [StStopping, StStopped] l)
           \<lparr>ls_stopped := True, ls_reconnecting := False, ls_activated := False,
            ls_can_restore := False, ls_transaction := None, ls_queued := None\<rparr>) = Inr l1 else l1 = l"
    using step by (rule stop_step_simps)
  show ?thesis
  proof (cases "live l")
    case True
    note settle_start_simps [OF settled [unfolded if_P [OF True]]]
    with True l1 agree show ?thesis
      by (simp add: agree_def session_step_def known_transaction_def live_def same_life_def)
  next
    case False
    with settled l1 agree show ?thesis
      by (simp add: agree_def session_step_def known_transaction_def live_def same_life_def)
  qed
qed

text \<open>Stimuli that are none of the session's business.\<close>

lemma session_step_other [simp]:
  "session_step ConstructStimulus s = s" "session_step DeclarationProbe s = s"
  "session_step (OperationStimulus op) s = s" "session_step (CallProgress operation v) s = s"
  "session_step (CallResultStimulus operation v) s = s" "session_step (CallCancelStimulus operation) s = s"
  "session_step (OperationTerminal operation result) s = s" "session_step (OperationErrorStimulus operation code) s = s"
  "session_step (PresenceStimulus entries) s = s" "session_step (StatePublish names) s = s"
  "session_step (EffectStimulus effect) s = s"
  by (simp_all add: session_step_def)

lemmas session_lemmas = agree_start agree_welcome agree_update agree_handoff agree_error agree_disconnect
  agree_stop agree_acknowledge agree_other_ack

text \<open>The step of the session whose turn it is; a construction is the whole of its scenario.\<close>

lemma agree_step:
  assumes agree: "agree l s d" and lifecycle: "lifecycle_step len l (i, x) = Inr l'"
    and operation: "operation_step ModeSdk s x = Inr s'" and declared: "declaration_step d (i, x) = Inr d'"
    and construct: "len = 1 \<Longrightarrow> l = initial_lifecycle"
  shows "agree l' s' d'"
proof (rule agree_session [OF operation_step_session [OF operation]])
  show "agree l' (session_step x s) d'"
  proof (cases x)
    case ConstructStimulus
    with lifecycle construct have "l' = record_status i [StIdle] initial_lifecycle" "l = initial_lifecycle"
      by (auto simp: lifecycle_step_def split: if_splits)
    with ConstructStimulus agree declared show ?thesis
      by (simp add: agree_def declaration_step_def live_def initial_lifecycle_def)
  next
    case (DeclarationAck d0 n)
    with lifecycle declared agree show ?thesis
      by (cases "d0 = DFunctions")
        (simp_all add: lifecycle_step_def declaration_step_def session_lemmas)
  next
    case DeclarationProbe
    with lifecycle declared agree show ?thesis
      by (auto simp: agree_def lifecycle_step_def declaration_step_def known_transaction_def)
  qed (use lifecycle declared agree in
      \<open>auto simp: lifecycle_step_def declaration_step_def intro: session_lemmas\<close>)
qed

section \<open>Runs\<close>

lemma indexed_snoc [simp]: "indexed (xs @ [x]) = indexed xs @ [(int (length xs), x)]"
  by (simp add: indexed_def)

lemma indexed_Nil [simp]: "indexed [] = []"
  by (simp add: indexed_def)

lemma runs_agree:
  assumes "fold_r (lifecycle_step len) initial_lifecycle (indexed xs) = Inr l" "operation_run ModeSdk xs = Inr s"
    "declaration_run (indexed xs) = Inr d" "length xs \<le> len"
  shows "agree l s d"
  using assms
proof (induction xs arbitrary: l s d rule: rev_induct)
  case Nil
  then show ?case by (simp add: operation_run_def declaration_run_def agree_initial)
next
  case (snoc x xs)
  then obtain l0 s0 d0 where
    before: "fold_r (lifecycle_step len) initial_lifecycle (indexed xs) = Inr l0" "operation_run ModeSdk xs = Inr s0"
      "declaration_run (indexed xs) = Inr d0"
    and after: "lifecycle_step len l0 (int (length xs), x) = Inr l" "operation_step ModeSdk s0 x = Inr s"
      "declaration_step d0 (int (length xs), x) = Inr d"
    by (auto simp: operation_run_def declaration_run_def res_simps)
  have "agree l0 s0 d0" using snoc.IH [OF before] snoc.prems by simp
  moreover have "l0 = initial_lifecycle" if "len = 1"
    using that snoc.prems(4) before(1) by simp
  ultimately show ?case using after agree_step by blast
qed

section \<open>Checkpoints\<close>

text \<open>A step only adds statuses, with checkpoints at its own index.\<close>

definition recorded :: "int \<Rightarrow> lifecycle_state \<Rightarrow> lifecycle_state \<Rightarrow> bool" where
  "recorded i l l' \<longleftrightarrow> (\<exists>sts. ls_statuses l' = ls_statuses l @ sts
     \<and> ls_checkpoints l' = ls_checkpoints l @ map (\<lambda>status. \<lparr>cp_index = i, cp_status = status\<rparr>) sts)"

lemma recorded_refl: "ls_statuses l' = ls_statuses l \<Longrightarrow> ls_checkpoints l' = ls_checkpoints l \<Longrightarrow> recorded i l l'"
  by (simp add: recorded_def exI [of _ "[]"])

lemma recorded_trans: "recorded i l l1 \<Longrightarrow> recorded i l1 l2 \<Longrightarrow> recorded i l l2"
  by (auto simp: recorded_def)

lemma recorded_status:
  "ls_statuses l' = ls_statuses l @ sts \<Longrightarrow>
   ls_checkpoints l' = ls_checkpoints l @ map (\<lambda>status. \<lparr>cp_index = i, cp_status = status\<rparr>) sts \<Longrightarrow> recorded i l l'"
  by (auto simp: recorded_def)

lemma record_status_checkpoints [simp]:
  "ls_checkpoints (record_status i sts l) = ls_checkpoints l @ map (\<lambda>status. \<lparr>cp_index = i, cp_status = status\<rparr>) sts"
  by (simp add: record_status_def)

lemma settle_start_checkpoints: "settle_start i code l = Inr l' \<Longrightarrow> ls_checkpoints l' = ls_checkpoints l"
  by (auto simp: settle_start_def bind_r_Inr_iff split: option.splits)

lemma settle_start_recorded: "settle_start i code l1 = Inr l' \<Longrightarrow> recorded i l l1 \<Longrightarrow> recorded i l l'"
  by (simp add: recorded_def settle_start_checkpoints settle_start_simps)

lemma recorded_stop: "stop_step i p l = Inr l' \<Longrightarrow> recorded i l l'"
  by (erule stop_step_simps)
    (auto simp: same_life_def intro!: recorded_refl recorded_status
      dest: settle_start_checkpoints settle_start_simps(5) split: if_splits)

lemma recorded_step: "lifecycle_step len l (i, x) = Inr l' \<Longrightarrow> recorded i l l'"
proof (cases x)
  case (StopStimulus p)
  then show "lifecycle_step len l (i, x) = Inr l' \<Longrightarrow> recorded i l l'"
    by (simp add: lifecycle_step_def recorded_stop)
next
  case (DeclarationAck d n)
  then show "lifecycle_step len l (i, x) = Inr l' \<Longrightarrow> recorded i l l'"
    by (auto simp: lifecycle_step_def functions_ack_step_def recorded_refl
        elim!: settle_start_recorded intro!: recorded_status split: if_splits option.splits)
qed (auto simp: lifecycle_step_def recorded_def start_step_def welcome_step_def update_step_def handoff_step_def
    declaration_error_step_def disconnect_step_def Let_def split: if_splits option.splits bool.splits)

lemma recorded_run:
  assumes "fold_r (lifecycle_step len) l es = Inr l'"
  shows "\<exists>cs. ls_checkpoints l' = ls_checkpoints l @ cs \<and> ls_statuses l' = ls_statuses l @ map cp_status cs
    \<and> cp_index ` set cs \<subseteq> fst ` set es"
proof (rule fold_r_invariant [where P = "\<lambda>t. \<exists>cs. ls_checkpoints t = ls_checkpoints l @ cs
    \<and> ls_statuses t = ls_statuses l @ map cp_status cs \<and> cp_index ` set cs \<subseteq> fst ` set es", OF assms])
  fix t e t'
  assume "e \<in> set es" "\<exists>cs. ls_checkpoints t = ls_checkpoints l @ cs
      \<and> ls_statuses t = ls_statuses l @ map cp_status cs \<and> cp_index ` set cs \<subseteq> fst ` set es"
    and step: "lifecycle_step len t e = Inr t'"
  then obtain cs where cs: "ls_checkpoints t = ls_checkpoints l @ cs" "ls_statuses t = ls_statuses l @ map cp_status cs"
    "cp_index ` set cs \<subseteq> fst ` set es" and "fst e \<in> fst ` set es"
    by auto
  moreover obtain sts where
    "ls_checkpoints t' = ls_checkpoints t @ map (\<lambda>status. \<lparr>cp_index = fst e, cp_status = status\<rparr>) sts"
    "ls_statuses t' = ls_statuses t @ sts"
    using recorded_step [of len t "fst e" "snd e" t'] step by (auto simp: recorded_def)
  ultimately show "\<exists>cs. ls_checkpoints t' = ls_checkpoints l @ cs
      \<and> ls_statuses t' = ls_statuses l @ map cp_status cs \<and> cp_index ` set cs \<subseteq> fst ` set es"
    by (intro exI [of _ "cs @ map (\<lambda>status. \<lparr>cp_index = fst e, cp_status = status\<rparr>) sts"])
      (auto simp: comp_def intro: rev_image_eqI)
qed simp

lemma indexed_append: "indexed (xs @ ys) = indexed xs @ map (\<lambda>(i, y). (int (length xs) + i, y)) (indexed ys)"
  by (induction ys rule: rev_induct) (simp_all flip: append_assoc)

lemma indexed_nonneg: "e \<in> set (indexed xs) \<Longrightarrow> 0 \<le> fst e \<and> fst e < int (length xs)"
  by (cases e) (auto simp: indexed_def dest!: set_zip_leftD)

text \<open>The checkpoints of a prefix of the stimuli are those with an index before its end.\<close>

lemma checkpoints_before:
  assumes "fold_r (lifecycle_step len) initial_lifecycle (indexed pre) = Inr l"
    and "fold_r (lifecycle_step len) initial_lifecycle (indexed (pre @ post)) = Inr l'"
  shows "filter (\<lambda>c. cp_index c < int (length pre)) (ls_checkpoints l') = ls_checkpoints l"
    "ls_statuses l = map cp_status (ls_checkpoints l)"
proof -
  obtain cs where cs: "ls_checkpoints l = cs" "ls_statuses l = map cp_status cs" "cp_index ` set cs \<subseteq> fst ` set (indexed pre)"
    using recorded_run [OF assms(1)] by (auto simp: initial_lifecycle_def)
  define later where "later = map (\<lambda>(i, y). (int (length pre) + i, y)) (indexed post)"
  have "fold_r (lifecycle_step len) l later = Inr l'"
    using assms by (simp add: indexed_append fold_r_append later_def)
  then obtain ds where ds: "ls_checkpoints l' = ls_checkpoints l @ ds" "cp_index ` set ds \<subseteq> fst ` set later"
    using recorded_run by blast
  have "\<forall>c\<in>set cs. cp_index c < int (length pre)"
    using cs(3) indexed_nonneg [of _ pre] by (metis image_iff image_subset_iff)
  moreover have "\<forall>c\<in>set ds. \<not> cp_index c < int (length pre)"
    using ds(2) indexed_nonneg [of _ post] by (fastforce simp: later_def)
  ultimately show "filter (\<lambda>c. cp_index c < int (length pre)) (ls_checkpoints l') = ls_checkpoints l"
    by (simp add: cs ds filter_id_conv)
  show "ls_statuses l = map cp_status (ls_checkpoints l)" by (simp add: cs)
qed

end
