(* ===== verification/Trace_Properties.thy ===== *)
theory Trace_Properties
  imports Trace_Session "HOL-Library.Multiset"
begin

text \<open>
  What an accepted scenario of the coordinator contract guarantees of the traces it lists: operations
  are dispatched once and under a ready session, lifecycle and declaration promises settle, nothing
  follows the stop. The concrete scenarios at the end meet the hypotheses.
\<close>

section \<open>The runs behind an accepted scenario\<close>

lemma lifecycle_accepted:
  assumes "assert_lifecycle_causality sc = Inr ()" "sc_mode sc = ModeSdk"
  obtains l where "lifecycle_run (sc_stimuli sc) = Inr l" "ls_pending l = None"
    "ls_statuses l = ob_statuses (sc_expected sc)" "ls_checkpoints l = ob_checkpoints (sc_expected sc)"
    "sort_key lcp_invocation (ls_promises l) = ob_lifecycle (sc_expected sc)"
proof -
  obtain l where "lifecycle_run (sc_stimuli sc) = Inr l" and
    "(if ls_pending l \<noteq> None then refuse ''missing_trace''
        else if ls_statuses l \<noteq> ob_statuses (sc_expected sc) then refuse ''invalid_trace''
        else if ls_checkpoints l \<noteq> ob_checkpoints (sc_expected sc) then refuse ''invalid_trace''
        else if sort_key lcp_invocation (ls_promises l) \<noteq> ob_lifecycle (sc_expected sc)
        then refuse ''invalid_trace''
        else if duplicate_start_errors (ob_errors (sc_expected sc))
            \<noteq> length (filter is_start (sc_stimuli sc)) - 1
        then refuse ''missing_trace''
        else if access_reasons (sc_stimuli sc) \<noteq> ob_reasons (sc_expected sc) then refuse ''invalid_trace''
        else Inr ()) = Inr ()"
    using assms by (auto simp: assert_lifecycle_causality_def bind_r_Inr_iff)
  with that show ?thesis by (simp add: if_Inl_eq_Inr del: not_None_eq)
qed

lemma operations_accepted:
  assumes "assert_operation_causality sc = Inr ()"
  obtains s where "operation_run (sc_mode sc) (sc_stimuli sc) = Inr s"
    "length (ob_operations (sc_expected sc)) = length (os_operations s)"
    "\<forall>(observed, entry)\<in>set (zip (ob_operations (sc_expected sc)) (os_operations s)).
       operation_observed observed (snd entry) = Inr ()"
    "length (ob_streams (sc_expected sc)) = length (derived_calls s)"
    "\<forall>(observed, entry)\<in>set (zip (ob_streams (sc_expected sc)) (derived_calls s)). stream_observed observed entry = Inr ()"
  using assms
  by (fastforce simp: assert_operation_causality_def bind_r_Inr_iff if_Inl_eq_Inr each_r_Inr_iff)

lemma declarations_accepted:
  assumes "assert_declaration_causality entries sc = Inr ()"
  obtains d where "declaration_run entries = Inr d" "dn_current d = None" "dn_queued d = None" "dn_reconnect d = []"
    "dn_declarations d = ob_declarations (sc_expected sc)" "dn_snapshots d = ob_snapshots (sc_expected sc)"
    "dn_settlements d = ob_promises (sc_expected sc)"
  using assms
  by (auto simp: assert_declaration_causality_def bind_r_Inr_iff if_Inl_eq_Inr simp del: not_None_eq)

lemma causal_parts:
  assumes "assert_causal_contract sc = Inr ()"
  shows "assert_lifecycle_causality sc = Inr ()" "assert_operation_causality sc = Inr ()"
    "assert_error_causality sc = Inr ()" "assert_presence_causality sc = Inr ()" "assert_effect_causality sc = Inr ()"
    "assert_declaration_causality (indexed (sc_stimuli sc)) sc = Inr ()" "assert_resource_causality sc = Inr ()"
  using assms by (auto simp: assert_causal_contract_def bind_r_Inr_iff)

text \<open>The states of the three loops before a stimulus of the scenario.\<close>

lemma accepted_prefix:
  assumes "lifecycle_run (pre @ x # post) = Inr l'" "operation_run ModeSdk (pre @ x # post) = Inr s'"
    "declaration_run (indexed (pre @ x # post)) = Inr d'"
  obtains l s d s1 where "agree l s d" "operation_step ModeSdk s x = Inr s1"
    "fold_r (lifecycle_step (length (pre @ x # post))) initial_lifecycle (indexed pre) = Inr l"
proof -
  let ?len = "length (pre @ x # post)"
  obtain l s d s1 where runs: "fold_r (lifecycle_step ?len) initial_lifecycle (indexed pre) = Inr l"
    "operation_run ModeSdk pre = Inr s" "declaration_run (indexed pre) = Inr d" "operation_step ModeSdk s x = Inr s1"
    using assms by (auto simp: lifecycle_run_def operation_run_def declaration_run_def indexed_append fold_r_append
        bind_r_Inr_iff)
  have "agree l s d" using runs_agree [OF runs(1-3)] by simp
  with runs show ?thesis using that by blast
qed

text \<open>
Property C13: in an accepted SDK scenario an operation is dispatched only while the session is ready: the
last status the coordinator recorded before the operation's stimulus is \<open>ready\<close>, whatever
acknowledgements, updates, rejections, disconnections and stops came before it.
\<close>

theorem operations_need_a_ready_session:
  assumes "assert_causal_contract sc = Inr ()" "sc_mode sc = ModeSdk"
    and "sc_stimuli sc = pre @ OperationStimulus op # post" "op_phase op \<noteq> BeforeSend"
  shows "\<exists>before checkpoint.
    filter (\<lambda>c. cp_index c < int (length pre)) (ob_checkpoints (sc_expected sc)) = before @ [checkpoint]
    \<and> cp_status checkpoint = StReady"
proof -
  note parts = causal_parts [OF assms(1)]
  obtain l' where l': "lifecycle_run (sc_stimuli sc) = Inr l'" "ls_checkpoints l' = ob_checkpoints (sc_expected sc)"
    using lifecycle_accepted [OF parts(1) assms(2)] by metis
  obtain s' where s': "operation_run ModeSdk (sc_stimuli sc) = Inr s'"
    using operations_accepted [OF parts(2)] assms(2) by metis
  obtain d' where d': "declaration_run (indexed (sc_stimuli sc)) = Inr d'"
    using declarations_accepted [OF parts(6)] by metis
  obtain l s d s1 where agree: "agree l s d" and step: "operation_step ModeSdk s (OperationStimulus op) = Inr s1"
    and prefix: "fold_r (lifecycle_step (length (sc_stimuli sc))) initial_lifecycle (indexed pre) = Inr l"
    using accepted_prefix [OF l'(1) [unfolded assms(3)] s' [unfolded assms(3)] d' [unfolded assms(3)]] assms(3) by metis
  have "os_ready s"
    using step assms(4) by (auto simp: operation_step_def start_operation_def Let_def if_Inl_eq_Inr)
  then have ready: "ls_statuses l \<noteq> []" "last (ls_statuses l) = StReady"
    using agree by (simp_all add: agree_def)
  have "filter (\<lambda>c. cp_index c < int (length pre)) (ls_checkpoints l') = ls_checkpoints l"
    and "ls_statuses l = map cp_status (ls_checkpoints l)"
    using checkpoints_before [OF prefix] l'(1) assms(3) by (auto simp: lifecycle_run_def)
  with ready l'(2) show ?thesis
    by (cases "ls_checkpoints l" rule: rev_cases) auto
qed

section \<open>Operations\<close>

fun operations_of :: "stimulus list \<Rightarrow> operation_stimulus list" where
  "operations_of [] = []"
| "operations_of (OperationStimulus op # rest) = op # operations_of rest"
| "operations_of (_ # rest) = operations_of rest"

lemma operations_of_append [simp]: "operations_of (xs @ ys) = operations_of xs @ operations_of ys"
  by (induction xs rule: operations_of.induct) simp_all

definition dispatches :: "operation_stimulus \<Rightarrow> int" where
  "dispatches op = (if op_phase op = BeforeSend then 0 else 1)"

definition summary :: "operation_state \<Rightarrow> (jstr \<times> operation_stimulus \<times> int) list" where
  "summary s = map (\<lambda>(operation, derived). (operation, do_stimulus derived, do_attempts derived)) (os_operations s)"

lemma map_update_same:
  "map_of al k = Some v \<Longrightarrow> g (k, w) = g (k, v) \<Longrightarrow> map g (AList.update k w al) = map g al"
  by (induction al) auto

lemma update_absent: "map_of al k = None \<Longrightarrow> AList.update k v al = al @ [(k, v)]"
  by (induction al) (auto split: if_splits)

lemma summary_session [simp]: "summary (session_step x s) = summary s"
  by (auto simp: summary_def session_step_def Let_def split: stimulus.splits option.splits bool.splits)

lemma summary_finalize: "finalize operation result terminal s = Inr t \<Longrightarrow> summary t = summary s"
  by (auto simp: finalize_def summary_def Let_def split: option.splits if_splits intro!: map_update_same)

lemma summary_close: "close_operations s = Inr t \<Longrightarrow> summary t = summary s"
  unfolding close_operations_def
  by (erule fold_r_invariant)
    (auto simp: close_operation_def dest: summary_finalize split: option.splits if_splits)

lemma summary_keys: "fst ` set (summary s) = fst ` set (os_operations s)"
  by (force simp: summary_def)

lemma summary_start:
  assumes "start_operation mode op s = Inr t"
  shows "summary t = summary s @ [(op_id op, op, dispatches op)]" "op_id op \<notin> fst ` set (summary s)"
proof -
  show absent: "op_id op \<notin> fst ` set (summary s)"
    using assms unfolding summary_keys by (simp add: start_operation_def if_Inl_eq_Inr map_of_eq_None_iff)
  then have "map_of (os_operations s) (op_id op) = None"
    unfolding summary_keys by (simp add: map_of_eq_None_iff)
  with assms show "summary t = summary s @ [(op_id op, op, dispatches op)]"
    by (auto simp: start_operation_def Let_def summary_def dispatches_def update_absent if_Inl_eq_Inr
        dest!: summary_finalize split: if_splits)
qed

lemma summary_step:
  assumes "operation_step mode s x = Inr t"
  shows "summary t = summary s @ map (\<lambda>op. (op_id op, op, dispatches op)) (operations_of [x])"
    "distinct (map fst (summary s)) \<Longrightarrow> distinct (map fst (summary t))"
proof -
  have "summary t = summary s @ map (\<lambda>op. (op_id op, op, dispatches op)) (operations_of [x])
    \<and> (distinct (map fst (summary s)) \<longrightarrow> distinct (map fst (summary t)))"
  proof (cases x)
    case (OperationStimulus op)
    with assms have "start_operation mode op (if mode = ModeSdk then session_step x s else s) = Inr t"
      by (simp add: operation_step_def split: if_splits)
    from summary_start [OF this] OperationStimulus show ?thesis by (auto split: if_splits)
  next
    case (OperationTerminal operation result)
    with assms show ?thesis
      by (auto simp: operation_step_def terminal_step_def call_terminal_step_def Let_def bind_r_Inr_iff
          dest!: summary_finalize split: option.splits if_splits) (simp_all add: summary_def)
  qed (use assms in \<open>auto simp: operation_step_def call_progress_step_def call_result_step_def
      call_cancel_step_def operation_error_step_def Let_def dest!: summary_close summary_finalize
      split: option.splits if_splits\<close>; simp add: summary_def)+
  then show "summary t = summary s @ map (\<lambda>op. (op_id op, op, dispatches op)) (operations_of [x])"
    "distinct (map fst (summary s)) \<Longrightarrow> distinct (map fst (summary t))" by blast+
qed

lemma summary_run:
  assumes "operation_run mode xs = Inr s"
  shows "summary s = map (\<lambda>op. (op_id op, op, dispatches op)) (operations_of xs) \<and> distinct (map fst (summary s))"
  using assms
proof (induction xs arbitrary: s rule: rev_induct)
  case Nil
  then show ?case by (auto simp: operation_run_def initial_operations_def summary_def)
next
  case (snoc x xs)
  then obtain s0 where "operation_run mode xs = Inr s0" and step: "operation_step mode s0 x = Inr s"
    by (auto simp: operation_run_def res_simps)
  note before = snoc.IH [OF this(1)]
  have "summary s = map (\<lambda>op. (op_id op, op, dispatches op)) (operations_of (xs @ [x]))"
    using before summary_step(1) [OF step] by simp
  moreover have "distinct (map fst (summary s))"
    using before summary_step(2) [OF step] by blast
  ultimately show ?case ..
qed

definition operation_key :: "operation_trace \<Rightarrow> jstr \<times> operation_kind \<times> jstr option option \<times> int" where
  "operation_key observed = (ot_id observed, ot_operation observed, ot_key observed, ot_attempts observed)"

definition stimulus_key :: "operation_stimulus \<Rightarrow> jstr \<times> operation_kind \<times> jstr option option \<times> int" where
  "stimulus_key op = (op_id op, op_kind op, op_key op, dispatches op)"

lemma observed_keys:
  assumes "length observed = length entries"
    and "\<forall>(o1, entry)\<in>set (zip observed entries). operation_observed o1 (snd entry) = Inr ()"
    and "map (\<lambda>(operation, derived). (operation, do_stimulus derived, do_attempts derived)) entries
      = map (\<lambda>op. (op_id op, op, dispatches op)) ops"
  shows "map operation_key observed = map stimulus_key ops"
  using assms
proof (induction observed entries arbitrary: ops rule: list_induct2)
  case (Cons o1 observed entry entries)
  then show ?case
    by (cases ops; cases entry) (auto simp: operation_key_def stimulus_key_def operation_observed_def if_Inl_eq_Inr)
qed simp

text \<open>
Property C16: the operation traces of an accepted scenario are exactly its operation stimuli, in order
and with pairwise distinct ids: none is invented, dropped, reordered or retried, one that was refused
before it was sent is attempted never and every other one once, and the idempotency key is the caller's.
\<close>

theorem operations_are_attempted_at_most_once:
  assumes "assert_causal_contract sc = Inr ()"
  shows "map operation_key (ob_operations (sc_expected sc)) = map stimulus_key (operations_of (sc_stimuli sc))
    \<and> distinct (map op_id (operations_of (sc_stimuli sc)))"
proof -
  obtain s where s: "operation_run (sc_mode sc) (sc_stimuli sc) = Inr s"
    "length (ob_operations (sc_expected sc)) = length (os_operations s)"
    "\<forall>(observed, entry)\<in>set (zip (ob_operations (sc_expected sc)) (os_operations s)).
       operation_observed observed (snd entry) = Inr ()"
    using operations_accepted [OF causal_parts(2) [OF assms]] by metis
  note run = summary_run [OF s(1)]
  have "map operation_key (ob_operations (sc_expected sc)) = map stimulus_key (operations_of (sc_stimuli sc))"
    using observed_keys [OF s(2,3)] run unfolding summary_def by blast
  moreover have "distinct (map op_id (operations_of (sc_stimuli sc)))"
    using run by (auto simp: comp_def)
  ultimately show ?thesis ..
qed

section \<open>Declaration promises\<close>

fun promise_ids :: "stimulus \<Rightarrow> jstr list" where
  "promise_ids (DeclarationUpdate _ ids _ _) = ids"
| "promise_ids _ = []"

definition settled_promises :: "declaration_state \<Rightarrow> jstr multiset" where
  "settled_promises d = mset (map dp_promise (dn_settlements d))"

definition promise_bag :: "pending_promise list \<Rightarrow> jstr multiset" where
  "promise_bag ps = mset (map pp_promise ps)"

lemma promise_bag_simps [simp]:
  "promise_bag [] = {#}" "promise_bag (ps @ qs) = promise_bag ps + promise_bag qs"
  by (simp_all add: promise_bag_def)

lemma settled_simps [simp]:
  "settled_promises (settle_promises ps i code d) = settled_promises d + promise_bag ps"
  "dn_seen (settle_promises ps i code d) = dn_seen d"
  by (simp_all add: settled_promises_def settle_promises_def promise_bag_def comp_def)

lemma settled_updates [simp]:
  "settled_promises (d\<lparr>dn_current := c\<rparr>) = settled_promises d"
  "settled_promises (d\<lparr>dn_queued := q\<rparr>) = settled_promises d"
  "settled_promises (d\<lparr>dn_reconnect := r\<rparr>) = settled_promises d"
  "settled_promises (d\<lparr>dn_generation := g\<rparr>) = settled_promises d"
  "settled_promises (d\<lparr>dn_last := n\<rparr>) = settled_promises d"
  "settled_promises (d\<lparr>dn_desired := rs\<rparr>) = settled_promises d"
  "settled_promises (d\<lparr>dn_active := act\<rparr>) = settled_promises d"
  "settled_promises (d\<lparr>dn_failures := k\<rparr>) = settled_promises d"
  "settled_promises (d\<lparr>dn_recovered := b\<rparr>) = settled_promises d"
  "settled_promises (d\<lparr>dn_seen := seen\<rparr>) = settled_promises d"
  "settled_promises (d\<lparr>dn_snapshots := sn\<rparr>) = settled_promises d"
  "settled_promises (d\<lparr>dn_declarations := dc\<rparr>) = settled_promises d"
  "settled_promises (d\<lparr>dn_visibility := vs\<rparr>) = settled_promises d"
  by (simp_all add: settled_promises_def)

definition tx_bag :: "transaction_state option \<Rightarrow> jstr multiset" where
  "tx_bag tx = (case tx of None \<Rightarrow> {#} | Some t \<Rightarrow> promise_bag (tx_promises t))"

lemma tx_bag_simps [simp]: "tx_bag None = {#}" "tx_bag (Some tx) = promise_bag (tx_promises tx)"
  by (simp_all add: tx_bag_def)

definition held :: "declaration_state \<Rightarrow> jstr multiset" where
  "held d = settled_promises d + promise_bag (dn_reconnect d) + tx_bag (dn_current d) + tx_bag (dn_queued d)"

definition queue_ok :: "declaration_state \<Rightarrow> bool" where
  "queue_ok d \<longleftrightarrow> (dn_current d = None \<longrightarrow> dn_queued d = None)"

lemma held_welcome:
  assumes "welcome_declarations i g d = Inr d'"
  shows "held d = held d' + tx_bag (dn_current d) + tx_bag (dn_queued d)" "dn_seen d' = dn_seen d" "queue_ok d'"
    "dn_current d' \<noteq> None"
  using assms
  by (auto simp: welcome_declarations_def held_def queue_ok_def if_Inl_eq_Inr bind_r_Inr_iff start_transaction_Inr)

lemma held_acknowledge:
  assumes "acknowledge i d0 n d = Inr d'"
  shows "held d' = held d" "dn_seen d' = dn_seen d" "queue_ok d \<Longrightarrow> queue_ok d'" "dn_current d \<noteq> None"
proof -
  obtain generation current where current: "dn_generation d = Some generation" "dn_current d = Some current"
    "addressed d0 n d = Inr current"
    using assms by (auto simp: acknowledge_def bind_r_Inr_iff dest: addressed_Inr split: option.splits)
  then show "dn_current d \<noteq> None" by simp
  have "held d' = held d \<and> dn_seen d' = dn_seen d \<and> (queue_ok d \<longrightarrow> queue_ok d')"
  proof (cases "tx_next current + 1 = length barrier_order")
    case True
    with assms current show ?thesis
      by (cases "dn_queued d"; cases "dn_failures d = 0")
        (simp_all add: acknowledge_def held_def queue_ok_def Let_def start_transaction_def, auto)
  next
    case False
    with assms current show ?thesis
      by (auto simp: acknowledge_def held_def queue_ok_def Let_def)
  qed
  then show "held d' = held d" "dn_seen d' = dn_seen d" "queue_ok d \<Longrightarrow> queue_ok d'" by blast+
qed

lemma held_reject:
  assumes "reject_declarations i d0 n code d = Inr d'"
  shows "held d' = held d" "dn_seen d' = dn_seen d" "queue_ok d'"
proof -
  obtain current where current: "dn_current d = Some current" "addressed d0 n d = Inr current"
    using assms by (auto simp: reject_declarations_def bind_r_Inr_iff dest: addressed_Inr)
  show "held d' = held d" "dn_seen d' = dn_seen d" "queue_ok d'"
    using assms current
    by (cases "dn_queued d"; cases "dn_active d"; auto simp: reject_declarations_def held_def queue_ok_def Let_def)+
qed

lemma held_handoff:
  assumes "handoff_declarations n d = Inr d'"
  shows "held d' = held d" "dn_seen d' = dn_seen d" "queue_ok d \<Longrightarrow> queue_ok d'" "dn_current d \<noteq> None"
  using assms
  by (auto simp: handoff_declarations_def held_def queue_ok_def if_Inl_eq_Inr split: option.splits)

lemma held_update:
  assumes "update_declarations i n new changed revisions d = Inr d'"
  shows "held d' = held d + mset new" "dn_seen d' = dn_seen d \<union> set new" "distinct new" "set new \<inter> dn_seen d = {}"
    "queue_ok d \<Longrightarrow> queue_ok d'"
proof -
  have bag: "promise_bag (map (\<lambda>p. \<lparr>pp_promise = p, pp_transaction = n\<rparr>) new) = mset new"
    by (simp add: promise_bag_def comp_def)
  obtain generation where generation: "dn_generation d = Some generation"
    using assms by (auto simp: update_declarations_def if_Inl_eq_Inr)
  have unique: "distinct new \<and> set new \<inter> dn_seen d = {}"
    using assms
    by (auto simp: update_declarations_def if_Inl_eq_Inr bind_r_Inr_iff promises_for_def unique_from_Inr_iff Let_def)
  have "held d' = held d + mset new \<and> dn_seen d' = dn_seen d \<union> set new \<and> (queue_ok d \<longrightarrow> queue_ok d')"
  proof (cases "dn_current d")
    case None
    with assms generation show ?thesis
      by (auto simp: update_declarations_def if_Inl_eq_Inr bind_r_Inr_iff promises_for_def unique_from_Inr_iff Let_def
          start_transaction_def held_def queue_ok_def bag)
  next
    case (Some current)
    with assms generation show ?thesis
      by (cases "tx_handed_off current"; cases "dn_queued d")
        (auto simp: update_declarations_def if_Inl_eq_Inr bind_r_Inr_iff promises_for_def unique_from_Inr_iff Let_def
          start_transaction_def held_def queue_ok_def bag)
  qed
  with unique show "held d' = held d + mset new" "dn_seen d' = dn_seen d \<union> set new" "distinct new"
    "set new \<inter> dn_seen d = {}" "queue_ok d \<Longrightarrow> queue_ok d'" by blast+
qed

text \<open>
  The promises made so far are the settled ones, the waiting ones, and those a welcome abandoned because
  it found a transaction open.
\<close>

definition accounted :: "jstr list \<Rightarrow> jstr multiset \<Rightarrow> declaration_state \<Rightarrow> bool" where
  "accounted ids lost d \<longleftrightarrow> mset ids = held d + lost \<and> dn_seen d = set ids \<and> distinct ids \<and> queue_ok d"

definition abandoned :: "stimulus \<Rightarrow> declaration_state \<Rightarrow> jstr multiset" where
  "abandoned x d = (if is_welcome x then tx_bag (dn_current d) + tx_bag (dn_queued d) else {#})"

lemma accounted_initial: "accounted [] {#} initial_declarations"
  by (simp add: accounted_def held_def queue_ok_def initial_declarations_def settled_promises_def)

lemma waiting_bag: "promise_bag (waiting_promises d) = promise_bag (dn_reconnect d) + tx_bag (dn_current d) + tx_bag (dn_queued d)"
  by (simp add: waiting_promises_def split: option.splits)

lemma accounted_same: "held d' = held d \<Longrightarrow> dn_seen d' = dn_seen d \<Longrightarrow> queue_ok d' \<Longrightarrow>
    accounted ids lost d \<Longrightarrow> accounted ids lost d'"
  by (simp add: accounted_def)

lemma accounted_step:
  assumes acc: "accounted ids lost d" and step: "declaration_step d (i, x) = Inr d'"
  shows "accounted (ids @ promise_ids x) (lost + abandoned x d) d'"
proof -
  have ok: "queue_ok d" using acc by (simp add: accounted_def)
  note same = accounted_same [OF _ _ _ acc]
  show ?thesis
  proof (cases x)
    case (WelcomeStimulus n g)
    with step have "welcome_declarations i g d = Inr d'" by (simp add: declaration_step_def)
    from held_welcome [OF this] acc WelcomeStimulus show ?thesis
      by (simp add: accounted_def abandoned_def)
  next
    case (DeclarationUpdate n new changed revisions)
    with step have "update_declarations i n new changed revisions d = Inr d'" by (simp add: declaration_step_def)
    from held_update [OF this] acc DeclarationUpdate show ?thesis
      by (auto simp: accounted_def abandoned_def)
  next
    case (DisconnectStimulus ph)
    with step show ?thesis
      by (auto simp: declaration_step_def abandoned_def held_def queue_ok_def waiting_bag intro!: same)
  next
    case (StopStimulus p)
    with step show ?thesis
      by (auto simp: declaration_step_def abandoned_def held_def queue_ok_def waiting_bag intro!: same)
  next
    case DeclarationProbe
    with step ok show ?thesis
      by (auto simp: declaration_step_def abandoned_def held_def queue_ok_def intro!: same)
  qed (use step ok in \<open>auto simp: declaration_step_def abandoned_def intro!: same acc
      dest: held_acknowledge held_reject held_handoff\<close>)
qed

lemma accounted_run:
  assumes "fold_r declaration_step d es = Inr d'" "accounted ids lost d"
  shows "\<exists>more. accounted (ids @ concat (map (promise_ids \<circ> snd) es)) (lost + more) d'"
  using assms
proof (induction es arbitrary: d ids lost)
  case Nil
  then show ?case by (auto intro: exI [of _ "{#}"])
next
  case (Cons e es)
  then obtain d1 where step: "declaration_step d (fst e, snd e) = Inr d1" and rest: "fold_r declaration_step d1 es = Inr d'"
    by (auto simp: bind_r_Inr_iff)
  from Cons.IH [OF rest accounted_step [OF Cons.prems(2) step]] show ?case
    by (auto simp: add.assoc)
qed

lemma map_snd_indexed [simp]: "map snd (indexed xs) = xs"
  by (simp add: indexed_def)

lemma promise_ids_indexed: "concat (map (promise_ids \<circ> snd) (indexed xs)) = concat (map promise_ids xs)"
  by (metis map_map map_snd_indexed)

text \<open>
In an accepted scenario no declaration promise settles twice, and none settles that was not
made by a declaration update of the scenario.
\<close>

lemma declaration_promises_settle_at_most_once:
  assumes "assert_causal_contract sc = Inr ()"
  shows "distinct (map dp_promise (ob_promises (sc_expected sc)))
    \<and> set (map dp_promise (ob_promises (sc_expected sc))) \<subseteq> set (concat (map promise_ids (sc_stimuli sc)))"
proof -
  obtain d where d: "declaration_run (indexed (sc_stimuli sc)) = Inr d" "dn_settlements d = ob_promises (sc_expected sc)"
    using declarations_accepted [OF causal_parts(6) [OF assms]] by metis
  obtain lost where acc: "accounted (concat (map promise_ids (sc_stimuli sc))) lost d"
    using accounted_run [OF d(1) [unfolded declaration_run_def] accounted_initial] by (auto simp: promise_ids_indexed)
  have "settled_promises d \<subseteq># mset (concat (map promise_ids (sc_stimuli sc)))"
    using acc by (simp add: accounted_def held_def add.assoc)
  moreover have "distinct (concat (map promise_ids (sc_stimuli sc)))"
    using acc by (simp only: accounted_def)
  ultimately show ?thesis
    unfolding settled_promises_def d(2)
    by (metis distinct_append mset_append mset_eq_imp_distinct_iff set_mset_mset set_mset_mono subset_mset.le_iff_add ex_mset)
qed

text \<open>The declaration transaction that is open after the first stimuli of a scenario.\<close>

definition open_transaction :: "stimulus list \<Rightarrow> transaction_state option" where
  "open_transaction stimuli =
     (case declaration_run (indexed stimuli) of Inl _ \<Rightarrow> None | Inr d \<Rightarrow> dn_current d)"

definition welcomes_find_none_open :: "stimulus list \<Rightarrow> bool" where
  "welcomes_find_none_open stimuli \<longleftrightarrow>
     list_all (\<lambda>i. is_welcome (stimuli ! i) \<longrightarrow> open_transaction (take i stimuli) = None) [0..<length stimuli]"

lemma welcomes_find_none_open_snoc:
  "welcomes_find_none_open (xs @ [x]) \<longleftrightarrow>
     welcomes_find_none_open xs \<and> (is_welcome x \<longrightarrow> open_transaction xs = None)"
  by (auto simp: welcomes_find_none_open_def list_all_iff nth_append less_Suc_eq)

lemma accounted_clear:
  assumes "declaration_run (indexed xs) = Inr d" "welcomes_find_none_open xs"
  shows "accounted (concat (map promise_ids xs)) {#} d"
  using assms
proof (induction xs arbitrary: d rule: rev_induct)
  case Nil
  then show ?case by (simp add: declaration_run_def accounted_initial)
next
  case (snoc x xs)
  then obtain d0 where before: "declaration_run (indexed xs) = Inr d0"
    and step: "declaration_step d0 (int (length xs), x) = Inr d"
    by (auto simp: declaration_run_def res_simps)
  from snoc.prems(2) have clear: "welcomes_find_none_open xs" "is_welcome x \<longrightarrow> dn_current d0 = None"
    using before by (simp_all add: welcomes_find_none_open_snoc open_transaction_def)
  note known = snoc.IH [OF before clear(1)]
  then have "abandoned x d0 = {#}"
    using clear(2) by (auto simp: abandoned_def accounted_def queue_ok_def)
  with accounted_step [OF known step] show ?case by simp
qed

text \<open>
Property C14: in an accepted scenario each of whose welcomes finds no declaration transaction open, every
promise a declaration update makes settles exactly once, whether its transaction is activated, rejected,
superseded, carried over a reconnection or cancelled by the stop.
\<close>

theorem declaration_promises_settle_exactly_once:
  assumes "assert_causal_contract sc = Inr ()" "welcomes_find_none_open (sc_stimuli sc)"
  shows "mset (map dp_promise (ob_promises (sc_expected sc))) = mset (concat (map promise_ids (sc_stimuli sc)))"
proof -
  obtain d where d: "declaration_run (indexed (sc_stimuli sc)) = Inr d" "dn_settlements d = ob_promises (sc_expected sc)"
    "dn_current d = None" "dn_queued d = None" "dn_reconnect d = []"
    using declarations_accepted [OF causal_parts(6) [OF assms(1)]] by metis
  then show ?thesis
    using accounted_clear [OF d(1) assms(2)] by (simp add: accounted_def held_def settled_promises_def)
qed

section \<open>Lifecycle promises\<close>

definition promise_key :: "lifecycle_promise \<Rightarrow> lifecycle_operation \<times> jstr \<times> int" where
  "promise_key p = (lcp_operation p, lcp_promise p, lcp_invocation p)"

fun requests :: "(int \<times> stimulus) list \<Rightarrow> (lifecycle_operation \<times> jstr \<times> int) list" where
  "requests [] = []"
| "requests ((i, StartStimulus p) # rest) = (StartOperation, p, i) # requests rest"
| "requests ((i, StopStimulus p) # rest) = (StopOperation, p, i) # requests rest"
| "requests (_ # rest) = requests rest"

lemma requests_append [simp]: "requests (xs @ ys) = requests xs @ requests ys"
  by (induction xs rule: requests.induct) simp_all

definition pending_key :: "lifecycle_state \<Rightarrow> (lifecycle_operation \<times> jstr \<times> int) multiset" where
  "pending_key l = (case ls_pending l of None \<Rightarrow> {#} | Some (p, i) \<Rightarrow> {#(StartOperation, p, i)#})"

definition requested :: "lifecycle_state \<Rightarrow> (lifecycle_operation \<times> jstr \<times> int) multiset" where
  "requested l = mset (map promise_key (ls_promises l)) + pending_key l"

lemma requested_record [simp]: "requested (record_status i sts l) = requested l"
  by (simp add: requested_def pending_key_def)

lemma requested_settle: "settle_start i code l = Inr l' \<Longrightarrow> requested l' = requested l \<and> ls_started l' = ls_started l
    \<and> ls_pending l' = None"
  by (auto simp: settle_start_def requested_def pending_key_def promise_key_def bind_r_Inr_iff split: option.splits)

lemma requested_stop:
  assumes "stop_step i p l = Inr l'"
  shows "requested l' = add_mset (StopOperation, p, i) (requested l)" "ls_started l' = ls_started l"
    "ls_pending l' = None \<or> ls_pending l' = ls_pending l"
proof -
  obtain l1 l2 settlement where
    first: "(if live l then settle_start i (Some (js ''cancelled''))
        ((record_status i [StStopping, StStopped] l)
           \<lparr>ls_stopped := True, ls_reconnecting := False, ls_activated := False,
            ls_can_restore := False, ls_transaction := None, ls_queued := None\<rparr>) else Inr l) = Inr l1"
    and shared: "(case ls_stop l1 of
               None \<Rightarrow>
                 (if p \<in> ls_seen l1 then refuse ''duplicate''
                  else Inr (l1\<lparr>ls_seen := insert p (ls_seen l1), ls_stop := Some (p, i)\<rparr>, i))
             | Some (shared, settlement) \<Rightarrow>
                 (if p \<noteq> shared then refuse ''invalid_trace'' else Inr (l1, settlement))) = Inr (l2, settlement)"
    and last: "l' = l2\<lparr>ls_promises := ls_promises l2 @
           [\<lparr>lcp_operation = StopOperation, lcp_promise = p, lcp_invocation = i,
             lcp_settlement = settlement, lcp_resolved = True, lcp_code = None, lcp_session = None,
             lcp_generation = None\<rparr>]\<rparr>"
    using assms unfolding stop_step_def live_def [symmetric] by (auto simp: bind_r_Inr_iff)
  have "requested l1 = requested l \<and> ls_started l1 = ls_started l \<and> (ls_pending l1 = None \<or> ls_pending l1 = ls_pending l)"
    using first by (auto simp: requested_def pending_key_def dest!: requested_settle split: if_splits)
  moreover have "ls_promises l2 = ls_promises l1 \<and> ls_pending l2 = ls_pending l1 \<and> ls_started l2 = ls_started l1"
    using shared by (auto split: option.splits if_splits)
  ultimately show "requested l' = add_mset (StopOperation, p, i) (requested l)" "ls_started l' = ls_started l"
    "ls_pending l' = None \<or> ls_pending l' = ls_pending l"
    by (auto simp: last requested_def pending_key_def promise_key_def)
qed

lemma requested_step:
  assumes "lifecycle_step len l (i, x) = Inr l'" "ls_pending l \<noteq> None \<longrightarrow> ls_started l"
  shows "requested l' = requested l + mset (requests [(i, x)])" "ls_pending l' \<noteq> None \<longrightarrow> ls_started l'"
proof -
  have "requested l' = requested l + mset (requests [(i, x)]) \<and> (ls_pending l' \<noteq> None \<longrightarrow> ls_started l')"
  proof (cases x)
    case (StopStimulus p)
    with assms requested_stop [of i p l l'] show ?thesis by (auto simp: lifecycle_step_def)
  next
    case (DeclarationAck d n)
    with assms show ?thesis
      by (auto simp: lifecycle_step_def functions_ack_step_def requested_def pending_key_def
          dest!: requested_settle split: if_splits option.splits)
  next
    case (StartStimulus p)
    with assms show ?thesis
      by (auto simp: lifecycle_step_def start_step_def requested_def pending_key_def promise_key_def Let_def
          simp del: not_None_eq not_Some_eq split: if_splits option.splits)
  qed (use assms in \<open>auto simp: lifecycle_step_def requested_def pending_key_def welcome_step_def update_step_def
      handoff_step_def declaration_error_step_def disconnect_step_def Let_def
      split: if_splits option.splits bool.splits\<close>)
  then show "requested l' = requested l + mset (requests [(i, x)])" "ls_pending l' \<noteq> None \<longrightarrow> ls_started l'" by blast+
qed

lemma requested_run:
  assumes "fold_r (lifecycle_step len) initial_lifecycle (indexed xs) = Inr l"
  shows "requested l = mset (requests (indexed xs)) \<and> (ls_pending l \<noteq> None \<longrightarrow> ls_started l)"
  using assms
proof (induction xs arbitrary: l rule: rev_induct)
  case Nil
  then show ?case by (auto simp: requested_def pending_key_def initial_lifecycle_def)
next
  case (snoc x xs)
  then obtain l0 where "fold_r (lifecycle_step len) initial_lifecycle (indexed xs) = Inr l0"
    and step: "lifecycle_step len l0 (int (length xs), x) = Inr l"
    by (auto simp: res_simps)
  note before = snoc.IH [OF this(1)]
  from requested_step [OF step conjunct2 [OF before]] before show ?case by simp
qed

lemma requests_sorted: "sorted_wrt (<) (map (snd \<circ> snd) (requests (indexed xs)))
    \<and> (\<forall>r\<in>set (requests (indexed xs)). snd (snd r) < int (length xs))"
proof (induction xs rule: rev_induct)
  case (snoc x xs)
  then show ?case by (cases x) (auto simp: sorted_wrt_append)
qed simp

text \<open>
Property C15: in an accepted SDK scenario every call of \<open>start\<close> and of \<open>stop\<close> settles exactly once: the
lifecycle promises are the calls, in the order they were made.
\<close>

theorem every_lifecycle_call_settles:
  assumes "assert_causal_contract sc = Inr ()" "sc_mode sc = ModeSdk"
  shows "map promise_key (ob_lifecycle (sc_expected sc)) = requests (indexed (sc_stimuli sc))"
proof -
  obtain l where l: "lifecycle_run (sc_stimuli sc) = Inr l" "ls_pending l = None"
    "sort_key lcp_invocation (ls_promises l) = ob_lifecycle (sc_expected sc)"
    using lifecycle_accepted [OF causal_parts(1) [OF assms(1)] assms(2)] by metis
  let ?shown = "map promise_key (sort_key lcp_invocation (ls_promises l))"
  let ?rs = "requests (indexed (sc_stimuli sc))"
  have same: "mset ?shown = mset ?rs"
    using requested_run [OF l(1) [unfolded lifecycle_run_def]] l(2) by (simp add: requested_def pending_key_def)
  have "snd \<circ> snd \<circ> promise_key = lcp_invocation" by (simp add: promise_key_def comp_def)
  then have "sorted (map (snd \<circ> snd) ?shown)" by (simp add: comp_assoc) 
  moreover have strict: "sorted_wrt (<) (map (snd \<circ> snd) ?rs)" using requests_sorted by blast
  then have "inj_on (snd \<circ> snd) (set ?rs)"
    using strict_sorted_iff distinct_map by blast
  ultimately have "sort_key (snd \<circ> snd) ?rs = ?shown"
    using sort_key_inj_key_eq [of ?rs ?shown "snd \<circ> snd"] same by simp
  moreover have "sort_key (snd \<circ> snd) ?rs = ?rs"
    using strict by (simp add: sort_key_id_if_sorted strict_sorted_iff)
  ultimately show ?thesis using l(3) by simp
qed

section \<open>After the stop\<close>

lemma stopped_step:
  assumes agree: "agree l s d" and step: "lifecycle_step len l (i, x) = Inr l'"
    and declared: "declaration_step d (i, x) = Inr d'" and construct: "len = 1 \<Longrightarrow> l = initial_lifecycle"
    and stopped: "ls_stopped l"
  shows "ls_statuses l' = ls_statuses l \<and> ls_stopped l'"
proof -
  have dead: "\<not> live l" using stopped by (simp add: live_def)
  then have idle: "\<not> ls_can_restore l" "dn_current d = None" using agree by (simp_all add: agree_def)
  show ?thesis
  proof (cases x)
    case ConstructStimulus
    with construct step stopped show ?thesis
      by (auto simp: lifecycle_step_def initial_lifecycle_def split: if_splits)
  next
    case (StopStimulus p)
    with step have "stop_step i p l = Inr l'" by (simp add: lifecycle_step_def)
    then show ?thesis
      by (rule stop_step_simps) (use dead stopped in \<open>auto simp: same_life_def\<close>)
  next
    case (DeclarationAck d0 n)
    with declared idle(2) show ?thesis
      using held_acknowledge(4) by (auto simp: declaration_step_def)
  qed (use step stopped idle in \<open>auto simp: lifecycle_step_def start_step_def welcome_step_def update_step_def
      handoff_step_def declaration_error_step_def disconnect_step_def Let_def if_Inl_eq_Inr
      split: if_splits\<close>)
qed

lemma unstopped_step:
  assumes step: "lifecycle_step len l (i, x) = Inr l'" and unstopped: "\<not> ls_stopped l"
  shows "\<exists>sts. ls_statuses l' = ls_statuses l @ sts
    \<and> (if ls_stopped l' then sts = [StStopping, StStopped] else StStopped \<notin> set sts)"
proof (cases x)
  case (StopStimulus p)
  with step have "stop_step i p l = Inr l'" by (simp add: lifecycle_step_def)
  then show ?thesis
    by (rule stop_step_simps)
      (use unstopped in \<open>auto simp: same_life_def dest: settle_start_simps(5,7) split: if_splits\<close>)
next
  case (DeclarationAck d0 n)
  show ?thesis
  proof (cases "d0 = DFunctions \<and> ls_queued l = None")
    case True
    with step DeclarationAck have "settle_start i None (record_status i [StReady]
        (l\<lparr>ls_transaction := None, ls_activated := True, ls_can_restore := False\<rparr>)) = Inr l'"
      by (simp add: lifecycle_step_def functions_ack_step_def)
    from settle_start_simps(5,7) [OF this] unstopped show ?thesis by simp
  next
    case False
    with step unstopped DeclarationAck show ?thesis
      by (auto simp: lifecycle_step_def functions_ack_step_def split: if_splits option.splits)
  qed
qed (use step unstopped in \<open>auto simp: lifecycle_step_def start_step_def welcome_step_def update_step_def
      handoff_step_def declaration_error_step_def disconnect_step_def record_status_def Let_def if_Inl_eq_Inr
      split: if_splits option.splits bool.splits\<close>)

definition stops_last :: "lifecycle_state \<Rightarrow> bool" where
  "stops_last l \<longleftrightarrow> (if ls_stopped l then \<exists>sts. ls_statuses l = sts @ [StStopping, StStopped] \<and> StStopped \<notin> set sts
     else StStopped \<notin> set (ls_statuses l))"

lemma stops_last_run:
  assumes "fold_r (lifecycle_step len) initial_lifecycle (indexed xs) = Inr l" "operation_run ModeSdk xs = Inr s"
    "declaration_run (indexed xs) = Inr d" "length xs \<le> len"
  shows "stops_last l"
  using assms
proof (induction xs arbitrary: l s d rule: rev_induct)
  case Nil
  then show ?case by (auto simp: stops_last_def initial_lifecycle_def)
next
  case (snoc x xs)
  then obtain l0 s0 d0 where
    before: "fold_r (lifecycle_step len) initial_lifecycle (indexed xs) = Inr l0" "operation_run ModeSdk xs = Inr s0"
      "declaration_run (indexed xs) = Inr d0"
    and after: "lifecycle_step len l0 (int (length xs), x) = Inr l" "declaration_step d0 (int (length xs), x) = Inr d"
    by (auto simp: operation_run_def declaration_run_def res_simps)
  have agree: "agree l0 s0 d0" using runs_agree [OF before] snoc.prems by simp
  have last: "stops_last l0" using snoc.IH [OF before] snoc.prems by simp
  have construct: "l0 = initial_lifecycle" if "len = 1"
    using that snoc.prems(4) before(1) by simp
  show ?case
  proof (cases "ls_stopped l0")
    case True
    from stopped_step [OF agree after construct True] last True show ?thesis by (simp add: stops_last_def)
  next
    case False
    from unstopped_step [OF after(1) False] last False show ?thesis
      by (auto simp: stops_last_def split: if_splits)
  qed
qed

text \<open>
Property C17: in an accepted SDK scenario \<open>stopped\<close> is the final status: nothing follows it, and it comes
directly after \<open>stopping\<close>.
\<close>

theorem stopped_is_final:
  assumes "assert_causal_contract sc = Inr ()" "sc_mode sc = ModeSdk"
    and "ob_statuses (sc_expected sc) = before @ StStopped # after"
  shows "after = [] \<and> (\<exists>earlier. before = earlier @ [StStopping])"
proof -
  note parts = causal_parts [OF assms(1)]
  obtain l where l: "lifecycle_run (sc_stimuli sc) = Inr l" "ls_statuses l = ob_statuses (sc_expected sc)"
    using lifecycle_accepted [OF parts(1) assms(2)] by metis
  obtain s where s: "operation_run ModeSdk (sc_stimuli sc) = Inr s"
    using operations_accepted [OF parts(2)] assms(2) by metis
  obtain d where d: "declaration_run (indexed (sc_stimuli sc)) = Inr d"
    using declarations_accepted [OF parts(6)] by metis
  have "stops_last l" using stops_last_run [OF l(1) [unfolded lifecycle_run_def] s d] by simp
  with l(2) assms(3) obtain sts where "sts @ [StStopping, StStopped] = before @ StStopped # after" "StStopped \<notin> set sts"
    by (auto simp: stops_last_def split: if_splits)
  then show ?thesis
    by (cases after rule: rev_cases) (auto simp: append_eq_append_conv2 Cons_eq_append_conv append_eq_Cons_conv)
qed

end
