(* ===== verification/Trace_Scenarios.thy ===== *)
theory Trace_Scenarios
  imports Trace_Properties
begin

text \<open>
  Concrete scenarios of the coordinator contract: a session that meets the hypotheses of the properties
  of \<open>Trace_Properties\<close>, and scenarios at the edges of the checks.
\<close>

section \<open>A session\<close>

text \<open>The acknowledgements of a transaction in barrier order, with the hand-off before the last one.\<close>

definition barrier_acks :: "int \<Rightarrow> stimulus list" where
  "barrier_acks n = [DeclarationAck DState n, DeclarationAck DStateAccess n, DeclarationAck DEvents n,
     DeclarationAck DEventAccess n, DeclarationHandoff n, DeclarationAck DFunctions n]"

definition one_function :: declaration_revisions where
  "one_function = INITIAL_DECLARATION_REVISIONS\<lparr>rev_functions := 1\<rparr>"

definition set_operation :: operation_stimulus where
  "set_operation = \<lparr>op_id = js ''o'', op_kind = KStateSet, op_phase = PhaseSent, op_key = None\<rparr>"

definition first_part :: "stimulus list" where
  "first_part = [StartStimulus (js ''s''), WelcomeStimulus 7 1] @ barrier_acks 1"

definition second_part :: "stimulus list" where
  "second_part = [OperationTerminal (js ''o'') Applied, DeclarationUpdate 2 [js ''p''] [DFunctions] one_function]
     @ barrier_acks 2 @ [StopStimulus (js ''t'')]"

definition session_stimuli :: "stimulus list" where
  "session_stimuli = first_part @ OperationStimulus set_operation # second_part"

text \<open>
  The scenario of a list of stimuli whose traces are those the lifecycle and the declarations derive,
  with the given operation traces and no other trace.
\<close>

definition derived_observation :: "stimulus list \<Rightarrow> operation_trace list \<Rightarrow> observation traced" where
  "derived_observation stimuli operations =
     bind_r (lifecycle_run stimuli) (\<lambda>l. bind_r (declaration_run (indexed stimuli)) (\<lambda>d.
       Inr \<lparr>ob_statuses = ls_statuses l, ob_checkpoints = ls_checkpoints l,
         ob_lifecycle = sort_key lcp_invocation (ls_promises l), ob_reasons = access_reasons stimuli,
         ob_declarations = dn_declarations d, ob_snapshots = dn_snapshots d, ob_promises = dn_settlements d,
         ob_visibility = dn_visibility d, ob_operations = operations, ob_streams = [], ob_presence = [],
         ob_publications = 0, ob_effects = [], ob_errors = [],
         ob_resources = \<lparr>rs_sockets = 0, rs_high_water = 1, rs_timers = Some 0, rs_listeners = Some 0,
           rs_iterators = Some 0\<rparr>\<rparr>))"

definition sdk_scenario :: "stimulus list \<Rightarrow> operation_trace list \<Rightarrow> scenario traced" where
  "sdk_scenario stimuli operations =
     map_r_result (\<lambda>expected. \<lparr>sc_id = js ''session'', sc_description = js ''session'', sc_coverage = [],
         sc_mode = ModeSdk, sc_desired = barrier_order, sc_stimuli = stimuli, sc_expected = expected\<rparr>)
       (derived_observation stimuli operations)"

definition applied_once :: "operation_trace list" where
  "applied_once = [\<lparr>ot_id = js ''o'', ot_operation = KStateSet, ot_attempts = 1, ot_outcome = Applied, ot_key = None\<rparr>]"

definition session_scenario :: scenario where
  "session_scenario = projr (sdk_scenario session_stimuli applied_once)"

lemma session_accepted: "assert_causal_contract session_scenario = Inr ()"
  by code_simp

lemma session_mode: "sc_mode session_scenario = ModeSdk"
  by code_simp

lemma session_split: "sc_stimuli session_scenario = first_part @ OperationStimulus set_operation # second_part"
  by code_simp

lemma session_sent: "op_phase set_operation \<noteq> BeforeSend"
  by code_simp

theorem operations_need_a_ready_session_witness:
  "\<exists>before checkpoint.
    filter (\<lambda>c. cp_index c < int (length first_part)) (ob_checkpoints (sc_expected session_scenario))
      = before @ [checkpoint] \<and> cp_status checkpoint = StReady"
  by (rule operations_need_a_ready_session [OF session_accepted session_mode session_split session_sent])

theorem operations_are_attempted_at_most_once_witness:
  "map operation_key (ob_operations (sc_expected session_scenario))
     = map stimulus_key (operations_of (sc_stimuli session_scenario))
   \<and> distinct (map op_id (operations_of (sc_stimuli session_scenario)))"
  by (rule operations_are_attempted_at_most_once [OF session_accepted])

text \<open>A second welcome after a finished barrier, with no disconnection before it.\<close>

definition welcomed_twice :: "stimulus list" where
  "welcomed_twice = first_part @ DeclarationUpdate 2 [js ''p''] [DFunctions] one_function # barrier_acks 2
     @ WelcomeStimulus 8 2 # barrier_acks 1 @ [StopStimulus (js ''t'')]"

definition welcomed_twice_scenario :: scenario where
  "welcomed_twice_scenario = projr (sdk_scenario welcomed_twice [])"

lemma welcomed_twice_accepted: "assert_causal_contract welcomed_twice_scenario = Inr ()"
  by code_simp

lemma welcomed_twice_clear: "welcomes_find_none_open (sc_stimuli welcomed_twice_scenario)"
  by code_simp

lemma welcomed_twice_promises: "concat (map promise_ids (sc_stimuli welcomed_twice_scenario)) = [js ''p'']"
  by code_simp

theorem declaration_promises_settle_exactly_once_witness:
  "mset (map dp_promise (ob_promises (sc_expected welcomed_twice_scenario))) = {#js ''p''#}"
  using declaration_promises_settle_exactly_once [OF welcomed_twice_accepted welcomed_twice_clear]
  by (simp add: welcomed_twice_promises)

theorem every_lifecycle_call_settles_witness:
  "map promise_key (ob_lifecycle (sc_expected session_scenario)) = requests (indexed (sc_stimuli session_scenario))"
  by (rule every_lifecycle_call_settles [OF session_accepted session_mode])

definition until_stopped :: "coordinator_status list" where
  "until_stopped = [StConnecting, StAuthenticating, StSynchronizing, StReady, StSynchronizing, StReady, StStopping]"

lemma session_statuses: "ob_statuses (sc_expected session_scenario) = until_stopped @ StStopped # []"
  by code_simp

theorem stopped_is_final_witness: "\<exists>earlier. until_stopped = earlier @ [StStopping]"
  using stopped_is_final [OF session_accepted session_mode session_statuses] by simp

section \<open>Scenarios at the edges of the checks\<close>

text \<open>
  A declaration update made while disconnected opens a transaction at once, and the welcome of the
  reconnection replaces it: the promise of the update is never settled, and the scenario is accepted.
  The last welcome of this scenario finds a transaction open, which \<open>welcomes_find_none_open\<close> excludes.
\<close>

definition offline_update :: "stimulus list" where
  "offline_update = first_part @ [DisconnectStimulus PhaseReady,
     DeclarationUpdate 2 [js ''p''] [DFunctions] one_function, WelcomeStimulus 8 2]
     @ barrier_acks 1 @ [StopStimulus (js ''t'')]"

definition offline_scenario :: scenario where
  "offline_scenario = projr (sdk_scenario offline_update [])"

lemma abandoned_promise_is_accepted:
  "assert_causal_contract offline_scenario = Inr ()"
  "concat (map promise_ids (sc_stimuli offline_scenario)) = [js ''p'']"
  "ob_promises (sc_expected offline_scenario) = []"
  "\<not> welcomes_find_none_open (sc_stimuli offline_scenario)"
  by code_simp+

text \<open>
  Nothing in the three loops asks for a connection: acknowledgements of an update made while disconnected
  make the session ready, and an operation is then accepted without a welcome.
\<close>

definition ready_offline :: "stimulus list" where
  "ready_offline = first_part @ [DisconnectStimulus PhaseReady,
     DeclarationUpdate 2 [js ''p''] [DFunctions] one_function] @ barrier_acks 2
     @ [OperationStimulus set_operation, OperationTerminal (js ''o'') Applied, StopStimulus (js ''t'')]"

definition ready_offline_scenario :: scenario where
  "ready_offline_scenario = projr (sdk_scenario ready_offline applied_once)"

lemma operation_while_disconnected_is_accepted:
  "assert_causal_contract ready_offline_scenario = Inr ()"
  "sc_stimuli ready_offline_scenario = (first_part @ [DisconnectStimulus PhaseReady,
       DeclarationUpdate 2 [js ''p''] [DFunctions] one_function] @ barrier_acks 2)
     @ OperationStimulus set_operation # [OperationTerminal (js ''o'') Applied, StopStimulus (js ''t'')]"
  by code_simp+

text \<open>An acknowledgement without a session is a \<open>TypeError\<close> of the check, not a contract violation.\<close>

lemma acknowledgement_without_session_is_a_type_error:
  "lifecycle_run [StartStimulus (js ''s''), DeclarationAck DFunctions 1] = Inl Trace_TypeError"
  by code_simp

text \<open>
  The lifecycle check takes every uncorrelated error \<open>invalid_lifecycle\<close> for a repeated start, and the
  error check demands one for a declaration that is rejected with that code: no scenario with such a
  rejection is accepted.
\<close>

fun rejects_lifecycle :: "stimulus \<Rightarrow> bool" where
  "rejects_lifecycle (DeclarationError _ _ code) \<longleftrightarrow> code = js ''invalid_lifecycle''"
| "rejects_lifecycle _ = False"

definition lifecycle_errors :: "(jstr \<times> int) list \<Rightarrow> nat" where
  "lifecycle_errors errors = length (filter (\<lambda>e. fst e = js ''invalid_lifecycle'') errors)"

lemma lifecycle_errors_simps [simp]:
  "lifecycle_errors [] = 0"
  "lifecycle_errors ((code, i) # errors) =
     (if code = js ''invalid_lifecycle'' then Suc (lifecycle_errors errors) else lifecycle_errors errors)"
  by (simp_all add: lifecycle_errors_def)

lemma lifecycle_errors_started:
  "lifecycle_errors (uncorrelated_from True es)
     = length (filter is_start (map snd es)) + length (filter rejects_lifecycle (map snd es))"
proof (induction es)
  case (Cons e es)
  then show ?case by (cases e; cases "snd e") auto
qed simp

lemma lifecycle_errors_fresh:
  "lifecycle_errors (uncorrelated_from False es)
     = length (filter is_start (map snd es)) - 1 + length (filter rejects_lifecycle (map snd es))"
proof (induction es)
  case (Cons e es)
  then show ?case by (cases e; cases "snd e") (auto simp: lifecycle_errors_started)
qed simp

lemma duplicate_start_errors_eq: "duplicate_start_errors errors = lifecycle_errors (uncorrelated_errors errors)"
  by (induction errors) (auto simp: duplicate_start_errors_def uncorrelated_errors_def lifecycle_errors_def)

lemma rejected_lifecycle_is_never_accepted:
  assumes "sc_mode sc = ModeSdk" "x \<in> set (sc_stimuli sc)" "rejects_lifecycle x"
  shows "assert_causal_contract sc \<noteq> Inr ()"
proof
  assume accepted: "assert_causal_contract sc = Inr ()"
  note parts = causal_parts [OF this]
  have "duplicate_start_errors (ob_errors (sc_expected sc)) = length (filter is_start (sc_stimuli sc)) - 1"
    using parts(1) assms(1)
    by (auto simp: assert_lifecycle_causality_def bind_r_Inr_iff if_Inl_eq_Inr simp del: not_None_eq)
  moreover have "uncorrelated_errors (ob_errors (sc_expected sc)) = uncorrelated_from False (indexed (sc_stimuli sc))"
    using parts(3) by (auto simp: assert_error_causality_def Let_def bind_r_Inr_iff if_Inl_eq_Inr)
  ultimately have "length (filter rejects_lifecycle (sc_stimuli sc)) = 0"
    by (simp add: duplicate_start_errors_eq lifecycle_errors_fresh)
  with assms(2,3) show False by (auto simp: filter_empty_conv)
qed

end
