(* ===== verification/Runtime_Host.thy ===== *)
theory Runtime_Host
  imports Broker_Messages
begin

text \<open>
  \<open>src/app/component-runtime-host.ts\<close>: the trusted side of the broker protocol. The variables of
  \<open>mountComponentRuntime\<close> are the fields of \<open>session\<close>; a timer is the flag that it is armed; the envelopes
  posted to the port, the lifecycle callbacks, the rendered trees and the outcome of the mount promise are
  kept in the state. The callbacks of the shell are taken to return.
\<close>

section \<open>Capabilities\<close>

definition no_capabilities :: capability_requirements where
  "no_capabilities = \<lparr>state_read = [], event_subscribe = [], event_publish = [], req_call = [], presentation = []\<rparr>"

definition intersect_list :: "jstr list \<Rightarrow> jstr list \<Rightarrow> jstr list res" where
  "intersect_list required allowed =
     fold_r (\<lambda>kept entry. bind_r (is_pattern_covered allowed entry) (\<lambda>covered.
         Inr (if covered then kept @ [entry] else kept))) [] required"

text \<open>The object literal given to \<open>validateRequirements\<close> is \<open>requirements_value\<close> of \<open>Pointer\<close>.\<close>

definition intersect_capabilities ::
  "capability_requirements \<Rightarrow> capability_requirements \<Rightarrow> capability_requirements res" where
  "intersect_capabilities required policy =
     bind_r (intersect_list (state_read required) (state_read policy)) (\<lambda>sr.
     bind_r (intersect_list (event_subscribe required) (event_subscribe policy)) (\<lambda>es.
     bind_r (intersect_list (event_publish required) (event_publish policy)) (\<lambda>ep.
     bind_r (intersect_list (req_call required) (req_call policy)) (\<lambda>ca.
     bind_r (intersect_list (presentation required) (presentation policy)) (\<lambda>pr.
       validate_requirements (requirements_value
         \<lparr>state_read = sr, event_subscribe = es, event_publish = ep, req_call = ca, presentation = pr\<rparr>))))))"

section \<open>Failures\<close>

text \<open>
  What the host reports: the code of a contract violation, its own codes, or the code a
  \<open>runtime.error\<close> message carried, converted to a string.
\<close>

datatype failure =
    Violated violation
  | AbiMismatch
  | SandboxOriginInvalid
  | ReadyTimeout
  | Reported jsval

text \<open>\<open>value.replace(/\/+$/u, '')\<close>.\<close>

definition without_slashes :: "jstr \<Rightarrow> jstr" where
  "without_slashes value = rev (dropWhile (\<lambda>u. u = 0x2F) (rev value))"

definition assert_sandbox_origin :: "url_parser \<Rightarrow> jstr \<Rightarrow> jstr \<Rightarrow> failure + jstr" where
  "assert_sandbox_origin parse_url value host_origin =
     (case parse_url value of
        None \<Rightarrow> Inl SandboxOriginInvalid
      | Some url \<Rightarrow>
          if url_protocol url \<noteq> js ''https:'' then Inl SandboxOriginInvalid
          else if url_origin url \<noteq> without_slashes value then Inl SandboxOriginInvalid
          else if url_origin url = host_origin then Inl SandboxOriginInvalid
          else Inr (url_origin url))"

section \<open>State\<close>

datatype runtime_lifecycle =
  LifeStarting | LifeBound | LifeStaging | LifeActive | LifeFailed | LifeTerminated

text \<open>The payload of \<open>runtime.load\<close> and the other messages to the broker.\<close>

record load_message =
  lm_release :: release_identity
  lm_grant :: capability_requirements
  lm_initial_state :: fields
  lm_state_revision :: int
  lm_staging :: bool
  lm_locale :: jstr
  lm_theme :: theme
  lm_artifact :: bytes

datatype broker_message =
    SendLoad load_message
  | SendSnapshot int fields
  | SendStale int jstr
  | SendActivate
  | SendPing int
  | SendInteraction int jstr jstr "jsval option"
  | SendDispose

record sent_envelope =
  se_instance :: jstr
  se_epoch :: int
  se_seq :: int
  se_message :: broker_message

datatype mount_promise = MountPending | MountResolved | MountRejected

record mount_options =
  mo_aborted :: bool
  mo_sandbox_origin :: jstr
  mo_host_origin :: jstr
  mo_policy :: "capability_requirements option"
  mo_initial_state :: "fields option"
  mo_state_revision :: "int option"
  mo_staging :: "bool option"
  mo_locale :: "jstr option"
  mo_theme :: "theme option"

record session =
  hs_instance :: jstr
  hs_nonce :: jstr
  hs_outgoing_seq :: int
  hs_expected_seq :: int
  hs_render_revision :: int
  hs_lifecycle :: runtime_lifecycle
  hs_port :: bool
  hs_frame :: bool
  hs_heartbeat :: bool
  hs_orphan_heartbeats :: nat
  hs_ready_timer :: bool
  hs_pending_probe :: "int option"
  hs_next_probe :: int
  hs_missed :: nat
  hs_ready_listener :: bool
  hs_abort_listener :: bool
  hs_disposed :: bool
  hs_worker_ready :: bool
  hs_pending_state :: "(int \<times> fields) option"
  hs_pending_stale :: "(int \<times> jstr) option"
  hs_published_revision :: int
  hs_load :: load_message
  hs_sent :: "sent_envelope list"
  hs_notices :: "(runtime_lifecycle \<times> failure option) list"
  hs_trees :: "(jsval \<times> int) list"
  hs_mount :: mount_promise

text \<open>
  An interval that a second \<open>runtime.bound\<close> leaves running, because the variable holds only the last
  one, is counted in \<open>hs_orphan_heartbeats\<close>.
\<close>

definition host_epoch :: int where
  "host_epoch = 1"

section \<open>Mounting\<close>

definition load_of :: "component_pointer \<Rightarrow> bytes \<Rightarrow> mount_options \<Rightarrow> capability_requirements \<Rightarrow> load_message" where
  "load_of pointer artifact options grant =
     \<lparr>lm_release = \<lparr>rel_home_id = ptr_home_id pointer, rel_generation = ptr_generation pointer,
        rel_release = ptr_release pointer, rel_sha256 = ptr_sha256 pointer, rel_size = ptr_size pointer\<rparr>,
      lm_grant = grant,
      lm_initial_state = (case mo_initial_state options of None \<Rightarrow> [] | Some fs \<Rightarrow> fs),
      lm_state_revision = (case mo_state_revision options of None \<Rightarrow> 1 | Some r \<Rightarrow> r),
      lm_staging = (case mo_staging options of None \<Rightarrow> False | Some b \<Rightarrow> b),
      lm_locale = (case mo_locale options of None \<Rightarrow> js ''en'' | Some l \<Rightarrow> l),
      lm_theme = (case mo_theme options of None \<Rightarrow> System | Some t \<Rightarrow> t),
      lm_artifact = artifact\<rparr>"

definition initial_session :: "jstr \<Rightarrow> jstr \<Rightarrow> load_message \<Rightarrow> session" where
  "initial_session inst nonce load =
     \<lparr>hs_instance = inst, hs_nonce = nonce, hs_outgoing_seq = 1, hs_expected_seq = 1, hs_render_revision = 0,
      hs_lifecycle = LifeStarting, hs_port = False, hs_frame = True, hs_heartbeat = False,
      hs_orphan_heartbeats = 0, hs_ready_timer = True, hs_pending_probe = None, hs_next_probe = 1,
      hs_missed = 0, hs_ready_listener = True, hs_abort_listener = True, hs_disposed = False,
      hs_worker_ready = False, hs_pending_state = None, hs_pending_stale = None,
      hs_published_revision = lm_state_revision load, hs_load = load, hs_sent = [], hs_notices = [],
      hs_trees = [], hs_mount = MountPending\<rparr>"

text \<open>
  \<open>None\<close> is the \<open>AbortError\<close> of a signal that was aborted before the mount. \<open>inst\<close> and \<open>nonce\<close> are the
  two identifiers \<open>newId\<close> draws.
\<close>

definition mount_component_runtime ::
  "url_parser \<Rightarrow> jstr \<Rightarrow> jstr \<Rightarrow> component_pointer \<Rightarrow> bytes \<Rightarrow> mount_options \<Rightarrow> failure option + session" where
  "mount_component_runtime parse_url inst nonce pointer artifact options =
     (if mo_aborted options then Inl None
      else if ptr_abi pointer \<noteq> COMPONENT_ABI then Inl (Some AbiMismatch)
      else
        (case assert_sandbox_origin parse_url (mo_sandbox_origin options) (mo_host_origin options) of
           Inl f \<Rightarrow> Inl (Some f)
         | Inr _ \<Rightarrow>
             (case intersect_capabilities (ptr_requires pointer)
                     (case mo_policy options of None \<Rightarrow> no_capabilities | Some p \<Rightarrow> p) of
                Inl e \<Rightarrow> Inl (Some (Violated e))
              | Inr grant \<Rightarrow> Inr (initial_session inst nonce (load_of pointer artifact options grant)))))"

section \<open>Ending a session\<close>

definition host_cleanup :: "session \<Rightarrow> session" where
  "host_cleanup s = s\<lparr>hs_abort_listener := False, hs_heartbeat := False, hs_ready_timer := False,
     hs_ready_listener := False, hs_port := False, hs_pending_state := None, hs_pending_stale := None,
     hs_frame := False\<rparr>"

definition settle_session :: "runtime_lifecycle \<Rightarrow> failure option \<Rightarrow> session \<Rightarrow> session" where
  "settle_session next reason s =
     (if hs_disposed s then s
      else (let s1 = host_cleanup (s\<lparr>hs_disposed := True, hs_lifecycle := next\<rparr>)
            in s1\<lparr>hs_notices := hs_notices s1 @ [(next, reason)]\<rparr>))"

text \<open>\<open>fail\<close>: an exception of another class is reported as \<open>bridge_protocol_violation\<close>.\<close>

definition violated :: "violation \<Rightarrow> failure" where
  "violated e = Violated (if e = ThrownTypeError then BridgeProtocolViolation else e)"

definition fail_session :: "failure \<Rightarrow> session \<Rightarrow> session" where
  "fail_session reason = settle_session LifeFailed (Some reason)"

definition send_broker :: "broker_message \<Rightarrow> session \<Rightarrow> session" where
  "send_broker m s =
     (if \<not> hs_port s \<or> hs_disposed s then s
      else s\<lparr>hs_sent := hs_sent s @ [\<lparr>se_instance = hs_instance s, se_epoch = host_epoch,
                se_seq = hs_outgoing_seq s, se_message = m\<rparr>],
             hs_outgoing_seq := hs_outgoing_seq s + 1\<rparr>)"

definition enter_lifecycle :: "runtime_lifecycle \<Rightarrow> session \<Rightarrow> session" where
  "enter_lifecycle next s = s\<lparr>hs_lifecycle := next, hs_notices := hs_notices s @ [(next, None)]\<rparr>"

section \<open>Loading and the heartbeat\<close>

definition load_runtime :: "session \<Rightarrow> session" where
  "load_runtime s =
     (let s1 = send_broker (SendLoad (hs_load s)) s in
      s1\<lparr>hs_orphan_heartbeats := (if hs_heartbeat s1 then hs_orphan_heartbeats s1 + 1 else hs_orphan_heartbeats s1),
         hs_heartbeat := True\<rparr>)"

definition host_heartbeat :: "session \<Rightarrow> session" where
  "host_heartbeat s =
     (if \<not> hs_port s \<or> (hs_lifecycle s \<noteq> LifeStaging \<and> hs_lifecycle s \<noteq> LifeActive) then s
      else if hs_pending_probe s \<noteq> None then
        (let s1 = s\<lparr>hs_missed := hs_missed s + 1\<rparr> in
         if hs_missed s1 \<ge> missed_heartbeats LIMITS then fail_session (Violated RuntimeUnresponsive) s1 else s1)
      else send_broker (SendPing (hs_next_probe s))
             (s\<lparr>hs_pending_probe := Some (hs_next_probe s), hs_next_probe := hs_next_probe s + 1\<rparr>))"

section \<open>Messages of the broker\<close>

definition BROKER_MESSAGE_KINDS :: "string list" where
  "BROKER_MESSAGE_KINDS =
     [''runtime.bound'', ''runtime.worker_ready'', ''runtime.active'', ''runtime.pong'', ''runtime.error'',
      ''runtime.terminated'', ''ui.render'', ''event.subscribe'', ''event.unsubscribe'', ''event.publish'',
      ''call.start'', ''call.credit'', ''call.cancel'', ''log.write'']"

text \<open>\<open>payload.name\<close> of any value; reading a property of \<open>null\<close> or \<open>undefined\<close> is a \<open>TypeError\<close>.\<close>

definition property :: "jsval \<Rightarrow> string \<Rightarrow> jsval res" where
  "property v name =
     (case v of
        JUndef \<Rightarrow> fail ThrownTypeError
      | JNull \<Rightarrow> fail ThrownTypeError
      | JRec _ fs \<Rightarrow> Inr (get fs name)
      | JArr _ _ extra \<Rightarrow> Inr (get extra name)
      | _ \<Rightarrow> Inr JUndef)"

type_synonym session_outcome = "unit res \<times> session"

definition try_session :: "session \<Rightarrow> 'a res \<Rightarrow> ('a \<Rightarrow> session_outcome) \<Rightarrow> session_outcome" where
  "try_session s r f = (case r of Inl e \<Rightarrow> (Inl e, s) | Inr x \<Rightarrow> f x)"

definition host_worker_ready :: "session \<Rightarrow> session" where
  "host_worker_ready s =
     (let s1 = enter_lifecycle LifeStaging (s\<lparr>hs_worker_ready := True\<rparr>);
          s2 = (case hs_pending_state s1 of None \<Rightarrow> s1 | Some (revision, vals) \<Rightarrow> send_broker (SendSnapshot revision vals) s1);
          s3 = (case hs_pending_stale s2 of None \<Rightarrow> s2 | Some (revision, reason) \<Rightarrow> send_broker (SendStale revision reason) s2)
      in s3\<lparr>hs_pending_state := None, hs_pending_stale := None\<rparr>)"

definition host_render :: "jsval \<Rightarrow> session \<Rightarrow> session_outcome" where
  "host_render payload s =
     try_session s (property payload ''render_revision'') (\<lambda>revision.
       if \<not> (case revision of JNum n \<Rightarrow> num_is_safe_integer n \<and> num_int n = hs_render_revision s + 1 | _ \<Rightarrow> False)
       then (Inl RenderInvalid, s)
       else try_session s (property payload ''tree'') (\<lambda>tree.
         let s1 = s\<lparr>hs_render_revision := hs_render_revision s + 1,
                    hs_trees := hs_trees s @ [(tree, hs_render_revision s + 1)]\<rparr>
         in (Inr (), if hs_lifecycle s1 = LifeStaging then send_broker SendActivate s1 else s1)))"

definition host_pong :: "jsval \<Rightarrow> session \<Rightarrow> session_outcome" where
  "host_pong payload s =
     (case payload of
        JRec _ fs \<Rightarrow>
          (case get fs ''challenge'' of
             JNum n \<Rightarrow>
               (if length fs \<noteq> 1 \<or> \<not> num_is_safe_integer n \<or> hs_pending_probe s \<noteq> Some (num_int n)
                then (Inl BridgeProtocolViolation, s)
                else (Inr (), s\<lparr>hs_pending_probe := None, hs_missed := 0\<rparr>))
           | _ \<Rightarrow> (Inl BridgeProtocolViolation, s))
      | _ \<Rightarrow> (Inl BridgeProtocolViolation, s))"

text \<open>\<open>String(payload.name ?? fallback)\<close>, which throws where the conversion does.\<close>

definition reported :: "jsval \<Rightarrow> string \<Rightarrow> string \<Rightarrow> jsval res" where
  "reported payload name fallback =
     bind_r (property payload name) (\<lambda>v.
       if v = JUndef \<or> v = JNull then Inr (JStr (js fallback))
       else if string_throws v then fail ThrownTypeError else Inr v)"

definition host_runtime_error :: "jsval \<Rightarrow> session \<Rightarrow> session_outcome" where
  "host_runtime_error payload s =
     try_session s (reported payload ''code'' ''runtime_unresponsive'') (\<lambda>code.
     try_session s (reported payload ''message'' ''The component runtime failed'') (\<lambda>_.
       (Inr (), settle_session LifeFailed (Some (Reported code)) s)))"

definition session_switch :: "jstr \<Rightarrow> jsval \<Rightarrow> session \<Rightarrow> session_outcome" where
  "session_switch kind payload s =
     (if kind = js ''runtime.bound'' then (Inr (), load_runtime (enter_lifecycle LifeBound s))
      else if kind = js ''runtime.worker_ready'' then (Inr (), host_worker_ready s)
      else if kind = js ''ui.render'' then host_render payload s
      else if kind = js ''runtime.active'' then (Inr (), enter_lifecycle LifeActive s)
      else if kind = js ''runtime.pong'' then host_pong payload s
      else if kind = js ''call.start'' then (Inl CapabilityDenied, s)
      else if kind = js ''event.publish'' then (Inl CapabilityDenied, s)
      else if kind = js ''runtime.error'' then host_runtime_error payload s
      else if kind = js ''runtime.terminated'' then (Inr (), settle_session LifeTerminated None s)
      else (Inr (), s))"

definition session_context :: "session \<Rightarrow> envelope_context" where
  "session_context s =
     \<lparr>ctx_instance = hs_instance s, ctx_epoch = host_epoch, ctx_expected_seq = hs_expected_seq s,
      ctx_allowed_kinds = BROKER_MESSAGE_KINDS, ctx_allow_binary = Some True, ctx_max_bytes = None\<rparr>"

definition broker_message_body :: "jsval \<Rightarrow> nat \<Rightarrow> session \<Rightarrow> session_outcome" where
  "broker_message_body data ports s =
     (if ports > 0 then (Inl BridgeProtocolViolation, s)
      else try_session s (validate_envelope data (session_context s)) (\<lambda>env.
        session_switch (env_kind env) (env_payload env) (s\<lparr>hs_expected_seq := hs_expected_seq s + 1\<rparr>)))"

definition handle_broker_message :: "jsval \<Rightarrow> nat \<Rightarrow> session \<Rightarrow> session" where
  "handle_broker_message data ports s =
     (case broker_message_body data ports s of
        (Inl e, s1) \<Rightarrow> fail_session (violated e) s1
      | (Inr _, s1) \<Rightarrow> s1)"

section \<open>The session object\<close>

definition interact :: "jstr \<Rightarrow> jstr \<Rightarrow> jsval option \<Rightarrow> session \<Rightarrow> session" where
  "interact nid event val s =
     (if hs_lifecycle s \<noteq> LifeActive \<and> hs_lifecycle s \<noteq> LifeStaging then s
      else send_broker (SendInteraction (hs_render_revision s) nid event val) s)"

definition publish_state :: "fields \<Rightarrow> jnum \<Rightarrow> session \<Rightarrow> session" where
  "publish_state vals revision s =
     (if hs_disposed s then s
      else if \<not> num_is_safe_integer revision \<or> num_int revision < hs_published_revision s then s
      else
        (let s1 = s\<lparr>hs_published_revision := num_int revision\<rparr>;
             granted = select_granted_state vals (state_read (lm_grant (hs_load s)))
         in if \<not> hs_worker_ready s1
            then s1\<lparr>hs_pending_state := Some (num_int revision, granted), hs_pending_stale := None\<rparr>
            else send_broker (SendSnapshot (num_int revision) granted) s1))"

definition mark_state_stale :: "jnum \<Rightarrow> jstr \<Rightarrow> session \<Rightarrow> session" where
  "mark_state_stale revision reason s =
     (if hs_disposed s then s
      else if \<not> num_is_safe_integer revision \<or> num_int revision < 1 then s
      else if \<not> hs_worker_ready s then s\<lparr>hs_pending_stale := Some (num_int revision, reason)\<rparr>
      else send_broker (SendStale (num_int revision) reason) s)"

definition dispose_session :: "session \<Rightarrow> session" where
  "dispose_session s =
     (if hs_disposed s then s else settle_session LifeTerminated None (send_broker SendDispose s))"

section \<open>The frame\<close>

definition reject_mount :: "session \<Rightarrow> session" where
  "reject_mount s = (if hs_mount s = MountPending then s\<lparr>hs_mount := MountRejected\<rparr> else s)"

definition is_ready_announcement :: "jsval \<Rightarrow> jstr \<Rightarrow> bool" where
  "is_ready_announcement value nonce =
     (case value of
        JRec _ fs \<Rightarrow>
          length fs = 3 \<and> set (map fst fs) = {js ''nonce'', js ''runtime'', js ''type''}
          \<and> strict_eq_str (get fs ''type'') (js ''miakapp.runtime.ready'')
          \<and> strict_eq_str (get fs ''runtime'') (js ''1'') \<and> strict_eq_str (get fs ''nonce'') nonce
      | _ \<Rightarrow> False)"

definition ready_message :: "bool \<Rightarrow> jsval \<Rightarrow> jstr \<Rightarrow> session \<Rightarrow> session" where
  "ready_message from_frame data origin s =
     (if \<not> from_frame then s
      else if \<not> is_ready_announcement data (hs_nonce s) then s
      else if origin \<noteq> js ''null'' then reject_mount (fail_session SandboxOriginInvalid s)
      else s\<lparr>hs_ready_timer := False, hs_ready_listener := False, hs_port := True,
             hs_mount := (if hs_mount s = MountPending then MountResolved else hs_mount s)\<rparr>)"

definition ready_timeout :: "session \<Rightarrow> session" where
  "ready_timeout s = reject_mount (fail_session ReadyTimeout s)"

definition abort_mount :: "session \<Rightarrow> session" where
  "abort_mount s = reject_mount (settle_session LifeTerminated None s)"

section \<open>Events\<close>

text \<open>
  What can reach a session: a listener or a timer while it is registered, a message of the broker while
  the port is bound, the session object once the mount has resolved.
\<close>

datatype session_event =
    FrameMessage bool jsval jstr
  | FrameTimeout
  | MountAborted
  | BrokerMessage jsval nat
  | HostHeartbeat
  | Interact jstr jstr "jsval option"
  | PublishState fields jnum
  | MarkStale jnum jstr
  | DisposeSession

fun mount_step :: "session_event \<Rightarrow> session \<Rightarrow> session" where
  "mount_step (FrameMessage from_frame data origin) s =
     (if hs_ready_listener s then ready_message from_frame data origin s else s)"
| "mount_step FrameTimeout s = (if hs_ready_timer s then ready_timeout s else s)"
| "mount_step MountAborted s = (if hs_abort_listener s then abort_mount s else s)"
| "mount_step (BrokerMessage data ports) s =
     (if hs_port s then handle_broker_message data ports s else s)"
| "mount_step HostHeartbeat s =
     (if hs_heartbeat s \<or> hs_orphan_heartbeats s > 0 then host_heartbeat s else s)"
| "mount_step (Interact nid event val) s = (if hs_mount s = MountResolved then interact nid event val s else s)"
| "mount_step (PublishState vals revision) s =
     (if hs_mount s = MountResolved then publish_state vals revision s else s)"
| "mount_step (MarkStale revision reason) s =
     (if hs_mount s = MountResolved then mark_state_stale revision reason s else s)"
| "mount_step DisposeSession s = (if hs_mount s = MountResolved then dispose_session s else s)"

definition mount_run :: "session_event list \<Rightarrow> session \<Rightarrow> session" where
  "mount_run events s = fold mount_step events s"

section \<open>What the messages are on the wire\<close>

text \<open>The options \<open>src/app/app.tsx\<close> mounts a release with.\<close>

definition shell_options :: "jstr \<Rightarrow> jstr \<Rightarrow> component_pointer \<Rightarrow> mount_options" where
  "shell_options sandbox_origin host_origin pointer =
     \<lparr>mo_aborted = False, mo_sandbox_origin = sandbox_origin, mo_host_origin = host_origin,
      mo_policy = Some (platform_grant_ceiling (ptr_requires pointer)), mo_initial_state = None,
      mo_state_revision = None, mo_staging = None, mo_locale = None, mo_theme = None\<rparr>"

text \<open>The \<open>interact\<close> callback of the shell: the first argument of the session is its handler.\<close>

definition shell_interact :: "jstr \<Rightarrow> jstr \<Rightarrow> jsval option \<Rightarrow> session \<Rightarrow> session" where
  "shell_interact handler event val s = interact handler event val s"

definition theme_name :: "theme \<Rightarrow> string" where
  "theme_name t = (case t of Light \<Rightarrow> ''light'' | Dark \<Rightarrow> ''dark'' | System \<Rightarrow> ''system'')"

definition integer :: "int \<Rightarrow> jsval" where
  "integer i = JNum (NInt i)"

definition load_value :: "load_message \<Rightarrow> jsval" where
  "load_value m = JRec 0
     [(js ''release'', JRec 0
        [(js ''home_id'', JStr (rel_home_id (lm_release m))), (js ''generation'', integer (rel_generation (lm_release m))),
         (js ''release'', JStr (rel_release (lm_release m))), (js ''abi'', JStr COMPONENT_ABI),
         (js ''sha256'', JStr (rel_sha256 (lm_release m))), (js ''size'', integer (rel_size (lm_release m)))]),
      (js ''grant'', requirements_value (lm_grant m)),
      (js ''initial_state'', fresh_record (lm_initial_state m)),
      (js ''state_revision'', integer (lm_state_revision m)),
      (js ''staging'', JBool (lm_staging m)),
      (js ''locale'', JStr (lm_locale m)),
      (js ''theme'', JStr (js (theme_name (lm_theme m)))),
      (js ''artifact'', JBuffer (lm_artifact m))]"

definition message_kind :: "broker_message \<Rightarrow> string" where
  "message_kind m =
     (case m of
        SendLoad _ \<Rightarrow> ''runtime.load''
      | SendSnapshot _ _ \<Rightarrow> ''state.snapshot''
      | SendStale _ _ \<Rightarrow> ''state.stale''
      | SendActivate \<Rightarrow> ''runtime.activate''
      | SendPing _ \<Rightarrow> ''runtime.ping''
      | SendInteraction _ _ _ _ \<Rightarrow> ''ui.interaction''
      | SendDispose \<Rightarrow> ''runtime.dispose'')"

definition message_payload :: "broker_message \<Rightarrow> jsval" where
  "message_payload m =
     (case m of
        SendLoad load \<Rightarrow> load_value load
      | SendSnapshot revision vals \<Rightarrow>
          JRec 0 [(js ''revision'', integer revision), (js ''values'', fresh_record vals)]
      | SendStale revision reason \<Rightarrow> JRec 0 [(js ''revision'', integer revision), (js ''reason'', JStr reason)]
      | SendActivate \<Rightarrow> JRec 0 []
      | SendPing challenge \<Rightarrow> JRec 0 [(js ''challenge'', integer challenge)]
      | SendInteraction revision nid event val \<Rightarrow>
          JRec 0 ([(js ''render_revision'', integer revision), (js ''node_id'', JStr nid), (js ''event'', JStr event)]
            @ (case val of None \<Rightarrow> [] | Some v \<Rightarrow> [(js ''value'', v)]))
      | SendDispose \<Rightarrow> JRec 0 [])"

end
