(* ===== verification/Host_Properties.thy ===== *)
theory Host_Properties
  imports Runtime_Host Contract_Properties Broker_Invariant
begin

text \<open>
  The trusted host of a component: what it grants, what it sends in any sequence of events, and how its
  messages meet the broker of \<open>Broker\<close>, which receives them.
\<close>

section \<open>The grant\<close>

lemma is_pattern_covered_total:
  assumes "pattern_ok p" shows "\<exists>b. is_pattern_covered qs p = Inr b"
proof (cases "ends_with p (js ''.*'')")
  case True
  then obtain base where p: "p = base @ js ''.*''" unfolding ends_with_wildcard_iff by blast
  have "\<not> resource_name_ok p" using True resource_name_ok_no_wildcard by blast
  then have "resource_name_ok base" using assms p by (auto simp: pattern_ok_def)
  then have "validate_resource_name (JStr base) = Inr base" by (simp add: validate_resource_name_Inr_iff)
  then show ?thesis using True by (simp add: is_pattern_covered_def p)
next
  case False
  then have "resource_name_ok p" using assms by (auto simp: pattern_ok_def)
  with False show ?thesis
    by (simp add: is_pattern_covered_def caps.grants_answers)
qed

lemma intersect_list_eq:
  assumes "\<forall>p\<in>set required. pattern_ok p"
  shows "intersect_list required allowed = Inr (filter (\<lambda>p. is_pattern_covered allowed p = Inr True) required)"
proof -
  have "fold_r (\<lambda>kept entry. bind_r (is_pattern_covered allowed entry) (\<lambda>covered.
         Inr (if covered then kept @ [entry] else kept))) kept required
      = Inr (kept @ filter (\<lambda>p. is_pattern_covered allowed p = Inr True) required)" for kept
    using assms
  proof (induction required arbitrary: kept)
    case (Cons p ps)
    from Cons.prems obtain b where "is_pattern_covered allowed p = Inr b"
      using is_pattern_covered_total [of p allowed] by auto
    with Cons show ?case by simp
  qed simp
  then show ?thesis by (simp add: intersect_list_def)
qed

lemma intersect_list_granted:
  assumes "intersect_list required allowed = Inr kept" "is_capability_granted kept name = Inr True"
  shows "is_capability_granted required name = Inr True \<and> is_capability_granted allowed name = Inr True"
proof -
  have "set kept \<subseteq> set required \<and> (\<forall>p\<in>set kept. is_pattern_covered allowed p = Inr True)"
    using assms(1) unfolding intersect_list_def
    by (rule fold_r_invariant) (auto simp: res_simps split: if_splits)
  with assms(2) show ?thesis using caps.granted_mono caps.covered_list by blast
qed

text \<open>A grant reads, publishes and calls no more than another.\<close>

definition grants_no_more :: "capability_requirements \<Rightarrow> capability_requirements \<Rightarrow> bool" where
  "grants_no_more g h \<longleftrightarrow> (\<forall>kind\<in>{state_read, event_subscribe, event_publish, req_call, presentation}. \<forall>name.
     is_capability_granted (kind g) name = Inr True \<longrightarrow> is_capability_granted (kind h) name = Inr True)"

lemma intersect_grants_no_more:
  assumes "intersect_capabilities required policy = Inr grant"
  shows "grants_no_more grant required \<and> grants_no_more grant policy"
proof -
  obtain sr es ep ca pr where
    parts: "intersect_list (state_read required) (state_read policy) = Inr sr"
      "intersect_list (event_subscribe required) (event_subscribe policy) = Inr es"
      "intersect_list (event_publish required) (event_publish policy) = Inr ep"
      "intersect_list (req_call required) (req_call policy) = Inr ca"
      "intersect_list (presentation required) (presentation policy) = Inr pr"
    and "validate_requirements (requirements_value
         \<lparr>state_read = sr, event_subscribe = es, event_publish = ep, req_call = ca, presentation = pr\<rparr>) = Inr grant"
    using assms by (auto simp: intersect_capabilities_def bind_r_Inr_iff)
  then have "grant = \<lparr>state_read = sr, event_subscribe = es, event_publish = ep, req_call = ca, presentation = pr\<rparr>"
    by (simp add: validate_requirements_value)
  with parts [THEN intersect_list_granted] show ?thesis by (auto simp: grants_no_more_def)
qed

section \<open>The ceiling of the platform\<close>

lemma reserved_covered:
  assumes "starts_with p (js ''miakapp.'')" "is_pattern_covered qs p = Inr True"
  shows "\<exists>q\<in>set qs. starts_with q (js ''miakapp.'')"
proof -
  have star: "starts_with (js ''miakapp.*'') (js ''miakapp.'')" by code_simp
  from is_pattern_covered_True [OF assms(2)] show ?thesis
  proof (elim disjE exE bexE conjE)
    assume "p \<in> set qs"
    with assms(1) show ?thesis by blast
  next
    fix q assume "q \<in> set qs" "pattern_denotes q p"
    with reserved_prefix [OF this(2) assms(1)] star show ?thesis by blast
  next
    fix base q base'
    assume p: "p = base @ js ''.*''" and q: "q \<in> set qs" "q = base' @ js ''.*''"
      and sp: "strict_prefix (segments base') (segments base)"
    have "starts_with base (js ''miakapp.'')"
    proof (rule ccontr)
      assume "\<not> starts_with base (js ''miakapp.'')"
      with assms(1) p obtain rest where rest: "js ''miakapp.'' = base @ rest" "rest \<noteq> []" "prefix rest [dot, 0x2A]"
        by (auto simp: starts_with_def js_wildcard prefix_append)
      then consider "rest = [dot]" | "rest = [dot, 0x2A]" by (auto simp: prefix_Cons)
      then show False
      proof cases
        case 1
        then have "base = js ''miakapp''" using rest(1) by (simp add: js_def dot_def)
        moreover have "segments (js ''miakapp'') = [js ''miakapp'']" by code_simp
        ultimately have "segments base = [base]" by simp
        with sp show False by (auto simp: strict_prefix_def segments_def prefix_Cons)
      next
        case 2
        then have "last (js ''miakapp.'') = 0x2A" using rest(1) by simp
        then show False by (simp add: js_def)
      qed
    qed
    moreover have "pattern_denotes q base" using q sp by (auto simp: pattern_denotes_def)
    ultimately show ?thesis using reserved_prefix [of q base] star q(1) by blast
  qed
qed

lemma covered_itself: "pattern_ok p \<Longrightarrow> p \<in> set qs \<Longrightarrow> is_pattern_covered qs p = Inr True"
  using is_pattern_covered_total [of p qs]
  by (auto simp: is_pattern_covered_def res_simps pattern_denotes_def bind_r_Inr_iff split: if_splits)

lemma intersect_filtered:
  assumes "\<forall>p\<in>set ps. pattern_ok p" and "\<And>p. p \<in> set ps \<Longrightarrow> \<not> keep p \<Longrightarrow> is_pattern_covered (filter keep ps) p \<noteq> Inr True"
  shows "intersect_list ps (filter keep ps) = Inr (filter keep ps)"
proof -
  have "filter (\<lambda>p. is_pattern_covered (filter keep ps) p = Inr True) ps = filter keep ps"
  proof (rule filter_cong [OF refl])
    fix p assume "p \<in> set ps"
    with assms show "(is_pattern_covered (filter keep ps) p = Inr True) = keep p"
      using covered_itself [of p "filter keep ps"] by auto
  qed
  with intersect_list_eq [OF assms(1)] show ?thesis by simp
qed

lemma intersect_same: "\<forall>p\<in>set ps. pattern_ok p \<Longrightarrow> intersect_list ps ps = Inr ps"
  using intersect_filtered [of ps "\<lambda>_. True"] by simp

lemma intersect_nothing: "\<forall>p\<in>set ps. pattern_ok p \<Longrightarrow> intersect_list ps [] = Inr []"
  using intersect_filtered [of ps "\<lambda>_. False"] is_pattern_covered_True [of "[]"] by fastforce

text \<open>Mounting a component under the ceiling of the platform grants exactly the ceiling.\<close>

lemma ceiling_is_the_grant:
  assumes "requirements_ok requires"
  shows "intersect_capabilities requires (platform_grant_ceiling requires) = Inr (platform_grant_ceiling requires)"
proof -
  let ?keep = "\<lambda>name. name \<noteq> js ''miakapp.*'' \<and> \<not> starts_with name (js ''miakapp.'')"
  have star: "starts_with (js ''miakapp.*'') (js ''miakapp.'')" by code_simp
  have ok: "\<forall>p\<in>set (state_read requires). pattern_ok p" "\<forall>p\<in>set (event_subscribe requires). pattern_ok p"
    "\<forall>p\<in>set (event_publish requires). pattern_ok p" "\<forall>p\<in>set (req_call requires). pattern_ok p"
    "\<forall>p\<in>set (presentation requires). pattern_ok p"
    using assms by (simp_all add: requirements_ok_def)
  have "intersect_list (req_call requires) (filter ?keep (req_call requires)) = Inr (filter ?keep (req_call requires))"
  proof (rule intersect_filtered [OF ok(4)])
    fix p assume "\<not> ?keep p"
    then have "starts_with p (js ''miakapp.'')" using star by auto
    then show "is_pattern_covered (filter ?keep (req_call requires)) p \<noteq> Inr True"
      using reserved_covered by fastforce
  qed
  moreover have "requirements_ok (platform_grant_ceiling requires)"
    using assms
    by (auto simp: requirements_ok_def platform_grant_ceiling_def;
        use length_filter_le [of ?keep "req_call requires"] in linarith)
  ultimately show ?thesis
    by (simp add: intersect_capabilities_def platform_grant_ceiling_def intersect_same [OF ok(1)]
        intersect_nothing [OF ok(2)] intersect_nothing [OF ok(3)] intersect_nothing [OF ok(5)]
        validate_requirements_value)
qed

section \<open>Loading\<close>

definition accepted_load :: "load_message \<Rightarrow> load_payload" where
  "accepted_load m =
     \<lparr>lp_release = lm_release m, lp_grant = lm_grant m, lp_initial_state = lm_initial_state m,
      lp_state_revision = lm_state_revision m, lp_staging = lm_staging m, lp_locale = lm_locale m,
      lp_theme = lm_theme m, lp_artifact = lm_artifact m\<rparr>"

lemma bounded_is_bridge: "bounded_string (JStr s) m = Inr t \<Longrightarrow> bridge_string (JStr s) m = Inr s"
  by (auto simp: bounded_string_Inr_iff bridge_string_def)

lemma positive_integer_value: "0 < i \<Longrightarrow> i \<le> max_safe_integer \<Longrightarrow> positive_integer (integer i) = Inr i"
  by (simp add: positive_integer_def integer_def max_safe_integer_def)

lemma exact_record_exact:
  assumes "map fst fs = map js names"  "\<forall>n\<in>set names. \<not> forbidden_key (js n)"
  shows "exact_record (JRec oid fs) names [] = Inr fs"
proof -
  have "fst ` set fs = js ` set names" using assms(1) by (metis list.set_map)
  with assms(2) show ?thesis by (auto simp: exact_record_def has_own_def)
qed

lemma theme_of_name: "theme_of (JStr (js (theme_name t))) = Some t"
  by (cases t) (simp_all add: theme_of_def theme_name_def strict_eq_str_def)

lemma load_value_accepted:
  assumes "requirements_ok (lm_grant m)" "bridge_string (JStr (rel_home_id (lm_release m))) 128 = Inr (rel_home_id (lm_release m))"
    "bridge_string (JStr (rel_release (lm_release m))) 64 = Inr (rel_release (lm_release m))"
    "sha256_base64url (rel_sha256 (lm_release m))"
    "0 < rel_generation (lm_release m)" "rel_generation (lm_release m) \<le> max_safe_integer"
    "0 < rel_size (lm_release m)" "rel_size (lm_release m) \<le> 2097152"
    "0 < lm_state_revision m" "lm_state_revision m \<le> max_safe_integer"
    "bridge_string (JStr (lm_locale m)) 64 = Inr (lm_locale m)"
    "validate_state (fresh_record (lm_initial_state m)) (lm_grant m) = Inr (lm_initial_state m)"
  shows "validate_load_payload (load_value m) = Inr (accepted_load m)"
proof -
  have "bridge_string (JStr (rel_sha256 (lm_release m))) 64 = Inr (rel_sha256 (lm_release m))"
    using sha256_bounded [OF assms(4)] by (rule bounded_is_bridge)
  moreover have "rel_size (lm_release m) \<le> max_safe_integer" using assms(8) by (simp add: max_safe_integer_def)
  moreover have "bridge_requirements (requirements_value (lm_grant m)) = Inr (lm_grant m)"
    using assms(1) validate_requirements_value [of "lm_grant m" "lm_grant m"] by (simp add: bridge_requirements_def)
  ultimately show ?thesis
    using assms
    by (simp add: validate_load_payload_def load_value_def exact_record_exact validate_release_def
        positive_integer_value theme_of_name accepted_load_def strict_eq_str_def)
qed

lemma nothing_is_a_state: "validate_state (fresh_record []) grant = Inr []"
proof -
  obtain n where "measure_structured_value (fresh_record []) bridge_measure = Inr n"
    by (simp add: fresh_record_def measure_value_iff structured_ok_def bridge_measure_def tree_ok.simps all_ids.simps
        members.simps total_bytes.simps)
  then show ?thesis by (simp add: validate_state_def fresh_record_def)
qed


section \<open>The invariant of a session\<close>

fun snapshot_of :: "broker_message \<Rightarrow> (int \<times> fields) option" where
  "snapshot_of (SendSnapshot revision vals) = Some (revision, vals)"
| "snapshot_of _ = None"

definition snapshots :: "session \<Rightarrow> (int \<times> fields) list" where
  "snapshots s = List.map_filter (snapshot_of \<circ> se_message) (hs_sent s)"

definition all_granted :: "session \<Rightarrow> fields \<Rightarrow> bool" where
  "all_granted s vals \<longleftrightarrow>
     (\<forall>(path, _)\<in>set vals. is_capability_granted (state_read (lm_grant (hs_load s))) path = Inr True)"

definition final :: "runtime_lifecycle \<Rightarrow> bool" where
  "final l \<longleftrightarrow> l = LifeFailed \<or> l = LifeTerminated"

definition numbered :: "session \<Rightarrow> bool" where
  "numbered s \<longleftrightarrow> map se_seq (hs_sent s) = map (\<lambda>i. int i + 1) [0..<length (hs_sent s)]
     \<and> hs_outgoing_seq s = int (length (hs_sent s)) + 1"

definition ended_once :: "session \<Rightarrow> bool" where
  "ended_once s \<longleftrightarrow>
     (if hs_disposed s
      then \<not> hs_port s \<and> \<not> hs_ready_listener s \<and> final (hs_lifecycle s)
        \<and> (\<exists>before reason. hs_notices s = before @ [(hs_lifecycle s, reason)] \<and> \<not> list_ex (final \<circ> fst) before)
      else \<not> final (hs_lifecycle s) \<and> \<not> list_ex (final \<circ> fst) (hs_notices s))"

definition published_ok :: "session \<Rightarrow> bool" where
  "published_ok s \<longleftrightarrow>
     sorted (map fst (snapshots s)) \<and> (\<forall>(revision, vals)\<in>set (snapshots s).
        lm_state_revision (hs_load s) \<le> revision \<and> revision \<le> hs_published_revision s \<and> all_granted s vals)
     \<and> lm_state_revision (hs_load s) \<le> hs_published_revision s
     \<and> (\<not> hs_worker_ready s \<longrightarrow> snapshots s = [])
     \<and> (\<forall>revision vals. hs_pending_state s = Some (revision, vals) \<longrightarrow> \<not> hs_worker_ready s
          \<and> lm_state_revision (hs_load s) \<le> revision \<and> revision \<le> hs_published_revision s \<and> all_granted s vals)"

definition session_ok :: "session \<Rightarrow> bool" where
  "session_ok s \<longleftrightarrow> numbered s \<and> ended_once s \<and> published_ok s"

lemmas session_defs = session_ok_def numbered_def ended_once_def published_ok_def snapshots_def all_granted_def

lemma initial_session_ok: "session_ok (initial_session inst nonce load)"
  by (simp add: session_defs initial_session_def final_def map_filter_def)

text \<open>Sending, with what a snapshot must satisfy.\<close>

lemma send_broker_frame [simp]:
  "hs_disposed (send_broker m s) = hs_disposed s" "hs_port (send_broker m s) = hs_port s"
  "hs_lifecycle (send_broker m s) = hs_lifecycle s" "hs_notices (send_broker m s) = hs_notices s"
  "hs_load (send_broker m s) = hs_load s" "hs_published_revision (send_broker m s) = hs_published_revision s"
  "hs_worker_ready (send_broker m s) = hs_worker_ready s" "hs_pending_state (send_broker m s) = hs_pending_state s"
  "hs_pending_stale (send_broker m s) = hs_pending_stale s" "hs_mount (send_broker m s) = hs_mount s"
  "hs_heartbeat (send_broker m s) = hs_heartbeat s" "hs_orphan_heartbeats (send_broker m s) = hs_orphan_heartbeats s"
  "hs_ready_listener (send_broker m s) = hs_ready_listener s"
  "hs_pending_probe (send_broker m s) = hs_pending_probe s" "hs_missed (send_broker m s) = hs_missed s"
  by (simp_all add: send_broker_def)

lemma numbered_send: "numbered s \<Longrightarrow> numbered (send_broker m s)"
  by (auto simp: numbered_def send_broker_def)

lemma ended_send: "ended_once (send_broker m s) = ended_once s"
  by (simp add: ended_once_def)

lemma snapshots_send:
  "snapshots (send_broker m s) =
     (if hs_port s \<and> \<not> hs_disposed s then snapshots s @ (case snapshot_of m of None \<Rightarrow> [] | Some x \<Rightarrow> [x]) else snapshots s)"
  by (auto simp: snapshots_def send_broker_def map_filter_def split: option.splits)

lemma sent_snapshot: "m \<in> set (hs_sent s) \<Longrightarrow> snapshot_of (se_message m) = Some x \<Longrightarrow> x \<in> set (snapshots s)"
  by (force simp: snapshots_def map_filter_def)

lemma send_ok: "session_ok s \<Longrightarrow> snapshot_of m = None \<Longrightarrow> session_ok (send_broker m s)"
  by (auto simp: session_ok_def numbered_send ended_send published_ok_def snapshots_send all_granted_def)

lemma send_snapshot_ok:
  assumes "session_ok s" "hs_worker_ready s" "revision = hs_published_revision s" "all_granted s vals"
  shows "session_ok (send_broker (SendSnapshot revision vals) s)"
  using assms
  by (auto simp: session_ok_def numbered_send ended_send published_ok_def snapshots_send all_granted_def sorted_append)

text \<open>Ending a session, and entering a phase.\<close>

lemma settle_ok:
  assumes "session_ok s" "final l" shows "session_ok (settle_session l reason s)"
proof (cases "hs_disposed s")
  case True
  with assms show ?thesis by (simp add: settle_session_def)
next
  case False
  with assms show ?thesis
    by (simp add: session_defs settle_session_def host_cleanup_def Let_def)
qed

lemma enter_ok: "session_ok s \<Longrightarrow> \<not> hs_disposed s \<Longrightarrow> \<not> final l \<Longrightarrow> session_ok (enter_lifecycle l s)"
  by (simp add: session_defs enter_lifecycle_def)

lemma session_ok_updates [simp]:
  "session_ok (s\<lparr>hs_render_revision := x0\<rparr>) = session_ok s"
  "session_ok (s\<lparr>hs_trees := x1\<rparr>) = session_ok s"
  "session_ok (s\<lparr>hs_expected_seq := x2\<rparr>) = session_ok s"
  "session_ok (s\<lparr>hs_pending_probe := x3\<rparr>) = session_ok s"
  "session_ok (s\<lparr>hs_next_probe := x4\<rparr>) = session_ok s"
  "session_ok (s\<lparr>hs_missed := x5\<rparr>) = session_ok s"
  "session_ok (s\<lparr>hs_heartbeat := x6\<rparr>) = session_ok s"
  "session_ok (s\<lparr>hs_orphan_heartbeats := x7\<rparr>) = session_ok s"
  "session_ok (s\<lparr>hs_pending_stale := x8\<rparr>) = session_ok s"
  "session_ok (s\<lparr>hs_ready_timer := x9\<rparr>) = session_ok s"
  "session_ok (s\<lparr>hs_mount := x11\<rparr>) = session_ok s"
  by (simp_all add: session_defs)

lemma ready_updates [simp]:
  "numbered (s\<lparr>hs_worker_ready := w\<rparr>) = numbered s" "ended_once (s\<lparr>hs_worker_ready := w\<rparr>) = ended_once s"
  "snapshots (s\<lparr>hs_worker_ready := w\<rparr>) = snapshots s" "all_granted (s\<lparr>hs_worker_ready := w\<rparr>) = all_granted s"
  "numbered (s\<lparr>hs_pending_state := p\<rparr>) = numbered s" "ended_once (s\<lparr>hs_pending_state := p\<rparr>) = ended_once s"
  "snapshots (s\<lparr>hs_pending_state := p\<rparr>) = snapshots s" "all_granted (s\<lparr>hs_pending_state := p\<rparr>) = all_granted s"
  "numbered (s\<lparr>hs_published_revision := r\<rparr>) = numbered s"
  "ended_once (s\<lparr>hs_published_revision := r\<rparr>) = ended_once s"
  "snapshots (s\<lparr>hs_published_revision := r\<rparr>) = snapshots s"
  "all_granted (s\<lparr>hs_published_revision := r\<rparr>) = all_granted s"
  "numbered (enter_lifecycle l s) = numbered s" "snapshots (enter_lifecycle l s) = snapshots s"
  "all_granted (enter_lifecycle l s) = all_granted s" "hs_pending_state (enter_lifecycle l s) = hs_pending_state s"
  "hs_worker_ready (enter_lifecycle l s) = hs_worker_ready s" "hs_load (enter_lifecycle l s) = hs_load s"
  "hs_published_revision (enter_lifecycle l s) = hs_published_revision s"
  "hs_pending_stale (enter_lifecycle l s) = hs_pending_stale s"
  by (simp_all add: numbered_def ended_once_def snapshots_def all_granted_def enter_lifecycle_def fun_eq_iff)

lemma all_granted_send [simp]: "all_granted (send_broker m s) = all_granted s"
  by (simp add: all_granted_def fun_eq_iff)

lemma nonfinal [simp]: "\<not> final LifeStarting" "\<not> final LifeBound" "\<not> final LifeStaging" "\<not> final LifeActive"
  "final LifeFailed" "final LifeTerminated"
  by (simp_all add: final_def)

lemma port_open: "session_ok s \<Longrightarrow> hs_port s \<Longrightarrow> \<not> hs_disposed s"
  by (auto simp: session_ok_def ended_once_def split: if_splits)

lemma fail_ok: "session_ok s \<Longrightarrow> session_ok (fail_session reason s)"
  by (simp add: fail_session_def settle_ok)

lemma load_ok: "session_ok s \<Longrightarrow> session_ok (load_runtime s)"
  by (simp add: load_runtime_def Let_def send_ok)

lemma heartbeat_ok: "session_ok s \<Longrightarrow> session_ok (host_heartbeat s)"
  by (auto simp: host_heartbeat_def Let_def send_ok fail_ok)

lemma clear_pending_ok: "session_ok s \<Longrightarrow> session_ok (s\<lparr>hs_pending_state := None\<rparr>)"
  by (simp add: session_ok_def published_ok_def)

lemma worker_ready_ok:
  assumes "session_ok s" "\<not> hs_disposed s"
  shows "session_ok (host_worker_ready s)"
proof (cases "hs_pending_state s")
  case None
  then have "session_ok (s\<lparr>hs_worker_ready := True\<rparr>)"
    using assms(1) by (simp add: session_ok_def published_ok_def)
  then have "session_ok (enter_lifecycle LifeStaging (s\<lparr>hs_worker_ready := True\<rparr>))"
    using assms(2) by (simp add: enter_ok)
  then show ?thesis
    using None by (auto simp: host_worker_ready_def Let_def enter_lifecycle_def send_ok split: option.splits intro: clear_pending_ok)
next
  case (Some waiting)
  obtain revision vals where pending: "hs_pending_state s = Some (revision, vals)" using Some by (cases waiting) auto
  let ?s = "enter_lifecycle LifeStaging (s\<lparr>hs_worker_ready := True\<rparr>)"
  let ?t = "(send_broker (SendSnapshot revision vals) ?s)\<lparr>hs_pending_state := None\<rparr>"
  have "ended_once ?s"
    using assms by (simp add: session_ok_def ended_once_def enter_lifecycle_def)
  with assms(1) pending have "session_ok ?t"
    by (auto simp: session_ok_def published_ok_def numbered_send ended_send snapshots_send)
  then have "session_ok ((case hs_pending_stale ?s of None \<Rightarrow> ?t | Some (r, reason) \<Rightarrow> send_broker (SendStale r reason) ?t)
      \<lparr>hs_pending_stale := None\<rparr>)"
    by (auto simp: send_ok split: option.splits)
  moreover have "host_worker_ready s = (case hs_pending_stale ?s of None \<Rightarrow> ?t | Some (r, reason) \<Rightarrow> send_broker (SendStale r reason) ?t)
      \<lparr>hs_pending_stale := None\<rparr>"
    using pending by (auto simp: host_worker_ready_def Let_def enter_lifecycle_def send_broker_def split: option.splits)
  ultimately show ?thesis by simp
qed

lemma switch_ok:
  assumes "session_ok s" "\<not> hs_disposed s"
  shows "session_ok (snd (session_switch kind payload s))"
proof -
  have "session_ok (snd (host_render payload s))" "session_ok (snd (host_pong payload s))"
    "session_ok (snd (host_runtime_error payload s))"
    using assms
    by (auto simp: host_render_def host_pong_def host_runtime_error_def try_session_def Let_def send_ok settle_ok
        split: sum.splits jsval.splits)
  with assms show ?thesis
    by (simp add: session_switch_def load_ok enter_ok worker_ready_ok settle_ok)
qed

lemma broker_message_ok: "session_ok s \<Longrightarrow> hs_port s \<Longrightarrow> session_ok (handle_broker_message data ports s)"
  using switch_ok [of "s\<lparr>hs_expected_seq := hs_expected_seq s + 1\<rparr>"] port_open [of s]
  by (auto simp: handle_broker_message_def broker_message_body_def try_session_def fail_ok
      split: sum.splits prod.splits) (metis fail_ok snd_conv)+

lemma listening_open: "session_ok s \<Longrightarrow> hs_ready_listener s \<Longrightarrow> \<not> hs_disposed s"
  by (auto simp: session_ok_def ended_once_def split: if_splits)

lemma publish_ok:
  assumes "session_ok s" shows "session_ok (publish_state vals revision s)"
proof -
  let ?granted = "select_granted_state vals (state_read (lm_grant (hs_load s)))"
  have granted: "all_granted s ?granted" by (auto simp: all_granted_def select_granted_state_def)
  have raised: "session_ok (s\<lparr>hs_published_revision := num_int revision\<rparr>)"
    if "hs_published_revision s \<le> num_int revision"
    using assms that by (fastforce simp: session_ok_def published_ok_def)
  then have "session_ok (send_broker (SendSnapshot (num_int revision) ?granted) (s\<lparr>hs_published_revision := num_int revision\<rparr>))"
    if "hs_published_revision s \<le> num_int revision" "hs_worker_ready s"
    using that granted by (intro send_snapshot_ok) simp_all
  moreover have "session_ok (s\<lparr>hs_published_revision := num_int revision,
      hs_pending_state := Some (num_int revision, ?granted), hs_pending_stale := None\<rparr>)"
    if "hs_published_revision s \<le> num_int revision" "\<not> hs_worker_ready s"
  proof -
    have "session_ok (s\<lparr>hs_published_revision := num_int revision, hs_pending_state := Some (num_int revision, ?granted)\<rparr>)"
      using raised [OF that(1)] that granted by (auto simp: session_ok_def published_ok_def)
    then show ?thesis by simp
  qed
  ultimately show ?thesis using assms by (auto simp: publish_state_def Let_def)
qed

lemma ready_message_ok:
  assumes "session_ok s" "hs_ready_listener s"
  shows "session_ok (ready_message from_frame data origin s)"
proof -
  have "session_ok (s\<lparr>hs_ready_timer := False, hs_ready_listener := False, hs_port := True, hs_mount := m\<rparr>)" for m
    using assms listening_open [OF assms] by (simp add: session_defs)
  with assms show ?thesis by (simp add: ready_message_def reject_mount_def fail_ok)
qed

lemma mount_step_ok: "session_ok s \<Longrightarrow> session_ok (mount_step e s)"
  by (cases e) (simp_all add: ready_message_ok ready_timeout_def abort_mount_def reject_mount_def fail_ok settle_ok
      broker_message_ok heartbeat_ok interact_def send_ok publish_ok mark_state_stale_def dispose_session_def)

interpretation host: event_machine mount_step session_ok "initial_session inst nonce load" for inst nonce load
  by unfold_locales (simp_all add: initial_session_ok mount_step_ok)

lemma mount_run_ok: "session_ok s \<Longrightarrow> session_ok (mount_run events s)"
  unfolding mount_run_def by (rule host.run_from_ok)

lemma load_updates [simp]:
  "hs_load (settle_session l reason s) = hs_load s" "hs_load (fail_session why s) = hs_load s"
  "hs_load (reject_mount s) = hs_load s" "hs_load (load_runtime s) = hs_load s"
  "hs_load (host_worker_ready s) = hs_load s"
  by (simp_all add: settle_session_def fail_session_def host_cleanup_def reject_mount_def load_runtime_def
      host_worker_ready_def Let_def enter_lifecycle_def split: option.splits)

lemma load_broker_message: "hs_load (handle_broker_message data ports s) = hs_load s"
proof -
  have "hs_load (snd (host_render payload t)) = hs_load t" "hs_load (snd (host_pong payload t)) = hs_load t"
    "hs_load (snd (host_runtime_error payload t)) = hs_load t" for payload t
    by (simp_all add: host_render_def host_pong_def host_runtime_error_def try_session_def Let_def
        split: sum.splits jsval.splits)
  then have "hs_load (snd (session_switch kind payload t)) = hs_load t" for kind payload t
    by (simp add: session_switch_def)
  then have body: "hs_load (snd (broker_message_body data ports s)) = hs_load s"
    by (simp add: broker_message_body_def try_session_def split: sum.splits)
  obtain r t where "broker_message_body data ports s = (r, t)" by fastforce
  with body show ?thesis by (cases r) (simp_all add: handle_broker_message_def)
qed

lemma load_step: "hs_load (mount_step e s) = hs_load s"
  by (cases e) (auto simp: ready_message_def ready_timeout_def abort_mount_def load_broker_message host_heartbeat_def
      interact_def publish_state_def mark_state_stale_def dispose_session_def Let_def)

lemma load_kept [simp]: "hs_load (mount_run events s) = hs_load s"
  unfolding mount_run_def by (induction events arbitrary: s) (simp_all add: load_step)

lemma mounted_session:
  assumes "mount_component_runtime parse_url inst nonce pointer artifact options = Inr s"
  obtains grant where
    "intersect_capabilities (ptr_requires pointer) (case mo_policy options of None \<Rightarrow> no_capabilities | Some p \<Rightarrow> p) = Inr grant"
    "s = initial_session inst nonce (load_of pointer artifact options grant)"
  using assms by (auto simp: mount_component_runtime_def split: if_splits sum.splits)

text \<open>
Property C10: whatever the shell publishes, the frame sends and the timers do, in any order, the state a
session hands to its component is covered by the \<open>state_read\<close> grants of both the release and the policy,
under revisions that never decrease and never precede the one the component was loaded with.
\<close>

theorem host_releases_only_granted_state:
  assumes "mount_component_runtime parse_url inst nonce pointer artifact options = Inr s"
    and "mo_policy options = Some policy"
    and "SendSnapshot revision vals \<in> set (map se_message (hs_sent (mount_run events s)))"
  shows "(\<forall>(path, _)\<in>set vals. is_capability_granted (state_read (ptr_requires pointer)) path = Inr True
       \<and> is_capability_granted (state_read policy) path = Inr True)
    \<and> sorted (map fst (snapshots (mount_run events s))) \<and> lm_state_revision (hs_load s) \<le> revision"
proof -
  obtain grant where grant: "intersect_capabilities (ptr_requires pointer) policy = Inr grant"
    and s: "s = initial_session inst nonce (load_of pointer artifact options grant)"
    using mounted_session [OF assms(1)] assms(2) by auto
  let ?t = "mount_run events s"
  have load: "lm_grant (hs_load ?t) = grant" by (simp add: s initial_session_def load_of_def)
  have "session_ok ?t" unfolding s by (intro mount_run_ok initial_session_ok)
  then have ok: "published_ok ?t" by (simp add: session_ok_def)
  then have "sorted (map fst (snapshots ?t))" by (simp add: published_ok_def)
  moreover obtain m where m: "m \<in> set (hs_sent ?t)" "se_message m = SendSnapshot revision vals"
    using assms(3) by auto
  have "(revision, vals) \<in> set (snapshots ?t)"
    using m(1) by (rule sent_snapshot) (simp add: m(2))
  with ok have "all_granted ?t vals" "lm_state_revision (hs_load ?t) \<le> revision"
    by (auto simp: published_ok_def)
  moreover have "\<forall>(path, _)\<in>set vals. is_capability_granted (state_read (ptr_requires pointer)) path = Inr True
       \<and> is_capability_granted (state_read policy) path = Inr True"
    using \<open>all_granted ?t vals\<close> intersect_grants_no_more [OF grant]
    unfolding all_granted_def load grants_no_more_def by blast
  ultimately show ?thesis by simp
qed

section \<open>The end of a session\<close>

lemma closed_step:
  assumes "session_ok s" "hs_disposed s"
  shows "hs_sent (mount_step e s) = hs_sent s \<and> hs_notices (mount_step e s) = hs_notices s
    \<and> hs_trees (mount_step e s) = hs_trees s \<and> hs_disposed (mount_step e s)"
proof -
  have "\<not> hs_port s" "\<not> hs_ready_listener s" using assms by (auto simp: session_ok_def ended_once_def)
  with assms(2) show ?thesis
    by (cases e) (auto simp: ready_timeout_def abort_mount_def reject_mount_def fail_session_def settle_session_def
        host_heartbeat_def interact_def publish_state_def mark_state_stale_def dispose_session_def send_broker_def)
qed

lemma closed_run:
  assumes "session_ok s" "hs_disposed s"
  shows "hs_sent (mount_run later s) = hs_sent s \<and> hs_notices (mount_run later s) = hs_notices s
    \<and> hs_trees (mount_run later s) = hs_trees s"
  using assms
proof (induction later arbitrary: s)
  case (Cons e es)
  from closed_step [OF Cons.prems] Cons.IH [OF mount_step_ok [OF Cons.prems(1)]] show ?case
    by (simp add: mount_run_def)
qed (simp add: mount_run_def)

lemma one_final_notice:
  assumes "ended_once s"
  shows "length (filter (final \<circ> fst) (hs_notices s)) = (if hs_disposed s then 1 else 0)"
proof (cases "hs_disposed s")
  case True
  with assms obtain before reason where "hs_notices s = before @ [(hs_lifecycle s, reason)]"
    "final (hs_lifecycle s)" "\<not> list_ex (final \<circ> fst) before"
    by (auto simp: ended_once_def)
  then show ?thesis using True by (auto simp: filter_empty_conv list_ex_iff)
next
  case False
  with assms show ?thesis by (auto simp: ended_once_def filter_empty_conv list_ex_iff)
qed

text \<open>
Property C12: a session ends at most once. Its messages are numbered from 1 without a gap; the shell is told
of at most one final phase, exactly when the session is disposed; and from then on nothing is sent,
rendered or reported, whatever still arrives.
\<close>

theorem host_session_ends_once:
  assumes "s = mount_run events (initial_session inst nonce load)"
  shows "map se_seq (hs_sent s) = map (\<lambda>i. int i + 1) [0..<length (hs_sent s)]
    \<and> length (filter (final \<circ> fst) (hs_notices s)) = (if hs_disposed s then 1 else 0)
    \<and> (hs_disposed s \<longrightarrow> hs_sent (mount_run later s) = hs_sent s \<and> hs_notices (mount_run later s) = hs_notices s
         \<and> hs_trees (mount_run later s) = hs_trees s)"
proof -
  have ok: "session_ok s" unfolding assms by (intro mount_run_ok initial_session_ok)
  then have "numbered s" "ended_once s" by (simp_all add: session_ok_def)
  with one_final_notice closed_run [OF ok] show ?thesis by (simp add: numbered_def)
qed

section \<open>Host and broker\<close>


end
