(* ===== verification/Host_Witnesses.thy ===== *)
theory Host_Witnesses
  imports Host_Properties
begin

text \<open>
  A release mounted on a sandbox site, and a session of it: the frame announces itself, the broker binds
  and starts its worker, the shell publishes state and disposes of the session. An interaction that names
  the handler of a control instead of its node ends the runtime.
\<close>

section \<open>Mounting\<close>

definition sandbox_site :: jstr where
  "sandbox_site = js ''https://s''"

definition host_parse :: url_parser where
  "host_parse value =
     (if value = sandbox_site then Some ((demo_url value)\<lparr>url_origin := sandbox_site\<rparr>) else demo_parse value)"

lemma sandbox_admitted: "assert_sandbox_origin host_parse sandbox_site (js ''https://m'') = Inr sandbox_site"
proof -
  have "without_slashes sandbox_site = sandbox_site" by code_simp
  then show ?thesis by (simp add: assert_sandbox_origin_def host_parse_def demo_url_def) (simp add: sandbox_site_def)
qed

lemma host_pointer: "validate_pointer host_parse (pointer_value (demo_pointer 2)) demo_context = Inr (demo_pointer 2)"
proof -
  have "host_parse demo_href = Some (demo_url demo_href)"
    by (simp add: host_parse_def demo_parse_def sandbox_site_def demo_href_def)
  moreover have "floor_of demo_context \<le> 2" "demo_context\<lparr>minimum_generation := None\<rparr> = demo_context"
    by (simp_all add: floor_of_def demo_context_def)
  ultimately show ?thesis
    using validate_demo_pointer [of demo_href host_parse demo_href demo_context 2] demo_strings(3)
    by (simp add: max_safe_integer_def)
qed

definition demo_instance :: jstr where
  "demo_instance = js ''aaaaaaaaaaaaaaaa''"

definition demo_options :: mount_options where
  "demo_options = shell_options sandbox_site (js ''https://m'') (demo_pointer 2)"

lemma demo_abi: "ptr_abi (demo_pointer 2) = COMPONENT_ABI"
  by (simp add: demo_pointer_def)


section \<open>A session\<close>

definition demo_load :: load_message where
  "demo_load = load_of (demo_pointer 2) [1, 2, 3] demo_options (platform_grant_ceiling demo_requires)"

lemma demo_mount:
  "mount_component_runtime host_parse demo_instance (js ''n'') (demo_pointer 2) [1, 2, 3] demo_options
     = Inr (initial_session demo_instance (js ''n'') demo_load)"
proof -
  have "requirements_ok demo_requires"
    using demo_requires_ok by (simp add: validate_requirements_value)
  then have "intersect_capabilities demo_requires (platform_grant_ceiling demo_requires) = Inr (platform_grant_ceiling demo_requires)"
    by (rule ceiling_is_the_grant)
  moreover have "ptr_requires (demo_pointer 2) = demo_requires" by (simp add: demo_pointer_def)
  ultimately show ?thesis
    using sandbox_admitted demo_abi
    by (simp add: mount_component_runtime_def demo_options_def shell_options_def demo_load_def)
qed

text \<open>A message of the broker with an empty payload.\<close>

definition broker_says :: "int \<Rightarrow> string \<Rightarrow> jsval" where
  "broker_says seq kind = JRec 0 [(js ''v'', integer 1), (js ''instance'', JStr demo_instance), (js ''epoch'', integer 1),
     (js ''seq'', integer seq), (js ''kind'', JStr (js kind)), (js ''payload'', JRec 1 [])]"

lemma broker_says_valid:
  assumes "kind \<in> set BROKER_MESSAGE_KINDS" "hs_instance s = demo_instance" "hs_expected_seq s = seq"
  shows "validate_envelope (broker_says seq kind) (session_context s) =
    Inr \<lparr>env_instance = demo_instance, env_epoch = 1, env_seq = seq, env_kind = js kind, env_payload = JRec 1 []\<rparr>"
proof -
  have id_ok: "is_instance_id demo_instance" by code_simp
  obtain n where "measure_structured_value (JRec 1 []) \<lparr>max_bytes = None, max_depth = None, allow_binary = True\<rparr> = Inr n"
    by (simp add: measure_value_iff structured_ok_def tree_ok.simps all_ids.simps members.simps total_bytes.simps)
  moreover have "js kind \<in> js ` set BROKER_MESSAGE_KINDS" using assms(1) by simp
  ultimately show ?thesis
    using assms(2,3) id_ok
    by (simp add: validate_envelope_def exact_object_def own_keys_def broker_says_def session_context_def
        strict_eq_str_def strict_eq_int_def integer_def BROKER_PROTOCOL_def host_epoch_def)
qed

definition demo_publication :: fields where
  "demo_publication = [(js ''room.a'', JBool True), (js ''door'', JBool False)]"

definition demo_events :: "session_event list" where
  "demo_events =
     [FrameMessage True (JRec 0 [(js ''type'', JStr (js ''miakapp.runtime.ready'')), (js ''runtime'', JStr (js ''1'')),
        (js ''nonce'', JStr (js ''n''))]) (js ''null''),
      BrokerMessage (broker_says 1 ''runtime.bound'') 0,
      BrokerMessage (broker_says 2 ''runtime.worker_ready'') 0,
      PublishState demo_publication (NInt 4)]"

lemma demo_selected: "select_granted_state demo_publication (state_read (platform_grant_ceiling demo_requires)) = [(js ''room.a'', JBool True)]"
  by code_simp

lemma broker_says_handled:
  assumes "kind \<in> set BROKER_MESSAGE_KINDS" "hs_instance s = demo_instance" "hs_expected_seq s = seq"
  shows "broker_message_body (broker_says seq kind) 0 s
    = session_switch (js kind) (JRec 1 []) (s\<lparr>hs_expected_seq := seq + 1\<rparr>)"
  using broker_says_valid [OF assms] assms(3) by (simp add: broker_message_body_def try_session_def)

lemma demo_run:
  "map se_message (hs_sent (mount_run demo_events (initial_session demo_instance (js ''n'') demo_load)))
     = [SendLoad demo_load, SendSnapshot 4 [(js ''room.a'', JBool True)]]"
proof -
  have grant: "lm_grant demo_load = platform_grant_ceiling demo_requires" "lm_state_revision demo_load = 1"
    by (simp_all add: demo_load_def load_of_def demo_options_def shell_options_def)
  have names: "{js ''type'', js ''runtime'', js ''nonce''} = {js ''nonce'', js ''runtime'', js ''type''}" by auto
  show ?thesis
    by (simp add: mount_run_def demo_events_def initial_session_def ready_message_def is_ready_announcement_def
        strict_eq_str_def names handle_broker_message_def broker_says_handled BROKER_MESSAGE_KINDS_def
        session_switch_def enter_lifecycle_def load_runtime_def send_broker_def host_worker_ready_def
        publish_state_def grant demo_selected Let_def max_safe_integer_def)
qed

lemma demo_sends: "SendSnapshot 4 [(js ''room.a'', JBool True)]
    \<in> set (map se_message (hs_sent (mount_run demo_events (initial_session demo_instance (js ''n'') demo_load))))"
  unfolding demo_run by simp

lemma demo_policy: "mo_policy demo_options = Some (platform_grant_ceiling demo_requires)"
  by (simp add: demo_options_def shell_options_def demo_pointer_def)

theorem host_releases_only_granted_state_witness:
  "is_capability_granted (state_read (ptr_requires (demo_pointer 2))) (js ''room.a'') = Inr True
    \<and> is_capability_granted (state_read (platform_grant_ceiling demo_requires)) (js ''room.a'') = Inr True
    \<and> sorted (map fst (snapshots (mount_run demo_events (initial_session demo_instance (js ''n'') demo_load))))"
  using host_releases_only_granted_state [OF demo_mount demo_policy demo_sends] by simp

definition aborted_session :: session where
  "aborted_session = mount_run [MountAborted] (initial_session demo_instance (js ''n'') demo_load)"

lemma aborted_disposed: "hs_disposed aborted_session"
  by (simp add: aborted_session_def mount_run_def initial_session_def abort_mount_def settle_session_def
      reject_mount_def host_cleanup_def Let_def)

theorem host_session_ends_once_witness:
  "hs_sent (mount_run demo_events aborted_session) = hs_sent aborted_session
   \<and> length (filter (final \<circ> fst) (hs_notices aborted_session)) = 1"
  using host_session_ends_once [OF aborted_session_def, of demo_events] aborted_disposed by simp

definition granted_broker :: broker where
  "granted_broker = (initial_broker (js ''n''))\<lparr>b_grant := Some (lm_grant demo_load), state_revision := 1, worker := True\<rparr>"


section \<open>Interactions by handler\<close>

text \<open>
  \<open>src/app/app.tsx\<close> passes the handler of an interaction where the session expects the id of the node, and
  the broker looks its controls up by node id: unless the two agree, the interaction is refused with
  \<open>render_invalid\<close>, which terminates the runtime.
\<close>

lemma shell_sends_the_handler:
  assumes "hs_lifecycle s = LifeActive" "hs_port s" "\<not> hs_disposed s"
  shows "map se_message (hs_sent (shell_interact handler event val s))
    = map se_message (hs_sent s) @ [SendInteraction (hs_render_revision s) handler event val]"
  using assms by (simp add: shell_interact_def interact_def send_broker_def)

lemma interaction_by_handler_is_refused:
  assumes "hs_lifecycle s = LifeActive" "hs_render_revision s = render_revision b" "\<not> inactive b"
    and "bridge_string (JStr handler) 64 = Inr handler" "interaction_targets b handler = None"
  shows "host_interaction (message_payload (SendInteraction (hs_render_revision s) handler event val)) b
    = throws RenderInvalid b"
proof -
  have entries: "exact_record (JRec 0 ([(js ''render_revision'', integer (render_revision b)), (js ''node_id'', JStr handler),
      (js ''event'', JStr event)] @ (case val of None \<Rightarrow> [] | Some v \<Rightarrow> [(js ''value'', v)])))
      [''render_revision'', ''node_id'', ''event''] [''value'']
    = Inr ([(js ''render_revision'', integer (render_revision b)), (js ''node_id'', JStr handler),
      (js ''event'', JStr event)] @ (case val of None \<Rightarrow> [] | Some v \<Rightarrow> [(js ''value'', v)]))"
    by (cases val) (simp_all add: exact_record_def)
  show ?thesis
    using assms entries
    by (simp add: host_interaction_def attempt_def validate_interaction_def message_payload_def strict_eq_int_def
        integer_def bind_r_def)
qed

lemma refused_interaction_terminates:
  assumes "host_interaction payload b = throws RenderInvalid b" "\<not> closed b"
  shows "closed (or_terminate (host_interaction payload b))"
  using assms by (simp add: or_terminate_def terminate_def cleanup_def Let_def)

end
