(* ===== verification/Home_Contract.thy ===== *)
theory Home_Contract
  imports Trace_Fields
begin

text \<open>
  \<open>synthetic-home/src/contract.ts\<close>: the documents of a synthetic home (manifest, home, scenarios) and what
  a replay observes, with one definition per validator. A validator of the source checks an object and
  returns the same object under a type; here it returns the typed view of that object, in which JSON
  values, states and contexts keep their JavaScript form.

  The helpers with the prefix \<open>fixture\<close> and \<open>validate_json_value\<close> are in \<open>Trace_Fields\<close>.
\<close>

section \<open>Documents\<close>

datatype value_type = TypeBoolean | TypeNumber | TypeString | TypeObject

datatype persistence = Ephemeral | Persisted

datatype actor_role = RoleOwner | RoleResident | RoleGuest

datatype connection_state = Connected | Disconnected

datatype lifecycle_signal = SignalReady | SignalDisconnect | SignalReconnect | SignalNoCoordinator

datatype coverage_class =
    CoverBootstrap | CoverPersistedContext | CoverSensorAutomation | CoverAuthorization
  | CoverConcurrentAction | CoverClimateControl | CoverEnergySchedule | CoverNotification
  | CoverReconnect | CoverOutcomeUnknown

datatype action_type = Click | Input

datatype idempotency = Idempotent | NonIdempotent

datatype operation_status = StatusAccepted | StatusApplied | StatusDenied | StatusOutcomeUnknown

definition VALUE_TYPES :: "(string \<times> value_type) list" where
  "VALUE_TYPES = [(''boolean'', TypeBoolean), (''number'', TypeNumber), (''string'', TypeString),
     (''object'', TypeObject)]"

definition LIFECYCLE_SIGNALS :: "(string \<times> lifecycle_signal) list" where
  "LIFECYCLE_SIGNALS = [(''ready'', SignalReady), (''disconnect'', SignalDisconnect),
     (''reconnect'', SignalReconnect), (''no_coordinator'', SignalNoCoordinator)]"

definition COVERAGE_CLASSES :: "(string \<times> coverage_class) list" where
  "COVERAGE_CLASSES = [(''bootstrap'', CoverBootstrap), (''persisted_context'', CoverPersistedContext),
     (''sensor_automation'', CoverSensorAutomation), (''authorization'', CoverAuthorization),
     (''concurrent_action'', CoverConcurrentAction), (''climate_control'', CoverClimateControl),
     (''energy_schedule'', CoverEnergySchedule), (''notification'', CoverNotification),
     (''reconnect'', CoverReconnect), (''outcome_unknown'', CoverOutcomeUnknown)]"

definition ACTION_TYPES :: "(string \<times> action_type) list" where
  "ACTION_TYPES = [(''click'', Click), (''input'', Input)]"

definition IDEMPOTENCIES :: "(string \<times> idempotency) list" where
  "IDEMPOTENCIES = [(''idempotent'', Idempotent), (''non_idempotent'', NonIdempotent)]"

definition OPERATION_STATUSES :: "(string \<times> operation_status) list" where
  "OPERATION_STATUSES = [(''accepted'', StatusAccepted), (''applied'', StatusApplied),
     (''denied'', StatusDenied), (''outcome_unknown'', StatusOutcomeUnknown)]"

record fixture_manifest =
  mf_corpus_id :: jstr
  mf_seed :: int
  mf_start :: jstr
  mf_required :: "coverage_class list"

record actor_declaration =
  ac_id :: jstr
  ac_role :: actor_role
  ac_groups :: "jstr list"
  ac_notifications :: bool

record device_declaration =
  dv_id :: jstr
  dv_zone :: jstr
  dv_kind :: jstr
  dv_capabilities :: "jstr list"

record state_path_declaration =
  sp_path :: jstr
  sp_type :: value_type
  sp_persistence :: persistence
  sp_writable :: bool

record action_declaration =
  ad_id :: jstr
  ad_type :: action_type
  ad_element :: jstr
  ad_name :: jstr
  ad_groups :: "jstr list"
  ad_idempotency :: idempotency
  ad_value_type :: "value_type option"

record event_declaration =
  ed_name :: jstr
  ed_type :: value_type

record fixture_context =
  fc_global :: fields
  fc_flows :: "(jstr \<times> fields) list"

record synthetic_home =
  hm_id :: jstr
  hm_actors :: "actor_declaration list"
  hm_groups :: "jstr list"
  hm_zones :: "jstr list"
  hm_devices :: "device_declaration list"
  hm_paths :: "state_path_declaration list"
  hm_actions :: "action_declaration list"
  hm_events :: "event_declaration list"
  hm_signals :: "lifecycle_signal list"
  hm_state :: fields
  hm_context :: fixture_context

record scenario_setup =
  su_connection :: connection_state
  su_state :: fields
  su_context :: fixture_context

record action_stimulus =
  as_operation :: jstr
  as_actor :: jstr
  as_action :: jstr
  as_type :: action_type
  as_element :: jstr
  as_name :: jstr
  as_value :: "jsval option"

datatype home_stimulus =
    EventStimulus (*name value*) jstr jsval
  | ActionStimulus action_stimulus
  | LifecycleStimulus lifecycle_signal
  | TimerStimulus (*name at*) jstr jstr

datatype command_cause = ByOperation jstr | ByStimulus int

record recorded_command =
  rc_target :: jstr
  rc_name :: jstr
  rc_value :: jsval
  rc_cause :: command_cause

record notification_intent =
  ni_title :: jstr
  ni_body :: jstr
  ni_tag :: "jstr option"
  ni_image :: "jstr option"
  ni_groups :: "jstr list"
  ni_actors :: "jstr list"

record lifecycle_observation =
  lo_signal :: lifecycle_signal
  lo_reason :: "jstr option"

record operation_observation =
  oo_id :: jstr
  oo_status :: operation_status
  oo_reason :: "jstr option"

record scenario_observation =
  so_state_patch :: fields
  so_context_patch :: fixture_context
  so_commands :: "recorded_command list"
  so_notifications :: "notification_intent list"
  so_lifecycle :: "lifecycle_observation list"
  so_operations :: "operation_observation list"
  so_unchanged :: "jstr list"

record replay_observation =
  ro_state :: fields
  ro_context :: fixture_context
  ro_commands :: "recorded_command list"
  ro_notifications :: "notification_intent list"
  ro_lifecycle :: "lifecycle_observation list"
  ro_operations :: "operation_observation list"

record home_scenario =
  hs_id :: jstr
  hs_description :: jstr
  hs_coverage :: "coverage_class list"
  hs_setup :: scenario_setup
  hs_stimuli :: "home_stimulus list"
  hs_expected :: scenario_observation

record scenario_corpus =
  sk_home :: jstr
  sk_scenarios :: "home_scenario list"

section \<open>Objects, arrays and strings\<close>

definition fixture_object :: "jsval \<Rightarrow> string list \<Rightarrow> string list \<Rightarrow> fields traced" where
  "fixture_object value required optional =
     (case value of
        JRec _ fs \<Rightarrow>
          bind_r (fixture_own_keys fs) (\<lambda>keys.
          bind_r (each_r (\<lambda>key.
              if \<not> has_own fs (js key) then refuse ''missing_field'' else Inr ()) required) (\<lambda>_.
          bind_r (each_r (\<lambda>key.
              if key \<notin> js ` set (required @ optional) then refuse ''unknown_field'' else Inr ()) keys) (\<lambda>_.
            Inr fs)))
      | _ \<Rightarrow> refuse ''invalid_type'')"

definition fixture_text :: "jsval \<Rightarrow> nat \<Rightarrow> jstr traced" where
  "fixture_text value maximum =
     (case value of JStr s \<Rightarrow> fixture_string s maximum | _ \<Rightarrow> refuse ''invalid_string'')"

definition fixture_enum :: "jsval \<Rightarrow> (string \<times> 'a) list \<Rightarrow> 'a traced" where
  "fixture_enum value table =
     (case value of
        JStr s \<Rightarrow> (case choice table s of None \<Rightarrow> refuse ''invalid_value'' | Some c \<Rightarrow> Inr c)
      | _ \<Rightarrow> refuse ''invalid_value'')"

definition fixture_bool :: "jsval \<Rightarrow> bool traced" where
  "fixture_bool value = (case value of JBool b \<Rightarrow> Inr b | _ \<Rightarrow> refuse ''invalid_type'')"

text \<open>An optional string property: an absent one and \<open>undefined\<close> are not distinguished.\<close>

definition fixture_optional :: "jsval \<Rightarrow> nat \<Rightarrow> jstr option traced" where
  "fixture_optional value maximum =
     (if value = JUndef then Inr None
      else bind_r (fixture_text value maximum) (\<lambda>s. Inr (Some s)))"

definition fixture_unique :: "jsval \<Rightarrow> nat \<Rightarrow> (jsval \<Rightarrow> 'a traced) \<Rightarrow> 'a list traced" where
  "fixture_unique value maximum validate =
     bind_r (fixture_array value maximum) (\<lambda>entries.
     bind_r (map_r validate entries) (\<lambda>result.
       if \<not> distinct result then refuse ''duplicate'' else Inr result))"

text \<open>\<open>denseArray(...).forEach(validate)\<close>.\<close>

definition fixture_list :: "jsval \<Rightarrow> nat \<Rightarrow> (jsval \<Rightarrow> 'a traced) \<Rightarrow> 'a list traced" where
  "fixture_list value maximum validate = bind_r (fixture_array value maximum) (map_r validate)"

text \<open>\<open>validateUniqueObjects\<close>, with the property it compares.\<close>

definition unique_objects ::
  "jsval \<Rightarrow> nat \<Rightarrow> (jsval \<Rightarrow> 'a traced) \<Rightarrow> ('a \<Rightarrow> jstr) \<Rightarrow> 'a list traced" where
  "unique_objects value maximum validate key =
     bind_r (fixture_list value maximum validate) (\<lambda>results.
       if \<not> distinct (map key results) then refuse ''duplicate'' else Inr results)"

section \<open>Names and timestamps\<close>

definition validate_synthetic_id :: "jsval \<Rightarrow> jstr traced" where
  "validate_synthetic_id value =
     bind_r (fixture_text value 64) (\<lambda>identifier.
       if \<not> (starts_with identifier (js ''syn_'') \<and> identifier_format (drop 4 identifier))
       then refuse ''invalid_identifier'' else Inr identifier)"

text \<open>
  The dotted segments of a string, and \<open>[a-z][a-z0-9_]*\<close> for each of them: \<open>RESOURCE_NAME\<close> allows one to
  sixteen segments, \<open>STATE_PATH\<close> two to sixteen.
\<close>

fun dotted :: "jstr \<Rightarrow> jstr list" where
  "dotted [] = [[]]"
| "dotted (u # us) =
     (if u = 0x2E then [] # dotted us
      else (case dotted us of [] \<Rightarrow> [[u]] | s # ss \<Rightarrow> (u # s) # ss))"

definition name_segment :: "jstr \<Rightarrow> bool" where
  "name_segment s \<longleftrightarrow> (case s of [] \<Rightarrow> False | u # us \<Rightarrow> is_lower u \<and> list_all identifier_unit us)"

definition dotted_name :: "nat \<Rightarrow> jstr \<Rightarrow> bool" where
  "dotted_name fewest s \<longleftrightarrow>
     fewest \<le> length (dotted s) \<and> length (dotted s) \<le> 16 \<and> list_all name_segment (dotted s)"

definition validate_home_resource :: "jsval \<Rightarrow> jstr traced" where
  "validate_home_resource value =
     bind_r (fixture_text value 256) (\<lambda>resource.
       if \<not> dotted_name 1 resource then refuse ''invalid_identifier'' else Inr resource)"

definition validate_state_path :: "jsval \<Rightarrow> jstr traced" where
  "validate_state_path value =
     bind_r (fixture_text value 256) (\<lambda>path.
       if \<not> dotted_name 2 path then refuse ''invalid_identifier'' else Inr path)"

text \<open>
  \<open>Date.parse\<close> and \<open>toISOString\<close>: a string of the format is printed back as itself exactly when its
  fields are a date of the Gregorian calendar and a time of a day without leap seconds.
\<close>

fun decimal :: "jstr \<Rightarrow> nat" where
  "decimal s = foldl (\<lambda>n u. 10 * n + (unat u - 0x30)) 0 s"

definition leap_year :: "nat \<Rightarrow> bool" where
  "leap_year y \<longleftrightarrow> y mod 4 = 0 \<and> (y mod 100 \<noteq> 0 \<or> y mod 400 = 0)"

definition month_days :: "nat \<Rightarrow> nat \<Rightarrow> nat" where
  "month_days y m =
     (if m = 2 then (if leap_year y then 29 else 28)
      else if m \<in> {4, 6, 9, 11} then 30 else 31)"

definition utc_format :: "jstr \<Rightarrow> bool" where
  "utc_format s \<longleftrightarrow>
     (length s = 20 \<or> length s = 24)
     \<and> (\<forall>i<length s.
          (if i = 4 \<or> i = 7 then s ! i = 0x2D
           else if i = 10 then s ! i = 0x54
           else if i = 13 \<or> i = 16 then s ! i = 0x3A
           else if i = 19 \<and> length s = 24 then s ! i = 0x2E
           else if i = length s - 1 then s ! i = 0x5A
           else is_digit (s ! i)))"

definition calendar_time :: "jstr \<Rightarrow> bool" where
  "calendar_time s \<longleftrightarrow>
     (let y = decimal (take 4 s); mo = decimal (take 2 (drop 5 s)); d = decimal (take 2 (drop 8 s));
          h = decimal (take 2 (drop 11 s)); mi = decimal (take 2 (drop 14 s));
          sec = decimal (take 2 (drop 17 s))
      in 1 \<le> mo \<and> mo \<le> 12 \<and> 1 \<le> d \<and> d \<le> month_days y mo \<and> h \<le> 23 \<and> mi \<le> 59 \<and> sec \<le> 59)"

definition validate_utc_timestamp :: "jsval \<Rightarrow> jstr traced" where
  "validate_utc_timestamp value =
     bind_r (fixture_text value 64) (\<lambda>timestamp.
       if \<not> utc_format timestamp \<or> \<not> calendar_time timestamp then refuse ''invalid_timestamp''
       else Inr timestamp)"

section \<open>States and contexts\<close>

text \<open>\<open>typeof value\<close>; an object value is a plain record.\<close>

fun value_matches_type :: "jsval \<Rightarrow> value_type \<Rightarrow> bool" where
  "value_matches_type v TypeObject = is_plain_record v"
| "value_matches_type v TypeBoolean = (case v of JBool _ \<Rightarrow> True | _ \<Rightarrow> False)"
| "value_matches_type v TypeNumber = (case v of JNum _ \<Rightarrow> True | _ \<Rightarrow> False)"
| "value_matches_type v TypeString = (case v of JStr _ \<Rightarrow> True | _ \<Rightarrow> False)"

definition validate_value_type :: "jsval \<Rightarrow> value_type traced" where
  "validate_value_type value = fixture_enum value VALUE_TYPES"

definition validate_coverage_list :: "jsval \<Rightarrow> coverage_class list traced" where
  "validate_coverage_list value =
     fixture_unique value 16 (\<lambda>entry. fixture_enum entry COVERAGE_CLASSES)"

definition keyed_json :: "(jsval \<Rightarrow> jstr traced) \<Rightarrow> jsval \<Rightarrow> fields traced" where
  "keyed_json validate_key value =
     (case value of
        JRec _ fs \<Rightarrow>
          bind_r (fixture_own_keys fs) (\<lambda>_.
          bind_r (each_r (\<lambda>(key, v).
              bind_r (validate_key (JStr key)) (\<lambda>_. validate_json_value v)) fs) (\<lambda>_.
            Inr fs))
      | _ \<Rightarrow> refuse ''invalid_type'')"

definition validate_state_record :: "jsval \<Rightarrow> fields traced" where
  "validate_state_record value = keyed_json validate_state_path value"

definition validate_context_record :: "jsval \<Rightarrow> fields traced" where
  "validate_context_record value = keyed_json validate_home_resource value"

definition validate_context :: "jsval \<Rightarrow> fixture_context traced" where
  "validate_context value =
     bind_r (fixture_object value [''global'', ''flows''] []) (\<lambda>record.
     bind_r (validate_context_record (get record ''global'')) (\<lambda>global.
     (case get record ''flows'' of
        JRec _ fs \<Rightarrow>
          bind_r (fixture_own_keys fs) (\<lambda>_.
          bind_r (map_r (\<lambda>(key, v).
              bind_r (validate_synthetic_id (JStr key)) (\<lambda>_.
              bind_r (validate_context_record v) (\<lambda>flow. Inr (key, flow)))) fs) (\<lambda>flows.
            Inr \<lparr>fc_global = global, fc_flows = flows\<rparr>))
      | _ \<Rightarrow> refuse ''invalid_type'')))"

end
