(* ===== verification/Home_Validators.thy ===== *)
theory Home_Validators
  imports Home_Contract
begin

text \<open>
  \<open>synthetic-home/src/contract.ts\<close>, second part: the validators of the declarations of a home, of
  stimuli and observations, and of the three documents.
\<close>

section \<open>The home\<close>

definition validate_actor :: "jsval \<Rightarrow> actor_declaration traced" where
  "validate_actor value =
     bind_r (fixture_object value [''id'', ''role'', ''groups'', ''notifications_enabled''] []) (\<lambda>record.
     bind_r (validate_synthetic_id (get record ''id'')) (\<lambda>identifier.
     bind_r (fixture_enum (get record ''role'')
       [(''owner'', RoleOwner), (''resident'', RoleResident), (''guest'', RoleGuest)]) (\<lambda>role.
     bind_r (fixture_unique (get record ''groups'') (fx_groups FIXTURE_LIMITS) validate_synthetic_id) (\<lambda>groups.
     bind_r (fixture_bool (get record ''notifications_enabled'')) (\<lambda>notifications.
       Inr \<lparr>ac_id = identifier, ac_role = role, ac_groups = groups, ac_notifications = notifications\<rparr>)))))"

definition validate_group :: "jsval \<Rightarrow> jstr traced" where
  "validate_group value =
     bind_r (fixture_object value [''id''] []) (\<lambda>record. validate_synthetic_id (get record ''id''))"

definition validate_zone :: "jsval \<Rightarrow> jstr traced" where
  "validate_zone value =
     bind_r (fixture_object value [''id''] []) (\<lambda>record. validate_synthetic_id (get record ''id''))"

definition validate_device :: "jsval \<Rightarrow> device_declaration traced" where
  "validate_device value =
     bind_r (fixture_object value [''id'', ''zone_id'', ''kind'', ''capabilities''] []) (\<lambda>record.
     bind_r (validate_synthetic_id (get record ''id'')) (\<lambda>identifier.
     bind_r (validate_synthetic_id (get record ''zone_id'')) (\<lambda>zone.
     bind_r (validate_home_resource (get record ''kind'')) (\<lambda>kind.
     bind_r (fixture_unique (get record ''capabilities'') 32 validate_home_resource) (\<lambda>capabilities.
       if capabilities = [] then refuse ''missing_field''
       else Inr \<lparr>dv_id = identifier, dv_zone = zone, dv_kind = kind, dv_capabilities = capabilities\<rparr>)))))"

definition validate_state_declaration :: "jsval \<Rightarrow> state_path_declaration traced" where
  "validate_state_declaration value =
     bind_r (fixture_object value [''path'', ''value_type'', ''persistence'', ''writable''] []) (\<lambda>record.
     bind_r (validate_state_path (get record ''path'')) (\<lambda>path.
     bind_r (validate_value_type (get record ''value_type'')) (\<lambda>type.
     bind_r (fixture_enum (get record ''persistence'')
       [(''ephemeral'', Ephemeral), (''persisted'', Persisted)]) (\<lambda>persistence.
     bind_r (fixture_bool (get record ''writable'')) (\<lambda>writable.
       Inr \<lparr>sp_path = path, sp_type = type, sp_persistence = persistence, sp_writable = writable\<rparr>)))))"

definition action_value_type :: "action_type \<Rightarrow> jsval \<Rightarrow> value_type option traced" where
  "action_value_type type value =
     (if type = Input then
        (if value = JUndef then refuse ''missing_field''
         else bind_r (validate_value_type value) (\<lambda>t. Inr (Some t)))
      else if value \<noteq> JUndef then refuse ''unknown_field''
      else Inr None)"

definition validate_action :: "jsval \<Rightarrow> action_declaration traced" where
  "validate_action value =
     bind_r (fixture_object value
       [''id'', ''type'', ''element_id'', ''name'', ''allowed_groups'', ''idempotency''] [''value_type'']) (\<lambda>record.
     bind_r (validate_synthetic_id (get record ''id'')) (\<lambda>identifier.
     bind_r (fixture_enum (get record ''type'') ACTION_TYPES) (\<lambda>type.
     bind_r (validate_synthetic_id (get record ''element_id'')) (\<lambda>element.
     bind_r (validate_home_resource (get record ''name'')) (\<lambda>name.
     bind_r (fixture_unique (get record ''allowed_groups'') (fx_groups FIXTURE_LIMITS) validate_synthetic_id) (\<lambda>groups.
     bind_r (fixture_enum (get record ''idempotency'') IDEMPOTENCIES) (\<lambda>idempotency.
     bind_r (action_value_type type (get record ''value_type'')) (\<lambda>value_type.
       Inr \<lparr>ad_id = identifier, ad_type = type, ad_element = element, ad_name = name, ad_groups = groups,
            ad_idempotency = idempotency, ad_value_type = value_type\<rparr>))))))))"

definition validate_event_declaration :: "jsval \<Rightarrow> event_declaration traced" where
  "validate_event_declaration value =
     bind_r (fixture_object value [''name'', ''value_type''] []) (\<lambda>record.
     bind_r (validate_home_resource (get record ''name'')) (\<lambda>name.
     bind_r (validate_value_type (get record ''value_type'')) (\<lambda>type.
       Inr \<lparr>ed_name = name, ed_type = type\<rparr>)))"

text \<open>The notification contract of version 1 is fixed.\<close>

definition validate_notification_contract :: "jsval \<Rightarrow> unit traced" where
  "validate_notification_contract value =
     bind_r (fixture_object value [''required_fields'', ''optional_fields'', ''audience'', ''delivery''] [])
       (\<lambda>record.
     bind_r (fixture_array (get record ''required_fields'') 2) (\<lambda>required.
     bind_r (fixture_array (get record ''optional_fields'') 2) (\<lambda>optional.
       if required \<noteq> [JStr (js ''title''), JStr (js ''body'')] then refuse ''invalid_value''
       else if optional \<noteq> [JStr (js ''tag''), JStr (js ''image'')] then refuse ''invalid_value''
       else if \<not> strict_eq_str (get record ''audience'') (js ''group_filtered'')
         \<or> \<not> strict_eq_str (get record ''delivery'') (js ''intent_only'') then refuse ''invalid_value''
       else Inr ())))"

definition validate_home :: "jsval \<Rightarrow> synthetic_home traced" where
  "validate_home value =
     bind_r (fixture_object value [''schema'', ''home_id'', ''actors'', ''groups'', ''zones'', ''devices'',
       ''state_paths'', ''actions'', ''events'', ''notification_contract'', ''lifecycle_signals'',
       ''initial_state'', ''initial_context''] []) (\<lambda>record.
     if \<not> strict_eq_str (get record ''schema'') (js ''miakapp.synthetic-home/1'') then refuse ''unsupported_schema''
     else
     bind_r (validate_synthetic_id (get record ''home_id'')) (\<lambda>identifier.
     bind_r (unique_objects (get record ''actors'') (fx_actors FIXTURE_LIMITS) validate_actor ac_id) (\<lambda>actors.
     bind_r (unique_objects (get record ''groups'') (fx_groups FIXTURE_LIMITS) validate_group (\<lambda>g. g)) (\<lambda>groups.
     bind_r (unique_objects (get record ''zones'') (fx_zones FIXTURE_LIMITS) validate_zone (\<lambda>z. z)) (\<lambda>zones.
     bind_r (unique_objects (get record ''devices'') (fx_devices FIXTURE_LIMITS) validate_device dv_id) (\<lambda>devices.
     bind_r (unique_objects (get record ''state_paths'') (fx_state_paths FIXTURE_LIMITS)
       validate_state_declaration sp_path) (\<lambda>paths.
     bind_r (unique_objects (get record ''actions'') (fx_actions FIXTURE_LIMITS) validate_action ad_id) (\<lambda>actions.
     if \<not> distinct (map ad_element actions) then refuse ''duplicate''
     else
     bind_r (unique_objects (get record ''events'') (fx_events FIXTURE_LIMITS)
       validate_event_declaration ed_name) (\<lambda>events.
     bind_r (validate_notification_contract (get record ''notification_contract'')) (\<lambda>_.
     bind_r (fixture_unique (get record ''lifecycle_signals'') 8
       (\<lambda>entry. fixture_enum entry LIFECYCLE_SIGNALS)) (\<lambda>signals.
     bind_r (validate_state_record (get record ''initial_state'')) (\<lambda>st.
     bind_r (validate_context (get record ''initial_context'')) (\<lambda>ctx.
       Inr \<lparr>hm_id = identifier, hm_actors = actors, hm_groups = groups, hm_zones = zones,
            hm_devices = devices, hm_paths = paths, hm_actions = actions, hm_events = events,
            hm_signals = signals, hm_state = st, hm_context = ctx\<rparr>)))))))))))))"

section \<open>The manifest\<close>

definition manifest_seed :: "jsval \<Rightarrow> int traced" where
  "manifest_seed value =
     (case value of
        JNum n \<Rightarrow> (if \<not> num_is_safe_integer n \<or> n = NNegZero \<or> num_int n < 0 then refuse ''invalid_integer''
                   else Inr (num_int n))
      | _ \<Rightarrow> refuse ''invalid_integer'')"

definition manifest_provenance :: "jsval \<Rightarrow> unit traced" where
  "manifest_provenance value =
     bind_r (fixture_object value
       [''kind'', ''derived_from_export'', ''contains_production_data'', ''human_review_required''] []) (\<lambda>record.
       if \<not> strict_eq_str (get record ''kind'') (js ''hand_authored_synthetic'')
         \<or> get record ''derived_from_export'' \<noteq> JBool False
         \<or> get record ''contains_production_data'' \<noteq> JBool False
         \<or> get record ''human_review_required'' \<noteq> JBool True
       then refuse ''invalid_provenance'' else Inr ())"

definition validate_manifest :: "jsval \<Rightarrow> fixture_manifest traced" where
  "validate_manifest value =
     bind_r (fixture_object value [''schema'', ''fixture_version'', ''corpus_id'', ''seed'', ''clock'',
       ''provenance'', ''files'', ''required_coverage''] []) (\<lambda>record.
     if \<not> strict_eq_str (get record ''schema'') (js ''miakapp.synthetic-home-manifest/1'')
     then refuse ''unsupported_schema''
     else if \<not> strict_eq_int (get record ''fixture_version'') 1 then refuse ''unsupported_schema''
     else
     bind_r (validate_synthetic_id (get record ''corpus_id'')) (\<lambda>identifier.
     bind_r (manifest_seed (get record ''seed'')) (\<lambda>seed.
     bind_r (fixture_object (get record ''clock'') [''start'', ''timezone''] []) (\<lambda>clock.
     bind_r (validate_utc_timestamp (get clock ''start'')) (\<lambda>start.
     if \<not> strict_eq_str (get clock ''timezone'') (js ''UTC'') then refuse ''invalid_value''
     else
     bind_r (manifest_provenance (get record ''provenance'')) (\<lambda>_.
     bind_r (fixture_object (get record ''files'') [''home'', ''scenarios''] []) (\<lambda>files.
     if \<not> strict_eq_str (get files ''home'') (js ''home.json'')
       \<or> \<not> strict_eq_str (get files ''scenarios'') (js ''scenarios.json'') then refuse ''invalid_value''
     else
     bind_r (validate_coverage_list (get record ''required_coverage'')) (\<lambda>coverage.
       if coverage = [] then refuse ''missing_field''
       else Inr \<lparr>mf_corpus_id = identifier, mf_seed = seed, mf_start = start, mf_required = coverage\<rparr>))))))))"

section \<open>Stimuli\<close>

definition event_stimulus_of :: "jsval \<Rightarrow> home_stimulus traced" where
  "event_stimulus_of value =
     bind_r (fixture_object value [''kind'', ''name'', ''value''] []) (\<lambda>record.
     bind_r (validate_home_resource (get record ''name'')) (\<lambda>name.
     bind_r (validate_json_value (get record ''value'')) (\<lambda>_.
       Inr (EventStimulus name (get record ''value'')))))"

definition action_value :: "action_type \<Rightarrow> fields \<Rightarrow> jsval option traced" where
  "action_value type record =
     (if type = Input then
        (if \<not> has_own record (js ''value'') then refuse ''missing_field''
         else bind_r (validate_json_value (get record ''value'')) (\<lambda>_. Inr (Some (get record ''value''))))
      else if has_own record (js ''value'') then refuse ''unknown_field''
      else Inr None)"

definition action_stimulus_of :: "jsval \<Rightarrow> home_stimulus traced" where
  "action_stimulus_of value =
     bind_r (fixture_object value [''kind'', ''operation_id'', ''actor_id'', ''action_id'', ''type'',
       ''element_id'', ''name''] [''value'']) (\<lambda>record.
     bind_r (validate_synthetic_id (get record ''operation_id'')) (\<lambda>operation.
     bind_r (validate_synthetic_id (get record ''actor_id'')) (\<lambda>actor.
     bind_r (validate_synthetic_id (get record ''action_id'')) (\<lambda>action.
     bind_r (fixture_enum (get record ''type'') ACTION_TYPES) (\<lambda>type.
     bind_r (validate_synthetic_id (get record ''element_id'')) (\<lambda>element.
     bind_r (validate_home_resource (get record ''name'')) (\<lambda>name.
     bind_r (action_value type record) (\<lambda>v.
       Inr (ActionStimulus \<lparr>as_operation = operation, as_actor = actor, as_action = action, as_type = type,
         as_element = element, as_name = name, as_value = v\<rparr>)))))))))"

definition lifecycle_stimulus_of :: "jsval \<Rightarrow> home_stimulus traced" where
  "lifecycle_stimulus_of value =
     bind_r (fixture_object value [''kind'', ''signal''] []) (\<lambda>record.
     bind_r (fixture_enum (get record ''signal'') LIFECYCLE_SIGNALS) (\<lambda>signal.
       Inr (LifecycleStimulus signal)))"

definition timer_stimulus_of :: "jsval \<Rightarrow> home_stimulus traced" where
  "timer_stimulus_of value =
     bind_r (fixture_object value [''kind'', ''name'', ''at''] []) (\<lambda>record.
     bind_r (validate_home_resource (get record ''name'')) (\<lambda>name.
     bind_r (validate_utc_timestamp (get record ''at'')) (\<lambda>time.
       Inr (TimerStimulus name time))))"

definition validate_home_stimulus :: "jsval \<Rightarrow> home_stimulus traced" where
  "validate_home_stimulus value =
     (case value of
        JRec _ fs \<Rightarrow>
          bind_r (fixture_enum (get fs ''kind'') [(''event'', event_stimulus_of), (''action'', action_stimulus_of),
            (''lifecycle'', lifecycle_stimulus_of), (''timer'', timer_stimulus_of)]) (\<lambda>validate. validate value)
      | _ \<Rightarrow> refuse ''invalid_type'')"

section \<open>Observations\<close>

definition stimulus_index :: "jsval \<Rightarrow> int traced" where
  "stimulus_index value =
     (case value of
        JNum n \<Rightarrow> (if \<not> num_is_safe_integer n \<or> num_int n < 0 \<or> num_int n \<ge> int (fx_stimuli FIXTURE_LIMITS)
                   then refuse ''invalid_integer'' else Inr (num_int n))
      | _ \<Rightarrow> refuse ''invalid_integer'')"

definition validate_cause :: "jsval \<Rightarrow> command_cause traced" where
  "validate_cause value =
     (case value of
        JRec _ fs \<Rightarrow>
          bind_r (fixture_enum (get fs ''kind'') [(''operation'', True), (''stimulus'', False)]) (\<lambda>operation.
            if operation then
              bind_r (fixture_object value [''kind'', ''operation_id''] []) (\<lambda>cause.
              bind_r (validate_synthetic_id (get cause ''operation_id'')) (\<lambda>identifier.
                Inr (ByOperation identifier)))
            else
              bind_r (fixture_object value [''kind'', ''stimulus_index''] []) (\<lambda>cause.
              bind_r (stimulus_index (get cause ''stimulus_index'')) (\<lambda>i. Inr (ByStimulus i))))
      | _ \<Rightarrow> refuse ''invalid_type'')"

definition validate_command :: "jsval \<Rightarrow> recorded_command traced" where
  "validate_command value =
     bind_r (fixture_object value [''target_id'', ''name'', ''value'', ''cause''] []) (\<lambda>record.
     bind_r (validate_synthetic_id (get record ''target_id'')) (\<lambda>target.
     bind_r (validate_home_resource (get record ''name'')) (\<lambda>name.
     bind_r (validate_json_value (get record ''value'')) (\<lambda>_.
     bind_r (validate_cause (get record ''cause'')) (\<lambda>cause.
       Inr \<lparr>rc_target = target, rc_name = name, rc_value = get record ''value'', rc_cause = cause\<rparr>)))))"

definition validate_notification :: "jsval \<Rightarrow> notification_intent traced" where
  "validate_notification value =
     bind_r (fixture_object value [''title'', ''body'', ''audience''] [''tag'', ''image'']) (\<lambda>record.
     bind_r (fixture_text (get record ''title'') (fixture_string_bytes FIXTURE_LIMITS)) (\<lambda>title.
     bind_r (fixture_text (get record ''body'') (fixture_string_bytes FIXTURE_LIMITS)) (\<lambda>body.
     bind_r (fixture_optional (get record ''tag'') 128) (\<lambda>tag.
     bind_r (fixture_optional (get record ''image'') 512) (\<lambda>image.
     bind_r (fixture_object (get record ''audience'') [''groups'', ''actors''] []) (\<lambda>audience.
     bind_r (fixture_unique (get audience ''groups'') (fx_groups FIXTURE_LIMITS) validate_synthetic_id) (\<lambda>groups.
     bind_r (fixture_unique (get audience ''actors'') (fx_actors FIXTURE_LIMITS) validate_synthetic_id) (\<lambda>actors.
       Inr \<lparr>ni_title = title, ni_body = body, ni_tag = tag, ni_image = image, ni_groups = groups,
            ni_actors = actors\<rparr>))))))))"

definition validate_lifecycle_observation :: "jsval \<Rightarrow> lifecycle_observation traced" where
  "validate_lifecycle_observation value =
     bind_r (fixture_object value [''signal''] [''reason'']) (\<lambda>record.
     bind_r (fixture_enum (get record ''signal'') LIFECYCLE_SIGNALS) (\<lambda>signal.
     bind_r (fixture_optional (get record ''reason'') 256) (\<lambda>reason.
       Inr \<lparr>lo_signal = signal, lo_reason = reason\<rparr>)))"

definition operation_reason :: "operation_status \<Rightarrow> jsval \<Rightarrow> jstr option traced" where
  "operation_reason status value =
     (if status = StatusDenied \<or> status = StatusOutcomeUnknown then
        (if value = JUndef then refuse ''missing_field''
         else bind_r (fixture_text value 256) (\<lambda>reason. Inr (Some reason)))
      else if value \<noteq> JUndef then refuse ''unknown_field''
      else Inr None)"

definition validate_operation :: "jsval \<Rightarrow> operation_observation traced" where
  "validate_operation value =
     bind_r (fixture_object value [''operation_id'', ''status''] [''reason'']) (\<lambda>record.
     bind_r (validate_synthetic_id (get record ''operation_id'')) (\<lambda>identifier.
     bind_r (fixture_enum (get record ''status'') OPERATION_STATUSES) (\<lambda>status.
     bind_r (operation_reason status (get record ''reason'')) (\<lambda>reason.
       Inr \<lparr>oo_id = identifier, oo_status = status, oo_reason = reason\<rparr>))))"

definition validate_home_observation :: "jsval \<Rightarrow> scenario_observation traced" where
  "validate_home_observation value =
     bind_r (fixture_object value [''state_patch'', ''context_patch'', ''recorded_commands'',
       ''notification_intents'', ''lifecycle'', ''operations'', ''unchanged_paths''] []) (\<lambda>record.
     bind_r (validate_state_record (get record ''state_patch'')) (\<lambda>patch.
     bind_r (validate_context (get record ''context_patch'')) (\<lambda>ctx.
     bind_r (fixture_list (get record ''recorded_commands'') (fx_effects FIXTURE_LIMITS) validate_command) (\<lambda>commands.
     bind_r (fixture_list (get record ''notification_intents'') (fx_effects FIXTURE_LIMITS) validate_notification)
       (\<lambda>notifications.
     bind_r (fixture_list (get record ''lifecycle'') (fx_effects FIXTURE_LIMITS) validate_lifecycle_observation)
       (\<lambda>lifecycle.
     bind_r (fixture_list (get record ''operations'') (fx_effects FIXTURE_LIMITS) validate_operation) (\<lambda>operations.
     bind_r (fixture_unique (get record ''unchanged_paths'') (fx_state_paths FIXTURE_LIMITS) validate_state_path)
       (\<lambda>unchanged.
       Inr \<lparr>so_state_patch = patch, so_context_patch = ctx, so_commands = commands,
            so_notifications = notifications, so_lifecycle = lifecycle, so_operations = operations,
            so_unchanged = unchanged\<rparr>))))))))"

definition validate_replay_observation :: "jsval \<Rightarrow> replay_observation traced" where
  "validate_replay_observation value =
     bind_r (fixture_object value [''state'', ''context'', ''recorded_commands'', ''notification_intents'',
       ''lifecycle'', ''operations''] []) (\<lambda>record.
     bind_r (validate_state_record (get record ''state'')) (\<lambda>st.
     bind_r (validate_context (get record ''context'')) (\<lambda>ctx.
     bind_r (fixture_list (get record ''recorded_commands'') (fx_effects FIXTURE_LIMITS) validate_command) (\<lambda>commands.
     bind_r (fixture_list (get record ''notification_intents'') (fx_effects FIXTURE_LIMITS) validate_notification)
       (\<lambda>notifications.
     bind_r (fixture_list (get record ''lifecycle'') (fx_effects FIXTURE_LIMITS) validate_lifecycle_observation)
       (\<lambda>lifecycle.
     bind_r (fixture_list (get record ''operations'') (fx_effects FIXTURE_LIMITS) validate_operation) (\<lambda>operations.
       Inr \<lparr>ro_state = st, ro_context = ctx, ro_commands = commands, ro_notifications = notifications,
            ro_lifecycle = lifecycle, ro_operations = operations\<rparr>)))))))"

section \<open>Scenarios\<close>

definition validate_setup :: "jsval \<Rightarrow> scenario_setup traced" where
  "validate_setup value =
     bind_r (fixture_object value [''connection'', ''state'', ''context''] []) (\<lambda>prepared.
     bind_r (fixture_enum (get prepared ''connection'')
       [(''connected'', Connected), (''disconnected'', Disconnected)]) (\<lambda>connection.
     bind_r (validate_state_record (get prepared ''state'')) (\<lambda>st.
     bind_r (validate_context (get prepared ''context'')) (\<lambda>ctx.
       Inr \<lparr>su_connection = connection, su_state = st, su_context = ctx\<rparr>))))"

definition validate_home_scenario :: "jsval \<Rightarrow> home_scenario traced" where
  "validate_home_scenario value =
     bind_r (fixture_object value
       [''id'', ''description'', ''coverage'', ''setup'', ''stimuli'', ''expected''] []) (\<lambda>record.
     bind_r (validate_synthetic_id (get record ''id'')) (\<lambda>identifier.
     bind_r (fixture_text (get record ''description'') (description_bytes FIXTURE_LIMITS)) (\<lambda>description.
     bind_r (validate_coverage_list (get record ''coverage'')) (\<lambda>coverage.
     if coverage = [] then refuse ''missing_field''
     else
     bind_r (validate_setup (get record ''setup'')) (\<lambda>prepared.
     bind_r (fixture_array (get record ''stimuli'') (fx_stimuli FIXTURE_LIMITS)) (\<lambda>entries.
     if entries = [] then refuse ''missing_field''
     else
     bind_r (map_r validate_home_stimulus entries) (\<lambda>stimuli.
     bind_r (validate_home_observation (get record ''expected'')) (\<lambda>expected.
       Inr \<lparr>hs_id = identifier, hs_description = description, hs_coverage = coverage, hs_setup = prepared,
            hs_stimuli = stimuli, hs_expected = expected\<rparr>))))))))"

definition validate_scenario_corpus :: "jsval \<Rightarrow> scenario_corpus traced" where
  "validate_scenario_corpus value =
     bind_r (fixture_object value [''schema'', ''home_id'', ''scenarios''] []) (\<lambda>record.
     if \<not> strict_eq_str (get record ''schema'') (js ''miakapp.synthetic-home-scenarios/1'')
     then refuse ''unsupported_schema''
     else
     bind_r (validate_synthetic_id (get record ''home_id'')) (\<lambda>identifier.
     bind_r (fixture_array (get record ''scenarios'') (fx_scenarios FIXTURE_LIMITS)) (\<lambda>entries.
     if entries = [] then refuse ''missing_field''
     else
     bind_r (map_r validate_home_scenario entries) (\<lambda>scenarios.
       if \<not> distinct (map hs_id scenarios) then refuse ''duplicate''
       else Inr \<lparr>sk_home = identifier, sk_scenarios = scenarios\<rparr>))))"

end
