(* ===== verification/Home_Corpus.thy ===== *)
theory Home_Corpus
  imports Home_Validators
begin

text \<open>
  \<open>synthetic-home/src/corpus.ts\<close>: the checks that tie the documents of a synthetic home together. Every
  failed reference is the violation \<open>invalid_reference\<close>.
\<close>

section \<open>References\<close>

definition require_reference :: "bool \<Rightarrow> unit traced" where
  "require_reference condition = (if \<not> condition then refuse ''invalid_reference'' else Inr ())"

lemma require_reference_Inr [res_simps]: "require_reference c = Inr u \<longleftrightarrow> c"
  by (simp add: require_reference_def)

text \<open>\<open>new Map(xs.map((x) => [key(x), x]))\<close>: a later entry replaces an earlier one.\<close>

definition index_by :: "('a \<Rightarrow> jstr) \<Rightarrow> 'a list \<Rightarrow> jstr \<Rightarrow> 'a option" where
  "index_by key xs = map_of (rev (map (\<lambda>x. (key x, x)) xs))"

record scenario_indexes =
  ix_actors :: "jstr \<Rightarrow> actor_declaration option"
  ix_groups :: "jstr list"
  ix_devices :: "jstr \<Rightarrow> device_declaration option"
  ix_state :: "jstr \<Rightarrow> state_path_declaration option"
  ix_actions :: "jstr \<Rightarrow> action_declaration option"
  ix_events :: "jstr \<Rightarrow> event_declaration option"

definition assert_typed_state :: "fields \<Rightarrow> (jstr \<Rightarrow> state_path_declaration option) \<Rightarrow> unit traced" where
  "assert_typed_state fs declarations =
     each_r (\<lambda>(path, v).
       (case declarations path of
          None \<Rightarrow> refuse ''invalid_reference''
        | Some declaration \<Rightarrow> require_reference (value_matches_type v (sp_type declaration)))) fs"

definition context_has_entries :: "fixture_context \<Rightarrow> bool" where
  "context_has_entries ctx \<longleftrightarrow> fc_global ctx \<noteq> [] \<or> list_ex (\<lambda>(_, flow). flow \<noteq> []) (fc_flows ctx)"

definition assert_context_references :: "fixture_context \<Rightarrow> fixture_context \<Rightarrow> unit traced" where
  "assert_context_references ctx declarations =
     bind_r (each_r (\<lambda>(key, _). require_reference (has_own (fc_global declarations) key)) (fc_global ctx)) (\<lambda>_.
       each_r (\<lambda>(flow_id, flow).
         (case map_of (fc_flows declarations) flow_id of
            None \<Rightarrow> refuse ''invalid_reference''
          | Some declared \<Rightarrow> each_r (\<lambda>(key, _). require_reference (has_own declared key)) flow))
         (fc_flows ctx))"

section \<open>Stimuli\<close>

definition check_action_stimulus ::
  "scenario_indexes \<Rightarrow> action_stimulus \<Rightarrow> jstr list \<Rightarrow> jstr list traced" where
  "check_action_stimulus ix stim operations =
     (case (ix_actors ix (as_actor stim), ix_actions ix (as_action stim)) of
        (Some actor, Some action) \<Rightarrow>
          bind_r (require_reference (ad_type action = as_type stim \<and> ad_element action = as_element stim
            \<and> ad_name action = as_name stim)) (\<lambda>_.
          bind_r (require_reference (as_operation stim \<notin> set operations)) (\<lambda>_.
          bind_r (if ad_type action = Input then
                    (case (as_value stim, ad_value_type action) of
                       (Some v, Some type) \<Rightarrow> require_reference (value_matches_type v type)
                     | _ \<Rightarrow> refuse ''invalid_reference'')
                  else Inr ()) (\<lambda>_.
            Inr (operations @ [as_operation stim]))))
      | _ \<Rightarrow> refuse ''invalid_reference'')"

definition check_stimulus ::
  "synthetic_home \<Rightarrow> scenario_indexes \<Rightarrow> jstr list \<Rightarrow> home_stimulus \<Rightarrow> jstr list traced" where
  "check_stimulus home ix operations stim =
     (case stim of
        EventStimulus name v \<Rightarrow>
          (case ix_events ix name of
             None \<Rightarrow> refuse ''invalid_reference''
           | Some event \<Rightarrow> bind_r (require_reference (value_matches_type v (ed_type event))) (\<lambda>_. Inr operations))
      | ActionStimulus a \<Rightarrow> check_action_stimulus ix a operations
      | LifecycleStimulus signal \<Rightarrow>
          bind_r (require_reference (signal \<in> set (hm_signals home))) (\<lambda>_. Inr operations)
      | TimerStimulus _ _ \<Rightarrow> Inr operations)"

definition validate_stimuli ::
  "home_scenario \<Rightarrow> synthetic_home \<Rightarrow> scenario_indexes \<Rightarrow> jstr list traced" where
  "validate_stimuli scen home ix = fold_r (check_stimulus home ix) [] (hs_stimuli scen)"

section \<open>Expected effects\<close>

definition validate_protected_state :: "home_scenario \<Rightarrow> scenario_indexes \<Rightarrow> unit traced" where
  "validate_protected_state scen ix =
     each_r (\<lambda>path.
       bind_r (require_reference (ix_state ix path \<noteq> None)) (\<lambda>_.
         require_reference (path \<notin> set (map fst (so_state_patch (hs_expected scen))))))
       (so_unchanged (hs_expected scen))"

fun is_action_stimulus :: "home_stimulus \<Rightarrow> bool" where
  "is_action_stimulus (ActionStimulus _) = True"
| "is_action_stimulus _ = False"

definition check_command ::
  "home_stimulus list \<Rightarrow> jstr list \<Rightarrow> scenario_indexes \<Rightarrow> recorded_command \<Rightarrow> unit traced" where
  "check_command stimuli operations ix command =
     (case ix_devices ix (rc_target command) of
        None \<Rightarrow> refuse ''invalid_reference''
      | Some device \<Rightarrow>
          bind_r (require_reference (rc_name command \<in> set (dv_capabilities device))) (\<lambda>_.
          (case rc_cause command of
             ByOperation operation \<Rightarrow> require_reference (operation \<in> set operations)
           | ByStimulus i \<Rightarrow>
               bind_r (require_reference (nat i < length stimuli)) (\<lambda>_.
                 require_reference (\<not> is_action_stimulus (stimuli ! nat i))))))"

definition validate_commands ::
  "home_scenario \<Rightarrow> jstr list \<Rightarrow> scenario_indexes \<Rightarrow> unit traced" where
  "validate_commands scen operations ix =
     each_r (check_command (hs_stimuli scen) operations ix) (so_commands (hs_expected scen))"

definition validate_notifications :: "home_scenario \<Rightarrow> scenario_indexes \<Rightarrow> unit traced" where
  "validate_notifications scen ix =
     each_r (\<lambda>notification.
       bind_r (require_reference (length (ni_groups notification) + length (ni_actors notification) > 0)) (\<lambda>_.
       bind_r (each_r (\<lambda>g. require_reference (g \<in> set (ix_groups ix))) (ni_groups notification)) (\<lambda>_.
         each_r (\<lambda>identifier.
           (case ix_actors ix identifier of
              None \<Rightarrow> refuse ''invalid_reference''
            | Some actor \<Rightarrow> require_reference (ac_notifications actor))) (ni_actors notification))))
       (so_notifications (hs_expected scen))"

section \<open>Operations\<close>

text \<open>The statuses of an operation, in order; the source joins them with commas to compare them.\<close>

definition operation_observations :: "home_scenario \<Rightarrow> jstr \<Rightarrow> operation_observation list" where
  "operation_observations scen operation =
     filter (\<lambda>ob. oo_id ob = operation) (so_operations (hs_expected scen))"

definition operation_sequence :: "home_scenario \<Rightarrow> jstr \<Rightarrow> operation_status list" where
  "operation_sequence scen operation = map oo_status (operation_observations scen operation)"

definition operation_commands :: "home_scenario \<Rightarrow> jstr \<Rightarrow> recorded_command list" where
  "operation_commands scen operation =
     filter (\<lambda>command. rc_cause command = ByOperation operation) (so_commands (hs_expected scen))"

definition matching_commands :: "home_scenario \<Rightarrow> recorded_command list \<Rightarrow> recorded_command list" where
  "matching_commands scen causal =
     (case causal of
        [] \<Rightarrow> []
      | primary # _ \<Rightarrow>
          filter (\<lambda>command. rc_target command = rc_target primary \<and> rc_name command = rc_name primary)
            (so_commands (hs_expected scen)))"

definition no_side_effects :: "scenario_observation \<Rightarrow> bool" where
  "no_side_effects expected \<longleftrightarrow>
     so_state_patch expected = [] \<and> \<not> context_has_entries (so_context_patch expected)
     \<and> so_commands expected = [] \<and> so_notifications expected = [] \<and> so_lifecycle expected = []"

definition check_operation ::
  "home_scenario \<Rightarrow> actor_declaration \<Rightarrow> action_declaration \<Rightarrow> jstr \<Rightarrow> unit traced" where
  "check_operation scen actor action operation =
     (let sequence = operation_sequence scen operation;
          authorized = (\<exists>g\<in>set (ad_groups action). g \<in> set (ac_groups actor));
          causal = operation_commands scen operation
      in
      bind_r (require_reference (sequence = [StatusDenied] \<or> sequence = [StatusAccepted, StatusApplied]
        \<or> sequence = [StatusAccepted, StatusOutcomeUnknown])) (\<lambda>_.
      bind_r (if \<not> authorized then
                require_reference (sequence = [StatusDenied]
                  \<and> oo_reason (hd (operation_observations scen operation)) = Some (js ''group_not_allowed''))
              else Inr ()) (\<lambda>_.
      bind_r (if sequence = [StatusDenied] then
                bind_r (require_reference (causal = [])) (\<lambda>_.
                  if list_all is_action_stimulus (hs_stimuli scen)
                  then require_reference (no_side_effects (hs_expected scen)) else Inr ())
              else Inr ()) (\<lambda>_.
        if sequence = [StatusAccepted, StatusOutcomeUnknown] \<and> ad_idempotency action = NonIdempotent then
          require_reference (length causal = 1 \<and> length (matching_commands scen causal) = 1)
        else Inr ()))))"

text \<open>The declarations were found by \<open>validate_stimuli\<close>; reading a property of a missing one would throw.\<close>

definition check_operation_stimulus ::
  "home_scenario \<Rightarrow> scenario_indexes \<Rightarrow> home_stimulus \<Rightarrow> unit traced" where
  "check_operation_stimulus scen ix stim =
     (case stim of
        ActionStimulus a \<Rightarrow>
          (case (ix_actors ix (as_actor a), ix_actions ix (as_action a)) of
             (Some actor, Some action) \<Rightarrow> check_operation scen actor action (as_operation a)
           | _ \<Rightarrow> Inl Trace_TypeError)
      | _ \<Rightarrow> Inr ())"

definition validate_operations ::
  "home_scenario \<Rightarrow> jstr list \<Rightarrow> scenario_indexes \<Rightarrow> unit traced" where
  "validate_operations scen operations ix =
     bind_r (each_r (\<lambda>ob. require_reference (oo_id ob \<in> set operations)) (so_operations (hs_expected scen))) (\<lambda>_.
       each_r (check_operation_stimulus scen ix) (hs_stimuli scen))"

section \<open>Coverage\<close>

fun action_of :: "home_stimulus \<Rightarrow> action_stimulus option" where
  "action_of (ActionStimulus a) = Some a"
| "action_of _ = None"

fun signal_of :: "home_stimulus \<Rightarrow> lifecycle_signal option" where
  "signal_of (LifecycleStimulus s) = Some s"
| "signal_of _ = None"

definition action_stimuli :: "home_scenario \<Rightarrow> action_stimulus list" where
  "action_stimuli scen = List.map_filter action_of (hs_stimuli scen)"

definition lifecycle_stimuli :: "home_scenario \<Rightarrow> lifecycle_signal list" where
  "lifecycle_stimuli scen = List.map_filter signal_of (hs_stimuli scen)"

fun climate_stimulus :: "home_stimulus \<Rightarrow> bool" where
  "climate_stimulus (ActionStimulus a) = starts_with (as_name a) (js ''climate.'')"
| "climate_stimulus (EventStimulus name _) = starts_with name (js ''climate.'')"
| "climate_stimulus _ = False"

fun is_event :: "home_stimulus \<Rightarrow> bool" where
  "is_event (EventStimulus _ _) = True"
| "is_event _ = False"

fun is_timer :: "home_stimulus \<Rightarrow> bool" where
  "is_timer (TimerStimulus _ _) = True"
| "is_timer _ = False"

definition unknown_outcome_claim :: "home_scenario \<Rightarrow> scenario_indexes \<Rightarrow> bool" where
  "unknown_outcome_claim scen ix \<longleftrightarrow>
     (case List.find (\<lambda>ob. oo_status ob = StatusOutcomeUnknown) (so_operations (hs_expected scen)) of
        None \<Rightarrow> False
      | Some unknown \<Rightarrow>
          (case List.find (\<lambda>a. as_operation a = oo_id unknown) (action_stimuli scen) of
             None \<Rightarrow> False
           | Some a \<Rightarrow>
               (case ix_actions ix (as_action a) of
                  None \<Rightarrow> False
                | Some action \<Rightarrow> ad_idempotency action = NonIdempotent)
               \<and> length (operation_commands scen (oo_id unknown)) = 1
               \<and> length (so_commands (hs_expected scen)) = 1))"

definition busy_flow :: "home_scenario \<Rightarrow> bool" where
  "busy_flow scen \<longleftrightarrow>
     list_ex (\<lambda>(_, flow). list_ex (\<lambda>(key, v). ends_with key (js ''.busy'') \<and> v = JBool True) flow)
       (fc_flows (su_context (hs_setup scen)))"

definition validates_coverage_claim :: "home_scenario \<Rightarrow> coverage_class \<Rightarrow> scenario_indexes \<Rightarrow> bool" where
  "validates_coverage_claim scen coverage ix =
     (let expected = hs_expected scen; patched = map fst (so_state_patch expected);
          emitted = map lo_signal (so_lifecycle expected)
      in case coverage of
        CoverBootstrap \<Rightarrow> SignalReady \<in> set (lifecycle_stimuli scen) \<and> SignalReady \<in> set emitted
      | CoverPersistedContext \<Rightarrow>
          context_has_entries (su_context (hs_setup scen)) \<or> context_has_entries (so_context_patch expected)
      | CoverSensorAutomation \<Rightarrow>
          list_ex is_event (hs_stimuli scen)
          \<and> list_ex (\<lambda>c. case rc_cause c of ByStimulus _ \<Rightarrow> True | _ \<Rightarrow> False) (so_commands expected)
          \<and> patched \<noteq> []
      | CoverAuthorization \<Rightarrow> action_stimuli scen \<noteq> [] \<and> so_operations expected \<noteq> []
      | CoverConcurrentAction \<Rightarrow>
          busy_flow scen \<and> action_stimuli scen \<noteq> []
          \<and> list_ex (\<lambda>ob. oo_status ob = StatusDenied \<and> oo_reason ob = Some (js ''device_busy''))
              (so_operations expected)
          \<and> so_commands expected = []
      | CoverClimateControl \<Rightarrow>
          list_ex climate_stimulus (hs_stimuli scen) \<and> list_ex (\<lambda>p. starts_with p (js ''climate.'')) patched
      | CoverEnergySchedule \<Rightarrow>
          list_ex is_timer (hs_stimuli scen)
          \<and> list_ex (\<lambda>p. starts_with p (js ''energy.'') \<or> starts_with p (js ''system.clock.'')) patched
      | CoverNotification \<Rightarrow> so_notifications expected \<noteq> []
      | CoverReconnect \<Rightarrow>
          list_ex (\<lambda>s. s = SignalReconnect \<or> s = SignalDisconnect) (lifecycle_stimuli scen)
          \<and> list_ex (\<lambda>s. s = SignalReconnect \<or> s = SignalDisconnect) emitted
      | CoverOutcomeUnknown \<Rightarrow> unknown_outcome_claim scen ix)"

section \<open>The corpus\<close>

definition validate_scenario_references ::
  "synthetic_home \<Rightarrow> scenario_indexes \<Rightarrow> home_scenario \<Rightarrow> unit traced" where
  "validate_scenario_references home ix scen =
     (let expected = hs_expected scen
      in
      bind_r (assert_typed_state (su_state (hs_setup scen)) (ix_state ix)) (\<lambda>_.
      bind_r (assert_typed_state (so_state_patch expected) (ix_state ix)) (\<lambda>_.
      bind_r (assert_context_references (su_context (hs_setup scen)) (hm_context home)) (\<lambda>_.
      bind_r (assert_context_references (so_context_patch expected) (hm_context home)) (\<lambda>_.
      bind_r (validate_stimuli scen home ix) (\<lambda>operations.
      bind_r (validate_protected_state scen ix) (\<lambda>_.
      bind_r (validate_commands scen operations ix) (\<lambda>_.
      bind_r (validate_notifications scen ix) (\<lambda>_.
      bind_r (each_r (\<lambda>ob. require_reference (lo_signal ob \<in> set (hm_signals home))) (so_lifecycle expected)) (\<lambda>_.
      bind_r (validate_operations scen operations ix) (\<lambda>_.
        each_r (\<lambda>coverage. require_reference (validates_coverage_claim scen coverage ix))
          (hs_coverage scen))))))))))))"

definition home_indexes :: "synthetic_home \<Rightarrow> scenario_indexes" where
  "home_indexes home =
     \<lparr>ix_actors = index_by ac_id (hm_actors home), ix_groups = hm_groups home,
      ix_devices = index_by dv_id (hm_devices home), ix_state = index_by sp_path (hm_paths home),
      ix_actions = index_by ad_id (hm_actions home), ix_events = index_by ed_name (hm_events home)\<rparr>"

definition check_home_references :: "synthetic_home \<Rightarrow> unit traced" where
  "check_home_references home =
     bind_r (each_r (\<lambda>actor.
         each_r (\<lambda>g. require_reference (g \<in> set (hm_groups home))) (ac_groups actor)) (hm_actors home)) (\<lambda>_.
     bind_r (each_r (\<lambda>device. require_reference (dv_zone device \<in> set (hm_zones home))) (hm_devices home)) (\<lambda>_.
     bind_r (each_r (\<lambda>action.
         bind_r (each_r (\<lambda>g. require_reference (g \<in> set (hm_groups home))) (ad_groups action)) (\<lambda>_.
           if ends_with (ad_name action) (js ''.toggle'')
           then require_reference (ad_idempotency action = NonIdempotent) else Inr ())) (hm_actions home)) (\<lambda>_.
     bind_r (require_reference (length (hm_state home) = length (remdups (map sp_path (hm_paths home))))) (\<lambda>_.
       assert_typed_state (hm_state home) (ix_state (home_indexes home))))))"

record synthetic_corpus =
  sy_manifest :: fixture_manifest
  sy_home :: synthetic_home
  sy_scenarios :: scenario_corpus

definition validate_corpus_documents :: "jsval \<Rightarrow> jsval \<Rightarrow> jsval \<Rightarrow> synthetic_corpus traced" where
  "validate_corpus_documents manifest_value home_value scenarios_value =
     bind_r (validate_manifest manifest_value) (\<lambda>manifest.
     bind_r (validate_home home_value) (\<lambda>home.
     bind_r (validate_scenario_corpus scenarios_value) (\<lambda>scenarios.
     bind_r (require_reference (hm_id home = sk_home scenarios)) (\<lambda>_.
     bind_r (check_home_references home) (\<lambda>_.
     bind_r (each_r (validate_scenario_references home (home_indexes home)) (sk_scenarios scenarios)) (\<lambda>_.
     bind_r (each_r (\<lambda>coverage.
         require_reference (coverage \<in> set (concat (map hs_coverage (sk_scenarios scenarios)))))
       (mf_required manifest)) (\<lambda>_.
     bind_r (if CoverAuthorization \<in> set (mf_required manifest) then
               require_reference (list_ex (\<lambda>scen.
                 CoverAuthorization \<in> set (hs_coverage scen)
                 \<and> list_ex (\<lambda>ob. oo_status ob = StatusDenied
                      \<and> oo_reason ob = Some (js ''group_not_allowed'')) (so_operations (hs_expected scen)))
                 (sk_scenarios scenarios))
             else Inr ()) (\<lambda>_.
       Inr \<lparr>sy_manifest = manifest, sy_home = home, sy_scenarios = scenarios\<rparr>))))))))"

end
