(* ===== verification/Home_Properties.thy ===== *)
theory Home_Properties
  imports Home_Corpus
begin

text \<open>
  What an accepted corpus of the synthetic home guarantees: every reference resolves, the expected
  effects of a scenario are authorized, and an action whose outcome is unknown is not retried.
\<close>

section \<open>Indexes\<close>

lemma index_by_Some:
  assumes "index_by key xs k = Some x"
  shows "x \<in> set xs \<and> key x = k"
  using assms by (auto simp: index_by_def dest: map_of_SomeD)

lemma index_by_mem:
  assumes "distinct (map key xs)" and "x \<in> set xs"
  shows "index_by key xs (key x) = Some x"
  using assms unfolding index_by_def
  by (intro map_of_is_SomeI) (auto simp: rev_map [symmetric] comp_def)

lemma index_by_eq_None: "index_by key xs k = None \<longleftrightarrow> k \<notin> key ` set xs"
  by (auto simp: index_by_def map_of_eq_None_iff image_image)

section \<open>Accepted documents\<close>

lemma unique_objects_distinct:
  assumes "unique_objects v m validate key = Inr xs"
  shows "distinct (map key xs)"
  using assms by (simp add: unique_objects_def res_simps)

lemma validated_home_is_indexed:
  assumes "validate_home v = Inr home"
  shows "distinct (map ac_id (hm_actors home))" and "distinct (map dv_id (hm_devices home))"
    and "distinct (map sp_path (hm_paths home))" and "distinct (map ad_id (hm_actions home))"
    and "distinct (map ed_name (hm_events home))"
  using assms unfolding validate_home_def
  by (auto simp: res_simps dest!: unique_objects_distinct)

lemma accepted_corpus_parts:
  assumes "validate_corpus_documents m h s = Inr c"
  shows "validate_home h = Inr (sy_home c)"
    and "check_home_references (sy_home c) = Inr ()"
    and "\<And>scen. scen \<in> set (sk_scenarios (sy_scenarios c)) \<Longrightarrow>
           validate_scenario_references (sy_home c) (home_indexes (sy_home c)) scen = Inr ()"
  using assms unfolding validate_corpus_documents_def by (auto simp: res_simps)

lemma accepted_scenario_parts:
  assumes "validate_scenario_references home ix scen = Inr ()"
  obtains operations where "validate_stimuli scen home ix = Inr operations"
    and "validate_commands scen operations ix = Inr ()"
    and "validate_operations scen operations ix = Inr ()"
    and "validate_notifications scen ix = Inr ()"
    and "assert_typed_state (su_state (hs_setup scen)) (ix_state ix) = Inr ()"
    and "assert_typed_state (so_state_patch (hs_expected scen)) (ix_state ix) = Inr ()"
    and "validate_protected_state scen ix = Inr ()"
  using assms unfolding validate_scenario_references_def Let_def by (auto simp: res_simps)

section \<open>Stimuli\<close>

definition stimulus_declared :: "scenario_indexes \<Rightarrow> action_stimulus \<Rightarrow> bool" where
  "stimulus_declared ix a \<longleftrightarrow>
     (\<exists>actor action. ix_actors ix (as_actor a) = Some actor \<and> ix_actions ix (as_action a) = Some action
        \<and> ad_type action = as_type a \<and> ad_element action = as_element a \<and> ad_name action = as_name a)"

lemma check_stimulus_step:
  assumes "check_stimulus home ix operations stim = Inr operations'"
  shows "operations' = operations @ map as_operation (List.map_filter action_of [stim])"
    and "distinct operations \<Longrightarrow> distinct operations'"
    and "stim = ActionStimulus a \<Longrightarrow> stimulus_declared ix a"
  using assms
  by (auto simp: check_stimulus_def check_action_stimulus_def stimulus_declared_def res_simps List.map_filter_simps
      split: home_stimulus.splits option.splits)

lemma stimuli_operations:
  assumes "fold_r (check_stimulus home ix) operations stimuli = Inr operations'"
  shows "operations' = operations @ map as_operation (List.map_filter action_of stimuli)
    \<and> (distinct operations \<longrightarrow> distinct operations')
    \<and> (\<forall>a. ActionStimulus a \<in> set stimuli \<longrightarrow> stimulus_declared ix a)"
  using assms
proof (induction stimuli arbitrary: operations)
  case Nil
  then show ?case by (simp add: List.map_filter_simps)
next
  case (Cons stim stimuli)
  then obtain mid where step: "check_stimulus home ix operations stim = Inr mid"
    and rest: "fold_r (check_stimulus home ix) mid stimuli = Inr operations'"
    by (auto simp: res_simps)
  have split: "List.map_filter action_of (stim # stimuli)
      = List.map_filter action_of [stim] @ List.map_filter action_of stimuli"
    by (cases stim) (simp_all add: List.map_filter_simps)
  have "operations' = operations @ map as_operation (List.map_filter action_of (stim # stimuli))"
    unfolding split using Cons.IH [OF rest] check_stimulus_step(1) [OF step] by (simp del: List.map_filter_simps)
  moreover have "distinct operations \<longrightarrow> distinct operations'"
    using Cons.IH [OF rest] check_stimulus_step(2) [OF step] by blast
  moreover have "\<forall>a. ActionStimulus a \<in> set (stim # stimuli) \<longrightarrow> stimulus_declared ix a"
    using Cons.IH [OF rest] check_stimulus_step(3) [OF step] by auto
  ultimately show ?case by blast
qed

lemma accepted_stimuli:
  assumes "validate_stimuli scen home ix = Inr operations"
  shows "operations = map as_operation (action_stimuli scen)" and "distinct operations"
    and "ActionStimulus a \<in> set (hs_stimuli scen) \<Longrightarrow> stimulus_declared ix a"
  using stimuli_operations [of home ix "[]" "hs_stimuli scen" operations] assms
  by (auto simp: validate_stimuli_def action_stimuli_def)

lemma set_action_stimuli: "a \<in> set (action_stimuli scen) \<longleftrightarrow> ActionStimulus a \<in> set (hs_stimuli scen)"
proof -
  have "a \<in> set (List.map_filter action_of xs) \<longleftrightarrow> ActionStimulus a \<in> set xs" for xs
  proof (induction xs)
    case (Cons x xs)
    then show ?case by (cases x) (auto simp: List.map_filter_simps)
  qed (simp add: List.map_filter_simps)
  then show ?thesis by (simp add: action_stimuli_def)
qed

section \<open>Operations\<close>

definition action_authorized :: "actor_declaration \<Rightarrow> action_declaration \<Rightarrow> bool" where
  "action_authorized actor action \<longleftrightarrow> set (ad_groups action) \<inter> set (ac_groups actor) \<noteq> {}"

text \<open>What a check of one operation means.\<close>

lemma checked_operation:
  assumes "check_operation scen actor action operation = Inr ()"
  shows "operation_sequence scen operation \<in>
      {[StatusDenied], [StatusAccepted, StatusApplied], [StatusAccepted, StatusOutcomeUnknown]}"
    and "\<not> action_authorized actor action \<Longrightarrow> operation_sequence scen operation = [StatusDenied]
      \<and> oo_reason (hd (operation_observations scen operation)) = Some (js ''group_not_allowed'')"
    and "operation_sequence scen operation = [StatusDenied] \<Longrightarrow> operation_commands scen operation = []"
    and "operation_sequence scen operation = [StatusDenied] \<Longrightarrow> list_all is_action_stimulus (hs_stimuli scen) \<Longrightarrow>
      no_side_effects (hs_expected scen)"
    and "operation_sequence scen operation = [StatusAccepted, StatusOutcomeUnknown] \<Longrightarrow>
      ad_idempotency action = NonIdempotent \<Longrightarrow>
      length (operation_commands scen operation) = 1
      \<and> length (matching_commands scen (operation_commands scen operation)) = 1"
  using assms unfolding check_operation_def Let_def action_authorized_def
  by (auto simp: res_simps split: if_splits)

lemma accepted_operation:
  assumes "validate_scenario_references home ix scen = Inr ()"
    and "ActionStimulus a \<in> set (hs_stimuli scen)"
    and "ix_actors ix (as_actor a) = Some actor" and "ix_actions ix (as_action a) = Some action"
  shows "check_operation scen actor action (as_operation a) = Inr ()"
proof -
  obtain operations where "validate_operations scen operations ix = Inr ()"
    by (rule accepted_scenario_parts [OF assms(1)])
  then have "check_operation_stimulus scen ix (ActionStimulus a) = Inr ()"
    using assms(2) by (auto simp: validate_operations_def res_simps)
  then show ?thesis using assms(3,4) by (simp add: check_operation_stimulus_def)
qed

lemma home_lookups:
  assumes "validate_home v = Inr home"
  shows "actor \<in> set (hm_actors home) \<Longrightarrow> ix_actors (home_indexes home) (ac_id actor) = Some actor"
    and "action \<in> set (hm_actions home) \<Longrightarrow> ix_actions (home_indexes home) (ad_id action) = Some action"
  using validated_home_is_indexed [OF assms] by (auto simp: home_indexes_def index_by_mem)

text \<open>The declarations an action stimulus of an accepted scenario refers to.\<close>

lemma accepted_action:
  assumes corpus: "validate_corpus_documents m h s = Inr c"
    and scen: "scen \<in> set (sk_scenarios (sy_scenarios c))"
    and stim: "ActionStimulus a \<in> set (hs_stimuli scen)"
  obtains actor action where "actor \<in> set (hm_actors (sy_home c))" and "ac_id actor = as_actor a"
    and "action \<in> set (hm_actions (sy_home c))" and "ad_id action = as_action a"
    and "check_operation scen actor action (as_operation a) = Inr ()"
proof -
  let ?ix = "home_indexes (sy_home c)"
  have accepted: "validate_scenario_references (sy_home c) ?ix scen = Inr ()"
    by (rule accepted_corpus_parts(3) [OF corpus scen])
  then obtain operations where "validate_stimuli scen (sy_home c) ?ix = Inr operations"
    by (rule accepted_scenario_parts)
  then have "stimulus_declared ?ix a" using stim by (rule accepted_stimuli(3))
  then obtain actor action where look: "ix_actors ?ix (as_actor a) = Some actor"
      "ix_actions ?ix (as_action a) = Some action"
    by (auto simp: stimulus_declared_def)
  have "check_operation scen actor action (as_operation a) = Inr ()"
    by (rule accepted_operation [OF accepted stim look])
  with look show thesis
    by (intro that) (auto simp: home_indexes_def dest: index_by_Some)
qed

section \<open>Authorization\<close>

text \<open>
Property C18: in an accepted corpus, an action by an actor that is in none of the groups the action
allows has exactly one observation, a denial for the reason group_not_allowed, and is the cause of no
device command.
\<close>

theorem unauthorized_actions_are_denied:
  assumes corpus: "validate_corpus_documents m h s = Inr c"
    and scen: "scen \<in> set (sk_scenarios (sy_scenarios c))"
    and stim: "ActionStimulus a \<in> set (hs_stimuli scen)"
    and actor: "actor \<in> set (hm_actors (sy_home c))" "ac_id actor = as_actor a"
    and action: "action \<in> set (hm_actions (sy_home c))" "ad_id action = as_action a"
    and outside: "set (ad_groups action) \<inter> set (ac_groups actor) = {}"
  shows "operation_observations scen (as_operation a) =
      [\<lparr>oo_id = as_operation a, oo_status = StatusDenied, oo_reason = Some (js ''group_not_allowed'')\<rparr>]
    \<and> operation_commands scen (as_operation a) = []"
proof -
  note home = accepted_corpus_parts(1) [OF corpus]
  have checked: "check_operation scen actor action (as_operation a) = Inr ()"
    using accepted_operation [OF accepted_corpus_parts(3) [OF corpus scen] stim] home_lookups [OF home] actor action
    by metis
  have "\<not> action_authorized actor action" using outside by (simp add: action_authorized_def)
  from checked_operation(2) [OF checked this]
  have single: "map oo_status (operation_observations scen (as_operation a)) = [StatusDenied]"
    and reason: "oo_reason (hd (operation_observations scen (as_operation a))) = Some (js ''group_not_allowed'')"
    by (simp_all add: operation_sequence_def)
  obtain ob where obs: "operation_observations scen (as_operation a) = [ob]" and "oo_status ob = StatusDenied"
    using single by auto
  moreover have "oo_id ob = as_operation a"
    using arg_cong [OF obs, of set] by (auto simp: operation_observations_def)
  moreover have "operation_commands scen (as_operation a) = []"
    using checked_operation(3) [OF checked] single by (simp add: operation_sequence_def)
  ultimately show ?thesis using reason by simp
qed

text \<open>
Property C19: every device command an accepted corpus expects names a declared device and one of its
capabilities, and is caused either by a stimulus that is no action, or by the one action with that
operation id, whose actor shares a group with those the action allows and whose operation is accepted.
\<close>

theorem commands_have_authorized_causes:
  assumes corpus: "validate_corpus_documents m h s = Inr c"
    and scen: "scen \<in> set (sk_scenarios (sy_scenarios c))"
    and command: "command \<in> set (so_commands (hs_expected scen))"
  shows "(\<exists>device. device \<in> set (hm_devices (sy_home c)) \<and> dv_id device = rc_target command
      \<and> rc_name command \<in> set (dv_capabilities device))
    \<and> (case rc_cause command of
         ByStimulus i \<Rightarrow> nat i < length (hs_stimuli scen) \<and> \<not> is_action_stimulus (hs_stimuli scen ! nat i)
       | ByOperation operation \<Rightarrow>
           \<exists>!a. ActionStimulus a \<in> set (hs_stimuli scen) \<and> as_operation a = operation
             \<and> (\<exists>actor action. actor \<in> set (hm_actors (sy_home c)) \<and> ac_id actor = as_actor a
                \<and> action \<in> set (hm_actions (sy_home c)) \<and> ad_id action = as_action a
                \<and> action_authorized actor action
                \<and> hd (operation_sequence scen operation) = StatusAccepted))"
proof -
  let ?ix = "home_indexes (sy_home c)"
  have accepted: "validate_scenario_references (sy_home c) ?ix scen = Inr ()"
    by (rule accepted_corpus_parts(3) [OF corpus scen])
  then obtain operations where stimuli: "validate_stimuli scen (sy_home c) ?ix = Inr operations"
      and "validate_commands scen operations ?ix = Inr ()"
    by (rule accepted_scenario_parts)
  then have checked: "check_command (hs_stimuli scen) operations ?ix command = Inr ()"
    using command by (auto simp: validate_commands_def res_simps)
  then obtain device where "ix_devices ?ix (rc_target command) = Some device"
      and "rc_name command \<in> set (dv_capabilities device)"
    by (auto simp: check_command_def res_simps split: option.splits)
  then have "\<exists>device. device \<in> set (hm_devices (sy_home c)) \<and> dv_id device = rc_target command
      \<and> rc_name command \<in> set (dv_capabilities device)"
    by (auto simp: home_indexes_def dest: index_by_Some)
  moreover have "\<exists>!a. ActionStimulus a \<in> set (hs_stimuli scen) \<and> as_operation a = operation
        \<and> (\<exists>actor action. actor \<in> set (hm_actors (sy_home c)) \<and> ac_id actor = as_actor a
           \<and> action \<in> set (hm_actions (sy_home c)) \<and> ad_id action = as_action a
           \<and> action_authorized actor action
           \<and> hd (operation_sequence scen operation) = StatusAccepted)"
    if cause: "rc_cause command = ByOperation operation" for operation
  proof -
    have "operation \<in> as_operation ` set (action_stimuli scen)"
      using checked cause accepted_stimuli(1) [OF stimuli]
      by (auto simp: check_command_def res_simps split: option.splits)
    then obtain a where a: "ActionStimulus a \<in> set (hs_stimuli scen)" "as_operation a = operation"
      by (auto simp: set_action_stimuli)
    obtain actor action where decl: "actor \<in> set (hm_actors (sy_home c))" "ac_id actor = as_actor a"
        "action \<in> set (hm_actions (sy_home c))" "ad_id action = as_action a"
      and op: "check_operation scen actor action operation = Inr ()"
      using accepted_action [OF corpus scen a(1)] a(2) by metis
    have "operation_commands scen operation \<noteq> []"
      using command cause by (auto simp: operation_commands_def filter_empty_conv)
    then have "operation_sequence scen operation \<noteq> [StatusDenied]"
      using checked_operation(3) [OF op] by blast
    then have "hd (operation_sequence scen operation) = StatusAccepted" and "action_authorized actor action"
      using checked_operation(1,2) [OF op] by auto
    moreover have "a' = a" if "ActionStimulus a' \<in> set (hs_stimuli scen)" "as_operation a' = operation" for a'
      using that a accepted_stimuli(1,2) [OF stimuli]
      by (auto simp: distinct_map set_action_stimuli dest: inj_onD)
    ultimately show ?thesis using a decl by blast
  qed
  moreover have "nat i < length (hs_stimuli scen) \<and> \<not> is_action_stimulus (hs_stimuli scen ! nat i)"
    if "rc_cause command = ByStimulus i" for i
    using checked that by (auto simp: check_command_def res_simps split: option.splits)
  ultimately show ?thesis by (auto split: command_cause.splits)
qed

text \<open>
Property C20: in an accepted corpus, an action that is not idempotent and whose outcome is unknown is
the cause of exactly one command, and no other command of the scenario repeats it: none has the same
target and name, whatever its cause.
\<close>

theorem unknown_outcomes_are_not_retried:
  assumes corpus: "validate_corpus_documents m h s = Inr c"
    and scen: "scen \<in> set (sk_scenarios (sy_scenarios c))"
    and stim: "ActionStimulus a \<in> set (hs_stimuli scen)"
    and action: "action \<in> set (hm_actions (sy_home c))" "ad_id action = as_action a"
      "ad_idempotency action = NonIdempotent"
    and unknown: "StatusOutcomeUnknown \<in> set (operation_sequence scen (as_operation a))"
  shows "\<exists>before command after. so_commands (hs_expected scen) = before @ command # after
    \<and> rc_cause command = ByOperation (as_operation a)
    \<and> list_all (\<lambda>other. rc_cause other \<noteq> ByOperation (as_operation a)
        \<and> \<not> (rc_target other = rc_target command \<and> rc_name other = rc_name command)) (before @ after)"
proof -
  let ?commands = "so_commands (hs_expected scen)"
  obtain actor action' where "action' \<in> set (hm_actions (sy_home c))" "ad_id action' = as_action a"
      and checked: "check_operation scen actor action' (as_operation a) = Inr ()"
    using accepted_action [OF corpus scen stim] by metis
  moreover have "action' = action"
    using home_lookups(2) [OF accepted_corpus_parts(1) [OF corpus]] calculation action by (metis option.inject)
  ultimately have lengths: "length (operation_commands scen (as_operation a)) = 1"
      "length (matching_commands scen (operation_commands scen (as_operation a))) = 1"
    using checked_operation(1,5) [OF checked] unknown action(3) by auto
  then obtain command where causal: "operation_commands scen (as_operation a) = [command]"
    by (auto simp: length_Suc_conv)
  then have one: "filter (\<lambda>k. rc_cause k = ByOperation (as_operation a)) ?commands = [command]"
    and "length (filter (\<lambda>k. rc_target k = rc_target command \<and> rc_name k = rc_name command) ?commands) = 1"
    using lengths(2) by (simp_all add: operation_commands_def matching_commands_def)
  moreover obtain pre post where split: "?commands = pre @ command # post"
      and cause: "rc_cause command = ByOperation (as_operation a)"
      "\<forall>k\<in>set pre. rc_cause k \<noteq> ByOperation (as_operation a)"
    using one by (auto simp: filter_eq_Cons_iff)
  ultimately show ?thesis
    by (intro exI [of _ pre] exI [of _ command] exI [of _ post])
      (auto simp: list_all_iff filter_empty_conv length_0_conv)
qed

text \<open>
  The message of the last check of a denied operation speaks of scenarios with denied actions only; its
  condition is that all stimuli are actions. One denied action among them forbids the effects of the
  others.
\<close>

lemma one_denial_forbids_all_effects:
  assumes corpus: "validate_corpus_documents m h s = Inr c"
    and scen: "scen \<in> set (sk_scenarios (sy_scenarios c))"
    and actions: "list_all is_action_stimulus (hs_stimuli scen)"
    and stim: "ActionStimulus a \<in> set (hs_stimuli scen)"
    and denied: "operation_sequence scen (as_operation a) = [StatusDenied]"
  shows "no_side_effects (hs_expected scen)"
proof -
  obtain actor action where "check_operation scen actor action (as_operation a) = Inr ()"
    using accepted_action [OF corpus scen stim] by metis
  then show ?thesis using denied actions by (rule checked_operation(4))
qed

end
