(* ===== verification/Json_Difference.thy ===== *)
theory Json_Difference
  imports Js_Value "HOL-Library.List_Lexorder" "HOL-Library.Finite_Map"
begin

text \<open>
  \<open>findDifference\<close> of \<open>synthetic-home/src/replay.ts\<close> (\<open>coordinator-contract/src/replay.ts\<close> has the same
  function): the first place where an observation differs from the expected one. It is shown to decide
  equality of JSON values up to the order of the keys of records.
\<close>

section \<open>The comparison\<close>

text \<open>A path is the sequence of steps the source prints as \<open>$.key[0].length\<close>.\<close>

datatype path_step = AtIndex nat | AtKey jstr | AtLength | AtKeys

record difference =
  df_path :: "path_step list"
  df_expected :: jsval
  df_actual :: jsval

text \<open>
  \<open>Object.is\<close>. Two occurrences of one object have one content, so that equality of values stands for
  identity of arrays and records; byte arrays and other objects are not compared by content.
\<close>

fun object_is :: "jsval \<Rightarrow> jsval \<Rightarrow> bool" where
  "object_is (JBytes _) _ = False"
| "object_is (JBuffer _) _ = False"
| "object_is JOther _ = False"
| "object_is v w = (v = w)"

fun is_array :: "jsval \<Rightarrow> bool" where
  "is_array (JArr _ _ _) = True"
| "is_array _ = False"

definition item_value :: "jsval option \<Rightarrow> jsval" where
  "item_value item = (case item of None \<Rightarrow> JUndef | Some v \<Rightarrow> v)"

text \<open>\<open>record[key]\<close>.\<close>

definition get_key :: "fields \<Rightarrow> jstr \<Rightarrow> jsval" where
  "get_key fs key = (case map_of fs key of None \<Rightarrow> JUndef | Some v \<Rightarrow> v)"

fun first_difference :: "difference option list \<Rightarrow> difference option" where
  "first_difference [] = None"
| "first_difference (Some d # _) = Some d"
| "first_difference (None # ds) = first_difference ds"

text \<open>\<open>findDifference\<close> on two arrays of strings.\<close>

definition string_difference :: "jstr list \<Rightarrow> jstr list \<Rightarrow> path_step list \<Rightarrow> difference option" where
  "string_difference expected actual path =
     (if length expected \<noteq> length actual then
        Some \<lparr>df_path = path @ [AtLength], df_expected = JNum (NInt (int (length expected))),
              df_actual = JNum (NInt (int (length actual)))\<rparr>
      else first_difference (map (\<lambda>i.
        if expected ! i = actual ! i then None
        else Some \<lparr>df_path = path @ [AtIndex i], df_expected = JStr (expected ! i),
                   df_actual = JStr (actual ! i)\<rparr>) [0..<length expected]))"

lemma size_item: "item \<in> set items \<Longrightarrow> size (item_value item) < size_list (size_option size) items"
proof (induction items)
  case (Cons x items)
  then show ?case by (auto simp: item_value_def split: option.splits)
qed simp

lemma size_get_key:
  "key \<in> fst ` set fs \<Longrightarrow> size (get_key fs key) < size_list (size_prod (\<lambda>_. 0) size) fs"
proof (induction fs)
  case (Cons f fs)
  then show ?case by (cases f) (fastforce simp: get_key_def split: option.splits dest: map_of_SomeD)
qed simp

lemma size_item_at:
  "k < length items \<Longrightarrow> size (item_value (items ! k)) < Suc (size_list (size_option size) items + n)"
  using size_item [of "items ! k" items] by simp

lemma size_value_at:
  "(key, v) \<in> set fs \<Longrightarrow> size (get_key fs key) < Suc (size_list (size_prod (\<lambda>_. 0) size) fs)"
  using size_get_key [of key fs] by force

function find_difference :: "jsval \<Rightarrow> jsval \<Rightarrow> path_step list \<Rightarrow> difference option" where
  "find_difference expected actual path =
     (if object_is expected actual then None
      else if is_array expected \<or> is_array actual then
        (case (expected, actual) of
           (JArr _ xs _, JArr _ ys _) \<Rightarrow>
             (if length xs \<noteq> length ys then
                Some \<lparr>df_path = path @ [AtLength], df_expected = JNum (NInt (int (length xs))),
                      df_actual = JNum (NInt (int (length ys)))\<rparr>
              else first_difference (map (\<lambda>i.
                find_difference (item_value (xs ! i)) (item_value (ys ! i)) (path @ [AtIndex i])) [0..<length xs]))
         | _ \<Rightarrow> Some \<lparr>df_path = path, df_expected = expected, df_actual = actual\<rparr>)
      else if is_plain_record expected \<or> is_plain_record actual then
        (case (expected, actual) of
           (JRec _ fs, JRec _ gs) \<Rightarrow>
             (case string_difference (sort (map fst fs)) (sort (map fst gs)) (path @ [AtKeys]) of
                Some d \<Rightarrow> Some d
              | None \<Rightarrow> first_difference (map (\<lambda>key.
                  find_difference (get_key fs key) (get_key gs key) (path @ [AtKey key])) (sort (map fst fs))))
         | _ \<Rightarrow> Some \<lparr>df_path = path, df_expected = expected, df_actual = actual\<rparr>)
      else Some \<lparr>df_path = path, df_expected = expected, df_actual = actual\<rparr>)"
  by pat_completeness auto
termination
  by (relation "measure (\<lambda>(expected, _, _). size expected)")
    (auto simp: size_item_at size_value_at)

declare find_difference.simps [simp del]

section \<open>Values up to the order of keys\<close>

text \<open>The JSON value of a JavaScript value: identities and the order of keys are forgotten.\<close>

datatype json_tree =
    TUndef | TNull | TBool bool | TNum jnum | TStr jstr | TOpaque
  | TArr "json_tree list" | TObj "(jstr, json_tree) fmap"

fun tree_of :: "jsval \<Rightarrow> json_tree" where
  "tree_of JUndef = TUndef"
| "tree_of JNull = TNull"
| "tree_of (JBool b) = TBool b"
| "tree_of (JNum n) = TNum n"
| "tree_of (JStr s) = TStr s"
| "tree_of (JArr _ items _) = TArr (map (\<lambda>item. case item of None \<Rightarrow> TUndef | Some v \<Rightarrow> tree_of v) items)"
| "tree_of (JRec _ fs) = TObj (fmap_of_list (map (\<lambda>(key, v). (key, tree_of v)) fs))"
| "tree_of _ = TOpaque"

text \<open>Plain data: no byte arrays or other objects, and no key of a record twice.\<close>

fun plain_data :: "jsval \<Rightarrow> bool" where
  "plain_data (JArr _ items _) = list_all (\<lambda>item. case item of None \<Rightarrow> True | Some v \<Rightarrow> plain_data v) items"
| "plain_data (JRec _ fs) = (distinct (map fst fs) \<and> list_all (\<lambda>(_, v). plain_data v) fs)"
| "plain_data (JBytes _) = False"
| "plain_data (JBuffer _) = False"
| "plain_data JOther = False"
| "plain_data _ = True"

text \<open>What holds of every JavaScript value: the own properties of a record have different keys.\<close>

fun keyed_once :: "jsval \<Rightarrow> bool" where
  "keyed_once (JArr _ items _) = list_all (\<lambda>item. case item of None \<Rightarrow> True | Some v \<Rightarrow> keyed_once v) items"
| "keyed_once (JRec _ fs) = (distinct (map fst fs) \<and> list_all (\<lambda>(_, v). keyed_once v) fs)"
| "keyed_once _ = True"

lemma first_difference_None: "first_difference (map f xs) = None \<longleftrightarrow> (\<forall>x\<in>set xs. f x = None)"
proof (induction xs)
  case (Cons x xs)
  then show ?case by (cases "f x") auto
qed simp

lemma string_difference_None: "string_difference xs ys path = None \<longleftrightarrow> xs = ys"
  by (auto simp: string_difference_def first_difference_None list_eq_iff_nth_eq [of xs ys] split: if_splits)

lemma no_string_difference: "xs \<noteq> ys \<Longrightarrow> \<exists>d. string_difference xs ys path = Some d"
  using string_difference_None [of xs ys path] by auto

lemma tree_of_item: "(case item of None \<Rightarrow> TUndef | Some v \<Rightarrow> tree_of v) = tree_of (item_value item)"
  by (simp add: item_value_def split: option.splits)

lemma tree_of_arrays:
  "tree_of (JArr i xs e) = tree_of (JArr j ys f) \<longleftrightarrow>
     length xs = length ys
     \<and> (\<forall>k<length xs. tree_of (item_value (xs ! k)) = tree_of (item_value (ys ! k)))"
  by (auto simp: tree_of_item list_eq_iff_nth_eq [where 'a = json_tree])

lemma tree_of_lookup:
  "fmlookup (fmap_of_list (map (\<lambda>(key, v). (key, tree_of v)) fs)) key =
     map_option tree_of (map_of fs key)"
  by (simp add: fmlookup_of_list map_of_map)

lemma tree_of_get_key:
  assumes "tree_of (JRec i fs) = tree_of (JRec j gs)"
  shows "tree_of (get_key fs key) = tree_of (get_key gs key)"
proof -
  have "map_option tree_of (map_of fs key) = map_option tree_of (map_of gs key)"
    using assms tree_of_lookup [of fs key] tree_of_lookup [of gs key] by simp
  then show ?thesis by (auto simp: get_key_def split: option.splits)
qed

lemma tree_of_records:
  assumes "distinct (map fst fs)" and "distinct (map fst gs)"
  shows "tree_of (JRec i fs) = tree_of (JRec j gs) \<longleftrightarrow>
     sort (map fst fs) = sort (map fst gs)
     \<and> (\<forall>key\<in>set (sort (map fst fs)). tree_of (get_key fs key) = tree_of (get_key gs key))" (is "?l = ?r")
proof -
  have sorts: "sort (map fst fs) = sort (map fst gs) \<longleftrightarrow> fst ` set fs = fst ` set gs"
  proof
    assume "sort (map fst fs) = sort (map fst gs)"
    from arg_cong [OF this, of set] show "fst ` set fs = fst ` set gs" by simp
  next
    assume "fst ` set fs = fst ` set gs"
    with assms show "sort (map fst fs) = sort (map fst gs)"
      by (intro sorted_distinct_set_unique) simp_all
  qed
  have keys: "map_of hs key = None \<longleftrightarrow> key \<notin> fst ` set hs" for hs :: fields and key
    by (rule map_of_eq_None_iff)
  have "?l \<longleftrightarrow> (\<forall>key. map_option tree_of (map_of fs key) = map_option tree_of (map_of gs key))"
    by (auto intro!: fmap_ext simp: tree_of_lookup simp flip: tree_of_lookup)
  also have "\<dots> \<longleftrightarrow> ?r"
  proof
    assume same: "\<forall>key. map_option tree_of (map_of fs key) = map_option tree_of (map_of gs key)"
    then have "\<And>key. map_of fs key = None \<longleftrightarrow> map_of gs key = None"
      by (metis option.map_disc_iff)
    then have "fst ` set fs = fst ` set gs" unfolding keys by blast
    moreover have "tree_of (get_key fs key) = tree_of (get_key gs key)" for key
      using same [rule_format, of key] by (auto simp: get_key_def split: option.splits)
    ultimately show ?r using sorts by blast
  next
    assume r: ?r
    then have same_keys: "fst ` set fs = fst ` set gs" using sorts by blast
    show "\<forall>key. map_option tree_of (map_of fs key) = map_option tree_of (map_of gs key)"
    proof
      fix key
      show "map_option tree_of (map_of fs key) = map_option tree_of (map_of gs key)"
      proof (cases "key \<in> fst ` set fs")
        case True
        then obtain v w where "map_of fs key = Some v" "map_of gs key = Some w"
          using same_keys keys by (metis not_None_eq)
        then show ?thesis using r True by (auto simp: get_key_def)
      next
        case False
        then show ?thesis using same_keys keys by (metis option.map_disc_iff)
      qed
    qed
  qed
  finally show ?thesis .
qed

lemma plain_data_item: "plain_data (JArr i items e) \<Longrightarrow> k < length items \<Longrightarrow> plain_data (item_value (items ! k))"
  by (auto simp: list_all_length item_value_def split: option.splits)

lemma plain_data_get_key: "plain_data (JRec i fs) \<Longrightarrow> plain_data (get_key fs key)"
  by (auto simp: get_key_def list_all_iff split: option.splits dest!: map_of_SomeD)

lemma keyed_once_item: "keyed_once (JArr i items e) \<Longrightarrow> k < length items \<Longrightarrow> keyed_once (item_value (items ! k))"
  by (auto simp: list_all_length item_value_def split: option.splits)

lemma keyed_once_get_key: "keyed_once (JRec i fs) \<Longrightarrow> keyed_once (get_key fs key)"
  by (auto simp: get_key_def list_all_iff split: option.splits dest!: map_of_SomeD)

lemma object_is_eq: "object_is v w \<Longrightarrow> v = w"
  by (cases v) auto

lemma find_difference_arrays:
  assumes "\<not> object_is (JArr i xs e) (JArr j ys f)"
  shows "find_difference (JArr i xs e) (JArr j ys f) path = None \<longleftrightarrow>
    length xs = length ys \<and> (\<forall>k<length xs.
      find_difference (item_value (xs ! k)) (item_value (ys ! k)) (path @ [AtIndex k]) = None)"
  using assms by (subst find_difference.simps) (auto simp: first_difference_None)

lemma find_difference_records:
  assumes "\<not> object_is (JRec i fs) (JRec j gs)"
  shows "find_difference (JRec i fs) (JRec j gs) path = None \<longleftrightarrow>
    sort (map fst fs) = sort (map fst gs) \<and> (\<forall>key\<in>set (sort (map fst fs)).
      find_difference (get_key fs key) (get_key gs key) (path @ [AtKey key]) = None)"
proof (cases "string_difference (sort (map fst fs)) (sort (map fst gs)) (path @ [AtKeys])")
  case None
  then have same: "sort (map fst fs) = sort (map fst gs)" by (simp only: string_difference_None)
  have "find_difference (JRec i fs) (JRec j gs) path = first_difference (map (\<lambda>key.
      find_difference (get_key fs key) (get_key gs key) (path @ [AtKey key])) (sort (map fst fs)))"
    unfolding find_difference.simps [of "JRec i fs" "JRec j gs" path] if_not_P [OF assms] using None by simp
  then have keywise: "find_difference (JRec i fs) (JRec j gs) path = None \<longleftrightarrow> (\<forall>key\<in>set (sort (map fst fs)).
      find_difference (get_key fs key) (get_key gs key) (path @ [AtKey key]) = None)"
    by (rule ssubst) (rule first_difference_None)
  with same show ?thesis by (simp only: simp_thms)
next
  case (Some d)
  then have "sort (map fst fs) \<noteq> sort (map fst gs)"
    using string_difference_None [THEN iffD2] by (metis option.distinct(1))
  with Some show ?thesis using assms by (subst find_difference.simps) simp
qed

theorem no_difference_is_equality:
  assumes "plain_data expected" and "keyed_once actual"
  shows "find_difference expected actual path = None \<longleftrightarrow> tree_of expected = tree_of actual"
  using assms
proof (induction expected actual path rule: find_difference.induct)
  case (1 expected actual path)
  show ?case
  proof (cases "object_is expected actual")
    case True
    then show ?thesis by (auto simp: find_difference.simps [of expected actual path] dest: object_is_eq)
  next
    case False
    consider (arrays) i xs e j ys f where "expected = JArr i xs e" "actual = JArr j ys f"
      | (records) i fs j gs where "expected = JRec i fs" "actual = JRec j gs"
      | (others) "\<not> (is_array expected \<and> is_array actual)" "\<not> (is_plain_record expected \<and> is_plain_record actual)"
      by (cases expected; cases actual) auto
    then show ?thesis
    proof cases
      case arrays
      have "find_difference (item_value (xs ! k)) (item_value (ys ! k)) (path @ [AtIndex k]) = None
          \<longleftrightarrow> tree_of (item_value (xs ! k)) = tree_of (item_value (ys ! k))"
        if "length xs = length ys" "k < length xs" for k
      proof (rule "1.IH"(1) [OF False])
        show "plain_data (item_value (xs ! k))" "keyed_once (item_value (ys ! k))"
          using "1.prems" that unfolding arrays
          by (auto intro: plain_data_item keyed_once_item simp del: plain_data.simps keyed_once.simps)
      qed (use arrays that in auto)
      then show ?thesis
        using False unfolding arrays tree_of_arrays by (subst find_difference_arrays) auto
    next
      case records
      have "find_difference (get_key fs key) (get_key gs key) (path @ [AtKey key]) = None
          \<longleftrightarrow> tree_of (get_key fs key) = tree_of (get_key gs key)"
        if same: "sort (map fst fs) = sort (map fst gs)" and "key \<in> set (sort (map fst fs))" for key
      proof (rule "1.IH"(2) [OF False])
        show "plain_data (get_key fs key)" "keyed_once (get_key gs key)"
          using "1.prems" unfolding records
          by (auto intro: plain_data_get_key keyed_once_get_key simp del: plain_data.simps keyed_once.simps)
      qed (use records that(2) string_difference_None same in \<open>simp_all only: is_array.simps is_plain_record.simps simp_thms\<close>)
      moreover have "distinct (map fst fs)" "distinct (map fst gs)" using "1.prems" records by auto
      ultimately show ?thesis
        using find_difference_records [of i fs j gs path] tree_of_records [of fs gs i j] False
        unfolding records by blast
    next
      case others
      then show ?thesis
        using False "1.prems" unfolding find_difference.simps [of expected actual path]
        by (cases expected; cases actual) auto
    qed
  qed
qed

end
