(* ===== verification/Home_Replay.thy ===== *)
theory Home_Replay
  imports Home_Properties Json_Difference
begin

text \<open>
  \<open>synthetic-home/src/replay.ts\<close>: a scenario is replayed on a subject through the hooks \<open>reset\<close>,
  \<open>dispatch\<close> and \<open>observe\<close>, each of which may throw, time out or be cancelled, and the observation is
  compared with the expected one.

  The subject is a parameter: functions on a state of its own. A hook that loses the race against its
  abort signal has still run, so that its effect on the state of the subject is kept. \<open>structuredClone\<close>
  makes the objects new and keeps their content, which is all the comparison reads.
\<close>

section \<open>Objects\<close>

text \<open>Reading a property of a value whose type was checked.\<close>

fun fields_of :: "jsval \<Rightarrow> fields" where
  "fields_of (JRec _ fs) = fs"
| "fields_of _ = []"

fun items_of :: "jsval \<Rightarrow> jsval list" where
  "items_of (JArr _ items _) = map item_value items"
| "items_of _ = []"

text \<open>\<open>{ ...base, ...overlay }\<close>.\<close>

definition spread_fields :: "(jstr \<times> 'v) list \<Rightarrow> (jstr \<times> 'v) list \<Rightarrow> (jstr \<times> 'v) list" where
  "spread_fields base overlay = foldl (\<lambda>acc (key, v). AList.update key v acc) base overlay"

definition flow_of :: "fixture_context \<Rightarrow> jstr \<Rightarrow> fields" where
  "flow_of ctx flow_id = (case map_of (fc_flows ctx) flow_id of None \<Rightarrow> [] | Some flow \<Rightarrow> flow)"

definition merge_context :: "fixture_context \<Rightarrow> fixture_context \<Rightarrow> fixture_context" where
  "merge_context base overlay =
     \<lparr>fc_global = spread_fields (fc_global base) (fc_global overlay),
      fc_flows = map (\<lambda>flow_id. (flow_id, spread_fields (flow_of base flow_id) (flow_of overlay flow_id)))
        (map fst (fc_flows base)
         @ filter (\<lambda>flow_id. flow_id \<notin> set (map fst (fc_flows base))) (map fst (fc_flows overlay)))\<rparr>"

definition context_value :: "fixture_context \<Rightarrow> jsval" where
  "context_value ctx =
     JRec 0 [(js ''global'', JRec 0 (fc_global ctx)),
             (js ''flows'', JRec 0 (map (\<lambda>(flow_id, flow). (flow_id, JRec 0 flow)) (fc_flows ctx)))]"

section \<open>Setup and expected observation\<close>

text \<open>The documents of a corpus, each scenario with the object it is the typed view of.\<close>

record replay_corpus =
  rp_manifest :: fixture_manifest
  rp_home :: synthetic_home
  rp_home_value :: jsval
  rp_scenarios :: "(home_scenario \<times> jsval) list"

record replay_setup =
  st_scenario :: jstr
  st_seed :: int
  st_clock :: jstr
  st_connection :: connection_state
  st_home :: jsval
  st_state :: fields
  st_context :: fixture_context

definition replay_setup_of :: "replay_corpus \<Rightarrow> home_scenario \<Rightarrow> replay_setup" where
  "replay_setup_of rp scen =
     \<lparr>st_scenario = hs_id scen, st_seed = mf_seed (rp_manifest rp), st_clock = mf_start (rp_manifest rp),
      st_connection = su_connection (hs_setup scen), st_home = rp_home_value rp,
      st_state = spread_fields (hm_state (rp_home rp)) (su_state (hs_setup scen)),
      st_context = merge_context (hm_context (rp_home rp)) (su_context (hs_setup scen))\<rparr>"

definition expected_observation :: "replay_setup \<Rightarrow> home_scenario \<Rightarrow> jsval \<Rightarrow> jsval" where
  "expected_observation prepared scen raw =
     (let expected = fields_of (get (fields_of raw) ''expected'') in
      JRec 0
        [(js ''state'', JRec 0 (spread_fields (st_state prepared) (so_state_patch (hs_expected scen)))),
         (js ''context'', context_value (merge_context (st_context prepared) (so_context_patch (hs_expected scen)))),
         (js ''recorded_commands'', get expected ''recorded_commands''),
         (js ''notification_intents'', get expected ''notification_intents''),
         (js ''lifecycle'', get expected ''lifecycle''),
         (js ''operations'', get expected ''operations'')])"

section \<open>Hooks\<close>

datatype replay_error =
    UnknownScenario | BadTimeout | ReplayCancelled | ReplayTimeout | SubjectThrew
  | InvalidObservation trace_error | Diverged difference

text \<open>\<open>options.hookTimeoutMs ?? DEFAULT_REPLAY_HOOK_TIMEOUT_MS\<close>.\<close>

definition replay_timeout :: "jnum option \<Rightarrow> replay_error + int" where
  "replay_timeout option =
     (let timeout = (case option of None \<Rightarrow> NInt 5000 | Some n \<Rightarrow> n) in
      if \<not> num_is_safe_integer timeout \<or> num_int timeout \<le> 0 \<or> num_int timeout > 60000 then Inl BadTimeout
      else Inr (num_int timeout))"

type_synonym ('s, 'v) hook = "'s \<Rightarrow> 's \<times> (replay_error + 'v)"

text \<open>How a hook ends: the signal of the caller may be aborted before it starts or while it runs.\<close>

datatype hook_event = HookSettles | HookTimesOut | HookCancelled | CancelledBefore

definition run_hook :: "hook_event \<Rightarrow> ('s, 'v) hook \<Rightarrow> ('s, 'v) hook" where
  "run_hook event hook s =
     (case event of
        CancelledBefore \<Rightarrow> (s, Inl ReplayCancelled)
      | HookSettles \<Rightarrow> hook s
      | HookTimesOut \<Rightarrow> (fst (hook s), Inl ReplayTimeout)
      | HookCancelled \<Rightarrow> (fst (hook s), Inl ReplayCancelled))"

definition then_hook :: "('s, 'v) hook \<Rightarrow> ('v \<Rightarrow> ('s, 'w) hook) \<Rightarrow> ('s, 'w) hook" where
  "then_hook first rest s = (case first s of (t, Inl e) \<Rightarrow> (t, Inl e) | (t, Inr v) \<Rightarrow> rest v t)"

record 's replay_subject =
  sj_reset :: "replay_setup \<Rightarrow> ('s, unit) hook"
  sj_dispatch :: "jsval \<Rightarrow> ('s, unit) hook"
  sj_observe :: "('s, jsval) hook"

text \<open>The dispatch loop; the script says how each hook of the replay ends.\<close>

fun dispatch_from :: "'s replay_subject \<Rightarrow> (nat \<Rightarrow> hook_event) \<Rightarrow> nat \<Rightarrow> jsval list \<Rightarrow> ('s, unit) hook" where
  "dispatch_from subject script i [] = (\<lambda>s. (s, Inr ()))"
| "dispatch_from subject script i (stim # stimuli) =
     then_hook (run_hook (script i) (sj_dispatch subject stim))
       (\<lambda>_. dispatch_from subject script (Suc i) stimuli)"

section \<open>Replay\<close>

record replay_result =
  rr_scenario :: jstr
  rr_dispatched :: nat
  rr_observation :: jsval

definition judge_observation :: "jsval \<Rightarrow> jsval \<Rightarrow> replay_error + jsval" where
  "judge_observation expected observed =
     (case validate_replay_observation observed of
        Inl e \<Rightarrow> Inl (InvalidObservation e)
      | Inr _ \<Rightarrow>
          (case find_difference expected observed [] of
             Some d \<Rightarrow> Inl (Diverged d)
           | None \<Rightarrow> Inr observed))"

definition replay_scenario ::
  "replay_corpus \<Rightarrow> jstr \<Rightarrow> 's replay_subject \<Rightarrow> jnum option \<Rightarrow> (nat \<Rightarrow> hook_event) \<Rightarrow> ('s, replay_result) hook" where
  "replay_scenario rp scenario_id subject timeout script s =
     (case List.find (\<lambda>(scen, _). hs_id scen = scenario_id) (rp_scenarios rp) of
        None \<Rightarrow> (s, Inl UnknownScenario)
      | Some (scen, raw) \<Rightarrow>
          (let prepared = replay_setup_of rp scen; stimuli = items_of (get (fields_of raw) ''stimuli'') in
           case replay_timeout timeout of
             Inl e \<Rightarrow> (s, Inl e)
           | Inr _ \<Rightarrow>
               then_hook (run_hook (script 0) (sj_reset subject prepared)) (\<lambda>_.
               then_hook (dispatch_from subject script 1 stimuli) (\<lambda>_.
               then_hook (run_hook (script (Suc (length stimuli))) (sj_observe subject)) (\<lambda>observed t.
                 (t, bind_r (judge_observation (expected_observation prepared scen raw) observed) (\<lambda>observation.
                   Inr \<lparr>rr_scenario = hs_id scen, rr_dispatched = length stimuli,
                        rr_observation = observation\<rparr>))))) s))"

fun replay_all ::
  "replay_corpus \<Rightarrow> jstr list \<Rightarrow> 's replay_subject \<Rightarrow> jnum option \<Rightarrow> (nat \<Rightarrow> nat \<Rightarrow> hook_event)
     \<Rightarrow> ('s, replay_result list) hook" where
  "replay_all rp [] subject timeout script = (\<lambda>s. (s, Inr []))"
| "replay_all rp (scenario_id # rest) subject timeout script =
     then_hook (replay_scenario rp scenario_id subject timeout (script (length rest))) (\<lambda>result.
     then_hook (replay_all rp rest subject timeout script) (\<lambda>results s. (s, Inr (result # results))))"

definition replay_home_corpus ::
  "replay_corpus \<Rightarrow> 's replay_subject \<Rightarrow> jnum option \<Rightarrow> (nat \<Rightarrow> nat \<Rightarrow> hook_event) \<Rightarrow> ('s, replay_result list) hook" where
  "replay_home_corpus rp subject timeout script =
     replay_all rp (map (\<lambda>(scen, _). hs_id scen) (rp_scenarios rp)) subject timeout script"

section \<open>The state a scenario ends in\<close>

lemma spread_Nil [simp]: "spread_fields base [] = base"
  by (simp add: spread_fields_def)

lemma spread_Cons [simp]:
  "spread_fields base ((key, v) # overlay) = spread_fields (AList.update key v base) overlay"
  by (simp add: spread_fields_def)

lemma map_of_update: "map_of (AList.update key v fs) = (map_of fs)(key \<mapsto> v)"
  by (rule update_conv')

lemma keys_spread: "fst ` set (spread_fields base overlay) = fst ` set base \<union> fst ` set overlay"
proof (induction overlay arbitrary: base)
  case (Cons f overlay)
  then show ?case by (cases f) (auto simp: update_keys dom_update)
qed simp

lemma distinct_spread: "distinct (map fst base) \<Longrightarrow> distinct (map fst (spread_fields base overlay))"
proof (induction overlay arbitrary: base)
  case (Cons f overlay)
  then show ?case by (cases f) (auto simp: distinct_update)
qed simp

lemma set_spread:
  "distinct (map fst base) \<Longrightarrow> set (spread_fields base overlay) \<subseteq> set base \<union> set overlay"
proof (induction overlay arbitrary: base)
  case (Cons f overlay)
  obtain key v where f: "f = (key, v)" by (cases f)
  have "set (AList.update key v base) \<subseteq> insert (key, v) (set base)"
    by (induction base) auto
  with Cons.IH [of "AList.update key v base"] Cons.prems f show ?case by (auto simp: distinct_update)
qed simp

definition state_typed :: "synthetic_home \<Rightarrow> fields \<Rightarrow> bool" where
  "state_typed home fs \<longleftrightarrow>
     (\<forall>(path, v)\<in>set fs. \<exists>d. d \<in> set (hm_paths home) \<and> sp_path d = path \<and> value_matches_type v (sp_type d))"

lemma assert_typed_state_typed:
  assumes "assert_typed_state fs (ix_state (home_indexes home)) = Inr ()"
  shows "state_typed home fs"
  using assms unfolding assert_typed_state_def state_typed_def home_indexes_def
  by (fastforce simp: res_simps split: option.splits dest: index_by_Some)

lemma state_typed_spread:
  assumes "distinct (map fst base)" and "state_typed home base" and "state_typed home overlay"
  shows "state_typed home (spread_fields base overlay)"
  using assms set_spread [OF assms(1), of overlay] unfolding state_typed_def by blast

lemma state_typed_keys: "state_typed home fs \<Longrightarrow> fst ` set fs \<subseteq> sp_path ` set (hm_paths home)"
  unfolding state_typed_def by fastforce

lemma initial_state_covers_paths:
  assumes "check_home_references home = Inr ()" and "distinct (map fst (hm_state home))"
  shows "fst ` set (hm_state home) = sp_path ` set (hm_paths home)" and "state_typed home (hm_state home)"
proof -
  have typed: "state_typed home (hm_state home)"
    and size: "length (hm_state home) = length (remdups (map sp_path (hm_paths home)))"
    using assms(1) by (auto simp: check_home_references_def res_simps intro: assert_typed_state_typed)
  have "card (fst ` set (hm_state home)) = card (sp_path ` set (hm_paths home))"
    using size assms(2) by (metis distinct_card length_map length_remdups_card_conv list.set_map)
  with state_typed_keys [OF typed] show "fst ` set (hm_state home) = sp_path ` set (hm_paths home)"
    by (intro card_subset_eq) auto
  show "state_typed home (hm_state home)" by (rule typed)
qed

section \<open>Passing replays\<close>

text \<open>What the subject does in a replay none of whose hooks fails: no script is left.\<close>

fun dispatch_each :: "'s replay_subject \<Rightarrow> jsval list \<Rightarrow> ('s, unit) hook" where
  "dispatch_each subject [] = (\<lambda>s. (s, Inr ()))"
| "dispatch_each subject (stim # stimuli) = then_hook (sj_dispatch subject stim) (\<lambda>_. dispatch_each subject stimuli)"

definition drive :: "'s replay_subject \<Rightarrow> replay_setup \<Rightarrow> jsval list \<Rightarrow> ('s, jsval) hook" where
  "drive subject prepared stimuli =
     then_hook (sj_reset subject prepared) (\<lambda>_.
     then_hook (dispatch_each subject stimuli) (\<lambda>_. sj_observe subject))"

lemma then_hook_Inr [res_simps]:
  "then_hook first rest s = (t, Inr w) \<longleftrightarrow> (\<exists>u v. first s = (u, Inr v) \<and> rest v u = (t, Inr w))"
  by (auto simp: then_hook_def split: prod.splits sum.splits)

lemma run_hook_Inr [res_simps]: "run_hook event hook s = (t, Inr v) \<longleftrightarrow> event = HookSettles \<and> hook s = (t, Inr v)"
  by (cases event) (auto simp: run_hook_def)

lemma dispatch_from_Inr:
  "dispatch_from subject script i stimuli s = (t, Inr u) \<Longrightarrow> dispatch_each subject stimuli s = (t, Inr u)"
  by (induction stimuli arbitrary: i s) (auto simp: res_simps)

lemma dispatch_from_settles:
  "dispatch_from subject script i stimuli s = (t, Inr u) \<Longrightarrow>
     \<forall>j. i \<le> j \<and> j < i + length stimuli \<longrightarrow> script j = HookSettles"
proof (induction stimuli arbitrary: i s)
  case (Cons stim stimuli)
  then obtain s1 where first: "script i = HookSettles"
    and "dispatch_from subject script (Suc i) stimuli s1 = (t, Inr u)"
    by (auto simp: res_simps)
  note rest = Cons.IH [OF this(2)]
  show ?case
  proof (intro allI impI)
    fix j assume "i \<le> j \<and> j < i + length (stim # stimuli)"
    with first rest show "script j = HookSettles" by (cases "j = i") auto
  qed
qed auto

lemma judged_observation:
  assumes "judge_observation expected observed = Inr observation"
  shows "observation = observed" and "find_difference expected observed [] = None"
    and "\<exists>view. validate_replay_observation observed = Inr view"
  using assms by (auto simp: judge_observation_def split: sum.splits option.splits)

lemma passing_replay:
  assumes "replay_scenario rp scenario_id subject timeout script s = (t, Inr r)"
  obtains scen raw where "(scen, raw) \<in> set (rp_scenarios rp)" and "hs_id scen = scenario_id"
    and "drive subject (replay_setup_of rp scen) (items_of (get (fields_of raw) ''stimuli'')) s
      = (t, Inr (rr_observation r))"
    and "judge_observation (expected_observation (replay_setup_of rp scen) scen raw) (rr_observation r)
      = Inr (rr_observation r)"
    and "\<forall>i\<le>Suc (length (items_of (get (fields_of raw) ''stimuli''))). script i = HookSettles"
    and "rr_dispatched r = length (items_of (get (fields_of raw) ''stimuli''))"
proof -
  obtain scen raw where found: "List.find (\<lambda>(scen, _). hs_id scen = scenario_id) (rp_scenarios rp) = Some (scen, raw)"
    using assms by (auto simp: replay_scenario_def split: option.splits)
  let ?prepared = "replay_setup_of rp scen" and ?stimuli = "items_of (get (fields_of raw) ''stimuli'')"
  obtain s1 s2 observed observation where hooks: "sj_reset subject ?prepared s = (s1, Inr ())"
      "dispatch_from subject script 1 ?stimuli s1 = (s2, Inr ())" "sj_observe subject s2 = (t, Inr observed)"
    and ends: "script 0 = HookSettles" "script (Suc (length ?stimuli)) = HookSettles"
    and judged: "judge_observation (expected_observation ?prepared scen raw) observed = Inr observation"
    and result: "r = \<lparr>rr_scenario = hs_id scen, rr_dispatched = length ?stimuli, rr_observation = observation\<rparr>"
    using assms found by (auto simp: replay_scenario_def Let_def res_simps split: sum.splits)
  have "drive subject ?prepared ?stimuli s = (t, Inr observed)"
    using hooks dispatch_from_Inr [OF hooks(2)] by (auto simp: drive_def res_simps)
  moreover have "script i = HookSettles" if "i \<le> Suc (length ?stimuli)" for i
    using dispatch_from_settles [OF hooks(2)] ends that
    by (cases "i = 0"; cases "i = Suc (length ?stimuli)") auto
  moreover have "(scen, raw) \<in> set (rp_scenarios rp)" "hs_id scen = scenario_id"
    using found by (auto simp: find_Some_iff in_set_conv_nth)
  ultimately show thesis using judged judged_observation(1) [OF judged] result by (intro that) auto
qed

lemma value_matches_tree: "tree_of v = tree_of w \<Longrightarrow> value_matches_type v t = value_matches_type w t"
  by (cases t; cases v; cases w) auto

lemma state_typed_tree:
  assumes "tree_of (JRec i fs) = tree_of (JRec j gs)" and "distinct (map fst fs)" and "distinct (map fst gs)"
    and "state_typed home fs"
  shows "state_typed home gs" and "fst ` set gs = fst ` set fs"
proof -
  have sorts: "sort (map fst fs) = sort (map fst gs)"
    using tree_of_records [OF assms(2,3)] assms(1) by blast
  note same = tree_of_get_key [OF assms(1)]
  show keys: "fst ` set gs = fst ` set fs" using arg_cong [OF sorts, of set] by simp
  have look: "get_key hs key = v" if "(key, v) \<in> set hs" "distinct (map fst hs)" for key v and hs :: fields
    using that by (simp add: get_key_def map_of_eq_Some_iff)
  show "state_typed home gs"
    unfolding state_typed_def
  proof safe
    fix path w assume w: "(path, w) \<in> set gs"
    then have "path \<in> fst ` set fs" using keys by force
    then obtain v where v: "(path, v) \<in> set fs" by auto
    then obtain d where "d \<in> set (hm_paths home)" "sp_path d = path" "value_matches_type v (sp_type d)"
      using assms(4) unfolding state_typed_def by blast
    moreover have "tree_of v = tree_of w"
      using same [of path] look [OF v assms(2)] look [OF w assms(3)] v by force
    ultimately show "\<exists>d. d \<in> set (hm_paths home) \<and> sp_path d = path \<and> value_matches_type w (sp_type d)"
      using value_matches_tree by blast
  qed
qed

text \<open>
Property C21: a replay of an accepted corpus passes only when every hook of the subject, from \<open>reset\<close> over
each \<open>dispatch\<close> to \<open>observe\<close>, settled before its timeout and uncancelled, each stimulus was dispatched once and in order, and the observation equals the expected one as JSON, up
to the order of keys; the observed state then holds exactly the declared paths, with values of their
declared types.
\<close>

theorem passing_replay_is_exact:
  assumes corpus: "validate_corpus_documents m h s = Inr c"
    and documents: "rp_home rp = sy_home c" "map fst (rp_scenarios rp) = sk_scenarios (sy_scenarios c)"
      "distinct (map fst (hm_state (sy_home c)))"
    and passes: "replay_scenario rp scenario_id subject timeout script st = (st', Inr r)"
    and plain: "keyed_once (rr_observation r)"
      "\<And>scen raw. (scen, raw) \<in> set (rp_scenarios rp) \<Longrightarrow>
         plain_data (expected_observation (replay_setup_of rp scen) scen raw)"
  shows "\<exists>scen raw. (scen, raw) \<in> set (rp_scenarios rp) \<and> hs_id scen = scenario_id
    \<and> drive subject (replay_setup_of rp scen) (items_of (get (fields_of raw) ''stimuli'')) st
        = (st', Inr (rr_observation r))
    \<and> (\<forall>i\<le>Suc (length (items_of (get (fields_of raw) ''stimuli''))). script i = HookSettles)
    \<and> tree_of (rr_observation r) = tree_of (expected_observation (replay_setup_of rp scen) scen raw)
    \<and> state_typed (sy_home c) (fields_of (get (fields_of (rr_observation r)) ''state''))
    \<and> fst ` set (fields_of (get (fields_of (rr_observation r)) ''state'')) = sp_path ` set (hm_paths (sy_home c))"
proof -
  obtain scen raw where found: "(scen, raw) \<in> set (rp_scenarios rp)" "hs_id scen = scenario_id"
    and driven: "drive subject (replay_setup_of rp scen) (items_of (get (fields_of raw) ''stimuli'')) st
      = (st', Inr (rr_observation r))"
    and judged: "judge_observation (expected_observation (replay_setup_of rp scen) scen raw) (rr_observation r)
      = Inr (rr_observation r)"
    and in_time: "\<forall>i\<le>Suc (length (items_of (get (fields_of raw) ''stimuli''))). script i = HookSettles"
    by (rule passing_replay [OF passes])
  let ?expected = "expected_observation (replay_setup_of rp scen) scen raw" and ?home = "sy_home c"
  let ?final = "spread_fields (st_state (replay_setup_of rp scen)) (so_state_patch (hs_expected scen))"
  have trees: "tree_of (rr_observation r) = tree_of ?expected"
    using no_difference_is_equality [OF plain(2) [OF found(1)] plain(1)] judged_observation(2) [OF judged] by metis
  have scenario: "scen \<in> set (sk_scenarios (sy_scenarios c))"
    using found(1) documents(2) by (metis fst_conv image_eqI list.set_map)
  note initial = initial_state_covers_paths [OF accepted_corpus_parts(2) [OF corpus] documents(3)]
  obtain setup_typed: "state_typed ?home (su_state (hs_setup scen))"
    and patch_typed: "state_typed ?home (so_state_patch (hs_expected scen))"
    using accepted_scenario_parts [OF accepted_corpus_parts(3) [OF corpus scenario]] assert_typed_state_typed by metis
  have typed: "state_typed ?home ?final"
    using documents initial setup_typed patch_typed
    by (simp add: replay_setup_of_def state_typed_spread distinct_spread)
  have paths: "fst ` set ?final = sp_path ` set (hm_paths ?home)"
    using documents(1) initial(1) state_typed_keys [OF setup_typed] state_typed_keys [OF patch_typed]
    by (auto simp: replay_setup_of_def keys_spread)
  obtain view where "validate_replay_observation (rr_observation r) = Inr view"
    using judged_observation(3) [OF judged] by blast
  then obtain i fs j gs where shape: "rr_observation r = JRec i fs" "get fs ''state'' = JRec j gs"
    by (auto simp: validate_replay_observation_def fixture_object_def validate_state_record_def keyed_json_def res_simps)
  have keyed: "keyed_once (JRec j gs)"
    using plain(1) keyed_once_get_key [of i fs "js ''state''"] shape by (simp add: get_def get_key_def)
  obtain es where es: "?expected = JRec 0 es" "get_key es (js ''state'') = JRec 0 ?final"
    by (simp add: expected_observation_def Let_def get_key_def)
  have "tree_of (get_key es (js ''state'')) = tree_of (get_key fs (js ''state''))"
    using trees shape(1) es(1) by (intro tree_of_get_key [of 0 _ i]) simp
  then have state: "tree_of (JRec 0 ?final) = tree_of (JRec j gs)"
    using shape(2) es(2) by (simp add: get_key_def get_def)
  have "distinct (map fst ?final)"
    using documents by (simp add: replay_setup_of_def distinct_spread)
  moreover have "distinct (map fst gs)" using keyed by simp
  ultimately have "state_typed ?home gs" "fst ` set gs = sp_path ` set (hm_paths ?home)"
    using state_typed_tree [OF state] typed paths by auto
  then show ?thesis using found driven in_time trees shape by fastforce
qed

section \<open>Interrupted replays\<close>

text \<open>The calls a replay makes on its subject, in order, and the state after calls that all succeed.\<close>

definition call_outcome :: "'s \<times> (replay_error + 'v) \<Rightarrow> 's \<times> bool" where
  "call_outcome r = (fst r, isl (snd r))"

definition subject_calls :: "'s replay_subject \<Rightarrow> replay_setup \<Rightarrow> jsval list \<Rightarrow> ('s \<Rightarrow> 's \<times> bool) list" where
  "subject_calls subject prepared stimuli =
     (\<lambda>s. call_outcome (sj_reset subject prepared s))
       # map (\<lambda>stim s. call_outcome (sj_dispatch subject stim s)) stimuli
       @ [\<lambda>s. call_outcome (sj_observe subject s)]"

fun calls_succeed :: "('s \<Rightarrow> 's \<times> bool) list \<Rightarrow> 's \<Rightarrow> 's option" where
  "calls_succeed [] s = Some s"
| "calls_succeed (call # calls) s = (case call s of (t, failed) \<Rightarrow> if failed then None else calls_succeed calls t)"

lemma calls_succeed_Cons:
  "calls_succeed ((\<lambda>s. call_outcome (hook s)) # calls) s = Some t \<longleftrightarrow>
     (\<exists>u v. hook s = (u, Inr v) \<and> calls_succeed calls u = Some t)"
  by (cases "hook s"; cases "snd (hook s)") (auto simp: call_outcome_def)

declare calls_succeed.simps(2) [simp del]

definition interruption :: "hook_event \<Rightarrow> replay_error" where
  "interruption event = (if event = HookTimesOut then ReplayTimeout else ReplayCancelled)"

lemma run_hook_interrupted:
  "event \<noteq> HookSettles \<Longrightarrow>
     run_hook event hook s = (if event = CancelledBefore then s else fst (hook s), Inl (interruption event))"
  by (cases event) (simp_all add: run_hook_def interruption_def)

lemma run_hook_settles [simp]: "run_hook HookSettles hook = hook"
  by (simp add: run_hook_def fun_eq_iff)

lemma then_hook_Inl: "first s = (t, Inl e) \<Longrightarrow> then_hook first rest s = (t, Inl e)"
  by (simp add: then_hook_def)

lemma then_hook_go: "first s = (t, Inr v) \<Longrightarrow> then_hook first rest s = rest v t"
  by (simp add: then_hook_def)

lemma dispatch_interrupted:
  assumes "k < length stimuli" "\<forall>j<k. script (i + j) = HookSettles" "script (i + k) \<noteq> HookSettles"
    and "calls_succeed (take k (map (\<lambda>stim s. call_outcome (sj_dispatch subject stim s)) stimuli)) s = Some t"
  shows "dispatch_from subject script i stimuli s =
    (if script (i + k) = CancelledBefore then t else fst (sj_dispatch subject (stimuli ! k) t),
     Inl (interruption (script (i + k))))"
  using assms
proof (induction k arbitrary: i s stimuli)
  case 0
  then show ?case by (cases stimuli) (simp_all add: then_hook_Inl run_hook_interrupted)
next
  case (Suc k)
  then obtain stim rest where stimuli: "stimuli = stim # rest" by (cases stimuli) auto
  obtain s1 where s1: "sj_dispatch subject stim s = (s1, Inr ())"
    "calls_succeed (take k (map (\<lambda>stim s. call_outcome (sj_dispatch subject stim s)) rest)) s1 = Some t"
    using Suc.prems(4) by (auto simp: stimuli calls_succeed_Cons)
  have first: "script i = HookSettles" using Suc.prems(2) by force
  have "dispatch_from subject script (Suc i) rest s1 =
      (if script (Suc i + k) = CancelledBefore then t else fst (sj_dispatch subject (rest ! k) t),
       Inl (interruption (script (Suc i + k))))"
    using Suc.prems stimuli by (intro Suc.IH) (auto simp: s1)
  then show ?case by (simp add: stimuli first then_hook_go s1(1))
qed

lemma dispatch_completes:
  assumes "\<forall>j<length stimuli. script (i + j) = HookSettles"
    and "calls_succeed (map (\<lambda>stim s. call_outcome (sj_dispatch subject stim s)) stimuli) s = Some t"
  shows "dispatch_from subject script i stimuli s = (t, Inr ())"
  using assms
proof (induction stimuli arbitrary: i s)
  case (Cons stim rest)
  obtain s1 where s1: "sj_dispatch subject stim s = (s1, Inr ())"
    "calls_succeed (map (\<lambda>stim s. call_outcome (sj_dispatch subject stim s)) rest) s1 = Some t"
    using Cons.prems(2) by (auto simp: calls_succeed_Cons)
  have first: "script i = HookSettles" using Cons.prems(1) by force
  have "dispatch_from subject script (Suc i) rest s1 = (t, Inr ())"
    using Cons.prems(1) by (intro Cons.IH) (auto simp: s1)
  then show ?case by (simp add: first then_hook_go s1(1))
qed simp

lemma subject_call_succeeds [simp]: "call_outcome r = (t, False) \<longleftrightarrow> (\<exists>v. r = (t, Inr v))"
  by (cases r; cases "snd r") (auto simp: call_outcome_def)

text \<open>
Property C22: the first hook of a replay that times out or is cancelled ends it: when the calls before it
succeed and settle in time, the replay fails with the timeout or the cancellation, whatever the subject
does, no later hook runs, and the subject is left in the state the interrupted hook has reached, or not
touched again when the cancellation came before the hook.
\<close>

theorem interrupted_replay_stops:
  assumes "List.find (\<lambda>(scen, _). hs_id scen = scenario_id) (rp_scenarios rp) = Some (scen, raw)"
    and "replay_timeout timeout = Inr ms"
    and calls: "calls = subject_calls subject (replay_setup_of rp scen) (items_of (get (fields_of raw) ''stimuli''))"
    and "k < length calls" "\<forall>i<k. script i = HookSettles" "calls_succeed (take k calls) s = Some t"
    and "script k \<noteq> HookSettles"
  shows "replay_scenario rp scenario_id subject timeout script s =
    (if script k = CancelledBefore then t else fst ((calls ! k) t),
     Inl (if script k = HookTimesOut then ReplayTimeout else ReplayCancelled))"
proof -
  let ?prepared = "replay_setup_of rp scen" and ?stimuli = "items_of (get (fields_of raw) ''stimuli'')"
  let ?dispatches = "map (\<lambda>stim s. call_outcome (sj_dispatch subject stim s)) ?stimuli"
  note replay = replay_scenario_def assms(1,2) Let_def
  consider (reset) "k = 0" | (dispatch) j where "k = Suc j" "j < length ?stimuli" | (observe) "k = Suc (length ?stimuli)"
    using assms(4) by (cases k) (auto simp: calls subject_calls_def less_Suc_eq)
  then show ?thesis
  proof cases
    case reset
    then show ?thesis using assms(6,7)
      by (simp add: replay calls subject_calls_def then_hook_Inl [OF run_hook_interrupted] interruption_def call_outcome_def)
  next
    case dispatch
    have first: "script 0 = HookSettles" using assms(5) dispatch(1) by simp
    obtain s1 where s1: "sj_reset subject ?prepared s = (s1, Inr ())" "calls_succeed (take j ?dispatches) s1 = Some t"
      using assms(6) dispatch by (auto simp: calls subject_calls_def calls_succeed_Cons)
    have "dispatch_from subject script 1 ?stimuli s1 =
        (if script (1 + j) = CancelledBefore then t else fst (sj_dispatch subject (?stimuli ! j) t),
         Inl (interruption (script (1 + j))))"
      using dispatch assms(5,7) s1(2) by (intro dispatch_interrupted) auto
    with dispatch show ?thesis
      by (simp add: replay first then_hook_go s1(1) then_hook_Inl calls subject_calls_def nth_append
          interruption_def call_outcome_def)
  next
    case observe
    have first: "script 0 = HookSettles" using assms(5) observe by simp
    obtain s1 where s1: "sj_reset subject ?prepared s = (s1, Inr ())" "calls_succeed ?dispatches s1 = Some t"
      using assms(6) observe by (auto simp: calls subject_calls_def calls_succeed_Cons)
    have "dispatch_from subject script 1 ?stimuli s1 = (t, Inr ())"
      using observe assms(5) s1(2) by (intro dispatch_completes) auto
    with observe assms(7) show ?thesis
      by (simp add: replay first then_hook_go s1(1) then_hook_Inl run_hook_interrupted calls
          subject_calls_def nth_append interruption_def call_outcome_def)
  qed
qed

end
