(* ===== verification/Home_Witnesses.thy ===== *)
theory Home_Witnesses
  imports Home_Replay
begin

text \<open>
  A small synthetic home on which the properties of corpora and replays are applied: a resident who may
  toggle a lamp and a guest who may not, with one scenario in which the guest is denied and one in which
  the resident's toggle has an unknown outcome.
\<close>

section \<open>Documents\<close>

definition doc :: "nat \<Rightarrow> (string \<times> jsval) list \<Rightarrow> jsval" where
  "doc i fs = JRec i (map (\<lambda>(key, v). (js key, v)) fs)"

definition str :: "string \<Rightarrow> jsval" where
  "str s = JStr (js s)"

lemma str_neq_undef [simp]: "str s \<noteq> JUndef"
  by (simp add: str_def)

definition seq :: "nat \<Rightarrow> jsval list \<Rightarrow> jsval" where
  "seq i vs = JArr i (map Some vs) []"

definition no_context :: "nat \<Rightarrow> jsval" where
  "no_context i = doc i [(''global'', doc (i + 1) []), (''flows'', doc (i + 2) [])]"

definition lamp_manifest :: jsval where
  "lamp_manifest = doc 1 [(''schema'', str ''miakapp.synthetic-home-manifest/1''),
     (''fixture_version'', JNum (NInt 1)), (''corpus_id'', str ''syn_lamp''), (''seed'', JNum (NInt 7)),
     (''clock'', doc 2 [(''start'', str ''2042-01-01T00:00:00Z''), (''timezone'', str ''UTC'')]),
     (''provenance'', doc 3 [(''kind'', str ''hand_authored_synthetic''), (''derived_from_export'', JBool False),
        (''contains_production_data'', JBool False), (''human_review_required'', JBool True)]),
     (''files'', doc 4 [(''home'', str ''home.json''), (''scenarios'', str ''scenarios.json'')]),
     (''required_coverage'', seq 5 [str ''authorization'', str ''outcome_unknown''])]"

definition lamp_home :: jsval where
  "lamp_home = doc 10 [(''schema'', str ''miakapp.synthetic-home/1''), (''home_id'', str ''syn_home''),
     (''actors'', seq 11
       [doc 12 [(''id'', str ''syn_amy''), (''role'', str ''resident''), (''groups'', seq 13 [str ''syn_staff'']),
          (''notifications_enabled'', JBool True)],
        doc 14 [(''id'', str ''syn_bob''), (''role'', str ''guest''), (''groups'', seq 15 []),
          (''notifications_enabled'', JBool False)]]),
     (''groups'', seq 16 [doc 17 [(''id'', str ''syn_staff'')]]),
     (''zones'', seq 18 [doc 19 [(''id'', str ''syn_hall'')]]),
     (''devices'', seq 20 [doc 21 [(''id'', str ''syn_lamp''), (''zone_id'', str ''syn_hall''),
        (''kind'', str ''light''), (''capabilities'', seq 22 [str ''light.toggle''])]]),
     (''state_paths'', seq 23 [doc 24 [(''path'', str ''light.hall''), (''value_type'', str ''boolean''),
        (''persistence'', str ''ephemeral''), (''writable'', JBool True)]]),
     (''actions'', seq 25 [doc 26 [(''id'', str ''syn_toggle''), (''type'', str ''click''),
        (''element_id'', str ''syn_button''), (''name'', str ''light.toggle''),
        (''allowed_groups'', seq 27 [str ''syn_staff'']), (''idempotency'', str ''non_idempotent'')]]),
     (''events'', seq 28 []),
     (''notification_contract'', doc 29 [(''required_fields'', seq 30 [str ''title'', str ''body'']),
        (''optional_fields'', seq 31 [str ''tag'', str ''image'']), (''audience'', str ''group_filtered''),
        (''delivery'', str ''intent_only'')]),
     (''lifecycle_signals'', seq 32 [str ''ready'']),
     (''initial_state'', doc 33 [(''light.hall'', JBool False)]),
     (''initial_context'', no_context 34)]"

definition press :: "nat \<Rightarrow> string \<Rightarrow> string \<Rightarrow> jsval" where
  "press i operation actor = doc i [(''kind'', str ''action''), (''operation_id'', str operation),
     (''actor_id'', str actor), (''action_id'', str ''syn_toggle''), (''type'', str ''click''),
     (''element_id'', str ''syn_button''), (''name'', str ''light.toggle'')]"

definition denied_scenario :: jsval where
  "denied_scenario = doc 40 [(''id'', str ''syn_denied''), (''description'', str ''A guest presses the button''),
     (''coverage'', seq 41 [str ''authorization'']),
     (''setup'', doc 42 [(''connection'', str ''connected''), (''state'', doc 43 []), (''context'', no_context 44)]),
     (''stimuli'', seq 47 [press 48 ''syn_op1'' ''syn_bob'']),
     (''expected'', doc 49 [(''state_patch'', doc 50 []), (''context_patch'', no_context 51),
        (''recorded_commands'', seq 54 []), (''notification_intents'', seq 55 []), (''lifecycle'', seq 56 []),
        (''operations'', seq 57 [doc 58 [(''operation_id'', str ''syn_op1''), (''status'', str ''denied''),
           (''reason'', str ''group_not_allowed'')]]),
        (''unchanged_paths'', seq 59 [str ''light.hall''])])]"

definition toggle_command :: "nat \<Rightarrow> jsval" where
  "toggle_command i = doc i [(''target_id'', str ''syn_lamp''), (''name'', str ''light.toggle''),
     (''value'', JBool True), (''cause'', doc (i + 1) [(''kind'', str ''operation''), (''operation_id'', str ''syn_op2'')])]"

definition lost_operations :: "nat \<Rightarrow> jsval" where
  "lost_operations i = seq i
     [doc (i + 1) [(''operation_id'', str ''syn_op2''), (''status'', str ''accepted'')],
      doc (i + 2) [(''operation_id'', str ''syn_op2''), (''status'', str ''outcome_unknown''), (''reason'', str ''no_reply'')]]"

definition lost_scenario :: jsval where
  "lost_scenario = doc 60 [(''id'', str ''syn_lost''), (''description'', str ''The reply to a toggle is lost''),
     (''coverage'', seq 61 [str ''outcome_unknown'']),
     (''setup'', doc 62 [(''connection'', str ''connected''), (''state'', doc 63 []), (''context'', no_context 64)]),
     (''stimuli'', seq 67 [press 68 ''syn_op2'' ''syn_amy'']),
     (''expected'', doc 69 [(''state_patch'', doc 70 [(''light.hall'', JBool True)]), (''context_patch'', no_context 71),
        (''recorded_commands'', seq 74 [toggle_command 75]), (''notification_intents'', seq 77 []),
        (''lifecycle'', seq 78 []), (''operations'', lost_operations 79), (''unchanged_paths'', seq 82 [])])]"

definition lamp_scenarios :: jsval where
  "lamp_scenarios = doc 90 [(''schema'', str ''miakapp.synthetic-home-scenarios/1''), (''home_id'', str ''syn_home''),
     (''scenarios'', seq 91 [denied_scenario, lost_scenario])]"


section \<open>Their typed views\<close>

definition manifest_view :: fixture_manifest where
  "manifest_view = \<lparr>mf_corpus_id = js ''syn_lamp'', mf_seed = 7, mf_start = js ''2042-01-01T00:00:00Z'',
     mf_required = [CoverAuthorization, CoverOutcomeUnknown]\<rparr>"

definition amy :: actor_declaration where
  "amy = \<lparr>ac_id = js ''syn_amy'', ac_role = RoleResident, ac_groups = [js ''syn_staff''], ac_notifications = True\<rparr>"

definition bob :: actor_declaration where
  "bob = \<lparr>ac_id = js ''syn_bob'', ac_role = RoleGuest, ac_groups = [], ac_notifications = False\<rparr>"

definition toggle :: action_declaration where
  "toggle = \<lparr>ad_id = js ''syn_toggle'', ad_type = Click, ad_element = js ''syn_button'', ad_name = js ''light.toggle'',
     ad_groups = [js ''syn_staff''], ad_idempotency = NonIdempotent, ad_value_type = None\<rparr>"

definition empty_context :: fixture_context where
  "empty_context = \<lparr>fc_global = [], fc_flows = []\<rparr>"

definition home_view :: synthetic_home where
  "home_view = \<lparr>hm_id = js ''syn_home'', hm_actors = [amy, bob], hm_groups = [js ''syn_staff''],
     hm_zones = [js ''syn_hall''],
     hm_devices = [\<lparr>dv_id = js ''syn_lamp'', dv_zone = js ''syn_hall'', dv_kind = js ''light'',
       dv_capabilities = [js ''light.toggle'']\<rparr>],
     hm_paths = [\<lparr>sp_path = js ''light.hall'', sp_type = TypeBoolean, sp_persistence = Ephemeral, sp_writable = True\<rparr>],
     hm_actions = [toggle], hm_events = [], hm_signals = [SignalReady],
     hm_state = [(js ''light.hall'', JBool False)], hm_context = empty_context\<rparr>"

definition press_view :: "string \<Rightarrow> string \<Rightarrow> action_stimulus" where
  "press_view operation actor = \<lparr>as_operation = js operation, as_actor = js actor, as_action = js ''syn_toggle'',
     as_type = Click, as_element = js ''syn_button'', as_name = js ''light.toggle'', as_value = None\<rparr>"

definition setup_view :: scenario_setup where
  "setup_view = \<lparr>su_connection = Connected, su_state = [], su_context = empty_context\<rparr>"

definition denied_view :: home_scenario where
  "denied_view = \<lparr>hs_id = js ''syn_denied'', hs_description = js ''A guest presses the button'',
     hs_coverage = [CoverAuthorization], hs_setup = setup_view,
     hs_stimuli = [ActionStimulus (press_view ''syn_op1'' ''syn_bob'')],
     hs_expected = \<lparr>so_state_patch = [], so_context_patch = empty_context, so_commands = [], so_notifications = [],
       so_lifecycle = [],
       so_operations = [\<lparr>oo_id = js ''syn_op1'', oo_status = StatusDenied, oo_reason = Some (js ''group_not_allowed'')\<rparr>],
       so_unchanged = [js ''light.hall'']\<rparr>\<rparr>"

definition command_view :: recorded_command where
  "command_view = \<lparr>rc_target = js ''syn_lamp'', rc_name = js ''light.toggle'', rc_value = JBool True,
     rc_cause = ByOperation (js ''syn_op2'')\<rparr>"

definition lost_view :: home_scenario where
  "lost_view = \<lparr>hs_id = js ''syn_lost'', hs_description = js ''The reply to a toggle is lost'',
     hs_coverage = [CoverOutcomeUnknown], hs_setup = setup_view,
     hs_stimuli = [ActionStimulus (press_view ''syn_op2'' ''syn_amy'')],
     hs_expected = \<lparr>so_state_patch = [(js ''light.hall'', JBool True)], so_context_patch = empty_context,
       so_commands = [command_view], so_notifications = [], so_lifecycle = [],
       so_operations = [\<lparr>oo_id = js ''syn_op2'', oo_status = StatusAccepted, oo_reason = None\<rparr>,
         \<lparr>oo_id = js ''syn_op2'', oo_status = StatusOutcomeUnknown, oo_reason = Some (js ''no_reply'')\<rparr>],
       so_unchanged = []\<rparr>\<rparr>"

definition lamp_corpus :: synthetic_corpus where
  "lamp_corpus = \<lparr>sy_manifest = manifest_view, sy_home = home_view,
     sy_scenarios = \<lparr>sk_home = js ''syn_home'', sk_scenarios = [denied_view, lost_view]\<rparr>\<rparr>"

lemma manifest_valid: "validate_manifest lamp_manifest = Inr manifest_view"
  by code_simp

lemma lamp_ids:
  "validate_synthetic_id (str ''syn_home'') = Inr (js ''syn_home'')"
  "validate_synthetic_id (str ''syn_amy'') = Inr (js ''syn_amy'')"
  "validate_synthetic_id (str ''syn_bob'') = Inr (js ''syn_bob'')"
  "validate_synthetic_id (str ''syn_staff'') = Inr (js ''syn_staff'')"
  "validate_synthetic_id (str ''syn_hall'') = Inr (js ''syn_hall'')"
  "validate_synthetic_id (str ''syn_lamp'') = Inr (js ''syn_lamp'')"
  "validate_synthetic_id (str ''syn_toggle'') = Inr (js ''syn_toggle'')"
  "validate_synthetic_id (str ''syn_button'') = Inr (js ''syn_button'')"
  "validate_synthetic_id (str ''syn_op1'') = Inr (js ''syn_op1'')"
  "validate_synthetic_id (str ''syn_op2'') = Inr (js ''syn_op2'')"
  "validate_synthetic_id (str ''syn_denied'') = Inr (js ''syn_denied'')"
  "validate_synthetic_id (str ''syn_lost'') = Inr (js ''syn_lost'')"
  by code_simp+

lemma lamp_names:
  "validate_home_resource (str ''light'') = Inr (js ''light'')"
  "validate_home_resource (str ''light.toggle'') = Inr (js ''light.toggle'')"
  "validate_state_path (JStr (js ''light.hall'')) = Inr (js ''light.hall'')"
  "fixture_text (str ''A guest presses the button'') 2048 = Inr (js ''A guest presses the button'')"
  "fixture_text (str ''The reply to a toggle is lost'') 2048 = Inr (js ''The reply to a toggle is lost'')"
  "fixture_text (str ''group_not_allowed'') 256 = Inr (js ''group_not_allowed'')"
  "fixture_text (str ''no_reply'') 256 = Inr (js ''no_reply'')"
  by code_simp+

lemma lamp_state:
  "validate_state_record (doc i []) = Inr []"
  "validate_state_record (doc i [(''light.hall'', JBool b)]) = Inr [(js ''light.hall'', JBool b)]"
  "validate_json_value (JBool b) = Inr ()"
  by (simp_all add: validate_state_record_def keyed_json_def doc_def fixture_own_keys_def trace_forbidden_keys_def
      lamp_names validate_json_value_def json_visit_def)

lemma fixture_object_doc:
  "fixture_object (doc i fs) required optional =
     (if length fs > 256 then refuse ''limit_exceeded''
      else if list_ex (\<lambda>(key, _). key \<in> set trace_forbidden_keys) fs then refuse ''forbidden_key''
      else if \<not> set required \<subseteq> set (map fst fs) then refuse ''missing_field''
      else if \<not> set (map fst fs) \<subseteq> set (required @ optional) then refuse ''unknown_field''
      else Inr (map (\<lambda>(key, v). (js key, v)) fs))"
proof -
  have guard: "each_r (\<lambda>x. if P x then refuse e else Inr ()) xs = (if list_ex P xs then refuse e else Inr ())"
    for P :: "'b \<Rightarrow> bool" and e xs by (induction xs) auto
  have own: "has_own (map (\<lambda>(key, v). (js key, v)) fs) (js k) \<longleftrightarrow> k \<in> set (map fst fs)" for k
    by (induction fs) auto
  have keys: "map fst (map (\<lambda>(key, v). (js key, v)) fs) = map js (map fst fs)" by (induction fs) auto
  show ?thesis
    unfolding doc_def fixture_object_def fixture_own_keys_def keys
    by (auto simp: guard own list_ex_iff simp del: map_map)
qed

lemma fixture_array_seq: "fixture_array (seq i vs) m = (if length vs > m then refuse ''limit_exceeded'' else Inr vs)"
proof -
  have keys: "array_keys (map Some vs) [] = map Index [0..<length vs]"
    by (simp add: array_keys_def filter_id_conv)
  show ?thesis by (auto simp: seq_def fixture_array_def keys comp_def)
qed

lemma fixture_enum_str:
  "fixture_enum (str s) table = (case map_of table s of None \<Rightarrow> refuse ''invalid_value'' | Some c \<Rightarrow> Inr c)"
proof -
  have "choice table (js s) = map_of table s" by (induction table) (auto simp: choice_def)
  then show ?thesis by (simp add: fixture_enum_def str_def)
qed

lemma lamp_context: "validate_context (no_context i) = Inr empty_context"
  by (simp add: validate_context_def no_context_def fixture_object_doc trace_forbidden_keys_def)
    (simp add: validate_context_record_def keyed_json_def doc_def fixture_own_keys_def empty_context_def)

lemma str_path: "validate_state_path (str ''light.hall'') = Inr (js ''light.hall'')"
  using lamp_names(3) by (simp add: str_def)

lemmas lamp_eval = fixture_object_doc fixture_array_seq fixture_enum_str fixture_unique_def fixture_list_def
  unique_objects_def trace_forbidden_keys_def lamp_ids lamp_names lamp_state lamp_context fixture_bool_def str_path

lemma actors_valid:
  "validate_actor (doc 12 [(''id'', str ''syn_amy''), (''role'', str ''resident''), (''groups'', seq 13 [str ''syn_staff'']),
     (''notifications_enabled'', JBool True)]) = Inr amy"
  "validate_actor (doc 14 [(''id'', str ''syn_bob''), (''role'', str ''guest''), (''groups'', seq 15 []),
     (''notifications_enabled'', JBool False)]) = Inr bob"
  by (simp_all add: validate_actor_def lamp_eval amy_def bob_def)

lemma notification_contract_valid:
  "validate_notification_contract (doc 29 [(''required_fields'', seq 30 [str ''title'', str ''body'']),
     (''optional_fields'', seq 31 [str ''tag'', str ''image'']), (''audience'', str ''group_filtered''),
     (''delivery'', str ''intent_only'')]) = Inr ()"
  by (simp add: validate_notification_contract_def lamp_eval strict_eq_str_def str_def [symmetric])

lemma home_valid: "validate_home lamp_home = Inr home_view"
  by (simp add: validate_home_def lamp_home_def lamp_eval actors_valid notification_contract_valid validate_group_def
      validate_zone_def validate_device_def validate_state_declaration_def validate_action_def action_value_type_def
      VALUE_TYPES_def ACTION_TYPES_def IDEMPOTENCIES_def LIFECYCLE_SIGNALS_def validate_value_type_def
      home_view_def amy_def bob_def toggle_def str_def [of "''miakapp.synthetic-home/1''"] strict_eq_str_def)

lemma press_valid:
  assumes "validate_synthetic_id (str operation) = Inr (js operation)" and "validate_synthetic_id (str actor) = Inr (js actor)"
  shows "validate_home_stimulus (press i operation actor) = Inr (ActionStimulus (press_view operation actor))"
proof -
  have "action_stimulus_of (press i operation actor) = Inr (ActionStimulus (press_view operation actor))"
    using assms by (simp add: action_stimulus_of_def press_def lamp_eval action_value_def ACTION_TYPES_def press_view_def)
  then show ?thesis
    by (simp add: validate_home_stimulus_def press_def doc_def fixture_enum_str)
qed

lemma cause_doc:
  "validate_cause (doc i fs) =
     bind_r (fixture_enum (get (map (\<lambda>(key, v). (js key, v)) fs) ''kind'') [(''operation'', True), (''stimulus'', False)])
       (\<lambda>operation.
         if operation then
           bind_r (fixture_object (doc i fs) [''kind'', ''operation_id''] []) (\<lambda>cause.
           bind_r (validate_synthetic_id (get cause ''operation_id'')) (\<lambda>identifier. Inr (ByOperation identifier)))
         else
           bind_r (fixture_object (doc i fs) [''kind'', ''stimulus_index''] []) (\<lambda>cause.
           bind_r (stimulus_index (get cause ''stimulus_index'')) (\<lambda>n. Inr (ByStimulus n))))"
  unfolding validate_cause_def doc_def jsval.case by (rule refl)

lemma toggle_command_valid: "validate_command (toggle_command i) = Inr command_view"
  by (simp add: validate_command_def toggle_command_def lamp_eval cause_doc command_view_def)

lemma lost_operations_valid:
  "fixture_list (lost_operations i) 64 validate_operation =
     Inr [\<lparr>oo_id = js ''syn_op2'', oo_status = StatusAccepted, oo_reason = None\<rparr>,
       \<lparr>oo_id = js ''syn_op2'', oo_status = StatusOutcomeUnknown, oo_reason = Some (js ''no_reply'')\<rparr>]"
  by (simp add: lost_operations_def validate_operation_def lamp_eval OPERATION_STATUSES_def operation_reason_def)

lemma setup_valid:
  "validate_setup (doc i [(''connection'', str ''connected''), (''state'', doc j []), (''context'', no_context k)])
     = Inr setup_view"
  by (simp add: validate_setup_def lamp_eval setup_view_def)

lemma denied_valid: "validate_home_scenario denied_scenario = Inr denied_view"
  by (simp add: validate_home_scenario_def denied_scenario_def validate_home_observation_def lamp_eval setup_valid
      validate_coverage_list_def COVERAGE_CLASSES_def press_valid validate_operation_def OPERATION_STATUSES_def
      operation_reason_def denied_view_def)

lemma lost_valid: "validate_home_scenario lost_scenario = Inr lost_view"
  by (simp add: validate_home_scenario_def lost_scenario_def validate_home_observation_def lamp_eval setup_valid
      validate_coverage_list_def COVERAGE_CLASSES_def press_valid toggle_command_valid
      lost_operations_valid [unfolded fixture_list_def] lost_view_def)

lemma home_references_valid: "check_home_references home_view = Inr ()"
  by code_simp

lemma denied_references_valid: "validate_scenario_references home_view (home_indexes home_view) denied_view = Inr ()"
  by code_simp

lemma lost_references_valid: "validate_scenario_references home_view (home_indexes home_view) lost_view = Inr ()"
  by code_simp

lemma lamp_scenarios_valid:
  "validate_scenario_corpus lamp_scenarios = Inr \<lparr>sk_home = js ''syn_home'', sk_scenarios = [denied_view, lost_view]\<rparr>"
proof -
  have "hs_id denied_view \<noteq> hs_id lost_view" by (simp add: denied_view_def lost_view_def)
  then show ?thesis
    by (simp add: validate_scenario_corpus_def lamp_scenarios_def lamp_eval strict_eq_str_def denied_valid lost_valid
        str_def [of "''miakapp.synthetic-home-scenarios/1''"])
qed

lemma lamp_accepted: "validate_corpus_documents lamp_manifest lamp_home lamp_scenarios = Inr lamp_corpus"
proof -
  have "CoverAuthorization \<in> set (hs_coverage denied_view)" "CoverOutcomeUnknown \<in> set (hs_coverage lost_view)"
    "list_ex (\<lambda>ob. oo_status ob = StatusDenied \<and> oo_reason ob = Some (js ''group_not_allowed''))
       (so_operations (hs_expected denied_view))"
    by (simp_all add: denied_view_def lost_view_def)
  moreover have "mf_required manifest_view = [CoverAuthorization, CoverOutcomeUnknown]" "hm_id home_view = js ''syn_home''"
    by (simp_all add: manifest_view_def home_view_def)
  ultimately show ?thesis
    by (simp add: validate_corpus_documents_def manifest_valid home_valid lamp_scenarios_valid home_references_valid
        denied_references_valid lost_references_valid lamp_corpus_def require_reference_def)
qed

section \<open>Applications\<close>

theorem unauthorized_actions_are_denied_witness:
  "operation_observations denied_view (js ''syn_op1'') =
      [\<lparr>oo_id = js ''syn_op1'', oo_status = StatusDenied, oo_reason = Some (js ''group_not_allowed'')\<rparr>]
    \<and> operation_commands denied_view (js ''syn_op1'') = []"
proof -
  have "denied_view \<in> set (sk_scenarios (sy_scenarios lamp_corpus))" by (simp add: lamp_corpus_def)
  moreover have "ActionStimulus (press_view ''syn_op1'' ''syn_bob'') \<in> set (hs_stimuli denied_view)"
    by (simp add: denied_view_def)
  moreover have "bob \<in> set (hm_actors (sy_home lamp_corpus))" "ac_id bob = as_actor (press_view ''syn_op1'' ''syn_bob'')"
    "toggle \<in> set (hm_actions (sy_home lamp_corpus))" "ad_id toggle = as_action (press_view ''syn_op1'' ''syn_bob'')"
    "set (ad_groups toggle) \<inter> set (ac_groups bob) = {}"
    by (simp_all add: lamp_corpus_def home_view_def bob_def toggle_def press_view_def)
  ultimately show ?thesis
    using unauthorized_actions_are_denied [OF lamp_accepted] by (fastforce simp: press_view_def)
qed

theorem commands_have_authorized_causes_witness:
  "command_view \<in> set (so_commands (hs_expected lost_view))
    \<and> (\<exists>device. device \<in> set (hm_devices home_view) \<and> dv_id device = js ''syn_lamp'')
    \<and> hd (operation_sequence lost_view (js ''syn_op2'')) = StatusAccepted"
proof -
  have command: "command_view \<in> set (so_commands (hs_expected lost_view))" by (simp add: lost_view_def)
  have "lost_view \<in> set (sk_scenarios (sy_scenarios lamp_corpus))" by (simp add: lamp_corpus_def)
  from commands_have_authorized_causes [OF lamp_accepted this command] command show ?thesis
    by (auto simp: command_view_def lamp_corpus_def)
qed

theorem unknown_outcomes_are_not_retried_witness:
  "\<exists>before command after. so_commands (hs_expected lost_view) = before @ command # after
    \<and> rc_cause command = ByOperation (js ''syn_op2'')"
proof -
  have "lost_view \<in> set (sk_scenarios (sy_scenarios lamp_corpus))" by (simp add: lamp_corpus_def)
  moreover have "ActionStimulus (press_view ''syn_op2'' ''syn_amy'') \<in> set (hs_stimuli lost_view)"
    by (simp add: lost_view_def)
  moreover have "toggle \<in> set (hm_actions (sy_home lamp_corpus))" "ad_id toggle = as_action (press_view ''syn_op2'' ''syn_amy'')"
    "ad_idempotency toggle = NonIdempotent"
    "StatusOutcomeUnknown \<in> set (operation_sequence lost_view (as_operation (press_view ''syn_op2'' ''syn_amy'')))"
    by (simp_all add: lamp_corpus_def home_view_def toggle_def press_view_def lost_view_def operation_sequence_def
        operation_observations_def)
  ultimately show ?thesis
    using unknown_outcomes_are_not_retried [OF lamp_accepted] by (fastforce simp: press_view_def)
qed

section \<open>A replay\<close>

definition lamp_replay :: replay_corpus where
  "lamp_replay = \<lparr>rp_manifest = manifest_view, rp_home = home_view, rp_home_value = lamp_home,
     rp_scenarios = [(denied_view, denied_scenario), (lost_view, lost_scenario)]\<rparr>"

text \<open>The observation of a subject that behaves as the second scenario expects.\<close>

definition lost_observation :: jsval where
  "lost_observation = doc 100 [(''operations'', lost_operations 101), (''state'', doc 104 [(''light.hall'', JBool True)]),
     (''context'', no_context 105), (''recorded_commands'', seq 108 [toggle_command 109]),
     (''notification_intents'', seq 111 []), (''lifecycle'', seq 112 [])]"

text \<open>A subject that records the stimuli it is given.\<close>

definition obedient :: "jsval list replay_subject" where
  "obedient = \<lparr>sj_reset = (\<lambda>_ _. ([], Inr ())), sj_dispatch = (\<lambda>stim given. (given @ [stim], Inr ())),
     sj_observe = (\<lambda>given. (given, Inr lost_observation))\<rparr>"

lemma lost_observation_valid: "\<exists>view. validate_replay_observation lost_observation = Inr view"
  by (simp add: validate_replay_observation_def lost_observation_def lamp_eval toggle_command_valid
      lost_operations_valid [unfolded fixture_list_def])

lemma lost_expected: "expected_observation (replay_setup_of lamp_replay lost_view) lost_view lost_scenario =
    JRec 0 [(js ''state'', JRec 0 [(js ''light.hall'', JBool True)]),
      (js ''context'', JRec 0 [(js ''global'', JRec 0 []), (js ''flows'', JRec 0 [])]),
      (js ''recorded_commands'', seq 74 [toggle_command 75]), (js ''notification_intents'', seq 77 []),
      (js ''lifecycle'', seq 78 []), (js ''operations'', lost_operations 79)]"
  by (simp add: expected_observation_def replay_setup_of_def lamp_replay_def home_view_def lost_view_def setup_view_def
      empty_context_def merge_context_def context_value_def lost_scenario_def doc_def Let_def)

lemma lost_plain: "plain_data (expected_observation (replay_setup_of lamp_replay lost_view) lost_view lost_scenario)"
  unfolding lost_expected by (simp add: seq_def toggle_command_def lost_operations_def doc_def str_def)

lemma denied_plain: "plain_data (expected_observation (replay_setup_of lamp_replay denied_view) denied_view denied_scenario)"
  by (simp add: expected_observation_def replay_setup_of_def lamp_replay_def home_view_def denied_view_def setup_view_def
      empty_context_def merge_context_def context_value_def denied_scenario_def doc_def Let_def seq_def str_def)

lemma lost_observation_keyed: "keyed_once lost_observation"
  by (simp add: lost_observation_def seq_def toggle_command_def lost_operations_def no_context_def doc_def str_def)

lemma lost_observation_judged:
  "judge_observation (expected_observation (replay_setup_of lamp_replay lost_view) lost_view lost_scenario) lost_observation
     = Inr lost_observation"
proof -
  have "tree_of (expected_observation (replay_setup_of lamp_replay lost_view) lost_view lost_scenario)
      = tree_of lost_observation"
    unfolding lost_expected
    by (simp add: lost_observation_def seq_def toggle_command_def lost_operations_def no_context_def doc_def str_def)
      (rule fmap_ext, auto)
  then have "find_difference (expected_observation (replay_setup_of lamp_replay lost_view) lost_view lost_scenario)
      lost_observation [] = None"
    using no_difference_is_equality [OF lost_plain lost_observation_keyed] by blast
  then show ?thesis
    using lost_observation_valid by (auto simp: judge_observation_def)
qed

lemma lost_found:
  "List.find (\<lambda>(scen, _). hs_id scen = js ''syn_lost'') (rp_scenarios lamp_replay) = Some (lost_view, lost_scenario)"
  "items_of (get (fields_of lost_scenario) ''stimuli'') = [press 68 ''syn_op2'' ''syn_amy'']"
  by (simp_all add: lamp_replay_def denied_view_def lost_view_def lost_scenario_def doc_def seq_def item_value_def)

lemma lost_replayed:
  "replay_scenario lamp_replay (js ''syn_lost'') obedient None (\<lambda>_. HookSettles) [] =
     ([press 68 ''syn_op2'' ''syn_amy''],
      Inr \<lparr>rr_scenario = js ''syn_lost'', rr_dispatched = 1, rr_observation = lost_observation\<rparr>)"
  by (simp add: replay_scenario_def lost_found then_hook_def run_hook_def obedient_def replay_timeout_def
      max_safe_integer_def lost_observation_judged)
    (simp add: lost_view_def)

theorem passing_replay_is_exact_witness:
  "state_typed home_view (fields_of (get (fields_of lost_observation) ''state''))
    \<and> fst ` set (fields_of (get (fields_of lost_observation) ''state'')) = sp_path ` set (hm_paths home_view)"
proof -
  have rp: "rp_home lamp_replay = sy_home lamp_corpus"
    "map fst (rp_scenarios lamp_replay) = sk_scenarios (sy_scenarios lamp_corpus)"
    "distinct (map fst (hm_state (sy_home lamp_corpus)))"
    by (simp_all add: lamp_replay_def lamp_corpus_def home_view_def)
  have plain: "plain_data (expected_observation (replay_setup_of lamp_replay scen) scen raw)"
    if "(scen, raw) \<in> set (rp_scenarios lamp_replay)" for scen raw
    using that lost_plain denied_plain by (auto simp: lamp_replay_def)
  from passing_replay_is_exact [OF lamp_accepted rp lost_replayed _ plain] lost_observation_keyed show ?thesis
    by (auto simp: lamp_corpus_def)
qed

text \<open>The subject hears of the press, but its \<open>dispatch\<close> times out: the replay fails and nothing is observed.\<close>

theorem interrupted_replay_stops_witness:
  "replay_scenario lamp_replay (js ''syn_lost'') obedient None (\<lambda>i. if i = 1 then HookTimesOut else HookSettles) []
    = ([press 68 ''syn_op2'' ''syn_amy''], Inl ReplayTimeout)"
  using interrupted_replay_stops [OF lost_found(1) _ refl, of None 5000 1 obedient
      "\<lambda>i. if i = 1 then HookTimesOut else HookSettles" "[]" "[]"]
  by (simp add: subject_calls_def lost_found(2) obedient_def replay_timeout_def max_safe_integer_def
      calls_succeed.simps call_outcome_def)

end
