(* ===== verification/Migration.thy ===== *)
theory Migration
  imports Home_Replay
begin

text \<open>
  \<open>coordinator-contract/src/migration.ts\<close>: the harness that runs a migration adapter as the subject of a
  replay. The adapter writes through capabilities bound to a lease; what it wrote, and not what it claims,
  becomes the observation.

  The closure variables of \<open>createMigrationReplayHarness\<close>, with the private fields of its recorder and of
  its publisher, are the record \<open>harness\<close>. The adapter is arbitrary code that keeps every capability it was
  ever given and calls them at any time: a call through the lease with number \<open>l\<close> is an event. A hook is
  two events, its call by the runner and its settlement by the adapter; a lease is a number, its flag
  \<open>active\<close> an entry of the list of leases.
\<close>

section \<open>Errors and limits\<close>

datatype migration_error =
    UnclassifiedEffect | EffectInvalid trace_error | EvidenceCycle | RecorderFull | RecorderBytes
  | PublicationDisabled | SignalAborted | PublicationLimit | PublicationNotRecord
  | PublicationInvalid trace_error | PublicationBytes | LeaseExpired | MissingPublication
  | AdapterThrew | ObservationInvalid trace_error

type_synonym 'a migrated = "migration_error + 'a"

definition MAX_RECORDED_EFFECTS :: nat where "MAX_RECORDED_EFFECTS = 64"
definition MAX_STATE_PUBLICATIONS :: nat where "MAX_STATE_PUBLICATIONS = 256"
definition MAX_EFFECT_BYTES :: nat where "MAX_EFFECT_BYTES = 1048576"
definition MAX_STATE_PUBLICATION_BYTES :: nat where "MAX_STATE_PUBLICATION_BYTES = 4194304"

definition rethrow :: "(trace_error \<Rightarrow> migration_error) \<Rightarrow> 'a traced \<Rightarrow> 'a migrated" where
  "rethrow f m = (case m of Inl e \<Rightarrow> Inl (f e) | Inr x \<Rightarrow> Inr x)"

lemma rethrow_Inr [res_simps]: "rethrow f m = Inr x \<longleftrightarrow> m = Inr x"
  by (cases m) (auto simp: rethrow_def)

section \<open>The size of evidence\<close>

text \<open>
  \<open>estimatedValueBytes\<close>: the stack of the values still to visit, its top first, and the objects met. An
  object that is met twice counts as a cycle, also when it is merely shared.
\<close>

lemma stack_items: "sum_list (map (Suc \<circ> size) (map item_value items)) \<le> size_list (size_option size) items"
  by (induction items) (auto simp: item_value_def split: option.splits)

lemma stack_fields: "sum_list (map (Suc \<circ> size) (map snd fs)) \<le> size_list (size_prod (\<lambda>_. 0) size) fs"
  by (induction fs) auto

lemma stack_rev: "sum_list (map (Suc \<circ> size) (rev vs)) = sum_list (map (Suc \<circ> size) (vs :: jsval list))"
  by (simp flip: rev_map)

function value_bytes :: "jsval list \<Rightarrow> nat set \<Rightarrow> nat \<Rightarrow> nat migrated" where
  "value_bytes [] seen used = Inr used"
| "value_bytes (current # stack) seen used =
     (case current of
        JNull \<Rightarrow> value_bytes stack seen (used + 1)
      | JBool _ \<Rightarrow> value_bytes stack seen (used + 1)
      | JNum _ \<Rightarrow> value_bytes stack seen (used + 8)
      | JStr s \<Rightarrow> value_bytes stack seen (used + utf8_bytes s)
      | JBytes bs \<Rightarrow> value_bytes stack seen (used + length bs)
      | JArr oid items _ \<Rightarrow>
          (if oid \<in> seen then Inl EvidenceCycle
           else value_bytes (rev (map item_value items) @ stack) (insert oid seen) used)
      | JRec oid fs \<Rightarrow>
          (if oid \<in> seen then Inl EvidenceCycle
           else value_bytes (rev (map snd fs) @ stack) (insert oid seen)
             (used + sum_list (map (utf8_bytes \<circ> fst) fs)))
      | _ \<Rightarrow> value_bytes stack seen used)"
  by pat_completeness auto
termination
  by (relation "measure (\<lambda>(stack, _, _). sum_list (map (Suc \<circ> size) stack))")
    (auto simp: stack_rev less_Suc_eq_le le_SucI trans_le_add1 stack_items stack_fields simp del: map_map simp flip: rev_map)

definition estimated_value_bytes :: "jsval \<Rightarrow> nat migrated" where
  "estimated_value_bytes value = value_bytes [value] {} 0"

section \<open>The effect recorder\<close>

datatype recorded_effect = CommandEffect jsval | NotificationEffect jsval

text \<open>The observation the source builds around one effect to validate it.\<close>

definition effect_observation :: "jsval list \<Rightarrow> jsval list \<Rightarrow> jsval" where
  "effect_observation commands notifications =
     JRec 0 [(js ''state'', JRec 0 []),
       (js ''context'', JRec 0 [(js ''global'', JRec 0 []), (js ''flows'', JRec 0 [])]),
       (js ''recorded_commands'', JArr 0 (map Some commands) []),
       (js ''notification_intents'', JArr 0 (map Some notifications) []),
       (js ''lifecycle'', JArr 0 [] []), (js ''operations'', JArr 0 [] [])]"

definition validate_recorded_effect :: "jsval \<Rightarrow> recorded_effect migrated" where
  "validate_recorded_effect value =
     (case value of
        JRec _ fs \<Rightarrow>
          (if \<exists>key\<in>set (map fst fs). key \<notin> js ` {''kind'', ''command'', ''intent''} then Inl UnclassifiedEffect
           else if strict_eq_str (get fs ''kind'') (js ''device_command'')
             \<and> has_own fs (js ''command'') \<and> \<not> has_own fs (js ''intent'') then
             bind_r (rethrow EffectInvalid (validate_replay_observation
               (effect_observation [get fs ''command''] []))) (\<lambda>_. Inr (CommandEffect (get fs ''command'')))
           else if strict_eq_str (get fs ''kind'') (js ''notification_intent'')
             \<and> has_own fs (js ''intent'') \<and> \<not> has_own fs (js ''command'') then
             bind_r (rethrow EffectInvalid (validate_replay_observation
               (effect_observation [] [get fs ''intent'']))) (\<lambda>_. Inr (NotificationEffect (get fs ''intent'')))
           else Inl UnclassifiedEffect)
      | _ \<Rightarrow> Inl UnclassifiedEffect)"

text \<open>The size of the new object \<open>{ kind, command }\<close> or \<open>{ kind, intent }\<close>, which nothing else refers to.\<close>

definition effect_bytes :: "recorded_effect \<Rightarrow> nat migrated" where
  "effect_bytes effect =
     (case effect of
        CommandEffect v \<Rightarrow>
          value_bytes [v, JStr (js ''device_command'')] {} (utf8_bytes (js ''kind'') + utf8_bytes (js ''command''))
      | NotificationEffect v \<Rightarrow>
          value_bytes [v, JStr (js ''notification_intent'')] {} (utf8_bytes (js ''kind'') + utf8_bytes (js ''intent'')))"

record effect_sink =
  ek_commands :: "jsval list"
  ek_notifications :: "jsval list"
  ek_bytes :: nat

definition empty_sink :: effect_sink where
  "empty_sink = \<lparr>ek_commands = [], ek_notifications = [], ek_bytes = 0\<rparr>"

definition record_effect :: "jsval \<Rightarrow> effect_sink \<Rightarrow> effect_sink migrated" where
  "record_effect value sink =
     (if length (ek_commands sink) + length (ek_notifications sink) \<ge> MAX_RECORDED_EFFECTS then Inl RecorderFull
      else
      bind_r (validate_recorded_effect value) (\<lambda>effect.
      bind_r (effect_bytes effect) (\<lambda>used.
        if ek_bytes sink + used > MAX_EFFECT_BYTES then Inl RecorderBytes
        else
        (let counted = sink\<lparr>ek_bytes := ek_bytes sink + used\<rparr> in
         case effect of
           CommandEffect v \<Rightarrow> Inr (counted\<lparr>ek_commands := ek_commands sink @ [v]\<rparr>)
         | NotificationEffect v \<Rightarrow> Inr (counted\<lparr>ek_notifications := ek_notifications sink @ [v]\<rparr>)))))"

section \<open>The state publisher\<close>

record state_publisher =
  pb_enabled :: bool
  pb_latest :: "jsval option"
  pb_count :: nat
  pb_bytes :: nat

definition fresh_publisher :: "bool \<Rightarrow> state_publisher" where
  "fresh_publisher enabled = \<lparr>pb_enabled = enabled, pb_latest = None, pb_count = 0, pb_bytes = 0\<rparr>"

definition publisher_publish :: "jsval \<Rightarrow> bool \<Rightarrow> state_publisher \<Rightarrow> state_publisher migrated" where
  "publisher_publish value aborted publisher =
     (if \<not> pb_enabled publisher then Inl PublicationDisabled
      else if aborted then Inl SignalAborted
      else if pb_count publisher \<ge> MAX_STATE_PUBLICATIONS then Inl PublicationLimit
      else if \<not> is_plain_record value then Inl PublicationNotRecord
      else
      bind_r (rethrow PublicationInvalid (validate_json_value value)) (\<lambda>_.
      bind_r (rethrow PublicationInvalid
        (each_r (\<lambda>path. bind_r (validate_state_path (JStr path)) (\<lambda>_. Inr ())) (map fst (fields_of value)))) (\<lambda>_.
      bind_r (estimated_value_bytes value) (\<lambda>used.
        if pb_bytes publisher + used > MAX_STATE_PUBLICATION_BYTES then Inl PublicationBytes
        else Inr (publisher\<lparr>pb_bytes := pb_bytes publisher + used, pb_count := pb_count publisher + 1,
                           pb_latest := Some value\<rparr>)))))"

section \<open>The harness\<close>

datatype harness_mode = Observe | ShadowState | RecordedAction

text \<open>
  \<open>hn_runs\<close> holds the hooks under way: the lease each runs with and whether it is still pending, that is,
  whether its abort listener is installed. \<open>hn_observing\<close> counts the pending calls of \<open>observe\<close>.
\<close>

record harness =
  hn_mode :: harness_mode
  hn_sink :: effect_sink
  hn_publisher :: state_publisher
  hn_leases :: "bool list"
  hn_active :: "nat option"
  hn_runs :: "(nat \<times> bool) list"
  hn_observing :: nat

definition new_harness :: "harness_mode \<Rightarrow> harness" where
  "new_harness mode =
     \<lparr>hn_mode = mode, hn_sink = empty_sink, hn_publisher = fresh_publisher (mode \<noteq> Observe), hn_leases = [],
      hn_active = None, hn_runs = [], hn_observing = 0\<rparr>"

definition lease_active :: "harness \<Rightarrow> nat \<Rightarrow> bool" where
  "lease_active h l \<longleftrightarrow> l < length (hn_leases h) \<and> hn_leases h ! l"

definition revoke :: "nat \<Rightarrow> harness \<Rightarrow> harness" where
  "revoke l h = h\<lparr>hn_leases := (hn_leases h)[l := False]\<rparr>"

datatype harness_response = Settled | Started | Refused migration_error | Observed jsval

text \<open>\<open>runWithLease\<close> up to the call of the adapter.\<close>

definition run_with_lease :: "nat \<Rightarrow> bool \<Rightarrow> harness \<Rightarrow> harness \<times> harness_response" where
  "run_with_lease l aborted h =
     (if \<not> lease_active h l then (h, Refused LeaseExpired)
      else if aborted then (revoke l h, Refused SignalAborted)
      else (h\<lparr>hn_runs := hn_runs h @ [(l, True)]\<rparr>, Started))"

definition reset_called :: "bool \<Rightarrow> harness \<Rightarrow> harness \<times> harness_response" where
  "reset_called aborted h =
     (let revoked = (case hn_active h of None \<Rightarrow> h | Some l \<Rightarrow> revoke l h);
          l = length (hn_leases h)
      in run_with_lease l aborted
        (revoked\<lparr>hn_sink := empty_sink, hn_publisher := fresh_publisher (hn_mode h \<noteq> Observe),
                 hn_leases := hn_leases revoked @ [True], hn_active := Some l\<rparr>))"

definition dispatch_called :: "bool \<Rightarrow> harness \<Rightarrow> harness \<times> harness_response" where
  "dispatch_called aborted h =
     (case hn_active h of
        None \<Rightarrow> (h, Refused LeaseExpired)
      | Some l \<Rightarrow> run_with_lease l aborted h)"

text \<open>A hook settles: its listener goes, and a failure revokes its lease.\<close>

definition hook_settled :: "nat \<Rightarrow> bool \<Rightarrow> harness \<Rightarrow> harness \<times> harness_response" where
  "hook_settled i returned h =
     (if i < length (hn_runs h) \<and> snd (hn_runs h ! i) then
        (let l = fst (hn_runs h ! i); closed = h\<lparr>hn_runs := (hn_runs h)[i := (l, False)]\<rparr> in
         if returned then (closed, Settled) else (revoke l closed, Refused AdapterThrew))
      else (h, Settled))"

definition signal_aborted :: "nat \<Rightarrow> harness \<Rightarrow> harness \<times> harness_response" where
  "signal_aborted i h =
     (if i < length (hn_runs h) \<and> snd (hn_runs h ! i) then (revoke (fst (hn_runs h ! i)) h, Settled)
      else (h, Settled))"

text \<open>The two capabilities of a lease.\<close>

definition record_called :: "nat \<Rightarrow> jsval \<Rightarrow> harness \<Rightarrow> harness \<times> harness_response" where
  "record_called l effect h =
     (if \<not> lease_active h l then (h, Refused LeaseExpired)
      else case record_effect effect (hn_sink h) of
        Inl e \<Rightarrow> (h, Refused e)
      | Inr sink \<Rightarrow> (h\<lparr>hn_sink := sink\<rparr>, Settled))"

definition publish_called :: "nat \<Rightarrow> jsval \<Rightarrow> bool \<Rightarrow> harness \<Rightarrow> harness \<times> harness_response" where
  "publish_called l value aborted h =
     (if \<not> lease_active h l then (h, Refused LeaseExpired)
      else case publisher_publish value aborted (hn_publisher h) of
        Inl e \<Rightarrow> (h, Refused e)
      | Inr publisher \<Rightarrow> (h\<lparr>hn_publisher := publisher\<rparr>, Settled))"

definition observe_called :: "harness \<Rightarrow> harness \<times> harness_response" where
  "observe_called h =
     (case hn_active h of
        None \<Rightarrow> (h, Refused LeaseExpired)
      | Some l \<Rightarrow>
          (if \<not> lease_active h l then (h, Refused LeaseExpired)
           else ((revoke l h)\<lparr>hn_active := None, hn_observing := hn_observing h + 1\<rparr>, Started)))"

definition evidence_observation :: "harness \<Rightarrow> jsval \<Rightarrow> jsval" where
  "evidence_observation h claimed =
     JRec 0 (spread_fields (fields_of claimed)
       [(js ''state'', case pb_latest (hn_publisher h) of
           None \<Rightarrow> get (fields_of claimed) ''state'' | Some latest \<Rightarrow> latest),
        (js ''recorded_commands'', JArr 0 (map Some (ek_commands (hn_sink h))) []),
        (js ''notification_intents'', JArr 0 (map Some (ek_notifications (hn_sink h))) [])])"

text \<open>The adapter's \<open>observe\<close> settles with a claim, or throws (\<open>None\<close>).\<close>

definition observe_settled :: "jsval option \<Rightarrow> harness \<Rightarrow> harness \<times> harness_response" where
  "observe_settled claim h =
     (if hn_observing h = 0 then (h, Settled)
      else (h\<lparr>hn_observing := hn_observing h - 1\<rparr>,
        case claim of
          None \<Rightarrow> Refused AdapterThrew
        | Some claimed \<Rightarrow>
            (case validate_replay_observation claimed of
               Inl e \<Rightarrow> Refused (ObservationInvalid e)
             | Inr _ \<Rightarrow>
                 if hn_mode h \<noteq> Observe \<and> pb_latest (hn_publisher h) = None then Refused MissingPublication
                 else Observed (evidence_observation h claimed))))"

datatype harness_event =
    ResetCalled bool | DispatchCalled bool | HookSettled nat bool | HookAborted nat
  | RecordCalled nat jsval | PublishCalled nat jsval bool | ObserveCalled | ObserveSettled "jsval option"

fun harness_respond :: "harness_event \<Rightarrow> harness \<Rightarrow> harness \<times> harness_response" where
  "harness_respond (ResetCalled aborted) h = reset_called aborted h"
| "harness_respond (DispatchCalled aborted) h = dispatch_called aborted h"
| "harness_respond (HookSettled i returned) h = hook_settled i returned h"
| "harness_respond (HookAborted i) h = signal_aborted i h"
| "harness_respond (RecordCalled l effect) h = record_called l effect h"
| "harness_respond (PublishCalled l value aborted) h = publish_called l value aborted h"
| "harness_respond ObserveCalled h = observe_called h"
| "harness_respond (ObserveSettled claim) h = observe_settled claim h"

definition harness_step :: "harness_event \<Rightarrow> harness \<Rightarrow> harness" where
  "harness_step event h = fst (harness_respond event h)"

definition harness_run :: "harness_event list \<Rightarrow> harness \<Rightarrow> harness" where
  "harness_run events h = fold harness_step events h"

end
