(* ===== verification/Migration_Properties.thy ===== *)
theory Migration_Properties
  imports Migration
begin

text \<open>
  What the migration harness guarantees whatever the adapter does with the capabilities it was given:
  bounded evidence, one lease at a time, evidence that is final at the checkpoint, and replays that judge
  the evidence and not the claim of the adapter.
\<close>

section \<open>What a recorder holds\<close>

definition sink_ok :: "effect_sink \<Rightarrow> bool" where
  "sink_ok sink \<longleftrightarrow>
     length (ek_commands sink) + length (ek_notifications sink) \<le> MAX_RECORDED_EFFECTS
     \<and> ek_bytes sink \<le> MAX_EFFECT_BYTES
     \<and> list_all (\<lambda>v. \<exists>c. validate_command v = Inr c) (ek_commands sink)
     \<and> list_all (\<lambda>v. \<exists>n. validate_notification v = Inr n) (ek_notifications sink)"

definition publisher_ok :: "state_publisher \<Rightarrow> bool" where
  "publisher_ok publisher \<longleftrightarrow>
     pb_count publisher \<le> MAX_STATE_PUBLICATIONS
     \<and> pb_bytes publisher \<le> MAX_STATE_PUBLICATION_BYTES
     \<and> (pb_latest publisher = None \<longleftrightarrow> pb_count publisher = 0)
     \<and> (\<not> pb_enabled publisher \<longrightarrow> pb_count publisher = 0)
     \<and> (\<forall>v. pb_latest publisher = Some v \<longrightarrow> is_plain_record v \<and> validate_json_value v = Inr ()
         \<and> list_all (\<lambda>path. \<exists>p. validate_state_path (JStr path) = Inr p) (map fst (fields_of v)))"

lemma fixture_array_all: "fixture_array (JArr i (map Some vs) []) m = Inr ws \<longleftrightarrow> length vs \<le> m \<and> ws = vs"
proof -
  have keys: "array_keys (map Some vs) [] = map Index [0..<length vs]"
    by (simp add: array_keys_def filter_id_conv)
  show ?thesis by (auto simp: fixture_array_def keys comp_def)
qed

lemma effect_observation_valid:
  assumes "validate_replay_observation (effect_observation commands notifications) = Inr view"
  shows "list_all (\<lambda>v. \<exists>c. validate_command v = Inr c) commands"
    and "list_all (\<lambda>v. \<exists>n. validate_notification v = Inr n) notifications"
  using assms unfolding validate_replay_observation_def effect_observation_def fixture_object_def
  by (auto simp: res_simps fixture_list_def fixture_array_all map_r_Inr_iff list_all_iff list_all2_conv_all_nth in_set_conv_nth)

definition effect_valid :: "recorded_effect \<Rightarrow> bool" where
  "effect_valid effect \<longleftrightarrow>
     (case effect of CommandEffect v \<Rightarrow> \<exists>c. validate_command v = Inr c
      | NotificationEffect v \<Rightarrow> \<exists>n. validate_notification v = Inr n)"

lemma recorded_effect_valid:
  assumes "validate_recorded_effect value = Inr effect"
  shows "effect_valid effect"
proof -
  have "\<exists>c. validate_command v = Inr c" if "validate_replay_observation (effect_observation [v] []) = Inr view" for v view
    using effect_observation_valid(1) [OF that] by simp
  moreover have "\<exists>n. validate_notification v = Inr n"
    if "validate_replay_observation (effect_observation [] [v]) = Inr view" for v view
    using effect_observation_valid(2) [OF that] by simp
  ultimately show ?thesis
    using assms unfolding validate_recorded_effect_def effect_valid_def by (auto simp: res_simps split: if_splits)
qed

lemma empty_sink_ok [simp]: "sink_ok empty_sink"
  by (simp add: sink_ok_def empty_sink_def)

lemma fresh_publisher_ok [simp]: "publisher_ok (fresh_publisher enabled)"
  by (simp add: publisher_ok_def fresh_publisher_def)

lemma record_effect_ok:
  assumes "record_effect value sink = Inr sink'" and "sink_ok sink"
  shows "sink_ok sink'"
proof -
  obtain effect used where room: "length (ek_commands sink) + length (ek_notifications sink) < MAX_RECORDED_EFFECTS"
    and valid: "validate_recorded_effect value = Inr effect" and "effect_bytes effect = Inr used"
    using assms(1) unfolding record_effect_def by (auto simp: res_simps not_le)
  with assms(1) have "ek_bytes sink + used \<le> MAX_EFFECT_BYTES"
    and sink': "sink' = (case effect of
        CommandEffect v \<Rightarrow> sink\<lparr>ek_bytes := ek_bytes sink + used, ek_commands := ek_commands sink @ [v]\<rparr>
      | NotificationEffect v \<Rightarrow> sink\<lparr>ek_bytes := ek_bytes sink + used, ek_notifications := ek_notifications sink @ [v]\<rparr>)"
    unfolding record_effect_def Let_def by (cases effect; auto split: if_splits)+
  moreover have "effect_valid effect" by (rule recorded_effect_valid [OF valid])
  ultimately show ?thesis using room assms(2)
    by (cases effect) (auto simp: sink_ok_def effect_valid_def)
qed

lemma publisher_publish_ok:
  assumes "publisher_publish value aborted publisher = Inr publisher'" and "publisher_ok publisher"
  shows "publisher_ok publisher'" and "pb_enabled publisher' = pb_enabled publisher" and "pb_enabled publisher"
  using assms unfolding publisher_publish_def publisher_ok_def
  by (auto simp: res_simps list_all_iff)

section \<open>The invariant of the harness\<close>

definition harness_ok :: "harness \<Rightarrow> bool" where
  "harness_ok h \<longleftrightarrow>
     sink_ok (hn_sink h) \<and> publisher_ok (hn_publisher h)
     \<and> pb_enabled (hn_publisher h) = (hn_mode h \<noteq> Observe)
     \<and> (\<forall>l. lease_active h l \<longrightarrow> hn_active h = Some l)"

lemma harness_okD:
  assumes "harness_ok h"
  shows "sink_ok (hn_sink h)" and "publisher_ok (hn_publisher h)"
    and "pb_enabled (hn_publisher h) = (hn_mode h \<noteq> Observe)"
    and "lease_active h l \<Longrightarrow> hn_active h = Some l"
  using assms by (simp_all add: harness_ok_def)

lemma new_harness_ok: "harness_ok (new_harness mode)"
  by (simp add: harness_ok_def new_harness_def lease_active_def) (simp add: fresh_publisher_def)

lemma lease_active_simps [simp]:
  "lease_active (h\<lparr>hn_sink := sink\<rparr>) l = lease_active h l"
  "lease_active (h\<lparr>hn_publisher := publisher\<rparr>) l = lease_active h l"
  "lease_active (h\<lparr>hn_runs := runs\<rparr>) l = lease_active h l"
  "lease_active (h\<lparr>hn_active := a\<rparr>) l = lease_active h l"
  "lease_active (h\<lparr>hn_observing := n\<rparr>) l = lease_active h l"
  "lease_active (revoke k h) l \<longleftrightarrow> lease_active h l \<and> l \<noteq> k"
  by (simp_all add: lease_active_def revoke_def) (metis list_update_beyond not_le nth_list_update)

lemma revoke_simps [simp]:
  "hn_sink (revoke k h) = hn_sink h" "hn_publisher (revoke k h) = hn_publisher h"
  "hn_mode (revoke k h) = hn_mode h" "hn_active (revoke k h) = hn_active h" "hn_runs (revoke k h) = hn_runs h"
  "hn_observing (revoke k h) = hn_observing h" "length (hn_leases (revoke k h)) = length (hn_leases h)"
  by (simp_all add: revoke_def)

lemma revoke_ok: "harness_ok h \<Longrightarrow> harness_ok (revoke l h)"
  by (simp add: harness_ok_def)

lemma runs_ok [simp]: "harness_ok (h\<lparr>hn_runs := runs\<rparr>) = harness_ok h"
  by (simp add: harness_ok_def)

lemma observing_ok [simp]: "harness_ok (h\<lparr>hn_observing := n\<rparr>) = harness_ok h"
  by (simp add: harness_ok_def)

lemma run_with_lease_ok: "harness_ok h \<Longrightarrow> harness_ok (fst (run_with_lease l aborted h))"
  by (simp add: run_with_lease_def revoke_ok)

text \<open>The state of a reset before its hook runs: the new lease is the only active one.\<close>

lemma reset_state_ok:
  assumes "harness_ok h"
  shows "harness_ok ((case hn_active h of None \<Rightarrow> h | Some l \<Rightarrow> revoke l h)
    \<lparr>hn_sink := empty_sink, hn_publisher := fresh_publisher (hn_mode h \<noteq> Observe),
     hn_leases := hn_leases (case hn_active h of None \<Rightarrow> h | Some l \<Rightarrow> revoke l h) @ [True],
     hn_active := Some (length (hn_leases h))\<rparr>)"
proof (cases "hn_active h")
  case None
  then have "\<And>l. \<not> lease_active h l" using harness_okD(4) [OF assms] by auto
  then show ?thesis
    using None by (auto simp: harness_ok_def fresh_publisher_def [of "hn_mode h \<noteq> Observe"] lease_active_def nth_append)
      (use fresh_publisher_ok in \<open>simp_all add: fresh_publisher_def\<close>)
next
  case (Some k)
  then have "\<And>l. \<not> lease_active (revoke k h) l" using harness_okD(4) [OF assms] by auto
  then show ?thesis
    using Some by (auto simp: harness_ok_def fresh_publisher_def [of "hn_mode h \<noteq> Observe"] lease_active_def nth_append)
      (use fresh_publisher_ok in \<open>simp_all add: fresh_publisher_def\<close>)
qed

lemma harness_step_ok: "harness_ok h \<Longrightarrow> harness_ok (harness_step event h)"
  unfolding harness_step_def
proof (cases event)
  case (ResetCalled aborted)
  assume "harness_ok h"
  then show "harness_ok (fst (harness_respond event h))"
    using run_with_lease_ok [OF reset_state_ok] ResetCalled by (simp add: reset_called_def Let_def)
next
  case (RecordCalled l effect)
  assume ok: "harness_ok h"
  then show "harness_ok (fst (harness_respond event h))"
    using RecordCalled record_effect_ok harness_okD(1) [OF ok]
    by (auto simp: record_called_def harness_ok_def split: sum.splits)
next
  case (PublishCalled l v aborted)
  assume ok: "harness_ok h"
  then show "harness_ok (fst (harness_respond event h))"
    using PublishCalled publisher_publish_ok harness_okD(2) [OF ok]
    by (auto simp: publish_called_def harness_ok_def split: sum.splits)
next
  case ObserveCalled
  assume ok: "harness_ok h"
  then show "harness_ok (fst (harness_respond event h))"
    using ObserveCalled harness_okD(4) [OF ok]
    by (auto simp: observe_called_def harness_ok_def split: option.splits) (metis option.inject)+
qed (auto simp: dispatch_called_def hook_settled_def signal_aborted_def observe_settled_def Let_def revoke_ok
    run_with_lease_ok split: option.splits)

interpretation migration: event_machine harness_step harness_ok "new_harness mode" for mode
  by unfold_locales (simp_all add: new_harness_ok harness_step_ok)

lemma harness_run_ok: "harness_ok (harness_run events (new_harness mode))"
  unfolding harness_run_def by (rule migration.run_ok)

text \<open>
  Whatever sequence of hooks, aborts and capability calls a harness sees, its recorder holds at most 64
  effects of at most 1 MiB, each of them a valid device command or notification intent, at most 256 states
  of at most 4 MiB were published, none in the observe mode, and at most one lease is active.
\<close>

theorem evidence_is_bounded:
  "let h = harness_run events (new_harness mode) in
     length (ek_commands (hn_sink h)) + length (ek_notifications (hn_sink h)) \<le> 64
     \<and> ek_bytes (hn_sink h) \<le> 1048576
     \<and> list_all (\<lambda>v. \<exists>c. validate_command v = Inr c) (ek_commands (hn_sink h))
     \<and> list_all (\<lambda>v. \<exists>n. validate_notification v = Inr n) (ek_notifications (hn_sink h))
     \<and> pb_count (hn_publisher h) \<le> (if hn_mode h = Observe then 0 else 256)
     \<and> pb_bytes (hn_publisher h) \<le> 4194304
     \<and> card {l. lease_active h l} \<le> 1"
proof -
  let ?h = "harness_run events (new_harness mode)"
  note ok = harness_run_ok [of events mode]
  have "{l. lease_active ?h l} \<subseteq> set_option (hn_active ?h)"
    using harness_okD(4) [OF ok] by auto
  then have "card {l. lease_active ?h l} \<le> card (set_option (hn_active ?h))"
    by (intro card_mono) auto
  also have "\<dots> \<le> 1" by (cases "hn_active ?h") auto
  finally have "card {l. lease_active ?h l} \<le> 1" .
  then show ?thesis
    using harness_okD(1-3) [OF ok] unfolding Let_def
    by (auto simp: sink_ok_def publisher_ok_def MAX_RECORDED_EFFECTS_def MAX_EFFECT_BYTES_def
        MAX_STATE_PUBLICATIONS_def MAX_STATE_PUBLICATION_BYTES_def)
qed

section \<open>Leases\<close>

text \<open>The events that end the lease \<open>l\<close> when it is active.\<close>

definition ends_lease :: "harness_event \<Rightarrow> nat \<Rightarrow> harness \<Rightarrow> bool" where
  "ends_lease event l h \<longleftrightarrow>
     (case event of
        ResetCalled _ \<Rightarrow> True
      | ObserveCalled \<Rightarrow> True
      | DispatchCalled aborted \<Rightarrow> aborted
      | HookSettled i returned \<Rightarrow> \<not> returned \<and> i < length (hn_runs h) \<and> hn_runs h ! i = (l, True)
      | HookAborted i \<Rightarrow> i < length (hn_runs h) \<and> hn_runs h ! i = (l, True)
      | _ \<Rightarrow> False)"

lemma fst_run_with_lease:
  "lease_active (fst (run_with_lease k aborted h)) l \<longleftrightarrow> lease_active h l \<and> (aborted \<longrightarrow> l \<noteq> k)"
  by (auto simp: run_with_lease_def)

lemma reset_lease:
  assumes "harness_ok h" and "lease_active (fst (reset_called aborted h)) l"
  shows "l = length (hn_leases h) \<and> \<not> aborted"
proof -
  let ?revoked = "case hn_active h of None \<Rightarrow> h | Some k \<Rightarrow> revoke k h"
  have none: "\<not> lease_active ?revoked k" for k
    using harness_okD(4) [OF assms(1)] by (auto split: option.splits)
  define reset where "reset = ?revoked\<lparr>hn_sink := empty_sink, hn_publisher := fresh_publisher (hn_mode h \<noteq> Observe),
    hn_leases := hn_leases ?revoked @ [True], hn_active := Some (length (hn_leases h))\<rparr>"
  have "length (hn_leases ?revoked) = length (hn_leases h)" by (simp split: option.splits)
  moreover have "lease_active reset l" and aborted: "aborted \<Longrightarrow> l \<noteq> length (hn_leases h)"
    using assms(2) unfolding reset_called_def Let_def fst_run_with_lease reset_def by auto
  ultimately have "l = length (hn_leases h)"
    using none [of l] by (auto simp: reset_def lease_active_def nth_append split: if_splits)
  then show ?thesis using aborted by auto
qed

lemma step_lease:
  assumes ok: "harness_ok h" and active: "lease_active (harness_step event h) l"
  shows "event = ResetCalled False \<and> l = length (hn_leases h) \<or> lease_active h l \<and> \<not> ends_lease event l h"
proof (cases event)
  case (ResetCalled aborted)
  then show ?thesis using reset_lease [OF ok] active by (auto simp: harness_step_def)
next
  case (DispatchCalled aborted)
  then show ?thesis using active harness_okD(4) [OF ok, of l]
    by (auto simp: harness_step_def dispatch_called_def fst_run_with_lease ends_lease_def split: option.splits)
next
  case ObserveCalled
  then show ?thesis using active harness_okD(4) [OF ok, of l]
    by (auto simp: harness_step_def observe_called_def split: option.splits if_splits)
next
  case (HookSettled i returned)
  then show ?thesis using active
    by (cases "hn_runs h ! i")
      (auto simp: harness_step_def hook_settled_def ends_lease_def Let_def split: if_splits)
next
  case (HookAborted i)
  then show ?thesis using active
    by (cases "hn_runs h ! i") (auto simp: harness_step_def signal_aborted_def ends_lease_def split: if_splits)
qed (use active in \<open>auto simp: harness_step_def record_called_def publish_called_def observe_settled_def
    ends_lease_def split: if_splits sum.splits\<close>)

lemma harness_run_snoc: "harness_run (events @ [e]) h = harness_step e (harness_run events h)"
  by (simp add: harness_run_def)

lemma fst_respond: "fst (harness_respond e h) = harness_step e h"
  by (simp add: harness_step_def)

definition is_reset :: "harness_event \<Rightarrow> bool" where
  "is_reset e \<longleftrightarrow> (case e of ResetCalled _ \<Rightarrow> True | _ \<Rightarrow> False)"

lemma length_leases:
  "length (hn_leases (harness_run events (new_harness mode))) = length (filter is_reset events)"
proof (induction events rule: rev_induct)
  case Nil
  then show ?case by (simp add: harness_run_def new_harness_def)
next
  case (snoc e events)
  have run: "length (hn_leases (fst (run_with_lease l aborted h))) = length (hn_leases h)" for l aborted h
    by (simp add: run_with_lease_def)
  have "length (hn_leases (harness_step e h)) = length (hn_leases h) + (if is_reset e then 1 else 0)" for h
    by (cases e) (auto simp: harness_step_def is_reset_def reset_called_def dispatch_called_def hook_settled_def
        signal_aborted_def record_called_def publish_called_def observe_called_def observe_settled_def Let_def run
        split: option.splits sum.splits)
  then show ?case using snoc by (simp add: harness_run_snoc)
qed

text \<open>An active lease is the one of the last reset, and nothing that ends it has happened since.\<close>

lemma active_lease_history:
  assumes "lease_active (harness_run events (new_harness mode)) l"
  shows "\<exists>before since. events = before @ ResetCalled False # since \<and> l = length (filter is_reset before)
    \<and> (\<forall>earlier e rest. since = earlier @ e # rest \<longrightarrow>
         \<not> ends_lease e l (harness_run (before @ ResetCalled False # earlier) (new_harness mode)))"
  using assms
proof (induction events rule: rev_induct)
  case Nil
  then show ?case by (simp add: harness_run_def new_harness_def lease_active_def)
next
  case (snoc e events)
  let ?h = "harness_run events (new_harness mode)"
  from step_lease [OF harness_run_ok] snoc.prems
  consider (reset) "e = ResetCalled False" "l = length (hn_leases ?h)" | (kept) "lease_active ?h l" "\<not> ends_lease e l ?h"
    by (auto simp: harness_run_snoc)
  then show ?case
  proof cases
    case reset
    then have "events @ [e] = events @ ResetCalled False # []" "l = length (filter is_reset events)"
      by (simp_all add: length_leases)
    then show ?thesis by blast
  next
    case kept
    from snoc.IH [OF kept(1)] obtain before since where split: "events = before @ ResetCalled False # since"
        "l = length (filter is_reset before)"
      and silent: "\<And>earlier e rest. since = earlier @ e # rest \<Longrightarrow>
        \<not> ends_lease e l (harness_run (before @ ResetCalled False # earlier) (new_harness mode))"
      by blast
    have "\<not> ends_lease e' l (harness_run (before @ ResetCalled False # earlier) (new_harness mode))"
      if "since @ [e] = earlier @ e' # rest" for earlier e' rest
      using that kept(2) silent split(1) by (cases rest rule: rev_cases) auto
    then show ?thesis using split by (intro exI [of _ before] exI [of _ "since @ [e]"]) auto
  qed
qed

text \<open>
Property C23: a write through a lease is accepted only when the lease is that of the last reset, counted
from 0, and no event that ends it has happened since that reset: no reset, no checkpoint, no failure and
no abort of one of its hooks.
\<close>

theorem accepted_writes_use_the_current_lease:
  assumes "snd (harness_respond write (harness_run events (new_harness mode))) = Settled"
    and "write = RecordCalled l v \<or> write = PublishCalled l v aborted"
  shows "\<exists>before since. events = before @ ResetCalled False # since \<and> l = length (filter is_reset before)
    \<and> (\<forall>earlier e rest. since = earlier @ e # rest \<longrightarrow>
         \<not> ends_lease e l (harness_run (before @ ResetCalled False # earlier) (new_harness mode)))"
proof (rule active_lease_history)
  show "lease_active (harness_run events (new_harness mode)) l"
    using assms by (auto simp: record_called_def publish_called_def split: if_splits)
qed

section \<open>The checkpoint\<close>

text \<open>Without an active lease nothing but a reset changes the evidence.\<close>

definition lease_quiet :: "harness \<Rightarrow> bool" where
  "lease_quiet h \<longleftrightarrow> hn_active h = None \<and> (\<forall>l. \<not> lease_active h l)"

definition same_evidence :: "harness \<Rightarrow> harness \<Rightarrow> bool" where
  "same_evidence h k \<longleftrightarrow> hn_sink k = hn_sink h \<and> hn_publisher k = hn_publisher h \<and> hn_mode k = hn_mode h"

lemma lease_quiet_step:
  assumes "lease_quiet h" and "\<not> is_reset e"
  shows "lease_quiet (harness_step e h) \<and> same_evidence h (harness_step e h)"
  using assms
  by (cases e) (auto simp: lease_quiet_def same_evidence_def is_reset_def harness_step_def dispatch_called_def
      hook_settled_def signal_aborted_def record_called_def publish_called_def observe_called_def
      observe_settled_def Let_def)

lemma lease_quiet_run:
  assumes "lease_quiet h" and "list_all (\<lambda>e. \<not> is_reset e) events"
  shows "same_evidence h (harness_run events h)"
proof -
  have "lease_quiet (harness_run events h) \<and> same_evidence h (harness_run events h)"
    using assms(2)
  proof (induction events rule: rev_induct)
    case Nil
    then show ?case using assms(1) by (simp add: harness_run_def same_evidence_def)
  next
    case (snoc e events)
    then have run: "lease_quiet (harness_run events h)" "same_evidence h (harness_run events h)" and "\<not> is_reset e" by auto
    from lease_quiet_step [OF run(1) this(3)] run(2) show ?case
      by (auto simp: harness_run_snoc same_evidence_def)
  qed
  then show ?thesis by blast
qed

lemma observe_is_quiet:
  assumes "harness_ok h" and "observe_called h = (h', Started)"
  shows "lease_quiet h' \<and> same_evidence h h'"
proof -
  obtain k where "hn_active h = Some k" "h' = (revoke k h)\<lparr>hn_active := None, hn_observing := hn_observing h + 1\<rparr>"
    using assms(2) by (auto simp: observe_called_def split: option.splits if_splits)
  then show ?thesis using harness_okD(4) [OF assms(1)] by (auto simp: lease_quiet_def same_evidence_def)
qed

lemma get_update: "get (AList.update (js a) v fs) k = (if a = k then v else get fs k)"
  by (auto simp: get_def map_of_update)

lemma evidence_fields:
  "get (fields_of (evidence_observation h claimed)) ''recorded_commands'' = JArr 0 (map Some (ek_commands (hn_sink h))) []"
  "get (fields_of (evidence_observation h claimed)) ''notification_intents''
     = JArr 0 (map Some (ek_notifications (hn_sink h))) []"
  "get (fields_of (evidence_observation h claimed)) ''state''
     = (case pb_latest (hn_publisher h) of None \<Rightarrow> get (fields_of claimed) ''state'' | Some latest \<Rightarrow> latest)"
  "key \<notin> {''recorded_commands'', ''notification_intents'', ''state''} \<Longrightarrow>
     get (fields_of (evidence_observation h claimed)) key = get (fields_of claimed) key"
  by (auto simp: evidence_observation_def get_update)

lemma observed_evidence:
  assumes "harness_respond (ObserveSettled (Some claimed)) h = (h', Observed ob)"
  shows "ob = evidence_observation h claimed" and "\<exists>view. validate_replay_observation claimed = Inr view"
    and "hn_mode h = Observe \<or> pb_latest (hn_publisher h) \<noteq> None" and "same_evidence h h'"
  using assms by (auto simp: observe_settled_def same_evidence_def split: if_splits sum.splits)

text \<open>
Property C24: the observation of a migration run carries the effects that were recorded, and in a
publishing mode the state that was last published, when the checkpoint was taken. Nothing the adapter
does between the checkpoint and its answer, and nothing it claims in it, changes them.
\<close>

theorem evidence_is_final_at_the_checkpoint:
  assumes checkpoint: "harness_respond ObserveCalled (harness_run events (new_harness mode)) = (h, Started)"
    and later: "list_all (\<lambda>e. \<not> is_reset e) events'"
    and answer: "harness_respond (ObserveSettled (Some claimed)) (harness_run events' h) = (h', Observed ob)"
  shows "let before = harness_run events (new_harness mode) in
    get (fields_of ob) ''recorded_commands'' = JArr 0 (map Some (ek_commands (hn_sink before))) []
    \<and> get (fields_of ob) ''notification_intents'' = JArr 0 (map Some (ek_notifications (hn_sink before))) []
    \<and> (case pb_latest (hn_publisher before) of
         None \<Rightarrow> hn_mode before = Observe \<and> get (fields_of ob) ''state'' = get (fields_of claimed) ''state''
       | Some latest \<Rightarrow> get (fields_of ob) ''state'' = latest)"
proof -
  let ?before = "harness_run events (new_harness mode)"
  have "lease_quiet h" and "same_evidence ?before h"
    using observe_is_quiet [OF harness_run_ok] checkpoint by auto
  with lease_quiet_run [OF _ later] have "same_evidence ?before (harness_run events' h)"
    by (auto simp: same_evidence_def)
  then show ?thesis
    using observed_evidence [OF answer] evidence_fields
    unfolding Let_def by (auto simp: same_evidence_def split: option.splits)
qed

section \<open>Replays of an adapter\<close>

text \<open>
  The harness as the subject of a replay. In each hook the adapter, on a state of its own, makes writes
  through any leases and then returns or throws; in \<open>observe\<close> it answers with a claim. What it writes may
  depend on the responses it gets, hence on the state of the harness.
\<close>

definition is_write :: "harness_event \<Rightarrow> bool" where
  "is_write e \<longleftrightarrow> (case e of RecordCalled _ _ \<Rightarrow> True | PublishCalled _ _ _ \<Rightarrow> True | _ \<Rightarrow> False)"

record 'a adapter =
  ad_reset :: "replay_setup \<Rightarrow> harness \<Rightarrow> 'a \<Rightarrow> 'a \<times> harness_event list \<times> bool"
  ad_dispatch :: "jsval \<Rightarrow> harness \<Rightarrow> 'a \<Rightarrow> 'a \<times> harness_event list \<times> bool"
  ad_observe :: "harness \<Rightarrow> 'a \<Rightarrow> 'a \<times> harness_event list \<times> jsval option"

definition adapter_hook ::
  "harness_event \<Rightarrow> (harness \<Rightarrow> 'a \<Rightarrow> 'a \<times> harness_event list \<times> bool) \<Rightarrow> (harness \<times> 'a, unit) hook" where
  "adapter_hook call act = (\<lambda>(h, a).
     (case harness_respond call h of
        (started, Started) \<Rightarrow>
          (let (a', writes, returned) = act started a;
               written = harness_run (filter is_write writes) started;
               settled = harness_step (HookSettled (length (hn_runs started) - 1) returned) written
           in ((settled, a'), if returned then Inr () else Inl SubjectThrew))
      | (h', _) \<Rightarrow> ((h', a), Inl SubjectThrew)))"

definition harness_subject :: "'a adapter \<Rightarrow> (harness \<times> 'a) replay_subject" where
  "harness_subject adapter =
     \<lparr>sj_reset = (\<lambda>prepared. adapter_hook (ResetCalled False) (ad_reset adapter prepared)),
      sj_dispatch = (\<lambda>stim. adapter_hook (DispatchCalled False) (ad_dispatch adapter stim)),
      sj_observe = (\<lambda>(h, a).
        (case harness_respond ObserveCalled h of
           (started, Started) \<Rightarrow>
             (let (a', writes, claim) = ad_observe adapter started a;
                  (h', result) = harness_respond (ObserveSettled claim) (harness_run (filter is_write writes) started)
              in ((h', a'), case result of Observed ob \<Rightarrow> Inr ob | _ \<Rightarrow> Inl SubjectThrew))
         | (h', _) \<Rightarrow> ((h', a), Inl SubjectThrew)))\<rparr>"

lemma adapter_observation:
  assumes "sj_observe (harness_subject adapter) (h, a) = ((h', a'), Inr ob)"
  shows "\<exists>claimed. ob = evidence_observation h' claimed"
    and "hn_mode h' = Observe \<or> pb_latest (hn_publisher h') \<noteq> None"
proof -
  obtain started writes claim where "harness_respond ObserveCalled h = (started, Started)"
    and act: "ad_observe adapter started a = (a', writes, claim)"
    and answer: "harness_respond (ObserveSettled claim) (harness_run (filter is_write writes) started) = (h', Observed ob)"
    using assms by (auto simp: harness_subject_def Let_def split: prod.splits harness_response.splits)
  obtain claimed where claimed: "claim = Some claimed"
    using answer by (cases claim) (auto simp: observe_settled_def split: if_splits)
  note seen = observed_evidence [OF answer [unfolded claimed]]
  have "evidence_observation (harness_run (filter is_write writes) started) claimed = evidence_observation h' claimed"
    using seen(4) by (simp add: same_evidence_def evidence_observation_def)
  then show "\<exists>claimed. ob = evidence_observation h' claimed" using seen(1) by blast
  show "hn_mode h' = Observe \<or> pb_latest (hn_publisher h') \<noteq> None"
    using seen(3,4) by (auto simp: same_evidence_def)
qed

lemma driven_observation:
  assumes "drive subject prepared stimuli s = (t, Inr ob)"
  obtains u where "sj_observe subject u = (t, Inr ob)"
  using assms by (auto simp: drive_def res_simps)

text \<open>
Property C25: when a replay of a scenario passes on the migration harness, the device commands and the
notification intents its recorder holds are exactly those the scenario expects, and in a publishing mode
the state published last is the expected state, whatever the adapter is.
\<close>

theorem passing_replay_shows_the_recorded_effects:
  assumes passes: "replay_scenario rp scenario_id (harness_subject adapter) timeout script (new_harness mode, a)
      = ((h, a'), Inr r)"
    and plain: "keyed_once (rr_observation r)"
      "\<And>scen raw. (scen, raw) \<in> set (rp_scenarios rp) \<Longrightarrow>
         plain_data (expected_observation (replay_setup_of rp scen) scen raw)"
  shows "\<exists>scen raw. (scen, raw) \<in> set (rp_scenarios rp) \<and> hs_id scen = scenario_id
    \<and> (let expected = fields_of (get (fields_of raw) ''expected'') in
        tree_of (JArr 0 (map Some (ek_commands (hn_sink h))) []) = tree_of (get expected ''recorded_commands'')
        \<and> tree_of (JArr 0 (map Some (ek_notifications (hn_sink h))) []) = tree_of (get expected ''notification_intents''))
    \<and> (case pb_latest (hn_publisher h) of
         None \<Rightarrow> hn_mode h = Observe
       | Some latest \<Rightarrow> tree_of latest = tree_of (JRec 0
           (spread_fields (st_state (replay_setup_of rp scen)) (so_state_patch (hs_expected scen)))))"
proof -
  obtain scen raw where found: "(scen, raw) \<in> set (rp_scenarios rp)" "hs_id scen = scenario_id"
    and driven: "drive (harness_subject adapter) (replay_setup_of rp scen) (items_of (get (fields_of raw) ''stimuli''))
      (new_harness mode, a) = ((h, a'), Inr (rr_observation r))"
    and judged: "judge_observation (expected_observation (replay_setup_of rp scen) scen raw) (rr_observation r)
      = Inr (rr_observation r)"
    and "\<forall>i\<le>Suc (length (items_of (get (fields_of raw) ''stimuli''))). script i = HookSettles"
    by (rule passing_replay [OF passes])
  let ?expected = "expected_observation (replay_setup_of rp scen) scen raw"
  obtain u where "sj_observe (harness_subject adapter) u = ((h, a'), Inr (rr_observation r))"
    by (rule driven_observation [OF driven])
  then obtain claimed where ob: "rr_observation r = evidence_observation h claimed"
    and mode: "hn_mode h = Observe \<or> pb_latest (hn_publisher h) \<noteq> None"
    using adapter_observation by (metis surj_pair)
  have trees: "tree_of ?expected = tree_of (rr_observation r)"
    using no_difference_is_equality [OF plain(2) [OF found(1)] plain(1)] judged_observation(2) [OF judged] by metis
  have same: "tree_of (get (fields_of ?expected) key) = tree_of (get (fields_of (evidence_observation h claimed)) key)" for key
    using trees tree_of_get_key [of 0 "fields_of ?expected" 0 "fields_of (evidence_observation h claimed)" "js key"]
    unfolding ob by (simp add: expected_observation_def evidence_observation_def Let_def get_def get_key_def)
  have "tree_of (get (fields_of ?expected) ''recorded_commands'')
      = tree_of (JArr 0 (map Some (ek_commands (hn_sink h))) [])"
    "tree_of (get (fields_of ?expected) ''notification_intents'')
      = tree_of (JArr 0 (map Some (ek_notifications (hn_sink h))) [])"
    "\<And>latest. pb_latest (hn_publisher h) = Some latest \<Longrightarrow> tree_of (get (fields_of ?expected) ''state'') = tree_of latest"
    unfolding same evidence_fields by simp_all
  then show ?thesis
    using found mode
    by (intro exI [of _ scen] exI [of _ raw])
      (auto simp: expected_observation_def Let_def split: option.splits)
qed

end
