(* ===== verification/Migration_Valid.thy ===== *)
theory Migration_Valid
  imports Migration_Properties
begin

text \<open>
  The observations of the migration harness satisfy the validator of the replay that receives them.
\<close>

section \<open>Parts of JSON values\<close>

text \<open>
  \<open>validateJsonValue\<close> accepts the parts of what it accepts: fewer values at smaller depths, with fewer
  objects met and fewer values counted.
\<close>

abbreviation shallower :: "(jsval \<times> nat) \<Rightarrow> (jsval \<times> nat) \<Rightarrow> bool" where
  "shallower x y \<equiv> fst x = fst y \<and> snd x \<le> snd y"

lemma pushed_fields_mono:
  assumes "map_r (\<lambda>(key, v). bind_r (fixture_string key 128) (\<lambda>_. Inr (v, d + 1))) fs = Inr ps" and "d2 \<le> d"
  shows "\<exists>ps2. map_r (\<lambda>(key, v). bind_r (fixture_string key 128) (\<lambda>_. Inr (v, d2 + 1))) fs = Inr ps2
    \<and> list_all2 shallower ps2 ps"
  using assms(1)
proof (induction fs arbitrary: ps)
  case (Cons f fs)
  then show ?case using assms(2) by (cases f) (fastforce simp: res_simps)
qed simp

lemma json_visit_mono:
  assumes visit: "json_visit item d seen = Inr (pushed, seen')" and "d2 \<le> d" and "seen2 \<subseteq> seen"
  shows "\<exists>pushed2 seen2'. json_visit item d2 seen2 = Inr (pushed2, seen2')
    \<and> list_all2 shallower pushed2 pushed \<and> seen2' \<subseteq> seen'"
proof (cases item)
  case (JArr oid items extra)
  with visit obtain entries where "oid \<notin> seen" "fixture_array item (array_items FIXTURE_LIMITS) = Inr entries"
    "pushed = map (\<lambda>entry. (entry, d + 1)) (rev entries)" "seen' = insert oid seen"
    by (auto simp: json_visit_def res_simps)
  with JArr assms(2,3) show ?thesis by (auto simp: json_visit_def list_all2_conv_all_nth)
next
  case (JRec oid fs)
  with visit obtain keys where parts: "oid \<notin> seen" "fixture_own_keys fs = Inr keys"
    "map_r (\<lambda>(key, v). bind_r (fixture_string key 128) (\<lambda>_. Inr (v, d + 1))) fs = Inr pushed" "seen' = insert oid seen"
    by (auto simp: json_visit_def res_simps)
  moreover have "oid \<notin> seen2" using parts(1) assms(3) by blast
  ultimately show ?thesis
    using pushed_fields_mono [OF parts(3) assms(2)] JRec assms(3) by (auto simp: json_visit_def)
qed (use assms in \<open>auto simp: json_visit_def split: if_splits\<close>)

lemma list_all2_emb: "list_all2 P xs ys \<Longrightarrow> list_emb P xs ys"
  by (induction rule: list_all2_induct) auto

lemma json_loop_mono:
  assumes "json_loop stack seen n = Inr ()" and "list_emb shallower stack2 stack" and "seen2 \<subseteq> seen" and "m \<le> n"
  shows "json_loop stack2 seen2 m = Inr ()"
  using assms
proof (induction stack seen n arbitrary: stack2 seen2 m rule: json_loop.induct)
  case (1 seen n)
  then have "stack2 = []" by (blast dest: list_emb_Nil2)
  then show ?case by simp
next
  case (2 item depth stack seen n)
  from "2.prems"(1) obtain pushed seen' where visit: "json_visit item depth seen = Inr (pushed, seen')"
    and rest: "json_loop (rev pushed @ stack) seen' (n + 1) = Inr ()"
    and bounds: "\<not> json_values FIXTURE_LIMITS < n + 1" "\<not> json_depth FIXTURE_LIMITS < depth"
    by (auto simp only: json_loop.simps bind_r_Inr_iff if_Inl_eq_Inr prod.case split: prod.splits)
  note IH = "2.IH" [OF bounds visit refl rest]
  from "2.prems"(2) consider (skip) "list_emb shallower stack2 stack"
    | (take) depth2 stack3 where "stack2 = (item, depth2) # stack3" "depth2 \<le> depth" "list_emb shallower stack3 stack"
    by (cases rule: list_emb.cases) auto
  then show ?case
  proof cases
    case skip
    have "seen \<subseteq> seen'" using visit by (cases item) (auto simp: json_visit_def bind_r_Inr_iff split: if_splits)
    then show ?thesis using skip "2.prems"(3,4) list_emb_append_mono [of shallower "[]" "rev pushed" stack2 stack]
      by (intro IH) auto
  next
    case take
    obtain pushed2 seen2' where again: "json_visit item depth2 seen2 = Inr (pushed2, seen2')"
      and "list_all2 shallower pushed2 pushed" and "seen2' \<subseteq> seen'"
      using json_visit_mono [OF visit take(2) "2.prems"(3)] by blast
    moreover from this(2) have "list_emb shallower (rev pushed2) (rev pushed)"
      by (intro list_all2_emb) simp
    ultimately have "json_loop (rev pushed2 @ stack3) seen2' (m + 1) = Inr ()"
      using list_emb_append_mono [OF _ take(3)] "2.prems"(4) by (intro IH) auto
    then show ?thesis using take again bounds "2.prems"(4) by auto
  qed
qed

lemma record_parts_valid:
  assumes "validate_json_value (JRec i fs) = Inr ()" and "(key, v) \<in> set fs"
  shows "validate_json_value v = Inr ()"
proof -
  obtain pushed where pushed: "map_r (\<lambda>(key, v). bind_r (fixture_string key 128) (\<lambda>_. Inr (v, 0 + 1))) fs = Inr pushed"
    and rest: "json_loop (rev pushed @ []) {i} (0 + 1) = Inr ()"
    using assms(1) unfolding validate_json_value_def by (auto simp: json_visit_def res_simps)
  have "(v, 1) \<in> set pushed"
    using pushed assms(2) by (induction fs arbitrary: pushed) (auto simp: res_simps)
  then obtain before after where "rev pushed = before @ (v, 1) # after" by (metis in_set_conv_decomp set_rev)
  moreover have "list_emb shallower [(v, 0)] ((v, 1) # after)" by (rule list_emb_Cons2) auto
  ultimately have "list_emb shallower [(v, 0)] (rev pushed @ [])"
    by (simp add: list_emb_append2)
  then show ?thesis
    unfolding validate_json_value_def by (intro json_loop_mono [OF rest]) auto
qed

lemma published_state_valid:
  assumes "publisher_ok publisher" and "pb_latest publisher = Some latest"
  shows "\<exists>fs. validate_state_record latest = Inr fs"
proof -
  obtain i fs where latest: "latest = JRec i fs"
    using assms by (cases latest) (auto simp: publisher_ok_def)
  have valid: "validate_json_value (JRec i fs) = Inr ()"
    and paths: "\<And>path v. (path, v) \<in> set fs \<Longrightarrow> \<exists>p. validate_state_path (JStr path) = Inr p"
    using assms latest by (auto simp: publisher_ok_def list_all_iff)
  moreover obtain keys where "fixture_own_keys fs = Inr keys"
    using valid unfolding validate_json_value_def by (auto simp: json_visit_def res_simps)
  moreover have "each_r (\<lambda>(key, v). bind_r (validate_state_path (JStr key)) (\<lambda>_. validate_json_value v)) fs = Inr ()"
    using paths record_parts_valid [OF valid] by (fastforce simp: res_simps)
  ultimately show ?thesis by (simp add: latest validate_state_record_def keyed_json_def)
qed

lemma fixture_list_valid:
  assumes "length vs \<le> m" and "list_all (\<lambda>v. \<exists>x. validate v = Inr x) vs"
  shows "\<exists>xs. fixture_list (JArr i (map Some vs) []) m validate = Inr xs"
proof -
  have "\<exists>xs. map_r validate vs = Inr xs" using assms(2) by (induction vs) (auto simp: res_simps)
  then show ?thesis using assms(1) by (simp add: fixture_list_def fixture_array_all [THEN iffD2])
qed

lemma fixture_own_keys_spread:
  assumes "fixture_own_keys fs = Inr keys" and "map fst gs = map fst fs"
  shows "fixture_own_keys gs = Inr keys"
proof -
  have "length gs = length fs" using arg_cong [OF assms(2), of length] by simp
  then show ?thesis using assms unfolding fixture_own_keys_def by (simp only: assms(2))
qed

lemma fixture_object_same_keys:
  assumes "fixture_object (JRec i fs) required optional = Inr fs" and "map fst gs = map fst fs"
  shows "fixture_object (JRec j gs) required optional = Inr gs"
proof -
  have "has_own gs key = has_own fs key" for key by (simp only: has_own_def assms(2))
  then show ?thesis
    using assms(1) fixture_own_keys_spread [OF _ assms(2)] by (auto simp: fixture_object_def res_simps)
qed

lemma keys_update_present: "key \<in> fst ` set fs \<Longrightarrow> map fst (AList.update key v fs) = map fst fs"
  by (induction fs) auto

text \<open>
Property C26: every observation a migration run returns is accepted by the validator of replays: the
limits of the recorder and of the publisher stay within those of an observation.
\<close>

theorem harness_observations_are_valid:
  assumes "harness_respond (ObserveSettled claim) (harness_run events (new_harness mode)) = (h', Observed ob)"
  shows "\<exists>view. validate_replay_observation ob = Inr view"
proof -
  let ?h = "harness_run events (new_harness mode)"
  obtain claimed where claim: "claim = Some claimed"
    using assms by (cases claim) (auto simp: observe_settled_def split: if_splits)
  note seen = observed_evidence [OF assms [unfolded claim]]
  note ok = harness_okD [OF harness_run_ok [of events mode]]
  obtain view i fs where valid: "validate_replay_observation claimed = Inr view" and claimed: "claimed = JRec i fs"
    using seen(2) by (auto simp: validate_replay_observation_def fixture_object_def res_simps)
  let ?required = "[''state'', ''context'', ''recorded_commands'', ''notification_intents'', ''lifecycle'', ''operations'']"
  have required: "fixture_object (JRec i fs) ?required [] = Inr fs"
    using valid unfolding claimed validate_replay_observation_def by (auto simp: res_simps fixture_object_def)
  then have present: "js key \<in> fst ` set fs" if "key \<in> set ?required" for key
    using that by (auto simp: fixture_object_def res_simps has_own_def)
  define gs where "gs = fields_of (evidence_observation ?h claimed)"
  have ob: "ob = JRec 0 gs" using seen(1) by (simp add: gs_def evidence_observation_def)
  have "map fst gs = map fst fs"
    using present by (simp add: gs_def evidence_observation_def claimed keys_update_present update_keys)
  from fixture_object_same_keys [OF required this]
  have object: "fixture_object (JRec 0 gs) ?required [] = Inr gs" .
  note field = evidence_fields(1-3) [of ?h claimed, folded gs_def]
    and kept = evidence_fields(4) [of _ ?h claimed, folded gs_def]
  have claims: "\<exists>st. validate_state_record (get fs ''state'') = Inr st" "\<exists>ctx. validate_context (get fs ''context'') = Inr ctx"
    "\<exists>l. fixture_list (get fs ''lifecycle'') (fx_effects FIXTURE_LIMITS) validate_lifecycle_observation = Inr l"
    "\<exists>l. fixture_list (get fs ''operations'') (fx_effects FIXTURE_LIMITS) validate_operation = Inr l"
    using valid required unfolding claimed validate_replay_observation_def by (auto simp: res_simps)
  have lengths: "length (ek_commands (hn_sink ?h)) \<le> fx_effects FIXTURE_LIMITS"
    "length (ek_notifications (hn_sink ?h)) \<le> fx_effects FIXTURE_LIMITS"
    using ok(1) by (auto simp: sink_ok_def MAX_RECORDED_EFFECTS_def)
  have "\<exists>cs. fixture_list (get gs ''recorded_commands'') (fx_effects FIXTURE_LIMITS) validate_command = Inr cs"
    "\<exists>ns. fixture_list (get gs ''notification_intents'') (fx_effects FIXTURE_LIMITS) validate_notification = Inr ns"
    unfolding field using ok(1) lengths by (auto simp only: sink_ok_def intro!: fixture_list_valid)
  moreover have "\<exists>st. validate_state_record (get gs ''state'') = Inr st"
    unfolding field using claims(1) published_state_valid [OF ok(2)]
    by (auto simp: claimed split: option.splits)
  moreover have "\<exists>ctx. validate_context (get gs ''context'') = Inr ctx"
    "\<exists>l. fixture_list (get gs ''lifecycle'') (fx_effects FIXTURE_LIMITS) validate_lifecycle_observation = Inr l"
    "\<exists>l. fixture_list (get gs ''operations'') (fx_effects FIXTURE_LIMITS) validate_operation = Inr l"
    using claims by (simp_all add: kept claimed)
  ultimately show ?thesis
    unfolding ob validate_replay_observation_def object by (auto simp: res_simps)
qed

end
