(* ===== verification/Migration_Witnesses.thy ===== *)
theory Migration_Witnesses
  imports Migration_Valid Home_Witnesses
begin

text \<open>
  A run of the migration harness on the synthetic home of \<open>Home_Witnesses\<close>: the adapter records the command
  and publishes the state of the second scenario, then claims an observation with neither.
\<close>

section \<open>A run\<close>

definition toggle_effect :: jsval where
  "toggle_effect = doc 200 [(''kind'', str ''device_command''), (''command'', toggle_command 201)]"

definition lit_state :: jsval where
  "lit_state = doc 203 [(''light.hall'', JBool True)]"

definition bare_claim :: jsval where
  "bare_claim = doc 210 [(''state'', doc 211 [(''light.hall'', JBool False)]), (''context'', no_context 212),
     (''recorded_commands'', seq 215 []), (''notification_intents'', seq 216 []), (''lifecycle'', seq 217 []),
     (''operations'', lost_operations 218)]"

definition lamp_adapter :: "unit adapter" where
  "lamp_adapter = \<lparr>ad_reset = (\<lambda>_ _ a. (a, [], True)),
     ad_dispatch = (\<lambda>_ _ a. (a, [RecordCalled 0 toggle_effect, PublishCalled 0 lit_state False], True)),
     ad_observe = (\<lambda>_ a. (a, [RecordCalled 0 toggle_effect], Some bare_claim))\<rparr>"

lemma toggle_effect_valid: "validate_recorded_effect toggle_effect = Inr (CommandEffect (toggle_command 201))"
proof -
  have "fixture_object (effect_observation [toggle_command 201] [])
      [''state'', ''context'', ''recorded_commands'', ''notification_intents'', ''lifecycle'', ''operations''] []
    = Inr (fields_of (effect_observation [toggle_command 201] []))"
    by (simp add: effect_observation_def fixture_object_def fixture_own_keys_def trace_forbidden_keys_def)
  then have "\<exists>view. validate_replay_observation (effect_observation [toggle_command 201] []) = Inr view"
    unfolding validate_replay_observation_def
    by (simp add: effect_observation_def fixture_list_def fixture_array_all [of _ "[]", simplified, THEN iffD2]
        fixture_array_all [of _ "[toggle_command 201]", simplified, THEN iffD2] toggle_command_valid
        lamp_state(1) [unfolded doc_def, simplified] validate_context_def validate_context_record_def keyed_json_def
        fixture_object_def fixture_own_keys_def trace_forbidden_keys_def)
  then show ?thesis
    by (auto simp: validate_recorded_effect_def toggle_effect_def doc_def strict_eq_str_def str_def rethrow_def)
qed

lemma toggle_effect_bytes: "effect_bytes (CommandEffect (toggle_command 201)) = Inr 101"
  by code_simp

lemma toggle_recorded:
  "record_effect toggle_effect empty_sink =
     Inr \<lparr>ek_commands = [toggle_command 201], ek_notifications = [], ek_bytes = 101\<rparr>"
  by (simp add: record_effect_def toggle_effect_valid toggle_effect_bytes empty_sink_def MAX_RECORDED_EFFECTS_def
      MAX_EFFECT_BYTES_def)

lemma lit_bytes: "estimated_value_bytes lit_state = Inr 11"
  by code_simp

lemma lit_json: "validate_json_value lit_state = Inr ()"
  by code_simp

lemma lit_published:
  "publisher_publish lit_state False (fresh_publisher True) =
     Inr \<lparr>pb_enabled = True, pb_latest = Some lit_state, pb_count = 1, pb_bytes = 11\<rparr>"
proof -
  have "is_plain_record lit_state" "map fst (fields_of lit_state) = [js ''light.hall'']"
    by (simp_all add: lit_state_def doc_def)
  then show ?thesis
    by (simp add: publisher_publish_def fresh_publisher_def lit_json lit_bytes lamp_names rethrow_def
        MAX_STATE_PUBLICATIONS_def MAX_STATE_PUBLICATION_BYTES_def)
qed

lemma bare_claim_valid: "\<exists>view. validate_replay_observation bare_claim = Inr view"
  by (simp add: validate_replay_observation_def bare_claim_def lamp_eval lost_operations_valid [unfolded fixture_list_def])

text \<open>The evidence after the dispatch, before and after the checkpoint.\<close>

definition lit_run :: "harness_event list" where
  "lit_run = [ResetCalled False, HookSettled 0 True, DispatchCalled False, RecordCalled 0 toggle_effect,
     PublishCalled 0 lit_state False, HookSettled 1 True]"

lemma lit_harness:
  "harness_run lit_run (new_harness ShadowState) =
     \<lparr>hn_mode = ShadowState, hn_sink = \<lparr>ek_commands = [toggle_command 201], ek_notifications = [], ek_bytes = 101\<rparr>,
      hn_publisher = \<lparr>pb_enabled = True, pb_latest = Some lit_state, pb_count = 1, pb_bytes = 11\<rparr>,
      hn_leases = [True], hn_active = Some 0, hn_runs = [(0, False), (0, False)], hn_observing = 0\<rparr>"
  by (simp add: lit_run_def harness_run_def harness_step_def new_harness_def reset_called_def run_with_lease_def
      lease_active_def hook_settled_def dispatch_called_def record_called_def publish_called_def Let_def
      toggle_recorded lit_published)

lemma lit_checkpoint:
  "harness_respond ObserveCalled (harness_run lit_run (new_harness ShadowState)) =
     (\<lparr>hn_mode = ShadowState, hn_sink = \<lparr>ek_commands = [toggle_command 201], ek_notifications = [], ek_bytes = 101\<rparr>,
      hn_publisher = \<lparr>pb_enabled = True, pb_latest = Some lit_state, pb_count = 1, pb_bytes = 11\<rparr>,
      hn_leases = [False], hn_active = None, hn_runs = [(0, False), (0, False)], hn_observing = 1\<rparr>, Started)"
  by (simp add: lit_harness observe_called_def lease_active_def revoke_def)

definition lit_end :: harness where
  "lit_end = \<lparr>hn_mode = ShadowState,
      hn_sink = \<lparr>ek_commands = [toggle_command 201], ek_notifications = [], ek_bytes = 101\<rparr>,
      hn_publisher = \<lparr>pb_enabled = True, pb_latest = Some lit_state, pb_count = 1, pb_bytes = 11\<rparr>,
      hn_leases = [False], hn_active = None, hn_runs = [(0, False), (0, False)], hn_observing = 0\<rparr>"

lemma lit_answer:
  "harness_respond (ObserveSettled (Some bare_claim)) (harness_run [RecordCalled 0 toggle_effect]
     (fst (harness_respond ObserveCalled (harness_run lit_run (new_harness ShadowState))))) =
     (lit_end, Observed (evidence_observation lit_end bare_claim))"
proof -
  obtain view where "validate_replay_observation bare_claim = Inr view" using bare_claim_valid by blast
  then show ?thesis
    unfolding lit_checkpoint
    by (simp add: harness_run_def harness_step_def record_called_def lease_active_def observe_settled_def lit_end_def
        evidence_observation_def)
qed

section \<open>Applications\<close>

theorem accepted_writes_use_the_current_lease_witness:
  "\<exists>before since. [ResetCalled False, HookSettled 0 True, DispatchCalled False] = before @ ResetCalled False # since
    \<and> 0 = length (filter is_reset before)"
proof -
  have "snd (harness_respond (RecordCalled 0 toggle_effect)
      (harness_run [ResetCalled False, HookSettled 0 True, DispatchCalled False] (new_harness ShadowState))) = Settled"
    by (simp add: harness_run_def harness_step_def new_harness_def reset_called_def run_with_lease_def lease_active_def
        hook_settled_def dispatch_called_def record_called_def Let_def toggle_recorded)
  from accepted_writes_use_the_current_lease [OF this disjI1 [OF refl]] show ?thesis by fast
qed

theorem evidence_is_final_at_the_checkpoint_witness:
  "get (fields_of (evidence_observation lit_end bare_claim)) ''recorded_commands'' = JArr 0 [Some (toggle_command 201)] []
    \<and> get (fields_of (evidence_observation lit_end bare_claim)) ''state'' = lit_state"
proof -
  have "harness_respond ObserveCalled (harness_run lit_run (new_harness ShadowState))
      = (fst (harness_respond ObserveCalled (harness_run lit_run (new_harness ShadowState))), Started)"
    using lit_checkpoint by simp
  from evidence_is_final_at_the_checkpoint [OF this _ lit_answer] show ?thesis
    by (simp add: lit_harness is_reset_def Let_def)
qed

theorem harness_observations_are_valid_witness:
  "\<exists>view. validate_replay_observation (evidence_observation lit_end bare_claim) = Inr view"
proof -
  have "harness_run (lit_run @ [ObserveCalled, RecordCalled 0 toggle_effect]) (new_harness ShadowState) =
      harness_run [RecordCalled 0 toggle_effect]
        (fst (harness_respond ObserveCalled (harness_run lit_run (new_harness ShadowState))))"
    by (simp add: harness_run_def harness_step_def)
  then have "harness_respond (ObserveSettled (Some bare_claim))
      (harness_run (lit_run @ [ObserveCalled, RecordCalled 0 toggle_effect]) (new_harness ShadowState))
    = (lit_end, Observed (evidence_observation lit_end bare_claim))"
    using lit_answer by simp
  then show ?thesis by (rule harness_observations_are_valid)
qed

lemma lit_observation: "evidence_observation lit_end bare_claim =
    doc 0 [(''state'', lit_state), (''context'', no_context 212), (''recorded_commands'', seq 0 [toggle_command 201]),
      (''notification_intents'', seq 0 []), (''lifecycle'', seq 217 []), (''operations'', lost_operations 218)]"
  by (simp add: evidence_observation_def lit_end_def bare_claim_def doc_def seq_def)

lemma lit_observation_keyed: "keyed_once (evidence_observation lit_end bare_claim)"
  unfolding lit_observation
  by (simp add: doc_def seq_def lit_state_def no_context_def toggle_command_def lost_operations_def str_def)

lemma lit_observation_judged:
  "judge_observation (expected_observation (replay_setup_of lamp_replay lost_view) lost_view lost_scenario)
     (evidence_observation lit_end bare_claim) = Inr (evidence_observation lit_end bare_claim)"
proof -
  have "tree_of (expected_observation (replay_setup_of lamp_replay lost_view) lost_view lost_scenario)
      = tree_of (evidence_observation lit_end bare_claim)"
    unfolding lost_expected lit_observation
    by (simp add: seq_def toggle_command_def lost_operations_def no_context_def lit_state_def doc_def str_def)
  then have "find_difference (expected_observation (replay_setup_of lamp_replay lost_view) lost_view lost_scenario)
      (evidence_observation lit_end bare_claim) [] = None"
    using no_difference_is_equality [OF lost_plain lit_observation_keyed] by blast
  moreover have "\<exists>view. validate_replay_observation (evidence_observation lit_end bare_claim) = Inr view"
    unfolding lit_observation
    by (simp add: validate_replay_observation_def lit_state_def lamp_eval toggle_command_valid
        lost_operations_valid [unfolded fixture_list_def])
  ultimately show ?thesis by (auto simp: judge_observation_def)
qed

lemma lamp_hooks:
  "sj_reset (harness_subject lamp_adapter) prepared (new_harness ShadowState, ()) =
     ((harness_run [ResetCalled False, HookSettled 0 True] (new_harness ShadowState), ()), Inr ())"
  "sj_dispatch (harness_subject lamp_adapter) stim
     (harness_run [ResetCalled False, HookSettled 0 True] (new_harness ShadowState), ()) =
     ((harness_run lit_run (new_harness ShadowState), ()), Inr ())"
  "sj_observe (harness_subject lamp_adapter) (harness_run lit_run (new_harness ShadowState), ()) =
     ((lit_end, ()), Inr (evidence_observation lit_end bare_claim))"
proof -
  show "sj_reset (harness_subject lamp_adapter) prepared (new_harness ShadowState, ()) =
     ((harness_run [ResetCalled False, HookSettled 0 True] (new_harness ShadowState), ()), Inr ())"
    by (simp add: harness_subject_def adapter_hook_def lamp_adapter_def harness_run_def harness_step_def Let_def
        new_harness_def reset_called_def run_with_lease_def lease_active_def)
  have started: "harness_run [ResetCalled False, HookSettled 0 True] (new_harness ShadowState) =
      \<lparr>hn_mode = ShadowState, hn_sink = empty_sink, hn_publisher = fresh_publisher True, hn_leases = [True],
       hn_active = Some 0, hn_runs = [(0, False)], hn_observing = 0\<rparr>"
    by (simp add: harness_run_def harness_step_def new_harness_def reset_called_def run_with_lease_def lease_active_def
        hook_settled_def Let_def)
  show "sj_dispatch (harness_subject lamp_adapter) stim
     (harness_run [ResetCalled False, HookSettled 0 True] (new_harness ShadowState), ()) =
     ((harness_run lit_run (new_harness ShadowState), ()), Inr ())"
    unfolding started lit_harness
    by (simp add: harness_subject_def adapter_hook_def lamp_adapter_def harness_run_def harness_step_def Let_def
        dispatch_called_def run_with_lease_def lease_active_def is_write_def record_called_def publish_called_def
        toggle_recorded lit_published hook_settled_def)
  show "sj_observe (harness_subject lamp_adapter) (harness_run lit_run (new_harness ShadowState), ()) =
     ((lit_end, ()), Inr (evidence_observation lit_end bare_claim))"
    using lit_answer unfolding lit_checkpoint
    by (simp add: harness_subject_def lit_checkpoint [simplified] lamp_adapter_def is_write_def)
qed

lemma lamp_replayed:
  "replay_scenario lamp_replay (js ''syn_lost'') (harness_subject lamp_adapter) None (\<lambda>_. HookSettles)
     (new_harness ShadowState, ()) =
   ((lit_end, ()), Inr \<lparr>rr_scenario = js ''syn_lost'', rr_dispatched = 1,
      rr_observation = evidence_observation lit_end bare_claim\<rparr>)"
  by (simp add: replay_scenario_def lost_found then_hook_def run_hook_def replay_timeout_def max_safe_integer_def
      lamp_hooks lit_observation_judged)
    (simp add: lost_view_def)

theorem passing_replay_shows_the_recorded_effects_witness:
  "tree_of (JArr 0 (map Some (ek_commands (hn_sink lit_end))) []) = tree_of (seq 74 [toggle_command 75])"
proof -
  have plain: "plain_data (expected_observation (replay_setup_of lamp_replay scen) scen raw)"
    if "(scen, raw) \<in> set (rp_scenarios lamp_replay)" for scen raw
    using that lost_plain denied_plain by (auto simp: lamp_replay_def)
  from passing_replay_shows_the_recorded_effects [OF lamp_replayed _ plain] lit_observation_keyed
  have "\<exists>scen raw. (scen, raw) \<in> set (rp_scenarios lamp_replay) \<and> hs_id scen = js ''syn_lost''
    \<and> tree_of (JArr 0 (map Some (ek_commands (hn_sink lit_end))) [])
      = tree_of (get (fields_of (get (fields_of raw) ''expected'')) ''recorded_commands'')"
    by (fastforce simp: Let_def)
  then show ?thesis
    by (auto simp: lamp_replay_def denied_view_def lost_view_def lost_scenario_def doc_def)
qed

section \<open>A shared array\<close>

text \<open>
  An intent whose audience uses one empty array for its groups and its actors is valid, but the recorder
  takes the second occurrence of the array for a cycle and refuses it.
\<close>

definition shared_audience :: jsval where
  "shared_audience = doc 230 [(''title'', str ''Lamp''), (''body'', str ''On''),
     (''audience'', doc 231 [(''groups'', seq 232 []), (''actors'', seq 232 [])])]"

lemma shared_audience_is_called_a_cycle:
  "(case validate_notification shared_audience of Inr n \<Rightarrow> ni_groups n = [] | Inl _ \<Rightarrow> False)
    \<and> effect_bytes (NotificationEffect shared_audience) = Inl EvidenceCycle"
  by code_simp

end
