(* ===== verification/Spec2Isabelle.thy ===== *)
theory Spec2Isabelle
  imports Prelude Js_Value Contract Capability Pointer Release_State Release_Ledger Structured Ui_Tree Utf8 Artifact Artifact_Safety Program Witnesses Contract_Properties Broker Broker_Invariant Broker_Steps Broker_Properties Codec_Properties Codec_Hidden_Keys Codec_Errors Codec_Witnesses Trace_Contract Trace_Properties Trace_Scenarios Runtime_Host Host_Properties Host_Witnesses Home_Properties Home_Witnesses Migration_Valid Migration_Witnesses
begin

text \<open>
  Miakapp runs the components of a home in a sandbox. A release pointer, signed elsewhere, names an
  artifact; the release ledger of a home decides which pointer may run; the artifact is downloaded,
  verified and cached; the guest program in it is checked and started in a Worker behind a broker,
  which passes on only the messages the release was granted. Homes and services talk over a wire
  protocol, and a corpus of scenarios fixes what a coordinator of that protocol must do.

  \<^bold>\<open>Parts, theories and files.\<close>

  \<^item> \<open>Prelude\<close>, \<open>Js_Value\<close>, \<open>Utf8\<close>: results of throwing code (\<open>'e + 'a\<close>), loops over them (\<open>map_r\<close>,
    \<open>fold_r\<close>, \<open>each_r\<close>), JavaScript strings as UTF-16 code units, JavaScript values with the identities
    of their objects, \<open>TextEncoder\<close> and \<open>TextDecoder\<close>.
  \<^item> \<open>Contract\<close>, \<open>Capability\<close>, \<open>Pointer\<close>, \<open>Structured\<close>, \<open>Ui_Tree\<close>, \<open>Contract_Properties\<close>:
    \<open>component-runtime/src/contract.ts\<close>, one definition per validator, and \<open>src/app/grant-ceiling.ts\<close>.
    \<open>measure_structured_value\<close> and \<open>validate_ui_tree\<close> keep the explicit stacks and the mutable sets of
    the source; they are shown equal to recursive specifications.
  \<^item> \<open>Release_State\<close>, \<open>Release_Ledger\<close>: \<open>component-runtime/src/release-state.ts\<close>. The transitions are
    functions on the state of one home, the ledger operations are functions on any store of homes that
    meets the locale of the store interface.
  \<^item> \<open>Artifact\<close>, \<open>Artifact_Safety\<close>: \<open>artifact.ts\<close> and \<open>artifact-cache.ts\<close>, over any cache (its operations
    may fail or lie), and the IndexedDB cache as an instance: its database may not open and each of its
    transactions completes or aborts, as a sequence of outcomes in its state says. What is promised about
    a later load supposes that the first one reported no cache error.
  \<^item> \<open>Program\<close>: \<open>program.ts\<close>, the check of a guest program over the result of a parser. That the walk
    over the syntax tree misses nothing is stated with \<open>ast_value\<close>, the values of a tree by its own
    constructors, and supposes a tree as parsers make it (\<open>parser_tree\<close>).
  \<^item> \<open>Broker_Messages\<close>, \<open>Broker\<close>: \<open>runtime-broker.ts\<close>. The closure variables of \<open>startRuntimeBroker\<close> are
    the record \<open>broker\<close>, with a log of the messages to the host and one of those to the guest; each
    message handler, timer and lifecycle callback is a definition, and \<open>broker_step\<close> is one event.
    \<open>Broker_Invariant\<close> states what every reachable state satisfies, \<open>Broker_Steps\<close> shows that every
    handler keeps it and interprets the locale \<open>event_machine\<close> on the broker, \<open>Broker_Properties\<close> states
    the results over arbitrary sequences of events.
  \<^item> \<open>Codec_Values\<close>, \<open>Codec_Scan\<close>, \<open>Codec_Encode\<close>, \<open>Codec_Frames\<close>: \<open>protocol/typescript/src/codec.ts\<close>, the
    preflight scanner, the encoder and the validators of every frame. \<open>Codec_Round_Trip\<close> shows that
    encodings are scanned, \<open>Codec_Canonical\<close> that whatever is scanned is an encoding, and
    \<open>Codec_Hidden_Keys\<close> that the scan fails on the one key it takes for the reserved one;
    \<open>Codec_Properties\<close>, \<open>Codec_Errors\<close>, \<open>Codec_Witnesses\<close> draw the conclusions. Nothing is claimed about
    what the MessagePack decoder returns.
  \<^item> \<open>Trace_Values\<close>, \<open>Trace_Fields\<close>, \<open>Trace_Validators\<close>: the data of \<open>coordinator-contract/src/contract.ts\<close>
    and its validators, with the JSON validator of \<open>synthetic-home/src/contract.ts\<close> they call.
    \<open>Trace_Lifecycle\<close>, \<open>Trace_Operations\<close>, \<open>Trace_Declarations\<close>, \<open>Trace_Contract\<close>: the causality checks, each
    a fold of a step function over the stimuli whose state is the mutable variables of the loop in the
    source, and their composition up to the validation of a corpus.
    \<open>Trace_Session\<close> shows that the three loops, each of which follows the declaration transactions
    with variables of its own, agree after every prefix of the stimuli (\<open>agree\<close>); \<open>Trace_Properties\<close> states
    what an accepted scenario guarantees (for the settlement of declaration promises, a scenario whose
    welcomes find no declaration transaction open), and \<open>Trace_Scenarios\<close> holds concrete scenarios.
  \<^item> \<open>Home_Contract\<close>, \<open>Home_Validators\<close>: the documents of \<open>synthetic-home/src/contract.ts\<close> and their
    validators, each of which returns the typed view of the object it checks; \<open>Home_Corpus\<close>: the references
    between the documents (\<open>corpus.ts\<close>); \<open>Home_Properties\<close>: what an accepted corpus guarantees about
    authorization, causes of commands and retries. \<open>Json_Difference\<close>: the comparison \<open>findDifference\<close>, shown
    to decide equality of JSON values; \<open>Home_Replay\<close>: \<open>replay.ts\<close> over any subject, what a passing replay
    means and how a hook that times out or is cancelled ends a replay. \<open>Home_Witnesses\<close> holds a small home.
  \<^item> \<open>Migration\<close>: \<open>coordinator-contract/src/migration.ts\<close>, the recorder, the publisher and the leases of the
    migration harness as a state machine over the calls of the replay and of an arbitrary adapter.
    \<open>Migration_Properties\<close> interprets \<open>event_machine\<close> on it and states what holds after any calls, and what a
    replay that passes on the harness shows; \<open>Migration_Valid\<close> shows that its observations satisfy the
    validator of \<open>Home_Validators\<close>; \<open>Migration_Witnesses\<close> holds a run.
  \<^item> \<open>Runtime_Host\<close>: \<open>src/app/component-runtime-host.ts\<close> and the options \<open>app.tsx\<close> starts it with, the host
    that loads a release through the ledger and the artifact cache and answers the requests of its
    broker. \<open>Host_Properties\<close> interprets \<open>event_machine\<close> on the composition of host and broker and shows
    that only the release the ledger loaded is mounted, that only granted state leaves the host, and
    that a session ends once; \<open>Host_Witnesses\<close> holds concrete runs.

  \<^bold>\<open>Conventions.\<close> A thrown \<open>ContractViolation\<close> or \<open>ProtocolError\<close> is \<open>Inl\<close> of its code; an exception of
  another class is a code of its own (\<open>ThrownTypeError\<close>, \<open>WireTypeError\<close>, \<open>Trace_TypeError\<close>), so that an
  unintended exception shows. Bytes and code units are words; JavaScript numbers that the code checks
  to be safe integers are \<open>int\<close>. Sequences of asynchronous operations are sequences of atomic steps,
  cut where the source awaits.

  \<^bold>\<open>Recursion and bounds.\<close> The recursive scanner and encoder of the codec are built level by level up to
  the nesting limit of the source (16), below which the source rejects: no input needs more levels.
  The traversals of values recurse on the value, whose cycles are cut at the second occurrence of an
  identity, where every traversal of the source stops. All other loops are structural.

  \<^bold>\<open>Parameters.\<close> The URL parser, SHA-256, \<open>fetch\<close>, the JavaScript parser and the MessagePack decoder are
  arguments of the definitions that use them; the hypotheses a theorem makes about them are in its
  statement.

  \<^bold>\<open>Not modelled.\<close> The text of messages and labels. The host harness and the authoring helpers of the
  component runtime (test drivers and DOM glue), the control plane (SQL statements over an external
  database) and its scenario tables, the replay of the coordinator contract (its hooks and comparison are
  those of the synthetic home) and its process runner, the privacy scan of fixtures (regular expressions
  with look-ahead), the web application (rendering)
  apart from the grant ceiling and the runtime host, and the infrastructure scripts, which drive processes, browsers and
  remote services. In the broker, the prelude text of the Worker and the posting of the ready message.
\<close>

end
